(* ===== verification/Capture_Prelude.thy ===== *)
theory Capture_Prelude
  imports Complex_Main "HOL-Library.Sublist"
begin

text \<open>
  Shared vocabulary of the development: the JavaScript values the TypeScript sources
  compute with, the exceptions they throw, and the generic lemmas the component theories
  lean on.

  \<^item> \<open>jnum\<close> is a JavaScript number. Every finite double is a rational, so the finite
    numbers are \<open>Fin q\<close>; the two infinities and NaN are constructors of their own. The two
    zeros are one value, as they are for \<open>===\<close> and \<open><\<close>.
  \<^item> \<open>json\<close> is a JavaScript value as far as the sources inspect it (the result of
    \<open>JSON.parse\<close>, or a value a host passes in). An object is the list of its own
    enumerable entries in the order \<open>Object.keys\<close> lists them.
  \<^item> A string is a list of code units; the model's code units are the 256 of \<open>char\<close>.
  \<^item> A call that may throw returns \<open>'e + 'a\<close>, \<open>Inl\<close> for the exception.
\<close>

named_theorems res_simps \<open>inversion of computations that may throw\<close>
named_theorems js_defs \<open>definitions of the JavaScript primitives\<close>

section \<open>Computations that may throw\<close>

definition bind_res :: "'e + 'a \<Rightarrow> ('a \<Rightarrow> 'e + 'b) \<Rightarrow> 'e + 'b" where
  "bind_res m f = (case m of Inl e \<Rightarrow> Inl e | Inr x \<Rightarrow> f x)"

definition then_res :: "'e + unit \<Rightarrow> 'e + 'a \<Rightarrow> 'e + 'a" where
  "then_res m k = (case m of Inl e \<Rightarrow> Inl e | Inr _ \<Rightarrow> k)"

text \<open>A \<open>for ... of\<close> loop whose body only checks and may throw.\<close>

fun for_each :: "('a \<Rightarrow> 'e + unit) \<Rightarrow> 'a list \<Rightarrow> 'e + unit" where
  "for_each f [] = Inr ()"
| "for_each f (x # xs) = then_res (f x) (for_each f xs)"

text \<open>\<open>if (c) throw e;\<close>\<close>

definition throw_if :: "bool \<Rightarrow> 'e \<Rightarrow> 'e + unit" where
  "throw_if c e = (if c then Inl e else Inr ())"

lemma bind_res_simps [simp]:
  "bind_res (Inl e) f = Inl e" "bind_res (Inr x) f = f x"
  by (simp_all add: bind_res_def)

lemma then_res_simps [simp]:
  "then_res (Inl e) k = Inl e" "then_res (Inr u) k = k"
  by (simp_all add: then_res_def)

lemma throw_if_simps [simp]:
  "throw_if True e = Inl e" "throw_if False e = Inr ()"
  by (simp_all add: throw_if_def)

lemma bind_res_Inr_iff [res_simps]:
  "bind_res m f = Inr y \<longleftrightarrow> (\<exists>x. m = Inr x \<and> f x = Inr y)"
  by (cases m) auto

lemma bind_res_Inl_iff [res_simps]:
  "bind_res m f = Inl e \<longleftrightarrow> m = Inl e \<or> (\<exists>x. m = Inr x \<and> f x = Inl e)"
  by (cases m) auto

lemma then_res_Inr_iff [res_simps]:
  "then_res m k = Inr y \<longleftrightarrow> m = Inr () \<and> k = Inr y"
  by (cases m) auto

lemma then_res_Inl_iff [res_simps]:
  "then_res m k = Inl e \<longleftrightarrow> m = Inl e \<or> m = Inr () \<and> k = Inl e"
  by (cases m) auto

lemma throw_if_Inr_iff [res_simps]: "throw_if c e = Inr u \<longleftrightarrow> \<not> c"
  by (cases c) auto

lemma throw_if_Inl_iff [res_simps]: "throw_if c e = Inl e' \<longleftrightarrow> c \<and> e' = e"
  by (cases c) auto

lemma for_each_Inr_iff [res_simps]:
  "for_each f xs = Inr u \<longleftrightarrow> (\<forall>x \<in> set xs. f x = Inr ())"
  by (induction xs) (auto simp: res_simps)

lemma for_each_append:
  "for_each f (xs @ ys) = then_res (for_each f xs) (for_each f ys)"
proof (induction xs)
  case (Cons x xs)
  then show ?case by (cases "f x") auto
qed simp

lemma for_each_Inl_first:
  assumes "for_each f xs = Inl e"
  obtains ys x zs where "xs = ys @ x # zs" "\<forall>y \<in> set ys. f y = Inr ()" "f x = Inl e"
  using assms
proof (induction xs arbitrary: thesis)
  case (Cons a xs)
  show ?case
  proof (cases "f a")
    case (Inl e')
    with Cons.prems show ?thesis by (auto intro: Cons.prems(1)[of "[]"])
  next
    case (Inr u)
    with Cons.prems(2) have "for_each f xs = Inl e" by simp
    then obtain ys x zs where "xs = ys @ x # zs" "\<forall>y \<in> set ys. f y = Inr ()" "f x = Inl e"
      using Cons.IH by blast
    with Inr show ?thesis by (intro Cons.prems(1)[of "a # ys"]) auto
  qed
qed simp

section \<open>Asynchronous calls\<close>

text \<open>A call that runs against the outside world \<open>'w\<close> and may throw; \<open>await\<close> is \<open>bind_io\<close>.\<close>

type_synonym ('w, 'e, 'a) io = "'w \<Rightarrow> ('e + 'a) \<times> 'w"

definition bind_io :: "('w, 'e, 'a) io \<Rightarrow> ('a \<Rightarrow> ('w, 'e, 'b) io) \<Rightarrow> ('w, 'e, 'b) io" where
  "bind_io m f w = (case m w of (Inl e, w') \<Rightarrow> (Inl e, w') | (Inr x, w') \<Rightarrow> f x w')"

definition lift_io :: "'e + 'a \<Rightarrow> ('w, 'e, 'a) io" where
  "lift_io r w = (r, w)"

lemma bind_io_Inr_iff [res_simps]:
  "bind_io m f w = (Inr y, w') \<longleftrightarrow> (\<exists>x w1. m w = (Inr x, w1) \<and> f x w1 = (Inr y, w'))"
  by (cases "m w") (auto simp: bind_io_def split: sum.splits)

lemma bind_io_Inl_iff [res_simps]:
  "bind_io m f w = (Inl e, w') \<longleftrightarrow>
     m w = (Inl e, w') \<or> (\<exists>x w1. m w = (Inr x, w1) \<and> f x w1 = (Inl e, w'))"
  by (cases "m w") (auto simp: bind_io_def split: sum.splits)

lemma lift_io_iff [res_simps]: "lift_io r w = (x, w') \<longleftrightarrow> r = x \<and> w' = w"
  by (auto simp: lift_io_def)

section \<open>Numbers\<close>

datatype jnum = Fin rat | PosInf | NegInf | NaN

definition num :: "int \<Rightarrow> jnum" where
  "num n = Fin (of_int n)"

lemma num_eq_iff [simp]: "num a = num b \<longleftrightarrow> a = b"
  by (simp add: num_def)

text \<open>The comparison operators: every comparison with NaN is false.\<close>

fun js_lt :: "jnum \<Rightarrow> jnum \<Rightarrow> bool" where
  "js_lt NaN _ = False"
| "js_lt _ NaN = False"
| "js_lt PosInf _ = False"
| "js_lt _ NegInf = False"
| "js_lt NegInf _ = True"
| "js_lt _ PosInf = True"
| "js_lt (Fin a) (Fin b) = (a < b)"

fun js_num_eq :: "jnum \<Rightarrow> jnum \<Rightarrow> bool" where
  "js_num_eq NaN _ = False"
| "js_num_eq a b = (a = b)"

definition js_le :: "jnum \<Rightarrow> jnum \<Rightarrow> bool" where
  "js_le a b = (js_lt a b \<or> js_num_eq a b)"

lemma js_le_Fin [simp]: "js_le (Fin a) (Fin b) \<longleftrightarrow> a \<le> b"
  by (auto simp: js_le_def)

lemma js_le_num [simp]: "js_le (num a) (num b) \<longleftrightarrow> a \<le> b"
  by (simp add: num_def)

lemma js_lt_num [simp]: "js_lt (num a) (num b) \<longleftrightarrow> a < b"
  by (simp add: num_def)

lemma js_le_NaN [simp]: "\<not> js_le NaN b" "\<not> js_le a NaN"
  by (cases a; simp add: js_le_def)+

definition js_isFinite :: "jnum \<Rightarrow> bool" where
  "js_isFinite n = (case n of Fin _ \<Rightarrow> True | _ \<Rightarrow> False)"

definition js_isInteger :: "jnum \<Rightarrow> bool" where
  "js_isInteger n = (case n of Fin q \<Rightarrow> q = of_int \<lfloor>q\<rfloor> | _ \<Rightarrow> False)"

definition max_safe_integer :: int where
  "max_safe_integer = 9007199254740991"

definition js_isSafeInteger :: "jnum \<Rightarrow> bool" where
  "js_isSafeInteger n =
     (case n of Fin q \<Rightarrow> q = of_int \<lfloor>q\<rfloor> \<and> \<bar>\<lfloor>q\<rfloor>\<bar> \<le> max_safe_integer | _ \<Rightarrow> False)"

lemma js_isFinite_simps [simp]:
  "js_isFinite (Fin q)" "\<not> js_isFinite PosInf" "\<not> js_isFinite NegInf" "\<not> js_isFinite NaN"
  by (simp_all add: js_isFinite_def)

lemma js_isInteger_simps [simp]:
  "js_isInteger (Fin q) \<longleftrightarrow> q = of_int \<lfloor>q\<rfloor>"
  "\<not> js_isInteger PosInf" "\<not> js_isInteger NegInf" "\<not> js_isInteger NaN"
  by (simp_all add: js_isInteger_def)

lemma js_isSafeInteger_num [simp]:
  "js_isSafeInteger (num n) \<longleftrightarrow> \<bar>n\<bar> \<le> max_safe_integer"
  by (simp add: js_isSafeInteger_def num_def)

lemma js_isSafeIntegerE:
  assumes "js_isSafeInteger n"
  obtains k where "n = num k" "\<bar>k\<bar> \<le> max_safe_integer"
proof (cases n)
  case (Fin q)
  with assms have "n = num \<lfloor>q\<rfloor>" "\<bar>\<lfloor>q\<rfloor>\<bar> \<le> max_safe_integer"
    by (simp_all add: js_isSafeInteger_def num_def)
  then show ?thesis by (rule that)
qed (use assms in \<open>simp_all add: js_isSafeInteger_def\<close>)

section \<open>Values\<close>

datatype json =
    JUndef
  | JNull
  | JBool bool
  | JNum jnum
  | JStr string
  | JArr "json list"
  | JObj "(string \<times> json) list"

type_synonym jobj = "(string \<times> json) list"

text \<open>Property read \<open>record['k']\<close> on an object.\<close>

definition fld :: "jobj \<Rightarrow> string \<Rightarrow> json" where
  "fld r k = (case map_of r k of None \<Rightarrow> JUndef | Some v \<Rightarrow> v)"

text \<open>Property read \<open>v.k\<close> on a value that is neither null nor undefined, for a key that is
  no property of the built-in prototypes.\<close>

definition jprop :: "json \<Rightarrow> string \<Rightarrow> json" where
  "jprop v k = (case v of JObj r \<Rightarrow> fld r k | _ \<Rightarrow> JUndef)"

definition has_key :: "jobj \<Rightarrow> string \<Rightarrow> bool" where
  "has_key r k = (k \<in> set (map fst r))"

definition nullish :: "json \<Rightarrow> bool" where
  "nullish v = (v = JUndef \<or> v = JNull)"

text \<open>The nullish coalescing operator: \<open>a ?? b\<close>.\<close>

definition coalesce :: "json \<Rightarrow> json \<Rightarrow> json" where
  "coalesce a b = (if nullish a then b else a)"

fun truthy :: "json \<Rightarrow> bool" where
  "truthy JUndef = False"
| "truthy JNull = False"
| "truthy (JBool b) = b"
| "truthy (JNum n) = (n \<noteq> NaN \<and> n \<noteq> Fin 0)"
| "truthy (JStr s) = (s \<noteq> [])"
| "truthy (JArr _) = True"
| "truthy (JObj _) = True"

text \<open>
  Strict equality. Two objects or arrays read from different places of a parsed value are
  different objects, so \<open>===\<close> is false of them.
\<close>

fun js_seq :: "json \<Rightarrow> json \<Rightarrow> bool" where
  "js_seq (JNum a) (JNum b) = js_num_eq a b"
| "js_seq (JArr _) _ = False"
| "js_seq _ (JArr _) = False"
| "js_seq (JObj _) _ = False"
| "js_seq _ (JObj _) = False"
| "js_seq a b = (a = b)"

fun is_str :: "json \<Rightarrow> bool" where
  "is_str (JStr _) = True"
| "is_str _ = False"

lemma is_strE:
  assumes "is_str v" obtains s where "v = JStr s"
  using assms by (cases v) auto

lemma fld_Nil [simp]: "fld [] k = JUndef"
  by (simp add: fld_def)

lemma fld_Cons [simp]: "fld ((k', v) # r) k = (if k = k' then v else fld r k)"
  by (simp add: fld_def)

lemma has_key_simps [simp]:
  "\<not> has_key [] k" "has_key ((k', v) # r) k \<longleftrightarrow> k = k' \<or> has_key r k"
  by (auto simp: has_key_def)

lemma fld_not_undef_has_key: "fld r k \<noteq> JUndef \<Longrightarrow> has_key r k"
  by (induction r) (auto split: if_splits)

lemma jprop_JObj [simp]: "jprop (JObj r) k = fld r k"
  by (simp add: jprop_def)

lemma nullish_simps [simp]:
  "nullish JUndef" "nullish JNull" "\<not> nullish (JStr s)" "\<not> nullish (JNum n)"
  "\<not> nullish (JBool b)" "\<not> nullish (JArr xs)" "\<not> nullish (JObj r)"
  by (simp_all add: nullish_def)

lemma coalesce_simps [simp]:
  "coalesce JUndef b = b" "coalesce JNull b = b" "coalesce (JStr s) b = JStr s"
  "coalesce (JNum n) b = JNum n" "coalesce (JBool c) b = JBool c"
  "coalesce (JArr xs) b = JArr xs" "coalesce (JObj r) b = JObj r"
  by (simp_all add: coalesce_def)

lemma js_seq_str [simp]:
  "js_seq (JStr a) (JStr b) \<longleftrightarrow> a = b" "js_seq v (JStr b) \<longleftrightarrow> v = JStr b"
  by (simp, cases v) simp_all

section \<open>Strings\<close>

text \<open>White space of \<open>String.prototype.trim\<close> and of the \<open>\\s\<close> class below U+0100.\<close>

definition is_ws :: "char \<Rightarrow> bool" where
  "is_ws c = (of_char c \<in> {9, 10, 11, 12, 13, 32, 160 :: nat})"

definition js_trim :: "string \<Rightarrow> string" where
  "js_trim s = rev (dropWhile is_ws (rev (dropWhile is_ws s)))"

definition blank :: "string \<Rightarrow> bool" where
  "blank s = (js_trim s = [])"

lemma blank_iff: "blank s \<longleftrightarrow> list_all is_ws s"
proof
  assume "blank s"
  then have "\<forall>x \<in> set (dropWhile is_ws s). is_ws x"
    by (simp add: blank_def js_trim_def dropWhile_eq_Nil_conv)
  then have "dropWhile is_ws s = []"
    by (metis hd_dropWhile hd_in_set)
  then show "list_all is_ws s"
    by (simp add: dropWhile_eq_Nil_conv list_all_iff)
next
  assume "list_all is_ws s"
  then show "blank s"
    by (simp add: blank_def js_trim_def list_all_iff dropWhile_eq_Nil_conv[THEN iffD2])
qed

definition is_digit :: "char \<Rightarrow> bool" where
  "is_digit c = (48 \<le> (of_char c :: nat) \<and> (of_char c :: nat) \<le> 57)"

definition is_lower :: "char \<Rightarrow> bool" where
  "is_lower c = (97 \<le> (of_char c :: nat) \<and> (of_char c :: nat) \<le> 122)"

definition is_upper :: "char \<Rightarrow> bool" where
  "is_upper c = (65 \<le> (of_char c :: nat) \<and> (of_char c :: nat) \<le> 90)"

definition is_lhex :: "char \<Rightarrow> bool" where
  "is_lhex c = (is_digit c \<or> (97 \<le> (of_char c :: nat) \<and> (of_char c :: nat) \<le> 102))"

text \<open>The pattern \<open>/^[0-9a-f]{64}$/u\<close>.\<close>

definition is_sha256_hex :: "string \<Rightarrow> bool" where
  "is_sha256_hex s = (length s = 64 \<and> list_all is_lhex s)"

definition to_lower :: "char \<Rightarrow> char" where
  "to_lower c = (if is_upper c then char_of ((of_char c :: nat) + 32) else c)"

lemma of_char_to_lower:
  "(of_char (to_lower c) :: nat) = (if is_upper c then of_char c + 32 else of_char c)"
  by (auto simp: to_lower_def is_upper_def)

lemma to_lower_eq_iff:
  "to_lower c = d \<longleftrightarrow> (of_char c :: nat) = of_char d \<and> \<not> is_upper c \<or> is_upper c \<and> (of_char c :: nat) + 32 = of_char d"
  by (metis of_char_to_lower of_char_eq_iff)

definition js_lower :: "string \<Rightarrow> string" where
  "js_lower s = map to_lower s"

definition starts_with :: "string \<Rightarrow> string \<Rightarrow> bool" where
  "starts_with p s = (take (length p) s = p)"

lemma starts_with_iff_prefix: "starts_with p s \<longleftrightarrow> prefix p s"
  by (auto simp: starts_with_def prefix_def) (metis append_take_drop_id)

fun show_digits :: "nat \<Rightarrow> string" where
  "show_digits n = (if n < 10 then [char_of (48 + n)]
                    else show_digits (n div 10) @ [char_of (48 + n mod 10)])"

declare show_digits.simps [simp del]

text \<open>A template literal prints an integer below \<open>10 ^ 21\<close> in decimal.\<close>

definition show_int :: "int \<Rightarrow> string" where
  "show_int i = (if i < 0 then CHR ''-'' # show_digits (nat (- i)) else show_digits (nat i))"

fun join :: "string \<Rightarrow> string list \<Rightarrow> string" where
  "join sep [] = []"
| "join sep [x] = x"
| "join sep (x # y # ys) = x @ sep @ join sep (y # ys)"

fun find_index :: "('a \<Rightarrow> bool) \<Rightarrow> 'a list \<Rightarrow> nat option" where
  "find_index p [] = None"
| "find_index p (x # xs) = (if p x then Some 0 else map_option Suc (find_index p xs))"

lemma find_Some_iff_mem: "List.find p xs = Some x \<Longrightarrow> x \<in> set xs \<and> p x"
  by (metis find_Some_iff nth_mem)

lemma find_None_iff_all: "List.find p xs = None \<longleftrightarrow> (\<forall>x \<in> set xs. \<not> p x)"
  by (auto simp: find_None_iff)

section \<open>Conversion to a number\<close>

definition digit_val :: "char \<Rightarrow> int" where
  "digit_val c = int (of_char c) - 48"

definition hex_val :: "char \<Rightarrow> int" where
  "hex_val c = (if is_digit c then digit_val c else int (of_char (to_lower c)) - 87)"

definition radix_val :: "int \<Rightarrow> string \<Rightarrow> int" where
  "radix_val b ds = foldl (\<lambda>acc c. b * acc + hex_val c) 0 ds"

definition radix_digit :: "int \<Rightarrow> char \<Rightarrow> bool" where
  "radix_digit b c = ((is_digit c \<or> is_lhex (to_lower c)) \<and> hex_val c < b)"

text \<open>An optional exponent part \<open>e[+-]?digits\<close> that ends the string: its value.\<close>

definition exponent_part :: "string \<Rightarrow> int option" where
  "exponent_part s =
     (case s of
        [] \<Rightarrow> Some 0
      | c # t \<Rightarrow>
          if to_lower c \<noteq> CHR ''e'' then None
          else (let neg = (starts_with ''-'' t); ds = (if neg \<or> starts_with ''+'' t then tl t else t)
                in if ds \<noteq> [] \<and> list_all is_digit ds
                   then Some (if neg then - radix_val 10 ds else radix_val 10 ds) else None))"

definition decimal_literal :: "string \<Rightarrow> rat option" where
  "decimal_literal s =
     (let ip = takeWhile is_digit s; r = dropWhile is_digit s;
          fp = (if starts_with ''.'' r then takeWhile is_digit (tl r) else []);
          r2 = (if starts_with ''.'' r then dropWhile is_digit (tl r) else r)
      in if ip = [] \<and> fp = [] then None
         else (case exponent_part r2 of
                 None \<Rightarrow> None
               | Some e \<Rightarrow> Some (of_int (radix_val 10 (ip @ fp)) / 10 ^ length fp
                                * (if e \<ge> 0 then 10 ^ nat e else 1 / 10 ^ nat (- e)))))"

text \<open>\<open>Number(s)\<close> for a string, without the rounding to the nearest double.\<close>

definition js_Number :: "string \<Rightarrow> jnum" where
  "js_Number s =
     (let t = js_trim s; radix = (\<lambda>b. if drop 2 t \<noteq> [] \<and> list_all (radix_digit b) (drop 2 t)
                                        then num (radix_val b (drop 2 t)) else NaN)
      in if t = [] then num 0
         else if js_lower (take 2 t) = ''0x'' then radix 16
         else if js_lower (take 2 t) = ''0o'' then radix 8
         else if js_lower (take 2 t) = ''0b'' then radix 2
         else (let neg = starts_with ''-'' t; u = (if neg \<or> starts_with ''+'' t then tl t else t)
               in if u = ''Infinity'' then (if neg then NegInf else PosInf)
                  else (case decimal_literal u of
                          None \<Rightarrow> NaN
                        | Some q \<Rightarrow> Fin (if neg then - q else q))))"

text \<open>
  Conversion to a number in an arithmetic comparison. An array converts through its string:
  the empty array to 0, a one-element array as its element prints, a longer one to NaN.
\<close>

fun to_number :: "json \<Rightarrow> jnum" where
  "to_number JUndef = NaN"
| "to_number JNull = num 0"
| "to_number (JBool b) = num (if b then 1 else 0)"
| "to_number (JNum n) = n"
| "to_number (JStr s) = js_Number s"
| "to_number (JArr []) = num 0"
| "to_number (JArr [x]) = (case x of JUndef \<Rightarrow> num 0 | JBool _ \<Rightarrow> NaN | _ \<Rightarrow> to_number x)"
| "to_number (JArr (x # y # zs)) = NaN"
| "to_number (JObj _) = NaN"

fun string_less :: "string \<Rightarrow> string \<Rightarrow> bool" where
  "string_less [] t = (t \<noteq> [])"
| "string_less (c # s) [] = False"
| "string_less (c # s) (d # t) =
     ((of_char c :: nat) < of_char d \<or> c = d \<and> string_less s t)"

text \<open>\<open>a <= b\<close>: two strings compare by code units, anything else as numbers.\<close>

definition js_leq :: "json \<Rightarrow> json \<Rightarrow> bool" where
  "js_leq a b = (case (a, b) of
                   (JStr s, JStr t) \<Rightarrow> s = t \<or> string_less s t
                 | _ \<Rightarrow> js_le (to_number a) (to_number b))"

definition js_less :: "json \<Rightarrow> json \<Rightarrow> bool" where
  "js_less a b = (case (a, b) of
                    (JStr s, JStr t) \<Rightarrow> string_less s t
                  | _ \<Rightarrow> js_lt (to_number a) (to_number b))"

lemma js_leq_num [simp]: "js_leq (JNum a) (JNum b) = js_le a b"
  by (simp add: js_leq_def)

lemma js_less_num [simp]: "js_less (JNum a) (JNum b) = js_lt a b"
  by (simp add: js_less_def)

section \<open>Conversion to a string, and sets of values\<close>

text \<open>
  \<open>String(v)\<close>. A number that is no integer below \<open>10 ^ 21\<close> prints as the shortest decimal
  that reads back as the same double; that printer is the argument \<open>show_frac\<close>.
\<close>

function js_String :: "(rat \<Rightarrow> string) \<Rightarrow> json \<Rightarrow> string" where
  "js_String sf JUndef = ''undefined''"
| "js_String sf JNull = ''null''"
| "js_String sf (JBool b) = (if b then ''true'' else ''false'')"
| "js_String sf (JNum NaN) = ''NaN''"
| "js_String sf (JNum PosInf) = ''Infinity''"
| "js_String sf (JNum NegInf) = ''-Infinity''"
| "js_String sf (JNum (Fin q)) =
     (if q = of_int \<lfloor>q\<rfloor> \<and> \<bar>q\<bar> < 10 ^ 21 then show_int \<lfloor>q\<rfloor> else sf q)"
| "js_String sf (JStr s) = s"
| "js_String sf (JArr xs) = join '','' (map (\<lambda>x. if nullish x then [] else js_String sf x) xs)"
| "js_String sf (JObj r) = ''[object Object]''"
  by pat_completeness auto
termination
proof (relation "measure (\<lambda>(_, v). size v)", goal_cases)
  case (2 sf xs x)
  then show ?case by (induction xs) auto
qed simp

text \<open>\<open>Array.prototype.includes\<close> and \<open>Set\<close> compare with SameValueZero: \<open>===\<close>, and NaN is NaN.\<close>

definition same_value :: "json \<Rightarrow> json \<Rightarrow> bool" where
  "same_value a b = (js_seq a b \<or> a = JNum NaN \<and> b = JNum NaN)"

definition js_includes :: "json list \<Rightarrow> json \<Rightarrow> bool" where
  "js_includes xs v = list_ex (\<lambda>x. same_value x v) xs"

fun new_Set :: "json list \<Rightarrow> json list" where
  "new_Set [] = []"
| "new_Set (x # xs) = x # filter (\<lambda>y. \<not> same_value x y) (new_Set xs)"

lemma same_value_str [simp]: "same_value v (JStr s) \<longleftrightarrow> v = JStr s"
  by (simp add: same_value_def)

lemma js_includes_str [simp]: "js_includes xs (JStr s) \<longleftrightarrow> JStr s \<in> set xs"
  by (auto simp: js_includes_def list_ex_iff)

lemma new_Set_subset: "set (new_Set xs) \<subseteq> set xs"
  by (induction xs) auto

lemma same_value_str_left: "same_value (JStr s) v \<longleftrightarrow> v = JStr s"
  by (cases v) (auto simp: same_value_def)

lemma new_Set_str_mem: "JStr s \<in> set xs \<Longrightarrow> JStr s \<in> set (new_Set xs)"
proof (induction xs)
  case (Cons x xs)
  then show ?case by (cases "x = JStr s") auto
qed simp

text \<open>A set with one element that holds the string \<open>s\<close>: every element is \<open>s\<close>.\<close>

lemma singleton_Set_str:
  assumes "length (new_Set xs) = 1" and "JStr s \<in> set xs"
  shows "\<forall>x \<in> set xs. x = JStr s"
proof (cases xs)
  case (Cons x ys)
  with assms(1) have none: "filter (\<lambda>y. \<not> same_value x y) (new_Set ys) = []" by simp
  have x: "x = JStr s"
  proof (rule ccontr)
    assume "x \<noteq> JStr s"
    with assms(2) Cons have "JStr s \<in> set (new_Set ys)" by (auto intro: new_Set_str_mem)
    with none have "same_value x (JStr s)" by (auto simp: filter_empty_conv)
    with \<open>x \<noteq> JStr s\<close> show False by simp
  qed
  have "\<forall>y \<in> set zs. y = JStr s" if "\<forall>y \<in> set (new_Set zs). same_value (JStr s) y" for zs
    using that
  proof (induction zs)
    case (Cons z zs)
    have "same_value (JStr s) z" by (rule bspec[OF Cons.prems]) simp
    then have z: "z = JStr s" by (simp only: same_value_str_left)
    have "\<forall>y \<in> set (new_Set zs). same_value (JStr s) y"
    proof (rule ballI, rule ccontr)
      fix y assume "y \<in> set (new_Set zs)" and n: "\<not> same_value (JStr s) y"
      with z have "y \<in> set (new_Set (z # zs))" by simp
      with Cons.prems n show False by blast
    qed
    with Cons.IH z show ?case by simp
  qed simp
  with none x Cons show ?thesis by (simp add: filter_empty_conv)
qed simp

section \<open>encodeURIComponent\<close>

definition uri_unreserved :: "char \<Rightarrow> bool" where
  "uri_unreserved c = (is_digit c \<or> is_lower c \<or> is_upper c \<or> c \<in> set ''-_.!~*()'' \<or> c = CHR 0x27)"

definition hex_upper :: "nat \<Rightarrow> char" where
  "hex_upper n = (if n < 10 then char_of (48 + n) else char_of (55 + n))"

definition percent_byte :: "nat \<Rightarrow> string" where
  "percent_byte n = [CHR ''%'', hex_upper (n div 16), hex_upper (n mod 16)]"

text \<open>A code unit from U+0080 on is two bytes of UTF-8.\<close>

definition encode_char :: "char \<Rightarrow> string" where
  "encode_char c =
     (let n = of_char c
      in if uri_unreserved c then [c]
         else if n < 128 then percent_byte n
         else percent_byte (192 + n div 64) @ percent_byte (128 + n mod 64))"

definition encodeURIComponent :: "string \<Rightarrow> string" where
  "encodeURIComponent s = concat (map encode_char s)"

lemma of_char_hex_upper: "n < 16 \<Longrightarrow> (of_char (hex_upper n) :: nat) = (if n < 10 then 48 + n else 55 + n)"
  by (simp add: hex_upper_def)

lemma hex_upper_inj: "hex_upper a = hex_upper b \<Longrightarrow> a < 16 \<Longrightarrow> b < 16 \<Longrightarrow> a = b"
proof -
  assume h: "hex_upper a = hex_upper b" and a: "a < 16" and b: "b < 16"
  have "(of_char (hex_upper a) :: nat) = of_char (hex_upper b)" by (simp only: h)
  then show ?thesis unfolding of_char_hex_upper[OF a] of_char_hex_upper[OF b]
    by (auto split: if_splits)
qed

lemma percent_byte_inj: "percent_byte a = percent_byte b \<Longrightarrow> a < 256 \<Longrightarrow> b < 256 \<Longrightarrow> a = b"
proof -
  assume h: "percent_byte a = percent_byte b" and a: "a < 256" and b: "b < 256"
  from h have "hex_upper (a div 16) = hex_upper (b div 16)" "hex_upper (a mod 16) = hex_upper (b mod 16)"
    by (simp_all add: percent_byte_def)
  then have "a div 16 = b div 16" "a mod 16 = b mod 16"
    using a b by (auto dest!: hex_upper_inj)
  then show ?thesis by (metis mult_div_mod_eq)
qed

lemma length_percent_byte [simp]: "length (percent_byte n) = 3"
  by (simp add: percent_byte_def)

lemma percent_not_unreserved [simp]: "\<not> uri_unreserved CHR ''%''"
  by (simp add: uri_unreserved_def is_digit_def is_lower_def is_upper_def)

lemma of_char_less_256: "(of_char (c :: char) :: nat) < 256"
  by (simp add: of_char_def)

lemma encode_char_first: "encode_char c @ x = encode_char d @ y \<Longrightarrow> c = d \<and> x = y"
proof -
  assume eq: "encode_char c @ x = encode_char d @ y"
  define n where "n = (of_char c :: nat)"
  define m where "m = (of_char d :: nat)"
  have nm: "n < 256" "m < 256" by (simp_all add: n_def m_def of_char_less_256)
  have same: "n = m \<Longrightarrow> c = d" by (simp add: n_def m_def)
  show ?thesis
  proof (cases "uri_unreserved c \<or> uri_unreserved d")
    case True
    then show ?thesis
      using eq by (auto simp: encode_char_def Let_def percent_byte_def split: if_splits)
  next
    case False
    then consider "n < 128" "m < 128" | "128 \<le> n" "128 \<le> m" | "n < 128" "128 \<le> m" | "128 \<le> n" "m < 128"
      by linarith
    then show ?thesis
    proof cases
      case 1
      with False eq have "percent_byte n = percent_byte m" "x = y"
        by (auto simp: encode_char_def n_def m_def Let_def)
      with nm same show ?thesis by (auto dest: percent_byte_inj)
    next
      case 2
      with False eq have "percent_byte (192 + n div 64) = percent_byte (192 + m div 64)"
        "percent_byte (128 + n mod 64) = percent_byte (128 + m mod 64)" "x = y"
        by (auto simp: encode_char_def n_def m_def Let_def)
      then have "192 + n div 64 = 192 + m div 64" "128 + n mod 64 = 128 + m mod 64"
        using nm by (auto dest!: percent_byte_inj)
      then have "n = m" by (metis add_left_cancel mult_div_mod_eq)
      with same \<open>x = y\<close> show ?thesis by simp
    next
      case 3
      with False eq have "percent_byte n = percent_byte (192 + m div 64)"
        by (auto simp: encode_char_def n_def m_def Let_def percent_byte_def)
      with 3 nm show ?thesis by (auto dest!: percent_byte_inj)
    next
      case 4
      with False eq have "percent_byte (192 + n div 64) = percent_byte m"
        by (auto simp: encode_char_def n_def m_def Let_def percent_byte_def)
      with 4 nm show ?thesis by (auto dest!: percent_byte_inj)
    qed
  qed
qed

lemma encode_char_nonempty: "encode_char c \<noteq> []"
  by (simp add: encode_char_def Let_def percent_byte_def)

lemma encodeURIComponent_inj: "encodeURIComponent s = encodeURIComponent t \<Longrightarrow> s = t"
proof (induction s arbitrary: t)
  case Nil
  then show ?case by (cases t) (simp_all add: encodeURIComponent_def encode_char_nonempty)
next
  case (Cons c s)
  then obtain d t' where t: "t = d # t'"
    by (cases t) (auto simp: encodeURIComponent_def encode_char_nonempty)
  with Cons.prems have "encode_char c @ encodeURIComponent s = encode_char d @ encodeURIComponent t'"
    by (simp add: encodeURIComponent_def)
  then have "c = d" "encodeURIComponent s = encodeURIComponent t'" by (auto dest: encode_char_first)
  with Cons.IH t show ?case by simp
qed

text \<open>An encoded component holds no character that ends a path segment.\<close>

definition segment_char :: "char \<Rightarrow> bool" where
  "segment_char c = (c \<noteq> CHR ''/'' \<and> c \<noteq> CHR ''?'' \<and> c \<noteq> CHR ''#'')"

lemma unreserved_segment_char: "uri_unreserved c \<Longrightarrow> segment_char c"
  by (auto simp: segment_char_def uri_unreserved_def is_digit_def is_lower_def is_upper_def)

lemma hex_upper_segment_char: "n < 16 \<Longrightarrow> segment_char (hex_upper n)"
proof -
  assume n: "n < 16"
  have "(of_char (hex_upper n) :: nat) \<noteq> of_char CHR ''/''" "(of_char (hex_upper n) :: nat) \<noteq> of_char CHR ''?''"
    "(of_char (hex_upper n) :: nat) \<noteq> of_char CHR ''#''"
    using n by (simp_all add: of_char_hex_upper)
  then show ?thesis by (auto simp: segment_char_def)
qed

lemma percent_byte_segment: "n < 256 \<Longrightarrow> list_all segment_char (percent_byte n)"
  by (simp add: percent_byte_def hex_upper_segment_char less_mult_imp_div_less)
    (simp add: segment_char_def)

lemma encodeURIComponent_segment: "list_all segment_char (encodeURIComponent s)"
proof (induction s)
  case (Cons c s)
  have "192 + (of_char c :: nat) div 64 < 256"
    using of_char_less_256[of c] by linarith
  then have "list_all segment_char (encode_char c)"
    by (auto simp: encode_char_def Let_def unreserved_segment_char percent_byte_segment)
  with Cons show ?case by (simp add: encodeURIComponent_def)
qed (simp add: encodeURIComponent_def)

lemmas js_prims [js_defs] =
  nullish_def coalesce_def blank_def is_sha256_hex_def

end
