(* ===== verification/Runtime_Errors.thy ===== *)
theory Runtime_Errors
  imports Capture_Prelude
begin

text \<open>
  \<^verbatim>\<open>packages/capture-runtime-client/src/errors.ts\<close>: the error classes of the client SDK
  and the redaction every error message and every error detail passes through. The last
  section shows what redaction guarantees: no bearer credential survives in a message, and
  no value under a credential-like key survives in the details, down to the nesting depth
  the code descends to.
\<close>

section \<open>redact\<close>

text \<open>
  \<open>/Bearer\s+[^\s,;]+/giu\<close>. The class of the credential excludes white space, so the greedy
  \<open>\s+\<close> never gives a character back and the match is the one computed here: the credential
  and the text after it.
\<close>

definition bearer_char :: "char \<Rightarrow> bool" where
  "bearer_char c = (\<not> is_ws c \<and> c \<noteq> CHR '','' \<and> c \<noteq> CHR '';'')"

definition match_bearer :: "string \<Rightarrow> (string \<times> string) option" where
  "match_bearer s =
     (let r = drop 6 s; t = dropWhile is_ws r
      in if js_lower (take 6 s) = ''bearer'' \<and> takeWhile is_ws r \<noteq> []
            \<and> takeWhile bearer_char t \<noteq> []
         then Some (takeWhile bearer_char t, dropWhile bearer_char t) else None)"

lemma length_dropWhile_less:
  "takeWhile p xs \<noteq> [] \<Longrightarrow> length (dropWhile p xs) < length xs"
  by (cases xs) (auto simp: length_dropWhile_le less_Suc_eq_le split: if_splits)

lemma match_bearer_shorter: "match_bearer s = Some (t, r) \<Longrightarrow> length r < length s"
proof -
  assume m: "match_bearer s = Some (t, r)"
  define d where "d = dropWhile is_ws (drop 6 s)"
  from m have r: "r = dropWhile bearer_char d" and t: "takeWhile bearer_char d \<noteq> []"
    by (auto simp: match_bearer_def Let_def d_def split: if_splits)
  have "length r < length d" using t r by (simp add: length_dropWhile_less)
  also have "length d \<le> length s"
    unfolding d_def by (rule le_trans[OF length_dropWhile_le]) simp
  finally show ?thesis .
qed

function redact_bearer :: "string \<Rightarrow> string" where
  "redact_bearer [] = []"
| "redact_bearer (c # cs) =
     (case match_bearer (c # cs) of
        Some (t, r) \<Rightarrow> ''Bearer [redacted]'' @ redact_bearer r
      | None \<Rightarrow> c # redact_bearer cs)"
  by pat_completeness auto
termination
  by (relation "measure length") (auto dest: match_bearer_shorter)

text \<open>
  \<open>/(?:authorization|bearerToken|access_token|token)\s*[:=]\s*['"]?[^'"\s,;}]+/giu\<close>. The
  match is given as the text up to and including the separator, which the replacement keeps,
  and the text after the secret.
\<close>

definition secret_char :: "char \<Rightarrow> bool" where
  "secret_char c = (\<not> is_ws c \<and> c \<noteq> CHR '','' \<and> c \<noteq> CHR '';'' \<and> c \<noteq> CHR ''}''
     \<and> c \<noteq> CHR ''\"'' \<and> c \<noteq> CHR 0x27)"

definition skip_quote :: "string \<Rightarrow> string" where
  "skip_quote s = (case s of c # cs \<Rightarrow> if c = CHR ''\"'' \<or> c = CHR 0x27 then cs else s | [] \<Rightarrow> [])"

definition match_keyword :: "string \<Rightarrow> string \<Rightarrow> (string \<times> string) option" where
  "match_keyword kw s =
     (let k = take (length kw) s; r = drop (length kw) s; r1 = dropWhile is_ws r
      in if js_lower k = kw then
           (case r1 of
              [] \<Rightarrow> None
            | c # r2 \<Rightarrow>
                (let r3 = skip_quote (dropWhile is_ws r2)
                 in if (c = CHR '':'' \<or> c = CHR ''='') \<and> takeWhile secret_char r3 \<noteq> []
                    then Some (k @ takeWhile is_ws r @ [c], dropWhile secret_char r3)
                    else None))
         else None)"

definition secret_keywords :: "string list" where
  "secret_keywords = [''authorization'', ''bearertoken'', ''access_token'', ''token'']"

definition match_secret :: "string \<Rightarrow> (string \<times> string) option" where
  "match_secret s =
     (case List.find (\<lambda>m. m \<noteq> None) (map (\<lambda>kw. match_keyword kw s) secret_keywords) of
        None \<Rightarrow> None | Some m \<Rightarrow> m)"

lemma length_skip_quote: "length (skip_quote s) \<le> length s"
  by (auto simp: skip_quote_def split: list.splits)

lemma match_keyword_shorter: "match_keyword kw s = Some (k, r) \<Longrightarrow> length r < length s"
proof -
  assume m: "match_keyword kw s = Some (k, r)"
  then obtain c r2 where r1: "dropWhile is_ws (drop (length kw) s) = c # r2"
    and r: "r = dropWhile secret_char (skip_quote (dropWhile is_ws r2))"
    by (auto simp: match_keyword_def Let_def split: if_splits list.splits)
  have "length r \<le> length r2"
    unfolding r by (metis le_trans length_dropWhile_le length_skip_quote)
  moreover have "Suc (length r2) \<le> length s"
    using length_dropWhile_le[of is_ws "drop (length kw) s"] r1 by simp
  ultimately show ?thesis by simp
qed

lemma match_secret_shorter: "match_secret s = Some (k, r) \<Longrightarrow> length r < length s"
  unfolding match_secret_def
  by (auto split: option.splits dest!: find_Some_iff_mem dest: match_keyword_shorter [OF sym])

function redact_secret :: "string \<Rightarrow> string" where
  "redact_secret [] = []"
| "redact_secret (c # cs) =
     (case match_secret (c # cs) of
        Some (k, r) \<Rightarrow> k @ '' [redacted]'' @ redact_secret r
      | None \<Rightarrow> c # redact_secret cs)"
  by pat_completeness auto
termination
  by (relation "measure length") (auto dest: match_secret_shorter)

declare redact_bearer.simps(2) [simp del] redact_secret.simps(2) [simp del]

definition redact :: "string \<Rightarrow> string" where
  "redact value = redact_secret (redact_bearer value)"

section \<open>redactValue\<close>

fun contains :: "string \<Rightarrow> string \<Rightarrow> bool" where
  "contains p [] = (p = [])"
| "contains p (c # cs) = (starts_with p (c # cs) \<or> contains p cs)"

text \<open>\<open>/token|authorization|credential|secret|password/iu.test(key)\<close>\<close>

definition sensitive_key :: "string \<Rightarrow> bool" where
  "sensitive_key k = (\<exists>w \<in> set [''token'', ''authorization'', ''credential'', ''secret'', ''password''].
                        contains w (js_lower k))"

text \<open>
  The assignment \<open>output[key] = ...\<close> sets the prototype of \<open>output\<close> for the key
  \<open>__proto__\<close> and adds no entry, so an entry of that name is gone from the result.
\<close>

function redactValue :: "nat \<Rightarrow> json \<Rightarrow> json" where
  "redactValue depth value =
     (case value of
        JStr s \<Rightarrow> JStr (redact s)
      | JArr xs \<Rightarrow>
          if depth > 4 then value else JArr (map (redactValue (depth + 1)) xs)
      | JObj r \<Rightarrow>
          if depth > 4 then value
          else JObj (map (\<lambda>(k, v). (k, if sensitive_key k then JStr ''[redacted]''
                                       else redactValue (depth + 1) v))
                         (filter (\<lambda>(k, v). k \<noteq> ''__proto__'') r))
      | _ \<Rightarrow> value)"
  by pat_completeness auto
termination
  by (relation "measure (\<lambda>(d, _). 5 - d)") auto

declare redactValue.simps [simp del]

lemma redactValue_prim [simp]:
  "redactValue d JUndef = JUndef" "redactValue d JNull = JNull"
  "redactValue d (JBool b) = JBool b" "redactValue d (JNum n) = JNum n"
  "redactValue d (JStr s) = JStr (redact s)"
  by (simp_all add: redactValue.simps)

section \<open>The error classes\<close>

datatype err_class =
    CaptureRuntimeError
  | CaptureTransportError
  | CaptureAuthenticationError
  | CaptureCompatibilityError
  | CaptureProtocolError
  | CaptureRemoteError
  | CaptureRuntimeProtocolError
  | CaptureRuntimeCompatibilityError

record rt_error =
  err_name :: err_class
  err_status :: int
  err_code :: json
  err_message :: string
  err_details :: json
  err_category :: json
  err_retryable :: bool
  err_issues :: "json list"
  err_requestId :: "string option"

record err_metadata =
  meta_category :: "json option"
  meta_retryable :: "bool option"
  meta_issues :: "json list option"
  meta_requestId :: "string option"

definition no_metadata :: err_metadata where
  "no_metadata = \<lparr>meta_category = None, meta_retryable = None, meta_issues = None,
                  meta_requestId = None\<rparr>"

definition option_or :: "'a option \<Rightarrow> 'a \<Rightarrow> 'a" where
  "option_or x d = (case x of None \<Rightarrow> d | Some y \<Rightarrow> y)"

lemma option_or_simps [simp]: "option_or None d = d" "option_or (Some y) d = y"
  by (simp_all add: option_or_def)

definition new_CaptureRuntimeError ::
  "err_class \<Rightarrow> int \<Rightarrow> json \<Rightarrow> string \<Rightarrow> json \<Rightarrow> err_metadata \<Rightarrow> rt_error" where
  "new_CaptureRuntimeError name status code message details metadata =
     \<lparr>err_name = name, err_status = status, err_code = code,
      err_message = redact message, err_details = redactValue 0 details,
      err_category = option_or (meta_category metadata) (JStr ''runtime''),
      err_retryable = option_or (meta_retryable metadata) False,
      err_issues = map (redactValue 0) (option_or (meta_issues metadata) []),
      err_requestId = meta_requestId metadata\<rparr>"

definition new_CaptureTransportError :: "string \<Rightarrow> json \<Rightarrow> string \<Rightarrow> rt_error" where
  "new_CaptureTransportError message details code =
     new_CaptureRuntimeError CaptureTransportError 0 (JStr code) message details
       (no_metadata\<lparr>meta_category := Some (JStr ''transport''), meta_retryable := Some True\<rparr>)"

definition new_CaptureAuthenticationError ::
  "string \<Rightarrow> int \<Rightarrow> json \<Rightarrow> string option \<Rightarrow> rt_error" where
  "new_CaptureAuthenticationError message status details requestId =
     new_CaptureRuntimeError CaptureAuthenticationError status (JStr ''unauthorized'') message
       details (no_metadata\<lparr>meta_category := Some (JStr ''authentication''),
                            meta_requestId := requestId\<rparr>)"

definition new_CaptureRemoteError ::
  "int \<Rightarrow> json \<Rightarrow> string \<Rightarrow> json \<Rightarrow> err_metadata \<Rightarrow> rt_error" where
  "new_CaptureRemoteError status code message details metadata =
     new_CaptureRuntimeError CaptureRemoteError status code message details
       (metadata\<lparr>meta_category := Some (option_or (meta_category metadata) (JStr ''remote''))\<rparr>)"

definition new_CaptureRuntimeProtocolError :: "string \<Rightarrow> json \<Rightarrow> rt_error" where
  "new_CaptureRuntimeProtocolError message details =
     new_CaptureRuntimeError CaptureRuntimeProtocolError 0 (JStr ''protocol_error'') message
       details (no_metadata\<lparr>meta_category := Some (JStr ''protocol'')\<rparr>)"

definition new_CaptureRuntimeCompatibilityError :: "string \<Rightarrow> json \<Rightarrow> rt_error" where
  "new_CaptureRuntimeCompatibilityError message details =
     new_CaptureRuntimeError CaptureRuntimeCompatibilityError 0 (JStr ''incompatible_runtime'')
       message details (no_metadata\<lparr>meta_category := Some (JStr ''compatibility'')\<rparr>)"

text \<open>
  What a \<open>catch\<close> clause can receive: an error of the SDK, a \<open>TypeError\<close> of the language, an
  \<open>AbortError\<close>, or any other error of the host.
\<close>

datatype exn =
    RuntimeErr rt_error
  | TypeErr
  | AbortErr
  | OtherErr string

abbreviation protocol_error :: "string \<Rightarrow> exn" where
  "protocol_error message \<equiv> RuntimeErr (new_CaptureRuntimeProtocolError message JUndef)"

text \<open>The same error with a caught \<open>Error\<close> as its details: an \<open>Error\<close> object has no
  enumerable entries.\<close>

abbreviation caused_protocol_error :: "string \<Rightarrow> exn" where
  "caused_protocol_error message \<equiv> RuntimeErr (new_CaptureRuntimeProtocolError message (JObj []))"

abbreviation compatibility_error :: "string \<Rightarrow> exn" where
  "compatibility_error message \<equiv> RuntimeErr (new_CaptureRuntimeCompatibilityError message JUndef)"

definition is_transport_error :: "exn \<Rightarrow> bool" where
  "is_transport_error e =
     (case e of RuntimeErr r \<Rightarrow> err_name r = CaptureTransportError | _ \<Rightarrow> False)"

definition exn_retryable :: "exn \<Rightarrow> bool" where
  "exn_retryable e = (case e of RuntimeErr r \<Rightarrow> err_retryable r | _ \<Rightarrow> False)"

lemmas error_ctor_defs =
  new_CaptureRuntimeError_def new_CaptureTransportError_def new_CaptureAuthenticationError_def
  new_CaptureRemoteError_def new_CaptureRuntimeProtocolError_def
  new_CaptureRuntimeCompatibilityError_def no_metadata_def

lemma protocol_error_not_retryable [simp]:
  "\<not> exn_retryable (protocol_error m)" "\<not> is_transport_error (protocol_error m)"
  by (simp_all add: exn_retryable_def is_transport_error_def error_ctor_defs)

lemma compatibility_error_not_retryable [simp]:
  "\<not> exn_retryable (compatibility_error m)" "\<not> is_transport_error (compatibility_error m)"
  by (simp_all add: exn_retryable_def is_transport_error_def error_ctor_defs)

section \<open>No bearer credential survives redaction\<close>

lemma js_lower_Cons [simp]: "js_lower (c # s) = to_lower c # js_lower s"
  by (simp add: js_lower_def)

lemma js_lower_Nil [simp]: "js_lower [] = []"
  by (simp add: js_lower_def)

lemma js_lower_append [simp]: "js_lower (s @ t) = js_lower s @ js_lower t"
  by (simp add: js_lower_def)

lemma length_js_lower [simp]: "length (js_lower s) = length s"
  by (simp add: js_lower_def)

lemma match_bearer_first:
  "match_bearer (c # cs) = Some m \<Longrightarrow> to_lower c = CHR ''b''"
  by (auto simp: match_bearer_def Let_def split: if_splits)

lemma redact_bearer_step:
  assumes "redact_bearer s = c # t" and "to_lower c \<noteq> CHR ''b''"
  obtains cs where "s = c # cs" "redact_bearer cs = t"
proof (cases s)
  case (Cons d cs)
  show ?thesis
  proof (cases "match_bearer s")
    case None
    with Cons assms show ?thesis by (auto simp: redact_bearer.simps(2) intro: that)
  next
    case (Some m)
    with Cons assms have "c = CHR ''B''"
      by (cases m) (simp add: redact_bearer.simps(2))
    then have "to_lower c = CHR ''b''" by (simp add: to_lower_eq_iff is_upper_def)
    with assms show ?thesis by simp
  qed
qed (use assms in simp)

text \<open>Text of the output that holds no \<open>b\<close> was copied from the input.\<close>

lemma redact_bearer_copied:
  "redact_bearer s = w @ t \<Longrightarrow> (\<forall>c \<in> set w. to_lower c \<noteq> CHR ''b'') \<Longrightarrow>
   \<exists>s'. s = w @ s' \<and> redact_bearer s' = t"
proof (induction w arbitrary: s)
  case (Cons c w)
  from Cons.prems obtain cs where cs: "s = c # cs" "redact_bearer cs = w @ t"
    by (auto elim: redact_bearer_step)
  with Cons.IH[of cs] Cons.prems(2) show ?case by auto
qed simp

lemma redact_bearer_head:
  assumes "redact_bearer s = c # t"
  shows "\<exists>d cs. s = d # cs \<and> to_lower d = to_lower c"
proof (cases s)
  case (Cons d cs)
  show ?thesis
  proof (cases "match_bearer s")
    case None
    with Cons assms show ?thesis by (simp add: redact_bearer.simps(2))
  next
    case (Some m)
    with Cons assms have "c = CHR ''B''" by (cases m) (simp add: redact_bearer.simps(2))
    moreover from Some Cons have "to_lower d = CHR ''b''" by (auto dest: match_bearer_first)
    moreover have "to_lower CHR ''B'' = CHR ''b''" by (simp add: to_lower_eq_iff is_upper_def)
    ultimately show ?thesis using Cons by simp
  qed
qed (use assms in simp)

lemma to_lower_b_bearer_char: "to_lower d = CHR ''b'' \<Longrightarrow> bearer_char d"
  by (auto simp: to_lower_eq_iff bearer_char_def is_ws_def)

lemma ws_not_b: "is_ws c \<Longrightarrow> to_lower c \<noteq> CHR ''b''"
  using to_lower_b_bearer_char by (auto simp: bearer_char_def)

lemma match_bearer_SomeE:
  assumes "match_bearer s = Some (tok, rest)"
  obtains w ws d t where "s = w @ ws @ d # t" "length w = 6" "js_lower w = ''bearer''"
    "ws \<noteq> []" "\<forall>x \<in> set ws. is_ws x" "bearer_char d" "tok = takeWhile bearer_char (d # t)"
    "rest = dropWhile bearer_char (d # t)"
proof -
  define r where "r = drop 6 s"
  from assms have l: "js_lower (take 6 s) = ''bearer''" and ws: "takeWhile is_ws r \<noteq> []"
    and tok: "tok = takeWhile bearer_char (dropWhile is_ws r)" "tok \<noteq> []"
    and rest: "rest = dropWhile bearer_char (dropWhile is_ws r)"
    by (auto simp: match_bearer_def Let_def r_def split: if_splits)
  from tok obtain d t where dt: "dropWhile is_ws r = d # t" "bearer_char d"
    by (cases "dropWhile is_ws r") (auto split: if_splits)
  have "length (js_lower (take 6 s)) = 6" by (simp add: l)
  then have len: "length (take 6 s) = 6" by simp
  have "s = take 6 s @ takeWhile is_ws r @ d # t"
    by (metis append_take_drop_id dt(1) r_def takeWhile_dropWhile_id)
  from that[OF this len l ws _ dt(2)] show thesis
    using tok rest dt(1) by (auto dest: set_takeWhileD)
qed

lemma match_bearer_rest: "match_bearer s = Some (t, r) \<Longrightarrow> r = [] \<or> \<not> bearer_char (hd r)"
  unfolding match_bearer_def Let_def by (metis (lifting) hd_dropWhile option.sel option.distinct(1) prod.inject)

lemma match_bearer_intro:
  assumes "length w = 6" "js_lower w = ''bearer''" "ws \<noteq> []" "\<forall>x \<in> set ws. is_ws x" "bearer_char d"
  shows "match_bearer (w @ ws @ d # t) =
           Some (takeWhile bearer_char (d # t), dropWhile bearer_char (d # t))"
proof -
  have "\<not> is_ws d" using assms(5) by (simp add: bearer_char_def)
  with assms(4) have "dropWhile is_ws (ws @ d # t) = d # t"
    by (simp add: dropWhile_append2)
  moreover have "takeWhile is_ws (ws @ d # t) \<noteq> []"
    using assms(3,4) by (cases ws) auto
  ultimately show ?thesis using assms by (simp add: match_bearer_def Let_def)
qed

text \<open>A match at a copied position of the output was already a match of the input.\<close>

lemma match_bearer_redacted_copy:
  assumes m: "match_bearer (c # redact_bearer cs) = Some (tok, rest)"
  shows "match_bearer (c # cs) \<noteq> None"
proof -
  from m obtain w ws d t where out: "c # redact_bearer cs = w @ ws @ d # t"
    and w: "length w = 6" "js_lower w = ''bearer''" and ws: "ws \<noteq> []" "\<forall>x \<in> set ws. is_ws x"
    and d: "bearer_char d" by (elim match_bearer_SomeE)
  from w obtain w5 where w5: "w = c # w5" using out by (cases w) auto
  from w w5 have "js_lower w5 = ''earer''" by simp
  then have "CHR ''b'' \<notin> set (js_lower w5)" by simp
  then have "\<forall>x \<in> set w5. to_lower x \<noteq> CHR ''b''" by (force simp: js_lower_def)
  moreover have "redact_bearer cs = w5 @ ws @ d # t" using out w5 by simp
  ultimately obtain s1 where s1: "cs = w5 @ s1" "redact_bearer s1 = ws @ d # t"
    using redact_bearer_copied by blast
  from redact_bearer_copied[OF s1(2)] ws(2) ws_not_b
  obtain s2 where s2: "s1 = ws @ s2" "redact_bearer s2 = d # t" by auto
  from redact_bearer_head[OF s2(2)] obtain d' s3 where d': "s2 = d' # s3" "to_lower d' = to_lower d"
    by auto
  have "bearer_char d'"
  proof (cases "to_lower d = CHR ''b''")
    case True
    with d' show ?thesis by (simp add: to_lower_b_bearer_char)
  next
    case False
    from redact_bearer_step[OF s2(2) False] d' d show ?thesis by auto
  qed
  from match_bearer_intro[OF w ws this] show ?thesis
    using w5 s1(1) s2(1) d'(1) by simp
qed

lemma redact_bearer_stops:
  assumes "r = [] \<or> \<not> bearer_char (hd r)"
  shows "takeWhile bearer_char (redact_bearer r) = []"
proof (cases "redact_bearer r")
  case (Cons c t)
  from redact_bearer_head[OF Cons] obtain d cs where d: "r = d # cs" "to_lower d = to_lower c" by auto
  with assms have nd: "\<not> bearer_char d" by simp
  then have "to_lower c \<noteq> CHR ''b''" using d(2) to_lower_b_bearer_char by metis
  from redact_bearer_step[OF Cons this] d(1) nd show ?thesis using Cons by auto
qed simp

lemma match_bearer_redaction:
  assumes "r = [] \<or> \<not> bearer_char (hd r)"
    and "''Bearer [redacted]'' @ redact_bearer r = pre @ suf" and "length pre < 17"
    and "match_bearer suf = Some (tok, rest)"
  shows "tok = ''[redacted]''"
proof (cases pre)
  case Nil
  have "match_bearer (''Bearer'' @ '' '' @ CHR ''['' # (''redacted]'' @ redact_bearer r)) =
          Some (takeWhile bearer_char (''[redacted]'' @ redact_bearer r),
                dropWhile bearer_char (''[redacted]'' @ redact_bearer r))"
    by (subst match_bearer_intro)
      (simp_all add: js_lower_def to_lower_eq_iff is_upper_def is_ws_def bearer_char_def)
  with Nil assms have "tok = takeWhile bearer_char (''[redacted]'' @ redact_bearer r)" by simp
  also have "\<dots> = ''[redacted]''"
    using redact_bearer_stops[OF assms(1)]
    by (simp add: takeWhile_append bearer_char_def is_ws_def)
  finally show ?thesis .
next
  case (Cons p ps)
  define h where "h = ''Bearer [redacted]'' ! length pre"
  have "suf ! 0 = (''Bearer [redacted]'' @ redact_bearer r) ! length pre"
    using assms(2) by (metis add.right_neutral nth_append_length_plus)
  also have "\<dots> = h" using assms(3) by (subst nth_append) (simp add: h_def)
  finally have "hd suf = h"
    using assms(2,3,4) by (metis hd_conv_nth match_bearer_SomeE append_is_Nil_conv list.distinct(1))
  moreover have "suf \<noteq> []" using assms(4) by (auto elim: match_bearer_SomeE)
  ultimately have "to_lower h = CHR ''b''"
    using assms(4) match_bearer_first by (cases suf) auto
  moreover have "h \<in> set ''earer [redacted]''"
    using Cons assms(3) by (auto simp: h_def nth_Cons' split: if_splits)
  ultimately show ?thesis by (auto simp: to_lower_eq_iff is_upper_def)
qed

lemma redact_bearer_hides:
  "redact_bearer s = pre @ suf \<Longrightarrow> match_bearer suf = Some (tok, rest) \<Longrightarrow> tok = ''[redacted]''"
proof (induction s arbitrary: pre rule: redact_bearer.induct)
  case 1
  then show ?case by (auto elim: match_bearer_SomeE)
next
  case (2 c cs)
  show ?case
  proof (cases "match_bearer (c # cs)")
    case None
    then have out: "c # redact_bearer cs = pre @ suf"
      using "2.prems"(1) by (simp add: redact_bearer.simps(2))
    show ?thesis
    proof (cases pre)
      case Nil
      with out "2.prems"(2) None show ?thesis using match_bearer_redacted_copy[of c cs] by auto
    next
      case (Cons p ps)
      with out have "redact_bearer cs = ps @ suf" by simp
      with "2.IH"(1)[OF None] "2.prems"(2) show ?thesis by blast
    qed
  next
    case (Some m)
    obtain t r where m: "m = (t, r)" by (cases m)
    have out: "''Bearer [redacted]'' @ redact_bearer r = pre @ suf"
      using "2.prems"(1) Some m by (simp add: redact_bearer.simps(2))
    have r: "r = [] \<or> \<not> bearer_char (hd r)"
      using Some m by (simp add: match_bearer_rest)
    show ?thesis
    proof (cases "length pre < 17")
      case True
      with match_bearer_redaction[OF r out] "2.prems"(2) show ?thesis by blast
    next
      case False
      then have "redact_bearer r = drop 17 pre @ suf"
        using arg_cong[OF out, of "drop 17"] by simp
      with "2.IH"(2) Some m "2.prems"(2) show ?thesis by blast
    qed
  qed
qed

section \<open>No value under a credential-like key survives\<close>

text \<open>\<open>secret_free n v\<close>: in the outermost \<open>n\<close> levels of \<open>v\<close>, every entry with a sensitive key
  holds the redaction mark.\<close>

primrec secret_free :: "nat \<Rightarrow> json \<Rightarrow> bool" where
  "secret_free 0 v = True"
| "secret_free (Suc n) v =
     (case v of
        JArr xs \<Rightarrow> list_all (secret_free n) xs
      | JObj r \<Rightarrow> list_all (\<lambda>(k, w). if sensitive_key k then w = JStr ''[redacted]''
                                     else secret_free n w) r
      | _ \<Rightarrow> True)"

lemma redactValue_secret_free: "secret_free (5 - d) (redactValue d v)"
proof (induction d v rule: redactValue.induct)
  case (1 d v)
  show ?case
  proof (cases "d > 4")
    case False
    then have n: "5 - d = Suc (5 - (d + 1))" by simp
    show ?thesis
    proof (cases v)
      case (JArr xs)
      with 1(1)[OF JArr False] show ?thesis
        unfolding n redactValue.simps[of d v] using False
        by (simp add: list_all_iff del: diff_Suc_Suc)
    next
      case (JObj r)
      with 1(2)[OF JObj False] show ?thesis
        unfolding n redactValue.simps[of d v] using False
        by (auto simp: list_all_iff simp del: diff_Suc_Suc)
    qed (simp_all add: n)
  qed simp
qed

end
