(* ===== verification/Runtime_Codec.thy ===== *)
theory Runtime_Codec
  imports Runtime_Errors
begin

text \<open>
  \<^verbatim>\<open>packages/capture-runtime-client/src/codec.ts\<close>: the strict checks a runtime response
  passes before the client hands it on. Each checker returns \<open>Inr ()\<close> where the source
  returns and \<open>Inl e\<close> where it throws \<open>e\<close>. \<open>Date.parse\<close> accepts implementation-defined
  formats, so it is the argument \<open>date_parse\<close> of the definitions that use it.
\<close>

section \<open>Response models\<close>

datatype RuntimeResponseModel =
    RuntimeReady
  | RuntimeStreamingCapabilities
  | RuntimeRequirement
  | RuntimeRequirements
  | RuntimeInstallation
  | RuntimeInstallations
  | RuntimeModelInstallation
  | RuntimeModelOptions
  | RawCapture
  | CaptureOcrProjection
  | CaptureDocument
  | CaptureOperation
  | Ingestion
  | PartialCapture
  | StreamingResult
  | StructuringSession
  | StructuringBatch

fun model_name :: "RuntimeResponseModel \<Rightarrow> string" where
  "model_name RuntimeReady = ''RuntimeReady''"
| "model_name RuntimeStreamingCapabilities = ''RuntimeStreamingCapabilities''"
| "model_name RuntimeRequirement = ''RuntimeRequirement''"
| "model_name RuntimeRequirements = ''RuntimeRequirements''"
| "model_name RuntimeInstallation = ''RuntimeInstallation''"
| "model_name RuntimeInstallations = ''RuntimeInstallations''"
| "model_name RuntimeModelInstallation = ''RuntimeModelInstallation''"
| "model_name RuntimeModelOptions = ''RuntimeModelOptions''"
| "model_name RawCapture = ''RawCapture''"
| "model_name CaptureOcrProjection = ''CaptureOcrProjection''"
| "model_name CaptureDocument = ''CaptureDocument''"
| "model_name CaptureOperation = ''CaptureOperation''"
| "model_name Ingestion = ''Ingestion''"
| "model_name PartialCapture = ''PartialCapture''"
| "model_name StreamingResult = ''StreamingResult''"
| "model_name StructuringSession = ''StructuringSession''"
| "model_name StructuringBatch = ''StructuringBatch''"

text \<open>Required and optional fields.\<close>

fun MODEL_FIELDS :: "RuntimeResponseModel \<Rightarrow> string list \<times> string list" where
  "MODEL_FIELDS RuntimeReady =
     ([''ready'', ''service'', ''apiVersion'', ''runtimeVersion'', ''captureDocumentSchemaVersion'',
       ''capabilities''],
      [''message'', ''captureDocumentSchemaSha256'', ''schemaSha256'', ''contractSetVersion'',
       ''ocrCompute''])"
| "MODEL_FIELDS RuntimeStreamingCapabilities =
     ([''protocolVersion'', ''maxChunkBytes'', ''checkpointIntervalMs'', ''heartbeatIntervalMs'',
       ''stallTimeoutMs''],
      [''captureKinds'', ''supportsProgressiveAudio''])"
| "MODEL_FIELDS RuntimeRequirement =
     ([''requirementId'', ''kind'', ''displayName'', ''status'', ''requiredFor'', ''installStrategy''],
      [''optional'', ''detail'', ''artifact'', ''downloadBytes''])"
| "MODEL_FIELDS RuntimeRequirements = ([''items''], [])"
| "MODEL_FIELDS RuntimeInstallation =
     ([''installationId'', ''requirementId'', ''status'', ''progress'', ''createdAt'', ''updatedAt''],
      [''error'', ''completedAt'', ''downloadBytes'', ''downloadedBytes''])"
| "MODEL_FIELDS RuntimeInstallations = ([''items''], [])"
| "MODEL_FIELDS RuntimeModelInstallation =
     ([''installationId'', ''optionId'', ''status'', ''progress'', ''createdAt'', ''updatedAt''],
      [''error'', ''completedAt''])"
| "MODEL_FIELDS RuntimeModelOptions = ([''catalogSha256'', ''items''], [])"
| "MODEL_FIELDS RawCapture =
     ([''schemaVersion'', ''diagnosticOnly'', ''source'', ''segments'', ''sourceText'',
       ''extractionEngine'', ''createdAt''],
      [''diarizationEngine'', ''speakers'', ''suggestedUnits'', ''warnings'', ''ocrPageScope''])"
| "MODEL_FIELDS CaptureOcrProjection =
     ([''apiVersion'', ''schemaVersion'', ''captureId'', ''status'', ''pages'', ''pageCount'',
       ''runtimeVersion'', ''contractSha256'', ''provenance'', ''createdAt''],
      [''source'', ''warnings'', ''failure''])"
| "MODEL_FIELDS CaptureDocument =
     ([''blocks'', ''completedAt'', ''createdAt'', ''extractionEngine'', ''rawSegments'',
       ''schemaVersion'', ''source'', ''sourceText'', ''structuringEngine'', ''targetText''],
      [''diarizationEngine'', ''speakers'', ''suggestedUnits'', ''warnings''])"
| "MODEL_FIELDS CaptureOperation =
     ([''protocolVersion'', ''captureId'', ''ingestionId'', ''status'', ''partialRevision'',
       ''lastEventSequence'', ''createdAt'', ''updatedAt''],
      [''kind'', ''progress'', ''source'', ''error'', ''completedAt'', ''pagesTotal'', ''pagesDone'',
       ''durationMs'', ''coveredUntilMs''])"
| "MODEL_FIELDS Ingestion =
     ([''protocolVersion'', ''ingestionId'', ''status'', ''fileName'', ''mediaType'', ''totalBytes'',
       ''receivedBytes'', ''contiguousBytes'', ''nextChunkIndex'', ''nextOffset'', ''expiresAt''],
      [''kind'', ''sourceSha256'', ''finalizedSha256''])"
| "MODEL_FIELDS PartialCapture =
     ([''protocolVersion'', ''captureId'', ''source'', ''revision'', ''coveredUntilMs'', ''updatedAt''],
      [''segments'', ''sourceText'', ''extractionEngine''])"
| "MODEL_FIELDS StreamingResult = ([''operation'', ''raw'', ''result''], [])"
| "MODEL_FIELDS StructuringSession =
     ([''protocolVersion'', ''sessionId'', ''captureId'', ''rawSourceSha256'', ''contractSetSha256'',
       ''providerCapability'', ''schemaDialect'', ''batchCount'', ''nextBatchIndex'', ''sessionDigest'',
       ''status'', ''createdAt'', ''updatedAt''],
      [''targetLanguage'', ''completedAt''])"
| "MODEL_FIELDS StructuringBatch =
     ([''protocolVersion'', ''sessionId'', ''captureId'', ''batchIndex'', ''batchCount'',
       ''sourceSegmentIds'', ''providerPrompt'', ''providerSchema'', ''numCtx'', ''numPredict'',
       ''batchDigest'', ''status''], [])"

definition RUNTIME_VERSION :: string where
  "RUNTIME_VERSION = ''0.9.0''"

section \<open>Field checks\<close>

definition asRecord :: "json \<Rightarrow> string \<Rightarrow> exn + jobj" where
  "asRecord value label =
     (case value of JObj r \<Rightarrow> Inr r
      | _ \<Rightarrow> Inl (protocol_error (''Capture Runtime returned invalid '' @ label @ ''.'')))"

text \<open>
  \<open>Object.keys(record).find(...)\<close> and then \<open>if (unknown) throw\<close>: the empty key is falsy, so a
  first unknown key that is empty is let through together with every later one.
\<close>

definition check_fields :: "jobj \<Rightarrow> string list \<Rightarrow> string list \<Rightarrow> string \<Rightarrow> exn + unit" where
  "check_fields record required optional label =
     then_res
       (case List.find (\<lambda>k. k \<notin> set (required @ optional)) (map fst record) of
          None \<Rightarrow> Inr ()
        | Some u \<Rightarrow> throw_if (u \<noteq> []) (protocol_error
            (''Capture Runtime returned unknown '' @ label @ '' field: '' @ u @ ''.'')))
       (case List.find (\<lambda>k. \<not> has_key record k) required of
          None \<Rightarrow> Inr ()
        | Some m \<Rightarrow> throw_if (m \<noteq> []) (protocol_error
            (''Capture Runtime returned '' @ label @ '' without required field: '' @ m @ ''.'')))"

definition assertExactFields ::
  "jobj \<Rightarrow> string list \<Rightarrow> string \<Rightarrow> string list \<Rightarrow> exn + unit" where
  "assertExactFields record required label optional = check_fields record required optional label"

definition isSafeIntegerAtLeast :: "json \<Rightarrow> int \<Rightarrow> bool" where
  "isSafeIntegerAtLeast value minimum =
     (case value of JNum n \<Rightarrow> js_isSafeInteger n \<and> js_le (num minimum) n | _ \<Rightarrow> False)"

text \<open>\<open>/(?:Z|[+-]\d{2}:\d{2})$/u\<close>\<close>

definition has_zone_suffix :: "string \<Rightarrow> bool" where
  "has_zone_suffix s =
     (case rev s of
        c # t \<Rightarrow>
          c = CHR ''Z''
          \<or> (case t of b # col # d2 # d1 # sg # _ \<Rightarrow>
                is_digit c \<and> is_digit b \<and> col = CHR '':'' \<and> is_digit d2 \<and> is_digit d1
                \<and> (sg = CHR ''+'' \<or> sg = CHR ''-'')
             | _ \<Rightarrow> False)
      | [] \<Rightarrow> False)"

definition isTimestamp :: "(string \<Rightarrow> jnum) \<Rightarrow> json \<Rightarrow> bool" where
  "isTimestamp date_parse value =
     (case value of JStr s \<Rightarrow> js_isFinite (date_parse s) \<and> has_zone_suffix s | _ \<Rightarrow> False)"

definition str_in :: "json \<Rightarrow> string list \<Rightarrow> bool" where
  "str_in value options = (case value of JStr s \<Rightarrow> s \<in> set options | _ \<Rightarrow> False)"

definition isOcrProjectionStatus :: "json \<Rightarrow> bool" where
  "isOcrProjectionStatus v = str_in v [''completed'', ''failed'']"

definition isOcrPageStatus :: "json \<Rightarrow> bool" where
  "isOcrPageStatus v = str_in v [''recognized'', ''empty'', ''failed'']"

definition isOcrAdapterClass :: "json \<Rightarrow> bool" where
  "isOcrAdapterClass v = str_in v [''dedicated'', ''integrated'', ''unknown'']"

definition isOcrComputeMode :: "json \<Rightarrow> bool" where
  "isOcrComputeMode v = str_in v [''gpu-dml'', ''cpu-fallback'']"

definition isOcrComputeReasonCode :: "json \<Rightarrow> bool" where
  "isOcrComputeReasonCode v = str_in v [''no_compatible_gpu'', ''dml_provider_unavailable'']"

text \<open>Recurring conditions: a string with non-blank text, a SHA-256 in hexadecimal, a number
  between 0 and 1.\<close>

definition is_text :: "json \<Rightarrow> bool" where
  "is_text v = (case v of JStr s \<Rightarrow> \<not> blank s | _ \<Rightarrow> False)"

definition is_sha :: "json \<Rightarrow> bool" where
  "is_sha v = (case v of JStr s \<Rightarrow> is_sha256_hex s | _ \<Rightarrow> False)"

definition str_longer :: "json \<Rightarrow> nat \<Rightarrow> bool" where
  "str_longer v n = (case v of JStr s \<Rightarrow> n < length s | _ \<Rightarrow> False)"

definition in_range :: "json \<Rightarrow> jnum \<Rightarrow> jnum \<Rightarrow> bool" where
  "in_range v lo hi =
     (case v of JNum n \<Rightarrow> js_isFinite n \<and> \<not> js_lt n lo \<and> \<not> js_lt hi n | _ \<Rightarrow> False)"

definition is_unit_number :: "json \<Rightarrow> bool" where
  "is_unit_number v = in_range v (num 0) (num 1)"

section \<open>Progress counters\<close>

definition assertCaptureProgress :: "jobj \<Rightarrow> string \<Rightarrow> exn + unit" where
  "assertCaptureProgress record label =
     (let kind = coalesce (fld record ''kind'') (JStr ''audio'');
          done = coalesce (fld record ''pagesDone'') JNull;
          total = coalesce (fld record ''pagesTotal'') JNull
      in then_res
           (throw_if ((done \<noteq> JNull \<or> total \<noteq> JNull)
                \<and> (kind \<noteq> JStr ''pdf'' \<and> kind \<noteq> JStr ''image''
                   \<or> \<not> isSafeIntegerAtLeast total 1 \<or> \<not> isSafeIntegerAtLeast done 0
                   \<or> js_less total done))
              (protocol_error (''Capture Runtime returned invalid '' @ label @ '' page progress.'')))
           (for_each
              (\<lambda>field. let value = coalesce (fld record field) JNull
                in throw_if (value \<noteq> JNull
                       \<and> (kind \<noteq> JStr ''audio'' \<or> \<not> isSafeIntegerAtLeast value 0))
                     (protocol_error (''Capture Runtime returned invalid '' @ label @ '' '' @ field @ ''.'')))
              (if label = ''CaptureOperation'' then [''durationMs'', ''coveredUntilMs'']
               else [''durationMs''])))"

definition validateRuntimeInstallationDownload :: "jobj \<Rightarrow> exn + unit" where
  "validateRuntimeInstallationDownload record =
     (let total = coalesce (fld record ''downloadBytes'') JNull;
          done = coalesce (fld record ''downloadedBytes'') JNull
      in if total = JNull \<and> done = JNull then Inr ()
         else throw_if (\<not> isSafeIntegerAtLeast total 1 \<or> \<not> isSafeIntegerAtLeast done 0
                        \<or> js_less total done)
                (protocol_error ''Capture Runtime returned invalid RuntimeInstallation download bytes.''))"

section \<open>Readiness\<close>

definition validateRuntimeReady :: "jobj \<Rightarrow> exn + unit" where
  "validateRuntimeReady record =
     (let preflight = fld record ''ocrCompute''
      in if nullish preflight then Inr ()
         else bind_res (asRecord preflight ''RuntimeReady ocrCompute'') (\<lambda>compute.
           let worker = fld compute ''workerSha256''; mode = fld compute ''mode'';
               reasonCode = fld compute ''reasonCode''; noticeCode = fld compute ''noticeCode'';
               required = fld compute ''userNoticeRequired''
           in then_res (assertExactFields compute
                [''apiVersion'', ''schemaVersion'', ''service'', ''runtimeVersion'',
                 ''contractSetVersion'', ''contractSha256'', ''mode'', ''adapterClass'',
                 ''userNoticeRequired'']
                ''RuntimeReady ocrCompute'' [''workerSha256'', ''reasonCode'', ''noticeCode''])
              (then_res (throw_if
                (fld compute ''apiVersion'' \<noteq> JStr ''2.0''
                 \<or> fld compute ''schemaVersion'' \<noteq> JStr ''1''
                 \<or> fld compute ''service'' \<noteq> JStr ''capture-runtime''
                 \<or> fld compute ''runtimeVersion'' \<noteq> JStr RUNTIME_VERSION
                 \<or> fld compute ''contractSetVersion'' \<noteq> JStr ''2''
                 \<or> \<not> is_sha (fld compute ''contractSha256'')
                 \<or> (\<not> nullish worker \<and> \<not> is_sha worker)
                 \<or> \<not> isOcrComputeMode mode
                 \<or> \<not> isOcrAdapterClass (fld compute ''adapterClass'')
                 \<or> (required \<noteq> JBool True \<and> required \<noteq> JBool False))
                (protocol_error ''Capture Runtime returned an invalid OCR compute preflight.''))
              (then_res (throw_if (\<not> nullish reasonCode \<and> \<not> isOcrComputeReasonCode reasonCode)
                (protocol_error ''Capture Runtime returned an invalid OCR compute reason code.''))
              (then_res (throw_if (\<not> nullish noticeCode \<and> noticeCode \<noteq> JStr ''ocr_cpu_fallback'')
                (protocol_error ''Capture Runtime returned an invalid OCR compute notice code.''))
              (if mode = JStr ''gpu-dml''
               then throw_if (\<not> nullish reasonCode \<or> truthy required \<or> \<not> nullish noticeCode)
                 (protocol_error ''GPU-DML OCR compute preflight cannot carry a fallback reason or notice.'')
               else throw_if (\<not> isOcrComputeReasonCode reasonCode \<or> required \<noteq> JBool True
                              \<or> noticeCode \<noteq> JStr ''ocr_cpu_fallback'')
                 (protocol_error ''CPU-fallback OCR compute preflight requires a reason and user notice.'')))))))"

section \<open>OCR projection\<close>

text \<open>\<open>/^[a-z][a-z0-9_]{1,63}$/u\<close>\<close>

definition is_failure_code :: "json \<Rightarrow> bool" where
  "is_failure_code v =
     (case v of
        JStr (c # cs) \<Rightarrow> is_lower c \<and> 1 \<le> length cs \<and> length cs \<le> 63
                         \<and> list_all (\<lambda>d. is_lower d \<or> is_digit d \<or> d = CHR ''_'') cs
      | _ \<Rightarrow> False)"

definition validateCaptureFailure :: "json \<Rightarrow> string \<Rightarrow> exn + unit" where
  "validateCaptureFailure value label =
     bind_res (asRecord value label) (\<lambda>failure.
       let stage = fld failure ''stage''; retryable = fld failure ''retryable''
       in then_res (assertExactFields failure [''code'', ''message''] label [''stage'', ''retryable''])
            (throw_if
               (\<not> is_failure_code (fld failure ''code'')
                \<or> \<not> is_text (fld failure ''message'')
                \<or> str_longer (fld failure ''message'') 500
                \<or> (\<not> nullish stage \<and> \<not> is_text stage)
                \<or> (retryable \<noteq> JUndef \<and> retryable \<noteq> JBool True \<and> retryable \<noteq> JBool False))
               (protocol_error (''Capture Runtime returned invalid '' @ label @ ''.''))))"

definition validateCaptureSource :: "json \<Rightarrow> exn + unit" where
  "validateCaptureSource value =
     bind_res (asRecord value ''OCR source'') (\<lambda>source.
       then_res (assertExactFields source [''sha256'', ''fileName'', ''mediaType'', ''bytes'']
                   ''OCR source'' [])
         (throw_if
            (\<not> is_sha (fld source ''sha256'')
             \<or> \<not> is_text (fld source ''fileName'')
             \<or> str_longer (fld source ''fileName'') 255
             \<or> \<not> is_text (fld source ''mediaType'')
             \<or> \<not> isSafeIntegerAtLeast (fld source ''bytes'') 1)
            (protocol_error ''Capture Runtime returned invalid OCR source metadata.'')))"

definition is_model_digest :: "json \<Rightarrow> bool" where
  "is_model_digest v =
     (case v of JStr s \<Rightarrow> starts_with ''sha256:'' s \<and> is_sha256_hex (drop 7 s) | _ \<Rightarrow> False)"

definition validateOcrProvenance :: "json \<Rightarrow> string \<Rightarrow> exn + unit" where
  "validateOcrProvenance value label =
     bind_res (asRecord value label) (\<lambda>provenance.
       let status = fld provenance ''status'';
           invalid = protocol_error (''Capture Runtime returned invalid '' @ label @ ''.'')
       in if status = JStr ''resolved'' then
            then_res (assertExactFields provenance
                [''status'', ''engine'', ''model'', ''modelDigest'', ''device'', ''profileId'',
                 ''profileSpecSha256''] label [])
              (throw_if
                 (fld provenance ''engine'' \<noteq> JStr ''windowsml-ocr''
                  \<or> \<not> is_text (fld provenance ''model'')
                  \<or> \<not> is_model_digest (fld provenance ''modelDigest'')
                  \<or> fld provenance ''modelDigest'' = JStr (''sha256:'' @ replicate 64 CHR ''0'')
                  \<or> \<not> is_text (fld provenance ''device'')
                  \<or> \<not> is_text (fld provenance ''profileId'')
                  \<or> \<not> is_sha (fld provenance ''profileSpecSha256''))
                 invalid)
          else if status = JStr ''unavailable'' then
            then_res (assertExactFields provenance
                [''status'', ''profileId'', ''profileSpecSha256'', ''reason''] label [])
              (throw_if
                 (\<not> is_text (fld provenance ''profileId'')
                  \<or> \<not> is_sha (fld provenance ''profileSpecSha256'')
                  \<or> \<not> str_in (fld provenance ''reason'')
                        [''model_unavailable'', ''worker_crashed'', ''worker_timeout'', ''protocol_failure''])
                 invalid)
          else Inl invalid)"

definition isResolvedOcrProvenance :: "json \<Rightarrow> exn + bool" where
  "isResolvedOcrProvenance value =
     bind_res (asRecord value ''OCR provenance'') (\<lambda>r. Inr (fld r ''status'' = JStr ''resolved''))"

definition sameOcrProvenance :: "json \<Rightarrow> json \<Rightarrow> exn + bool" where
  "sameOcrProvenance left right =
     bind_res (asRecord left ''OCR page provenance'') (\<lambda>l.
     bind_res (asRecord right ''OCR projection provenance'') (\<lambda>r.
       Inr (list_all (\<lambda>k. js_seq (fld l k) (fld r k))
              [''status'', ''engine'', ''model'', ''modelDigest'', ''device'', ''profileId'',
               ''profileSpecSha256'', ''reason''])))"

definition validateOcrRaster :: "json \<Rightarrow> exn + unit" where
  "validateOcrRaster value =
     bind_res (asRecord value ''OCR raster'') (\<lambda>raster.
       then_res (assertExactFields raster [''width'', ''height'', ''scale'', ''coordinateSystem'']
                   ''OCR raster'' [])
         (throw_if
            (\<not> isSafeIntegerAtLeast (fld raster ''width'') 1
             \<or> \<not> isSafeIntegerAtLeast (fld raster ''height'') 1
             \<or> \<not> in_range (fld raster ''scale'') (num 0) (num 8)
             \<or> fld raster ''scale'' = JNum (num 0)
             \<or> fld raster ''coordinateSystem'' \<noteq> JStr ''pixel'')
            (protocol_error ''Capture Runtime returned invalid OCR raster bounds.'')))"

definition validateOcrBox :: "json \<Rightarrow> json \<Rightarrow> exn + unit" where
  "validateOcrBox value rasterValue =
     bind_res (asRecord value ''OCR box'') (\<lambda>box.
     then_res (assertExactFields box [''polygon'', ''text'', ''confidence''] ''OCR box'' [])
     (bind_res (asRecord rasterValue ''OCR raster'') (\<lambda>raster.
       let bad_polygon = protocol_error
             ''Capture Runtime OCR boxes must contain between four and 256 polygon points.''
       in case fld box ''polygon'' of
            JArr polygon \<Rightarrow>
              then_res (throw_if (length polygon < 4 \<or> 256 < length polygon) bad_polygon)
              (then_res (for_each (\<lambda>pointValue.
                  bind_res (asRecord pointValue ''OCR polygon point'') (\<lambda>point.
                  then_res (assertExactFields point [''x'', ''y''] ''OCR polygon point'' [])
                    (throw_if
                       (\<not> in_range (fld point ''x'') (num 0) (to_number (fld raster ''width''))
                        \<or> \<not> in_range (fld point ''y'') (num 0) (to_number (fld raster ''height'')))
                       (protocol_error ''Capture Runtime OCR polygon points must be finite, non-negative, and inside raster bounds.''))))
                 polygon)
              (then_res (throw_if (\<not> is_text (fld box ''text'') \<or> str_longer (fld box ''text'') 8000000)
                 (protocol_error ''Capture Runtime returned invalid OCR box text.''))
              (throw_if (fld box ''confidence'' \<noteq> JNull \<and> \<not> is_unit_number (fld box ''confidence''))
                 (protocol_error ''Capture Runtime returned invalid OCR box confidence.''))))
          | _ \<Rightarrow> Inl bad_polygon)))"

text \<open>The last part of \<open>validateOcrPage\<close>: which content a page of each status may carry.\<close>

definition page_content_ok :: "json \<Rightarrow> json \<Rightarrow> json \<Rightarrow> json \<Rightarrow> json \<Rightarrow> exn + unit" where
  "page_content_ok status text boxes confidence failure =
     (let has_text = is_text text;
          has_boxes = (case boxes of JArr bs \<Rightarrow> bs \<noteq> [] | _ \<Rightarrow> False)
      in if status = JStr ''recognized'' then
           throw_if (\<not> has_text \<or> \<not> is_unit_number confidence \<or> \<not> nullish failure)
             (protocol_error ''Recognized OCR pages require text and no failure.'')
         else if status = JStr ''empty'' then
           throw_if (has_text \<or> has_boxes \<or> \<not> nullish confidence \<or> \<not> nullish failure)
             (protocol_error ''Empty OCR pages must not contain text, boxes, confidence, or failure.'')
         else
           throw_if (has_text \<or> has_boxes \<or> \<not> nullish confidence \<or> nullish failure)
             (protocol_error ''Failed OCR pages require only a typed failure.''))"

definition validateOcrPage :: "jobj \<Rightarrow> json \<Rightarrow> exn + unit" where
  "validateOcrPage page documentProvenance =
     (let status = fld page ''status''; text = fld page ''text''; boxes = fld page ''boxes'';
          confidence = fld page ''confidence''; provenance = fld page ''provenance'';
          failure = fld page ''failure''
      in then_res (assertExactFields page [''page'', ''status'', ''raster'', ''provenance'']
                     ''OCR page projection'' [''text'', ''boxes'', ''confidence'', ''failure''])
         (then_res (throw_if (\<not> isSafeIntegerAtLeast (fld page ''page'') 1 \<or> \<not> isOcrPageStatus status)
            (protocol_error ''Capture Runtime returned an invalid OCR page identity.''))
         (then_res (validateOcrRaster (fld page ''raster''))
         (then_res (throw_if (text \<noteq> JUndef \<and> \<not> is_str text)
            (protocol_error ''Capture Runtime returned invalid OCR page text.''))
         (then_res (throw_if (str_longer text 8000000)
            (protocol_error ''Capture Runtime returned OCR page text over the limit.''))
         (then_res (case boxes of
              JUndef \<Rightarrow> Inr ()
            | JArr bs \<Rightarrow>
                then_res (throw_if (100000 < length bs)
                   (protocol_error ''Capture Runtime returned invalid OCR page boxes.''))
                 (for_each (\<lambda>box. validateOcrBox box (fld page ''raster'')) bs)
            | _ \<Rightarrow> Inl (protocol_error ''Capture Runtime returned invalid OCR page boxes.''))
         (then_res (throw_if (\<not> nullish confidence \<and> \<not> is_unit_number confidence)
            (protocol_error ''Capture Runtime returned invalid OCR page confidence.''))
         (then_res (validateOcrProvenance provenance ''OCR page provenance'')
         (bind_res (isResolvedOcrProvenance provenance) (\<lambda>resolved.
          then_res (throw_if ((status = JStr ''recognized'' \<or> status = JStr ''empty'') \<and> \<not> resolved)
            (protocol_error ''Recognized and empty OCR pages require resolved provenance.''))
         (bind_res (sameOcrProvenance provenance documentProvenance) (\<lambda>same.
          then_res (throw_if (\<not> same)
            (protocol_error ''Capture Runtime page OCR provenance must match document provenance.''))
         (then_res (if nullish failure then Inr ()
                    else validateCaptureFailure failure ''OCR page failure'')
         (page_content_ok status text boxes confidence failure))))))))))))))"

text \<open>\<open>Array.prototype.some\<close> with a predicate that may throw.\<close>

fun some_res :: "('a \<Rightarrow> 'e + bool) \<Rightarrow> 'a list \<Rightarrow> 'e + bool" where
  "some_res p [] = Inr False"
| "some_res p (x # xs) = bind_res (p x) (\<lambda>b. if b then Inr True else some_res p xs)"

text \<open>The loop over the pages: it checks each page, keeps the previous page number and
  collects the page records.\<close>

fun check_pages :: "json \<Rightarrow> jnum \<Rightarrow> json list \<Rightarrow> exn + jobj list" where
  "check_pages provenance previousPage [] = Inr []"
| "check_pages provenance previousPage (value # values) =
     bind_res (asRecord value ''OCR page projection'') (\<lambda>page.
     then_res (validateOcrPage page provenance)
     (then_res (throw_if (js_le (to_number (fld page ''page'')) previousPage)
        (protocol_error ''Capture Runtime OCR pages must be in ascending source page order.''))
     (bind_res (check_pages provenance (to_number (fld page ''page'')) values)
        (\<lambda>rest. Inr (page # rest)))))"

definition check_warnings :: "json \<Rightarrow> exn + unit" where
  "check_warnings warnings =
     (case warnings of
        JUndef \<Rightarrow> Inr ()
      | JArr ws \<Rightarrow>
          then_res (throw_if (1000 < length ws)
             (protocol_error ''Capture Runtime returned invalid OCR projection warnings.''))
            (for_each (\<lambda>w. throw_if (\<not> is_str w \<or> str_longer w 500)
               (protocol_error ''Capture Runtime returned an invalid OCR projection warning.'')) ws)
      | _ \<Rightarrow> Inl (protocol_error ''Capture Runtime returned invalid OCR projection warnings.''))"

text \<open>The conditions on the header fields of a projection, in the source's order.\<close>

definition check_projection_header :: "(string \<Rightarrow> jnum) \<Rightarrow> jobj \<Rightarrow> exn + unit" where
  "check_projection_header date_parse record =
     then_res (throw_if (fld record ''apiVersion'' \<noteq> JStr ''2.0'' \<or> fld record ''schemaVersion'' \<noteq> JStr ''3'')
        (protocol_error ''Capture Runtime returned an OCR projection with an incompatible version.''))
    (then_res (throw_if (\<not> is_text (fld record ''captureId''))
        (protocol_error ''Capture Runtime returned an OCR projection with an invalid captureId.''))
    (then_res (throw_if (\<not> isOcrProjectionStatus (fld record ''status''))
        (protocol_error ''Capture Runtime returned an OCR projection with an invalid status.''))
    (then_res (throw_if (\<not> isTimestamp date_parse (fld record ''createdAt''))
        (protocol_error ''Capture Runtime returned an OCR projection with an invalid createdAt.''))
    (then_res (throw_if
        (\<not> isSafeIntegerAtLeast (fld record ''pageCount'') 0
         \<or> js_less (JNum (num 500)) (fld record ''pageCount'')
         \<or> \<not> js_seq (fld record ''pageCount'')
               (JNum (case fld record ''pages'' of JArr ps \<Rightarrow> num (int (length ps)) | _ \<Rightarrow> num (-1))))
        (protocol_error ''Capture Runtime returned an OCR projection with an invalid pageCount.''))
    (then_res (throw_if (fld record ''runtimeVersion'' \<noteq> JStr RUNTIME_VERSION)
        (protocol_error ''Capture Runtime returned an OCR projection with an incompatible runtimeVersion.''))
    (throw_if (\<not> is_sha (fld record ''contractSha256''))
        (protocol_error ''Capture Runtime returned an OCR projection with an invalid contractSha256.'')))))))"

text \<open>The conditions that tie the status of a projection to its pages, source and failure.\<close>

definition check_projection_outcome ::
  "json \<Rightarrow> json \<Rightarrow> json \<Rightarrow> json \<Rightarrow> jobj list \<Rightarrow> exn + unit" where
  "check_projection_outcome status source failure provenance pageProjections =
     (if status = JStr ''completed'' then
        then_res (throw_if (pageProjections = [] \<or> nullish source \<or> \<not> nullish failure)
           (protocol_error ''Completed OCR projections require pages, source, provenance, and no failure.''))
       (then_res (throw_if (\<exists>p \<in> set pageProjections. fld p ''status'' = JStr ''failed'')
           (protocol_error ''Completed OCR projections must not contain failed pages.''))
       (then_res (throw_if (\<not> (\<exists>p \<in> set pageProjections. fld p ''status'' = JStr ''recognized''))
           (protocol_error ''Completed OCR projections must contain recognized text.''))
       (bind_res (some_res (\<lambda>page. if nullish (fld page ''provenance'') then Inr True
                     else bind_res (sameOcrProvenance (fld page ''provenance'') provenance)
                            (\<lambda>same. Inr (\<not> same))) pageProjections)
          (\<lambda>mismatch. throw_if mismatch
             (protocol_error ''Completed OCR pages require provenance matching the document provenance.'')))))
      else throw_if (nullish failure)
             (protocol_error ''Failed OCR projections require a typed failure.''))"

definition validateCaptureOcrProjection :: "(string \<Rightarrow> jnum) \<Rightarrow> jobj \<Rightarrow> exn + unit" where
  "validateCaptureOcrProjection date_parse record =
     (let source = fld record ''source''; provenance = fld record ''provenance'';
          failure = fld record ''failure''; status = fld record ''status''
      in then_res (check_projection_header date_parse record)
        (then_res (if nullish source then Inr () else validateCaptureSource source)
        (then_res (validateOcrProvenance provenance ''OCR projection provenance'')
        (bind_res (isResolvedOcrProvenance provenance) (\<lambda>resolved.
         then_res (throw_if (status = JStr ''completed'' \<and> \<not> resolved)
            (protocol_error ''Completed OCR projections require resolved provenance.''))
        (then_res (if nullish failure then Inr ()
                   else validateCaptureFailure failure ''OCR projection failure'')
        (then_res (check_warnings (fld record ''warnings''))
        (case fld record ''pages'' of
           JArr pages \<Rightarrow>
             then_res (throw_if (500 < length pages)
                (protocol_error ''Capture Runtime returned invalid OCR projection pages.''))
               (bind_res (check_pages provenance (num 0) pages)
                  (check_projection_outcome status source failure provenance))
         | _ \<Rightarrow> Inl (protocol_error ''Capture Runtime returned invalid OCR projection pages.'')))))))))"

section \<open>Structuring sessions and batches\<close>

definition milliseconds :: "json \<Rightarrow> bool" where
  "milliseconds v = (case v of JNum n \<Rightarrow> js_isInteger n \<and> js_le (num 0) n | _ \<Rightarrow> False)"

definition validateStructuringSession :: "jobj \<Rightarrow> exn + unit" where
  "validateStructuringSession record =
     (case fld record ''providerCapability'' of
        JObj provider \<Rightarrow>
          then_res (assertExactFields provider [''provider'', ''capability'', ''schemaDialect'']
                      ''StructuringSession provider capability'' [])
          (case fld provider ''provider'' of
             JObj engine \<Rightarrow>
               (let device = fld engine ''device''; elapsedMs = fld engine ''elapsedMs'';
                    stageMs = fld engine ''stageMs''
                in then_res (assertExactFields engine [''engine'', ''model'', ''digest'']
                      ''StructuringSession provider'' [''device'', ''elapsedMs'', ''stageMs''])
                  (then_res (throw_if (\<not> nullish device \<and> \<not> (is_str device \<and> device \<noteq> JStr []))
                      (protocol_error ''Capture Runtime returned invalid StructuringSession provider device.''))
                  (throw_if
                     ((\<not> nullish elapsedMs \<and> \<not> milliseconds elapsedMs)
                      \<or> (\<not> nullish stageMs
                          \<and> (case stageMs of
                                JObj entries \<Rightarrow>
                                  (\<exists>(name, value) \<in> set entries. blank name \<or> \<not> milliseconds value)
                              | _ \<Rightarrow> True)))
                     (protocol_error ''Capture Runtime returned invalid StructuringSession provider processing times.''))))
           | _ \<Rightarrow> Inl (protocol_error ''Capture Runtime returned invalid StructuringSession provider.''))
      | _ \<Rightarrow> Inl (protocol_error ''Capture Runtime returned invalid StructuringSession provider capability.''))"

definition is_nonempty_str :: "json \<Rightarrow> bool" where
  "is_nonempty_str v = (case v of JStr s \<Rightarrow> s \<noteq> [] | _ \<Rightarrow> False)"

definition validateStructuringBatch :: "jobj \<Rightarrow> exn + unit" where
  "validateStructuringBatch record =
     then_res (throw_if (\<not> (case fld record ''sourceSegmentIds'' of
                              JArr ids \<Rightarrow> ids \<noteq> [] \<and> list_all is_nonempty_str ids | _ \<Rightarrow> False))
        (protocol_error ''Capture Runtime returned invalid StructuringBatch sourceSegmentIds.''))
       (for_each (\<lambda>field. throw_if (\<not> (case fld record field of JObj _ \<Rightarrow> True | _ \<Rightarrow> False))
          (protocol_error (''Capture Runtime returned invalid StructuringBatch '' @ field @ ''.'')))
        [''providerPrompt'', ''providerSchema''])"

definition check_semantic_block :: "json \<Rightarrow> exn + unit" where
  "check_semantic_block block =
     (case block of
        JObj semantic \<Rightarrow>
          (let targetText = fld semantic ''targetText''
           in then_res (assertExactFields semantic [''sourceSegmentId'', ''type'']
                 ''structuring semantic block'' [''targetText''])
             (then_res (throw_if (\<not> is_nonempty_str (fld semantic ''sourceSegmentId''))
                 (protocol_error ''Capture Runtime structuring semantic block sourceSegmentId is invalid.''))
             (then_res (throw_if (\<not> str_in (fld semantic ''type'')
                   [''heading'', ''paragraph'', ''list-item'', ''table'', ''quote'', ''transcript''])
                 (protocol_error ''Capture Runtime structuring semantic block type is invalid.''))
             (throw_if (\<not> nullish targetText
                        \<and> (\<not> is_nonempty_str targetText \<or> str_longer targetText 2000000))
                 (protocol_error ''Capture Runtime structuring semantic block targetText is invalid.'')))))
      | _ \<Rightarrow> Inl (protocol_error ''Capture Runtime structuring batch submission block is invalid.''))"

definition assertStructuringBatchSubmission :: "json \<Rightarrow> exn + unit" where
  "assertStructuringBatchSubmission value =
     (case value of
        JObj body \<Rightarrow>
          then_res (assertExactFields body [''batchDigest'', ''blocks'']
             ''structuring batch submission'' [''protocolVersion''])
         (then_res (throw_if (fld body ''protocolVersion'' \<noteq> JUndef
                              \<and> fld body ''protocolVersion'' \<noteq> JStr ''2'')
             (protocol_error ''Capture Runtime structuring batch submission protocolVersion is invalid.''))
         (then_res (throw_if (\<not> is_sha (fld body ''batchDigest''))
             (protocol_error ''Capture Runtime structuring batch submission batchDigest is invalid.''))
         (case fld body ''blocks'' of
            JArr (b # bs) \<Rightarrow> for_each check_semantic_block (b # bs)
          | _ \<Rightarrow> Inl (protocol_error ''Capture Runtime structuring batch submission blocks are invalid.''))))
      | _ \<Rightarrow> Inl (protocol_error ''Capture Runtime structuring batch submission must be an object.''))"

section \<open>The model check\<close>

definition validateModelShape ::
  "(string \<Rightarrow> jnum) \<Rightarrow> json \<Rightarrow> RuntimeResponseModel \<Rightarrow> exn + unit" where
  "validateModelShape date_parse value model =
     (case value of
        JObj record \<Rightarrow>
          then_res (check_fields record (fst (MODEL_FIELDS model)) (snd (MODEL_FIELDS model))
                      (model_name model))
          (case model of
             CaptureOcrProjection \<Rightarrow> validateCaptureOcrProjection date_parse record
           | RuntimeReady \<Rightarrow> validateRuntimeReady record
           | RuntimeInstallation \<Rightarrow> validateRuntimeInstallationDownload record
           | CaptureOperation \<Rightarrow> assertCaptureProgress record ''CaptureOperation''
           | StructuringSession \<Rightarrow> validateStructuringSession record
           | StructuringBatch \<Rightarrow> validateStructuringBatch record
           | _ \<Rightarrow> Inr ())
      | _ \<Rightarrow> Inl (protocol_error (''Capture Runtime returned invalid '' @ model_name model @ '' data.'')))"

definition parseCaptureOcrProjection :: "(string \<Rightarrow> jnum) \<Rightarrow> json \<Rightarrow> exn + json" where
  "parseCaptureOcrProjection date_parse value =
     then_res (validateModelShape date_parse value CaptureOcrProjection) (Inr value)"

section \<open>Responses\<close>

text \<open>
  A \<open>Response\<close> as the client reads it: the status, the headers under lower-case names (header
  lookup ignores case), and what \<open>response.json()\<close>, \<open>response.arrayBuffer()\<close> and the body
  reader deliver. The chunks are
  the texts the streaming \<open>TextDecoder\<close> returns, one per read and the flush at the end;
  \<open>resp_broken\<close> is the error of a reader that rejects after those chunks.
\<close>

record response =
  resp_status :: int
  resp_headers :: "(string \<times> string) list"
  resp_json :: "exn + json"
  resp_bytes :: "exn + nat list"
  resp_chunks :: "string list option"
  resp_broken :: "exn option"

definition resp_ok :: "response \<Rightarrow> bool" where
  "resp_ok r = (200 \<le> resp_status r \<and> resp_status r \<le> 299)"

definition header :: "response \<Rightarrow> string \<Rightarrow> string option" where
  "header r name = map_of (resp_headers r) (js_lower name)"

definition str_opt :: "json \<Rightarrow> string option" where
  "str_opt v = (case v of JStr s \<Rightarrow> Some s | _ \<Rightarrow> None)"

definition object_entries :: "json \<Rightarrow> json list option" where
  "object_entries v =
     (case v of
        JArr xs \<Rightarrow> Some (filter (\<lambda>x. case x of JObj _ \<Rightarrow> True | JArr _ \<Rightarrow> True | _ \<Rightarrow> False) xs)
      | _ \<Rightarrow> None)"

definition first_some :: "'a option list \<Rightarrow> 'a option" where
  "first_some xs = (case List.find (\<lambda>x. x \<noteq> None) xs of None \<Rightarrow> None | Some x \<Rightarrow> x)"

text \<open>
  \<open>decodeError\<close> builds the error; the constructor calls \<open>message.replace\<close>, which throws a
  \<open>TypeError\<close> when the envelope's message is not a string.
\<close>

definition decodeError :: "response \<Rightarrow> exn + rt_error" where
  "decodeError r =
     (let envelope = (case resp_json r of Inl _ \<Rightarrow> JUndef | Inr v \<Rightarrow> v);
          error = jprop envelope ''error'';
          details = jprop error ''details'';
          category = map_option JStr (first_some [str_opt (jprop error ''category''), str_opt (jprop details ''category'')]);
          retryable = (case (jprop error ''retryable'', jprop details ''retryable'') of
                         (JBool b, _) \<Rightarrow> b
                       | (_, JBool b) \<Rightarrow> b
                       | _ \<Rightarrow> 500 \<le> resp_status r);
          issues = first_some [object_entries (jprop error ''issues''), object_entries (jprop details ''issues'')];
          requestId = first_some [header r ''x-request-id'', header r ''x-correlation-id'',
                        str_opt (jprop error ''requestId''), str_opt (jprop details ''requestId'')];
          status = resp_status r;
          code = coalesce (jprop error ''code'') (JStr (''http_'' @ show_int status));
          message = coalesce (jprop error ''message'')
                      (JStr (''Capture Runtime request failed ('' @ show_int status @ '').''))
      in case message of
           JStr m \<Rightarrow>
             if status = 401 \<or> status = 403 \<or> code = JStr ''unauthorized''
                \<or> code = JStr ''authentication_failed''
             then Inr (new_CaptureAuthenticationError m status details requestId)
             else Inr (new_CaptureRemoteError status code m details
                    \<lparr>meta_category = category, meta_retryable = Some retryable,
                     meta_issues = issues, meta_requestId = requestId\<rparr>)
         | _ \<Rightarrow> Inl TypeErr)"

definition thrown_error :: "response \<Rightarrow> exn" where
  "thrown_error r = (case decodeError r of Inl e \<Rightarrow> e | Inr err \<Rightarrow> RuntimeErr err)"

definition decodeJson ::
  "(string \<Rightarrow> jnum) \<Rightarrow> response \<Rightarrow> RuntimeResponseModel option \<Rightarrow> exn + json" where
  "decodeJson date_parse r model =
     (if \<not> resp_ok r then Inl (thrown_error r)
      else if resp_status r = 204 then Inr JUndef
      else (case resp_json r of
              Inl _ \<Rightarrow> Inl (caused_protocol_error ''Capture Runtime returned invalid JSON.'')
            | Inr value \<Rightarrow>
                then_res (throw_if (value = JUndef)
                   (protocol_error ''Capture Runtime returned an empty response.''))
                  (then_res (case model of None \<Rightarrow> Inr ()
                             | Some m \<Rightarrow> validateModelShape date_parse value m)
                     (Inr value))))"

section \<open>What the checks guarantee\<close>

lemma asRecord_Inr_iff [res_simps]: "asRecord v label = Inr r \<longleftrightarrow> v = JObj r"
  by (cases v) (auto simp: asRecord_def)

lemma asRecord_JObj [simp]: "asRecord (JObj r) label = Inr r"
  by (simp add: asRecord_def)

lemma isSafeIntegerAtLeast_iff:
  "isSafeIntegerAtLeast v m \<longleftrightarrow> (\<exists>k. v = JNum (num k) \<and> m \<le> k \<and> \<bar>k\<bar> \<le> max_safe_integer)"
  by (auto simp: isSafeIntegerAtLeast_def split: json.splits elim!: js_isSafeIntegerE)

lemma in_range_iff:
  "in_range v (num lo) (num hi) \<longleftrightarrow> (\<exists>q. v = JNum (Fin q) \<and> of_int lo \<le> q \<and> q \<le> of_int hi)"
  by (auto simp: in_range_def num_def js_isFinite_def not_less split: json.splits jnum.splits)

definition known_keys :: "jobj \<Rightarrow> string list \<Rightarrow> string list \<Rightarrow> bool" where
  "known_keys r required optional =
     (set required \<subseteq> set (map fst r)
      \<and> (set (map fst r) \<subseteq> set required \<union> set optional \<or> [] \<in> set (map fst r)))"

lemma check_fields_known_keys:
  assumes ok: "check_fields r required optional label = Inr ()" and ne: "[] \<notin> set required"
  shows "known_keys r required optional"
proof -
  from ok have unk: "case List.find (\<lambda>k. k \<notin> set (required @ optional)) (map fst r) of
        None \<Rightarrow> True | Some u \<Rightarrow> u = []"
    and mis: "case List.find (\<lambda>k. \<not> has_key r k) required of None \<Rightarrow> True | Some m \<Rightarrow> m = []"
    by (auto simp: check_fields_def res_simps split: option.splits)
  have "set required \<subseteq> set (map fst r)"
  proof (cases "List.find (\<lambda>k. \<not> has_key r k) required")
    case None
    then show ?thesis by (auto simp: find_None_iff_all has_key_def)
  next
    case (Some m)
    with mis have "[] \<in> set required" by (auto dest: find_Some_iff_mem)
    with ne show ?thesis by simp
  qed
  moreover have "set (map fst r) \<subseteq> set required \<union> set optional \<or> [] \<in> set (map fst r)"
  proof (cases "List.find (\<lambda>k. k \<notin> set (required @ optional)) (map fst r)")
    case None
    then show ?thesis by (auto simp: find_None_iff_all)
  next
    case (Some u)
    with unk show ?thesis by (auto dest: find_Some_iff_mem)
  qed
  ultimately show ?thesis by (simp add: known_keys_def)
qed

lemma check_fields_complete:
  assumes "set required \<subseteq> set (map fst r)" and "set (map fst r) \<subseteq> set required \<union> set optional"
  shows "check_fields r required optional label = Inr ()"
proof -
  have "List.find (\<lambda>k. k \<notin> set (required @ optional)) (map fst r) = None"
    using assms(2) by (auto simp: find_None_iff_all)
  moreover have "List.find (\<lambda>k. \<not> has_key r k) required = None"
    using assms(1) by (auto simp: find_None_iff_all has_key_def)
  ultimately show ?thesis by (simp add: check_fields_def)
qed

lemma model_required_nonempty: "[] \<notin> set (fst (MODEL_FIELDS model))"
  by (cases model) simp_all

subsection \<open>Progress counters\<close>

text \<open>The contract of the counters, as the documentation states it.\<close>

definition pages_progress_spec :: "json \<Rightarrow> json \<Rightarrow> json \<Rightarrow> bool" where
  "pages_progress_spec kind dn tot \<longleftrightarrow>
     nullish dn \<and> nullish tot
     \<or> (kind = JStr ''pdf'' \<or> kind = JStr ''image'')
        \<and> (\<exists>d t. dn = JNum (num d) \<and> tot = JNum (num t) \<and> 0 \<le> d \<and> d \<le> t \<and> 1 \<le> t
                 \<and> t \<le> max_safe_integer)"

definition media_time_spec :: "json \<Rightarrow> json \<Rightarrow> bool" where
  "media_time_spec kind v \<longleftrightarrow>
     nullish v \<or> kind = JStr ''audio'' \<and> (\<exists>t. v = JNum (num t) \<and> 0 \<le> t \<and> t \<le> max_safe_integer)"

lemma coalesce_JNull_eq: "coalesce v JNull = JNull \<longleftrightarrow> nullish v"
  by (cases v) simp_all

lemma safe_coalesce [simp]:
  "isSafeIntegerAtLeast (coalesce v JNull) m \<longleftrightarrow> isSafeIntegerAtLeast v m"
  by (cases v) (simp_all add: isSafeIntegerAtLeast_def)

lemma media_time_iff:
  "coalesce v JNull = JNull \<or> kind = JStr ''audio'' \<and> isSafeIntegerAtLeast v 0
   \<longleftrightarrow> media_time_spec kind v"
  by (auto simp: media_time_spec_def coalesce_JNull_eq isSafeIntegerAtLeast_iff)

lemma pages_progress_iff:
  "\<not> ((coalesce dn JNull \<noteq> JNull \<or> coalesce tot JNull \<noteq> JNull)
      \<and> (kind \<noteq> JStr ''pdf'' \<and> kind \<noteq> JStr ''image''
         \<or> \<not> isSafeIntegerAtLeast (coalesce tot JNull) 1
         \<or> \<not> isSafeIntegerAtLeast (coalesce dn JNull) 0
         \<or> js_less (coalesce tot JNull) (coalesce dn JNull)))
   \<longleftrightarrow> pages_progress_spec kind dn tot"
proof (cases "nullish dn \<and> nullish tot")
  case False
  show ?thesis
  proof (cases "isSafeIntegerAtLeast tot 1 \<and> isSafeIntegerAtLeast dn 0")
    case True
    then show ?thesis
      by (auto simp: isSafeIntegerAtLeast_iff pages_progress_spec_def)
  next
    case no: False
    with False have "\<not> pages_progress_spec kind dn tot"
      by (auto simp: isSafeIntegerAtLeast_iff pages_progress_spec_def)
    with False no show ?thesis by (auto simp: coalesce_JNull_eq)
  qed
qed (auto simp: coalesce_JNull_eq pages_progress_spec_def)

lemma assertCaptureProgress_iff:
  "assertCaptureProgress r label = Inr () \<longleftrightarrow>
     (let kind = coalesce (fld r ''kind'') (JStr ''audio'')
      in pages_progress_spec kind (fld r ''pagesDone'') (fld r ''pagesTotal'')
         \<and> media_time_spec kind (fld r ''durationMs'')
         \<and> (label = ''CaptureOperation'' \<longrightarrow> media_time_spec kind (fld r ''coveredUntilMs'')))"
  unfolding assertCaptureProgress_def Let_def then_res_Inr_iff throw_if_Inr_iff pages_progress_iff
    for_each_Inr_iff
  by (auto simp flip: media_time_iff)

subsection \<open>OCR projections\<close>

text \<open>The polygon of a box lies inside a raster of the given size.\<close>

definition point_inside :: "int \<Rightarrow> int \<Rightarrow> json \<Rightarrow> bool" where
  "point_inside w h pt \<longleftrightarrow>
     (\<exists>r x y. pt = JObj r \<and> fld r ''x'' = JNum (Fin x) \<and> fld r ''y'' = JNum (Fin y)
             \<and> 0 \<le> x \<and> x \<le> of_int w \<and> 0 \<le> y \<and> y \<le> of_int h)"

definition box_inside :: "int \<Rightarrow> int \<Rightarrow> json \<Rightarrow> bool" where
  "box_inside w h b \<longleftrightarrow>
     (\<exists>r pts. b = JObj r \<and> fld r ''polygon'' = JArr pts \<and> 4 \<le> length pts \<and> length pts \<le> 256
             \<and> list_all (point_inside w h) pts)"

definition raster_size :: "json \<Rightarrow> int \<Rightarrow> int \<Rightarrow> bool" where
  "raster_size v w h \<longleftrightarrow>
     (\<exists>r. v = JObj r \<and> fld r ''width'' = JNum (num w) \<and> fld r ''height'' = JNum (num h)
          \<and> 1 \<le> w \<and> 1 \<le> h)"

lemma validateOcrRaster_size:
  "validateOcrRaster v = Inr () \<Longrightarrow> \<exists>w h. raster_size v w h"
  by (auto simp: validateOcrRaster_def res_simps isSafeIntegerAtLeast_iff raster_size_def)

lemma validateOcrBox_inside:
  assumes "validateOcrBox b raster = Inr ()" "raster_size raster w h"
  shows "box_inside w h b"
proof -
  from assms(2) obtain rr where rr: "raster = JObj rr" "fld rr ''width'' = JNum (num w)"
      "fld rr ''height'' = JNum (num h)"
    by (auto simp: raster_size_def)
  from assms(1) obtain r where r: "b = JObj r"
    by (auto simp: validateOcrBox_def res_simps)
  have "\<exists>pts. fld r ''polygon'' = JArr pts"
    using assms(1) unfolding r rr(1)
    by (cases "fld r ''polygon''") (simp_all add: validateOcrBox_def Let_def res_simps)
  then obtain pts where pts: "fld r ''polygon'' = JArr pts" ..
  have len: "4 \<le> length pts" "length pts \<le> 256"
    and each: "\<forall>pt \<in> set pts. \<exists>x. pt = JObj x \<and> in_range (fld x ''x'') (num 0) (num w)
                    \<and> in_range (fld x ''y'') (num 0) (num h)"
    using assms(1) unfolding r rr(1)
    by (auto simp: validateOcrBox_def Let_def res_simps rr pts not_less)
  have "list_all (point_inside w h) pts"
    using each by (force simp: list_all_iff point_inside_def in_range_iff)
  with r pts len show ?thesis by (auto simp: box_inside_def)
qed

text \<open>What an accepted page carries, by its status.\<close>

definition page_spec :: "json \<Rightarrow> jobj \<Rightarrow> bool" where
  "page_spec document_provenance p \<longleftrightarrow>
     (\<exists>k. fld p ''page'' = JNum (num k) \<and> 1 \<le> k)
     \<and> sameOcrProvenance (fld p ''provenance'') document_provenance = Inr True
     \<and> (\<exists>w h. raster_size (fld p ''raster'') w h
             \<and> (\<forall>bs. fld p ''boxes'' = JArr bs \<longrightarrow> list_all (box_inside w h) bs))
     \<and> (fld p ''status'' = JStr ''recognized''
           \<and> is_text (fld p ''text'') \<and> is_unit_number (fld p ''confidence'') \<and> nullish (fld p ''failure'')
         \<or> fld p ''status'' = JStr ''empty''
           \<and> \<not> is_text (fld p ''text'') \<and> nullish (fld p ''confidence'') \<and> nullish (fld p ''failure'')
         \<or> fld p ''status'' = JStr ''failed''
           \<and> \<not> is_text (fld p ''text'') \<and> nullish (fld p ''confidence'') \<and> \<not> nullish (fld p ''failure''))"

lemma isOcrPageStatus_iff:
  "isOcrPageStatus v \<longleftrightarrow> v = JStr ''recognized'' \<or> v = JStr ''empty'' \<or> v = JStr ''failed''"
  by (auto simp: isOcrPageStatus_def str_in_def split: json.splits)

lemma validateOcrPage_spec:
  assumes ok: "validateOcrPage p prov = Inr ()"
  shows "page_spec prov p"
proof -
  have boxes: "\<forall>b \<in> set bs. validateOcrBox b (fld p ''raster'') = Inr ()"
    if "fld p ''boxes'' = JArr bs" for bs
    using ok that by (simp add: validateOcrPage_def Let_def res_simps)
  have st: "isOcrPageStatus (fld p ''status'')" and pg: "isSafeIntegerAtLeast (fld p ''page'') 1"
    and ra: "validateOcrRaster (fld p ''raster'') = Inr ()"
    and sm: "sameOcrProvenance (fld p ''provenance'') prov = Inr True"
    and ct: "page_content_ok (fld p ''status'') (fld p ''text'') (fld p ''boxes'')
               (fld p ''confidence'') (fld p ''failure'') = Inr ()"
    using ok unfolding validateOcrPage_def Let_def by (auto simp: res_simps)
  from validateOcrRaster_size[OF ra] obtain w h where wh: "raster_size (fld p ''raster'') w h" by blast
  have inside: "list_all (box_inside w h) bs" if "fld p ''boxes'' = JArr bs" for bs
    using boxes[OF that] wh by (auto simp: list_all_iff intro: validateOcrBox_inside)
  from pg have "\<exists>k. fld p ''page'' = JNum (num k) \<and> 1 \<le> k"
    by (auto simp: isSafeIntegerAtLeast_iff)
  moreover from st ct have
    "fld p ''status'' = JStr ''recognized''
           \<and> is_text (fld p ''text'') \<and> is_unit_number (fld p ''confidence'') \<and> nullish (fld p ''failure'')
         \<or> fld p ''status'' = JStr ''empty''
           \<and> \<not> is_text (fld p ''text'') \<and> nullish (fld p ''confidence'') \<and> nullish (fld p ''failure'')
         \<or> fld p ''status'' = JStr ''failed''
           \<and> \<not> is_text (fld p ''text'') \<and> nullish (fld p ''confidence'') \<and> \<not> nullish (fld p ''failure'')"
    unfolding isOcrPageStatus_iff page_content_ok_def Let_def by (auto simp: res_simps)
  ultimately show ?thesis using sm wh inside unfolding page_spec_def by blast
qed

lemma check_pages_spec:
  "check_pages prov (num k0) vs = Inr ps \<Longrightarrow>
     vs = map JObj ps \<and> list_all (page_spec prov) ps
     \<and> (\<exists>ks. map (\<lambda>p. fld p ''page'') ps = map (\<lambda>k. JNum (num k)) ks \<and> sorted_wrt (<) (k0 # ks))"
proof (induction vs arbitrary: k0 ps)
  case (Cons v vs)
  from Cons.prems obtain p ps' where v: "v = JObj p" and ps: "ps = p # ps'"
    and ok: "validateOcrPage p prov = Inr ()" and lt: "\<not> js_le (to_number (fld p ''page'')) (num k0)"
    and rest: "check_pages prov (to_number (fld p ''page'')) vs = Inr ps'"
    by (auto simp: res_simps)
  from validateOcrPage_spec[OF ok] have sp: "page_spec prov p" .
  then obtain k where k: "fld p ''page'' = JNum (num k)" by (auto simp: page_spec_def)
  from Cons.IH[of k ps'] rest k obtain ks where
    IH: "vs = map JObj ps'" "list_all (page_spec prov) ps'"
        "map (\<lambda>p. fld p ''page'') ps' = map (\<lambda>k. JNum (num k)) ks" "sorted_wrt (<) (k # ks)"
    by auto
  have "sorted_wrt (<) (k0 # k # ks)" using lt k IH(4) by auto
  moreover have "map (\<lambda>p. fld p ''page'') ps = map (\<lambda>k. JNum (num k)) (k # ks)"
    using k IH(3) ps by simp
  moreover have "v # vs = map JObj ps" "list_all (page_spec prov) ps"
    using IH(1,2) v ps sp by simp_all
  ultimately show ?case by blast
qed simp

definition ocr_projection_spec :: "jobj \<Rightarrow> bool" where
  "ocr_projection_spec r \<longleftrightarrow>
     (\<exists>ps ks. fld r ''pages'' = JArr (map JObj ps)
        \<and> fld r ''pageCount'' = JNum (num (int (length ps))) \<and> length ps \<le> 500
        \<and> list_all (page_spec (fld r ''provenance'')) ps
        \<and> map (\<lambda>p. fld p ''page'') ps = map (\<lambda>k. JNum (num k)) ks \<and> sorted_wrt (<) (0 # ks)
        \<and> (fld r ''status'' = JStr ''completed''
             \<and> isResolvedOcrProvenance (fld r ''provenance'') = Inr True
             \<and> \<not> nullish (fld r ''source'') \<and> nullish (fld r ''failure'')
             \<and> (\<exists>p \<in> set ps. fld p ''status'' = JStr ''recognized'')
             \<and> (\<forall>p \<in> set ps. fld p ''status'' \<noteq> JStr ''failed'')
           \<or> fld r ''status'' = JStr ''failed'' \<and> \<not> nullish (fld r ''failure'')))"

lemma js_seq_JNum_num: "js_seq v (JNum (num k)) \<Longrightarrow> v = JNum (num k)"
proof (cases v)
  case (JNum n)
  then show "js_seq v (JNum (num k)) \<Longrightarrow> ?thesis" by (cases n) (auto simp: num_def)
qed auto

lemma validateCaptureOcrProjection_spec:
  assumes ok: "validateCaptureOcrProjection dp r = Inr ()"
  shows "ocr_projection_spec r"
proof -
  from ok obtain vs ps resolved where hd: "check_projection_header dp r = Inr ()"
    and vs: "fld r ''pages'' = JArr vs" and len: "length vs \<le> 500"
    and res: "isResolvedOcrProvenance (fld r ''provenance'') = Inr resolved"
    and cr: "fld r ''status'' = JStr ''completed'' \<longrightarrow> resolved"
    and cp: "check_pages (fld r ''provenance'') (num 0) vs = Inr ps"
    and oc: "check_projection_outcome (fld r ''status'') (fld r ''source'') (fld r ''failure'')
               (fld r ''provenance'') ps = Inr ()"
    unfolding validateCaptureOcrProjection_def Let_def
    by (auto simp: res_simps not_less split: json.split_asm)
  from check_pages_spec[OF cp] obtain ks where
    ps: "vs = map JObj ps" "list_all (page_spec (fld r ''provenance'')) ps"
        "map (\<lambda>p. fld p ''page'') ps = map (\<lambda>k. JNum (num k)) ks" "sorted_wrt (<) (0 # ks)" by auto
  from hd vs have "js_seq (fld r ''pageCount'') (JNum (num (int (length vs))))"
    by (simp add: check_projection_header_def res_simps)
  then have pc: "fld r ''pageCount'' = JNum (num (int (length ps)))"
    using ps(1) by (auto dest: js_seq_JNum_num)
  from hd have "fld r ''status'' = JStr ''completed'' \<or> fld r ''status'' = JStr ''failed''"
    by (auto simp: check_projection_header_def res_simps isOcrProjectionStatus_def str_in_def
        split: json.splits)
  then have "fld r ''status'' = JStr ''completed''
             \<and> isResolvedOcrProvenance (fld r ''provenance'') = Inr True
             \<and> \<not> nullish (fld r ''source'') \<and> nullish (fld r ''failure'')
             \<and> (\<exists>p \<in> set ps. fld p ''status'' = JStr ''recognized'')
             \<and> (\<forall>p \<in> set ps. fld p ''status'' \<noteq> JStr ''failed'')
           \<or> fld r ''status'' = JStr ''failed'' \<and> \<not> nullish (fld r ''failure'')"
    using oc cr res by (auto simp: check_projection_outcome_def res_simps)
  then show ?thesis unfolding ocr_projection_spec_def using vs len pc ps by auto
qed

end
