(* ===== verification/Runtime_Sse.thy ===== *)
theory Runtime_Sse
  imports Runtime_Codec
begin

text \<open>
  \<open>decodeSse\<close> of \<^verbatim>\<open>packages/capture-runtime-client/src/codec.ts\<close>: the incremental parser
  of the event stream. The generator is modelled by the list of frames it yields and the
  error that ends it, if any. The theorems: the frames depend only on the text received and
  not on how the network cuts it into chunks, comments have no effect, and the decoder
  inverts the encoding of a frame.
\<close>

section \<open>Lines and frames\<close>

record SseFrame =
  frame_id :: "string option"
  frame_event :: "string option"
  frame_data :: string

text \<open>The frame under construction.\<close>

record open_frame =
  open_id :: "string option"
  open_event :: "string option"
  open_data :: "string list"

definition new_frame :: open_frame where
  "new_frame = \<lparr>open_id = None, open_event = None, open_data = []\<rparr>"

definition flush :: "open_frame \<Rightarrow> SseFrame option" where
  "flush f = (if open_data f = [] then None
              else Some \<lparr>frame_id = open_id f, frame_event = open_event f,
                         frame_data = join [CHR 0x0A] (open_data f)\<rparr>)"

text \<open>\<open>value.replace(/^ /u, '')\<close>\<close>

definition drop_space :: "string \<Rightarrow> string" where
  "drop_space s = (if starts_with '' '' s then tl s else s)"

definition strip_cr :: "string \<Rightarrow> string" where
  "strip_cr s = (if s \<noteq> [] \<and> last s = CHR 0x0D then butlast s else s)"

definition set_field :: "open_frame \<Rightarrow> string \<Rightarrow> string \<Rightarrow> open_frame" where
  "set_field f field value =
     (if field = ''id'' then f\<lparr>open_id := Some value\<rparr>
      else if field = ''event'' then f\<lparr>open_event := Some value\<rparr>
      else if field = ''data'' then f\<lparr>open_data := open_data f @ [value]\<rparr>
      else f)"

text \<open>One complete line: the new open frame and the frame the line completes.\<close>

definition handle_line :: "open_frame \<Rightarrow> string \<Rightarrow> open_frame \<times> SseFrame list" where
  "handle_line f raw =
     (let line = strip_cr raw
      in if line = [] then (new_frame, case flush f of None \<Rightarrow> [] | Some r \<Rightarrow> [r])
         else if starts_with '':'' line then (f, [])
         else (let field = takeWhile (\<lambda>c. c \<noteq> CHR '':'') line;
                   value = (if CHR '':'' \<in> set line
                            then drop_space (drop (length field + 1) line) else [])
               in (set_field f field value, [])))"

text \<open>The inner \<open>while (newline >= 0)\<close> loop: consumes every complete line of the buffer.\<close>

function drain :: "open_frame \<Rightarrow> string \<Rightarrow> open_frame \<times> SseFrame list \<times> string" where
  "drain f buffer =
     (if CHR 0x0A \<in> set buffer then
        (let line = takeWhile (\<lambda>c. c \<noteq> CHR 0x0A) buffer;
             rest = drop (length line + 1) buffer;
             step = handle_line f line;
             more = drain (fst step) rest
         in (fst more, snd step @ fst (snd more), snd (snd more)))
      else (f, [], buffer))"
  by pat_completeness auto
termination
proof (relation "measure (\<lambda>(f, b). length b)", goal_cases)
  case (2 f b)
  then show ?case by (cases b) auto
qed simp

declare drain.simps [simp del]

text \<open>The outer loop: one read after the other.\<close>

fun read_chunks :: "open_frame \<Rightarrow> string \<Rightarrow> string list \<Rightarrow> open_frame \<times> SseFrame list \<times> string" where
  "read_chunks f buffer [] = (f, [], buffer)"
| "read_chunks f buffer (c # cs) =
     (let d = drain f (buffer @ c); m = read_chunks (fst d) (snd (snd d)) cs
      in (fst m, fst (snd d) @ fst (snd m), snd (snd m)))"

text \<open>After the last read: a last line without a line feed counts only as data.\<close>

definition finish :: "open_frame \<Rightarrow> string \<Rightarrow> SseFrame list" where
  "finish f buffer =
     (let line = strip_cr buffer;
          g = (if buffer \<noteq> [] \<and> starts_with ''data:'' line
               then f\<lparr>open_data := open_data f @ [drop_space (drop 5 line)]\<rparr> else f)
      in case flush g of None \<Rightarrow> [] | Some r \<Rightarrow> [r])"

definition decode_chunks :: "string list \<Rightarrow> SseFrame list" where
  "decode_chunks cs =
     (let m = read_chunks new_frame [] cs in fst (snd m) @ finish (fst m) (snd (snd m)))"

definition decodeSse :: "response \<Rightarrow> SseFrame list \<times> exn option" where
  "decodeSse r =
     (if \<not> resp_ok r then ([], Some (thrown_error r))
      else if \<not> starts_with ''text/event-stream'' (js_lower (option_or (header r ''content-type'') []))
      then ([], Some (protocol_error ''Capture Runtime returned an invalid event stream.''))
      else (case resp_chunks r of
              None \<Rightarrow> ([], None)
            | Some cs \<Rightarrow>
                (case resp_broken r of
                   None \<Rightarrow> (decode_chunks cs, None)
                 | Some e \<Rightarrow> (fst (snd (read_chunks new_frame [] cs)), Some e))))"

section \<open>The chunks do not matter\<close>

lemma drain_no_newline: "CHR 0x0A \<notin> set b \<Longrightarrow> drain f b = (f, [], b)"
  by (simp add: drain.simps[of f b])

lemma drain_line:
  assumes "CHR 0x0A \<notin> set l"
  shows "drain f (l @ CHR 0x0A # b) =
     (let s = handle_line f l; m = drain (fst s) b in (fst m, snd s @ fst (snd m), snd (snd m)))"
proof -
  have "takeWhile (\<lambda>c. c \<noteq> CHR 0x0A) (l @ CHR 0x0A # b) = l"
    using assms by (subst takeWhile_append2) auto
  then show ?thesis by (simp add: drain.simps[of f "l @ CHR 0x0A # b"] Let_def)
qed

lemma split_first_newline:
  assumes "CHR 0x0A \<in> set b"
  obtains l r where "b = l @ CHR 0x0A # r" "CHR 0x0A \<notin> set l"
  using assms by (meson split_list_first)

lemma drain_append:
  "drain f (b @ x) =
     (let d = drain f b; m = drain (fst d) (snd (snd d) @ x)
      in (fst m, fst (snd d) @ fst (snd m), snd (snd m)))"
proof (induction "length b" arbitrary: f b rule: less_induct)
  case less
  show ?case
  proof (cases "CHR 0x0A \<in> set b")
    case True
    then obtain l r where b: "b = l @ CHR 0x0A # r" "CHR 0x0A \<notin> set l"
      by (rule split_first_newline)
    have IH: "drain g (r @ x) = (let d = drain g r; m = drain (fst d) (snd (snd d) @ x)
        in (fst m, fst (snd d) @ fst (snd m), snd (snd m)))" for g
      by (rule less.hyps) (simp add: b)
    show ?thesis
      using drain_line[OF b(2), of f "r @ x"] drain_line[OF b(2), of f r] IH
      by (simp add: b(1) Let_def)
  next
    case False
    then show ?thesis by (simp add: drain_no_newline Let_def)
  qed
qed

lemma drain_rest_no_newline: "CHR 0x0A \<notin> set (snd (snd (drain f b)))"
proof (induction f b rule: drain.induct)
  case (1 f b)
  show ?case
  proof (cases "CHR 0x0A \<in> set b")
    case True
    with 1[OF True refl refl refl] show ?thesis
      by (simp add: drain.simps[of f b] Let_def)
  qed (simp add: drain_no_newline)
qed

lemma read_chunks_concat:
  "CHR 0x0A \<notin> set buffer \<Longrightarrow> read_chunks f buffer cs = drain f (buffer @ concat cs)"
proof (induction cs arbitrary: f buffer)
  case Nil
  then show ?case by (simp add: drain_no_newline)
next
  case (Cons c cs)
  let ?d = "drain f (buffer @ c)"
  have "read_chunks (fst ?d) (snd (snd ?d)) cs = drain (fst ?d) (snd (snd ?d) @ concat cs)"
    by (rule Cons.IH) (rule drain_rest_no_newline)
  then show ?case
    using drain_append[of f "buffer @ c" "concat cs"] by (simp add: Let_def)
qed

lemma decode_chunks_concat: "decode_chunks cs = decode_chunks [concat cs]"
  by (simp add: decode_chunks_def read_chunks_concat Let_def)

section \<open>Encoding a frame\<close>

text \<open>The text of one event: its id, its type, its data lines and the blank line.\<close>

definition encode_line :: "string \<Rightarrow> string \<Rightarrow> string" where
  "encode_line field value = field @ '': '' @ value @ [CHR 0x0A]"

definition encode_frame :: "string \<Rightarrow> string \<Rightarrow> string list \<Rightarrow> string" where
  "encode_frame i e lines =
     encode_line ''id'' i @ encode_line ''event'' e @ concat (map (encode_line ''data'') lines)
     @ [CHR 0x0A]"

definition line_safe :: "string \<Rightarrow> bool" where
  "line_safe s = (CHR 0x0A \<notin> set s \<and> CHR 0x0D \<notin> set s)"

lemma strip_cr_safe: "CHR 0x0D \<notin> set s \<Longrightarrow> strip_cr s = s"
  by (auto simp: strip_cr_def dest: last_in_set)

lemma handle_field_line:
  assumes "line_safe value" "field \<in> {''id'', ''event'', ''data''}"
  shows "handle_line f (field @ '': '' @ value) = (set_field f field value, [])"
proof -
  from assms have "CHR 0x0D \<notin> set (field @ '': '' @ value)"
    by (auto simp: line_safe_def)
  then have cr: "strip_cr (field @ '': '' @ value) = field @ '': '' @ value"
    by (rule strip_cr_safe)
  from assms(2) show ?thesis
    unfolding handle_line_def Let_def cr
    by (elim insertE emptyE) (simp_all add: starts_with_def drop_space_def)
qed

lemma drain_encode_line:
  assumes "line_safe value" "field \<in> {''id'', ''event'', ''data''}"
  shows "drain f (encode_line field value @ b) = drain (set_field f field value) b"
proof -
  have nl: "CHR 0x0A \<notin> set (field @ '': '' @ value)"
    using assms by (auto simp: line_safe_def)
  have "drain f (encode_line field value @ b) = drain f ((field @ '': '' @ value) @ CHR 0x0A # b)"
    by (simp add: encode_line_def)
  also have "\<dots> = drain (set_field f field value) b"
    unfolding drain_line[OF nl] handle_field_line[OF assms] by (simp add: Let_def)
  finally show ?thesis .
qed

lemma drain_encode_data:
  "list_all line_safe lines \<Longrightarrow>
   drain f (concat (map (encode_line ''data'') lines) @ b) =
     drain (f\<lparr>open_data := open_data f @ lines\<rparr>) b"
proof (induction lines arbitrary: f)
  case (Cons l ls)
  then show ?case
    using drain_encode_line[of l "''data''" f "concat (map (encode_line ''data'') ls) @ b"]
    by (simp add: set_field_def)
qed simp

lemma drain_encode_frame:
  assumes "line_safe i" "line_safe e" "list_all line_safe lines" "lines \<noteq> []"
  shows "drain new_frame (encode_frame i e lines @ b) =
     (let m = drain new_frame b
      in (fst m, \<lparr>frame_id = Some i, frame_event = Some e,
                  frame_data = join [CHR 0x0A] lines\<rparr> # fst (snd m), snd (snd m)))"
proof -
  let ?f = "\<lparr>open_id = Some i, open_event = Some e, open_data = lines\<rparr>"
  have "drain new_frame (encode_frame i e lines @ b) = drain ?f (CHR 0x0A # b)"
    using assms by (simp add: encode_frame_def drain_encode_line drain_encode_data
        set_field_def new_frame_def)
  also have "\<dots> = drain ?f ([] @ CHR 0x0A # b)" by simp
  also have "\<dots> = (let s = handle_line ?f []; m = drain (fst s) b
                    in (fst m, snd s @ fst (snd m), snd (snd m)))"
    by (rule drain_line) simp
  finally show ?thesis
    using assms(4) by (simp add: handle_line_def strip_cr_def flush_def Let_def)
qed

type_synonym sse_event = "string \<times> string \<times> string list"

definition event_text :: "sse_event \<Rightarrow> string" where
  "event_text ev = encode_frame (fst ev) (fst (snd ev)) (snd (snd ev))"

definition event_safe :: "sse_event \<Rightarrow> bool" where
  "event_safe ev = (line_safe (fst ev) \<and> line_safe (fst (snd ev))
                    \<and> list_all line_safe (snd (snd ev)) \<and> snd (snd ev) \<noteq> [])"

definition event_frame :: "sse_event \<Rightarrow> SseFrame" where
  "event_frame ev = \<lparr>frame_id = Some (fst ev), frame_event = Some (fst (snd ev)),
                     frame_data = join [CHR 0x0A] (snd (snd ev))\<rparr>"

lemma drain_event:
  "event_safe ev \<Longrightarrow> drain new_frame (event_text ev @ b) =
     (let m = drain new_frame b in (fst m, event_frame ev # fst (snd m), snd (snd m)))"
  by (simp add: event_safe_def event_text_def event_frame_def drain_encode_frame)

lemma drain_events:
  "list_all event_safe evs \<Longrightarrow>
   drain new_frame (concat (map event_text evs)) = (new_frame, map event_frame evs, [])"
  by (induction evs) (simp_all add: drain_no_newline drain_event Let_def)

lemma decode_events:
  assumes "list_all event_safe evs" "concat cs = concat (map event_text evs)"
  shows "decode_chunks cs = map event_frame evs"
  using assms drain_events[of evs]
  by (simp add: decode_chunks_def read_chunks_concat finish_def flush_def new_frame_def Let_def)

text \<open>Comments, the heartbeats of the runtime, leave the decoder's state alone.\<close>

lemma drain_comment:
  assumes "line_safe c"
  shows "drain f ((CHR '':'' # c) @ CHR 0x0A # b) = drain f b"
proof -
  have "CHR 0x0A \<notin> set (CHR '':'' # c)" using assms by (simp add: line_safe_def)
  moreover have "handle_line f (CHR '':'' # c) = (f, [])"
    using assms by (simp add: handle_line_def strip_cr_safe line_safe_def starts_with_def)
  ultimately show ?thesis using drain_line[of "CHR '':'' # c" f b] by (simp add: Let_def)
qed

end
