(* ===== verification/Runtime_Transport.thy ===== *)
theory Runtime_Transport
  imports Runtime_Codec
begin

text \<open>
  \<^verbatim>\<open>packages/capture-runtime-client/src/transport.ts\<close> and
  \<^verbatim>\<open>private/transport-retry.ts\<close>: the two transports of the SDK and the retry policy on top
  of a transport. The outside world (the network, the process behind it) is a state \<open>'w\<close> that
  every call of a transport takes and returns, so nothing is assumed about how the answers of
  successive calls depend on each other.

  The interface is the locale \<open>runtime_transport\<close>: a transport answers with a response or
  throws a transport error. Both transports of the source are interpretations of it.
\<close>

section \<open>Requests\<close>

datatype http_method = GET | POST | PUT | DELETE

datatype body = NoBody | JsonBody json | BytesBody "nat list"

text \<open>A header value is the value before its conversion to a string.\<close>

record request =
  rq_method :: "http_method option"
  rq_path :: string
  rq_headers :: "(string \<times> json) list"
  rq_body :: body

definition get_request :: "string \<Rightarrow> request" where
  "get_request path = \<lparr>rq_method = None, rq_path = path, rq_headers = [], rq_body = NoBody\<rparr>"

definition effective_method :: "request \<Rightarrow> http_method" where
  "effective_method rq = option_or (rq_method rq) GET"

type_synonym 'w sender = "'w \<Rightarrow> request \<Rightarrow> (exn + response) \<times> 'w"

section \<open>Loopback base URL\<close>

text \<open>What the WHATWG URL parser reports of a URL; the parser is an argument.\<close>

record url =
  url_protocol :: string
  url_hostname :: string
  url_port :: string
  url_username :: string
  url_password :: string
  url_search :: string
  url_hash :: string
  url_pathname :: string
  url_origin :: string

definition unsafe_base_url :: "string \<Rightarrow> exn" where
  "unsafe_base_url m = RuntimeErr (new_CaptureTransportError m JUndef ''unsafe_base_url'')"

definition assertLoopbackBaseUrl :: "(string \<Rightarrow> url option) \<Rightarrow> string + int \<Rightarrow> exn + string" where
  "assertLoopbackBaseUrl parse value =
     (let candidate = (case value of Inr port \<Rightarrow> ''http://127.0.0.1:'' @ show_int port | Inl s \<Rightarrow> s)
      in case parse candidate of
           None \<Rightarrow> Inl (unsafe_base_url ''Capture Runtime URL is invalid.'')
         | Some u \<Rightarrow>
             (let loopback = url_hostname u \<in> {''127.0.0.1'', ''[::1]'', ''::1''}
              in if url_protocol u \<noteq> ''http:'' \<or> \<not> loopback \<or> url_port u = [] \<or> url_username u \<noteq> []
                    \<or> url_password u \<noteq> [] \<or> url_search u \<noteq> [] \<or> url_hash u \<noteq> []
                    \<or> (url_pathname u \<noteq> ''/'' \<and> url_pathname u \<noteq> [])
                 then Inl (unsafe_base_url ''Capture Runtime URL must be an HTTP loopback origin with an explicit port.'')
                 else Inr (url_origin u)))"

section \<open>The transports\<close>

text \<open>
  \<open>HttpRuntimeTransport\<close>: the options it was built with, and the request it hands to \<open>fetch\<close>.
  \<open>fetch\<close> is an argument; whatever it throws becomes a transport error.
\<close>

record fetch_call =
  fc_url :: string
  fc_method :: http_method
  fc_headers :: "(string \<times> json) list"
  fc_body :: body
  fc_credentials :: string
  fc_redirect :: string

definition set_header :: "string \<Rightarrow> json \<Rightarrow> (string \<times> json) list \<Rightarrow> (string \<times> json) list" where
  "set_header name value hs = filter (\<lambda>(n, _). js_lower n \<noteq> js_lower name) hs @ [(name, value)]"

definition transport_failed :: exn where
  "transport_failed = RuntimeErr (new_CaptureTransportError
      ''Capture Runtime transport request failed.'' (JObj []) ''transport_error'')"

text \<open>\<open>{ Accept: 'application/json', ...request.headers }\<close>: a later \<open>Accept\<close> replaces the first.\<close>

definition http_call :: "string \<Rightarrow> string option \<Rightarrow> request \<Rightarrow> fetch_call" where
  "http_call baseUrl token rq =
     (let hs = (if ''Accept'' \<in> set (map fst (rq_headers rq)) then rq_headers rq
                else (''Accept'', JStr ''application/json'') # rq_headers rq);
          hs' = (case token of
                   Some t \<Rightarrow> if blank t then hs else set_header ''Authorization'' (JStr (''Bearer '' @ t)) hs
                 | None \<Rightarrow> hs)
      in \<lparr>fc_url = baseUrl @ rq_path rq, fc_method = effective_method rq, fc_headers = hs',
          fc_body = rq_body rq, fc_credentials = ''omit'', fc_redirect = ''error''\<rparr>)"

definition HttpRuntimeTransport_request ::
  "('w \<Rightarrow> fetch_call \<Rightarrow> (exn + response) \<times> 'w) \<Rightarrow> string \<Rightarrow> string option \<Rightarrow> 'w sender" where
  "HttpRuntimeTransport_request fetch baseUrl token w rq =
     (case fetch w (http_call baseUrl token rq) of
        (Inr r, w') \<Rightarrow> (Inr r, w')
      | (Inl _, w') \<Rightarrow> (Inl transport_failed, w'))"

text \<open>The in-memory transport: the first route that matches handles the request.\<close>

record 'w route =
  rt_method :: "http_method option"
  rt_path :: "string \<Rightarrow> bool"
  rt_handle :: "'w \<Rightarrow> request \<Rightarrow> response \<times> 'w"

definition route_matches :: "request \<Rightarrow> 'w route \<Rightarrow> bool" where
  "route_matches rq c =
     ((case rt_method c of None \<Rightarrow> True | Some m \<Rightarrow> m = effective_method rq) \<and> rt_path c (rq_path rq))"

definition quoted :: "string \<Rightarrow> string" where
  "quoted s = CHR 0x22 # s @ [CHR 0x22]"

definition not_found_text :: string where
  "not_found_text = ''{'' @ quoted ''error'' @ '':{'' @ quoted ''code'' @ '':'' @ quoted ''not_found''
     @ '','' @ quoted ''message'' @ '':'' @ quoted ''Route not found.'' @ ''}}''"

definition not_found :: response where
  "not_found = \<lparr>resp_status = 404, resp_headers = [(''content-type'', ''application/json'')],
     resp_json = Inr (JObj [(''error'', JObj [(''code'', JStr ''not_found''),
                                              (''message'', JStr ''Route not found.'')])]),
     resp_bytes = Inr (map of_char not_found_text),
     resp_chunks = Some [not_found_text], resp_broken = None\<rparr>"

definition InMemoryRuntimeTransport_request :: "'w route list \<Rightarrow> 'w sender" where
  "InMemoryRuntimeTransport_request routes w rq =
     (case List.find (route_matches rq) routes of
        None \<Rightarrow> (Inr not_found, w)
      | Some c \<Rightarrow> (let a = rt_handle c w rq in (Inr (fst a), snd a)))"

section \<open>Retry\<close>

definition requiresDiscovery :: "string \<Rightarrow> bool" where
  "requiresDiscovery path =
     (starts_with ''/v2/'' path \<and> path \<noteq> ''/v2/health/ready'' \<and> path \<noteq> ''/v2/streaming/health/ready'')"

text \<open>The \<open>Headers\<close> object drops white space around a value and joins values of one name.\<close>

definition keyed :: "request \<Rightarrow> bool" where
  "keyed rq =
     (case filter (\<lambda>(n, _). js_lower n = ''x-idempotency-key'') (rq_headers rq) of
        [] \<Rightarrow> False
      | [(_, JStr s)] \<Rightarrow> \<not> list_all (\<lambda>c. (of_char c :: nat) \<in> {9, 10, 13, 32}) s
      | _ \<Rightarrow> True)"

definition retryable_request :: "request \<Rightarrow> bool" where
  "retryable_request rq =
     (effective_method rq = GET \<or> effective_method rq = DELETE \<or> keyed rq)"

definition transient_status :: "int \<Rightarrow> bool" where
  "transient_status s = (s \<in> set [408, 425, 429, 500, 502, 503, 504])"

text \<open>
  \<open>Number(response.headers.get('Retry-After'))\<close>: \<open>Number(null)\<close> is 0, so a missing header reads
  as the number 0.
\<close>

definition retry_after :: "response \<Rightarrow> jnum" where
  "retry_after r = (case header r ''Retry-After'' of None \<Rightarrow> num 0 | Some s \<Rightarrow> js_Number s)"

definition status_delay :: "rat \<Rightarrow> nat \<Rightarrow> response \<Rightarrow> rat" where
  "status_delay backoff attempt r =
     (case retry_after r of
        Fin q \<Rightarrow> if 0 \<le> q then q * 1000 else backoff * 2 ^ attempt
      | _ \<Rightarrow> backoff * 2 ^ attempt)"

text \<open>
  The attempt loop. It returns the outcome, the answers of the attempts, the delays asked of
  \<open>sleep\<close> between them, and the world.
\<close>

function retry_loop ::
  "'w sender \<Rightarrow> nat \<Rightarrow> rat \<Rightarrow> request \<Rightarrow> nat \<Rightarrow> 'w
     \<Rightarrow> (exn + response) \<times> (exn + response) list \<times> rat list \<times> 'w" where
  "retry_loop send retries backoff rq attempt w =
     (if retries < attempt
      then (Inl (RuntimeErr (new_CaptureTransportError ''Capture Runtime retry loop exhausted.''
                   JUndef ''transport_error'')), [], [], w)
      else (case send w rq of
              (Inr r, w') \<Rightarrow>
                if transient_status (resp_status r) \<and> attempt < retries
                then (let m = retry_loop send retries backoff rq (attempt + 1) w'
                      in (fst m, Inr r # fst (snd m),
                          status_delay backoff attempt r # fst (snd (snd m)), snd (snd (snd m))))
                else (Inr r, [Inr r], [], w')
            | (Inl e, w') \<Rightarrow>
                if attempt \<ge> retries then (Inl e, [Inl e], [], w')
                else (let m = retry_loop send retries backoff rq (attempt + 1) w'
                      in (fst m, Inl e # fst (snd m),
                          backoff * 2 ^ attempt # fst (snd (snd m)), snd (snd (snd m))))))"
  by pat_completeness auto
termination
  by (relation "measure (\<lambda>(_, retries, _, _, attempt, _). Suc retries - attempt)") auto

declare retry_loop.simps [simp del]

record retry_options =
  opt_maxRetries :: "nat option"
  opt_retryBackoffMs :: "rat option"

definition retry_budget :: "retry_options \<Rightarrow> request \<Rightarrow> nat" where
  "retry_budget opts rq = (if retryable_request rq then option_or (opt_maxRetries opts) 2 else 0)"

definition send_with_retry ::
  "'w sender \<Rightarrow> retry_options \<Rightarrow> request \<Rightarrow> 'w
     \<Rightarrow> (exn + response) \<times> (exn + response) list \<times> rat list \<times> 'w" where
  "send_with_retry send opts rq w =
     retry_loop send (retry_budget opts rq) (option_or (opt_retryBackoffMs opts) 0) rq 0 w"

text \<open>\<open>requestWithRetry\<close>: the discovery gate, then the loop.\<close>

definition requestWithRetry ::
  "'w sender \<Rightarrow> ('w \<Rightarrow> (exn + unit) \<times> 'w) \<Rightarrow> retry_options \<Rightarrow> request \<Rightarrow> 'w \<Rightarrow> (exn + response) \<times> 'w" where
  "requestWithRetry send discover opts rq w =
     (let gate = (if requiresDiscovery (rq_path rq) then discover w else (Inr (), w))
      in case fst gate of
           Inl e \<Rightarrow> (Inl e, snd gate)
         | Inr _ \<Rightarrow> (let m = send_with_retry send opts rq (snd gate)
                     in (fst m, snd (snd (snd m)))))"

section \<open>What the retry loop guarantees\<close>

definition transient :: "exn + response \<Rightarrow> bool" where
  "transient a = (case a of Inl _ \<Rightarrow> True | Inr r \<Rightarrow> transient_status (resp_status r))"

lemma retry_loop_cases:
  assumes "attempt \<le> retries" and "send w rq = (a, w')"
  shows "retry_loop send retries backoff rq attempt w =
     (if transient a \<and> attempt < retries
      then (let m = retry_loop send retries backoff rq (Suc attempt) w'
            in (fst m, a # fst (snd m),
                (case a of Inl _ \<Rightarrow> backoff * 2 ^ attempt | Inr r \<Rightarrow> status_delay backoff attempt r)
                  # fst (snd (snd m)), snd (snd (snd m))))
      else (a, [a], [], w'))"
  using assms by (cases a) (auto simp: retry_loop.simps[of send retries backoff rq attempt w]
      transient_def Let_def)

text \<open>The trace of the attempts: every answer but the last is transient, the last one is the
  outcome, the budget bounds the number of attempts, and the loop gives up on a transient
  answer only when the budget is used up.\<close>

definition retry_trace_ok :: "nat \<Rightarrow> (exn + response) \<Rightarrow> (exn + response) list \<Rightarrow> bool" where
  "retry_trace_ok budget outcome answers \<longleftrightarrow>
     answers \<noteq> [] \<and> last answers = outcome \<and> length answers \<le> budget
     \<and> list_all transient (butlast answers)
     \<and> (transient outcome \<longrightarrow> length answers = budget)"

lemma retry_loop_trace:
  "attempt \<le> retries \<Longrightarrow>
   (let m = retry_loop send retries backoff rq attempt w
    in retry_trace_ok (Suc retries - attempt) (fst m) (fst (snd m))
       \<and> length (fst (snd (snd m))) = length (fst (snd m)) - 1)"
proof (induction "retries - attempt" arbitrary: attempt w rule: less_induct)
  case less
  obtain a w' where a: "send w rq = (a, w')" by fastforce
  note unf = retry_loop_cases[where send = send and w = w and rq = rq, OF less.prems a]
  show ?case
  proof (cases "transient a \<and> attempt < retries")
    case True
    define m where "m = retry_loop send retries backoff rq (Suc attempt) w'"
    have "retry_trace_ok (Suc retries - Suc attempt) (fst m) (fst (snd m))
          \<and> length (fst (snd (snd m))) = length (fst (snd m)) - 1"
      using less.hyps[of "Suc attempt" w'] True unfolding m_def Let_def by fastforce
    then show ?thesis
      unfolding unf using True
      by (auto simp: Let_def retry_trace_ok_def simp flip: m_def)
  next
    case False
    with less.prems show ?thesis
      unfolding unf by (auto simp: Let_def retry_trace_ok_def)
  qed
qed

section \<open>The transport interface\<close>

locale runtime_transport =
  fixes send :: "'w sender"
  assumes send_error: "send w rq = (Inl e, w') \<Longrightarrow> is_transport_error e"
begin

lemma retry_error_is_transport:
  "attempt \<le> retries \<Longrightarrow> fst (retry_loop send retries backoff rq attempt w) = Inl e \<Longrightarrow>
   is_transport_error e"
proof (induction "retries - attempt" arbitrary: attempt w rule: less_induct)
  case less
  obtain a w' where a: "send w rq = (a, w')" by fastforce
  show ?case
  proof (cases "transient a \<and> attempt < retries")
    case True
    then show ?thesis
      using less.hyps[of "Suc attempt" w'] less.prems
      by (auto simp: retry_loop_cases[where send = send and w = w and rq = rq, OF less.prems(1) a] Let_def)
  next
    case False
    then have "a = Inl e"
      using less.prems(2) by (auto simp: retry_loop_cases[where send = send and w = w and rq = rq, OF less.prems(1) a])
    with a show ?thesis by (auto dest: send_error)
  qed
qed

lemma request_error:
  assumes "requestWithRetry send discover opts rq w = (Inl e, w')"
    and "\<not> requiresDiscovery (rq_path rq)"
  shows "is_transport_error e"
  using assms retry_error_is_transport[of 0 "retry_budget opts rq"]
  by (auto simp: requestWithRetry_def send_with_retry_def Let_def)

end

lemma transport_failed_is_transport_error: "is_transport_error transport_failed"
  by (simp add: transport_failed_def is_transport_error_def error_ctor_defs)

interpretation http_transport: runtime_transport "HttpRuntimeTransport_request fetch baseUrl token"
  for fetch baseUrl token
  by unfold_locales
    (auto simp: HttpRuntimeTransport_request_def transport_failed_is_transport_error
      split: prod.splits sum.splits)

interpretation memory_transport: runtime_transport "InMemoryRuntimeTransport_request routes"
  for routes
  by unfold_locales
    (auto simp: InMemoryRuntimeTransport_request_def Let_def split: option.splits)

end
