(* ===== verification/Runtime_Streaming.thy ===== *)
theory Runtime_Streaming
  imports Runtime_Sse Runtime_Transport
begin

text \<open>
  \<^verbatim>\<open>packages/capture-runtime-client/src/private/streaming.ts\<close>: the chunked upload that
  starts a capture, and the event stream with its reconnects. The calls of the JSON facade
  take and return the world \<open>'w\<close>; each operation also returns the requests it made, in
  order.
\<close>

section \<open>PDF page selection\<close>

definition MAX_PDF_PAGE_SELECTION :: nat where
  "MAX_PDF_PAGE_SELECTION = 500"

fun check_selection :: "jnum \<Rightarrow> json list \<Rightarrow> exn + unit" where
  "check_selection previous [] = Inr ()"
| "check_selection previous (p # ps) =
     (case p of
        JNum n \<Rightarrow>
          if \<not> js_isSafeInteger n \<or> js_le n previous
          then Inl (protocol_error ''pdfPageNumbers must list source pages in ascending order without duplicates.'')
          else check_selection n ps
      | _ \<Rightarrow> Inl (protocol_error ''pdfPageNumbers must list source pages in ascending order without duplicates.''))"

definition pdfPageSelection :: "json \<Rightarrow> exn + json" where
  "pdfPageSelection pages =
     (let size_error = protocol_error (''pdfPageNumbers must contain 1 to ''
                          @ show_int (int MAX_PDF_PAGE_SELECTION) @ '' pages.'')
      in case pages of
           JUndef \<Rightarrow> Inr JUndef
         | JArr ps \<Rightarrow>
             if length ps < 1 \<or> MAX_PDF_PAGE_SELECTION < length ps then Inl size_error
             else then_res (check_selection (num 0) ps) (Inr (JArr ps))
         | _ \<Rightarrow> Inl size_error)"

lemma check_selection_ascending:
  "check_selection (num k0) ps = Inr () \<Longrightarrow>
   \<exists>ks. ps = map (\<lambda>k. JNum (num k)) ks \<and> sorted_wrt (<) (k0 # ks)"
proof (induction ps arbitrary: k0)
  case (Cons p ps)
  from Cons.prems obtain n where p: "p = JNum n" and safe: "js_isSafeInteger n"
    and gt: "\<not> js_le n (num k0)" and rest: "check_selection n ps = Inr ()"
    by (auto split: json.splits if_splits)
  from safe obtain k where k: "n = num k" by (rule js_isSafeIntegerE)
  from Cons.IH[of k] rest k obtain ks where "ps = map (\<lambda>k. JNum (num k)) ks" "sorted_wrt (<) (k # ks)"
    by blast
  with p k gt show ?case by (intro exI[of _ "k # ks"]) auto
qed simp

section \<open>Upload\<close>

definition CHUNK_BYTES :: int where
  "CHUNK_BYTES = 1024 * 1024"

text \<open>The fields of an \<open>Ingestion\<close> the upload reads; offsets and indices are integers by the
  wire schema.\<close>

record ingestion =
  ing_id :: string
  ing_nextOffset :: int
  ing_nextChunkIndex :: int

record capture_upload =
  up_fileName :: string
  up_bytes :: "nat list"
  up_mediaType :: "string option"
  up_sourceKind :: string
  up_targetLanguage :: "string option"
  up_structuringMode :: "string option"
  up_pdfPageNumbers :: json
  up_identifySpeakers :: bool
  up_spokenLanguage :: "string option"
  up_clientRequestId :: string

text \<open>\<open>bytes.slice(a, b)\<close>: a negative index counts from the end.\<close>

definition slice_index :: "nat \<Rightarrow> int \<Rightarrow> nat" where
  "slice_index len i = (if i < 0 then nat (int len + i) else min (nat i) len)"

definition js_slice :: "'a list \<Rightarrow> int \<Rightarrow> int \<Rightarrow> 'a list" where
  "js_slice xs a b = (let i = slice_index (length xs) a; j = slice_index (length xs) b
                      in take (j - i) (drop i xs))"

definition maxChunk :: "int \<Rightarrow> int" where
  "maxChunk maxChunkBytes = max 1 (min CHUNK_BYTES maxChunkBytes)"

definition json_headers :: "string \<Rightarrow> (string \<times> json) list" where
  "json_headers key = [(''Content-Type'', JStr ''application/json''), (''X-Idempotency-Key'', JStr key)]"

definition jopt :: "string option \<Rightarrow> json \<Rightarrow> json" where
  "jopt s d = (case s of None \<Rightarrow> d | Some t \<Rightarrow> JStr t)"

definition open_request :: "(nat list \<Rightarrow> string) \<Rightarrow> capture_upload \<Rightarrow> request" where
  "open_request sha256 up =
     (let key = up_clientRequestId up @ ''-ingestion''
      in \<lparr>rq_method = Some POST, rq_path = ''/v2/ingestions'', rq_headers = json_headers key,
          rq_body = JsonBody (JObj
            [(''protocolVersion'', JStr ''2''), (''kind'', JStr (up_sourceKind up)),
             (''mode'', JStr ''file''), (''clientRequestId'', JStr key),
             (''fileName'', JStr (up_fileName up)),
             (''mediaType'', jopt (up_mediaType up) (JStr ''application/octet-stream'')),
             (''totalBytes'', JNum (num (int (length (up_bytes up))))),
             (''sourceSha256'', JStr (sha256 (up_bytes up)))])\<rparr>)"

definition chunk_request ::
  "(nat list \<Rightarrow> string) \<Rightarrow> nat list \<Rightarrow> int \<Rightarrow> int \<Rightarrow> ingestion \<Rightarrow> request" where
  "chunk_request sha256 bytes step offset ing =
     (let len = int (length bytes);
          chunk = js_slice bytes offset (min (offset + step) len);
          index = show_int (ing_nextChunkIndex ing)
      in \<lparr>rq_method = Some PUT,
          rq_path = ''/v2/ingestions/'' @ encodeURIComponent (ing_id ing) @ ''/chunks/'' @ index,
          rq_headers =
            [(''Content-Range'', JStr (''bytes '' @ show_int offset @ ''-''
                @ show_int (offset + int (length chunk) - 1) @ ''/'' @ show_int len)),
             (''Digest'', JStr (''sha-256='' @ sha256 chunk)),
             (''X-Idempotency-Key'', JStr (ing_id ing @ ''-'' @ index))],
          rq_body = BytesBody chunk\<rparr>)"

definition finalize_request :: "(nat list \<Rightarrow> string) \<Rightarrow> nat list \<Rightarrow> ingestion \<Rightarrow> request" where
  "finalize_request sha256 bytes ing =
     \<lparr>rq_method = Some POST,
      rq_path = ''/v2/ingestions/'' @ encodeURIComponent (ing_id ing) @ ''/finalize'',
      rq_headers = [(''Content-Type'', JStr ''application/json'')],
      rq_body = JsonBody (JObj
        [(''protocolVersion'', JStr ''2''), (''totalBytes'', JNum (num (int (length bytes)))),
         (''sha256'', JStr (sha256 bytes))])\<rparr>"

definition start_request :: "capture_upload \<Rightarrow> json \<Rightarrow> ingestion \<Rightarrow> request" where
  "start_request up pages ing =
     \<lparr>rq_method = Some POST, rq_path = ''/v2/captures'',
      rq_headers = json_headers (up_clientRequestId up),
      rq_body = JsonBody (JObj (
        [(''protocolVersion'', JStr ''2''), (''clientRequestId'', JStr (up_clientRequestId up)),
         (''ingestionId'', JStr (ing_id ing)),
         (''structuringMode'', jopt (up_structuringMode up) (JStr ''runtime'')),
         (''targetLanguage'', jopt (up_targetLanguage up) JNull), (''startPolicy'', JStr ''eager'')]
        @ (if pages = JUndef then [] else [(''pdfPageNumbers'', pages)])
        @ (if up_identifySpeakers up then [(''identifySpeakers'', JBool True)] else [])
        @ (case up_spokenLanguage up of None \<Rightarrow> []
           | Some l \<Rightarrow> if l = [] then [] else [(''spokenLanguage'', JStr l)])))\<rparr>"

definition delete_request :: "ingestion \<Rightarrow> request" where
  "delete_request ing =
     \<lparr>rq_method = Some DELETE, rq_path = ''/v2/ingestions/'' @ encodeURIComponent (ing_id ing),
      rq_headers = [], rq_body = NoBody\<rparr>"

text \<open>The \<open>for\<close> loop over the offsets: the error that stops it, the last ingestion seen, and the
  requests made.\<close>

type_synonym 'w ingest = "'w \<Rightarrow> request \<Rightarrow> (exn + ingestion) \<times> 'w"

function upload_chunks ::
  "(nat list \<Rightarrow> string) \<Rightarrow> 'w ingest \<Rightarrow> nat list \<Rightarrow> int \<Rightarrow> int \<Rightarrow> ingestion \<Rightarrow> 'w
     \<Rightarrow> exn option \<times> ingestion \<times> request list \<times> 'w" where
  "upload_chunks sha256 ingest bytes maxChunkBytes offset ing w =
     (if offset < int (length bytes) then
        (let rq = chunk_request sha256 bytes (maxChunk maxChunkBytes) offset ing
         in case ingest w rq of
              (Inl e, w') \<Rightarrow> (Some e, ing, [rq], w')
            | (Inr ing', w') \<Rightarrow>
                (let m = upload_chunks sha256 ingest bytes maxChunkBytes
                           (offset + maxChunk maxChunkBytes) ing' w'
                 in (fst m, fst (snd m), rq # fst (snd (snd m)), snd (snd (snd m)))))
      else (None, ing, [], w))"
  by pat_completeness auto
termination
  by (relation "measure (\<lambda>(_, _, bytes, _, offset, _, _). nat (int (length bytes) - offset))")
    (auto simp: maxChunk_def)

declare upload_chunks.simps [simp del]

text \<open>The facade the upload is given: \<open>getStreamingCapabilities\<close> and \<open>json\<close> at its types.\<close>

record ('w, 'op) upload_context =
  cx_capabilities :: "'w \<Rightarrow> (exn + int) \<times> 'w"
  cx_ingest :: "'w \<Rightarrow> request \<Rightarrow> (exn + ingestion) \<times> 'w"
  cx_start :: "'w \<Rightarrow> request \<Rightarrow> (exn + 'op) \<times> 'w"
  cx_delete :: "'w \<Rightarrow> request \<Rightarrow> (exn + json) \<times> 'w"

text \<open>The \<open>catch\<close> clause: delete the ingestion, whatever comes of it, and rethrow.\<close>

definition abandon ::
  "('w, 'op) upload_context \<Rightarrow> ingestion \<Rightarrow> exn \<Rightarrow> request list \<Rightarrow> 'w
     \<Rightarrow> (exn + 'op) \<times> request list \<times> 'w" where
  "abandon cx ing e sent w =
     (Inl e, sent @ [delete_request ing], snd (cx_delete cx w (delete_request ing)))"

text \<open>
  The last call of the \<open>try\<close> block is returned without \<open>await\<close>, so its rejection does not
  reach the \<open>catch\<close> clause: a refused capture leaves the ingestion in place.
\<close>

definition startStreamingCapture ::
  "(nat list \<Rightarrow> string) \<Rightarrow> ('w, 'op) upload_context \<Rightarrow> capture_upload \<Rightarrow> 'w
     \<Rightarrow> (exn + 'op) \<times> request list \<times> 'w" where
  "startStreamingCapture sha256 cx up w =
     (let bytes = up_bytes up
      in case pdfPageSelection (up_pdfPageNumbers up) of
           Inl e \<Rightarrow> (Inl e, [], w)
         | Inr pages \<Rightarrow>
         (case cx_capabilities cx w of
            (Inl e, w1) \<Rightarrow> (Inl e, [], w1)
          | (Inr maxChunkBytes, w1) \<Rightarrow>
          (case cx_ingest cx w1 (open_request sha256 up) of
             (Inl e, w2) \<Rightarrow> (Inl e, [open_request sha256 up], w2)
           | (Inr opened, w2) \<Rightarrow>
           (let m = upload_chunks sha256 (cx_ingest cx) bytes maxChunkBytes (ing_nextOffset opened) opened w2;
                ing = fst (snd m); sent = open_request sha256 up # fst (snd (snd m)); w3 = snd (snd (snd m))
            in case fst m of
                 Some e \<Rightarrow> abandon cx ing e sent w3
               | None \<Rightarrow>
               (let fin = finalize_request sha256 bytes ing
                in case cx_ingest cx w3 fin of
                     (Inl e, w4) \<Rightarrow> abandon cx ing e (sent @ [fin]) w4
                   | (Inr ing', w4) \<Rightarrow>
                       (let rq = start_request up pages ing'; a = cx_start cx w4 rq
                        in (fst a, sent @ [fin, rq], snd a)))))))"

section \<open>What the upload guarantees\<close>

lemma maxChunk_bounds: "1 \<le> maxChunk n" "maxChunk n \<le> CHUNK_BYTES"
  by (simp_all add: maxChunk_def CHUNK_BYTES_def)

definition body_bytes :: "request \<Rightarrow> nat list" where
  "body_bytes rq = (case rq_body rq of BytesBody bs \<Rightarrow> bs | _ \<Rightarrow> [])"

lemma js_slice_nonneg:
  assumes "0 \<le> a" "a \<le> b" "b \<le> int (length xs)"
  shows "js_slice xs a b = take (nat (b - a)) (drop (nat a) xs)"
  using assms by (simp add: js_slice_def slice_index_def Let_def nat_diff_distrib)

lemma chunk_request_body:
  assumes "0 \<le> offset" "offset < int (length bytes)" "1 \<le> step"
  shows "body_bytes (chunk_request sha256 bytes step offset ing) =
           take (nat (min step (int (length bytes) - offset))) (drop (nat offset) bytes)"
proof -
  have "js_slice bytes offset (min (offset + step) (int (length bytes))) =
          take (nat (min (offset + step) (int (length bytes)) - offset)) (drop (nat offset) bytes)"
    by (rule js_slice_nonneg) (use assms in auto)
  moreover have "min (offset + step) (int (length bytes)) - offset = min step (int (length bytes) - offset)"
    by (simp add: min_def)
  ultimately show ?thesis
    by (simp add: chunk_request_def body_bytes_def Let_def)
qed

text \<open>A finished upload sent exactly the bytes from its first offset on, in order, each chunk
  within the limits.\<close>

lemma upload_chunks_bytes:
  "upload_chunks sha256 ingest bytes mc offset ing w = (None, ing', sent, w') \<Longrightarrow> 0 \<le> offset \<Longrightarrow>
   concat (map body_bytes sent) = drop (nat offset) bytes
   \<and> list_all (\<lambda>rq. int (length (body_bytes rq)) \<le> maxChunk mc) sent"
proof (induction sha256 ingest bytes mc offset ing w arbitrary: ing' sent w' rule: upload_chunks.induct)
  case (1 sha256 ingest bytes mc offset ing w)
  show ?case
  proof (cases "offset < int (length bytes)")
    case False
    with 1(2,3) show ?thesis by (auto simp: upload_chunks.simps[of _ _ _ _ offset])
  next
    case True
    let ?rq = "chunk_request sha256 bytes (maxChunk mc) offset ing"
    let ?n = "nat (min (maxChunk mc) (int (length bytes) - offset))"
    from 1(2) True obtain ing1 w1 sent1 where i: "ingest w ?rq = (Inr ing1, w1)"
      and r: "upload_chunks sha256 ingest bytes mc (offset + maxChunk mc) ing1 w1 = (None, ing', sent1, w')"
      and sent: "sent = ?rq # sent1"
      by (auto simp: upload_chunks.simps[of _ _ _ _ offset] Let_def split: prod.splits sum.splits)
        (metis prod.collapse)+
    have IH: "concat (map body_bytes sent1) = drop (nat (offset + maxChunk mc)) bytes"
      "list_all (\<lambda>rq. int (length (body_bytes rq)) \<le> maxChunk mc) sent1"
      using 1(1)[OF True refl i[symmetric] refl r] 1(3) maxChunk_bounds[of mc] by auto
    have body: "body_bytes ?rq = take ?n (drop (nat offset) bytes)"
      using chunk_request_body[OF 1(3) True maxChunk_bounds(1)] .
    have "drop (nat (offset + maxChunk mc)) bytes = drop ?n (drop (nat offset) bytes)"
      using 1(3) True maxChunk_bounds[of mc] by (auto simp: min_def nat_add_distrib add.commute)
    then have "concat (map body_bytes sent) = drop (nat offset) bytes"
      using IH(1) body sent by (simp del: drop_drop)
    moreover have "int (length (body_bytes ?rq)) \<le> maxChunk mc"
      unfolding body using maxChunk_bounds(1)[of mc] by (auto simp: min_def)
    ultimately show ?thesis using IH(2) sent by simp
  qed
qed

section \<open>Event stream\<close>

text \<open>
  The generator is modelled by the trace of what it does when it is run to its end: the
  requests it sends and the events it yields, in order. \<open>jp\<close> is \<open>JSON.parse\<close>, \<open>None\<close> where it
  throws; the previous sequence is the value the code keeps, whatever its type.
\<close>

definition parseJsonFrame :: "(string \<Rightarrow> json option) \<Rightarrow> SseFrame \<Rightarrow> string \<Rightarrow> exn + json" where
  "parseJsonFrame jp frame label =
     (case jp (frame_data frame) of
        None \<Rightarrow> Inl (caused_protocol_error (''Capture Runtime returned invalid '' @ label @ '' JSON.''))
      | Some v \<Rightarrow> Inr v)"

definition invalid_event :: exn where
  "invalid_event = protocol_error ''Capture Runtime returned an invalid event identity or sequence.''"

text \<open>The checks of one frame; a property of \<open>null\<close> is a \<open>TypeError\<close>.\<close>

definition accept_event :: "(string \<Rightarrow> json option) \<Rightarrow> string \<Rightarrow> json \<Rightarrow> SseFrame \<Rightarrow> exn + jobj" where
  "accept_event jp capture previous frame =
     bind_res (parseJsonFrame jp frame ''event'') (\<lambda>event.
       case event of
         JNull \<Rightarrow> Inl TypeErr
       | JObj r \<Rightarrow>
           if fld r ''captureId'' \<noteq> JStr capture \<or> js_leq (fld r ''sequence'') previous
           then Inl invalid_event
           else then_res (assertCaptureProgress r ''CaptureEvent'') (Inr r)
       | _ \<Rightarrow> Inl invalid_event)"

definition terminal_event :: "jobj \<Rightarrow> bool" where
  "terminal_event r = str_in (fld r ''eventType'') [''completed'', ''failed'', ''cancelled'']"

text \<open>How the \<open>for await\<close> loop over the frames of one response ends.\<close>

datatype stream_end = Exhausted | Returned | Thrown exn

fun consume_frames ::
  "(string \<Rightarrow> json option) \<Rightarrow> string \<Rightarrow> json \<Rightarrow> SseFrame list \<Rightarrow> exn option
     \<Rightarrow> jobj list \<times> json \<times> stream_end" where
  "consume_frames jp capture previous [] broken =
     ([], previous, case broken of None \<Rightarrow> Exhausted | Some e \<Rightarrow> Thrown e)"
| "consume_frames jp capture previous (f # fs) broken =
     (case accept_event jp capture previous f of
        Inl e \<Rightarrow> ([], previous, Thrown e)
      | Inr r \<Rightarrow>
          if terminal_event r then ([r], fld r ''sequence'', Returned)
          else (let m = consume_frames jp capture (fld r ''sequence'') fs broken
                in (r # fst m, snd m)))"

datatype event_step = Sent request | Yielded jobj

definition events_request :: "string \<Rightarrow> json \<Rightarrow> request" where
  "events_request capture previous =
     \<lparr>rq_method = None, rq_path = ''/v2/captures/'' @ encodeURIComponent capture @ ''/events'',
      rq_headers = (''Accept'', JStr ''text/event-stream'')
        # (if js_less previous (JNum (num 0)) then [] else [(''Last-Event-ID'', previous)]),
      rq_body = NoBody\<rparr>"

text \<open>The \<open>while (true)\<close> loop: it ends because every further round uses up one reconnect.\<close>

function event_loop ::
  "'w sender \<Rightarrow> (string \<Rightarrow> json option) \<Rightarrow> string \<Rightarrow> nat \<Rightarrow> nat \<Rightarrow> json \<Rightarrow> 'w
     \<Rightarrow> exn option \<times> event_step list \<times> 'w" where
  "event_loop req jp capture maxReconnects reconnects previous w =
     (let rq = events_request capture previous
      in case req w rq of
           (Inl e, w') \<Rightarrow> (Some e, [Sent rq], w')
         | (Inr r, w') \<Rightarrow>
             (let d = decodeSse r; c = consume_frames jp capture previous (fst d) (snd d);
                  done_steps = Sent rq # map Yielded (fst c)
              in case snd (snd c) of
                   Returned \<Rightarrow> (None, done_steps, w')
                 | Thrown e \<Rightarrow>
                     if \<not> (is_transport_error e \<or> exn_retryable e) \<or> maxReconnects \<le> reconnects
                     then (Some e, done_steps, w')
                     else (let m = event_loop req jp capture maxReconnects (reconnects + 1) (fst (snd c)) w'
                           in (fst m, done_steps @ fst (snd m), snd (snd m)))
                 | Exhausted \<Rightarrow>
                     if maxReconnects \<le> reconnects then (None, done_steps, w')
                     else (let m = event_loop req jp capture maxReconnects (reconnects + 1) (fst (snd c)) w'
                           in (fst m, done_steps @ fst (snd m), snd (snd m)))))"
  by pat_completeness auto
termination
  by (relation "measure (\<lambda>(_, _, _, maxReconnects, reconnects, _, _). maxReconnects - reconnects)") auto

declare event_loop.simps [simp del]

record event_options =
  eo_lastEventId :: "json option"
  eo_maxReconnects :: "jnum option"

definition reconnect_budget :: "event_options \<Rightarrow> exn + nat" where
  "reconnect_budget opts =
     (case option_or (eo_maxReconnects opts) (num 2) of
        Fin q \<Rightarrow> if q < 0 \<or> \<not> js_isInteger (Fin q)
                 then Inl (protocol_error ''maxReconnects must be a non-negative integer.'')
                 else Inr (nat \<lfloor>q\<rfloor>)
      | _ \<Rightarrow> Inl (protocol_error ''maxReconnects must be a non-negative integer.''))"

definition first_previous :: "event_options \<Rightarrow> json" where
  "first_previous opts =
     (case eo_lastEventId opts of None \<Rightarrow> JNum (num (- 1)) | Some v \<Rightarrow> JNum (to_number v))"

definition captureEvents ::
  "'w sender \<Rightarrow> (string \<Rightarrow> json option) \<Rightarrow> string \<Rightarrow> event_options \<Rightarrow> 'w
     \<Rightarrow> exn option \<times> event_step list \<times> 'w" where
  "captureEvents req jp capture opts w =
     (case reconnect_budget opts of
        Inl e \<Rightarrow> (Some e, [], w)
      | Inr n \<Rightarrow> event_loop req jp capture n 0 (first_previous opts) w)"

section \<open>What the event stream guarantees\<close>

text \<open>
  The order the trace obeys, from the sequence seen last: a request resumes after that
  sequence, an event belongs to the capture, reports consistent progress and does not repeat
  or go back, and nothing follows a terminal event.
\<close>

fun trace_ok :: "string \<Rightarrow> json \<Rightarrow> event_step list \<Rightarrow> bool" where
  "trace_ok capture previous [] = True"
| "trace_ok capture previous (Sent rq # t) =
     (rq = events_request capture previous \<and> trace_ok capture previous t)"
| "trace_ok capture previous (Yielded r # t) =
     (fld r ''captureId'' = JStr capture \<and> \<not> js_leq (fld r ''sequence'') previous
      \<and> assertCaptureProgress r ''CaptureEvent'' = Inr ()
      \<and> (terminal_event r \<longrightarrow> t = []) \<and> trace_ok capture (fld r ''sequence'') t)"

fun is_sent :: "event_step \<Rightarrow> bool" where
  "is_sent (Sent _) = True"
| "is_sent (Yielded _) = False"

lemma accept_event_Inr:
  assumes "accept_event jp capture previous f = Inr r"
  shows "fld r ''captureId'' = JStr capture \<and> \<not> js_leq (fld r ''sequence'') previous
   \<and> assertCaptureProgress r ''CaptureEvent'' = Inr ()"
proof -
  obtain v where p: "parseJsonFrame jp f ''event'' = Inr v"
    using assms by (auto simp: accept_event_def res_simps)
  with assms show ?thesis
    by (cases v) (auto simp: accept_event_def res_simps split: if_splits)
qed

lemma consume_frames_trace:
  "consume_frames jp capture previous fs broken = (evs, previous', fin) \<Longrightarrow>
   (fin = Returned \<longrightarrow> t = []) \<Longrightarrow> (fin \<noteq> Returned \<longrightarrow> trace_ok capture previous' t) \<Longrightarrow>
   trace_ok capture previous (map Yielded evs @ t)"
proof (induction jp capture previous fs broken arbitrary: evs rule: consume_frames.induct)
  case (2 jp capture previous f fs broken)
  show ?case
  proof (cases "accept_event jp capture previous f")
    case (Inr r)
    note ok = accept_event_Inr[OF Inr]
    show ?thesis
    proof (cases "terminal_event r")
      case True
      with 2 Inr ok show ?thesis by auto
    next
      case False
      with 2 Inr ok show ?thesis by (cases "consume_frames jp capture (fld r ''sequence'') fs broken") auto
    qed
  qed (use 2 in auto)
qed (auto split: option.splits)

lemma event_loop_trace:
  "trace_ok capture previous (fst (snd (event_loop req jp capture m n previous w)))"
proof (induction req jp capture m n previous w rule: event_loop.induct)
  case (1 req jp capture m n previous w)
  obtain a w' where a: "req w (events_request capture previous) = (a, w')" by fastforce
  show ?case
  proof (cases a)
    case (Inr r)
    obtain evs previous' fin where c:
      "consume_frames jp capture previous (fst (decodeSse r)) (snd (decodeSse r)) = (evs, previous', fin)"
      using prod_cases3 by blast
    note step = consume_frames_trace[OF c]
    show ?thesis
      unfolding event_loop.simps[of req jp capture m n previous w]
      using 1[OF refl, unfolded a, OF refl, unfolded Inr, OF refl refl refl refl, unfolded c]
      by (cases fin) (auto simp: a Inr c Let_def intro!: step step[where t = "[]", simplified])
  qed (simp add: event_loop.simps[of req jp capture m n previous w] a)
qed

lemma event_loop_requests:
  "n \<le> m \<Longrightarrow> length (filter is_sent (fst (snd (event_loop req jp capture m n previous w)))) \<le> Suc (m - n)"
proof (induction req jp capture m n previous w rule: event_loop.induct)
  case (1 req jp capture m n previous w)
  obtain a w' where a: "req w (events_request capture previous) = (a, w')" by fastforce
  show ?case
  proof (cases a)
    case (Inr r)
    obtain evs previous' fin where c:
      "consume_frames jp capture previous (fst (decodeSse r)) (snd (decodeSse r)) = (evs, previous', fin)"
      using prod_cases3 by blast
    have none: "filter is_sent (map Yielded evs) = []" by (induction evs) auto
    show ?thesis
      unfolding event_loop.simps[of req jp capture m n previous w]
      using 1(1,2)[OF refl, unfolded a, OF refl, unfolded Inr, OF refl refl refl refl, unfolded c] 1(3)
      by (cases fin) (auto simp: a Inr c Let_def none)
  qed (simp add: event_loop.simps[of req jp capture m n previous w] a)
qed

text \<open>The numeric sequences of the events yielded.\<close>

fun yielded :: "event_step list \<Rightarrow> jobj list" where
  "yielded [] = []"
| "yielded (Sent _ # t) = yielded t"
| "yielded (Yielded r # t) = r # yielded t"

lemma trace_ok_ascending:
  "trace_ok capture (JNum (num k)) t \<Longrightarrow> map (\<lambda>r. fld r ''sequence'') (yielded t) = map (JNum \<circ> num) ks \<Longrightarrow>
   sorted_wrt (<) (k # ks)"
proof (induction t arbitrary: k ks)
  case (Cons s t)
  show ?case
  proof (cases s)
    case (Sent rq)
    with Cons.IH[of k ks] Cons.prems show ?thesis by (simp add: comp_def)
  next
    case (Yielded r)
    with Cons.prems(2) obtain k' ks' where ks: "ks = k' # ks'" and seq: "fld r ''sequence'' = JNum (num k')"
      and rest: "map (\<lambda>r. fld r ''sequence'') (yielded t) = map (JNum \<circ> num) ks'"
      by (cases ks) auto
    from Cons.prems(1) Yielded seq have lt: "k < k'" and "trace_ok capture (JNum (num k')) t" by auto
    with Cons.IH rest have "sorted_wrt (<) (k' # ks')" by blast
    with lt ks show ?thesis by auto
  qed
qed simp

end
