(* ===== verification/Runtime_Discovery.thy ===== *)
theory Runtime_Discovery
  imports Runtime_Streaming
begin

text \<open>
  \<^verbatim>\<open>packages/capture-runtime-client/src/private/discovery.ts\<close>: the negotiation a client runs
  before its first call of the v2 surface. It reads the readiness report, the contract index
  and the contract bundle, and accepts the runtime only when all three agree with each other
  and with the identity the client was built for. SHA-256 and the text decoder followed by
  \<open>JSON.parse\<close> are arguments (\<open>sha256\<close>, \<open>parse_bytes\<close>).
\<close>

section \<open>Identity of the client\<close>

definition CAPTURE_API_VERSION :: string where
  "CAPTURE_API_VERSION = ''2.0''"

definition CAPTURE_DOCUMENT_SCHEMA_VERSION :: string where
  "CAPTURE_DOCUMENT_SCHEMA_VERSION = ''2''"

definition CAPTURE_DOCUMENT_SCHEMA_SHA256 :: string where
  "CAPTURE_DOCUMENT_SCHEMA_SHA256 =
     ''5452631ce9d8eea48851a819530d94920a39f41350d5575df0f8f97f82171774''"

definition CAPTURE_CONTRACT_SET_SHA256 :: string where
  "CAPTURE_CONTRACT_SET_SHA256 =
     ''91ff5ff5cef6d68774cf036878843503f171044bf8c4a9f6a62e7fb418ce2380''"

record identity_options =
  io_expectedApiVersion :: "string option"
  io_expectedSchemaVersion :: "string option"
  io_expectedSchemaSha256 :: "string option"
  io_expectedContractSetSha256 :: "string option"
  io_allowedContractSetSha256 :: "string list option"

definition allowedContractHashes :: "identity_options \<Rightarrow> string list" where
  "allowedContractHashes opts =
     option_or (io_allowedContractSetSha256 opts)
       [option_or (io_expectedContractSetSha256 opts) CAPTURE_CONTRACT_SET_SHA256]"

section \<open>Readiness\<close>

text \<open>The failures the readiness report collects. A property of \<open>null\<close> is a \<open>TypeError\<close>.\<close>

definition ready_failures ::
  "(rat \<Rightarrow> string) \<Rightarrow> identity_options \<Rightarrow> json \<Rightarrow> exn + string list" where
  "ready_failures sf opts ready =
     (let service = jprop ready ''service''; api = jprop ready ''apiVersion'';
          version = jprop ready ''captureDocumentSchemaVersion'';
          remoteHash = coalesce (jprop ready ''captureDocumentSchemaSha256'') (jprop ready ''schemaSha256'');
          capabilities = jprop ready ''capabilities'';
          modes = jprop capabilities ''structuringModes'';
          expectedApi = option_or (io_expectedApiVersion opts) CAPTURE_API_VERSION;
          expectedSchema = option_or (io_expectedSchemaVersion opts) CAPTURE_DOCUMENT_SCHEMA_VERSION;
          expectedHash = option_or (io_expectedSchemaSha256 opts) CAPTURE_DOCUMENT_SCHEMA_SHA256
      in if nullish ready \<or> nullish capabilities then Inl TypeErr
         else Inr (
           (if service \<noteq> JStr ''capture-runtime''
            then [''service '' @ js_String sf service @ '' is not Capture Runtime''] else [])
           @ (if \<not> truthy (jprop ready ''ready'') then [''runtime is not ready''] else [])
           @ (if api \<noteq> JStr expectedApi
              then [''API version '' @ js_String sf api @ '' is unsupported''] else [])
           @ (if version \<noteq> JStr expectedSchema
              then [''document schema version '' @ js_String sf version @ '' is unsupported''] else [])
           @ (if truthy remoteHash \<and> remoteHash \<noteq> JStr expectedHash
              then [''document schema hash is incompatible''] else [])
           @ (case modes of
                JArr ms \<Rightarrow> if \<not> js_includes ms (JStr ''host'') \<and> \<not> js_includes ms (JStr ''runtime'')
                           then [''runtime exposes no structuring mode''] else []
              | _ \<Rightarrow> [''runtime exposes no structuring mode''])))"

definition check_ready :: "(rat \<Rightarrow> string) \<Rightarrow> identity_options \<Rightarrow> json \<Rightarrow> exn + unit" where
  "check_ready sf opts ready =
     bind_res (ready_failures sf opts ready) (\<lambda>failures.
       throw_if (failures \<noteq> []) (compatibility_error (join ''; '' failures)))"

section \<open>Contract index\<close>

definition INDEX_FIELDS :: "string list" where
  "INDEX_FIELDS = [''catalogVersion'', ''runtimeVersion'', ''contractSetVersion'', ''surfaces'',
                   ''sha256'', ''href'']"

definition surface_ids :: "json list \<Rightarrow> json list" where
  "surface_ids surfaces = map (\<lambda>s. jprop s ''id'') surfaces"

text \<open>\<open>field in index\<close> throws a \<open>TypeError\<close> when the index is no object.\<close>

definition validateContractIndex :: "json \<Rightarrow> exn + unit" where
  "validateContractIndex index =
     (let missing = protocol_error ''Capture Runtime contract index is missing required fields.''
      in case index of
           JObj r \<Rightarrow>
             then_res (throw_if (list_ex (\<lambda>f. \<not> has_key r f) INDEX_FIELDS) missing)
             (then_res (throw_if (fld r ''catalogVersion'' \<noteq> JStr ''2'' \<or> fld r ''contractSetVersion'' \<noteq> JStr ''2''
                                  \<or> \<not> is_str (fld r ''runtimeVersion''))
                (compatibility_error ''Capture Runtime contract catalog version is incompatible.''))
             (then_res (case fld r ''surfaces'' of
                  JArr ss \<Rightarrow> throw_if (length (new_Set (surface_ids ss)) \<noteq> 1
                                      \<or> \<not> list_ex (\<lambda>i. js_seq i (JStr ''v2'')) (surface_ids ss))
                    (compatibility_error ''Capture Runtime contract catalog does not expose the v2 surface.'')
                | _ \<Rightarrow> Inl (compatibility_error ''Capture Runtime contract catalog does not expose the v2 surface.''))
             (throw_if (\<not> is_sha (fld r ''sha256''))
                (protocol_error ''Capture Runtime contract index hash is invalid.''))))
         | JArr _ \<Rightarrow> Inl missing
         | _ \<Rightarrow> Inl TypeErr)"

definition HREF_PREFIX :: string where
  "HREF_PREFIX = ''/meta/v2/contracts/sha256/''"

definition check_href :: "json \<Rightarrow> exn + string" where
  "check_href index =
     (case jprop index ''href'' of
        JStr href \<Rightarrow>
          (let hrefDigest = drop (length HREF_PREFIX) href
           in if \<not> starts_with HREF_PREFIX href
              then Inl (protocol_error ''Capture Runtime contract index href is invalid.'')
              else if \<not> is_sha256_hex hrefDigest \<or> JStr hrefDigest \<noteq> jprop index ''sha256''
              then Inl (compatibility_error ''Capture Runtime contract index href digest does not match its advertised bundle hash.'')
              else Inr href)
      | _ \<Rightarrow> Inl (protocol_error ''Capture Runtime contract index href is invalid.''))"

section \<open>Contract bundle\<close>

definition is_object :: "json \<Rightarrow> bool" where
  "is_object v = (case v of JObj _ \<Rightarrow> True | JArr _ \<Rightarrow> True | _ \<Rightarrow> False)"

definition is_array :: "json \<Rightarrow> bool" where
  "is_array v = (case v of JArr _ \<Rightarrow> True | _ \<Rightarrow> False)"

definition items :: "json \<Rightarrow> json list" where
  "items v = (case v of JArr xs \<Rightarrow> xs | _ \<Rightarrow> [])"

definition bad_operation :: "json \<Rightarrow> bool" where
  "bad_operation op =
     (\<not> is_object op \<or> \<not> is_str (jprop op ''path'') \<or> \<not> is_str (jprop op ''method'')
      \<or> \<not> is_str (jprop op ''surface'') \<or> \<not> is_object (jprop op ''body'')
      \<or> \<not> is_array (jprop op ''requiredHeaders'') \<or> \<not> is_object (jprop op ''idempotency'')
      \<or> \<not> is_array (jprop op ''responseStatusCodes''))"

definition REQUIRED_PATHS :: "string list" where
  "REQUIRED_PATHS =
     [''/v2/health/ready'', ''/v2/streaming/health/ready'', ''/v2/runtime/requirements'',
      ''/v2/runtime/installations'', ''/v2/captures'', ''/v2/captures/{capture_id}/events'',
      ''/v2/captures/{capture_id}/raw'', ''/v2/captures/{capture_id}/ocr'',
      ''/v2/captures/{capture_id}/result'', ''/v2/captures/{capture_id}/structure/session'',
      ''/v2/captures/{capture_id}/structure/session/batches/{batch_index}'']"

text \<open>\<open>requireOperation\<close>; \<open>undefined\<close> when there is none. Reading a property of it goes
  through \<open>?.\<close>.\<close>

definition requireOperation :: "json list \<Rightarrow> string \<Rightarrow> string option \<Rightarrow> json" where
  "requireOperation operations path method =
     option_or (List.find (\<lambda>op. jprop op ''path'' = JStr path
                  \<and> (case method of None \<Rightarrow> True | Some m \<Rightarrow> jprop op ''method'' = JStr m)) operations)
       JUndef"

definition requires_header :: "json \<Rightarrow> string \<Rightarrow> bool" where
  "requires_header op name = js_includes (items (jprop op ''requiredHeaders'')) (JStr name)"

definition body_kind :: "json \<Rightarrow> json" where
  "body_kind op = jprop (jprop op ''body'') ''kind''"

definition check_operations :: "(rat \<Rightarrow> string) \<Rightarrow> json list \<Rightarrow> exn + unit" where
  "check_operations sf operations =
     (let session = ''/v2/captures/{capture_id}/structure/session'';
          upload = requireOperation operations ''/v2/captures'' None;
          chunk = requireOperation operations ''/v2/ingestions/{ingestion_id}/chunks/{chunk_index}'' None;
          events = requireOperation operations ''/v2/captures/{capture_id}/events'' None;
          ocr = requireOperation operations ''/v2/captures/{capture_id}/ocr'' (Some ''GET'');
          sessionOpen = requireOperation operations session (Some ''POST'');
          batchGet = requireOperation operations (session @ ''/batches/{batch_index}'') (Some ''GET'');
          batchSubmit = requireOperation operations (session @ ''/batches/{batch_index}'') (Some ''PUT'')
      in then_res (throw_if (js_String sf (body_kind upload) \<notin> {''json'', ''none''}
                             \<or> \<not> requires_header upload ''X-Idempotency-Key'')
           (compatibility_error ''Capture Runtime v2 capture metadata is incompatible.''))
         (then_res (throw_if (body_kind chunk \<noteq> JStr ''binary''
                              \<or> \<not> list_all (requires_header chunk) [''Content-Range'', ''Digest'', ''X-Idempotency-Key''])
           (compatibility_error ''Capture Runtime v2 chunk metadata is incompatible.''))
         (then_res (throw_if (jprop events ''mediaType'' \<noteq> JStr ''text/event-stream''
                              \<or> jprop (jprop events ''streaming'') ''kind'' \<noteq> JStr ''sse''
                              \<or> jprop (jprop events ''streaming'') ''lastEventIdHeader'' \<noteq> JStr ''Last-Event-ID'')
           (compatibility_error ''Capture Runtime SSE metadata is incompatible.''))
         (then_res (throw_if (body_kind ocr \<noteq> JStr ''none''
                              \<or> jprop ocr ''responseSchema'' \<noteq> JStr ''CaptureOcrProjectionV3''
                              \<or> \<not> js_includes (items (jprop ocr ''responseStatusCodes'')) (JNum (num 200)))
           (compatibility_error ''Capture Runtime OCR metadata is incompatible.''))
         (throw_if (body_kind sessionOpen \<noteq> JStr ''json''
                    \<or> \<not> requires_header sessionOpen ''X-Idempotency-Key''
                    \<or> jprop (jprop sessionOpen ''idempotency'') ''mode'' \<noteq> JStr ''required''
                    \<or> body_kind batchGet \<noteq> JStr ''none''
                    \<or> body_kind batchSubmit \<noteq> JStr ''json''
                    \<or> \<not> requires_header batchSubmit ''X-Idempotency-Key''
                    \<or> jprop (jprop batchSubmit ''idempotency'') ''mode'' \<noteq> JStr ''required'')
           (compatibility_error ''Capture Runtime pull-session metadata is incompatible.''))))))"

definition validateContractBundle :: "(rat \<Rightarrow> string) \<Rightarrow> json \<Rightarrow> exn + string" where
  "validateContractBundle sf bundle =
     (let operations = items (jprop bundle ''operations'');
          ids = surface_ids (items (jprop bundle ''surfaces''));
          paths = map (\<lambda>op. jprop op ''path'') operations;
          documentSchema = option_or (List.find (\<lambda>s. jprop s ''name'' = JStr ''CaptureDocument'')
                                        (items (jprop bundle ''schemas''))) JUndef
      in if nullish bundle then Inl TypeErr
         else then_res (throw_if
                (jprop bundle ''contractSetVersion'' \<noteq> JStr ''2''
                 \<or> jprop bundle ''schemaDialect'' \<noteq> JStr ''https://json-schema.org/draft/2020-12/schema''
                 \<or> list_ex (\<lambda>f. \<not> is_array (jprop bundle f))
                     [''surfaces'', ''schemas'', ''operations'', ''problems'', ''invariants''])
                (protocol_error ''Capture Runtime contract bundle is invalid.''))
             (then_res (throw_if (length (new_Set ids) \<noteq> 1 \<or> JStr ''v2'' \<notin> set ids)
                (compatibility_error ''Capture Runtime contract bundle does not expose the v2 surface.''))
             (then_res (throw_if (list_ex bad_operation operations)
                (protocol_error ''Capture Runtime contract operation metadata is invalid.''))
             (then_res (for_each (\<lambda>p. throw_if (JStr p \<notin> set paths)
                   (compatibility_error ''Capture Runtime contract bundle does not advertise the required client surface.''))
                 REQUIRED_PATHS)
             (then_res (check_operations sf operations)
             (case jprop documentSchema ''schemaSha256'' of
                JStr h \<Rightarrow>
                  if h \<noteq> CAPTURE_DOCUMENT_SCHEMA_SHA256
                  then Inl (compatibility_error ''Capture Runtime document schema hash is incompatible.'')
                  else Inr h
              | _ \<Rightarrow> Inl (compatibility_error ''Capture Runtime document schema hash is incompatible.'')))))))"

section \<open>Negotiation\<close>

record RuntimeDiscovery =
  disc_ready :: json
  disc_streaming :: json
  disc_schemaSha256 :: string
  disc_contractIndex :: json
  disc_contractBundle :: json

record 'w discovery_context =
  dx_options :: identity_options
  dx_transport :: "'w sender"
  dx_json :: "request \<Rightarrow> ('w, exn, json) io"
  dx_getReady :: "('w, exn, json) io"
  dx_getStreamingCapabilities :: "('w, exn, json) io"

definition bundle_request :: "string \<Rightarrow> request" where
  "bundle_request href =
     (get_request href)\<lparr>rq_headers := [(''Accept'', JStr ''application/json'')]\<rparr>"

text \<open>The checks of the downloaded bundle before it is parsed.\<close>

definition check_bundle_bytes ::
  "(nat list \<Rightarrow> string) \<Rightarrow> identity_options \<Rightarrow> json \<Rightarrow> response \<Rightarrow> exn + nat list" where
  "check_bundle_bytes sha256 opts index r =
     (if \<not> resp_ok r then Inl (thrown_error r)
      else bind_res (resp_bytes r) (\<lambda>bytes.
        let h = sha256 bytes
        in then_res (throw_if (h \<notin> set (allowedContractHashes opts))
             (compatibility_error ''Capture Runtime contract bundle identity is not allowlisted.''))
           (then_res (throw_if (JStr h \<noteq> jprop index ''sha256''
                \<or> option_or (header r ''X-Contract-SHA256'') h \<noteq> h
                \<or> (case header r ''etag'' of None \<Rightarrow> False | Some t \<Rightarrow> t \<noteq> h \<and> t \<noteq> quoted h))
             (compatibility_error ''Capture Runtime contract bundle hash is incompatible.''))
           (Inr bytes))))"

definition negotiateRuntime ::
  "(rat \<Rightarrow> string) \<Rightarrow> (nat list \<Rightarrow> string) \<Rightarrow> (nat list \<Rightarrow> json option) \<Rightarrow> 'w discovery_context
     \<Rightarrow> ('w, exn, RuntimeDiscovery) io" where
  "negotiateRuntime sf sha256 parse_bytes cx =
     bind_io (dx_getReady cx) (\<lambda>ready.
     bind_io (lift_io (check_ready sf (dx_options cx) ready)) (\<lambda>_.
     bind_io (dx_json cx (get_request ''/meta/v2/contracts'')) (\<lambda>index.
     bind_io (lift_io (validateContractIndex index)) (\<lambda>_.
     bind_io (lift_io (check_href index)) (\<lambda>href.
     bind_io (\<lambda>w. dx_transport cx w (bundle_request href)) (\<lambda>r.
     bind_io (lift_io (check_bundle_bytes sha256 (dx_options cx) index r)) (\<lambda>bytes.
     bind_io (lift_io (case parse_bytes bytes of
         None \<Rightarrow> Inl (caused_protocol_error ''Capture Runtime contract bundle is not valid JSON.'')
       | Some b \<Rightarrow> Inr b)) (\<lambda>bundle.
     bind_io (lift_io (validateContractBundle sf bundle)) (\<lambda>schema.
     bind_io (dx_getStreamingCapabilities cx) (\<lambda>streaming.
     lift_io (then_res (throw_if (truthy (jprop ready ''captureDocumentSchemaSha256'')
                                  \<and> jprop ready ''captureDocumentSchemaSha256'' \<noteq> JStr schema)
         (compatibility_error ''Capture Runtime readiness schema hash differs from the discovered contract bundle.''))
       (Inr \<lparr>disc_ready = ready, disc_streaming = streaming, disc_schemaSha256 = schema,
             disc_contractIndex = index, disc_contractBundle = bundle\<rparr>))))))))))))"

section \<open>What a successful negotiation establishes\<close>

text \<open>The readiness report is of a ready Capture Runtime of the expected versions that offers a
  structuring mode.\<close>

definition ready_ok :: "identity_options \<Rightarrow> json \<Rightarrow> bool" where
  "ready_ok opts ready \<longleftrightarrow>
     jprop ready ''service'' = JStr ''capture-runtime''
     \<and> truthy (jprop ready ''ready'')
     \<and> jprop ready ''apiVersion'' = JStr (option_or (io_expectedApiVersion opts) CAPTURE_API_VERSION)
     \<and> jprop ready ''captureDocumentSchemaVersion''
         = JStr (option_or (io_expectedSchemaVersion opts) CAPTURE_DOCUMENT_SCHEMA_VERSION)
     \<and> (\<exists>ms. jprop (jprop ready ''capabilities'') ''structuringModes'' = JArr ms
              \<and> (JStr ''host'' \<in> set ms \<or> JStr ''runtime'' \<in> set ms))"

lemma check_ready_ok: "check_ready sf opts ready = Inr () \<Longrightarrow> ready_ok opts ready"
  by (auto simp: check_ready_def ready_failures_def res_simps Let_def ready_ok_def
      split: if_split_asm json.split_asm)

text \<open>The index and the bundle name the same content: the address, the advertised hash and the
  hash of the bytes agree, and that hash is allowed.\<close>

definition bundle_identity ::
  "(nat list \<Rightarrow> string) \<Rightarrow> identity_options \<Rightarrow> json \<Rightarrow> nat list \<Rightarrow> bool" where
  "bundle_identity sha256 opts index bytes \<longleftrightarrow>
     sha256 bytes \<in> set (allowedContractHashes opts)
     \<and> jprop index ''sha256'' = JStr (sha256 bytes)
     \<and> jprop index ''href'' = JStr (HREF_PREFIX @ sha256 bytes)"

lemma check_href_ok:
  "check_href index = Inr href \<Longrightarrow>
   jprop index ''href'' = JStr href \<and> jprop index ''sha256'' = JStr (drop (length HREF_PREFIX) href)
   \<and> href = HREF_PREFIX @ drop (length HREF_PREFIX) href"
  by (auto simp: check_href_def Let_def starts_with_def split: json.split_asm if_split_asm)
    (metis append_take_drop_id)

lemma check_bundle_bytes_ok:
  "check_bundle_bytes sha256 opts index r = Inr bytes \<Longrightarrow>
   sha256 bytes \<in> set (allowedContractHashes opts) \<and> jprop index ''sha256'' = JStr (sha256 bytes)
   \<and> resp_ok r \<and> resp_bytes r = Inr bytes"
  by (auto simp: check_bundle_bytes_def res_simps Let_def split: if_split_asm)

definition surfaces_ok :: "json \<Rightarrow> bool" where
  "surfaces_ok v \<longleftrightarrow> (\<exists>ss. v = JArr ss \<and> ss \<noteq> [] \<and> (\<forall>s \<in> set ss. jprop s ''id'' = JStr ''v2''))"

lemma surface_ids_v2:
  assumes "length (new_Set (surface_ids ss)) = 1" "JStr ''v2'' \<in> set (surface_ids ss)"
  shows "surfaces_ok (JArr ss)"
  using singleton_Set_str[OF assms] assms(2) by (auto simp: surfaces_ok_def surface_ids_def)

lemma validateContractIndex_ok:
  "validateContractIndex index = Inr () \<Longrightarrow>
   surfaces_ok (jprop index ''surfaces'') \<and> is_sha (jprop index ''sha256'')"
  by (cases index)
    (auto simp: validateContractIndex_def res_simps Let_def list_ex_iff
      split: json.split_asm intro!: surface_ids_v2)

definition bundle_ok :: "json \<Rightarrow> bool" where
  "bundle_ok bundle \<longleftrightarrow>
     surfaces_ok (jprop bundle ''surfaces'')
     \<and> (\<exists>ops. jprop bundle ''operations'' = JArr ops
          \<and> (\<forall>op \<in> set ops. \<not> bad_operation op)
          \<and> (\<forall>p \<in> set REQUIRED_PATHS. \<exists>op \<in> set ops. jprop op ''path'' = JStr p))
     \<and> (\<exists>ss s. jprop bundle ''schemas'' = JArr ss \<and> s \<in> set ss
          \<and> jprop s ''name'' = JStr ''CaptureDocument''
          \<and> jprop s ''schemaSha256'' = JStr CAPTURE_DOCUMENT_SCHEMA_SHA256)"

lemma is_array_items: "is_array v \<Longrightarrow> v = JArr (items v)"
  by (cases v) (auto simp: is_array_def items_def)

lemma validateContractBundle_ok:
  assumes ok: "validateContractBundle sf bundle = Inr h"
  shows "bundle_ok bundle \<and> h = CAPTURE_DOCUMENT_SCHEMA_SHA256"
proof -
  define ops where "ops = items (jprop bundle ''operations'')"
  define ss where "ss = items (jprop bundle ''schemas'')"
  define ids where "ids = surface_ids (items (jprop bundle ''surfaces''))"
  define schema where "schema = option_or (List.find (\<lambda>s. jprop s ''name'' = JStr ''CaptureDocument'') ss) JUndef"
  note defs = ops_def[symmetric] ss_def[symmetric] ids_def[symmetric]
  from ok have arrays: "is_array (jprop bundle ''surfaces'')" "is_array (jprop bundle ''schemas'')"
    "is_array (jprop bundle ''operations'')"
    and ids: "length (new_Set ids) = 1" "JStr ''v2'' \<in> set ids"
    and good: "\<forall>op \<in> set ops. \<not> bad_operation op"
    and paths: "\<forall>p \<in> set REQUIRED_PATHS. JStr p \<in> set (map (\<lambda>op. jprop op ''path'') ops)"
    and sch: "jprop schema ''schemaSha256'' = JStr CAPTURE_DOCUMENT_SCHEMA_SHA256"
      "h = CAPTURE_DOCUMENT_SCHEMA_SHA256"
    unfolding validateContractBundle_def schema_def
    by (simp_all add: res_simps Let_def defs list_ex_iff split: if_split_asm json.split_asm)
  have "surfaces_ok (jprop bundle ''surfaces'')"
    using ids arrays(1) is_array_items[OF arrays(1)] unfolding ids_def by (metis surface_ids_v2)
  moreover have "jprop bundle ''operations'' = JArr ops"
    using is_array_items[OF arrays(3)] by (simp add: ops_def)
  moreover have "\<forall>p \<in> set REQUIRED_PATHS. \<exists>op \<in> set ops. jprop op ''path'' = JStr p"
    using paths unfolding set_map image_iff by metis
  moreover have "\<exists>s \<in> set ss. jprop s ''name'' = JStr ''CaptureDocument''
      \<and> jprop s ''schemaSha256'' = JStr CAPTURE_DOCUMENT_SCHEMA_SHA256"
  proof (cases "List.find (\<lambda>s. jprop s ''name'' = JStr ''CaptureDocument'') ss")
    case None
    with sch show ?thesis by (simp add: schema_def jprop_def)
  next
    case (Some s)
    with sch find_Some_iff_mem[OF Some] show ?thesis by (auto simp: schema_def)
  qed
  moreover have "jprop bundle ''schemas'' = JArr ss"
    using is_array_items[OF arrays(2)] by (simp add: ss_def)
  ultimately show ?thesis using good sch(2) unfolding bundle_ok_def by blast
qed

lemma negotiateRuntime_ok:
  assumes "negotiateRuntime sf sha256 parse_bytes cx w = (Inr d, w')"
  shows "ready_ok (dx_options cx) (disc_ready d)
    \<and> surfaces_ok (jprop (disc_contractIndex d) ''surfaces'')
    \<and> (\<exists>bytes. bundle_identity sha256 (dx_options cx) (disc_contractIndex d) bytes
               \<and> parse_bytes bytes = Some (disc_contractBundle d))
    \<and> bundle_ok (disc_contractBundle d)
    \<and> disc_schemaSha256 d = CAPTURE_DOCUMENT_SCHEMA_SHA256"
proof -
  from assms obtain ready index href r bytes b schema where
    1: "check_ready sf (dx_options cx) ready = Inr ()" "validateContractIndex index = Inr ()"
      "check_href index = Inr href" "check_bundle_bytes sha256 (dx_options cx) index r = Inr bytes"
      "validateContractBundle sf b = Inr schema"
    and p: "parse_bytes bytes = Some b"
    and d: "disc_ready d = ready" "disc_contractIndex d = index" "disc_contractBundle d = b"
      "disc_schemaSha256 d = schema"
    unfolding negotiateRuntime_def
    by (auto simp: res_simps split: option.split_asm)
  have "bundle_identity sha256 (dx_options cx) index bytes"
    using check_bundle_bytes_ok[OF 1(4)] check_href_ok[OF 1(3)] by (auto simp: bundle_identity_def)
  with check_ready_ok[OF 1(1)] validateContractIndex_ok[OF 1(2)] validateContractBundle_ok[OF 1(5)] p
  show ?thesis unfolding d by blast
qed

end
