(* ===== verification/Runtime_Client.thy ===== *)
theory Runtime_Client
  imports Runtime_Discovery
begin

text \<open>
  \<^verbatim>\<open>packages/capture-runtime-client/src/client.ts\<close>: the public facade. Each method is the
  request it builds and the response model it checks; \<open>client_json\<close> runs such a call through
  the discovery gate, the retry policy and the codec. The discovery promise the client keeps
  is modelled twice: by its result, for calls that follow one another, and by a step relation
  for callers that overlap.
\<close>

section \<open>Construction\<close>

record 'w client_options = identity_options +
  co_baseUrl :: "string + int"
  co_transport :: "'w sender option"
  co_bearerToken :: "string option"
  co_maxRetries :: "jnum option"
  co_retryBackoffMs :: "jnum option"

datatype 'w client_arg = ArgTransport "'w sender" | ArgOptions "'w client_options"

record 'w client =
  cl_transport :: "'w sender"
  cl_identity :: identity_options
  cl_retry :: retry_options

definition transport_option_error :: "string \<Rightarrow> exn" where
  "transport_option_error m = RuntimeErr (new_CaptureTransportError m JUndef ''transport_error'')"

definition new_HttpRuntimeTransport ::
  "(string \<Rightarrow> url option) \<Rightarrow> ('w \<Rightarrow> fetch_call \<Rightarrow> (exn + response) \<times> 'w) \<Rightarrow> bool \<Rightarrow> string + int
     \<Rightarrow> string option \<Rightarrow> exn + 'w sender" where
  "new_HttpRuntimeTransport parse fetch browser baseUrl token =
     (if browser \<and> token \<noteq> None
      then Inl (RuntimeErr (new_CaptureTransportError
             ''Bearer tokens are only valid in a host backend or trusted process.'' JUndef
             ''browser_credential_forbidden''))
      else bind_res (assertLoopbackBaseUrl parse baseUrl) (\<lambda>origin.
             Inr (HttpRuntimeTransport_request fetch origin token)))"

definition default_options :: "'w client_options" where
  "default_options =
     \<lparr>io_expectedApiVersion = None, io_expectedSchemaVersion = None, io_expectedSchemaSha256 = None,
      io_expectedContractSetSha256 = None, io_allowedContractSetSha256 = None,
      co_baseUrl = Inl ''http://127.0.0.1:1'', co_transport = None, co_bearerToken = None,
      co_maxRetries = None, co_retryBackoffMs = None\<rparr>"

fun js_nat :: "jnum \<Rightarrow> nat" where
  "js_nat (Fin q) = nat \<lfloor>q\<rfloor>"
| "js_nat _ = 0"

fun js_rat :: "jnum \<Rightarrow> rat" where
  "js_rat (Fin q) = q"
| "js_rat _ = 0"

definition new_CaptureRuntimeClient ::
  "(string \<Rightarrow> url option) \<Rightarrow> ('w \<Rightarrow> fetch_call \<Rightarrow> (exn + response) \<times> 'w) \<Rightarrow> bool \<Rightarrow> 'w client_arg
     \<Rightarrow> exn + 'w client" where
  "new_CaptureRuntimeClient parse fetch browser arg =
     (let opts = (case arg of ArgTransport _ \<Rightarrow> default_options | ArgOptions o' \<Rightarrow> o');
          maxRetries = option_or (co_maxRetries opts) (num 2);
          backoff = option_or (co_retryBackoffMs opts) (num 0)
      in then_res (throw_if (js_lt maxRetries (num 0) \<or> \<not> js_isInteger maxRetries)
             (transport_option_error ''maxRetries must be a non-negative integer.''))
        (then_res (throw_if (js_lt backoff (num 0) \<or> \<not> js_isFinite backoff)
             (transport_option_error ''retryBackoffMs must be non-negative.''))
        (then_res (throw_if ((case arg of ArgTransport _ \<Rightarrow> False | ArgOptions o' \<Rightarrow> co_transport o' = None) \<and> browser)
             (RuntimeErr (new_CaptureTransportError
                ''Browser clients must use a host-provided transport; sidecar URLs and Bearer tokens are process-only.''
                JUndef ''browser_transport_required'')))
        (bind_res (case arg of
             ArgTransport t \<Rightarrow> Inr t
           | ArgOptions o' \<Rightarrow>
               (case co_transport o' of
                  Some t \<Rightarrow> Inr t
                | None \<Rightarrow> new_HttpRuntimeTransport parse fetch browser (co_baseUrl o') (co_bearerToken o')))
          (\<lambda>t. Inr \<lparr>cl_transport = t, cl_identity = identity_options.truncate opts,
                     cl_retry = \<lparr>opt_maxRetries = Some (js_nat maxRetries),
                                 opt_retryBackoffMs = Some (js_rat backoff)\<rparr>\<rparr>)))))"

section \<open>The methods\<close>

type_synonym call = "request \<times> RuntimeResponseModel option"

definition get_call :: "string \<Rightarrow> RuntimeResponseModel \<Rightarrow> call" where
  "get_call path model = (get_request path, Some model)"

definition send_call :: "http_method \<Rightarrow> string \<Rightarrow> RuntimeResponseModel option \<Rightarrow> call" where
  "send_call m path model = ((get_request path)\<lparr>rq_method := Some m\<rparr>, model)"

definition json_call :: "http_method \<Rightarrow> string \<Rightarrow> json \<Rightarrow> json \<Rightarrow> RuntimeResponseModel \<Rightarrow> call" where
  "json_call m path key body model =
     (\<lparr>rq_method = Some m, rq_path = path,
       rq_headers = [(''Content-Type'', JStr ''application/json''), (''X-Idempotency-Key'', key)],
       rq_body = JsonBody body\<rparr>, Some model)"

definition getReady :: call where
  "getReady = get_call ''/v2/health/ready'' RuntimeReady"

definition getStreamingCapabilities :: call where
  "getStreamingCapabilities = get_call ''/v2/streaming/health/ready'' RuntimeStreamingCapabilities"

definition getRequirements :: call where
  "getRequirements = get_call ''/v2/runtime/requirements'' RuntimeRequirements"

definition startInstallation :: "string \<Rightarrow> string \<Rightarrow> call" where
  "startInstallation requirementId idempotencyKey =
     json_call POST ''/v2/runtime/installations'' (JStr idempotencyKey)
       (JObj [(''requirementId'', JStr requirementId), (''consent'', JBool True)]) RuntimeInstallation"

definition listInstallations :: call where
  "listInstallations = get_call ''/v2/runtime/installations'' RuntimeInstallations"

definition getInstallation :: "string \<Rightarrow> call" where
  "getInstallation i = get_call (''/v2/runtime/installations/'' @ encodeURIComponent i) RuntimeInstallation"

definition cancelInstallation :: "string \<Rightarrow> call" where
  "cancelInstallation i =
     send_call POST (''/v2/runtime/installations/'' @ encodeURIComponent i @ ''/cancel'') (Some RuntimeInstallation)"

definition uninstallRequirement :: "string \<Rightarrow> call" where
  "uninstallRequirement requirementId =
     send_call DELETE (''/v2/runtime/requirements/'' @ encodeURIComponent requirementId @ ''/installation'')
       (Some RuntimeRequirement)"

definition getModelOptions :: call where
  "getModelOptions = get_call ''/v2/runtime/model-options'' RuntimeModelOptions"

definition startModelInstallation :: "string \<Rightarrow> string \<Rightarrow> call" where
  "startModelInstallation optionId idempotencyKey =
     json_call POST ''/v2/runtime/model-installations'' (JStr idempotencyKey)
       (JObj [(''optionId'', JStr optionId), (''consent'', JBool True)]) RuntimeModelInstallation"

definition getModelInstallation :: "string \<Rightarrow> call" where
  "getModelInstallation i =
     get_call (''/v2/runtime/model-installations/'' @ encodeURIComponent i) RuntimeModelInstallation"

definition cancelModelInstallation :: "string \<Rightarrow> call" where
  "cancelModelInstallation i =
     send_call POST (''/v2/runtime/model-installations/'' @ encodeURIComponent i @ ''/cancel'')
       (Some RuntimeModelInstallation)"

definition getRaw :: "string \<Rightarrow> call" where
  "getRaw i = get_call (''/v2/captures/'' @ encodeURIComponent i @ ''/raw'') RawCapture"

definition getOcr :: "string \<Rightarrow> call" where
  "getOcr i = get_call (''/v2/captures/'' @ encodeURIComponent i @ ''/ocr'') CaptureOcrProjection"

definition getStreamingCapture :: "string \<Rightarrow> call" where
  "getStreamingCapture i = get_call (''/v2/captures/'' @ encodeURIComponent i) CaptureOperation"

definition getStreamingPartial :: "string \<Rightarrow> call" where
  "getStreamingPartial i = get_call (''/v2/captures/'' @ encodeURIComponent i @ ''/partial'') PartialCapture"

definition getStreamingResult :: "string \<Rightarrow> call" where
  "getStreamingResult i = get_call (''/v2/captures/'' @ encodeURIComponent i @ ''/result'') StreamingResult"

definition cancelStreamingCapture :: "string \<Rightarrow> call" where
  "cancelStreamingCapture i =
     send_call POST (''/v2/captures/'' @ encodeURIComponent i @ ''/cancel'') (Some CaptureOperation)"

definition commitStreamingStructuredResult :: "string \<Rightarrow> json \<Rightarrow> string \<Rightarrow> call" where
  "commitStreamingStructuredResult i candidate idempotencyKey =
     json_call POST (''/v2/captures/'' @ encodeURIComponent i @ ''/structure/commit'') (JStr idempotencyKey)
       candidate CaptureOperation"

definition reportStreamingStructuringFailure :: "string \<Rightarrow> string \<Rightarrow> string \<Rightarrow> string \<Rightarrow> call" where
  "reportStreamingStructuringFailure i code message idempotencyKey =
     json_call POST (''/v2/captures/'' @ encodeURIComponent i @ ''/structure/failure'') (JStr idempotencyKey)
       (JObj [(''protocolVersion'', JStr ''2''), (''code'', JStr code), (''message'', JStr message)])
       CaptureOperation"

definition deleteCapture :: "string \<Rightarrow> call" where
  "deleteCapture i = send_call DELETE (''/v2/captures/'' @ encodeURIComponent i) None"

text \<open>The pull-based structuring session. An omitted key defaults to the request's own id.\<close>

definition openStructuringSession :: "string \<Rightarrow> jobj \<Rightarrow> string option \<Rightarrow> exn + call" where
  "openStructuringSession captureId request idempotencyKey =
     (let requestId = fld request ''clientRequestId'';
          key = (case idempotencyKey of None \<Rightarrow> requestId | Some k \<Rightarrow> JStr k)
      in if fld request ''captureId'' \<noteq> JStr captureId
         then Inl (protocol_error ''Structuring session captureId must match the route capture.'')
         else if \<not> truthy key \<or> key \<noteq> requestId
         then Inl (protocol_error ''X-Idempotency-Key must match structuring session clientRequestId.'')
         else Inr (json_call POST (''/v2/captures/'' @ encodeURIComponent captureId @ ''/structure/session'')
                     key (JObj request) StructuringSession))"

definition getStructuringSession :: "string \<Rightarrow> call" where
  "getStructuringSession captureId =
     get_call (''/v2/captures/'' @ encodeURIComponent captureId @ ''/structure/session'') StructuringSession"

definition batch_path :: "(rat \<Rightarrow> string) \<Rightarrow> string \<Rightarrow> jnum \<Rightarrow> string" where
  "batch_path sf captureId batchIndex =
     ''/v2/captures/'' @ encodeURIComponent captureId @ ''/structure/session/batches/''
       @ js_String sf (JNum batchIndex)"

definition check_batch_index :: "jnum \<Rightarrow> exn + unit" where
  "check_batch_index batchIndex =
     throw_if (\<not> js_isInteger batchIndex \<or> js_lt batchIndex (num 0))
       (protocol_error ''Structuring batch index must be a non-negative integer.'')"

definition getStructuringBatch :: "(rat \<Rightarrow> string) \<Rightarrow> string \<Rightarrow> jnum \<Rightarrow> exn + call" where
  "getStructuringBatch sf captureId batchIndex =
     then_res (check_batch_index batchIndex)
       (Inr (get_call (batch_path sf captureId batchIndex) StructuringBatch))"

text \<open>\<open>{ ...submission, protocolVersion: '2' }\<close>\<close>

definition set_key :: "jobj \<Rightarrow> string \<Rightarrow> json \<Rightarrow> jobj" where
  "set_key r k v = (if has_key r k then map (\<lambda>(k', v'). (k', if k' = k then v else v')) r else r @ [(k, v)])"

definition submitStructuringBatch ::
  "(rat \<Rightarrow> string) \<Rightarrow> string \<Rightarrow> jnum \<Rightarrow> json \<Rightarrow> string \<Rightarrow> exn + call" where
  "submitStructuringBatch sf captureId batchIndex submission idempotencyKey =
     then_res (check_batch_index batchIndex)
     (then_res (assertStructuringBatchSubmission submission)
     (then_res (throw_if (idempotencyKey = [])
        (protocol_error ''Structuring batch submissions require X-Idempotency-Key.''))
     (bind_res (asRecord submission ''structuring batch submission'') (\<lambda>body.
        Inr (json_call PUT (batch_path sf captureId batchIndex) (JStr idempotencyKey)
               (JObj (set_key body ''protocolVersion'' (JStr ''2''))) StructuringSession)))))"

section \<open>Running a call\<close>

text \<open>The host's functions the client uses, and the state the client keeps.\<close>

record host_env =
  env_date_parse :: "string \<Rightarrow> jnum"
  env_show_frac :: "rat \<Rightarrow> string"
  env_sha256 :: "nat list \<Rightarrow> string"
  env_parse_bytes :: "nat list \<Rightarrow> json option"
  env_json_parse :: "string \<Rightarrow> json option"

record 'w client_state =
  cs_discovery :: "RuntimeDiscovery option"
  cs_world :: 'w

text \<open>
  While a negotiation runs, the promise the gate would wait for is the negotiation itself.
  \<open>gate\<close> stands for that wait; the calls of a negotiation never reach it
  (\<open>negotiation_ignores_gate\<close>).
\<close>

definition direct_json ::
  "host_env \<Rightarrow> 'w client \<Rightarrow> ('w \<Rightarrow> (exn + unit) \<times> 'w) \<Rightarrow> call \<Rightarrow> ('w, exn, json) io" where
  "direct_json env cl gate c =
     bind_io (requestWithRetry (cl_transport cl) gate (cl_retry cl) (fst c)) (\<lambda>r.
       lift_io (decodeJson (env_date_parse env) r (snd c)))"

definition negotiation_context ::
  "host_env \<Rightarrow> 'w client \<Rightarrow> ('w \<Rightarrow> (exn + unit) \<times> 'w) \<Rightarrow> 'w discovery_context" where
  "negotiation_context env cl gate =
     \<lparr>dx_options = cl_identity cl, dx_transport = cl_transport cl,
      dx_json = (\<lambda>rq. direct_json env cl gate (rq, None)),
      dx_getReady = direct_json env cl gate getReady,
      dx_getStreamingCapabilities = direct_json env cl gate getStreamingCapabilities\<rparr>"

definition negotiate ::
  "host_env \<Rightarrow> 'w client \<Rightarrow> ('w \<Rightarrow> (exn + unit) \<times> 'w) \<Rightarrow> ('w, exn, RuntimeDiscovery) io" where
  "negotiate env cl gate =
     negotiateRuntime (env_show_frac env) (env_sha256 env) (env_parse_bytes env)
       (negotiation_context env cl gate)"

definition unsettled :: "'w \<Rightarrow> (exn + unit) \<times> 'w" where
  "unsettled w = (Inl (OtherErr ''discovery waits for itself''), w)"

text \<open>\<open>discover\<close>: the first result is kept, a failure is forgotten.\<close>

definition discover :: "host_env \<Rightarrow> 'w client \<Rightarrow> ('w client_state, exn, RuntimeDiscovery) io" where
  "discover env cl st =
     (case cs_discovery st of
        Some d \<Rightarrow> (Inr d, st)
      | None \<Rightarrow>
          (case negotiate env cl unsettled (cs_world st) of
             (Inr d, w) \<Rightarrow> (Inr d, \<lparr>cs_discovery = Some d, cs_world = w\<rparr>)
           | (Inl e, w) \<Rightarrow> (Inl e, \<lparr>cs_discovery = None, cs_world = w\<rparr>)))"

definition lift_sender :: "'w sender \<Rightarrow> 'w client_state sender" where
  "lift_sender send st rq =
     (let a = send (cs_world st) rq in (fst a, st\<lparr>cs_world := snd a\<rparr>))"

definition client_request :: "host_env \<Rightarrow> 'w client \<Rightarrow> 'w client_state sender" where
  "client_request env cl st rq =
     requestWithRetry (lift_sender (cl_transport cl))
       (bind_io (discover env cl) (\<lambda>_. lift_io (Inr ()))) (cl_retry cl) rq st"

definition client_json :: "host_env \<Rightarrow> 'w client \<Rightarrow> call \<Rightarrow> ('w client_state, exn, json) io" where
  "client_json env cl c =
     bind_io (\<lambda>st. client_request env cl st (fst c)) (\<lambda>r.
       lift_io (decodeJson (env_date_parse env) r (snd c)))"

definition client_captureEvents ::
  "host_env \<Rightarrow> 'w client \<Rightarrow> string \<Rightarrow> event_options \<Rightarrow> 'w client_state
     \<Rightarrow> exn option \<times> event_step list \<times> 'w client_state" where
  "client_captureEvents env cl capture opts st =
     captureEvents (client_request env cl) (env_json_parse env) capture opts st"

text \<open>\<open>startStreamingCapture\<close> reads the typed fields of the answers it gets; \<open>as_ingestion\<close> and
  \<open>as_chunk_limit\<close> are that reading.\<close>

definition client_startStreamingCapture ::
  "host_env \<Rightarrow> (json \<Rightarrow> ingestion) \<Rightarrow> (json \<Rightarrow> int) \<Rightarrow> 'w client \<Rightarrow> capture_upload \<Rightarrow> 'w client_state
     \<Rightarrow> (exn + json) \<times> request list \<times> 'w client_state" where
  "client_startStreamingCapture env as_ingestion as_chunk_limit cl up st =
     startStreamingCapture (env_sha256 env)
       \<lparr>cx_capabilities = bind_io (client_json env cl getStreamingCapabilities) (\<lambda>v. lift_io (Inr (as_chunk_limit v))),
        cx_ingest = (\<lambda>s rq. bind_io (client_json env cl (rq, Some Ingestion)) (\<lambda>v. lift_io (Inr (as_ingestion v))) s),
        cx_start = (\<lambda>s rq. client_json env cl (rq, Some CaptureOperation) s),
        cx_delete = (\<lambda>s rq. client_json env cl (rq, None) s)\<rparr> up st"

section \<open>Overlapping discoveries\<close>

text \<open>
  \<open>this.discovery\<close> holds a promise, identified here by a number; \<open>ds_running\<close> are the
  negotiations that have not settled, \<open>ds_waiting\<close> the callers and the promise each of them
  was given.
\<close>

datatype promise = Pending nat | Fulfilled nat RuntimeDiscovery

fun promise_id :: "promise \<Rightarrow> nat" where
  "promise_id (Pending n) = n"
| "promise_id (Fulfilled n d) = n"

record discovery_state =
  ds_slot :: "promise option"
  ds_fresh :: nat
  ds_running :: "nat list"
  ds_waiting :: "(nat \<times> nat) list"
  ds_started :: nat
  ds_failed :: nat

definition initial_discovery :: discovery_state where
  "initial_discovery = \<lparr>ds_slot = None, ds_fresh = 0, ds_running = [], ds_waiting = [],
                        ds_started = 0, ds_failed = 0\<rparr>"

text \<open>A call of \<open>discover\<close> by a caller.\<close>

definition discover_call :: "nat \<Rightarrow> discovery_state \<Rightarrow> discovery_state" where
  "discover_call caller s =
     (case ds_slot s of
        None \<Rightarrow> s\<lparr>ds_slot := Some (Pending (ds_fresh s)), ds_fresh := ds_fresh s + 1,
                   ds_running := ds_fresh s # ds_running s,
                   ds_waiting := (caller, ds_fresh s) # ds_waiting s, ds_started := ds_started s + 1\<rparr>
      | Some p \<Rightarrow> s\<lparr>ds_waiting := (caller, promise_id p) # ds_waiting s\<rparr>)"

text \<open>Negotiation \<open>n\<close> settles: a promise fulfils itself; the rejection handler clears the slot
  only when the slot still holds this negotiation.\<close>

definition negotiation_fulfilled :: "nat \<Rightarrow> RuntimeDiscovery \<Rightarrow> discovery_state \<Rightarrow> discovery_state" where
  "negotiation_fulfilled n d s =
     s\<lparr>ds_running := remove1 n (ds_running s),
       ds_slot := (if ds_slot s = Some (Pending n) then Some (Fulfilled n d) else ds_slot s)\<rparr>"

definition negotiation_rejected :: "nat \<Rightarrow> discovery_state \<Rightarrow> discovery_state" where
  "negotiation_rejected n s =
     s\<lparr>ds_running := remove1 n (ds_running s), ds_failed := ds_failed s + 1,
       ds_slot := (if map_option promise_id (ds_slot s) = Some n then None else ds_slot s)\<rparr>"

inductive discovery_step :: "discovery_state \<Rightarrow> discovery_state \<Rightarrow> bool" where
  call: "discovery_step s (discover_call caller s)"
| fulfil: "n \<in> set (ds_running s) \<Longrightarrow> discovery_step s (negotiation_fulfilled n d s)"
| reject: "n \<in> set (ds_running s) \<Longrightarrow> discovery_step s (negotiation_rejected n s)"

inductive discovery_reachable :: "discovery_state \<Rightarrow> bool" where
  start: "discovery_reachable initial_discovery"
| step: "discovery_reachable s \<Longrightarrow> discovery_step s s' \<Longrightarrow> discovery_reachable s'"

section \<open>Overlapping callers share one negotiation\<close>

inductive_cases discovery_stepE: "discovery_step s s'"

definition discovery_inv :: "discovery_state \<Rightarrow> bool" where
  "discovery_inv s \<longleftrightarrow>
     ds_running s = (case ds_slot s of Some (Pending n) \<Rightarrow> [n] | _ \<Rightarrow> [])
     \<and> ds_started s = ds_failed s + (if ds_slot s = None then 0 else 1)"

lemma discovery_inv_step: "discovery_step s s' \<Longrightarrow> discovery_inv s \<Longrightarrow> discovery_inv s'"
  by (erule discovery_stepE)
    (auto simp: discovery_inv_def discover_call_def negotiation_fulfilled_def negotiation_rejected_def
      split: option.splits promise.splits)

lemma discovery_reachable_inv: "discovery_reachable s \<Longrightarrow> discovery_inv s"
proof (induction rule: discovery_reachable.induct)
  case start
  show ?case by (simp add: discovery_inv_def initial_discovery_def)
next
  case (step s s')
  then show ?case by (blast intro: discovery_inv_step)
qed

text \<open>C36. Callers of \<open>discover\<close> share one negotiation: in every reachable state of the client at
  most one negotiation is running, it is the one the client's promise stands for (so the test
  \<open>this.discovery === negotiation\<close> of the rejection handler always succeeds), and the number of
  negotiations ever started is the number that failed plus one for the promise the client holds.\<close>

theorem discovery_single_flight:
  assumes "discovery_reachable s"
  shows "length (ds_running s) \<le> 1
    \<and> (\<forall>n \<in> set (ds_running s). ds_slot s = Some (Pending n))
    \<and> ds_started s = ds_failed s + (if ds_slot s = None then 0 else 1)"
  using discovery_reachable_inv[OF assms]
  by (auto simp: discovery_inv_def split: option.splits promise.splits)

lemma two_callers_reachable:
  "discovery_reachable (discover_call 2 (discover_call 1 initial_discovery))"
  by (rule step[OF step[OF start call] call])

theorem discovery_single_flight_witness:
  "ds_started (discover_call 2 (discover_call 1 initial_discovery)) = 1
   \<and> length (ds_running (discover_call 2 (discover_call 1 initial_discovery))) \<le> 1"
  using discovery_single_flight[OF two_callers_reachable]
  by (simp add: discover_call_def initial_discovery_def)

section \<open>Discovery and the calls\<close>

lemma negotiation_paths_need_no_discovery:
  "\<not> requiresDiscovery (rq_path (fst getReady))"
  "\<not> requiresDiscovery (rq_path (fst getStreamingCapabilities))"
  "\<not> requiresDiscovery ''/meta/v2/contracts''"
  by (simp_all add: requiresDiscovery_def getReady_def getStreamingCapabilities_def get_call_def
      get_request_def starts_with_def)

lemma direct_json_ignores_gate:
  "\<not> requiresDiscovery (rq_path (fst c)) \<Longrightarrow> direct_json env cl g c = direct_json env cl g' c"
  by (simp add: direct_json_def requestWithRetry_def bind_io_def fun_eq_iff)

text \<open>Discovery never waits for itself: the requests a negotiation makes through the client's
  own \<open>json\<close> path are exempt from the discovery gate, so the negotiation's result does not
  depend on what that gate would do.\<close>

theorem negotiation_ignores_gate: "negotiate env cl g = negotiate env cl g'"
proof -
  let ?c = "negotiation_context env cl"
  note paths = negotiation_paths_need_no_discovery
  have "dx_getReady (?c g) = dx_getReady (?c g')"
    using direct_json_ignores_gate[OF paths(1), of env cl g g'] by (simp add: negotiation_context_def)
  moreover have "dx_getStreamingCapabilities (?c g) = dx_getStreamingCapabilities (?c g')"
    using direct_json_ignores_gate[OF paths(2), of env cl g g'] by (simp add: negotiation_context_def)
  moreover have "dx_json (?c g) (get_request ''/meta/v2/contracts'') =
      dx_json (?c g') (get_request ''/meta/v2/contracts'')"
    using direct_json_ignores_gate[of "(get_request ''/meta/v2/contracts'', None)" env cl g g'] paths(3)
    by (simp add: negotiation_context_def get_request_def)
  moreover have "dx_options (?c g) = dx_options (?c g')" "dx_transport (?c g) = dx_transport (?c g')"
    by (simp_all add: negotiation_context_def)
  ultimately show ?thesis unfolding negotiate_def negotiateRuntime_def by (simp only:)
qed

lemma retry_loop_keeps_discovery:
  "attempt \<le> retries \<Longrightarrow>
   cs_discovery (snd (snd (snd (retry_loop (lift_sender send) retries b rq attempt st)))) = cs_discovery st"
proof (induction "retries - attempt" arbitrary: attempt st rule: less_induct)
  case less
  obtain a st' where a: "lift_sender send st rq = (a, st')" by fastforce
  then have keep: "cs_discovery st' = cs_discovery st" by (auto simp: lift_sender_def Let_def)
  show ?case
    using less.hyps[of "Suc attempt" st'] less.prems keep
    by (auto simp: retry_loop_cases[where send = "lift_sender send" and w = st and rq = rq, OF less.prems a] Let_def)
qed

lemma send_with_retry_keeps_discovery:
  "cs_discovery (snd (snd (snd (send_with_retry (lift_sender send) opts rq st)))) = cs_discovery st"
  by (simp add: send_with_retry_def retry_loop_keeps_discovery)

lemma discover_cached: "cs_discovery st = Some d \<Longrightarrow> discover env cl st = (Inr d, st)"
  by (simp add: discover_def)

text \<open>A negotiated runtime stays negotiated: once the client holds a discovery, every later
  call keeps it and goes straight to the retry loop, without a request of its own for discovery.\<close>

theorem client_request_negotiated:
  assumes "cs_discovery st = Some d"
  shows "client_request env cl st rq =
           (let m = send_with_retry (lift_sender (cl_transport cl)) (cl_retry cl) rq st
            in (fst m, snd (snd (snd m))))
    \<and> cs_discovery (snd (client_request env cl st rq)) = Some d"
proof -
  have gate: "bind_io (discover env cl) (\<lambda>_. lift_io (Inr ())) st = (Inr (), st)"
    by (simp add: bind_io_def lift_io_def discover_cached[OF assms])
  then have "client_request env cl st rq =
      (let m = send_with_retry (lift_sender (cl_transport cl)) (cl_retry cl) rq st
       in (fst m, snd (snd (snd m))))"
    by (simp add: client_request_def requestWithRetry_def)
  then show ?thesis by (simp add: Let_def send_with_retry_keeps_discovery assms)
qed

text \<open>The client fails closed: when the negotiation is refused, a call of the v2 surface
  throws the refusal, sends nothing after the negotiation's own requests, and leaves the client
  free to negotiate again on the next call.\<close>

theorem client_request_fails_closed:
  assumes "requiresDiscovery (rq_path rq)" and "cs_discovery st = None"
    and "negotiate env cl unsettled (cs_world st) = (Inl e, w)"
  shows "client_request env cl st rq = (Inl e, \<lparr>cs_discovery = None, cs_world = w\<rparr>)"
  using assms
  by (simp add: client_request_def requestWithRetry_def bind_io_def discover_def)

section \<open>Construction\<close>

text \<open>A client built in a browser never talks HTTP itself: construction succeeds only with a
  transport the host provided, and that transport is the one it uses. Wherever it is built, the
  retry budget of a client is what the options asked for.\<close>

theorem browser_client_uses_host_transport:
  assumes "new_CaptureRuntimeClient parse fetch True arg = Inr cl"
  shows "(\<exists>t. cl_transport cl = t
             \<and> (arg = ArgTransport t \<or> (\<exists>o'. arg = ArgOptions o' \<and> co_transport o' = Some t)))
    \<and> (\<exists>n. opt_maxRetries (cl_retry cl) = Some n
           \<and> (case arg of ArgTransport _ \<Rightarrow> n = 2
              | ArgOptions o' \<Rightarrow> num (int n) = option_or (co_maxRetries o') (num 2)))"
proof (cases arg)
  case (ArgTransport t)
  with assms show ?thesis
    by (auto simp: new_CaptureRuntimeClient_def default_options_def Let_def num_def)
next
  case (ArgOptions o')
  with assms show ?thesis
    by (cases "option_or (co_maxRetries o') (num 2)")
      (auto simp: new_CaptureRuntimeClient_def res_simps Let_def num_def split: option.splits)
qed

section \<open>Routes\<close>

text \<open>The segments of a path.\<close>

fun segments :: "string \<Rightarrow> string list" where
  "segments [] = [[]]"
| "segments (c # s) =
     (if c = CHR ''/'' then [] # segments s
      else (case segments s of [] \<Rightarrow> [[c]] | t # ts \<Rightarrow> (c # t) # ts))"

lemma segments_nonempty: "segments s \<noteq> []"
  by (induction s) (auto split: list.splits)

lemma segments_plain: "list_all segment_char p \<Longrightarrow> segments p = [p]"
  by (induction p) (auto simp: segment_char_def)

lemma segments_append: "list_all segment_char p \<Longrightarrow> segments (p @ CHR ''/'' # q) = p # segments q"
  by (induction p) (auto simp: segment_char_def)

lemma segments_encoded:
  "segments (encodeURIComponent i) = [encodeURIComponent i]"
  "segments (encodeURIComponent i @ CHR ''/'' # q) = encodeURIComponent i # segments q"
  by (simp_all add: segments_plain segments_append encodeURIComponent_segment)

lemmas call_defs =
  get_call_def send_call_def json_call_def get_request_def getInstallation_def cancelInstallation_def
  uninstallRequirement_def getModelInstallation_def cancelModelInstallation_def getRaw_def getOcr_def
  getStreamingCapture_def getStreamingPartial_def getStreamingResult_def cancelStreamingCapture_def
  commitStreamingStructuredResult_def reportStreamingStructuringFailure_def deleteCapture_def
  getStructuringSession_def

abbreviation capture_route :: "string \<Rightarrow> string list \<Rightarrow> string list" where
  "capture_route i rest \<equiv> [] # ''v2'' # ''captures'' # encodeURIComponent i # rest"

lemma capture_route_eq:
  "capture_route i rest = capture_route j rest' \<longleftrightarrow> i = j \<and> rest = rest'"
  by (auto dest: encodeURIComponent_inj)

text \<open>An identifier cannot leave its place in a route: whatever characters it has, the path of
  a capture call has the fixed segments of its endpoint with the encoded identifier as one
  segment between them, and two captures never share a path.\<close>

theorem capture_paths_segments:
  "segments (rq_path (fst (getStreamingCapture i))) = capture_route i []
   \<and> segments (rq_path (fst (deleteCapture i))) = capture_route i []
   \<and> segments (rq_path (fst (getRaw i))) = capture_route i [''raw'']
   \<and> segments (rq_path (fst (getOcr i))) = capture_route i [''ocr'']
   \<and> segments (rq_path (fst (getStreamingPartial i))) = capture_route i [''partial'']
   \<and> segments (rq_path (fst (getStreamingResult i))) = capture_route i [''result'']
   \<and> segments (rq_path (fst (cancelStreamingCapture i))) = capture_route i [''cancel'']
   \<and> segments (rq_path (fst (commitStreamingStructuredResult i doc k))) = capture_route i [''structure'', ''commit'']
   \<and> segments (rq_path (fst (reportStreamingStructuringFailure i code m k))) = capture_route i [''structure'', ''failure'']
   \<and> segments (rq_path (fst (getStructuringSession i))) = capture_route i [''structure'', ''session'']
   \<and> segments (rq_path (events_request i previous)) = capture_route i [''events'']
   \<and> (capture_route i rest = capture_route j rest' \<longleftrightarrow> i = j \<and> rest = rest')"
  by (simp add: call_defs events_request_def segments_encoded capture_route_eq del: list.inject)

lemma lower_header_names:
  "js_lower ''X-Idempotency-Key'' = ''x-idempotency-key''" "js_lower ''Content-Type'' = ''content-type''"
  by code_simp+

text \<open>Which calls may be sent twice: a call that starts work or commits a result carries its
  idempotency key, so it is retried only under that key; a cancellation has none and is sent at
  most once; reads and deletions are retried.\<close>

theorem retry_classes:
  "\<not> retryable_request (fst (cancelStreamingCapture i))
   \<and> \<not> retryable_request (fst (cancelInstallation i))
   \<and> \<not> retryable_request (fst (cancelModelInstallation i))
   \<and> retryable_request (fst (getRaw i)) \<and> retryable_request (fst (deleteCapture i))
   \<and> (retryable_request (fst (startInstallation r k))
        \<longleftrightarrow> \<not> list_all (\<lambda>c. (of_char c :: nat) \<in> {9, 10, 13, 32}) k)
   \<and> (retryable_request (fst (commitStreamingStructuredResult i doc k))
        \<longleftrightarrow> \<not> list_all (\<lambda>c. (of_char c :: nat) \<in> {9, 10, 13, 32}) k)"
  by (simp add: retryable_request_def effective_method_def keyed_def call_defs startInstallation_def
      lower_header_names del: js_lower_Cons)

text \<open>A structuring session is opened only for the capture of its route and only under its own
  request id: the call is built exactly when both agree and the id is not empty.\<close>

theorem openStructuringSession_iff:
  "(\<exists>c. openStructuringSession capture request key = Inr c)
   \<longleftrightarrow> fld request ''captureId'' = JStr capture
      \<and> (case key of None \<Rightarrow> True | Some k \<Rightarrow> fld request ''clientRequestId'' = JStr k)
      \<and> truthy (fld request ''clientRequestId'')"
  by (cases key) (auto simp: openStructuringSession_def Let_def, metis truthy.simps(5))

section \<open>Examples\<close>

text \<open>A client on an in-memory transport without routes: every request is answered 404.\<close>

definition example_client :: "unit client" where
  "example_client =
     \<lparr>cl_transport = InMemoryRuntimeTransport_request [],
      cl_identity = identity_options.truncate (default_options :: unit client_options),
      cl_retry = \<lparr>opt_maxRetries = Some 2, opt_retryBackoffMs = Some 0\<rparr>\<rparr>"

definition example_env :: host_env where
  "example_env = \<lparr>env_date_parse = (\<lambda>_. num 0), env_show_frac = (\<lambda>_. []),
     env_sha256 = (\<lambda>_. CAPTURE_CONTRACT_SET_SHA256), env_parse_bytes = (\<lambda>_. None),
     env_json_parse = (\<lambda>_. None)\<rparr>"

definition example_discovery :: RuntimeDiscovery where
  "example_discovery = \<lparr>disc_ready = JNull, disc_streaming = JNull,
     disc_schemaSha256 = CAPTURE_DOCUMENT_SCHEMA_SHA256, disc_contractIndex = JNull,
     disc_contractBundle = JNull\<rparr>"

lemma example_transport: "cl_transport example_client w rq = (Inr not_found, w)"
  by (simp add: example_client_def InMemoryRuntimeTransport_request_def)

lemma example_direct_json:
  assumes "\<not> requiresDiscovery (rq_path (fst c))"
  shows "direct_json example_env example_client g c () = (Inl (thrown_error not_found), ())"
  using assms retry_loop_cases[where send = "cl_transport example_client" and w = "()"
      and rq = "fst c" and attempt = 0, OF _ example_transport]
  by (simp add: direct_json_def requestWithRetry_def send_with_retry_def bind_io_def lift_io_def
      decodeJson_def transient_def transient_status_def not_found_def resp_ok_def)

lemma example_negotiation:
  "negotiate example_env example_client unsettled () = (Inl (thrown_error not_found), ())"
  by (simp add: negotiate_def negotiateRuntime_def negotiation_context_def bind_io_def
      example_direct_json negotiation_paths_need_no_discovery)

theorem client_request_fails_closed_witness:
  "client_request example_env example_client \<lparr>cs_discovery = None, cs_world = ()\<rparr> (fst (getRaw ''a''))
     = (Inl (thrown_error not_found), \<lparr>cs_discovery = None, cs_world = ()\<rparr>)"
  by (rule client_request_fails_closed)
    (simp_all add: example_negotiation requiresDiscovery_def call_defs starts_with_def)

theorem client_request_negotiated_witness:
  "cs_discovery (snd (client_request example_env example_client
      \<lparr>cs_discovery = Some example_discovery, cs_world = ()\<rparr> (fst (getRaw ''a'')))) = Some example_discovery"
  by (rule conjunct2[OF client_request_negotiated]) simp

theorem browser_client_uses_host_transport_witness:
  "opt_maxRetries (cl_retry example_client) = Some 2"
  using browser_client_uses_host_transport[of "\<lambda>_. None" "\<lambda>w _. (Inl AbortErr, w)"
      "ArgTransport (InMemoryRuntimeTransport_request [])" example_client]
  by (simp add: new_CaptureRuntimeClient_def example_client_def default_options_def num_def
      identity_options.defs)

end
