(* ===== verification/Runtime_Guarantees.thy ===== *)
theory Runtime_Guarantees
  imports Runtime_Client
begin

text \<open>
  What the parts of \<^verbatim>\<open>packages/capture-runtime-client/src\<close> promise their callers: the theorems
  about redaction, wire validation, event decoding, retries, uploads, the event stream and the
  negotiation. Each rests on the lemmas of the theory that models the part, and is applied to a
  concrete input where it has hypotheses.
\<close>

section \<open>Redaction\<close>

text \<open>No bearer token survives redaction: wherever a \<open>Bearer\<close> credential can still be read in
  the redacted text, its token is the redaction mark.\<close>

theorem redacted_bearer_tokens:
  assumes "redact_bearer s = front @ after" and "match_bearer after = Some (token, rest)"
  shows "token = ''[redacted]''"
  using assms by (rule redact_bearer_hides)

theorem redacted_bearer_tokens_witness:
  "redact_bearer ''failed: Bearer abc.def-1 x'' = ''failed: Bearer [redacted] x''
   \<and> map_option fst (match_bearer ''Bearer [redacted] x'') = Some ''[redacted]''"
proof -
  have r: "redact_bearer ''failed: Bearer abc.def-1 x'' = ''failed: '' @ ''Bearer [redacted] x''" by code_simp
  obtain t rest where m: "match_bearer ''Bearer [redacted] x'' = Some (t, rest)"
  proof -
    have "match_bearer ''Bearer [redacted] x'' \<noteq> None" by code_simp
    then show thesis using that by auto
  qed
  show ?thesis using redacted_bearer_tokens[OF r m] r m by simp
qed

text \<open>In the five outermost levels of an error's details every entry whose key contains token,
  authorization, credential, secret or password, in any case of letters, carries the redaction
  mark instead of its value.\<close>

theorem redacted_details_hide_credentials: "secret_free 5 (redactValue 0 v)"
  using redactValue_secret_free[of 0 v] by simp

text \<open>The depth is a limit: a credential below it is kept.\<close>

lemma deep_credential_survives:
  "redactValue 0 (JObj [(''a'', JObj [(''a'', JObj [(''a'', JObj [(''a'', JObj [(''a'', JObj
      [(''token'', JStr ''s3'')])])])])])])
   = JObj [(''a'', JObj [(''a'', JObj [(''a'', JObj [(''a'', JObj [(''a'', JObj
      [(''token'', JStr ''s3'')])])])])])]"
  by code_simp

section \<open>Wire validation\<close>


text \<open>The progress counters of an operation or event are accepted exactly when they are
  consistent: page counts only for documents and images, with the pages done within a positive
  total; media times only for recordings; all of them safe integers.\<close>

theorem progress_accepted_iff:
  "assertCaptureProgress r ''CaptureOperation'' = Inr () \<longleftrightarrow>
     (let kind = coalesce (fld r ''kind'') (JStr ''audio'')
      in pages_progress_spec kind (fld r ''pagesDone'') (fld r ''pagesTotal'')
         \<and> media_time_spec kind (fld r ''durationMs'') \<and> media_time_spec kind (fld r ''coveredUntilMs''))"
  unfolding assertCaptureProgress_iff by simp

text \<open>C37. An accepted OCR projection is sound: it counts its pages, they ascend without repetition,
  every page has the provenance of the document, every box lies within the raster of its page,
  text and confidence are present exactly on recognized pages, and a completed projection has a
  recognized page, no failed one, a resolved provenance and a source.\<close>

theorem ocr_projection_sound:
  assumes "validateCaptureOcrProjection parse_date r = Inr ()"
  shows "ocr_projection_spec r"
  using assms by (rule validateCaptureOcrProjection_spec)

definition example_provenance :: json where
  "example_provenance = JObj
     [(''status'', JStr ''resolved''), (''engine'', JStr ''windowsml-ocr''), (''model'', JStr ''pp-ocrv6''),
      (''modelDigest'', JStr (''sha256:'' @ replicate 64 CHR ''a'')), (''device'', JStr ''windowsml-dml''),
      (''profileId'', JStr ''p1''), (''profileSpecSha256'', JStr (replicate 64 CHR ''b''))]"

definition example_point :: "int \<Rightarrow> int \<Rightarrow> json" where
  "example_point x y = JObj [(''x'', JNum (num x)), (''y'', JNum (num y))]"

definition example_page :: json where
  "example_page = JObj
     [(''page'', JNum (num 1)), (''status'', JStr ''recognized''),
      (''raster'', JObj [(''width'', JNum (num 1200)), (''height'', JNum (num 1600)), (''scale'', JNum (num 2)),
                        (''coordinateSystem'', JStr ''pixel'')]),
      (''text'', JStr ''page one''),
      (''boxes'', JArr [JObj [(''polygon'', JArr [example_point 10 20, example_point 310 12, example_point 320 80,
                                                  example_point 5 90]),
                            (''text'', JStr ''page one''), (''confidence'', JNum (Fin (49 / 50)))]]),
      (''confidence'', JNum (Fin (49 / 50))), (''provenance'', example_provenance), (''failure'', JNull)]"

definition example_projection :: jobj where
  "example_projection =
     [(''apiVersion'', JStr ''2.0''), (''schemaVersion'', JStr ''3''), (''captureId'', JStr ''cap''),
      (''status'', JStr ''completed''),
      (''source'', JObj [(''sha256'', JStr (replicate 64 CHR ''b'')), (''fileName'', JStr ''scan.pdf''),
                        (''mediaType'', JStr ''application/pdf''), (''bytes'', JNum (num 1024))]),
      (''pageCount'', JNum (num 1)), (''runtimeVersion'', JStr RUNTIME_VERSION),
      (''contractSha256'', JStr (replicate 64 CHR ''c'')), (''pages'', JArr [example_page]),
      (''provenance'', example_provenance), (''warnings'', JArr []), (''failure'', JNull),
      (''createdAt'', JStr ''2026-01-01T00:00:00Z'')]"

text \<open>The limits on lengths are large numbers, so the checks are run by rewriting.\<close>

lemmas example_check_simps =
  asRecord_def assertExactFields_def check_fields_def fld_def has_key_def throw_if_def then_res_def bind_res_def Let_def

lemma example_facts:
  "is_text (JStr ''page one'')" "is_text (JStr ''cap'')" "is_text (JStr ''scan.pdf'')"
  "is_text (JStr ''application/pdf'')" "is_sha (JStr (replicate 64 CHR ''b''))" "is_sha (JStr (replicate 64 CHR ''c''))"
  "isResolvedOcrProvenance example_provenance = Inr True"
  "sameOcrProvenance example_provenance example_provenance = Inr True"
  "is_text (JStr ''pp-ocrv6'')" "is_text (JStr ''windowsml-dml'')" "is_text (JStr ''p1'')"
  "is_model_digest (JStr (''sha256:'' @ replicate 64 CHR ''a''))"
  "JStr (''sha256:'' @ replicate 64 CHR ''a'') \<noteq> JStr (''sha256:'' @ replicate 64 CHR ''0'')"
  by code_simp+

lemma example_provenance_ok: "validateOcrProvenance example_provenance label = Inr ()"
  using example_facts
  by (simp add: validateOcrProvenance_def example_provenance_def example_check_simps)

lemma example_numbers:
  "is_unit_number (JNum (Fin (49 / 50)))" "isTimestamp (\<lambda>_. num 0) (JStr ''2026-01-01T00:00:00Z'')"
  by (simp_all add: is_unit_number_def in_range_def isTimestamp_def has_zone_suffix_def num_def)

lemma js_num_eq_one: "js_num_eq (num 1) (num 1)"
  by (simp add: num_def)

lemma example_page_ok:
  "\<exists>p. example_page = JObj p \<and> validateOcrPage p example_provenance = Inr ()
     \<and> fld p ''page'' = JNum (num 1) \<and> fld p ''status'' = JStr ''recognized'' \<and> fld p ''provenance'' = example_provenance"
  unfolding example_page_def json.inject ex_simps
  using example_facts(1-10) example_numbers example_provenance_ok
  by (simp add: validateOcrPage_def example_check_simps validateOcrRaster_def validateOcrBox_def
      isSafeIntegerAtLeast_def max_safe_integer_def in_range_def num_def js_isSafeInteger_def isOcrPageStatus_def str_in_def
      str_longer_def example_point_def nullish_def page_content_ok_def)

theorem ocr_projection_sound_witness: "ocr_projection_spec example_projection"
proof -
  obtain p where p: "example_page = JObj p" "validateOcrPage p example_provenance = Inr ()"
    "fld p ''page'' = JNum (num 1)" "fld p ''status'' = JStr ''recognized''" "fld p ''provenance'' = example_provenance"
    using example_page_ok by blast
  have head: "check_projection_header (\<lambda>_. num 0) example_projection = Inr ()"
    using example_facts example_numbers js_num_eq_one
    by (simp add: check_projection_header_def example_projection_def example_check_simps isOcrProjectionStatus_def
        str_in_def isSafeIntegerAtLeast_def max_safe_integer_def)
  have source: "validateCaptureSource (fld example_projection ''source'') = Inr ()"
    using example_facts
    by (simp add: validateCaptureSource_def example_projection_def example_check_simps str_longer_def
        isSafeIntegerAtLeast_def max_safe_integer_def)
  have fields: "fld example_projection ''status'' = JStr ''completed''" "fld example_projection ''failure'' = JNull"
    "fld example_projection ''provenance'' = example_provenance" "fld example_projection ''warnings'' = JArr []"
    "fld example_projection ''pages'' = JArr [example_page]" "\<not> nullish (fld example_projection ''source'')"
    by (simp_all add: example_projection_def fld_def nullish_def)
  have outcome: "check_projection_outcome (JStr ''completed'') (fld example_projection ''source'') JNull
      example_provenance [p] = Inr ()"
    using p(4,5) fields(6) example_facts(8) by (simp add: check_projection_outcome_def nullish_def example_provenance_def)
  have "validateCaptureOcrProjection (\<lambda>_. num 0) example_projection = Inr ()"
    using outcome
    by (simp add: validateCaptureOcrProjection_def fields head source p(1,2,3) example_facts(7) example_provenance_ok
        check_warnings_def Let_def nullish_def[of JNull])
  then show ?thesis by (rule ocr_projection_sound)
qed


section \<open>Server-sent events\<close>

text \<open>How the transport cuts an event stream into chunks makes no difference: the frames decoded
  from any sequence of chunks are those of the whole text.\<close>

theorem sse_chunking_irrelevant: "decode_chunks cs = decode_chunks [concat cs]"
  by (rule decode_chunks_concat)

text \<open>C29. Event streams round trip: a list of events written in the wire format, cut into chunks at
  any place, is decoded to exactly these events in order.\<close>

theorem sse_round_trip:
  assumes "list_all event_safe evs" and "concat cs = concat (map event_text evs)"
  shows "decode_chunks cs = map event_frame evs"
  using assms by (rule decode_events)

theorem sse_round_trip_witness:
  "decode_chunks [''id: 1'', [CHR 0x0A] @ ''event: progress'' @ [CHR 0x0A] @ ''da'', ''ta: {}'' @ [CHR 0x0A], [CHR 0x0A]]
   = [\<lparr>frame_id = Some ''1'', frame_event = Some ''progress'', frame_data = ''{}''\<rparr>]"
proof -
  have "list_all event_safe [(''1'', ''progress'', [''{}''])]" by code_simp
  moreover have "concat [''id: 1'', [CHR 0x0A] @ ''event: progress'' @ [CHR 0x0A] @ ''da'', ''ta: {}'' @ [CHR 0x0A], [CHR 0x0A]]
     = concat (map event_text [(''1'', ''progress'', [''{}''])])" by code_simp
  ultimately have "decode_chunks [''id: 1'', [CHR 0x0A] @ ''event: progress'' @ [CHR 0x0A] @ ''da'', ''ta: {}'' @ [CHR 0x0A], [CHR 0x0A]]
     = map event_frame [(''1'', ''progress'', [''{}''])]"
    by (rule sse_round_trip)
  also have "\<dots> = [\<lparr>frame_id = Some ''1'', frame_event = Some ''progress'', frame_data = ''{}''\<rparr>]" by code_simp
  finally show ?thesis .
qed

section \<open>Retries\<close>

text \<open>C38. The retry loop is bounded and honest: a request is sent at least once and at most
  \<open>maxRetries\<close> times more, once only when it may not be repeated; every answer before the last
  was transient; the caller gets the last answer; and it gives up on a transient answer only
  when the budget is used up.\<close>

theorem retry_bounded:
  "let m = send_with_retry send opts rq w; answers = fst (snd m);
       budget = Suc (if retryable_request rq then option_or (opt_maxRetries opts) 2 else 0)
   in answers \<noteq> [] \<and> last answers = fst m \<and> length answers \<le> budget
      \<and> list_all transient (butlast answers) \<and> (transient (fst m) \<longrightarrow> length answers = budget)"
  using retry_loop_trace[of 0 "retry_budget opts rq" send "option_or (opt_retryBackoffMs opts) 0" rq w]
  by (simp add: send_with_retry_def Let_def retry_trace_ok_def retry_budget_def)

definition example_busy :: response where
  "example_busy = not_found\<lparr>resp_status := 503\<rparr>"

theorem retry_bounded_witness:
  "length (fst (snd (send_with_retry (\<lambda>w rq. (Inr example_busy, Suc w)) \<lparr>opt_maxRetries = None, opt_retryBackoffMs = None\<rparr>
     (get_request ''/v2/health/ready'') 0))) = 3"
proof -
  let ?o = "\<lparr>opt_maxRetries = None, opt_retryBackoffMs = None\<rparr>"
  let ?m = "send_with_retry (\<lambda>w rq. (Inr example_busy, Suc w)) ?o (get_request ''/v2/health/ready'') 0"
  have "transient (fst ?m)" "retryable_request (get_request ''/v2/health/ready'')" by code_simp+
  then show ?thesis
    using retry_bounded[of "\<lambda>w rq. (Inr example_busy, Suc w)" ?o "get_request ''/v2/health/ready''" 0]
    unfolding Let_def by simp
qed

text \<open>Whatever goes wrong below an HTTP transport surfaces as a transport error: a call outside
  the discovery gate fails only with the transport's own error, which callers may retry.\<close>

theorem http_failures_are_transport_errors:
  assumes "requestWithRetry (HttpRuntimeTransport_request fetch baseUrl token) gate opts rq w = (Inl e, w')"
    and "\<not> requiresDiscovery (rq_path rq)"
  shows "is_transport_error e"
  using assms by (rule http_transport.request_error)

theorem http_failures_are_transport_errors_witness:
  "requestWithRetry (HttpRuntimeTransport_request (\<lambda>w _. (Inl TypeErr, w)) ''http://127.0.0.1:9'' None)
     (\<lambda>w. (Inr (), w)) \<lparr>opt_maxRetries = Some 0, opt_retryBackoffMs = None\<rparr> (get_request ''/meta/v2/contracts'') ()
     = (Inl transport_failed, ())
   \<and> is_transport_error transport_failed"
proof -
  have path: "\<not> requiresDiscovery (rq_path (get_request ''/meta/v2/contracts''))" by code_simp
  then have run: "requestWithRetry (HttpRuntimeTransport_request (\<lambda>w _. (Inl TypeErr, w)) ''http://127.0.0.1:9'' None)
     (\<lambda>w. (Inr (), w)) \<lparr>opt_maxRetries = Some 0, opt_retryBackoffMs = None\<rparr> (get_request ''/meta/v2/contracts'') ()
     = (Inl transport_failed, ())"
    by (simp add: requestWithRetry_def send_with_retry_def retry_budget_def retry_loop.simps
        HttpRuntimeTransport_request_def)
  show ?thesis using run http_failures_are_transport_errors[OF run path] by (rule conjI)
qed

section \<open>Uploads\<close>

lemma check_selection_iff:
  "check_selection (num k0) ps = Inr () \<longleftrightarrow>
   (\<exists>ks. ps = map (\<lambda>k. JNum (num k)) ks \<and> sorted_wrt (<) (k0 # ks) \<and> list_all (\<lambda>k. \<bar>k\<bar> \<le> max_safe_integer) ks)"
proof (induction ps arbitrary: k0)
  case (Cons p ps)
  have step: "check_selection (num k0) (p # ps) = Inr () \<longleftrightarrow>
      (\<exists>k. p = JNum (num k) \<and> \<bar>k\<bar> \<le> max_safe_integer \<and> k0 < k \<and> check_selection (num k) ps = Inr ())"
    by (auto split: json.splits elim!: js_isSafeIntegerE)
  show ?case
    unfolding step Cons.IH
  proof (intro iffI; elim exE conjE)
    fix k ks
    assume "p = JNum (num k)" "\<bar>k\<bar> \<le> max_safe_integer" "k0 < k" "ps = map (\<lambda>k. JNum (num k)) ks"
      "sorted_wrt (<) (k # ks)" "list_all (\<lambda>k. \<bar>k\<bar> \<le> max_safe_integer) ks"
    then show "\<exists>ks. p # ps = map (\<lambda>k. JNum (num k)) ks \<and> sorted_wrt (<) (k0 # ks)
        \<and> list_all (\<lambda>k. \<bar>k\<bar> \<le> max_safe_integer) ks"
      by (intro exI[of _ "k # ks"]) auto
  next
    fix ks
    assume "p # ps = map (\<lambda>k. JNum (num k)) ks" "sorted_wrt (<) (k0 # ks)"
      "list_all (\<lambda>k. \<bar>k\<bar> \<le> max_safe_integer) ks"
    then show "\<exists>k. p = JNum (num k) \<and> \<bar>k\<bar> \<le> max_safe_integer \<and> k0 < k \<and> (\<exists>ks. ps = map (\<lambda>k. JNum (num k)) ks
        \<and> sorted_wrt (<) (k # ks) \<and> list_all (\<lambda>k. \<bar>k\<bar> \<le> max_safe_integer) ks)"
      by (cases ks) auto
  qed
qed auto

text \<open>A page selection is sent exactly when it is one: between one and 500 pages, positive safe
  integers, in ascending order without repetition, and it is sent unchanged.\<close>

theorem page_selection_iff:
  "pdfPageSelection (JArr ps) = Inr sel \<longleftrightarrow>
     sel = JArr ps \<and> 1 \<le> length ps \<and> length ps \<le> 500
     \<and> (\<exists>ks. ps = map (\<lambda>k. JNum (num k)) ks \<and> sorted_wrt (<) (0 # ks) \<and> list_all (\<lambda>k. \<bar>k\<bar> \<le> max_safe_integer) ks)"
  unfolding check_selection_iff[of 0, symmetric]
  by (auto simp: pdfPageSelection_def MAX_PDF_PAGE_SELECTION_def res_simps Let_def Suc_le_eq)


text \<open>A failed upload cleans up after itself: when starting a capture fails, then either nothing was
  opened, or the last request deletes an ingestion, or the upload was complete and it was the
  start itself that was refused.\<close>

theorem failed_upload_cleans_up:
  assumes "startStreamingCapture sha256 cx up w = (Inl e, sent, w')"
  shows "sent = [] \<or> sent = [open_request sha256 up] \<or> (\<exists>ing. last sent = delete_request ing)
    \<or> (\<exists>pages ing v v'. last sent = start_request up pages ing \<and> cx_start cx v (start_request up pages ing) = (Inl e, v'))"
  using assms unfolding startStreamingCapture_def Let_def abandon_def
  by (auto split: sum.split_asm prod.split_asm option.split_asm) (metis prod.collapse)+

text \<open>A runtime that takes chunks of two bytes, and one that refuses to finalize. The digest is only
  handed through.\<close>

definition example_upload :: capture_upload where
  "example_upload = \<lparr>up_fileName = ''a.pdf'', up_bytes = [1, 2, 3], up_mediaType = None, up_sourceKind = ''pdf'',
     up_targetLanguage = None, up_structuringMode = None, up_pdfPageNumbers = JUndef, up_identifySpeakers = False,
     up_spokenLanguage = None, up_clientRequestId = ''r''\<rparr>"

definition example_runtime :: "(int, unit) upload_context" where
  "example_runtime =
     \<lparr>cx_capabilities = (\<lambda>w. (Inr 2, w)),
      cx_ingest = (\<lambda>w rq. if rq_method rq = Some POST \<and> 9 \<le> w then (Inl TypeErr, w)
        else (Inr \<lparr>ing_id = ''i'', ing_nextOffset = 0, ing_nextChunkIndex = w\<rparr>, w + 1)),
      cx_start = (\<lambda>w _. (Inr (), w)), cx_delete = (\<lambda>w _. (Inr JNull, w))\<rparr>"

lemma example_upload_run:
  "fst (startStreamingCapture h example_runtime example_upload 0) = Inr ()"
  "fst (startStreamingCapture h example_runtime example_upload 7) = Inl TypeErr"
  "2 \<le> length (fst (snd (startStreamingCapture h example_runtime example_upload 7)))"
proof -
  have pages: "pdfPageSelection JUndef = Inr JUndef" by (simp add: pdfPageSelection_def Let_def)
  have methods: "rq_method (open_request h u) = Some POST" "rq_method (chunk_request h bs k j ing) = Some PUT"
    "rq_method (finalize_request h bs ing) = Some POST" for u bs k j ing
    by (simp_all add: open_request_def chunk_request_def finalize_request_def Let_def)
  have bytes: "up_bytes example_upload = [1, 2, 3]" "up_pdfPageNumbers example_upload = JUndef" "maxChunk 2 = 2"
    by (simp_all add: example_upload_def maxChunk_def CHUNK_BYTES_def)
  show "fst (startStreamingCapture h example_runtime example_upload 0) = Inr ()"
    "fst (startStreamingCapture h example_runtime example_upload 7) = Inl TypeErr"
    "2 \<le> length (fst (snd (startStreamingCapture h example_runtime example_upload 7)))"
    by (simp_all add: startStreamingCapture_def upload_chunks.simps example_runtime_def pages methods bytes abandon_def Let_def)
qed


theorem failed_upload_cleans_up_witness:
  "fst (startStreamingCapture (\<lambda>_. ''h'') example_runtime example_upload 7) = Inl TypeErr
   \<and> (\<exists>ing. last (fst (snd (startStreamingCapture (\<lambda>_. ''h'') example_runtime example_upload 7))) = delete_request ing)"
proof -
  let ?run = "startStreamingCapture (\<lambda>_. ''h'') example_runtime example_upload 7"
  have bad: "fst ?run = Inl TypeErr" and long: "2 \<le> length (fst (snd ?run))" by (rule example_upload_run)+
  from bad have run: "?run = (Inl TypeErr, fst (snd ?run), snd (snd ?run))" by (simp add: prod_eq_iff)
  have "cx_start example_runtime v rq \<noteq> (Inl TypeErr, v')" for v rq v' by (simp add: example_runtime_def)
  with failed_upload_cleans_up[OF run] long
  have "\<exists>ing. last (fst (snd ?run)) = delete_request ing" by auto
  with bad show ?thesis by blast
qed

section \<open>The event stream\<close>


text \<open>The stream ends: it sends at most one request more than \<open>maxReconnects\<close> allows, and none at
  all when that option is not a non-negative integer.\<close>

theorem event_stream_bounded:
  "length (filter is_sent (fst (snd (captureEvents req jp capture opts w))))
     \<le> (case reconnect_budget opts of Inl _ \<Rightarrow> 0 | Inr n \<Rightarrow> Suc n)"
  using event_loop_requests[of 0] by (cases "reconnect_budget opts") (simp_all add: captureEvents_def)

text \<open>Numeric sequences ascend strictly: when a stream starts after sequence \<open>k\<close> and its events carry
  integer sequences, they are strictly increasing and all greater than \<open>k\<close>, over the whole
  stream with its reconnects.\<close>

theorem event_sequences_ascend:
  assumes "eo_lastEventId opts = Some (JNum (num k))"
    and "map (\<lambda>r. fld r ''sequence'') (yielded (fst (snd (captureEvents req jp capture opts w)))) = map (JNum \<circ> num) ks"
  shows "sorted_wrt (<) (k # ks)"
proof -
  have "first_previous opts = JNum (num k)" using assms(1) by (simp add: first_previous_def)
  moreover have "trace_ok capture (first_previous opts) (fst (snd (captureEvents req jp capture opts w)))"
    by (cases "reconnect_budget opts") (simp_all add: captureEvents_def event_loop_trace)
  ultimately show ?thesis using trace_ok_ascending[OF _ assms(2)] by simp
qed

definition example_json :: "string \<Rightarrow> json option" where
  "example_json s = Some (JObj
     [(''captureId'', JStr ''c''), (''sequence'', JNum (num (int (length s)))),
      (''eventType'', JStr (if length s < 9 then ''progress'' else ''completed''))])"

definition example_events :: response where
  "example_events = not_found\<lparr>resp_status := 200, resp_headers := [(''content-type'', ''text/event-stream'')],
     resp_chunks := Some [''data: seven77'' @ [CHR 0x0A, CHR 0x0A], ''data: ninenine9'' @ [CHR 0x0A, CHR 0x0A]]\<rparr>"

definition example_stream :: "exn option \<times> event_step list \<times> unit" where
  "example_stream = captureEvents (\<lambda>w _. (Inr example_events, w)) example_json ''c''
     \<lparr>eo_lastEventId = Some (JNum (num 3)), eo_maxReconnects = None\<rparr> ()"

definition example_frame :: "string \<Rightarrow> SseFrame" where
  "example_frame d = \<lparr>frame_id = None, frame_event = None, frame_data = d\<rparr>"

lemma example_decoded: "decodeSse example_events = ([example_frame ''seven77'', example_frame ''ninenine9''], None)"
  by code_simp

lemma example_accepted:
  assumes "k < int (length d)"
  shows "accept_event example_json ''c'' (JNum (num k)) (example_frame d) = Inr (case the (example_json d) of JObj r \<Rightarrow> r)"
proof -
  have "assertCaptureProgress [(''captureId'', JStr ''c''), (''sequence'', JNum (num (int (length d)))), (''eventType'', v)]
      ''CaptureEvent'' = Inr ()" for v
    unfolding assertCaptureProgress_iff
    by (simp add: fld_def pages_progress_spec_def media_time_spec_def nullish_def)
  then show ?thesis
    using assms by (simp add: accept_event_def parseJsonFrame_def example_frame_def example_json_def fld_def res_simps)
qed

lemma example_stream_sequences:
  "map (\<lambda>r. fld r ''sequence'') (yielded (fst (snd example_stream))) = map (JNum \<circ> num) [7, 9]"
proof -
  let ?r = "\<lambda>d. (case the (example_json d) of JObj r \<Rightarrow> r)"
  have r: "fld (?r d) ''sequence'' = JNum (num (int (length d)))"
    "terminal_event (?r d) \<longleftrightarrow> 9 \<le> length d" for d
    by (auto simp: example_json_def fld_def terminal_event_def str_in_def)
  have "consume_frames example_json ''c'' (JNum (num 3)) [example_frame ''seven77'', example_frame ''ninenine9''] None
     = ([?r ''seven77'', ?r ''ninenine9''], JNum (num 9), Returned)"
    by (simp add: example_accepted r)
  moreover have "reconnect_budget \<lparr>eo_lastEventId = Some (JNum (num 3)), eo_maxReconnects = None\<rparr> = Inr 2"
    by (simp add: reconnect_budget_def num_def)
  ultimately show ?thesis
    by (simp add: example_stream_def captureEvents_def first_previous_def event_loop.simps example_decoded r)
qed

theorem event_sequences_ascend_witness:
  "map (\<lambda>r. fld r ''sequence'') (yielded (fst (snd example_stream))) = map (JNum \<circ> num) [7, 9]
   \<and> sorted_wrt (<) [3 :: int, 7, 9]"
proof -
  have "sorted_wrt (<) [3 :: int, 7, 9]"
    by (rule event_sequences_ascend[OF _ example_stream_sequences[unfolded example_stream_def]]) simp
  with example_stream_sequences show ?thesis by blast
qed

section \<open>Negotiation\<close>

text \<open>C10. What a client knows after a successful negotiation: the runtime is a ready Capture Runtime of the
  expected API and schema versions, its index and bundle expose the v2 surface only, the bundle
  is the parsed content of bytes whose SHA-256 is allowed and equals both the advertised hash
  and the digest in the address, every path the client uses is advertised by a well-formed
  operation, and the document schema has the client's hash.\<close>

theorem negotiation_sound:
  assumes "negotiateRuntime show_frac sha256 parse_bytes cx w = (Inr d, w')"
  shows "ready_ok (dx_options cx) (disc_ready d)
    \<and> surfaces_ok (jprop (disc_contractIndex d) ''surfaces'')
    \<and> (\<exists>bytes. bundle_identity sha256 (dx_options cx) (disc_contractIndex d) bytes
               \<and> parse_bytes bytes = Some (disc_contractBundle d))
    \<and> bundle_ok (disc_contractBundle d)
    \<and> disc_schemaSha256 d = CAPTURE_DOCUMENT_SCHEMA_SHA256"
  using assms by (rule negotiateRuntime_ok)

definition example_op :: "string \<Rightarrow> string \<Rightarrow> string \<Rightarrow> json" where
  "example_op path verb kind = JObj
     [(''path'', JStr path), (''method'', JStr verb), (''surface'', JStr ''v2''), (''body'', JObj [(''kind'', JStr kind)]),
      (''requiredHeaders'', JArr [JStr ''X-Idempotency-Key'', JStr ''Content-Range'', JStr ''Digest'']),
      (''idempotency'', JObj [(''mode'', JStr ''required'')]), (''responseStatusCodes'', JArr [JNum (num 200)]),
      (''mediaType'', JStr ''text/event-stream''),
      (''streaming'', JObj [(''kind'', JStr ''sse''), (''lastEventIdHeader'', JStr ''Last-Event-ID'')]),
      (''responseSchema'', JStr ''CaptureOcrProjectionV3'')]"

definition example_ops :: "json list" where
  "example_ops =
     [example_op ''/v2/health/ready'' ''GET'' ''none'', example_op ''/v2/streaming/health/ready'' ''GET'' ''none'',
      example_op ''/v2/runtime/requirements'' ''GET'' ''none'', example_op ''/v2/runtime/installations'' ''GET'' ''none'',
      example_op ''/v2/captures'' ''POST'' ''json'',
      example_op ''/v2/ingestions/{ingestion_id}/chunks/{chunk_index}'' ''PUT'' ''binary'',
      example_op ''/v2/captures/{capture_id}/events'' ''GET'' ''none'',
      example_op ''/v2/captures/{capture_id}/raw'' ''GET'' ''none'',
      example_op ''/v2/captures/{capture_id}/ocr'' ''GET'' ''none'',
      example_op ''/v2/captures/{capture_id}/result'' ''GET'' ''none'',
      example_op ''/v2/captures/{capture_id}/structure/session'' ''POST'' ''json'',
      example_op ''/v2/captures/{capture_id}/structure/session/batches/{batch_index}'' ''GET'' ''none'',
      example_op ''/v2/captures/{capture_id}/structure/session/batches/{batch_index}'' ''PUT'' ''json'']"

definition example_bundle :: json where
  "example_bundle = JObj
     [(''contractSetVersion'', JStr ''2''), (''schemaDialect'', JStr ''https://json-schema.org/draft/2020-12/schema''),
      (''surfaces'', JArr [JObj [(''id'', JStr ''v2'')]]), (''operations'', JArr example_ops), (''problems'', JArr []),
      (''invariants'', JArr []),
      (''schemas'', JArr [JObj [(''name'', JStr ''CaptureDocument''), (''schemaSha256'', JStr CAPTURE_DOCUMENT_SCHEMA_SHA256)]])]"

definition example_index :: json where
  "example_index = JObj
     [(''catalogVersion'', JStr ''2''), (''runtimeVersion'', JStr ''0.9.0''), (''contractSetVersion'', JStr ''2''),
      (''surfaces'', JArr [JObj [(''id'', JStr ''v2'')]]), (''sha256'', JStr CAPTURE_CONTRACT_SET_SHA256),
      (''href'', JStr (HREF_PREFIX @ CAPTURE_CONTRACT_SET_SHA256))]"

definition example_ready :: json where
  "example_ready = JObj
     [(''service'', JStr ''capture-runtime''), (''ready'', JBool True), (''apiVersion'', JStr ''2.0''),
      (''captureDocumentSchemaVersion'', JStr ''2''),
      (''capabilities'', JObj [(''structuringModes'', JArr [JStr ''host''])])]"

definition example_discovery_context :: "unit discovery_context" where
  "example_discovery_context =
     \<lparr>dx_options = \<lparr>io_expectedApiVersion = None, io_expectedSchemaVersion = None, io_expectedSchemaSha256 = None,
        io_expectedContractSetSha256 = None, io_allowedContractSetSha256 = None\<rparr>,
      dx_transport = (\<lambda>w _. (Inr (not_found\<lparr>resp_status := 200, resp_headers := [], resp_bytes := Inr [1]\<rparr>), w)),
      dx_json = (\<lambda>_ w. (Inr example_index, w)), dx_getReady = (\<lambda>w. (Inr example_ready, w)),
      dx_getStreamingCapabilities = (\<lambda>w. (Inr JNull, w))\<rparr>"

lemma example_hashes: "is_sha256_hex CAPTURE_CONTRACT_SET_SHA256" "is_sha (JStr CAPTURE_CONTRACT_SET_SHA256)"
  by code_simp+

lemmas example_json_simps =
  jprop_def fld_def has_key_def nullish_def coalesce_def Let_def

lemma example_checks:
  "check_ready sf (dx_options example_discovery_context) example_ready = Inr ()"
  "validateContractIndex example_index = Inr ()" "check_href example_index = Inr (HREF_PREFIX @ CAPTURE_CONTRACT_SET_SHA256)"
proof -
  show "check_ready sf (dx_options example_discovery_context) example_ready = Inr ()"
    by (simp add: check_ready_def ready_failures_def example_ready_def example_discovery_context_def example_json_simps
        CAPTURE_API_VERSION_def CAPTURE_DOCUMENT_SCHEMA_VERSION_def )
  show "validateContractIndex example_index = Inr ()"
    using example_hashes(2)
    by (simp add: validateContractIndex_def example_index_def example_json_simps INDEX_FIELDS_def surface_ids_def)
  show "check_href example_index = Inr (HREF_PREFIX @ CAPTURE_CONTRACT_SET_SHA256)"
    using example_hashes(1)
    by (simp add: check_href_def example_index_def example_json_simps starts_with_def)
qed

lemma example_ops_find:
  "requireOperation example_ops p m = option_or (List.find (\<lambda>op. jprop op ''path'' = JStr p
     \<and> (case m of None \<Rightarrow> True | Some v \<Rightarrow> jprop op ''method'' = JStr v)) example_ops) JUndef"
  by (simp add: requireOperation_def)

lemma example_op_props:
  "jprop (example_op p v k) ''path'' = JStr p" "jprop (example_op p v k) ''method'' = JStr v"
  "body_kind (example_op p v k) = JStr k"
  "requires_header (example_op p v k) ''X-Idempotency-Key''" "requires_header (example_op p v k) ''Content-Range''"
  "requires_header (example_op p v k) ''Digest''"
  "jprop (jprop (example_op p v k) ''idempotency'') ''mode'' = JStr ''required''"
  "jprop (example_op p v k) ''mediaType'' = JStr ''text/event-stream''"
  "jprop (jprop (example_op p v k) ''streaming'') ''kind'' = JStr ''sse''"
  "jprop (jprop (example_op p v k) ''streaming'') ''lastEventIdHeader'' = JStr ''Last-Event-ID''"
  "jprop (example_op p v k) ''responseSchema'' = JStr ''CaptureOcrProjectionV3''"
  "js_includes (items (jprop (example_op p v k) ''responseStatusCodes'')) (JNum (num 200))"
  "\<not> bad_operation (example_op p v k)"
  by (simp_all add: example_op_def jprop_def fld_def body_kind_def requires_header_def items_def bad_operation_def
      is_object_def is_array_def js_includes_def same_value_def num_def)

lemma example_operations_ok: "check_operations sf example_ops = Inr ()"
  by (simp add: check_operations_def requireOperation_def example_ops_def example_op_props Let_def)

lemma example_bundle_ok: "validateContractBundle sf example_bundle = Inr CAPTURE_DOCUMENT_SCHEMA_SHA256"
proof -
  have props: "jprop example_bundle ''operations'' = JArr example_ops" "jprop example_bundle ''contractSetVersion'' = JStr ''2''"
    "jprop example_bundle ''schemaDialect'' = JStr ''https://json-schema.org/draft/2020-12/schema''"
    "jprop example_bundle ''surfaces'' = JArr [JObj [(''id'', JStr ''v2'')]]"
    "jprop example_bundle ''problems'' = JArr []" "jprop example_bundle ''invariants'' = JArr []"
    "jprop example_bundle ''schemas'' = JArr [JObj [(''name'', JStr ''CaptureDocument''),
       (''schemaSha256'', JStr CAPTURE_DOCUMENT_SCHEMA_SHA256)]]" "\<not> nullish example_bundle"
    by (simp_all add: example_bundle_def jprop_def fld_def nullish_def)
  have good: "\<not> list_ex bad_operation example_ops"
    by (simp add: example_ops_def example_op_props)
  have paths: "\<forall>p \<in> set REQUIRED_PATHS. JStr p \<in> (\<lambda>op. jprop op ''path'') ` set example_ops"
    by (simp add: REQUIRED_PATHS_def example_ops_def example_op_props)
  have "for_each (\<lambda>p. throw_if (JStr p \<notin> (\<lambda>op. jprop op ''path'') ` set example_ops)
      (compatibility_error ''Capture Runtime contract bundle does not advertise the required client surface.'')) REQUIRED_PATHS
    = Inr ()"
    using paths by (simp add: for_each_Inr_iff)
  then show ?thesis
    using good
    by (simp add: validateContractBundle_def props items_def is_array_def surface_ids_def example_operations_ok Let_def
        jprop_def[of "JObj _"] fld_def)
qed

theorem negotiation_sound_witness:
  "\<exists>d. fst (negotiateRuntime (\<lambda>_. []) (\<lambda>_. CAPTURE_CONTRACT_SET_SHA256) (\<lambda>_. Some example_bundle)
          example_discovery_context ()) = Inr d
     \<and> bundle_ok (disc_contractBundle d) \<and> disc_schemaSha256 d = CAPTURE_DOCUMENT_SCHEMA_SHA256"
proof -
  let ?run = "negotiateRuntime (\<lambda>_. []) (\<lambda>_. CAPTURE_CONTRACT_SET_SHA256) (\<lambda>_. Some example_bundle)
     example_discovery_context ()"
  have cx: "dx_getReady example_discovery_context = (\<lambda>w. (Inr example_ready, w))"
    "dx_json example_discovery_context rq = (\<lambda>w. (Inr example_index, w))"
    "dx_getStreamingCapabilities example_discovery_context = (\<lambda>w. (Inr JNull, w))" for rq
    by (simp_all add: example_discovery_context_def)
  have bytes: "check_bundle_bytes (\<lambda>_. CAPTURE_CONTRACT_SET_SHA256) (dx_options example_discovery_context) example_index
      (fst (not_found\<lparr>resp_status := 200, resp_headers := [], resp_bytes := Inr [1]\<rparr>, ())) = Inr [1]"
    by (simp add: check_bundle_bytes_def resp_ok_def header_def allowedContractHashes_def example_discovery_context_def
        example_index_def jprop_def fld_def Let_def)
  have "jprop example_ready ''captureDocumentSchemaSha256'' = JUndef"
    by (simp add: example_ready_def jprop_def fld_def)
  with bytes have "\<exists>d. fst ?run = Inr d"
    by (simp add: negotiateRuntime_def cx example_checks example_bundle_ok bind_io_def lift_io_def
        example_discovery_context_def[THEN arg_cong, of dx_transport])
  then obtain d where d: "fst ?run = Inr d" by blast
  then have run: "?run = (Inr d, snd ?run)" by (simp add: prod_eq_iff)
  show ?thesis using d negotiation_sound[OF run] by blast
qed

end
