(* ===== verification/Workbench_Documents.thy ===== *)
theory Workbench_Documents
  imports Runtime_Client
begin

text \<open>
  \<^verbatim>\<open>packages/capture-workbench-ui/src/lib/capture-helpers.ts\<close>: which files the workbench takes,
  the compatibility check of its handshake, the text of a document, and the validation of a
  document that a host's provider produced against the raw capture it was produced from. A
  number of a document is a JavaScript number; \<open>null\<close> and a missing field are both \<open>None\<close> where
  the code treats them alike.
\<close>

section \<open>Source kinds\<close>

datatype source_kind = Pdf | Image | Audio

definition RECORDING_EXTENSIONS :: "string list" where
  "RECORDING_EXTENSIONS =
     [''mp3'', ''wav'', ''m4a'', ''m4b'', ''aac'', ''flac'', ''ogg'', ''oga'', ''opus'', ''wma'', ''amr'',
      ''aif'', ''aiff'', ''caf'', ''mka'', ''3gp'', ''3g2'', ''mp4'', ''m4v'', ''mov'', ''mkv'', ''webm'',
      ''avi'', ''wmv'', ''asf'', ''flv'', ''mpg'', ''mpeg'', ''ts'', ''mts'', ''m2ts'']"

definition EXTENSION_KINDS :: "(string \<times> source_kind) list" where
  "EXTENSION_KINDS =
     [(''pdf'', Pdf), (''png'', Image), (''jpg'', Image), (''jpeg'', Image), (''webp'', Image)]
     @ map (\<lambda>e. (e, Audio)) RECORDING_EXTENSIONS"

text \<open>\<open>file.name.split('.').pop()\<close>: the text after the last dot, or the whole name.\<close>

definition extension :: "string \<Rightarrow> string" where
  "extension name = js_lower (rev (takeWhile (\<lambda>c. c \<noteq> CHR ''.'') (rev name)))"

text \<open>
  The lookup \<open>EXTENSION_KINDS[extension]\<close> also finds the properties every object inherits; of
  those, the all-lower-case names are \<open>constructor\<close> and \<open>__proto__\<close>.
\<close>

datatype file_kind = NoKind | Kind source_kind | Inherited string

definition classifyCaptureFile :: "string \<Rightarrow> file_kind" where
  "classifyCaptureFile name =
     (case map_of EXTENSION_KINDS (extension name) of
        Some k \<Rightarrow> Kind k
      | None \<Rightarrow> if extension name \<in> {''constructor'', ''__proto__''} then Inherited (extension name) else NoKind)"

definition accept_values :: "source_kind list \<Rightarrow> string list" where
  "accept_values enabled =
     (if Pdf \<in> set enabled then [''.pdf'', ''application/pdf''] else [])
     @ (if Image \<in> set enabled
        then [''.png'', ''.jpg'', ''.jpeg'', ''.webp'', ''image/png'', ''image/jpeg'', ''image/webp''] else [])
     @ (if Audio \<in> set enabled
        then map (\<lambda>e. CHR ''.'' # e) RECORDING_EXTENSIONS @ [''audio/*'', ''video/*''] else [])"

definition captureAccept :: "source_kind list \<Rightarrow> string" where
  "captureAccept enabled = join '','' (accept_values enabled)"

section \<open>Documents\<close>

datatype CaptureLocator = PageLoc jnum "jnum list option" | TimeLoc jnum jnum

record CaptureSource =
  src_sha256 :: string
  src_fileName :: string
  src_mediaType :: string
  src_bytes :: jnum

record CaptureEngine =
  eng_engine :: string
  eng_model :: string
  eng_digest :: string
  eng_device :: json

record RawSegment =
  seg_id :: string
  seg_order :: jnum
  seg_text :: string
  seg_locator :: CaptureLocator
  seg_speaker :: "string option"

record CaptureBlock =
  blk_id :: string
  blk_order :: jnum
  blk_type :: string
  blk_sourceSegmentId :: string
  blk_sourceText :: string
  blk_targetText :: string
  blk_locator :: CaptureLocator

record CaptureSpeaker =
  spk_id :: string
  spk_displayName :: "string option"

record RawCapture =
  raw_source :: CaptureSource
  raw_segments :: "RawSegment list"
  raw_sourceText :: string
  raw_extractionEngine :: CaptureEngine
  raw_createdAt :: string
  raw_warnings :: "string list option"

record CaptureDocument =
  doc_schemaVersion :: string
  doc_source :: CaptureSource
  doc_sourceText :: string
  doc_targetText :: string
  doc_blocks :: "CaptureBlock list"
  doc_rawSegments :: "RawSegment list"
  doc_extractionEngine :: CaptureEngine
  doc_structuringEngine :: CaptureEngine
  doc_createdAt :: string
  doc_warnings :: "string list option"
  doc_speakers :: "CaptureSpeaker list option"

text \<open>\<open>x || d\<close> for strings.\<close>

definition str_or :: "string \<Rightarrow> string \<Rightarrow> string" where
  "str_or s d = (if s = [] then d else s)"

text \<open>\<open>new Map(entries).get(k)\<close>: the last entry wins.\<close>

definition map_get :: "('k \<times> 'v) list \<Rightarrow> 'k \<Rightarrow> 'v option" where
  "map_get entries k = map_of (rev entries) k"

definition captureDocumentText :: "CaptureDocument \<Rightarrow> string" where
  "captureDocumentText d =
     (let speakers = option_or (doc_speakers d) []
      in if speakers = [] then str_or (js_trim (doc_targetText d)) (doc_sourceText d)
         else (let names = map (\<lambda>s. (spk_id s, str_or (js_trim (option_or (spk_displayName s) [])) (spk_id s))) speakers;
                   speakerOf = map (\<lambda>g. (seg_id g, seg_speaker g)) (doc_rawSegments d);
                   line = (\<lambda>b. let speaker = option_or (map_get speakerOf (blk_sourceSegmentId b)) None;
                                    name = (case speaker of None \<Rightarrow> None
                                            | Some s \<Rightarrow> if s = [] then None else map_get names s)
                               in case name of None \<Rightarrow> blk_targetText b
                                  | Some n \<Rightarrow> if n = [] then blk_targetText b
                                              else n @ '': '' @ blk_targetText b)
               in join [CHR 0x0A] (map line (doc_blocks d))))"

section \<open>Compatibility\<close>

definition CAPTURE_RUNTIME_MAJOR :: int where "CAPTURE_RUNTIME_MAJOR = 0"
definition CAPTURE_RUNTIME_MINOR :: int where "CAPTURE_RUNTIME_MINOR = 9"

text \<open>\<open>Number.parseInt(s, 10)\<close>: the number at the start of the text.\<close>

definition js_parseInt :: "string \<Rightarrow> int option" where
  "js_parseInt s =
     (let t = dropWhile is_ws s; neg = starts_with ''-'' t;
          ds = takeWhile is_digit (if neg \<or> starts_with ''+'' t then tl t else t)
      in if ds = [] then None else Some (if neg then - radix_val 10 ds else radix_val 10 ds))"

fun split_dots :: "string \<Rightarrow> string list" where
  "split_dots [] = [[]]"
| "split_dots (c # s) =
     (if c = CHR ''.'' then [] # split_dots s
      else (case split_dots s of [] \<Rightarrow> [[c]] | t # ts \<Rightarrow> (c # t) # ts))"

definition normalized_version :: "string \<Rightarrow> string" where
  "normalized_version v =
     (let t = js_trim v in case t of c # cs \<Rightarrow> if to_lower c = CHR ''v'' then cs else t | [] \<Rightarrow> [])"

definition version_part :: "nat \<Rightarrow> string \<Rightarrow> int" where
  "version_part i v =
     (let parts = split_dots (normalized_version v)
      in option_or (js_parseInt (if i < length parts then parts ! i else [])) (- 1))"

definition parseMajor :: "string \<Rightarrow> int" where "parseMajor v = version_part 0 v"
definition parseMinor :: "string \<Rightarrow> int" where "parseMinor v = version_part 1 v"

record ready_report =
  rd_service :: string
  rd_apiVersion :: string
  rd_runtimeVersion :: string
  rd_schemaVersion :: string
  rd_structuringModes :: "string list option"

definition assertCaptureRuntimeCompatible ::
  "ready_report \<Rightarrow> int \<Rightarrow> string option \<Rightarrow> int \<Rightarrow> string + unit" where
  "assertCaptureRuntimeCompatible ready major mode minor =
     then_res (throw_if (rd_service ready \<noteq> ''capture-runtime'')
       ''The connected service is not Capture Runtime.'')
     (then_res (throw_if (parseMajor (rd_apiVersion ready) \<noteq> parseMajor CAPTURE_API_VERSION)
       (''Capture API '' @ rd_apiVersion ready @ '' is incompatible with client API '' @ CAPTURE_API_VERSION @ ''.''))
     (then_res (throw_if (parseMajor (rd_runtimeVersion ready) \<noteq> major)
       (''Capture runtime '' @ rd_runtimeVersion ready @ '' is incompatible with client runtime major ''
          @ show_int major @ ''.''))
     (then_res (throw_if (major = 0 \<and> parseMinor (rd_runtimeVersion ready) \<noteq> minor)
       (''Capture runtime '' @ rd_runtimeVersion ready @ '' is incompatible with client runtime minor ''
          @ show_int minor @ '' while the client is on 0.x.''))
     (then_res (throw_if (rd_schemaVersion ready \<noteq> CAPTURE_DOCUMENT_SCHEMA_VERSION)
       (''Capture runtime does not support schema '' @ CAPTURE_DOCUMENT_SCHEMA_VERSION @ ''.''))
     (case mode of
        None \<Rightarrow> Inr ()
      | Some m \<Rightarrow> throw_if (m \<noteq> [] \<and> m \<notin> set (option_or (rd_structuringModes ready) []))
                    (''Capture runtime does not support '' @ m @ '' structuring mode.''))))))"

section \<open>Locators\<close>

fun js_sub :: "jnum \<Rightarrow> jnum \<Rightarrow> jnum" where
  "js_sub (Fin a) (Fin b) = Fin (a - b)"
| "js_sub NaN _ = NaN"
| "js_sub _ NaN = NaN"
| "js_sub PosInf PosInf = NaN"
| "js_sub NegInf NegInf = NaN"
| "js_sub PosInf _ = PosInf"
| "js_sub NegInf _ = NegInf"
| "js_sub _ PosInf = NegInf"
| "js_sub _ NegInf = PosInf"

fun compareLocators :: "CaptureLocator \<Rightarrow> CaptureLocator \<Rightarrow> jnum" where
  "compareLocators (PageLoc p _) (PageLoc q _) = js_sub p q"
| "compareLocators (TimeLoc s _) (TimeLoc t _) = js_sub s t"
| "compareLocators (PageLoc _ _) (TimeLoc _ _) = num (- 1)"
| "compareLocators (TimeLoc _ _) (PageLoc _ _) = num 1"

text \<open>\<open>left.every((value, index) => value === right?.[index])\<close>: only the entries of the left
  box are compared.\<close>

definition box_every :: "jnum list \<Rightarrow> jnum list \<Rightarrow> bool" where
  "box_every l r = (\<forall>i < length l. i < length r \<and> js_num_eq (l ! i) (r ! i))"

fun locatorsEqual :: "CaptureLocator \<Rightarrow> CaptureLocator \<Rightarrow> bool" where
  "locatorsEqual (TimeLoc s e) (TimeLoc s' e') = (js_num_eq s s' \<and> js_num_eq e e')"
| "locatorsEqual (PageLoc p b) (PageLoc p' b') =
     (js_num_eq p p'
      \<and> (case (b, b') of
           (Some l, Some r) \<Rightarrow> box_every l r
         | (None, None) \<Rightarrow> True
         | _ \<Rightarrow> False))"
| "locatorsEqual _ _ = False"

fun isValidLocator :: "CaptureLocator \<Rightarrow> RawCapture \<Rightarrow> bool" where
  "isValidLocator (PageLoc p b) raw =
     (js_isInteger p \<and> js_lt (num 0) p
      \<and> (case b of None \<Rightarrow> True | Some l \<Rightarrow> length l = 4 \<and> list_all js_isFinite l)
      \<and> list_ex (\<lambda>g. case seg_locator g of PageLoc q _ \<Rightarrow> js_num_eq q p | _ \<Rightarrow> False) (raw_segments raw))"
| "isValidLocator (TimeLoc s e) raw =
     (js_isInteger s \<and> js_isInteger e \<and> js_le (num 0) s \<and> js_lt s e
      \<and> list_ex (\<lambda>g. case seg_locator g of TimeLoc s' e' \<Rightarrow> js_le s' s \<and> js_le e e' | _ \<Rightarrow> False)
          (raw_segments raw))"

definition sameSource :: "CaptureSource \<Rightarrow> CaptureSource \<Rightarrow> bool" where
  "sameSource l r = (src_sha256 l = src_sha256 r \<and> src_fileName l = src_fileName r
                     \<and> src_mediaType l = src_mediaType r \<and> js_num_eq (src_bytes l) (src_bytes r))"

definition sameEngine :: "CaptureEngine \<Rightarrow> CaptureEngine \<Rightarrow> bool" where
  "sameEngine l r = (eng_engine l = eng_engine r \<and> eng_model l = eng_model r
                     \<and> eng_digest l = eng_digest r \<and> js_seq (eng_device l) (eng_device r))"

section \<open>Candidate validation\<close>

text \<open>\<open>if (c) issues.push(m)\<close>\<close>

definition issue :: "bool \<Rightarrow> string \<Rightarrow> string list" where
  "issue c m = (if c then [m] else [])"

definition is_engine_digest :: "string \<Rightarrow> bool" where
  "is_engine_digest s = (starts_with ''sha256:'' s \<and> is_sha256_hex (drop 7 s))"

definition at_index :: "string \<Rightarrow> nat \<Rightarrow> string" where
  "at_index name i = name @ ''['' @ show_int (int i) @ '']''"

definition segment_preserved :: "RawSegment \<Rightarrow> RawSegment \<Rightarrow> bool" where
  "segment_preserved s r = (seg_id s = seg_id r \<and> js_num_eq (seg_order s) (seg_order r)
     \<and> seg_text s = seg_text r \<and> locatorsEqual (seg_locator s) (seg_locator r))"

fun preserved_issues :: "nat \<Rightarrow> RawSegment list \<Rightarrow> RawSegment list \<Rightarrow> string list" where
  "preserved_issues i (s # ss) (r # rs) =
     issue (\<not> segment_preserved s r) (at_index ''rawSegments'' i @ '' must exactly preserve raw capture evidence'')
     @ preserved_issues (Suc i) ss rs"
| "preserved_issues i _ _ = []"

fun raw_segment_issues :: "nat \<Rightarrow> string list \<Rightarrow> RawSegment list \<Rightarrow> string list" where
  "raw_segment_issues i seen [] = []"
| "raw_segment_issues i seen (g # gs) =
     issue (\<not> js_num_eq (seg_order g) (num (int i)))
       (at_index ''raw.segments'' i @ ''.order must equal '' @ show_int (int i))
     @ issue (seg_id g \<in> set seen) (at_index ''raw.segments'' i @ ''.segmentId must be unique'')
     @ raw_segment_issues (Suc i) (seg_id g # seen) gs"

text \<open>The checks of one block against the raw segment at its index, if there is one.\<close>

definition block_evidence_issues :: "nat \<Rightarrow> RawSegment list \<Rightarrow> CaptureBlock \<Rightarrow> string list" where
  "block_evidence_issues i segs b =
     (if i < length segs \<and> blk_sourceSegmentId b = seg_id (segs ! i)
      then issue (\<not> locatorsEqual (blk_locator b) (seg_locator (segs ! i)))
             (at_index ''blocks'' i @ ''.locator must equal its raw segment locator'')
           @ issue (blk_sourceText b \<noteq> seg_text (segs ! i))
             (at_index ''blocks'' i @ ''.sourceText must equal its raw segment text'')
      else [at_index ''blocks'' i @ ''.sourceSegmentId must follow raw segment order''])"

fun block_issues ::
  "RawCapture \<Rightarrow> nat \<Rightarrow> CaptureLocator option \<Rightarrow> string list \<Rightarrow> CaptureBlock list \<Rightarrow> string list" where
  "block_issues raw i previous seen [] = []"
| "block_issues raw i previous seen (b # bs) =
     issue (\<not> js_num_eq (blk_order b) (num (int i))) (at_index ''blocks'' i @ ''.order must equal '' @ show_int (int i))
     @ issue (blk_id b \<in> set seen) (at_index ''blocks'' i @ ''.blockId must be unique'')
     @ issue (blank (blk_sourceText b)) (at_index ''blocks'' i @ ''.sourceText must not be empty'')
     @ issue (blank (blk_targetText b)) (at_index ''blocks'' i @ ''.targetText must not be empty'')
     @ block_evidence_issues i (raw_segments raw) b
     @ issue (\<not> isValidLocator (blk_locator b) raw) (at_index ''blocks'' i @ ''.locator does not reference raw capture evidence'')
     @ issue (case previous of None \<Rightarrow> False | Some p \<Rightarrow> js_lt (num 0) (compareLocators p (blk_locator b)))
         (at_index ''blocks'' i @ ''.locator is out of source order'')
     @ block_issues raw (Suc i) (Some (blk_locator b)) (blk_id b # seen) bs"

definition header_issues :: "CaptureDocument \<Rightarrow> RawCapture \<Rightarrow> string list" where
  "header_issues c raw =
     issue (doc_schemaVersion c \<noteq> CAPTURE_DOCUMENT_SCHEMA_VERSION)
       (''schemaVersion must be '' @ CAPTURE_DOCUMENT_SCHEMA_VERSION)
     @ issue (blank (doc_sourceText c)) ''sourceText must not be empty''
     @ issue (blank (doc_targetText c)) ''targetText must not be empty''
     @ issue (doc_blocks c = []) ''blocks must not be empty''
     @ issue (\<not> is_sha256_hex (src_sha256 (doc_source c))) ''source.sha256 must be 64 lowercase hexadecimal characters''
     @ issue (\<not> sameSource (doc_source c) (raw_source raw)) ''source must exactly match raw capture evidence''
     @ (if length (doc_rawSegments c) \<noteq> length (raw_segments raw)
        then [''rawSegments must preserve every raw capture segment'']
        else preserved_issues 0 (doc_rawSegments c) (raw_segments raw))"

definition provenance_issues :: "CaptureDocument \<Rightarrow> RawCapture \<Rightarrow> string list" where
  "provenance_issues c raw =
     issue (\<not> is_engine_digest (eng_digest (doc_extractionEngine c)))
       ''extractionEngine.digest must use sha256:<64 lowercase hex>''
     @ issue (\<not> is_engine_digest (eng_digest (doc_structuringEngine c)))
       ''structuringEngine.digest must use sha256:<64 lowercase hex>''
     @ issue (\<not> sameEngine (doc_extractionEngine c) (raw_extractionEngine raw))
       ''extractionEngine must match raw capture provenance''
     @ issue (doc_sourceText c \<noteq> raw_sourceText raw) ''sourceText must exactly match raw capture evidence''
     @ issue (doc_createdAt c \<noteq> raw_createdAt raw) ''createdAt must exactly match raw capture evidence''
     @ issue (\<not> list_all (\<lambda>w. w \<in> set (option_or (doc_warnings c) [])) (option_or (raw_warnings raw) []))
       ''warnings must preserve every raw capture warning''
     @ issue (blank (eng_engine (doc_structuringEngine c))) ''structuringEngine.engine must not be empty''
     @ issue (blank (eng_model (doc_structuringEngine c))) ''structuringEngine.model must not be empty''
     @ issue (blank (eng_digest (doc_structuringEngine c))) ''structuringEngine.digest must not be empty''"

definition validateStructuringCandidate :: "CaptureDocument \<Rightarrow> RawCapture \<Rightarrow> string list" where
  "validateStructuringCandidate c raw =
     header_issues c raw
     @ provenance_issues c raw
     @ raw_segment_issues 0 [] (raw_segments raw)
     @ issue (raw_sourceText raw \<noteq> join [CHR 0x0A] (map seg_text (raw_segments raw)))
         ''raw.sourceText must be the exact raw segment projection''
     @ block_issues raw 0 None [] (doc_blocks c)
     @ issue (length (doc_blocks c) \<noteq> length (raw_segments raw)) ''blocks must cover every raw segment exactly once''
     @ issue (doc_targetText c \<noteq> join [CHR 0x0A] (map blk_targetText (doc_blocks c)))
         ''targetText must be the exact block target projection''"

section \<open>What validation establishes\<close>

lemma issue_Nil [simp]: "issue c m = [] \<longleftrightarrow> \<not> c"
  by (simp add: issue_def)

lemma indexed_all_Cons:
  "(\<forall>k < length (x # xs). P (i + k) ((x # xs) ! k)) \<longleftrightarrow>
     P i x \<and> (\<forall>k < length xs. P (Suc i + k) (xs ! k))"
  by (simp add: All_less_Suc2)

lemma preserved_issues_Nil:
  "length ss = length rs \<Longrightarrow>
   preserved_issues i ss rs = [] \<longleftrightarrow> list_all2 segment_preserved ss rs"
  by (induction i ss rs rule: preserved_issues.induct) auto

lemma raw_segment_issues_Nil:
  "raw_segment_issues i seen gs = [] \<longleftrightarrow>
     (\<forall>k < length gs. js_num_eq (seg_order (gs ! k)) (num (int (i + k))))
     \<and> distinct (map seg_id gs) \<and> set (map seg_id gs) \<inter> set seen = {}"
proof (induction i seen gs rule: raw_segment_issues.induct)
  case (2 i seen g gs)
  show ?case
    using 2 unfolding indexed_all_Cons[where P = "\<lambda>k g. js_num_eq (seg_order g) (num (int k))"]
    by auto
qed simp

text \<open>What one block has to be: its index is its order, its texts are not blank, it comes from
  the raw segment of the same index and repeats its text, and its locator is evidence of that
  segment.\<close>

definition block_ok :: "RawCapture \<Rightarrow> nat \<Rightarrow> CaptureBlock \<Rightarrow> bool" where
  "block_ok raw i b \<longleftrightarrow>
     js_num_eq (blk_order b) (num (int i))
     \<and> \<not> blank (blk_sourceText b) \<and> \<not> blank (blk_targetText b)
     \<and> i < length (raw_segments raw)
     \<and> blk_sourceSegmentId b = seg_id (raw_segments raw ! i)
     \<and> blk_sourceText b = seg_text (raw_segments raw ! i)
     \<and> locatorsEqual (blk_locator b) (seg_locator (raw_segments raw ! i))
     \<and> isValidLocator (blk_locator b) raw"

definition in_order :: "CaptureLocator \<Rightarrow> CaptureLocator \<Rightarrow> bool" where
  "in_order l r \<longleftrightarrow> \<not> js_lt (num 0) (compareLocators l r)"

lemma block_issues_Nil:
  "block_issues raw i previous seen bs = [] \<longleftrightarrow>
     (\<forall>k < length bs. block_ok raw (i + k) (bs ! k))
     \<and> distinct (map blk_id bs) \<and> set (map blk_id bs) \<inter> set seen = {}
     \<and> successively in_order (case previous of None \<Rightarrow> map blk_locator bs | Some p \<Rightarrow> p # map blk_locator bs)"
proof (induction raw i previous seen bs rule: block_issues.induct)
  case (1 raw i previous seen)
  then show ?case by (simp split: option.splits)
next
  case (2 raw i previous seen b bs)
  have all: "(\<forall>k < length (b # bs). block_ok raw (i + k) ((b # bs) ! k))
     \<longleftrightarrow> block_ok raw i b \<and> (\<forall>k < length bs. block_ok raw (Suc i + k) (bs ! k))"
    by (rule indexed_all_Cons)
  have head: "js_num_eq (blk_order b) (num (int i)) \<and> \<not> blank (blk_sourceText b) \<and> \<not> blank (blk_targetText b)
      \<and> block_evidence_issues i (raw_segments raw) b = [] \<and> isValidLocator (blk_locator b) raw
      \<longleftrightarrow> block_ok raw i b"
    by (auto simp: block_ok_def block_evidence_issues_def)
  have chain: "successively in_order (case previous of None \<Rightarrow> map blk_locator (b # bs) | Some p \<Rightarrow> p # map blk_locator (b # bs))
     \<longleftrightarrow> (case previous of None \<Rightarrow> True | Some p \<Rightarrow> in_order p (blk_locator b))
        \<and> successively in_order (blk_locator b # map blk_locator bs)"
    by (auto split: option.splits)
  show ?case
    unfolding all chain head[symmetric] using 2
    by (auto simp: in_order_def split: option.splits)
qed

text \<open>The declarative contract of an accepted candidate.\<close>

definition candidate_spec :: "CaptureDocument \<Rightarrow> RawCapture \<Rightarrow> bool" where
  "candidate_spec c raw \<longleftrightarrow>
     doc_schemaVersion c = ''2''
     \<and> \<not> blank (doc_sourceText c) \<and> \<not> blank (doc_targetText c) \<and> doc_blocks c \<noteq> []
     \<and> is_sha256_hex (src_sha256 (doc_source c)) \<and> sameSource (doc_source c) (raw_source raw)
     \<and> list_all2 segment_preserved (doc_rawSegments c) (raw_segments raw)
     \<and> provenance_issues c raw = []
     \<and> (\<forall>i < length (raw_segments raw). js_num_eq (seg_order (raw_segments raw ! i)) (num (int i)))
     \<and> distinct (map seg_id (raw_segments raw))
     \<and> raw_sourceText raw = join [CHR 0x0A] (map seg_text (raw_segments raw))
     \<and> length (doc_blocks c) = length (raw_segments raw)
     \<and> (\<forall>i < length (doc_blocks c). block_ok raw i (doc_blocks c ! i))
     \<and> distinct (map blk_id (doc_blocks c))
     \<and> successively in_order (map blk_locator (doc_blocks c))
     \<and> doc_targetText c = join [CHR 0x0A] (map blk_targetText (doc_blocks c))"

lemma header_issues_Nil:
  "header_issues c raw = [] \<longleftrightarrow>
     doc_schemaVersion c = ''2''
     \<and> \<not> blank (doc_sourceText c) \<and> \<not> blank (doc_targetText c) \<and> doc_blocks c \<noteq> []
     \<and> is_sha256_hex (src_sha256 (doc_source c)) \<and> sameSource (doc_source c) (raw_source raw)
     \<and> list_all2 segment_preserved (doc_rawSegments c) (raw_segments raw)"
  by (auto simp: header_issues_def preserved_issues_Nil CAPTURE_DOCUMENT_SCHEMA_VERSION_def
      list_all2_lengthD)

lemma validateStructuringCandidate_Nil: "validateStructuringCandidate c raw = [] \<longleftrightarrow> candidate_spec c raw"
  unfolding validateStructuringCandidate_def candidate_spec_def
  by (auto simp: header_issues_Nil raw_segment_issues_Nil block_issues_Nil)


section \<open>Classification\<close>

lemma extension_dot: "CHR ''.'' \<notin> set e \<Longrightarrow> extension (name @ CHR ''.'' # e) = js_lower e"
proof -
  assume "CHR ''.'' \<notin> set e"
  then have "takeWhile (\<lambda>c. c \<noteq> CHR ''.'') (rev e @ CHR ''.'' # rev name) = rev e"
    by (subst takeWhile_append2) auto
  then show ?thesis by (simp add: extension_def)
qed

definition plain_extension :: "string \<Rightarrow> bool" where
  "plain_extension e = (CHR ''.'' \<notin> set e \<and> js_lower e = e)"

lemma known_extensions: "list_all (\<lambda>(e, k). plain_extension e \<and> map_of EXTENSION_KINDS e = Some k) EXTENSION_KINDS"
  by code_simp

lemma known_extensionE:
  assumes "(e, k) \<in> set EXTENSION_KINDS"
  shows "CHR ''.'' \<notin> set e" "js_lower e = e" "map_of EXTENSION_KINDS e = Some k"
  using assms known_extensions by (auto simp: list_all_iff plain_extension_def)

lemma accepted_extension:
  "(e, k) \<in> set EXTENSION_KINDS \<Longrightarrow> k \<in> set enabled \<Longrightarrow> CHR ''.'' # e \<in> set (accept_values enabled)"
  by (auto simp: EXTENSION_KINDS_def accept_values_def)

text \<open>The file picker and the queue agree: a file whose extension is known is classified by
  that extension alone, whatever the rest of its name is and in whatever case the extension is
  written, and the picker offers the extension whenever its kind is enabled.\<close>

theorem picker_agrees_with_classifier:
  assumes "(e, k) \<in> set EXTENSION_KINDS" and "js_lower x = e"
  shows "classifyCaptureFile (name @ CHR ''.'' # x) = Kind k
    \<and> (k \<in> set enabled \<longrightarrow> CHR ''.'' # e \<in> set (accept_values enabled))"
proof -
  note e = known_extensionE[OF assms(1)]
  have "to_lower (CHR ''.'') = CHR ''.''" by code_simp
  then have "CHR ''.'' \<notin> set x"
    using e(1) assms(2) by (force simp: js_lower_def)
  then have "extension (name @ CHR ''.'' # x) = e"
    using extension_dot assms(2) by simp
  with e(3) accepted_extension[OF assms(1)] show ?thesis
    by (simp add: classifyCaptureFile_def)
qed

lemma m4a_known: "(''m4a'', Audio) \<in> set EXTENSION_KINDS" "js_lower ''M4A'' = ''m4a''"
  by code_simp+

theorem picker_agrees_with_classifier_witness:
  "classifyCaptureFile (''Minutes 2024.05'' @ CHR ''.'' # ''M4A'') = Kind Audio"
  using picker_agrees_with_classifier[OF m4a_known] by blast

section \<open>Gaps\<close>

text \<open>\<open>locatorsEqual\<close> compares only the entries of its left box. The document's copy of a raw
  segment is the left argument and its box is not validated, so a document that dropped every
  bounding box of its \<open>rawSegments\<close> is accepted like the faithful one.\<close>

fun drop_box :: "CaptureLocator \<Rightarrow> CaptureLocator" where
  "drop_box (PageLoc p b) = PageLoc p (map_option (\<lambda>_. []) b)"
| "drop_box (TimeLoc s e) = TimeLoc s e"

definition drop_boxes :: "CaptureDocument \<Rightarrow> CaptureDocument" where
  "drop_boxes c = c\<lparr>doc_rawSegments := map (\<lambda>s. s\<lparr>seg_locator := drop_box (seg_locator s)\<rparr>) (doc_rawSegments c)\<rparr>"

lemma drop_box_equal: "locatorsEqual l r \<Longrightarrow> locatorsEqual (drop_box l) r"
  by (cases "(l, r)" rule: locatorsEqual.cases) (auto simp: box_every_def split: option.splits)

lemma drop_box_preserved:
  "segment_preserved s r \<Longrightarrow> segment_preserved (s\<lparr>seg_locator := drop_box (seg_locator s)\<rparr>) r"
  by (simp add: segment_preserved_def drop_box_equal)

text \<open>Validation does not protect the bounding boxes of a document's raw segments: emptying
  all of them turns an accepted document into an accepted document.\<close>

theorem dropped_boxes_accepted:
  assumes "validateStructuringCandidate c raw = []"
  shows "validateStructuringCandidate (drop_boxes c) raw = []"
  using assms unfolding validateStructuringCandidate_Nil
  by (auto simp: candidate_spec_def drop_boxes_def provenance_issues_def list_all2_map1 issue_def
      elim!: list_all2_mono drop_box_preserved split: if_splits)

definition example_engine :: CaptureEngine where
  "example_engine = \<lparr>eng_engine = ''ocr'', eng_model = ''v5'', eng_digest = ''sha256:'' @ CAPTURE_DOCUMENT_SCHEMA_SHA256,
     eng_device = JNull\<rparr>"

definition example_source :: CaptureSource where
  "example_source = \<lparr>src_sha256 = CAPTURE_DOCUMENT_SCHEMA_SHA256, src_fileName = ''a.pdf'',
     src_mediaType = ''application/pdf'', src_bytes = num 10\<rparr>"

definition example_segment :: RawSegment where
  "example_segment = \<lparr>seg_id = ''s0'', seg_order = num 0, seg_text = ''Hello'',
     seg_locator = PageLoc (num 1) (Some [num 0, num 0, num 5, num 5]), seg_speaker = None\<rparr>"

definition example_raw :: RawCapture where
  "example_raw = \<lparr>raw_source = example_source, raw_segments = [example_segment], raw_sourceText = ''Hello'',
     raw_extractionEngine = example_engine, raw_createdAt = ''2024-01-01T00:00:00Z'', raw_warnings = None\<rparr>"

definition example_document :: CaptureDocument where
  "example_document = \<lparr>doc_schemaVersion = ''2'', doc_source = example_source, doc_sourceText = ''Hello'',
     doc_targetText = ''Bonjour'',
     doc_blocks = [\<lparr>blk_id = ''b0'', blk_order = num 0, blk_type = ''paragraph'', blk_sourceSegmentId = ''s0'',
       blk_sourceText = ''Hello'', blk_targetText = ''Bonjour'', blk_locator = seg_locator example_segment\<rparr>],
     doc_rawSegments = [example_segment], doc_extractionEngine = example_engine,
     doc_structuringEngine = example_engine, doc_createdAt = ''2024-01-01T00:00:00Z'', doc_warnings = None,
     doc_speakers = None\<rparr>"

lemma example_document_valid: "validateStructuringCandidate example_document example_raw = []"
  by code_simp

theorem dropped_boxes_accepted_witness:
  "validateStructuringCandidate (drop_boxes example_document) example_raw = []
   \<and> doc_rawSegments (drop_boxes example_document) \<noteq> raw_segments example_raw"
  using dropped_boxes_accepted[OF example_document_valid]
  by (simp add: drop_boxes_def example_document_def example_raw_def example_segment_def)

end
