(* ===== verification/Workbench_Tasks.thy ===== *)
theory Workbench_Tasks
  imports Workbench_Documents
begin

text \<open>
  The task list of the workbench: the error helpers of
  \<^verbatim>\<open>packages/capture-workbench-ui/src/lib/capture-client-errors.ts\<close>, the helpers of
  \<^verbatim>\<open>capture-workflow/capture-workbench-store-helpers.ts\<close> and the operations of
  \<^verbatim>\<open>capture-workflow/capture-workflow.service.ts\<close> that act on the task list at once: queueing,
  cancelling, reviewing, confirming, removing, naming speakers and draining the queue. The
  pipeline of one capture is in \<open>Workbench_Capture\<close>.
\<close>

section \<open>Errors\<close>

text \<open>What a \<open>catch\<close> sees of a thrown value: whether it is an \<open>Error\<close>, whether it is a \<open>TypeError\<close>,
  its properties as far as the code reads them, and what \<open>String(error)\<close> gives.\<close>

record thrown =
  th_isError :: bool
  th_isTypeError :: bool
  th_name :: string
  th_code :: json
  th_message :: json
  th_status :: json
  th_string :: string

definition new_Error :: "string \<Rightarrow> thrown" where
  "new_Error m = \<lparr>th_isError = True, th_isTypeError = False, th_name = ''Error'', th_code = JUndef,
                  th_message = JStr m, th_status = JUndef,
                  th_string = (if m = [] then ''Error'' else ''Error: '' @ m)\<rparr>"

definition abort_error :: thrown where
  "abort_error = \<lparr>th_isError = True, th_isTypeError = False, th_name = ''AbortError'', th_code = JNum (num 20),
                  th_message = JStr ''The operation was aborted.'', th_status = JUndef,
                  th_string = ''AbortError: The operation was aborted.''\<rparr>"

text \<open>A thrown string, as a rejected Tauri command throws one.\<close>

definition thrown_string :: "string \<Rightarrow> thrown" where
  "thrown_string m = \<lparr>th_isError = False, th_isTypeError = False, th_name = [], th_code = JUndef,
                      th_message = JUndef, th_status = JUndef, th_string = m\<rparr>"

definition redactSensitiveMessage :: "string \<Rightarrow> string" where
  "redactSensitiveMessage m = redact_secret (redact_bearer m)"

definition errorMessage :: "thrown \<Rightarrow> string \<Rightarrow> string" where
  "errorMessage e fallback =
     (case th_message e of
        JStr m \<Rightarrow> if th_isError e \<and> m \<noteq> [] then redactSensitiveMessage m else fallback
      | _ \<Rightarrow> fallback)"

definition isAbortError :: "thrown \<Rightarrow> bool" where
  "isAbortError e = (th_isError e \<and> th_name e = ''AbortError'')"

definition isUncertainResponseFailure :: "thrown \<Rightarrow> bool" where
  "isUncertainResponseFailure e =
     (if isAbortError e then False
      else if th_code e = JStr ''invalid_response'' then True
      else (case th_status e of
              JNum n \<Rightarrow> js_num_eq n (num 0) \<or> js_le (num 500) n
            | _ \<Rightarrow> th_isTypeError e))"

record CaptureFailure =
  fl_code :: string
  fl_message :: string
  fl_stage :: "string option"
  fl_retryable :: "bool option"

definition redactFailure :: "CaptureFailure \<Rightarrow> CaptureFailure" where
  "redactFailure f = f\<lparr>fl_code := redactSensitiveMessage (fl_code f),
                       fl_message := redactSensitiveMessage (fl_message f)\<rparr>"

definition failureFrom :: "thrown \<Rightarrow> string \<Rightarrow> string \<Rightarrow> CaptureFailure" where
  "failureFrom e stage fallback =
     \<lparr>fl_code = (case th_code e of JStr c \<Rightarrow> redactSensitiveMessage c | _ \<Rightarrow> ''capture_failed''),
      fl_message = (case th_message e of JStr m \<Rightarrow> redactSensitiveMessage m | _ \<Rightarrow> fallback),
      fl_stage = Some stage, fl_retryable = None\<rparr>"

definition HOST_PROVIDER_FAILURE_CODE :: string where
  "HOST_PROVIDER_FAILURE_CODE = ''host_provider_failed''"

definition HOST_RECONCILIATION_FAILURE_CODE :: string where
  "HOST_RECONCILIATION_FAILURE_CODE = ''host_reconciliation_unavailable''"

definition unconfirmed_message :: string where
  "unconfirmed_message = ''Host structuring failed and the runtime terminal state could not be confirmed.''"

definition hostReconciliationFailure :: "thrown \<Rightarrow> CaptureFailure" where
  "hostReconciliationFailure e =
     \<lparr>fl_code = HOST_RECONCILIATION_FAILURE_CODE, fl_message = errorMessage e unconfirmed_message,
      fl_stage = Some ''structuring'', fl_retryable = Some True\<rparr>"

definition normalizeHostFailureMessage :: "string \<Rightarrow> string" where
  "normalizeHostFailureMessage m =
     take 500 (str_or (js_trim (redactSensitiveMessage m)) ''Host structuring failed.'')"

section \<open>Progress, stages and operations\<close>

definition js_min :: "jnum \<Rightarrow> jnum \<Rightarrow> jnum" where
  "js_min a b = (if a = NaN \<or> b = NaN then NaN else if js_lt b a then b else a)"

definition js_max :: "jnum \<Rightarrow> jnum \<Rightarrow> jnum" where
  "js_max a b = (if a = NaN \<or> b = NaN then NaN else if js_lt a b then b else a)"

fun js_scale :: "rat \<Rightarrow> jnum \<Rightarrow> jnum" where
  "js_scale k (Fin q) = Fin (k * q)"
| "js_scale k PosInf = (if 0 < k then PosInf else if k < 0 then NegInf else NaN)"
| "js_scale k NegInf = (if 0 < k then NegInf else if k < 0 then PosInf else NaN)"
| "js_scale k NaN = NaN"

fun js_offset :: "rat \<Rightarrow> jnum \<Rightarrow> jnum" where
  "js_offset k (Fin q) = Fin (k + q)"
| "js_offset k n = n"

definition clampProgress :: "jnum \<Rightarrow> jnum" where
  "clampProgress p = js_max (num 0) (js_min (num 100) p)"

definition runtimeProgressPercent :: "jnum \<Rightarrow> jnum" where
  "runtimeProgressPercent p = clampProgress (if js_le p (num 1) then js_scale 100 p else p)"

record CaptureOperation =
  op_captureId :: string
  op_status :: string
  op_lastEventSequence :: jnum
  op_progress :: "jnum option"
  op_error :: "CaptureFailure option"

record CaptureEvent =
  ev_eventType :: string
  ev_stage :: string

definition isTerminalStreamingOperation :: "CaptureOperation \<Rightarrow> bool" where
  "isTerminalStreamingOperation x = (op_status x \<in> {''completed'', ''failed'', ''cancelled''})"

definition isTerminalStreamingEvent :: "CaptureEvent \<Rightarrow> bool" where
  "isTerminalStreamingEvent e = (ev_eventType e \<in> {''completed'', ''failed'', ''cancelled''})"

definition isAwaitingHostStructuring :: "CaptureOperation \<Rightarrow> bool" where
  "isAwaitingHostStructuring x = (op_status x = ''awaiting_structuring'')"

definition isResyncRequiredEvent :: "CaptureEvent \<Rightarrow> bool" where
  "isResyncRequiredEvent e = (ev_eventType e = ''resync_required'')"

definition streamingStage :: "string \<Rightarrow> string" where
  "streamingStage stage =
     (if stage \<in> {''queued'', ''extracting'', ''loading-model'', ''transcribing'', ''identifying-speakers'',
                   ''awaiting_structuring'', ''structuring'', ''completed'', ''failed'', ''cancelled''}
      then stage else ''preprocessing'')"

record PartialCapture =
  pt_source :: CaptureSource
  pt_segments :: "RawSegment list option"
  pt_sourceText :: "string option"
  pt_extractionEngine :: "CaptureEngine option"
  pt_updatedAt :: string

text \<open>An empty list of segments is truthy, an empty text is not.\<close>

definition partialCaptureToRaw :: "PartialCapture \<Rightarrow> thrown + RawCapture" where
  "partialCaptureToRaw p =
     (case (pt_segments p, pt_sourceText p, pt_extractionEngine p) of
        (Some gs, Some t, Some e) \<Rightarrow>
          if t = [] then Inl (new_Error ''Streaming partial capture is not complete enough to structure.'')
          else Inr \<lparr>raw_source = pt_source p, raw_segments = gs, raw_sourceText = t,
                    raw_extractionEngine = e, raw_createdAt = pt_updatedAt p, raw_warnings = None\<rparr>
      | _ \<Rightarrow> Inl (new_Error ''Streaming partial capture is not complete enough to structure.''))"

section \<open>Reviews\<close>

record ReviewEdit =
  ed_segmentId :: string
  ed_reviewedText :: string

record CaptureReview =
  rv_version :: int
  rv_edits :: "ReviewEdit list option"

fun review_issues :: "RawSegment list \<Rightarrow> string list \<Rightarrow> ReviewEdit list \<Rightarrow> string list" where
  "review_issues gs seen [] = []"
| "review_issues gs seen (e # es) =
     (if ed_segmentId e \<in> set seen
      then (''duplicate segmentId '' @ ed_segmentId e) # review_issues gs seen es
      else (if list_all (\<lambda>g. seg_id g \<noteq> ed_segmentId e) gs
            then [''unknown segmentId '' @ ed_segmentId e]
            else issue (blank (ed_reviewedText e))
                   (''reviewedText for '' @ ed_segmentId e @ '' must not be empty''))
           @ review_issues gs (ed_segmentId e # seen) es)"

definition validateCaptureReview :: "RawCapture \<Rightarrow> CaptureReview \<Rightarrow> string list" where
  "validateCaptureReview raw review =
     (if rv_version review \<noteq> 1 then [''reviewVersion must be 1'']
      else review_issues (raw_segments raw) [] (option_or (rv_edits review) []))"

definition empty_review :: CaptureReview where
  "empty_review = \<lparr>rv_version = 1, rv_edits = Some []\<rparr>"

text \<open>\<open>fileName.replace(/\.[^.]+$/, '')\<close>; in that class a line feed is an ordinary character.\<close>

definition withoutExtension :: "string \<Rightarrow> string" where
  "withoutExtension name =
     (let e = takeWhile (\<lambda>c. c \<noteq> CHR ''.'') (rev name); r = dropWhile (\<lambda>c. c \<noteq> CHR ''.'') (rev name)
      in if e = [] \<or> r = [] then name else rev (tl r))"

section \<open>Tasks\<close>

datatype task_status =
  Queued | Processing | Awaiting_confirmation | Reconciliation_required | Completed | Failed | Canceled

record CaptureTaskView =
  tk_id :: string
  tk_captureId :: "string option"
  tk_fileName :: string
  tk_sourceKind :: file_kind
  tk_status :: task_status
  tk_stage :: "string option"
  tk_progress :: jnum
  tk_result :: "CaptureDocument option"
  tk_raw :: "RawCapture option"
  tk_review :: "CaptureReview option"
  tk_error :: "CaptureFailure option"

definition isTerminalTask :: "CaptureTaskView \<Rightarrow> bool" where
  "isTerminalTask t = (tk_status t = Completed \<or> tk_status t = Failed \<or> tk_status t = Canceled)"

text \<open>A \<open>Partial<CaptureTaskView>\<close> of the code: the fields it assigns, in order. None of the code's
  patches assigns the id, the file name or the kind.\<close>

datatype assignment =
    SetStatus task_status
  | SetStage "string option"
  | SetProgress jnum
  | SetCaptureId "string option"
  | SetResult "CaptureDocument option"
  | SetRaw "RawCapture option"
  | SetReview "CaptureReview option"
  | SetError "CaptureFailure option"

type_synonym patch = "assignment list"

fun assign :: "assignment \<Rightarrow> CaptureTaskView \<Rightarrow> CaptureTaskView" where
  "assign (SetStatus x) t = t\<lparr>tk_status := x\<rparr>"
| "assign (SetStage x) t = t\<lparr>tk_stage := x\<rparr>"
| "assign (SetProgress x) t = t\<lparr>tk_progress := x\<rparr>"
| "assign (SetCaptureId x) t = t\<lparr>tk_captureId := x\<rparr>"
| "assign (SetResult x) t = t\<lparr>tk_result := x\<rparr>"
| "assign (SetRaw x) t = t\<lparr>tk_raw := x\<rparr>"
| "assign (SetReview x) t = t\<lparr>tk_review := x\<rparr>"
| "assign (SetError x) t = t\<lparr>tk_error := x\<rparr>"

definition apply_patch :: "patch \<Rightarrow> CaptureTaskView \<Rightarrow> CaptureTaskView" where
  "apply_patch p t = foldl (\<lambda>t a. assign a t) t p"

section \<open>The state of the workflow\<close>

record host_file =
  file_name :: string
  file_type :: string
  file_data :: "nat list"

record InternalCaptureTask =
  in_file :: host_file
  in_clientRequestId :: string

datatype store_event =
    ReviewRequired CaptureTaskView
  | CompletedEvent string CaptureDocument "CaptureReview option"
  | FailedEvent string "string option" string CaptureFailure "RawCapture option"
  | CanceledEvent CaptureTaskView
  | SpeakersNamed string CaptureDocument
  | TaskChanged CaptureTaskView

text \<open>Calls whose answer nobody waits for, and the deletion a removal waits for.\<close>

datatype side_call = CancelCapture string | DeleteCapture string string | CancelReconciliation string

record CaptureConfig =
  cfg_enabledSources :: "source_kind list"
  cfg_structuringMode :: string
  cfg_hostStructuringOwner :: string
  cfg_multiple :: bool
  cfg_concurrency :: jnum
  cfg_reviewBeforeCommit :: bool
  cfg_identifySpeakers :: bool
  cfg_targetLanguage :: "string option"
  cfg_spokenLanguage :: "string option"

text \<open>The context of the workflow: the configuration and which collaborators there are.\<close>

record workflow_context =
  cx_config :: CaptureConfig
  cx_hasClient :: bool
  cx_streaming :: bool
  cx_hasProvider :: bool

text \<open>
  The fields of the service. An abort controller is the fact that it was aborted; a review
  subject is open while its task is in \<open>wf_reviewSubjects\<close>; \<open>wf_uuids\<close> counts the identifiers
  drawn so far. \<open>wf_events\<close> and \<open>wf_calls\<close> list what was emitted and called, oldest first.
  \<open>wf_active\<close> is no field of the service: it lists the pipelines that were subscribed and have
  not finished.
\<close>

record 'w workflow =
  wf_tasks :: "CaptureTaskView list"
  wf_internal :: "string \<rightharpoonup> InternalCaptureTask"
  wf_speakerSources :: "string \<rightharpoonup> host_file"
  wf_captureIds :: "string \<rightharpoonup> string"
  wf_subscriptions :: "string list"
  wf_reviewSubjects :: "string list"
  wf_aborted :: "string list"
  wf_running :: nat
  wf_active :: "string list"
  wf_uuids :: nat
  wf_events :: "store_event list"
  wf_calls :: "side_call list"
  wf_world :: 'w

definition find_task :: "string \<Rightarrow> 'w workflow \<Rightarrow> CaptureTaskView option" where
  "find_task i s = List.find (\<lambda>t. tk_id t = i) (wf_tasks s)"

definition emit :: "store_event \<Rightarrow> 'w workflow \<Rightarrow> 'w workflow" where
  "emit e s = s\<lparr>wf_events := wf_events s @ [e]\<rparr>"

text \<open>\<open>updated\<close> is the last task the map rewrote.\<close>

definition updated_task :: "string \<Rightarrow> patch \<Rightarrow> 'w workflow \<Rightarrow> CaptureTaskView option" where
  "updated_task i p s = map_option (apply_patch p) (List.find (\<lambda>t. tk_id t = i) (rev (wf_tasks s)))"

definition updateTask :: "string \<Rightarrow> patch \<Rightarrow> 'w workflow \<Rightarrow> CaptureTaskView option \<times> 'w workflow" where
  "updateTask i p s =
     (let s' = s\<lparr>wf_tasks := map (\<lambda>t. if tk_id t \<noteq> i then t else apply_patch p t) (wf_tasks s)\<rparr>
      in case updated_task i p s of
           None \<Rightarrow> (None, s')
         | Some t \<Rightarrow> (Some t, emit (TaskChanged t) s'))"

definition patch_task :: "string \<Rightarrow> patch \<Rightarrow> 'w workflow \<Rightarrow> 'w workflow" where
  "patch_task i p s = snd (updateTask i p s)"

definition failTask ::
  "string \<Rightarrow> string \<Rightarrow> CaptureFailure \<Rightarrow> RawCapture option \<Rightarrow> string option \<Rightarrow> 'w workflow \<Rightarrow> 'w workflow" where
  "failTask i fileName error raw stage s =
     (let safeError = redactFailure error;
          u = updateTask i ([SetStatus Failed] @ (case stage of None \<Rightarrow> [] | Some x \<Rightarrow> [SetStage (Some x)])
                            @ [SetError (Some safeError), SetRaw raw]) s
      in emit (FailedEvent i (Option.bind (fst u) tk_captureId) fileName safeError raw) (snd u))"

definition requireReconciliation ::
  "string \<Rightarrow> CaptureFailure \<Rightarrow> RawCapture option \<Rightarrow> 'w workflow \<Rightarrow> 'w workflow" where
  "requireReconciliation i error raw s =
     patch_task i [SetStatus Reconciliation_required, SetError (Some (redactFailure error)), SetRaw raw] s"

text \<open>The patch of a task and the event that follows it when there was such a task.\<close>

definition patch_and_emit ::
  "string \<Rightarrow> patch \<Rightarrow> (CaptureTaskView \<Rightarrow> store_event) \<Rightarrow> 'w workflow \<Rightarrow> 'w workflow" where
  "patch_and_emit i p ev s =
     (let u = updateTask i p s in case fst u of None \<Rightarrow> snd u | Some t \<Rightarrow> emit (ev t) (snd u))"

definition cancel_patch :: patch where
  "cancel_patch = [SetStatus Canceled, SetStage (Some ''cancelled'')]"

section \<open>Queue\<close>

text \<open>The reasons for which \<open>processTask\<close> fails a task before its pipeline starts.\<close>

definition precheck :: "workflow_context \<Rightarrow> string \<Rightarrow> 'w workflow \<Rightarrow> CaptureFailure option" where
  "precheck cx i s =
     (let config = cx_config cx; host = cfg_structuringMode config = ''host'';
          failure = (\<lambda>code message stage. Some \<lparr>fl_code = code, fl_message = message,
                       fl_stage = Some stage, fl_retryable = None\<rparr>)
      in if wf_internal s i = None \<or> find_task i s = None \<or> \<not> cx_hasClient cx
         then failure ''client_not_configured'' ''Capture client is not configured.'' ''runtime''
         else if cfg_reviewBeforeCommit config \<and> \<not> host
         then failure ''review_requires_host_structuring'' ''OCR review requires host structuring mode.'' ''structuring''
         else if host \<and> cfg_hostStructuringOwner config = ''component'' \<and> \<not> cx_hasProvider cx
         then failure ''structuring_provider_not_configured'' ''Host structuring provider is not configured.'' ''structuring''
         else if \<not> cx_streaming cx
         then failure ''streaming_client_unavailable'' ''The capture client does not support streaming capture.'' ''runtime''
         else None)"

definition keepSpeakerSource :: "string \<Rightarrow> 'w workflow \<Rightarrow> 'w workflow" where
  "keepSpeakerSource i s =
     (case (wf_internal s i, Option.bind (find_task i s) tk_result) of
        (Some n, Some d) \<Rightarrow>
          if option_or (doc_speakers d) [] \<noteq> []
          then s\<lparr>wf_speakerSources := (wf_speakerSources s)(i \<mapsto> in_file n)\<rparr> else s
      | _ \<Rightarrow> s)"

text \<open>The \<open>finalize\<close> callback up to its call of \<open>drainQueue\<close>.\<close>

definition release_task :: "string \<Rightarrow> 'w workflow \<Rightarrow> 'w workflow" where
  "release_task i s =
     (let s1 = keepSpeakerSource i (s\<lparr>wf_running := wf_running s - 1, wf_active := remove1 i (wf_active s)\<rparr>)
      in s1\<lparr>wf_internal := (wf_internal s1)(i := None),
            wf_subscriptions := filter (\<lambda>j. j \<noteq> i) (wf_subscriptions s1)\<rparr>)"

definition subscribe_task :: "string \<Rightarrow> 'w workflow \<Rightarrow> 'w workflow" where
  "subscribe_task i s = s\<lparr>wf_subscriptions := filter (\<lambda>j. j \<noteq> i) (wf_subscriptions s) @ [i]\<rparr>"

definition take_task :: "string \<Rightarrow> 'w workflow \<Rightarrow> 'w workflow" where
  "take_task i s =
     patch_task i [SetStatus Processing, SetStage (Some ''uploading''), SetProgress (num 1)]
       (s\<lparr>wf_running := wf_running s + 1, wf_active := i # wf_active s\<rparr>)"

definition next_queued :: "'w workflow \<Rightarrow> CaptureTaskView option" where
  "next_queued s = List.find (\<lambda>t. tk_status t = Queued) (wf_tasks s)"

definition queued_count :: "'w workflow \<Rightarrow> nat" where
  "queued_count s = length (filter (\<lambda>t. tk_status t = Queued) (wf_tasks s))"

definition unknown_file :: "string \<Rightarrow> 'w workflow \<Rightarrow> string" where
  "unknown_file i s = (case find_task i s of None \<Rightarrow> ''Unknown file'' | Some t \<Rightarrow> tk_fileName t)"

text \<open>How the operations act on the list of tasks.\<close>

definition patched :: "string \<Rightarrow> patch \<Rightarrow> CaptureTaskView list \<Rightarrow> CaptureTaskView list" where
  "patched i p ts = map (\<lambda>t. if tk_id t \<noteq> i then t else apply_patch p t) ts"

lemma apply_patch_simps [simp]:
  "apply_patch [] t = t" "apply_patch (a # p) t = apply_patch p (assign a t)"
  by (simp_all add: apply_patch_def)

lemma apply_patch_append [simp]: "apply_patch (p @ q) t = apply_patch q (apply_patch p t)"
  by (simp add: apply_patch_def)

lemma assign_frame [simp]:
  "tk_id (assign a t) = tk_id t" "tk_fileName (assign a t) = tk_fileName t"
  "tk_sourceKind (assign a t) = tk_sourceKind t"
  by (cases a; simp)+

lemma apply_patch_frame [simp]:
  "tk_id (apply_patch p t) = tk_id t" "tk_fileName (apply_patch p t) = tk_fileName t"
  "tk_sourceKind (apply_patch p t) = tk_sourceKind t"
  by (induction p arbitrary: t) simp_all

lemma ids_patched [simp]: "map tk_id (patched i p ts) = map tk_id ts"
  by (simp add: patched_def)

lemma emit_simps [simp]:
  "wf_tasks (emit e s) = wf_tasks s" "wf_internal (emit e s) = wf_internal s"
  "wf_running (emit e s) = wf_running s" "wf_active (emit e s) = wf_active s"
  "wf_uuids (emit e s) = wf_uuids s" "wf_captureIds (emit e s) = wf_captureIds s"
  "wf_reviewSubjects (emit e s) = wf_reviewSubjects s" "wf_aborted (emit e s) = wf_aborted s"
  "wf_calls (emit e s) = wf_calls s" "wf_world (emit e s) = wf_world s"
  "wf_subscriptions (emit e s) = wf_subscriptions s" "wf_speakerSources (emit e s) = wf_speakerSources s"
  "wf_events (emit e s) = wf_events s @ [e]"
  by (simp_all add: emit_def)

lemma patch_task_simps [simp]:
  "wf_tasks (patch_task i p s) = patched i p (wf_tasks s)"
  "wf_internal (patch_task i p s) = wf_internal s"
  "wf_running (patch_task i p s) = wf_running s" "wf_active (patch_task i p s) = wf_active s"
  "wf_uuids (patch_task i p s) = wf_uuids s" "wf_captureIds (patch_task i p s) = wf_captureIds s"
  "wf_reviewSubjects (patch_task i p s) = wf_reviewSubjects s"
  "wf_aborted (patch_task i p s) = wf_aborted s" "wf_calls (patch_task i p s) = wf_calls s"
  "wf_world (patch_task i p s) = wf_world s" "wf_subscriptions (patch_task i p s) = wf_subscriptions s"
  by (simp_all add: patch_task_def updateTask_def patched_def Let_def split: option.splits)

lemma updateTask_snd [simp]: "snd (updateTask i p s) = patch_task i p s"
  by (simp add: patch_task_def)

lemma failTask_simps [simp]:
  "wf_internal (failTask i f e raw stage s) = wf_internal s"
  "wf_running (failTask i f e raw stage s) = wf_running s"
  "wf_active (failTask i f e raw stage s) = wf_active s"
  "wf_uuids (failTask i f e raw stage s) = wf_uuids s"
  by (simp_all add: failTask_def Let_def)

lemma release_task_simps [simp]:
  "wf_tasks (release_task i s) = wf_tasks s" "wf_uuids (release_task i s) = wf_uuids s"
  "wf_running (release_task i s) = wf_running s - 1"
  "wf_active (release_task i s) = remove1 i (wf_active s)"
  "wf_internal (release_task i s) = (wf_internal s)(i := None)"
  by (auto simp: release_task_def keepSpeakerSource_def Let_def split: option.splits)

lemma subscribe_task_simps [simp]:
  "wf_tasks (subscribe_task i s) = wf_tasks s" "wf_uuids (subscribe_task i s) = wf_uuids s"
  "wf_running (subscribe_task i s) = wf_running s" "wf_active (subscribe_task i s) = wf_active s"
  "wf_internal (subscribe_task i s) = wf_internal s"
  by (simp_all add: subscribe_task_def)

text \<open>A patch that does not queue its task leaves no more tasks queued than there were.\<close>

definition requeues :: "patch \<Rightarrow> bool" where
  "requeues p = (SetStatus Queued \<in> set p)"

lemma assign_not_queued: "a \<noteq> SetStatus Queued \<Longrightarrow> tk_status t \<noteq> Queued \<Longrightarrow> tk_status (assign a t) \<noteq> Queued"
  by (cases a) auto

lemma apply_patch_not_queued:
  "\<not> requeues p \<Longrightarrow> tk_status (apply_patch p t) = Queued \<Longrightarrow> tk_status t = Queued"
  by (induction p arbitrary: t) (auto simp: requeues_def, metis assign_not_queued)

lemma queued_patched:
  "\<not> requeues p \<Longrightarrow>
   length (filter (\<lambda>t. tk_status t = Queued) (patched i p ts)) \<le> length (filter (\<lambda>t. tk_status t = Queued) ts)"
  by (induction ts) (auto simp: patched_def dest: apply_patch_not_queued)

lemma failTask_tasks:
  "\<exists>p. \<not> requeues p \<and> wf_tasks (failTask i f e raw stage s) = patched i p (wf_tasks s)"
  unfolding failTask_def Let_def
  by (intro exI[of _ "[SetStatus Failed] @ (case stage of None \<Rightarrow> [] | Some x \<Rightarrow> [SetStage (Some x)])
        @ [SetError (Some (redactFailure e)), SetRaw raw]"])
    (auto simp: requeues_def split: option.splits)

lemma queued_failTask: "queued_count (failTask i f e raw stage s) \<le> queued_count s"
  using failTask_tasks[of i f e raw stage s] by (auto simp: queued_count_def intro: queued_patched)

lemma queued_take_task: "next_queued s = Some t \<Longrightarrow> queued_count (take_task (tk_id t) s) < queued_count s"
proof -
  assume "next_queued s = Some t"
  then have t: "t \<in> set (wf_tasks s)" "tk_status t = Queued"
    by (auto simp: next_queued_def dest: find_Some_iff_mem)
  have "length (filter (\<lambda>t. tk_status t = Queued)
          (patched (tk_id t) [SetStatus Processing, SetStage (Some ''uploading''), SetProgress (num 1)] ts))
        < length (filter (\<lambda>t. tk_status t = Queued) ts)" if "t \<in> set ts" for ts
    using that
  proof (induction ts)
    case (Cons x xs)
    have "length (filter (\<lambda>t. tk_status t = Queued)
          (patched (tk_id t) [SetStatus Processing, SetStage (Some ''uploading''), SetProgress (num 1)] xs))
        \<le> length (filter (\<lambda>t. tk_status t = Queued) xs)"
      by (rule queued_patched) (simp add: requeues_def)
    with Cons t(2) show ?case by (auto simp: patched_def)
  qed simp
  with t(1) show ?thesis by (simp add: queued_count_def take_task_def)
qed

lemma queued_started: "next_queued s = Some t \<Longrightarrow> queued_count (subscribe_task i (take_task (tk_id t) s)) < queued_count s"
  using queued_take_task[of s t] by (simp add: queued_count_def)

lemma queued_rejected:
  "next_queued s = Some t \<Longrightarrow>
   queued_count (release_task i (failTask j n f None None (take_task (tk_id t) s))) < queued_count s"
  using queued_take_task[of s t] queued_failTask[of j n f None None "take_task (tk_id t) s"]
  by (simp add: queued_count_def)

text \<open>
  \<open>drainQueue\<close>. A task that fails its checks finishes inside \<open>subscribe\<close>: its \<open>finalize\<close>
  callback drains the queue before the outer loop stores the subscription; the outer loop then
  finds nothing left to start.
\<close>

function drainQueue :: "workflow_context \<Rightarrow> 'w workflow \<Rightarrow> 'w workflow" where
  "drainQueue cx s =
     (if js_lt (num (int (wf_running s))) (cfg_concurrency (cx_config cx)) then
        (case next_queued s of
           None \<Rightarrow> s
         | Some t \<Rightarrow>
             (let i = tk_id t; s1 = take_task i s
              in case precheck cx i s1 of
                   Some f \<Rightarrow> subscribe_task i (drainQueue cx (release_task i
                               (failTask i (unknown_file i s1) f None None s1)))
                 | None \<Rightarrow> drainQueue cx (subscribe_task i s1)))
      else s)"
  by pat_completeness auto
termination
  by (relation "measure (\<lambda>(_, s). queued_count s)")
    (auto simp: queued_started queued_rejected)

declare drainQueue.simps [simp del]

section \<open>Operations\<close>

definition enabled_kind :: "workflow_context \<Rightarrow> file_kind \<Rightarrow> bool" where
  "enabled_kind cx k = (case k of Kind x \<Rightarrow> x \<in> set (cfg_enabledSources (cx_config cx)) | _ \<Rightarrow> False)"

definition addRejectedTask :: "(nat \<Rightarrow> string) \<Rightarrow> host_file \<Rightarrow> file_kind \<Rightarrow> 'w workflow \<Rightarrow> 'w workflow" where
  "addRejectedTask uuid f k s =
     (let i = uuid (wf_uuids s);
          error = \<lparr>fl_code = ''unsupported_source'', fl_message = ''Unsupported capture source: '' @ file_name f,
                   fl_stage = Some ''input'', fl_retryable = None\<rparr>;
          task = \<lparr>tk_id = i, tk_captureId = None, tk_fileName = file_name f, tk_sourceKind = k,
                  tk_status = Failed, tk_stage = None, tk_progress = num 0, tk_result = None,
                  tk_raw = None, tk_review = None, tk_error = Some error\<rparr>
      in emit (FailedEvent i None (file_name f) error None)
           (emit (TaskChanged task) (s\<lparr>wf_uuids := wf_uuids s + 1, wf_tasks := wf_tasks s @ [task]\<rparr>)))"

definition addQueuedTask :: "(nat \<Rightarrow> string) \<Rightarrow> host_file \<Rightarrow> file_kind \<Rightarrow> 'w workflow \<Rightarrow> 'w workflow" where
  "addQueuedTask uuid f k s =
     (let i = uuid (wf_uuids s);
          task = \<lparr>tk_id = i, tk_captureId = None, tk_fileName = file_name f, tk_sourceKind = k,
                  tk_status = Queued, tk_stage = Some ''queued'', tk_progress = num 0, tk_result = None,
                  tk_raw = None, tk_review = None, tk_error = None\<rparr>
      in emit (TaskChanged task)
           (s\<lparr>wf_uuids := wf_uuids s + 2,
              wf_internal := (wf_internal s)(i \<mapsto> \<lparr>in_file = f, in_clientRequestId = uuid (wf_uuids s + 1)\<rparr>),
              wf_tasks := wf_tasks s @ [task]\<rparr>))"

definition enqueue_file :: "workflow_context \<Rightarrow> (nat \<Rightarrow> string) \<Rightarrow> 'w workflow \<Rightarrow> host_file \<Rightarrow> 'w workflow" where
  "enqueue_file cx uuid s f =
     (let k = classifyCaptureFile (file_name f)
      in if \<not> enabled_kind cx k then addRejectedTask uuid f (if k = NoKind then Kind Pdf else k) s
         else addQueuedTask uuid f k s)"

definition enqueueFiles ::
  "workflow_context \<Rightarrow> (nat \<Rightarrow> string) \<Rightarrow> host_file list \<Rightarrow> 'w workflow \<Rightarrow> 'w workflow" where
  "enqueueFiles cx uuid fs s =
     drainQueue cx (foldl (enqueue_file cx uuid) s (if cfg_multiple (cx_config cx) then fs else take 1 fs))"

definition call :: "side_call \<Rightarrow> 'w workflow \<Rightarrow> 'w workflow" where
  "call c s = s\<lparr>wf_calls := wf_calls s @ [c]\<rparr>"

text \<open>A pipeline has finished: the whole \<open>finalize\<close> callback.\<close>

definition finalize_task :: "workflow_context \<Rightarrow> string \<Rightarrow> 'w workflow \<Rightarrow> 'w workflow" where
  "finalize_task cx i s = drainQueue cx (release_task i s)"

text \<open>
  \<open>cancel\<close>. Aborting the controller and completing the review subject run their listeners at
  once; \<open>unwinds\<close> says whether the pipeline finishes inside them.
\<close>

definition cancel :: "workflow_context \<Rightarrow> bool \<Rightarrow> string \<Rightarrow> 'w workflow \<Rightarrow> 'w workflow" where
  "cancel cx unwinds i s =
     (case find_task i s of
        None \<Rightarrow> s
      | Some current \<Rightarrow>
          if isTerminalTask current then s
          else if tk_status current = Reconciliation_required then call (CancelReconciliation i) s
          else if wf_internal s i = None then s
          else (let s0 = s\<lparr>wf_aborted := i # wf_aborted s,
                           wf_reviewSubjects := filter (\<lambda>j. j \<noteq> i) (wf_reviewSubjects s)\<rparr>;
                    s1 = (if unwinds \<and> i \<in> set (wf_active s0) then finalize_task cx i s0 else s0);
                    s2 = (case wf_captureIds s1 i of
                            Some c \<Rightarrow> if c \<noteq> [] \<and> cx_hasClient cx \<and> cx_streaming cx then call (CancelCapture c) s1 else s1
                          | None \<Rightarrow> s1);
                    s3 = patch_and_emit i cancel_patch CanceledEvent s2
                in if tk_status current = Queued
                   then drainQueue cx (s3\<lparr>wf_internal := (wf_internal s3)(i := None)\<rparr>) else s3))"

definition updateReview :: "string \<Rightarrow> string \<Rightarrow> string \<Rightarrow> 'w workflow \<Rightarrow> 'w workflow" where
  "updateReview i segmentId reviewedText s =
     (case find_task i s of
        None \<Rightarrow> s
      | Some task \<Rightarrow>
          (case tk_raw task of
             None \<Rightarrow> s
           | Some raw \<Rightarrow>
               if tk_status task \<noteq> Awaiting_confirmation then s
               else (case List.find (\<lambda>g. seg_id g = segmentId) (raw_segments raw) of
                       None \<Rightarrow> s
                     | Some original \<Rightarrow>
                         (let current = option_or (tk_review task) empty_review;
                              edits = filter (\<lambda>e. ed_segmentId e \<noteq> segmentId) (option_or (rv_edits current) [])
                                @ (if reviewedText \<noteq> seg_text original
                                   then [\<lparr>ed_segmentId = segmentId, ed_reviewedText = reviewedText\<rparr>] else [])
                          in patch_task i [SetReview (Some \<lparr>rv_version = 1, rv_edits = Some edits\<rparr>),
                                           SetError None] s))))"

text \<open>\<open>confirm\<close> returns the review it hands to the waiting pipeline, if it does.\<close>

definition confirm :: "string \<Rightarrow> 'w workflow \<Rightarrow> CaptureReview option \<times> 'w workflow" where
  "confirm i s =
     (case find_task i s of
        None \<Rightarrow> (None, s)
      | Some task \<Rightarrow>
          (case tk_raw task of
             None \<Rightarrow> (None, s)
           | Some raw \<Rightarrow>
               if tk_status task \<noteq> Awaiting_confirmation then (None, s)
               else (let review = option_or (tk_review task) empty_review;
                         issues = validateCaptureReview raw review
                     in if issues \<noteq> []
                        then (None, patch_task i [SetError (Some \<lparr>fl_code = ''invalid_review'',
                                fl_message = join ''; '' issues, fl_stage = Some ''structuring'',
                                fl_retryable = None\<rparr>)] s)
                        else if i \<notin> set (wf_reviewSubjects s) then (None, s)
                        else (Some review,
                              (patch_task i [SetStatus Processing, SetStage (Some ''structuring''),
                                  SetProgress (js_max (num 72) (tk_progress task)), SetError None] s)
                              \<lparr>wf_reviewSubjects := filter (\<lambda>j. j \<noteq> i) (wf_reviewSubjects s)\<rparr>))))"

definition removeTask :: "string \<Rightarrow> 'w workflow \<Rightarrow> 'w workflow" where
  "removeTask i s =
     s\<lparr>wf_tasks := filter (\<lambda>t. tk_id t \<noteq> i) (wf_tasks s), wf_internal := (wf_internal s)(i := None),
       wf_speakerSources := (wf_speakerSources s)(i := None), wf_captureIds := (wf_captureIds s)(i := None)\<rparr>"

definition remove :: "workflow_context \<Rightarrow> string \<Rightarrow> 'w workflow \<Rightarrow> 'w workflow" where
  "remove cx i s =
     (case find_task i s of
        None \<Rightarrow> s
      | Some task \<Rightarrow>
          if \<not> isTerminalTask task then s
          else (case tk_captureId task of
                  Some c \<Rightarrow> if c \<noteq> [] \<and> cx_hasClient cx \<and> cx_streaming cx then call (DeleteCapture i c) s
                            else removeTask i s
                | None \<Rightarrow> removeTask i s))"

text \<open>The answer of the deletion. The \<open>catchError\<close> of a failed deletion returns \<open>EMPTY\<close>, which
  completes, and the completion handler removes the task.\<close>

definition remove_answered :: "string \<Rightarrow> thrown option \<Rightarrow> 'w workflow \<Rightarrow> 'w workflow" where
  "remove_answered i answer s =
     (case answer of
        None \<Rightarrow> removeTask i s
      | Some e \<Rightarrow> removeTask i (patch_task i
                    [SetError (Some (failureFrom e ''runtime'' ''Unable to clear capture data.''))] s))"

definition nameSpeaker :: "string \<Rightarrow> string \<Rightarrow> string \<Rightarrow> 'w workflow \<Rightarrow> 'w workflow" where
  "nameSpeaker i speakerId name s =
     (case Option.bind (find_task i s) tk_result of
        None \<Rightarrow> s
      | Some d \<Rightarrow>
          (let speakers = option_or (doc_speakers d) [];
               displayName = (let n = take 100 (js_trim name) in if n = [] then None else Some n);
               named = d\<lparr>doc_speakers := Some (map (\<lambda>p. if spk_id p = speakerId
                                                          then p\<lparr>spk_displayName := displayName\<rparr> else p) speakers)\<rparr>
           in if list_all (\<lambda>p. spk_id p \<noteq> speakerId) speakers then s
              else emit (SpeakersNamed i named) (patch_task i [SetResult (Some named)] s)))"


end
