(* ===== verification/Workbench_Store.thy ===== *)
theory Workbench_Store
  imports Workbench_Tasks
begin

text \<open>
  \<^verbatim>\<open>packages/capture-workbench-ui/src/lib/capture-workflow/capture-workbench-store.ts\<close>: the
  configuration a host passes and its resolution, which runtime requirements the configuration
  needs, the state of the runtime the workbench shows, and when files may be dropped. The
  handshake itself (\<open>rxResource\<close>) is Angular's; its status, value and error are arguments.
\<close>

section \<open>Configuration\<close>

text \<open>The fields of \<open>CaptureWorkbenchConfig\<close> that steer the workflow; \<open>None\<close> is an absent key.\<close>

record host_config =
  hc_enabledSources :: "source_kind list option"
  hc_structuringMode :: "string option"
  hc_hostStructuringOwner :: "string option"
  hc_multiple :: "bool option"
  hc_concurrency :: "jnum option"
  hc_reviewBeforeCommit :: "bool option"
  hc_identifySpeakers :: "bool option"
  hc_targetLanguage :: "string option"
  hc_spokenLanguage :: "string option"
  hc_hostManagedHandshake :: "bool option"

definition empty_config :: host_config where
  "empty_config =
     \<lparr>hc_enabledSources = None, hc_structuringMode = None, hc_hostStructuringOwner = None,
      hc_multiple = None, hc_concurrency = None, hc_reviewBeforeCommit = None,
      hc_identifySpeakers = None, hc_targetLanguage = None, hc_spokenLanguage = None,
      hc_hostManagedHandshake = None\<rparr>"

fun js_floor :: "jnum \<Rightarrow> jnum" where
  "js_floor (Fin q) = num \<lfloor>q\<rfloor>"
| "js_floor n = n"

definition resolvedConfig :: "host_config \<Rightarrow> CaptureConfig" where
  "resolvedConfig h =
     \<lparr>cfg_enabledSources = option_or (hc_enabledSources h) [Pdf, Image, Audio],
      cfg_structuringMode = option_or (hc_structuringMode h) ''runtime'',
      cfg_hostStructuringOwner = option_or (hc_hostStructuringOwner h) ''component'',
      cfg_multiple = option_or (hc_multiple h) True,
      cfg_concurrency = js_max (num 1) (js_floor (option_or (hc_concurrency h) (num 1))),
      cfg_reviewBeforeCommit = option_or (hc_reviewBeforeCommit h) False,
      cfg_identifySpeakers = option_or (hc_identifySpeakers h) False,
      cfg_targetLanguage = hc_targetLanguage h, cfg_spokenLanguage = hc_spokenLanguage h\<rparr>"

definition integral_limit :: "jnum \<Rightarrow> bool" where
  "integral_limit c \<longleftrightarrow> c = PosInf \<or> c = NaN \<or> (\<exists>k. c = num k)"

lemma resolved_concurrency_integral: "integral_limit (cfg_concurrency (resolvedConfig h))"
  by (cases "option_or (hc_concurrency h) (num 1)")
    (auto simp: resolvedConfig_def integral_limit_def js_max_def num_def)

text \<open>The resolved concurrency is a whole number of captures, at least one, or unlimited; only a
  configuration that passes NaN gives a limit under which nothing ever starts.\<close>

theorem resolved_concurrency:
  "case cfg_concurrency (resolvedConfig h) of
     NaN \<Rightarrow> hc_concurrency h = Some NaN
   | c \<Rightarrow> js_le (num 1) c \<and> js_lt (num 0) c \<and> (c = PosInf \<or> js_isInteger c)"
  by (cases "hc_concurrency h"; cases "the (hc_concurrency h)")
    (auto simp: resolvedConfig_def js_max_def num_def js_le_def)

section \<open>Requirements\<close>

record RuntimeRequirementView =
  req_id :: string
  req_status :: string
  req_optional :: bool

definition requirementIsNeeded :: "CaptureConfig \<Rightarrow> RuntimeRequirementView \<Rightarrow> bool" where
  "requirementIsNeeded c r =
     (let enabled = cfg_enabledSources c
      in if req_id r = ''windowsml-ocr'' then Pdf \<in> set enabled \<or> Image \<in> set enabled
         else if req_id r = ''speech-recognition'' then Audio \<in> set enabled
         else if req_id r = ''speaker-diarization'' then cfg_identifySpeakers c \<and> Audio \<in> set enabled
         else if req_optional r then False
         else cfg_structuringMode c = ''runtime'')"

section \<open>Runtime state\<close>

datatype resource_status = Idle | Loading | Reloading | ErrorStatus | Resolved | Local

record RuntimeHandshake =
  hs_ready :: bool
  hs_requirements :: "RuntimeRequirementView list"

datatype runtime_status =
  RtIdle | RtChecking | RtReady | RtNeedsSetup | RtIncompatible | RtError

record RuntimeViewState =
  rt_status :: runtime_status
  rt_ready :: "bool option"
  rt_requirements :: "RuntimeRequirementView list"
  rt_error :: "string option"

definition view_of :: "runtime_status \<Rightarrow> RuntimeHandshake option \<Rightarrow> string option \<Rightarrow> RuntimeViewState" where
  "view_of st h e =
     \<lparr>rt_status = st, rt_ready = map_option hs_ready h,
      rt_requirements = (case h of None \<Rightarrow> [] | Some x \<Rightarrow> hs_requirements x), rt_error = e\<rparr>"

definition needsSetup :: "CaptureConfig \<Rightarrow> RuntimeHandshake \<Rightarrow> bool" where
  "needsSetup c h = list_ex (\<lambda>r. requirementIsNeeded c r \<and> req_status r \<noteq> ''ready'') (hs_requirements h)"

definition runtime ::
  "CaptureConfig \<Rightarrow> resource_status \<Rightarrow> RuntimeHandshake option \<Rightarrow> thrown \<Rightarrow> string option \<Rightarrow> RuntimeViewState" where
  "runtime c st handshake error installationError =
     (case st of
        Idle \<Rightarrow> view_of RtIdle None None
      | Loading \<Rightarrow> view_of RtChecking handshake None
      | Reloading \<Rightarrow> view_of RtChecking handshake None
      | ErrorStatus \<Rightarrow>
          view_of (if th_isError error \<and> th_name error = ''CaptureCompatibilityError'' then RtIncompatible else RtError)
            None (Some (errorMessage error ''Unable to check the capture runtime.''))
      | _ \<Rightarrow>
          (case handshake of
             None \<Rightarrow> view_of RtIdle None None
           | Some h \<Rightarrow>
               (case installationError of
                  Some m \<Rightarrow> if m \<noteq> [] then view_of RtError handshake (Some m)
                            else view_of (if hs_ready h \<and> \<not> needsSetup c h then RtReady else RtNeedsSetup) handshake None
                | None \<Rightarrow> view_of (if hs_ready h \<and> \<not> needsSetup c h then RtReady else RtNeedsSetup) handshake None)))"

definition requiredRequirements :: "CaptureConfig \<Rightarrow> RuntimeViewState \<Rightarrow> RuntimeRequirementView list" where
  "requiredRequirements c v = filter (requirementIsNeeded c) (rt_requirements v)"

definition installableRequirements :: "CaptureConfig \<Rightarrow> RuntimeViewState \<Rightarrow> RuntimeRequirementView list" where
  "installableRequirements c v = filter (\<lambda>r. req_status r = ''installable'') (requiredRequirements c v)"

definition captureDisabled :: "host_config \<Rightarrow> RuntimeViewState \<Rightarrow> bool" where
  "captureDisabled h v = (\<not> option_or (hc_hostManagedHandshake h) False \<and> rt_status v \<noteq> RtReady)"

text \<open>The guard of \<open>installMissingRequirements\<close>: what it hands to the installer, if it runs.\<close>

definition installMissingRequirements ::
  "CaptureConfig \<Rightarrow> RuntimeViewState \<Rightarrow> RuntimeRequirementView list option" where
  "installMissingRequirements c v =
     (if rt_status v \<noteq> RtNeedsSetup \<or> rt_ready v \<noteq> Some True then None
      else Some (installableRequirements c v))"

definition installableSuggestions ::
  "string list option \<Rightarrow> string list option \<Rightarrow> RuntimeViewState \<Rightarrow> RuntimeRequirementView list" where
  "installableSuggestions fromResult fromRaw v =
     (let suggested = option_or fromResult (option_or fromRaw [])
      in filter (\<lambda>r. req_id r \<in> set suggested \<and> req_status r = ''installable'') (rt_requirements v))"

text \<open>Files may be dropped exactly when the host took over the handshake or the last handshake
  settled with a ready runtime, no installation error, and every requirement the configuration
  needs ready.\<close>

theorem captureDisabled_iff:
  "\<not> captureDisabled h (runtime c st handshake error installationError) \<longleftrightarrow>
     option_or (hc_hostManagedHandshake h) False
     \<or> (st = Resolved \<or> st = Local)
        \<and> (\<exists>x. handshake = Some x \<and> hs_ready x \<and> \<not> needsSetup c x)
        \<and> option_or installationError [] = []"
  by (cases st) (auto simp: captureDisabled_def runtime_def view_of_def split: option.splits)

section \<open>Review text\<close>

definition reviewedText :: "CaptureTaskView \<Rightarrow> string \<Rightarrow> string" where
  "reviewedText t g =
     (let original = (case Option.bind (tk_raw t) (\<lambda>raw. List.find (\<lambda>x. seg_id x = g) (raw_segments raw)) of
                        None \<Rightarrow> [] | Some x \<Rightarrow> seg_text x)
      in case Option.bind (Option.bind (tk_review t) rv_edits) (List.find (\<lambda>e. ed_segmentId e = g)) of
           None \<Rightarrow> original | Some e \<Rightarrow> ed_reviewedText e)"

definition isReviewed :: "CaptureTaskView \<Rightarrow> string \<Rightarrow> bool" where
  "isReviewed t g =
     (case Option.bind (tk_review t) rv_edits of
        None \<Rightarrow> False | Some es \<Rightarrow> list_ex (\<lambda>e. ed_segmentId e = g) es)"

definition restoreOriginal :: "CaptureTaskView \<Rightarrow> string \<Rightarrow> 'w workflow \<Rightarrow> 'w workflow" where
  "restoreOriginal t g s =
     (case Option.bind (tk_raw t) (\<lambda>raw. List.find (\<lambda>x. seg_id x = g) (raw_segments raw)) of
        None \<Rightarrow> s | Some x \<Rightarrow> updateReview (tk_id t) g (seg_text x) s)"

lemma find_patched:
  "List.find (\<lambda>t. tk_id t = i) (patched i p ts) = map_option (apply_patch p) (List.find (\<lambda>t. tk_id t = i) ts)"
  by (induction ts) (auto simp: patched_def)

lemma find_task_patch_task [simp]: "find_task i (patch_task i p s) = map_option (apply_patch p) (find_task i s)"
  by (simp add: find_task_def find_patched)

lemma find_append:
  "List.find P (xs @ ys) = (case List.find P xs of None \<Rightarrow> List.find P ys | Some x \<Rightarrow> Some x)"
  by (induction xs) auto

lemma find_other_edit:
  "g' \<noteq> g \<Longrightarrow> List.find (\<lambda>e. ed_segmentId e = g') (filter (\<lambda>e. ed_segmentId e \<noteq> g) es)
     = List.find (\<lambda>e. ed_segmentId e = g') es"
  by (induction es) auto

lemma find_removed_edit: "List.find (\<lambda>e. ed_segmentId e = g) (filter (\<lambda>e. ed_segmentId e \<noteq> g) es) = None"
  by (auto simp: find_None_iff_all)

text \<open>Editing a review and reading it back: after \<open>updateReview\<close> the text shown for the segment
  is the text entered, the segment counts as reviewed exactly when that text differs from the
  original, and what is shown for every other segment is unchanged.\<close>

theorem review_edit_lookup:
  assumes "find_task i s = Some t" "tk_status t = Awaiting_confirmation" "tk_raw t = Some raw"
    and "List.find (\<lambda>g. seg_id g = g0) (raw_segments raw) = Some original"
  shows "\<exists>t'. find_task i (updateReview i g0 x s) = Some t' \<and> reviewedText t' g0 = x
    \<and> (isReviewed t' g0 \<longleftrightarrow> x \<noteq> seg_text original)
    \<and> (g1 \<noteq> g0 \<longrightarrow> reviewedText t' g1 = reviewedText t g1 \<and> isReviewed t' g1 = isReviewed t g1)"
proof -
  let ?es = "option_or (rv_edits (option_or (tk_review t) empty_review)) []"
  let ?new = "if x \<noteq> seg_text original then [\<lparr>ed_segmentId = g0, ed_reviewedText = x\<rparr>] else []"
  let ?edits = "filter (\<lambda>e. ed_segmentId e \<noteq> g0) ?es @ ?new"
  define t' where "t' = apply_patch [SetReview (Some \<lparr>rv_version = 1, rv_edits = Some ?edits\<rparr>), SetError None] t"
  have f: "find_task i (updateReview i g0 x s) = Some t'"
    using assms by (simp add: updateReview_def Let_def t'_def)
  have "reviewedText t' g0 = x"
    using assms(3,4) by (simp add: reviewedText_def t'_def find_append find_removed_edit)
  moreover have "isReviewed t' g0 \<longleftrightarrow> x \<noteq> seg_text original"
    by (auto simp: isReviewed_def t'_def list_ex_iff)
  moreover have "reviewedText t' g1 = reviewedText t g1" if "g1 \<noteq> g0"
    using that assms(3) by (cases "tk_review t")
      (auto simp: reviewedText_def t'_def find_append find_other_edit empty_review_def option_or_def
        split: option.splits)
  moreover have "isReviewed t' g1 = isReviewed t g1" if "g1 \<noteq> g0"
    using that by (cases "tk_review t")
      (auto simp: isReviewed_def t'_def list_ex_iff empty_review_def option_or_def split: option.splits)
  ultimately show ?thesis using f by blast
qed

definition example_task :: CaptureTaskView where
  "example_task = \<lparr>tk_id = ''t'', tk_captureId = None, tk_fileName = ''a.pdf'', tk_sourceKind = Kind Pdf,
     tk_status = Awaiting_confirmation, tk_stage = None, tk_progress = num 70, tk_result = None,
     tk_raw = Some example_raw, tk_review = None, tk_error = None\<rparr>"

definition example_workflow :: "unit workflow" where
  "example_workflow = \<lparr>wf_tasks = [example_task], wf_internal = Map.empty, wf_speakerSources = Map.empty,
     wf_captureIds = Map.empty, wf_subscriptions = [], wf_reviewSubjects = [''t''], wf_aborted = [],
     wf_running = 1, wf_active = [''t''], wf_uuids = 0, wf_events = [], wf_calls = [], wf_world = ()\<rparr>"

lemma example_task_facts:
  "find_task ''t'' example_workflow = Some example_task" "tk_status example_task = Awaiting_confirmation"
  "tk_raw example_task = Some example_raw"
  "List.find (\<lambda>g. seg_id g = ''s0'') (raw_segments example_raw) = Some example_segment"
  by (simp_all add: find_task_def example_workflow_def example_task_def example_raw_def example_segment_def)

theorem review_edit_lookup_witness:
  "\<exists>t'. find_task ''t'' (updateReview ''t'' ''s0'' ''Hullo'' example_workflow) = Some t'
     \<and> reviewedText t' ''s0'' = ''Hullo''"
  using review_edit_lookup[OF example_task_facts, of "''Hullo''"] by blast

end
