(* ===== verification/Workbench_Streams.thy ===== *)
theory Workbench_Streams
  imports Workbench_Tasks
begin

text \<open>
  The observables of the workbench and the loop that follows a capture's event stream. The same
  loop stands twice in the sources: \<open>waitForStreamingOperation\<close> and \<open>reloadStreamingSnapshot$\<close> of
  \<^verbatim>\<open>capture-workflow.service.ts\<close>, and \<open>waitForTerminal\<close> and \<open>reloadStreamingSnapshot$\<close> of
  \<^verbatim>\<open>capture-reconciliation.service.ts\<close>; the two differ only in what they do to the task, which is
  an argument here (the hooks).

  An observable of the sources emits at most one value. It is a function on the state \<open>'s\<close>
  of everything, so that a client call may stand for whatever happens while it is pending.
\<close>

section \<open>Observables\<close>

datatype 'a outcome = Emit 'a | Empty | Error thrown

type_synonym ('s, 'a) obs = "'s \<Rightarrow> 'a outcome \<times> 's"

text \<open>\<open>concatMap\<close> and \<open>switchMap\<close>; \<open>catchError\<close>; \<open>tap\<close>.\<close>

definition bind_obs :: "('s, 'a) obs \<Rightarrow> ('a \<Rightarrow> ('s, 'b) obs) \<Rightarrow> ('s, 'b) obs" where
  "bind_obs m f s = (case m s of
       (Emit x, s') \<Rightarrow> f x s' | (Empty, s') \<Rightarrow> (Empty, s') | (Error e, s') \<Rightarrow> (Error e, s'))"

definition catch_obs :: "('s, 'a) obs \<Rightarrow> (thrown \<Rightarrow> ('s, 'a) obs) \<Rightarrow> ('s, 'a) obs" where
  "catch_obs m h s = (case m s of (Error e, s') \<Rightarrow> h e s' | r \<Rightarrow> r)"

definition return_obs :: "'a \<Rightarrow> ('s, 'a) obs" where
  "return_obs x s = (Emit x, s)"

definition throw_obs :: "thrown \<Rightarrow> ('s, 'a) obs" where
  "throw_obs e s = (Error e, s)"

definition empty_obs :: "('s, 'a) obs" where
  "empty_obs s = (Empty, s)"

definition modify_obs :: "('s \<Rightarrow> 's) \<Rightarrow> ('s, unit) obs" where
  "modify_obs f s = (Emit (), f s)"

lemma bind_obs_Emit_iff [res_simps]:
  "bind_obs m f s = (Emit y, s') \<longleftrightarrow> (\<exists>x s1. m s = (Emit x, s1) \<and> f x s1 = (Emit y, s'))"
  by (cases "m s") (auto simp: bind_obs_def split: outcome.splits)

lemma bind_obs_Error_iff [res_simps]:
  "bind_obs m f s = (Error e, s') \<longleftrightarrow>
     m s = (Error e, s') \<or> (\<exists>x s1. m s = (Emit x, s1) \<and> f x s1 = (Error e, s'))"
  by (cases "m s") (auto simp: bind_obs_def split: outcome.splits)

lemma bind_obs_Empty_iff [res_simps]:
  "bind_obs m f s = (Empty, s') \<longleftrightarrow>
     m s = (Empty, s') \<or> (\<exists>x s1. m s = (Emit x, s1) \<and> f x s1 = (Empty, s'))"
  by (cases "m s") (auto simp: bind_obs_def split: outcome.splits)

lemma catch_obs_Emit_iff [res_simps]:
  "catch_obs m h s = (Emit y, s') \<longleftrightarrow>
     m s = (Emit y, s') \<or> (\<exists>e s1. m s = (Error e, s1) \<and> h e s1 = (Emit y, s'))"
  by (cases "m s") (auto simp: catch_obs_def split: outcome.splits)

lemma catch_obs_Error_iff [res_simps]:
  "catch_obs m h s = (Error e, s') \<longleftrightarrow> (\<exists>e1 s1. m s = (Error e1, s1) \<and> h e1 s1 = (Error e, s'))"
  by (cases "m s") (auto simp: catch_obs_def split: outcome.splits)

lemma catch_obs_Empty_iff [res_simps]:
  "catch_obs m h s = (Empty, s') \<longleftrightarrow>
     m s = (Empty, s') \<or> (\<exists>e s1. m s = (Error e, s1) \<and> h e s1 = (Empty, s'))"
  by (cases "m s") (auto simp: catch_obs_def split: outcome.splits)

lemma obs_simps [simp]:
  "return_obs x s = (Emit x, s)" "throw_obs e s = (Error e, s)" "empty_obs s = (Empty, s)"
  "modify_obs f s = (Emit (), f s)"
  by (simp_all add: return_obs_def throw_obs_def empty_obs_def modify_obs_def)

section \<open>The client\<close>

record StreamingResultView =
  sr_raw :: RawCapture
  sr_result :: CaptureDocument

record StartRequest =
  st_clientRequestId :: string
  st_file :: host_file
  st_sourceKind :: file_kind
  st_structuringMode :: string
  st_targetLanguage :: "string option"
  st_identifySpeakers :: bool
  st_spokenLanguage :: "string option"

text \<open>The methods of \<open>CaptureClient\<close> the workflow uses. The event stream delivers events and then
  completes or fails.\<close>

record 's capture_client =
  cc_start :: "StartRequest \<Rightarrow> ('s, CaptureOperation) obs"
  cc_get :: "string \<Rightarrow> ('s, CaptureOperation) obs"
  cc_cancel :: "string \<Rightarrow> ('s, CaptureOperation) obs"
  cc_partial :: "string \<Rightarrow> ('s, PartialCapture) obs"
  cc_raw :: "string \<Rightarrow> ('s, RawCapture) obs"
  cc_result :: "string \<Rightarrow> ('s, StreamingResultView) obs"
  cc_commit :: "string \<Rightarrow> string \<Rightarrow> CaptureDocument \<Rightarrow> ('s, CaptureOperation) obs"
  cc_report :: "string \<Rightarrow> string \<Rightarrow> string \<Rightarrow> ('s, CaptureOperation) obs"
  cc_events :: "string \<Rightarrow> jnum \<Rightarrow> 's \<Rightarrow> (CaptureEvent list \<times> thrown option) \<times> 's"

section \<open>Following a capture\<close>

definition MAX_STREAMING_RESYNC_RECONNECTS :: nat where
  "MAX_STREAMING_RESYNC_RECONNECTS = 3"

text \<open>What the loop does to the task: on an event, on a snapshot, and on the partial result,
  which is fetched only where there is a task.\<close>

record 's stream_hooks =
  hk_event :: "CaptureEvent \<Rightarrow> 's \<Rightarrow> 's"
  hk_operation :: "CaptureOperation \<Rightarrow> 's \<Rightarrow> 's"
  hk_partial :: "(PartialCapture \<Rightarrow> 's \<Rightarrow> 's) option"

definition no_hooks :: "'s stream_hooks" where
  "no_hooks = \<lparr>hk_event = (\<lambda>_ s. s), hk_operation = (\<lambda>_ s. s), hk_partial = None\<rparr>"

definition stop_event :: "bool \<Rightarrow> CaptureEvent \<Rightarrow> bool" where
  "stop_event stopForHost e =
     (isResyncRequiredEvent e \<or> isTerminalStreamingEvent e
      \<or> stopForHost \<and> ev_stage e = ''awaiting_structuring'')"

text \<open>\<open>takeWhile(..., true)\<close>: the events up to and including the first one that stops.\<close>

fun take_events :: "bool \<Rightarrow> CaptureEvent list \<Rightarrow> CaptureEvent list" where
  "take_events stop [] = []"
| "take_events stop (e # es) = (if stop_event stop e then [e] else e # take_events stop es)"

definition apply_events :: "'s stream_hooks \<Rightarrow> CaptureEvent list \<Rightarrow> 's \<Rightarrow> 's" where
  "apply_events hk es s =
     fold (\<lambda>e s. if isResyncRequiredEvent e then s else hk_event hk e s) es s"

definition resync_required :: "CaptureEvent list \<Rightarrow> bool" where
  "resync_required es = (es \<noteq> [] \<and> isResyncRequiredEvent (last es))"

text \<open>
  \<open>takeUntil(fromEvent(signal, 'abort'))\<close>: an abort ends the observable without a value. The
  notifier hears only aborts that happen after the subscription: \<open>live\<close> says that the signal
  was not aborted then, \<open>ab\<close> reads it.
\<close>

definition until_abort :: "('s \<Rightarrow> bool) \<Rightarrow> bool \<Rightarrow> ('s, 'a) obs \<Rightarrow> ('s, 'a) obs" where
  "until_abort ab live m s = (let r = m s in if live \<and> ab (snd r) then (Empty, snd r) else r)"

definition reloadStreamingSnapshot ::
  "'s capture_client \<Rightarrow> ('s \<Rightarrow> bool) \<Rightarrow> bool \<Rightarrow> 's stream_hooks \<Rightarrow> string \<Rightarrow> bool \<Rightarrow> ('s, CaptureOperation) obs" where
  "reloadStreamingSnapshot cl ab live hk c includePartial =
     bind_obs (until_abort ab live (cc_get cl c)) (\<lambda>x.
     bind_obs (modify_obs (hk_operation hk x)) (\<lambda>_.
       case hk_partial hk of
         None \<Rightarrow> return_obs x
       | Some h \<Rightarrow>
           if \<not> includePartial then return_obs x
           else catch_obs
                  (bind_obs (until_abort ab live (cc_partial cl c)) (\<lambda>p.
                   bind_obs (modify_obs (h p)) (\<lambda>_. return_obs x)))
                  (\<lambda>_. return_obs x)))"

definition stream_done :: "bool \<Rightarrow> CaptureOperation \<Rightarrow> bool" where
  "stream_done stopForHost x =
     (isTerminalStreamingOperation x \<or> stopForHost \<and> op_status x = ''awaiting_structuring'')"

function follow_stream ::
  "'s capture_client \<Rightarrow> ('s \<Rightarrow> bool) \<Rightarrow> bool \<Rightarrow> 's stream_hooks \<Rightarrow> bool \<Rightarrow> nat \<Rightarrow> CaptureOperation
     \<Rightarrow> ('s, CaptureOperation) obs" where
  "follow_stream cl ab live hk stopForHost reconnectAttempt initial s =
     (let d = cc_events cl (op_captureId initial) (op_lastEventSequence initial) s;
          taken = take_events stopForHost (fst (fst d));
          stopped = list_ex (stop_event stopForHost) (fst (fst d));
          s1 = apply_events hk taken (snd d);
          resync = resync_required taken
      in if live \<and> ab s1 then (Empty, s1)
         else (case (if stopped then None else snd (fst d)) of
                 Some e \<Rightarrow> (Error e, s1)
               | None \<Rightarrow>
                   bind_obs (reloadStreamingSnapshot cl ab live hk (op_captureId initial) resync) (\<lambda>snapshot s2.
                     if stream_done stopForHost snapshot then (Emit snapshot, s2)
                     else if \<not> resync then (Emit snapshot, s2)
                     else if reconnectAttempt \<ge> MAX_STREAMING_RESYNC_RECONNECTS
                     then (Error (new_Error ''Capture event stream exceeded the resync recovery limit.''), s2)
                     else follow_stream cl ab live hk stopForHost (reconnectAttempt + 1) snapshot s2) s1))"
  by pat_completeness auto
termination
  by (relation "measure (\<lambda>(_, _, _, _, _, n, _, _). MAX_STREAMING_RESYNC_RECONNECTS - n)") auto

declare follow_stream.simps [simp del]

section \<open>What following guarantees\<close>

lemma take_events_last:
  "list_ex (stop_event stop) es \<Longrightarrow> take_events stop es \<noteq> [] \<and> stop_event stop (last (take_events stop es))
     \<and> list_all (\<lambda>e. \<not> stop_event stop e) (butlast (take_events stop es))"
proof (induction es)
  case (Cons e es)
  then show ?case by (cases "stop_event stop e") auto
qed simp

lemma take_events_all: "\<not> list_ex (stop_event stop) es \<Longrightarrow> take_events stop es = es"
  by (induction es) auto

lemma reload_is_snapshot:
  assumes "reloadStreamingSnapshot cl ab live hk c p s = (Emit x, s')"
  shows "\<exists>s1. cc_get cl c s = (Emit x, s1)"
  using assms
  by (auto simp: reloadStreamingSnapshot_def res_simps until_abort_def Let_def
      split: option.splits if_splits)

section \<open>Effects of a run\<close>

text \<open>A relation between the state before and after, such as "only tasks were patched", that holds
  of every client call and every hook, holds of everything composed from them.\<close>

definition preserves :: "('s \<Rightarrow> 's \<Rightarrow> bool) \<Rightarrow> ('s, 'a) obs \<Rightarrow> bool" where
  "preserves R m \<longleftrightarrow> (\<forall>s. R s (snd (m s)))"

definition hooks_preserve :: "('s \<Rightarrow> 's \<Rightarrow> bool) \<Rightarrow> 's stream_hooks \<Rightarrow> bool" where
  "hooks_preserve R hk \<longleftrightarrow>
     (\<forall>e s. R s (hk_event hk e s)) \<and> (\<forall>x s. R s (hk_operation hk x s))
     \<and> (\<forall>h p s. hk_partial hk = Some h \<longrightarrow> R s (h p s))"

text \<open>A candidate that was checked against what the runtime returned for the capture.\<close>

definition validated_for :: "'s capture_client \<Rightarrow> string \<Rightarrow> CaptureDocument \<Rightarrow> bool" where
  "validated_for cl c d \<longleftrightarrow>
     (\<exists>raw s s'. cc_raw cl c s = (Emit raw, s') \<and> validateStructuringCandidate d raw = [])"

text \<open>Of the commits, only those of checked candidates have to keep the relation.\<close>

definition client_preserves :: "('s \<Rightarrow> 's \<Rightarrow> bool) \<Rightarrow> 's capture_client \<Rightarrow> bool" where
  "client_preserves R cl \<longleftrightarrow>
     (\<forall>rq. preserves R (cc_start cl rq)) \<and> (\<forall>c. preserves R (cc_get cl c)) \<and> (\<forall>c. preserves R (cc_cancel cl c))
     \<and> (\<forall>c. preserves R (cc_partial cl c)) \<and> (\<forall>c. preserves R (cc_raw cl c)) \<and> (\<forall>c. preserves R (cc_result cl c))
     \<and> (\<forall>c i d. validated_for cl c d \<longrightarrow> preserves R (cc_commit cl c i d)) \<and> (\<forall>c k m. preserves R (cc_report cl c k m))
     \<and> (\<forall>c q s. R s (snd (cc_events cl c q s)))"

locale state_effect =
  fixes R :: "'s \<Rightarrow> 's \<Rightarrow> bool"
  assumes effect_refl: "R s s"
    and effect_trans: "R s s' \<Longrightarrow> R s' s'' \<Longrightarrow> R s s''"
begin

lemma preserves_basic:
  "preserves R (return_obs x)" "preserves R (throw_obs e)" "preserves R empty_obs"
  by (simp_all add: preserves_def effect_refl)

lemma preserves_modify: "(\<And>s. R s (f s)) \<Longrightarrow> preserves R (modify_obs f)"
  by (simp add: preserves_def)

lemma preserves_catch:
  assumes "preserves R m" "\<And>e. preserves R (h e)"
  shows "preserves R (catch_obs m h)"
  unfolding preserves_def
proof
  fix s
  obtain a s1 where m: "m s = (a, s1)" by fastforce
  then have "R s s1" using assms(1) by (metis preserves_def snd_conv)
  then show "R s (snd (catch_obs m h s))"
    using assms(2) m by (cases a) (auto simp: catch_obs_def preserves_def intro: effect_trans)
qed

lemma preserves_bind_yields:
  assumes "preserves R m" "\<And>x s s'. m s = (Emit x, s') \<Longrightarrow> preserves R (f x)"
  shows "preserves R (bind_obs m f)"
  unfolding preserves_def
proof
  fix s
  obtain a s1 where m: "m s = (a, s1)" by fastforce
  then have "R s s1" using assms(1) by (metis preserves_def snd_conv)
  then show "R s (snd (bind_obs m f s))"
    using assms(2)[of s] m by (cases a) (auto simp: bind_obs_def preserves_def intro: effect_trans)
qed

lemma preserves_bind: "preserves R m \<Longrightarrow> (\<And>x. preserves R (f x)) \<Longrightarrow> preserves R (bind_obs m f)"
  by (rule preserves_bind_yields)

lemma preserves_until_abort: "preserves R m \<Longrightarrow> preserves R (until_abort ab live m)"
  by (simp add: preserves_def until_abort_def Let_def)

lemma preserves_reload:
  assumes "preserves R (cc_get cl c)" "preserves R (cc_partial cl c)" "hooks_preserve R hk"
  shows "preserves R (reloadStreamingSnapshot cl ab live hk c p)"
proof -
  have hooks: "preserves R (modify_obs (hk_operation hk x))"
    "hk_partial hk = Some h \<Longrightarrow> preserves R (modify_obs (h q))" for x h q
    using assms(3) by (auto simp: hooks_preserve_def preserves_def)
  show ?thesis
    unfolding reloadStreamingSnapshot_def
    by (auto intro!: preserves_bind preserves_catch preserves_until_abort preserves_basic assms hooks
        split: option.splits)
qed

lemma apply_events_effect: "hooks_preserve R hk \<Longrightarrow> R s (apply_events hk es s)"
  unfolding apply_events_def
proof (induction es arbitrary: s)
  case (Cons e es)
  have "R s (if isResyncRequiredEvent e then s else hk_event hk e s)"
    using Cons.prems by (simp add: hooks_preserve_def effect_refl)
  with Cons show ?case by (auto intro: effect_trans)
qed (simp add: effect_refl)

lemma preserves_follow_stream:
  assumes "client_preserves R cl" "hooks_preserve R hk"
  shows "R s (snd (follow_stream cl ab live hk stop k initial s))"
  using assms
proof (induction cl ab live hk stop k initial s rule: follow_stream.induct)
  case (1 cl ab live hk stop k initial s)
  define d where "d = cc_events cl (op_captureId initial) (op_lastEventSequence initial) s"
  define taken where "taken = take_events stop (fst (fst d))"
  define s1 where "s1 = apply_events hk taken (snd d)"
  have R1: "R s s1"
    using 1(2) apply_events_effect[OF 1(3)] unfolding s1_def d_def client_preserves_def
    by (blast intro: effect_trans)
  obtain a s2 where r: "reloadStreamingSnapshot cl ab live hk (op_captureId initial) (resync_required taken) s1 = (a, s2)"
    by fastforce
  have "preserves R (reloadStreamingSnapshot cl ab live hk (op_captureId initial) (resync_required taken))"
    using 1(2,3) by (intro preserves_reload) (simp_all add: client_preserves_def)
  then have R2: "R s s2" using r R1 by (metis effect_trans preserves_def snd_conv)
  have rec: "R s2 (snd (follow_stream cl ab live hk stop (k + 1) x s2))"
    if "\<not> stream_done stop x" "resync_required taken" "\<not> MAX_STREAMING_RESYNC_RECONNECTS \<le> k"
      "\<not> (live \<and> ab s1)" "(if list_ex (stop_event stop) (fst (fst d)) then None else snd (fst d)) = None" for x
    using 1(1)[OF d_def taken_def refl s1_def refl that(4) that(5)] that 1(2,3) by simp
  show ?case
    unfolding follow_stream.simps[of cl ab live hk stop k initial s] Let_def
      d_def[symmetric] taken_def[symmetric] s1_def[symmetric] bind_obs_def r
    using R1 R2 rec by (cases a) (auto split: option.splits intro: effect_trans)
qed

end

text \<open>The effect of keeping a property of the state.\<close>

definition keeping :: "('s \<Rightarrow> bool) \<Rightarrow> 's \<Rightarrow> 's \<Rightarrow> bool" where
  "keeping G s s' \<longleftrightarrow> (G s \<longrightarrow> G s')"

interpretation keeping: state_effect "keeping G" for G
  by unfold_locales (simp_all add: keeping_def)

section \<open>The number of subscriptions\<close>

definition same_count :: "('s \<Rightarrow> nat) \<Rightarrow> 's \<Rightarrow> 's \<Rightarrow> bool" where
  "same_count n s s' \<longleftrightarrow> n s' = n s"

interpretation count_effect: state_effect "same_count n" for n
  by unfold_locales (simp_all add: same_count_def)

text \<open>A counter of subscriptions that the other calls and the hooks do not touch, and that every
  subscription raises by one.\<close>

definition counts_subscriptions :: "('s \<Rightarrow> nat) \<Rightarrow> 's capture_client \<Rightarrow> 's stream_hooks \<Rightarrow> bool" where
  "counts_subscriptions n cl hk \<longleftrightarrow>
     (\<forall>c q s. n (snd (cc_events cl c q s)) = Suc (n s))
     \<and> (\<forall>c. preserves (same_count n) (cc_get cl c)) \<and> (\<forall>c. preserves (same_count n) (cc_partial cl c))
     \<and> hooks_preserve (same_count n) hk"

lemma apply_events_count: "counts_subscriptions n cl hk \<Longrightarrow> n (apply_events hk es s) = n s"
  using count_effect.apply_events_effect[of n hk s es]
  by (simp add: counts_subscriptions_def same_count_def)

lemma reload_count:
  "counts_subscriptions n cl hk \<Longrightarrow> n (snd (reloadStreamingSnapshot cl ab live hk c p s)) = n s"
  using count_effect.preserves_reload[of n cl c hk ab live p]
  by (simp add: counts_subscriptions_def same_count_def preserves_def)

lemma follow_stream_count:
  assumes "counts_subscriptions n cl hk" "k \<le> MAX_STREAMING_RESYNC_RECONNECTS"
  shows "n (snd (follow_stream cl ab live hk stop k initial s)) \<le> n s + (MAX_STREAMING_RESYNC_RECONNECTS - k) + 1"
  using assms
proof (induction cl ab live hk stop k initial s rule: follow_stream.induct)
  case (1 cl ab live hk stop k initial s)
  define d where "d = cc_events cl (op_captureId initial) (op_lastEventSequence initial) s"
  define taken where "taken = take_events stop (fst (fst d))"
  define s1 where "s1 = apply_events hk taken (snd d)"
  have n1: "n s1 = Suc (n s)"
    unfolding s1_def apply_events_count[OF 1(2)] d_def using 1(2) by (simp add: counts_subscriptions_def)
  obtain a s2 where r: "reloadStreamingSnapshot cl ab live hk (op_captureId initial) (resync_required taken) s1 = (a, s2)"
    by fastforce
  have n2: "n s2 = Suc (n s)"
    using reload_count[OF 1(2), of ab live "op_captureId initial" "resync_required taken" s1] r n1 by simp
  have rec: "n (snd (follow_stream cl ab live hk stop (k + 1) x s2)) \<le> n s + (MAX_STREAMING_RESYNC_RECONNECTS - k) + 1"
    if "\<not> stream_done stop x" "resync_required taken" "\<not> MAX_STREAMING_RESYNC_RECONNECTS \<le> k"
      "\<not> (live \<and> ab s1)" and open_end: "list_ex (stop_event stop) (fst (fst d)) \<or> snd (fst d) = None" for x
  proof -
    have none: "(if list_ex (stop_event stop) (fst (fst d)) then None else snd (fst d)) = None"
      using open_end by auto
    have "n (snd (follow_stream cl ab live hk stop (k + 1) x s2)) \<le> n s2 + (MAX_STREAMING_RESYNC_RECONNECTS - (k + 1)) + 1"
      using 1(1)[OF d_def taken_def refl s1_def refl that(4) none] that 1(2) by simp
    with n2 that(3) show ?thesis by linarith
  qed
  show ?case
    unfolding follow_stream.simps[of cl ab live hk stop k initial s] Let_def
      d_def[symmetric] taken_def[symmetric] s1_def[symmetric] bind_obs_def r
    using n1 n2 1(3) rec by (cases a) (auto split: option.splits)
qed

end
