(* ===== verification/Workbench_Installation.thy ===== *)
theory Workbench_Installation
  imports Workbench_Store Workbench_Streams
begin

text \<open>
  \<^verbatim>\<open>packages/capture-workbench-ui/src/lib/installation/capture-runtime-installation.service.ts\<close>:
  installing the missing requirements of the runtime one after the other, polling each
  installation until it ends, and cancelling.

  The two signals of the service, its controller and whether the signal of the running action is
  aborted are the state; \<open>in_world\<close> is everything else. As in \<open>Workbench_Streams\<close>, a client call
  is a function on the whole state, so that a pending call may stand for a user who cancels
  meanwhile. Polling may go on forever, so a run is an optional result: \<open>None\<close> is a run that
  never ends.
\<close>

section \<open>State\<close>

record RuntimeInstallation =
  ri_id :: string
  ri_requirementId :: string
  ri_status :: string
  ri_error :: "CaptureFailure option"

record 'w installer =
  in_installation :: "RuntimeInstallation option"
  in_error :: "string option"
  in_controller :: bool
  in_aborted :: bool
  in_world :: 'w

record InstallationRequest =
  iq_clientRequestId :: string
  iq_requirementId :: string
  iq_consent :: bool

record 's installation_client =
  ic_start :: "InstallationRequest \<Rightarrow> ('s, RuntimeInstallation) obs"
  ic_get :: "string \<Rightarrow> ('s, RuntimeInstallation) obs"
  ic_cancel :: "string \<Rightarrow> ('s, RuntimeInstallation) obs"

text \<open>The options of \<open>install\<close>, with the passing of time and the identifiers drawn.\<close>

record 's install_options =
  io_requirements :: "'s \<Rightarrow> RuntimeRequirementView list"
  io_pollIntervalMs :: "'s \<Rightarrow> jnum"
  io_reload :: "('s, unit) obs"
  io_wait :: "jnum \<Rightarrow> 's \<Rightarrow> 's"
  io_uuid :: "nat \<Rightarrow> string"

definition MAX_INSTALLATIONS_PER_USER_ACTION :: nat where
  "MAX_INSTALLATIONS_PER_USER_ACTION = 16"

section \<open>The order of installation\<close>

definition INSTALLATION_ORDER :: "string \<Rightarrow> int option" where
  "INSTALLATION_ORDER = map_of
     [(''windowsml-ocr'', 0), (''speech-recognition'', 1), (''speaker-diarization'', 2),
      (''vertical-japanese-reader'', 3), (''ollama-runtime'', 4), (''capture-ollama-model'', 5)]"

definition installation_rank :: "RuntimeRequirementView \<Rightarrow> int" where
  "installation_rank r = option_or (INSTALLATION_ORDER (req_id r)) (2 ^ 53 - 1)"

definition installable :: "RuntimeRequirementView list \<Rightarrow> RuntimeRequirementView list" where
  "installable rs = sort_key installation_rank (filter (\<lambda>r. req_status r = ''installable'') rs)"

definition next_requirement ::
  "string list \<Rightarrow> RuntimeRequirementView list \<Rightarrow> RuntimeRequirementView option" where
  "next_requirement completed rs = List.find (\<lambda>r. req_id r \<notin> set completed) (installable rs)"

section \<open>Operations\<close>

definition clearError :: "'w installer \<Rightarrow> 'w installer" where
  "clearError s = s\<lparr>in_error := None\<rparr>"

definition sanitizeInstallation :: "RuntimeInstallation \<Rightarrow> RuntimeInstallation" where
  "sanitizeInstallation x = x\<lparr>ri_error := map_option redactFailure (ri_error x)\<rparr>"

definition show_installation :: "RuntimeInstallation \<Rightarrow> 'w installer \<Rightarrow> 'w installer" where
  "show_installation x s = s\<lparr>in_installation := Some (sanitizeInstallation x)\<rparr>"

definition check_signal :: "('w installer, unit) obs" where
  "check_signal s = (if in_aborted s then (Error abort_error, s) else (Emit (), s))"

definition retry_uncertain :: "('w installer, 'a) obs \<Rightarrow> ('w installer, 'a) obs" where
  "retry_uncertain m =
     catch_obs m (\<lambda>e. bind_obs check_signal (\<lambda>_. if isUncertainResponseFailure e then m else throw_obs e))"

text \<open>The delay between two polls; an abort before or during it is an error.\<close>

definition abortableDelay :: "'w installer install_options \<Rightarrow> ('w installer, unit) obs" where
  "abortableDelay opts s =
     (if in_aborted s then (Error abort_error, s)
      else let s' = io_wait opts (js_max (num 0) (io_pollIntervalMs opts s)) s
           in if in_aborted s' then (Error abort_error, s') else (Emit (), s'))"

definition unfinished :: "RuntimeInstallation \<Rightarrow> bool" where
  "unfinished x = (ri_status x = ''queued'' \<or> ri_status x = ''running'')"

definition read_installation ::
  "'w installer installation_client \<Rightarrow> 'w installer install_options \<Rightarrow> string \<Rightarrow> ('w installer, RuntimeInstallation) obs" where
  "read_installation cl opts i = bind_obs (abortableDelay opts) (\<lambda>_. ic_get cl i)"

text \<open>Every snapshot is shown; only the last one, which is not unfinished, is passed on.\<close>

partial_function (option) poll_snapshots ::
  "'w installer installation_client \<Rightarrow> 'w installer install_options \<Rightarrow> RuntimeInstallation \<Rightarrow> 'w installer
     \<Rightarrow> (RuntimeInstallation outcome \<times> 'w installer) option" where
  "poll_snapshots cl opts x s =
     (let s1 = show_installation x s
      in if \<not> unfinished x then Some (Emit x, s1)
         else (case read_installation cl opts (ri_id x) s1 of
                 (r, s2) \<Rightarrow> (case r of
                     Emit y \<Rightarrow> poll_snapshots cl opts y s2
                   | Empty \<Rightarrow> Some (Empty, s2)
                   | Error e \<Rightarrow> Some (Error e, s2))))"

declare poll_snapshots.simps [code]

definition pollInstallation ::
  "'w installer installation_client \<Rightarrow> 'w installer install_options \<Rightarrow> RuntimeInstallation \<Rightarrow> 'w installer
     \<Rightarrow> (RuntimeInstallation outcome \<times> 'w installer) option" where
  "pollInstallation cl opts initial s = poll_snapshots cl opts initial (show_installation initial s)"

definition safety_limit :: thrown where
  "safety_limit = new_Error ''Runtime installation stopped after reaching the safety limit.''"

text \<open>One requirement: the request, which a retry repeats with the same identifier, the polling,
  and for a completed installation the reload of the runtime. \<open>Emit\<close> is the go-ahead for the next
  requirement.\<close>

definition install_one ::
  "'w installer installation_client \<Rightarrow> 'w installer install_options \<Rightarrow> InstallationRequest \<Rightarrow> 'w installer
     \<Rightarrow> (unit outcome \<times> 'w installer) option" where
  "install_one cl opts rq s =
     (case retry_uncertain (ic_start cl rq) s of
        (Emit x, s1) \<Rightarrow>
          (case pollInstallation cl opts x (show_installation x s1) of
             None \<Rightarrow> None
           | Some (Emit y, s2) \<Rightarrow>
               if ri_status y \<noteq> ''completed'' then Some (Empty, s2)
               else Some (io_reload opts (s2\<lparr>in_installation := None\<rparr>))
           | Some (Empty, s2) \<Rightarrow> Some (Empty, s2)
           | Some (Error e, s2) \<Rightarrow> Some (Error e, s2))
      | (Empty, s1) \<Rightarrow> Some (Empty, s1)
      | (Error e, s1) \<Rightarrow> Some (Error e, s1))"

function installNext ::
  "'w installer installation_client \<Rightarrow> 'w installer install_options \<Rightarrow> string list \<Rightarrow> (string \<rightharpoonup> string) \<Rightarrow> nat
     \<Rightarrow> 'w installer \<Rightarrow> (unit outcome \<times> 'w installer) option" where
  "installNext cl opts completed requestIds started s =
     (if in_aborted s then Some (Error abort_error, s)
      else (case next_requirement completed (io_requirements opts s) of
              None \<Rightarrow>
                if started = MAX_INSTALLATIONS_PER_USER_ACTION
                   \<and> list_ex (\<lambda>r. req_id r \<notin> set completed) (installable (io_requirements opts s))
                then Some (Error safety_limit, s)
                else Some (Emit (), s)
            | Some r \<Rightarrow>
                if started \<ge> MAX_INSTALLATIONS_PER_USER_ACTION then Some (Error safety_limit, s)
                else
                  (let c = option_or (requestIds (req_id r)) (io_uuid opts started)
                   in case install_one cl opts
                             \<lparr>iq_clientRequestId = c, iq_requirementId = req_id r, iq_consent = True\<rparr> s of
                        Some (Emit _, s1) \<Rightarrow>
                          installNext cl opts (req_id r # completed) (requestIds(req_id r \<mapsto> c)) (started + 1) s1
                      | other \<Rightarrow> other)))"
  by pat_completeness auto
termination
  by (relation "measure (\<lambda>(_, _, _, _, n, _). MAX_INSTALLATIONS_PER_USER_ACTION - n)") auto

declare installNext.simps [simp del]

definition finalize_install :: "'w installer \<Rightarrow> 'w installer" where
  "finalize_install s =
     (let s1 = s\<lparr>in_controller := False\<rparr>
      in if map_option ri_status (in_installation s1) = Some ''completed'' then s1\<lparr>in_installation := None\<rparr> else s1)"

definition install_failed :: "thrown \<Rightarrow> 'w installer \<Rightarrow> 'w installer" where
  "install_failed e s =
     (if isAbortError e then s
      else s\<lparr>in_error := Some (errorMessage e ''Runtime installation failed.'')\<rparr>)"

definition install ::
  "'w installer installation_client option \<Rightarrow> 'w installer install_options \<Rightarrow> 'w installer \<Rightarrow> 'w installer option" where
  "install client opts s =
     (case client of
        None \<Rightarrow> Some s
      | Some cl \<Rightarrow>
          if in_installation s \<noteq> None \<or> installable (io_requirements opts s) = [] then Some s
          else map_option (\<lambda>(r, s1). finalize_install (case r of Error e \<Rightarrow> install_failed e s1 | _ \<Rightarrow> s1))
                 (installNext cl opts [] Map.empty 0 (s\<lparr>in_controller := True, in_aborted := False\<rparr>)))"

definition cancel_install ::
  "'w installer installation_client option \<Rightarrow> 'w installer \<Rightarrow> 'w installer" where
  "cancel_install client s =
     (case (in_installation s, client) of
        (Some x, Some cl) \<Rightarrow>
          (case ic_cancel cl (ri_id x) (s\<lparr>in_aborted := in_controller s \<or> in_aborted s\<rparr>) of
             (Emit y, s1) \<Rightarrow> show_installation y s1
           | (Empty, s1) \<Rightarrow> s1
           | (Error e, s1) \<Rightarrow> s1\<lparr>in_error := Some (errorMessage e ''Unable to cancel runtime installation.'')\<rparr>)
      | _ \<Rightarrow> s)"

section \<open>Choosing the next requirement\<close>

lemma find_sorted_least:
  assumes "List.find P (sort_key k xs) = Some x"
  shows "x \<in> set xs" "P x" "\<forall>y\<in>set xs. P y \<longrightarrow> k x \<le> k y"
proof -
  obtain i where i: "i < length (sort_key k xs)" "P (sort_key k xs ! i)" "x = sort_key k xs ! i"
    "\<forall>j<i. \<not> P (sort_key k xs ! j)"
    using assms by (auto simp: find_Some_iff)
  then show "x \<in> set xs" by (metis nth_mem set_sort)
  show "P x" using i(2,3) by simp
  show "\<forall>y\<in>set xs. P y \<longrightarrow> k x \<le> k y"
  proof (intro ballI impI)
    fix y assume "y \<in> set xs" "P y"
    then obtain j where j: "j < length (sort_key k xs)" "y = sort_key k xs ! j"
      by (metis in_set_conv_nth set_sort)
    have "i \<le> j" using i(4) j(2) \<open>P y\<close> by (metis not_less)
    then have "map k (sort_key k xs) ! i \<le> map k (sort_key k xs) ! j"
      using j(1) by (intro sorted_nth_mono) auto
    then show "k x \<le> k y" using i(1,3) j by simp
  qed
qed

text \<open>The requirement installed next is installable, was not installed by this action, and no
  other such requirement comes before it in the order of installation; there is none exactly when
  everything installable has been installed.\<close>

theorem next_requirement_least:
  "case next_requirement completed rs of
     Some r \<Rightarrow> r \<in> set rs \<and> req_status r = ''installable'' \<and> req_id r \<notin> set completed
       \<and> (\<forall>r'\<in>set rs. req_status r' = ''installable'' \<and> req_id r' \<notin> set completed
             \<longrightarrow> installation_rank r \<le> installation_rank r')
   | None \<Rightarrow> (\<forall>r\<in>set rs. req_status r = ''installable'' \<longrightarrow> req_id r \<in> set completed)"
proof (cases "next_requirement completed rs")
  case None
  then have "\<forall>r\<in>set rs. req_status r = ''installable'' \<longrightarrow> req_id r \<in> set completed"
    by (auto simp: next_requirement_def installable_def find_None_iff)
  with None show ?thesis by simp
next
  case (Some r)
  from find_sorted_least[OF Some[unfolded next_requirement_def installable_def]] Some
  show ?thesis by auto
qed

section \<open>Polling\<close>

text \<open>Induction over the polls of a run that returns.\<close>

lemma poll_induct [consumes 1, case_names finished stopped again]:
  assumes ret: "poll_snapshots cl opts x s = Some p"
    and finished: "\<And>x s. \<not> unfinished x \<Longrightarrow> P x s (Emit x, show_installation x s)"
    and stopped: "\<And>x s r s'. unfinished x \<Longrightarrow> read_installation cl opts (ri_id x) (show_installation x s) = (r, s')
      \<Longrightarrow> (\<forall>y. r \<noteq> Emit y) \<Longrightarrow> P x s (r, s')"
    and again: "\<And>x s y s' p. unfinished x \<Longrightarrow> read_installation cl opts (ri_id x) (show_installation x s) = (Emit y, s')
      \<Longrightarrow> P y s' p \<Longrightarrow> P x s p"
  shows "P x s p"
proof -
  define Q where "Q = (\<lambda>cl' opts' x s p. cl' = cl \<and> opts' = opts \<longrightarrow> P x s p)"
  have "Q cl opts x s p"
  proof (rule poll_snapshots.raw_induct[where P = Q and xa = "(((cl, opts), x), s)" and y = p, unfolded prod.case])
    fix f cl' opts' x s p
    assume IH: "\<And>cl opts x s r. f cl opts x s = Some r \<Longrightarrow> Q cl opts x s r"
      and step: "(let s1 = show_installation x s
        in if \<not> unfinished x then Some (Emit x, s1)
           else case read_installation cl' opts' (ri_id x) s1 of
                  (r, s2) \<Rightarrow> (case r of Emit y \<Rightarrow> f cl' opts' y s2 | Empty \<Rightarrow> Some (Empty, s2) | Error e \<Rightarrow> Some (Error e, s2))) = Some p"
    obtain o' s2 where rd: "read_installation cl' opts' (ri_id x) (show_installation x s) = (o', s2)" by fastforce
    show "Q cl' opts' x s p"
      unfolding Q_def
    proof (intro impI)
      assume "cl' = cl \<and> opts' = opts"
      then show "P x s p"
        using step rd finished[of x s] stopped[of x s o' s2] again[of x s _ s2 p] IH[of cl opts _ s2 p]
        by (cases o') (auto simp: Q_def Let_def split: if_splits)
    qed
  qed (rule ret)
  then show ?thesis by (simp add: Q_def)
qed

text \<open>Induction over the requirements of a run that returns.\<close>

lemma install_induct [consumes 1, case_names ended stopped again]:
  assumes ret: "installNext cl opts completed ids n s = Some p"
    and ended: "\<And>n s r. P n s (r, s)"
    and stopped: "\<And>n s rq r s'. n < MAX_INSTALLATIONS_PER_USER_ACTION \<Longrightarrow> install_one cl opts rq s = Some (r, s')
      \<Longrightarrow> P n s (r, s')"
    and again: "\<And>n s rq s1 p. n < MAX_INSTALLATIONS_PER_USER_ACTION \<Longrightarrow> install_one cl opts rq s = Some (Emit (), s1)
      \<Longrightarrow> P (n + 1) s1 p \<Longrightarrow> P n s p"
  shows "P n s p"
  using ret
proof (induction "MAX_INSTALLATIONS_PER_USER_ACTION - n" arbitrary: completed ids n s)
  case 0
  then have "\<exists>r. p = (r, s)"
    by (auto simp: installNext.simps[of cl opts completed ids n s] split: if_splits option.splits)
  then show ?case using ended by auto
next
  case (Suc k)
  then have n: "n < MAX_INSTALLATIONS_PER_USER_ACTION" by linarith
  define rq where "rq = (\<lambda>r :: RuntimeRequirementView. \<lparr>iq_clientRequestId = option_or (ids (req_id r)) (io_uuid opts n),
    iq_requirementId = req_id r, iq_consent = True\<rparr>)"
  have step: "(\<exists>r. p = (r, s)) \<or> (\<exists>r. install_one cl opts (rq r) s = Some p)
    \<or> (\<exists>r ids' s1. install_one cl opts (rq r) s = Some (Emit (), s1)
        \<and> installNext cl opts (req_id r # completed) ids' (n + 1) s1 = Some p)"
  proof (cases "\<not> in_aborted s \<and> next_requirement completed (io_requirements opts s) \<noteq> None")
    case True
    then obtain r where r: "\<not> in_aborted s" "next_requirement completed (io_requirements opts s) = Some r" by auto
    have eq: "installNext cl opts completed ids n s =
      (case install_one cl opts (rq r) s of
         Some (Emit _, s1) \<Rightarrow> installNext cl opts (req_id r # completed)
           (ids(req_id r \<mapsto> option_or (ids (req_id r)) (io_uuid opts n))) (n + 1) s1
       | other \<Rightarrow> other)"
      using r n by (simp add: installNext.simps[of cl opts completed ids n s] Let_def rq_def)
    show ?thesis
      using Suc.prems unfolding eq by (cases "install_one cl opts (rq r) s") (auto split: outcome.splits)
  qed (use Suc.prems in \<open>auto simp: installNext.simps[of cl opts completed ids n s] split: if_splits\<close>)
  have rec: "P n s p" if "install_one cl opts (rq r) s = Some (Emit (), s1)"
    "installNext cl opts (req_id r # completed) ids' (n + 1) s1 = Some p" for r ids' s1
    using again[OF n that(1)] Suc.hyps(1)[OF _ that(2)] Suc.hyps(2) by auto
  show ?case
    using step ended[of n s] stopped[OF n, of _ s "fst p" "snd p"] rec by auto
qed

section \<open>Effects of a run\<close>

definition keeps_run :: "('s \<Rightarrow> 's \<Rightarrow> bool) \<Rightarrow> ('s \<Rightarrow> ('a outcome \<times> 's) option) \<Rightarrow> bool" where
  "keeps_run R m \<longleftrightarrow> (\<forall>s r s'. m s = Some (r, s') \<longrightarrow> R s s')"

text \<open>What has to keep a relation so that polling keeps it: reading an installation, reloading, the
  passing of time and the updates of the signals.\<close>

definition polling_preserves ::
  "('w installer \<Rightarrow> 'w installer \<Rightarrow> bool) \<Rightarrow> 'w installer installation_client \<Rightarrow> 'w installer install_options \<Rightarrow> bool" where
  "polling_preserves R cl opts \<longleftrightarrow>
     (\<forall>i. preserves R (ic_get cl i)) \<and> preserves R (io_reload opts) \<and> (\<forall>t s. R s (io_wait opts t s))
     \<and> (\<forall>x s. R s (show_installation x s)) \<and> (\<forall>s. R s (s\<lparr>in_installation := None\<rparr>))"

locale installer_effect = state_effect R for R :: "'w installer \<Rightarrow> 'w installer \<Rightarrow> bool"
begin

lemma preserves_check_signal: "preserves R check_signal"
  by (simp add: preserves_def check_signal_def effect_refl)

lemma preserves_read:
  assumes "polling_preserves R cl opts"
  shows "preserves R (read_installation cl opts i)"
proof -
  have "preserves R (abortableDelay opts)"
    using assms by (simp add: preserves_def abortableDelay_def polling_preserves_def Let_def effect_refl)
  then show ?thesis
    using assms unfolding read_installation_def polling_preserves_def by (blast intro: preserves_bind)
qed

lemma poll_snapshots_effect:
  assumes "poll_snapshots cl opts x s = Some p" "polling_preserves R cl opts"
  shows "R s (snd p)"
  using assms
proof (induction rule: poll_induct)
  case (finished x s)
  then show ?case by (simp add: polling_preserves_def)
next
  case (stopped x s r s')
  then have "R (show_installation x s) s'"
    using preserves_read[OF stopped(4)] by (metis preserves_def snd_conv)
  then show ?case using stopped(4) unfolding polling_preserves_def by (metis effect_trans snd_conv)
next
  case (again x s y s' p)
  then have "R (show_installation x s) s'"
    using preserves_read[OF again(4)] by (metis preserves_def snd_conv)
  then show ?case using again unfolding polling_preserves_def by (metis effect_trans)
qed

lemma install_one_effect:
  assumes pp: "polling_preserves R cl opts" and run: "install_one cl opts rq s = Some (r, s')"
    and start: "R s (snd (retry_uncertain (ic_start cl rq) s))"
  shows "R s s'"
proof -
  obtain a s1 where st: "retry_uncertain (ic_start cl rq) s = (a, s1)" by fastforce
  have s1: "R s s1" using start st by simp
  show ?thesis
  proof (cases a)
    case (Emit x)
    then obtain b s2 where poll: "pollInstallation cl opts x (show_installation x s1) = Some (b, s2)"
      using run st by (auto simp: install_one_def split: option.splits)
    have "R s1 s2"
      using poll_snapshots_effect[OF poll[unfolded pollInstallation_def] pp] pp
      unfolding polling_preserves_def by (metis effect_trans snd_conv)
    moreover have "R s2 (snd (io_reload opts (s2\<lparr>in_installation := None\<rparr>)))"
      using pp unfolding polling_preserves_def preserves_def by (metis effect_trans)
    ultimately show ?thesis
      using run st Emit poll s1
      by (auto simp: install_one_def split: outcome.splits if_splits intro: effect_trans)
  qed (use run st s1 in \<open>auto simp: install_one_def\<close>)
qed

lemma preserves_retry_uncertain: "preserves R m \<Longrightarrow> preserves R (retry_uncertain m)"
  unfolding retry_uncertain_def
  by (auto intro!: preserves_catch preserves_bind preserves_check_signal preserves_basic)

lemma installNext_effect:
  assumes "installNext cl opts completed ids n s = Some p"
    and "polling_preserves R cl opts" "\<And>rq. preserves R (ic_start cl rq)"
  shows "R s (snd p)"
  using assms
proof (induction rule: install_induct)
  case (stopped n s rq r s')
  then show ?case
    using install_one_effect preserves_retry_uncertain by (metis preserves_def snd_conv)
next
  case (again n s rq s1 p)
  then have "R s s1" using install_one_effect preserves_retry_uncertain by (metis preserves_def)
  with again show ?case by (blast intro: effect_trans)
qed (simp add: effect_refl)

end

interpretation installer_count: installer_effect "same_count n" for n
  by unfold_locales

interpretation installer_keeping: installer_effect "keeping G" for G
  by unfold_locales

section \<open>Bounds, termination and redaction\<close>

text \<open>A counter kept in the world that every start request raises by at most one and that nothing
  else touches.\<close>

definition counts_starts ::
  "('w \<Rightarrow> nat) \<Rightarrow> 'w installer installation_client \<Rightarrow> 'w installer install_options \<Rightarrow> bool" where
  "counts_starts c cl opts \<longleftrightarrow>
     (\<forall>rq s. c (in_world (snd (ic_start cl rq s))) \<le> c (in_world s) + 1)
     \<and> (\<forall>i s. c (in_world (snd (ic_get cl i s))) = c (in_world s))
     \<and> (\<forall>s. c (in_world (snd (io_reload opts s))) = c (in_world s))
     \<and> (\<forall>t s. c (in_world (io_wait opts t s)) = c (in_world s))"

lemma world_unchanged [simp]:
  "in_world (show_installation x s) = in_world s" "in_world (finalize_install s) = in_world s"
  "in_world (install_failed e s) = in_world s"
  by (simp_all add: show_installation_def finalize_install_def install_failed_def Let_def)

lemma counts_polling: "counts_starts c cl opts \<Longrightarrow> polling_preserves (same_count (c \<circ> in_world)) cl opts"
  by (simp add: counts_starts_def polling_preserves_def same_count_def preserves_def)

lemma retry_starts:
  assumes "counts_starts c cl opts"
  shows "c (in_world (snd (retry_uncertain (ic_start cl rq) s))) \<le> c (in_world s) + 2"
proof -
  have once: "c (in_world (snd (ic_start cl rq s))) \<le> c (in_world s) + 1" for s
    using assms by (simp add: counts_starts_def)
  obtain a s1 where "ic_start cl rq s = (a, s1)" by fastforce
  then show ?thesis
    using once[of s] once[of s1]
    by (cases a) (auto simp: retry_uncertain_def catch_obs_def bind_obs_def check_signal_def)
qed

lemma install_one_starts:
  assumes cs: "counts_starts c cl opts" and run: "install_one cl opts rq s = Some (r, s')"
  shows "c (in_world s') \<le> c (in_world s) + 2"
proof -
  obtain a s1 where st: "retry_uncertain (ic_start cl rq) s = (a, s1)" by fastforce
  have s1: "c (in_world s1) \<le> c (in_world s) + 2" using retry_starts[OF cs, of rq s] st by simp
  have poll: "c (in_world s2) = c (in_world s1)"
    if "pollInstallation cl opts x (show_installation x s1) = Some (b, s2)" for x b s2
    using installer_count.poll_snapshots_effect[OF that[unfolded pollInstallation_def] counts_polling[OF cs]]
    by (simp add: same_count_def)
  have reload: "c (in_world (snd (io_reload opts (s2\<lparr>in_installation := None\<rparr>)))) = c (in_world s2)" for s2
    using cs by (simp add: counts_starts_def)
  show ?thesis
  proof (cases a)
    case (Emit x)
    then obtain b s2 where b: "pollInstallation cl opts x (show_installation x s1) = Some (b, s2)"
      using run st by (auto simp: install_one_def split: option.splits)
    then have "c (in_world s') = c (in_world s2)"
      using run st Emit reload[of s2] by (auto simp: install_one_def split: outcome.splits if_splits)
    then show ?thesis using poll[OF b] s1 by simp
  qed (use run st s1 in \<open>auto simp: install_one_def\<close>)
qed

lemma installNext_starts:
  assumes "installNext cl opts completed ids n s = Some p" "counts_starts c cl opts"
  shows "c (in_world (snd p)) \<le> c (in_world s) + 2 * (MAX_INSTALLATIONS_PER_USER_ACTION - n)"
  using assms
proof (induction rule: install_induct)
  case (stopped n s rq r s')
  then show ?case using install_one_starts[OF stopped(3) stopped(2)] by simp
next
  case (again n s rq s1 p)
  then show ?case using install_one_starts[OF again(4) again(2)] by simp
qed simp

text \<open>One click on install sends at most two start requests for each of at most sixteen
  requirements, whatever the runtime answers and lists as installable.\<close>

theorem install_bounded:
  assumes "counts_starts c cl opts" "install (Some cl) opts s = Some s'"
  shows "c (in_world s') \<le> c (in_world s) + 2 * MAX_INSTALLATIONS_PER_USER_ACTION"
proof (cases "in_installation s \<noteq> None \<or> installable (io_requirements opts s) = []")
  case False
  then obtain r s1 where run: "installNext cl opts [] Map.empty 0 (s\<lparr>in_controller := True, in_aborted := False\<rparr>) = Some (r, s1)"
    and s': "s' = finalize_install (case r of Error e \<Rightarrow> install_failed e s1 | _ \<Rightarrow> s1)"
    using assms(2) by (auto simp: install_def)
  show ?thesis
    using installNext_starts[OF run assms(1)] by (cases r) (simp_all add: s')
qed (use assms(2) in \<open>simp add: install_def\<close>)

text \<open>The runtime makes progress: a natural number of the world falls with every poll that answers
  with an unfinished installation.\<close>

definition polls_progress ::
  "('w \<Rightarrow> nat) \<Rightarrow> 'w installer installation_client \<Rightarrow> 'w installer install_options \<Rightarrow> bool" where
  "polls_progress rank cl opts \<longleftrightarrow>
     (\<forall>i s y s'. read_installation cl opts i s = (Emit y, s') \<and> unfinished y
        \<longrightarrow> rank (in_world s') < rank (in_world s))"

lemma poll_returns:
  assumes "polls_progress rank cl opts"
  shows "poll_snapshots cl opts x s \<noteq> None"
proof (induction "rank (in_world s)" arbitrary: x s rule: less_induct)
  case less
  obtain a s2 where rd: "read_installation cl opts (ri_id x) (show_installation x s) = (a, s2)" by fastforce
  have "poll_snapshots cl opts y s2 \<noteq> None" if "a = Emit y" for y
  proof (cases "unfinished y")
    case True
    then have "rank (in_world s2) < rank (in_world s)"
      using assms rd that unfolding polls_progress_def by (metis world_unchanged(1))
    then show ?thesis by (rule less)
  qed (simp add: poll_snapshots.simps[of cl opts y] Let_def)
  then show ?case
    by (cases a) (simp_all add: poll_snapshots.simps[of cl opts x s] Let_def rd)
qed

lemma installNext_returns:
  assumes "polls_progress rank cl opts"
  shows "installNext cl opts completed ids n s \<noteq> None"
proof (induction "MAX_INSTALLATIONS_PER_USER_ACTION - n" arbitrary: completed ids n s)
  case 0
  then show ?case by (auto simp: installNext.simps[of cl opts completed ids n s] split: option.splits)
next
  case (Suc k)
  have one: "install_one cl opts rq s \<noteq> None" for rq
  proof -
    obtain a s1 where st: "retry_uncertain (ic_start cl rq) s = (a, s1)" by fastforce
    show ?thesis
    proof (cases a)
      case (Emit x)
      obtain b s2 where "pollInstallation cl opts x (show_installation x s1) = Some (b, s2)"
        using poll_returns[OF assms, of x] unfolding pollInstallation_def by fastforce
      then show ?thesis using st Emit by (cases b) (auto simp: install_one_def)
    qed (use st in \<open>auto simp: install_one_def\<close>)
  qed
  have rec: "\<exists>a b. installNext cl opts completed' ids' (Suc n) s1 = Some (a, b)" for completed' ids' s1
    using Suc(1)[of "Suc n"] Suc(2) by fastforce
  show ?case
    by (auto simp: installNext.simps[of cl opts completed ids n s] Let_def one rec
        simp del: not_None_eq split: option.splits outcome.splits)
qed

text \<open>Installing returns whenever the installations of the runtime make progress.\<close>

theorem install_returns:
  assumes "polls_progress rank cl opts"
  shows "\<exists>s'. install (Some cl) opts s = Some s'"
  using installNext_returns[OF assms] by (auto simp: install_def)

text \<open>What the service shows went through redaction.\<close>

definition redacted_view :: "'w installer \<Rightarrow> bool" where
  "redacted_view s \<longleftrightarrow>
     (\<forall>x f. in_installation s = Some x \<longrightarrow> ri_error x = Some f
        \<longrightarrow> (\<exists>g. f = redactFailure g))
     \<and> (\<forall>m. in_error s = Some m \<longrightarrow> (\<exists>e d. m = errorMessage e d \<and> d \<in> {''Runtime installation failed.'', ''Unable to cancel runtime installation.''}))"

definition client_redacts :: "'w installer installation_client \<Rightarrow> 'w installer install_options \<Rightarrow> bool" where
  "client_redacts cl opts \<longleftrightarrow>
     (\<forall>rq. preserves (keeping redacted_view) (ic_start cl rq))
     \<and> (\<forall>i. preserves (keeping redacted_view) (ic_get cl i))
     \<and> (\<forall>i. preserves (keeping redacted_view) (ic_cancel cl i))
     \<and> preserves (keeping redacted_view) (io_reload opts)
     \<and> (\<forall>t s. keeping redacted_view s (io_wait opts t s))"

lemma redacted_show: "redacted_view s \<Longrightarrow> redacted_view (show_installation x s)"
  by (auto simp: redacted_view_def show_installation_def sanitizeInstallation_def)

lemma redacted_updates:
  "redacted_view s \<Longrightarrow> redacted_view (s\<lparr>in_installation := None\<rparr>)"
  "redacted_view s \<Longrightarrow> redacted_view (s\<lparr>in_controller := a\<rparr>)"
  "redacted_view s \<Longrightarrow> redacted_view (s\<lparr>in_aborted := b\<rparr>)"
  "redacted_view s \<Longrightarrow> redacted_view (clearError s)"
  "redacted_view s \<Longrightarrow> redacted_view (finalize_install s)"
  "redacted_view s \<Longrightarrow> redacted_view (install_failed e s)"
  by (auto simp: redacted_view_def clearError_def finalize_install_def install_failed_def Let_def)

lemma redacted_cancel:
  assumes "client_redacts cl opts" "redacted_view s"
  shows "redacted_view (cancel_install (Some cl) s)"
proof -
  define s0 where "s0 = s\<lparr>in_aborted := in_controller s \<or> in_aborted s\<rparr>"
  have "redacted_view s0" unfolding s0_def by (rule redacted_updates[OF assms(2)])
  then have after: "redacted_view (snd (ic_cancel cl i s0))" for i
    using assms(1) by (simp add: client_redacts_def preserves_def keeping_def)
  show ?thesis
  proof (cases "in_installation s")
    case (Some x)
    obtain a s1 where a: "ic_cancel cl (ri_id x) s0 = (a, s1)" by fastforce
    then have s1: "redacted_view s1" using after[of "ri_id x"] by simp
    then have "redacted_view (s1\<lparr>in_error := Some (errorMessage e ''Unable to cancel runtime installation.'')\<rparr>)" for e
      by (auto simp: redacted_view_def)
    then show ?thesis
      using a s1 Some redacted_show[OF s1]
      by (cases a) (simp_all add: cancel_install_def s0_def)
  qed (simp add: cancel_install_def assms(2))
qed

lemma redacted_install:
  assumes cr: "client_redacts cl opts" and s: "redacted_view s" and run: "install (Some cl) opts s = Some s'"
  shows "redacted_view s'"
proof (cases "in_installation s \<noteq> None \<or> installable (io_requirements opts s) = []")
  case False
  then obtain r s1 where r: "installNext cl opts [] Map.empty 0 (s\<lparr>in_controller := True, in_aborted := False\<rparr>) = Some (r, s1)"
    and s': "s' = finalize_install (case r of Error e \<Rightarrow> install_failed e s1 | _ \<Rightarrow> s1)"
    using run by (auto simp: install_def)
  have "polling_preserves (keeping redacted_view) cl opts"
    using cr redacted_show redacted_updates(1) by (auto simp: client_redacts_def polling_preserves_def keeping_def)
  then have "redacted_view s1"
    using installer_keeping.installNext_effect[OF r, of redacted_view] cr redacted_updates(3)[OF redacted_updates(2)[OF s]]
    by (simp add: client_redacts_def keeping_def)
  then show ?thesis unfolding s' by (cases r) (simp_all add: redacted_updates)
qed (use run s in \<open>simp add: install_def\<close>)

text \<open>Whatever failure the service shows, of an installation or of its own, went through
  redaction, when every other part of the program that runs meanwhile keeps it so.\<close>

theorem installer_shows_redacted:
  assumes "client_redacts cl opts" "redacted_view s"
  shows "redacted_view (cancel_install (Some cl) s)
    \<and> (\<forall>s'. install (Some cl) opts s = Some s' \<longrightarrow> redacted_view s')"
  using redacted_cancel[OF assms] redacted_install[OF assms] by blast

text \<open>An installation that failed or was cancelled stays, and blocks every later action.\<close>

lemma unfinished_installation_blocks:
  assumes "in_installation s = None" "install (Some cl) opts s = Some s'" "in_installation s' = Some x"
  shows "ri_status x \<noteq> ''completed'' \<and> install client opts' s' = Some s'"
proof -
  have "in_installation (finalize_install s1) = Some x \<Longrightarrow> ri_status x \<noteq> ''completed''" for s1 :: "'a installer"
    by (auto simp: finalize_install_def Let_def split: if_splits)
  then have "ri_status x \<noteq> ''completed''"
    using assms by (auto simp: install_def split: if_splits)
  then show ?thesis using assms(3) by (simp add: install_def split: option.splits)
qed

section \<open>An example\<close>

text \<open>The world counts start requests and the polls an installation still takes; the OCR model
  is installed before speech recognition.\<close>

record example_world =
  ew_starts :: nat
  ew_polls :: nat
  ew_installed :: "string list"

definition example_installation :: "string \<Rightarrow> string \<Rightarrow> RuntimeInstallation" where
  "example_installation r st = \<lparr>ri_id = r, ri_requirementId = r, ri_status = st, ri_error = None\<rparr>"

definition example_client :: "example_world installer installation_client" where
  "example_client =
     \<lparr>ic_start = (\<lambda>rq s. (Emit (example_installation (iq_requirementId rq) ''queued''),
          s\<lparr>in_world := (in_world s)\<lparr>ew_starts := Suc (ew_starts (in_world s)), ew_polls := 1\<rparr>\<rparr>)),
      ic_get = (\<lambda>i s. if ew_polls (in_world s) = 0
          then (Emit (example_installation i ''completed''),
                s\<lparr>in_world := (in_world s)\<lparr>ew_installed := i # ew_installed (in_world s)\<rparr>\<rparr>)
          else (Emit (example_installation i ''running''),
                s\<lparr>in_world := (in_world s)\<lparr>ew_polls := ew_polls (in_world s) - 1\<rparr>\<rparr>)),
      ic_cancel = (\<lambda>i s. (Emit (example_installation i ''cancelled''), s))\<rparr>"

definition example_options :: "example_world installer install_options" where
  "example_options =
     \<lparr>io_requirements = (\<lambda>s. map (\<lambda>i. \<lparr>req_id = i,
          req_status = if i \<in> set (ew_installed (in_world s)) then ''ready'' else ''installable'', req_optional = False\<rparr>)
          [''speech-recognition'', ''windowsml-ocr'']),
      io_pollIntervalMs = (\<lambda>_. num 500), io_reload = return_obs (), io_wait = (\<lambda>_ s. s), io_uuid = (\<lambda>_. ''u'')\<rparr>"

definition example_installer :: "example_world installer" where
  "example_installer = \<lparr>in_installation = None, in_error = None, in_controller = False, in_aborted = False,
     in_world = \<lparr>ew_starts = 0, ew_polls = 0, ew_installed = []\<rparr>\<rparr>"

lemma example_install:
  "install (Some example_client) example_options example_installer =
     Some (example_installer\<lparr>in_world := \<lparr>ew_starts = 2, ew_polls = 0,
       ew_installed = [''speech-recognition'', ''windowsml-ocr'']\<rparr>\<rparr>)"
  by code_simp

lemmas example_parts = example_client_def example_options_def

lemma installation_example_facts:
  "counts_starts ew_starts example_client example_options"
  "polls_progress ew_polls example_client example_options"
  "client_redacts example_client example_options" "redacted_view example_installer"
proof -
  show "counts_starts ew_starts example_client example_options"
    by (simp add: counts_starts_def example_parts)
  show "polls_progress ew_polls example_client example_options"
    by (auto simp: polls_progress_def example_parts read_installation_def abortableDelay_def bind_obs_def Let_def
        example_installation_def unfinished_def split: if_splits)
  show "client_redacts example_client example_options"
    by (simp add: client_redacts_def example_parts preserves_def keeping_def redacted_view_def)
  show "redacted_view example_installer" by (simp add: redacted_view_def example_installer_def)
qed

theorem next_requirement_least_witness:
  "next_requirement [''windowsml-ocr''] (io_requirements example_options example_installer)
     = Some \<lparr>req_id = ''speech-recognition'', req_status = ''installable'', req_optional = False\<rparr>
   \<and> ''speech-recognition'' \<notin> set [''windowsml-ocr'']"
proof -
  have "next_requirement [''windowsml-ocr''] (io_requirements example_options example_installer)
     = Some \<lparr>req_id = ''speech-recognition'', req_status = ''installable'', req_optional = False\<rparr>"
    by code_simp
  with next_requirement_least[where completed = "[''windowsml-ocr'']" and rs = "io_requirements example_options example_installer"]
  show ?thesis by simp
qed

theorem install_bounded_witness:
  "\<exists>s'. install (Some example_client) example_options example_installer = Some s'
     \<and> ew_starts (in_world s') = 2 \<and> ew_starts (in_world s') \<le> 0 + 2 * MAX_INSTALLATIONS_PER_USER_ACTION"
  using install_bounded[OF installation_example_facts(1) example_install] unfolding example_install
  by (simp add: example_installer_def)

theorem install_returns_witness: "install (Some example_client) example_options example_installer \<noteq> None"
  using install_returns[OF installation_example_facts(2)] by blast

theorem installer_shows_redacted_witness: "redacted_view (cancel_install (Some example_client) example_installer)"
  using installer_shows_redacted[OF installation_example_facts(3,4)] by blast

end
