(* ===== verification/Workbench_Adapter.thy ===== *)
theory Workbench_Adapter
  imports Runtime_Client Workbench_Installation
begin

text \<open>
  \<^verbatim>\<open>packages/capture-workbench-ui/src/lib/http-capture-client.ts\<close> and
  \<^verbatim>\<open>capture-http-error.ts\<close>: the client of the workbench over the framework-neutral client of
  \<open>Runtime_Client\<close>. Every method is one call of that client with its error translated. The
  answers of the runtime client are JSON objects, which TypeScript reads at the types of the
  contract; \<open>adapter_views\<close> is that reading. A \<open>TypeError\<close> of the language passes unchanged;
  its text is the argument \<open>tm\<close>.
\<close>

section \<open>Errors\<close>

record CaptureHttpError =
  ch_status :: int
  ch_code :: json
  ch_message :: string
  ch_details :: json

function redactSensitiveValue :: "json \<Rightarrow> nat \<Rightarrow> json" where
  "redactSensitiveValue value depth =
     (if depth > 4 \<or> value = JNull \<or> value = JUndef then value
      else (case value of
              JStr s \<Rightarrow> JStr (redactSensitiveMessage s)
            | JArr xs \<Rightarrow> JArr (map (\<lambda>x. redactSensitiveValue x (depth + 1)) xs)
            | JObj r \<Rightarrow> JObj (map (\<lambda>(k, v). (k, if sensitive_key k then JStr ''[redacted]''
                                                else redactSensitiveValue v (depth + 1)))
                               (filter (\<lambda>(k, v). k \<noteq> ''__proto__'') r))
            | _ \<Rightarrow> value))"
  by pat_completeness auto
termination
  by (relation "measure (\<lambda>(_, d). 5 - d)") auto

declare redactSensitiveValue.simps [simp del]

definition new_CaptureHttpError :: "int \<Rightarrow> json \<Rightarrow> string \<Rightarrow> json \<Rightarrow> CaptureHttpError" where
  "new_CaptureHttpError status code message details =
     \<lparr>ch_status = status, ch_code = code, ch_message = redactSensitiveMessage message,
      ch_details = redactSensitiveValue details 0\<rparr>"

text \<open>What the handlers of the workbench read of such an error.\<close>

definition as_thrown :: "CaptureHttpError \<Rightarrow> thrown" where
  "as_thrown e = \<lparr>th_isError = True, th_isTypeError = False, th_name = ''CaptureHttpError'', th_code = ch_code e,
                  th_message = JStr (ch_message e), th_status = JNum (num (ch_status e)),
                  th_string = ''CaptureHttpError: '' @ ch_message e\<rparr>"

definition toCaptureHttpError :: "string \<Rightarrow> exn \<Rightarrow> thrown" where
  "toCaptureHttpError tm e =
     (case e of
        AbortErr \<Rightarrow> abort_error
      | RuntimeErr r \<Rightarrow> as_thrown (new_CaptureHttpError (err_status r) (err_code r) (err_message r) (err_details r))
      | TypeErr \<Rightarrow> \<lparr>th_isError = True, th_isTypeError = True, th_name = ''TypeError'', th_code = JUndef,
                   th_message = JStr tm, th_status = JUndef, th_string = ''TypeError: '' @ tm\<rparr>
      | OtherErr m \<Rightarrow> new_Error m)"

section \<open>The adapter\<close>

record adapter_views =
  vw_operation :: "json \<Rightarrow> CaptureOperation"
  vw_partial :: "json \<Rightarrow> PartialCapture"
  vw_raw :: "json \<Rightarrow> RawCapture"
  vw_result :: "json \<Rightarrow> StreamingResultView"
  vw_event :: "jobj \<Rightarrow> CaptureEvent"
  vw_installation :: "json \<Rightarrow> RuntimeInstallation"
  vw_ingestion :: "json \<Rightarrow> ingestion"
  vw_chunkLimit :: "json \<Rightarrow> int"
  vw_document :: "CaptureDocument \<Rightarrow> json"

record 'w http_client =
  hc_env :: host_env
  hc_runtime :: "'w client"
  hc_views :: adapter_views
  hc_typeMessage :: string
  hc_uuid :: string

text \<open>The adapter keeps the readiness of the first negotiation that succeeded.\<close>

record 'w http_state =
  ha_discovery :: "json option"
  ha_runtime :: "'w client_state"

definition browser_transport_required :: thrown where
  "browser_transport_required =
     as_thrown (new_CaptureHttpError 0 (JStr ''browser_transport_required'')
       ''Capture Workbench requires a host-provided RuntimeTransport.'' JUndef)"

definition new_HttpCaptureClient ::
  "(string \<Rightarrow> url option) \<Rightarrow> ('w \<Rightarrow> fetch_call \<Rightarrow> (exn + response) \<times> 'w) \<Rightarrow> bool \<Rightarrow> string \<Rightarrow> 'w sender option
     \<Rightarrow> thrown + 'w client" where
  "new_HttpCaptureClient parse fetch browser tm transport =
     (case transport of
        None \<Rightarrow> Inl browser_transport_required
      | Some t \<Rightarrow>
          (case new_CaptureRuntimeClient parse fetch browser (ArgTransport t) of
             Inl e \<Rightarrow> Inl (toCaptureHttpError tm e) | Inr cl \<Rightarrow> Inr cl))"

definition fromRuntime ::
  "'w http_client \<Rightarrow> ('w client_state, exn, 'a) io \<Rightarrow> ('w http_state, 'a) obs" where
  "fromRuntime h m s =
     (case m (ha_runtime s) of
        (Inr x, r) \<Rightarrow> (Emit x, s\<lparr>ha_runtime := r\<rparr>)
      | (Inl e, r) \<Rightarrow> (Error (toCaptureHttpError (hc_typeMessage h) e), s\<lparr>ha_runtime := r\<rparr>))"

definition http_call_json ::
  "'w http_client \<Rightarrow> (json \<Rightarrow> 'a) \<Rightarrow> call \<Rightarrow> ('w http_state, 'a) obs" where
  "http_call_json h view c =
     bind_obs (fromRuntime h (client_json (hc_env h) (hc_runtime h) c)) (\<lambda>v. return_obs (view v))"

definition http_getReady :: "'w http_client \<Rightarrow> ('w http_state, json) obs" where
  "http_getReady h s =
     (case ha_discovery s of
        Some ready \<Rightarrow> (Emit ready, s)
      | None \<Rightarrow>
          (case fromRuntime h (discover (hc_env h) (hc_runtime h)) s of
             (Emit d, s1) \<Rightarrow> (Emit (disc_ready d), s1\<lparr>ha_discovery := Some (disc_ready d)\<rparr>)
           | (Empty, s1) \<Rightarrow> (Empty, s1)
           | (Error e, s1) \<Rightarrow> (Error e, s1\<lparr>ha_discovery := None\<rparr>)))"

definition mediaTypeFor :: "file_kind \<Rightarrow> string" where
  "mediaTypeFor k =
     (if k = Kind Pdf then ''application/pdf'' else if k = Kind Image then ''image/*'' else ''audio/*'')"

text \<open>The other two constructors are outside the declared type of the parameter.\<close>

fun kind_text :: "file_kind \<Rightarrow> string" where
  "kind_text (Kind Pdf) = ''pdf''"
| "kind_text (Kind Image) = ''image''"
| "kind_text (Kind Audio) = ''audio''"
| "kind_text NoKind = ''null''"
| "kind_text (Inherited p) = p"

definition upload_of :: "StartRequest \<Rightarrow> capture_upload" where
  "upload_of rq =
     \<lparr>up_fileName = file_name (st_file rq), up_bytes = file_data (st_file rq),
      up_mediaType = Some (str_or (file_type (st_file rq)) (mediaTypeFor (st_sourceKind rq))),
      up_sourceKind = kind_text (st_sourceKind rq), up_targetLanguage = st_targetLanguage rq,
      up_structuringMode = Some (st_structuringMode rq), up_pdfPageNumbers = JUndef,
      up_identifySpeakers = st_identifySpeakers rq, up_spokenLanguage = st_spokenLanguage rq,
      up_clientRequestId = st_clientRequestId rq\<rparr>"

definition http_startStreamingCapture ::
  "'w http_client \<Rightarrow> StartRequest \<Rightarrow> ('w http_state, CaptureOperation) obs" where
  "http_startStreamingCapture h rq =
     bind_obs (fromRuntime h (\<lambda>st.
         let a = client_startStreamingCapture (hc_env h) (vw_ingestion (hc_views h)) (vw_chunkLimit (hc_views h))
                   (hc_runtime h) (upload_of rq) st
         in (fst a, snd (snd a)))) (\<lambda>v. return_obs (vw_operation (hc_views h) v))"

definition http_captureEvents ::
  "'w http_client \<Rightarrow> string \<Rightarrow> jnum \<Rightarrow> 'w http_state \<Rightarrow> (CaptureEvent list \<times> thrown option) \<times> 'w http_state" where
  "http_captureEvents h c lastEventId s =
     (case client_captureEvents (hc_env h) (hc_runtime h) c
             \<lparr>eo_lastEventId = Some (JNum lastEventId), eo_maxReconnects = None\<rparr> (ha_runtime s) of
        (e, steps, r) \<Rightarrow>
          ((map (vw_event (hc_views h)) (yielded steps), map_option (toCaptureHttpError (hc_typeMessage h)) e),
           s\<lparr>ha_runtime := r\<rparr>))"

definition http_capture_client :: "'w http_client \<Rightarrow> 'w http_state capture_client" where
  "http_capture_client h =
     (let v = hc_views h
      in \<lparr>cc_start = http_startStreamingCapture h,
          cc_get = (\<lambda>c. http_call_json h (vw_operation v) (getStreamingCapture c)),
          cc_cancel = (\<lambda>c. http_call_json h (vw_operation v) (cancelStreamingCapture c)),
          cc_partial = (\<lambda>c. http_call_json h (vw_partial v) (getStreamingPartial c)),
          cc_raw = (\<lambda>c. http_call_json h (vw_raw v) (getRaw c)),
          cc_result = (\<lambda>c. http_call_json h (vw_result v) (getStreamingResult c)),
          cc_commit = (\<lambda>c i d. http_call_json h (vw_operation v) (commitStreamingStructuredResult c (vw_document v d) i)),
          cc_report = (\<lambda>c code message. http_call_json h (vw_operation v)
            (reportStreamingStructuringFailure c code message (hc_uuid h))),
          cc_events = http_captureEvents h\<rparr>)"

definition http_startInstallation ::
  "'w http_client \<Rightarrow> InstallationRequest \<Rightarrow> ('w http_state, RuntimeInstallation) obs" where
  "http_startInstallation h rq =
     http_call_json h (vw_installation (hc_views h)) (startInstallation (iq_requirementId rq) (iq_clientRequestId rq))"

definition http_getInstallation :: "'w http_client \<Rightarrow> string \<Rightarrow> ('w http_state, RuntimeInstallation) obs" where
  "http_getInstallation h i = http_call_json h (vw_installation (hc_views h)) (getInstallation i)"

definition http_cancelInstallation :: "'w http_client \<Rightarrow> string \<Rightarrow> ('w http_state, RuntimeInstallation) obs" where
  "http_cancelInstallation h i = http_call_json h (vw_installation (hc_views h)) (cancelInstallation i)"

definition http_listInstallations :: "'w http_client \<Rightarrow> ('w http_state, json) obs" where
  "http_listInstallations h = http_call_json h (\<lambda>v. v) listInstallations"

definition http_getRequirements :: "'w http_client \<Rightarrow> ('w http_state, json) obs" where
  "http_getRequirements h = http_call_json h (\<lambda>v. v) getRequirements"

definition http_deleteStreamingCapture :: "'w http_client \<Rightarrow> string \<Rightarrow> ('w http_state, unit) obs" where
  "http_deleteStreamingCapture h c = http_call_json h (\<lambda>_. ()) (deleteCapture c)"

section \<open>What the adapter guarantees\<close>

lemma decoded_error:
  assumes "thrown_error r = RuntimeErr e"
  shows "err_status e = resp_status r \<and> (resp_status r \<in> {401, 403} \<longrightarrow> err_code e = JStr ''unauthorized'')"
proof -
  have "decodeError r = Inr e"
    using assms by (auto simp: thrown_error_def decodeError_def Let_def split: sum.splits json.splits if_splits)
  then show ?thesis
    unfolding decodeError_def Let_def
    by (auto simp: new_CaptureAuthenticationError_def new_CaptureRemoteError_def new_CaptureRuntimeError_def
        split: json.splits if_splits)
qed

lemma status_zero:
  "err_status (new_CaptureTransportError m d c) = 0" "err_status (new_CaptureRuntimeProtocolError m d) = 0"
  by (simp_all add: new_CaptureTransportError_def new_CaptureRuntimeProtocolError_def new_CaptureRuntimeError_def)

lemma runtime_error_uncertain:
  "isUncertainResponseFailure (toCaptureHttpError tm (RuntimeErr x)) \<longleftrightarrow>
     err_status x = 0 \<or> 500 \<le> err_status x \<or> err_code x = JStr ''invalid_response''"
  by (auto simp: isUncertainResponseFailure_def toCaptureHttpError_def as_thrown_def new_CaptureHttpError_def
      isAbortError_def num_def js_le_def)

lemma abort_not_uncertain: "\<not> isUncertainResponseFailure (toCaptureHttpError tm AbortErr)"
  by (simp add: isUncertainResponseFailure_def isAbortError_def abort_error_def toCaptureHttpError_def)

text \<open>Which failures the workbench sends again: seen through the adapter, an answer of the runtime
  with an error status is uncertain exactly when it is a server error or carries the code
  \<open>invalid_response\<close>, failures below HTTP and malformed answers always are, and a cancelled call
  never is. A refused credential is definite whatever its body says.\<close>

theorem adapter_uncertainty:
  assumes "thrown_error r = RuntimeErr e" and "0 < resp_status r"
  shows "(isUncertainResponseFailure (toCaptureHttpError tm (thrown_error r))
            \<longleftrightarrow> 500 \<le> resp_status r \<or> err_code e = JStr ''invalid_response'')
    \<and> isUncertainResponseFailure (toCaptureHttpError tm transport_failed)
    \<and> isUncertainResponseFailure (toCaptureHttpError tm (protocol_error m))
    \<and> \<not> isUncertainResponseFailure (toCaptureHttpError tm AbortErr)
    \<and> (resp_status r \<in> {401, 403} \<longrightarrow> \<not> isUncertainResponseFailure (toCaptureHttpError tm (thrown_error r)))"
proof -
  have status: "err_status e = resp_status r"
    and refused: "resp_status r \<in> {401, 403} \<Longrightarrow> err_code e = JStr ''unauthorized''"
    using decoded_error[OF assms(1)] by blast+
  show ?thesis
    unfolding assms(1) transport_failed_def runtime_error_uncertain status
    using assms(2) refused by (auto simp: status_zero abort_not_uncertain)
qed

lemma client_json_refused:
  assumes "requiresDiscovery (rq_path (fst c))" "cs_discovery st = None"
    and "negotiate env cl unsettled (cs_world st) = (Inl e, w)"
  shows "client_json env cl c st = (Inl e, \<lparr>cs_discovery = None, cs_world = w\<rparr>)"
  using assms by (simp add: client_json_def client_request_def requestWithRetry_def bind_io_def discover_def)

lemma http_call_refused:
  assumes "requiresDiscovery (rq_path (fst c))" "cs_discovery (ha_runtime s) = None"
    and "negotiate (hc_env h) (hc_runtime h) unsettled (cs_world (ha_runtime s)) = (Inl e, w)"
  shows "http_call_json h view c s = (Error (toCaptureHttpError (hc_typeMessage h) e),
    s\<lparr>ha_runtime := \<lparr>cs_discovery = None, cs_world = w\<rparr>\<rparr>)"
  using client_json_refused[OF assms] by (simp add: http_call_json_def fromRuntime_def bind_obs_def)


text \<open>Seen through the adapter an incompatible runtime is shown as an error and not as incompatible:
  the translation renames the error by which the store would recognise it.\<close>

lemma incompatible_runtime_not_recognised:
  "rt_status (runtime c ErrorStatus handshake (toCaptureHttpError tm (compatibility_error m)) installationError) = RtError"
  by (simp add: runtime_def view_of_def toCaptureHttpError_def as_thrown_def)

lemma getReady_kept:
  "http_getReady h s = (Emit ready, s') \<Longrightarrow> http_getReady h s' = (Emit ready, s')"
  by (auto simp: http_getReady_def split: option.splits prod.splits outcome.splits)

section \<open>Examples\<close>

definition blank_views :: adapter_views where
  "blank_views =
     \<lparr>vw_operation = (\<lambda>_. \<lparr>op_captureId = ''c'', op_status = ''queued'', op_lastEventSequence = num 0, op_progress = None, op_error = None\<rparr>),
      vw_partial = (\<lambda>_. \<lparr>pt_source = example_source, pt_segments = None, pt_sourceText = None, pt_extractionEngine = None, pt_updatedAt = []\<rparr>),
      vw_raw = (\<lambda>_. example_raw), vw_result = (\<lambda>_. \<lparr>sr_raw = example_raw, sr_result = example_document\<rparr>),
      vw_event = (\<lambda>_. \<lparr>ev_eventType = ''completed'', ev_stage = ''completed''\<rparr>),
      vw_installation = (\<lambda>_. example_installation ''i'' ''queued''),
      vw_ingestion = (\<lambda>_. \<lparr>ing_id = ''i'', ing_nextOffset = 0, ing_nextChunkIndex = 0\<rparr>),
      vw_chunkLimit = (\<lambda>_. 1), vw_document = (\<lambda>_. JNull)\<rparr>"

definition offline_client :: "unit http_client" where
  "offline_client = \<lparr>hc_env = example_env, hc_runtime = Runtime_Client.example_client, hc_views = blank_views,
     hc_typeMessage = ''not a function'', hc_uuid = ''u''\<rparr>"

definition offline_state :: "unit http_state" where
  "offline_state = \<lparr>ha_discovery = None, ha_runtime = \<lparr>cs_discovery = None, cs_world = ()\<rparr>\<rparr>"

lemma not_found_error: "\<exists>e. thrown_error not_found = RuntimeErr e"
  by (simp add: thrown_error_def decodeError_def Let_def not_found_def jprop_def coalesce_def)


theorem adapter_uncertainty_witness:
  "\<exists>e. thrown_error not_found = RuntimeErr e
     \<and> (isUncertainResponseFailure (toCaptureHttpError [] (thrown_error not_found))
          \<longleftrightarrow> err_code e = JStr ''invalid_response'')"
proof -
  have "(500::int) \<le> resp_status not_found \<longleftrightarrow> False" "0 < resp_status not_found" by code_simp+
  moreover obtain e where "thrown_error not_found = RuntimeErr e"
    using not_found_error by blast
  ultimately show ?thesis using adapter_uncertainty[of not_found e "[]"] by blast
qed

end
