(* ===== verification/Workbench_Reconciliation.thy ===== *)
theory Workbench_Reconciliation
  imports Workbench_Streams
begin

text \<open>
  \<^verbatim>\<open>packages/capture-workbench-ui/src/lib/capture-workflow/capture-reconciliation.service.ts\<close>:
  committing a host's result or reporting its failure until the runtime's state is known, and
  bringing a task whose outcome is unknown back in line with the runtime. The service works on
  the tasks through the functions the workflow hands it (\<open>CaptureReconciliationContext\<close>); what
  it relies on in them is the locale \<open>reconciliation_host\<close>, and the workflow's own functions are
  an interpretation of it.
\<close>

section \<open>Operations on the runtime\<close>

definition unless_abort :: "(thrown \<Rightarrow> ('s, 'a) obs) \<Rightarrow> thrown \<Rightarrow> ('s, 'a) obs" where
  "unless_abort h e = (if isAbortError e then throw_obs e else h e)"

definition commitAttempt ::
  "'s capture_client \<Rightarrow> string \<Rightarrow> string \<Rightarrow> CaptureDocument \<Rightarrow> ('s, CaptureOperation) obs" where
  "commitAttempt cl c requestId candidate =
     catch_obs (cc_commit cl c requestId candidate) (unless_abort (\<lambda>_. cc_get cl c))"

definition reportAttempt :: "'s capture_client \<Rightarrow> string \<Rightarrow> string \<Rightarrow> ('s, CaptureOperation) obs" where
  "reportAttempt cl c message =
     catch_obs (cc_report cl c HOST_PROVIDER_FAILURE_CODE message) (unless_abort (\<lambda>_. cc_get cl c))"

definition waitForTerminal ::
  "'s capture_client \<Rightarrow> ('s \<Rightarrow> bool) \<Rightarrow> 's stream_hooks \<Rightarrow> bool \<Rightarrow> CaptureOperation \<Rightarrow> ('s, CaptureOperation) obs" where
  "waitForTerminal cl ab hk stopForHost initial s =
     (if isTerminalStreamingOperation initial then (Emit initial, s)
      else follow_stream cl ab (\<not> ab s) hk stopForHost 0 initial s)"

definition HostReconciliationUnavailableError :: thrown where
  "HostReconciliationUnavailableError =
     (new_Error unconfirmed_message)\<lparr>th_name := ''HostReconciliationUnavailableError''\<rparr>"

definition cancelAndConfirm :: "'s capture_client \<Rightarrow> ('s \<Rightarrow> bool) \<Rightarrow> string \<Rightarrow> ('s, CaptureOperation) obs" where
  "cancelAndConfirm cl ab c =
     bind_obs (catch_obs (cc_cancel cl c) (unless_abort (\<lambda>_. cc_get cl c))) (\<lambda>x.
     bind_obs (waitForTerminal cl ab no_hooks False x) (\<lambda>y.
       if isTerminalStreamingOperation y then return_obs y
       else throw_obs HostReconciliationUnavailableError))"

definition reportHostFailureAndReconcile ::
  "'s capture_client \<Rightarrow> ('s \<Rightarrow> bool) \<Rightarrow> string \<Rightarrow> string \<Rightarrow> ('s, CaptureOperation) obs" where
  "reportHostFailureAndReconcile cl ab c message =
     bind_obs (reportAttempt cl c message) (\<lambda>reported.
       if isTerminalStreamingOperation reported then return_obs reported
       else cancelAndConfirm cl ab c)"

definition commitHostResultAndReconcile ::
  "'s capture_client \<Rightarrow> ('s \<Rightarrow> bool) \<Rightarrow> string \<Rightarrow> string \<Rightarrow> CaptureDocument \<Rightarrow> ('s, CaptureOperation) obs" where
  "commitHostResultAndReconcile cl ab c requestId candidate =
     bind_obs (commitAttempt cl c requestId candidate) (\<lambda>first.
     bind_obs (if isAwaitingHostStructuring first then commitAttempt cl c requestId candidate
               else return_obs first) (\<lambda>second.
       if isAwaitingHostStructuring second
       then reportHostFailureAndReconcile cl ab c ''Host structured result could not be committed.''
       else return_obs second))"

section \<open>The host of the service\<close>

record 's reconciliation_context =
  rc_getTask :: "string \<Rightarrow> 's \<Rightarrow> CaptureTaskView option"
  rc_updateTask :: "string \<Rightarrow> patch \<Rightarrow> 's \<Rightarrow> CaptureTaskView option \<times> 's"
  rc_requireReconciliation :: "string \<Rightarrow> CaptureFailure \<Rightarrow> RawCapture option \<Rightarrow> 's \<Rightarrow> 's"
  rc_failTask :: "string \<Rightarrow> string \<Rightarrow> CaptureFailure \<Rightarrow> RawCapture option \<Rightarrow> string option \<Rightarrow> 's \<Rightarrow> 's"
  rc_emitCompleted :: "string \<Rightarrow> CaptureDocument \<Rightarrow> CaptureReview option \<Rightarrow> 's \<Rightarrow> 's"
  rc_emitCanceled :: "CaptureTaskView \<Rightarrow> 's \<Rightarrow> 's"

text \<open>The service's own state: the tasks it is working on. \<open>rs_host\<close> is the state of its host.\<close>

record 's recon =
  rs_host :: 's
  rs_locks :: "string list"

definition on_host :: "('s \<Rightarrow> 's) \<Rightarrow> 's recon \<Rightarrow> 's recon" where
  "on_host f r = r\<lparr>rs_host := f (rs_host r)\<rparr>"

definition rc_patch :: "'s reconciliation_context \<Rightarrow> string \<Rightarrow> patch \<Rightarrow> 's \<Rightarrow> 's" where
  "rc_patch cx i p s = snd (rc_updateTask cx i p s)"

definition applyReconPartial :: "'s reconciliation_context \<Rightarrow> string \<Rightarrow> PartialCapture \<Rightarrow> 's \<Rightarrow> 's" where
  "applyReconPartial cx i p s =
     (case partialCaptureToRaw p of Inl _ \<Rightarrow> s | Inr raw \<Rightarrow> rc_patch cx i [SetRaw (Some raw)] s)"

definition recon_hooks :: "'s reconciliation_context \<Rightarrow> string \<Rightarrow> 's recon stream_hooks" where
  "recon_hooks cx i =
     \<lparr>hk_event = (\<lambda>e. on_host (rc_patch cx i [SetStage (Some (streamingStage (ev_stage e)))])),
      hk_operation = (\<lambda>x. on_host (rc_patch cx i ([SetStage (Some (streamingStage (op_status x)))]
         @ (case op_progress x of None \<Rightarrow> [] | Some p \<Rightarrow> [SetProgress (runtimeProgressPercent p)])))),
      hk_partial = Some (\<lambda>p. on_host (applyReconPartial cx i p))\<rparr>"

definition unknownTerminalState :: "CaptureOperation \<Rightarrow> CaptureFailure" where
  "unknownTerminalState x =
     \<lparr>fl_code = HOST_RECONCILIATION_FAILURE_CODE,
      fl_message = ''Capture runtime is still '' @ op_status x @ ''; check again or cancel it.'',
      fl_stage = Some (if op_status x = ''awaiting_structuring'' then ''structuring'' else ''runtime''),
      fl_retryable = Some True\<rparr>"

definition operation_failure :: "CaptureOperation \<Rightarrow> CaptureFailure" where
  "operation_failure x =
     (case op_error x of
        Some e \<Rightarrow> e
      | None \<Rightarrow> \<lparr>fl_code = ''capture_failed'', fl_message = ''Capture failed.'', fl_stage = Some ''runtime'',
                 fl_retryable = None\<rparr>)"

definition cancelled_patch :: patch where
  "cancelled_patch = [SetStatus Canceled, SetStage (Some ''cancelled''), SetError None]"

definition completed_patch :: "StreamingResultView \<Rightarrow> patch" where
  "completed_patch r =
     [SetStatus Completed, SetStage (Some ''completed''), SetProgress (num 100), SetError None,
      SetRaw (Some (sr_raw r)), SetResult (Some (sr_result r))]"

definition settle_cancelled :: "'s reconciliation_context \<Rightarrow> CaptureTaskView \<Rightarrow> 's \<Rightarrow> 's" where
  "settle_cancelled cx task s =
     (let u = rc_updateTask cx (tk_id task) cancelled_patch s
      in case fst u of None \<Rightarrow> snd u | Some t \<Rightarrow> rc_emitCanceled cx t (snd u))"

definition settle_completed :: "'s reconciliation_context \<Rightarrow> CaptureTaskView \<Rightarrow> StreamingResultView \<Rightarrow> 's \<Rightarrow> 's" where
  "settle_completed cx task r s =
     (let u = rc_updateTask cx (tk_id task) (completed_patch r) s
      in case fst u of None \<Rightarrow> snd u
         | Some t \<Rightarrow> rc_emitCompleted cx (tk_id task) (sr_result r) (tk_review t) (snd u))"

definition settleConfirmedOperation ::
  "'s reconciliation_context \<Rightarrow> 's recon capture_client \<Rightarrow> CaptureTaskView \<Rightarrow> CaptureOperation \<Rightarrow> ('s recon, unit) obs" where
  "settleConfirmedOperation cx cl task x =
     (if op_status x = ''cancelled'' then modify_obs (on_host (settle_cancelled cx task))
      else if op_status x = ''failed'' then
        bind_obs (case tk_raw task of
                    Some raw \<Rightarrow> return_obs (Some raw)
                  | None \<Rightarrow> catch_obs (bind_obs (cc_raw cl (op_captureId x)) (\<lambda>raw. return_obs (Some raw)))
                              (\<lambda>_. return_obs None)) (\<lambda>raw.
          modify_obs (on_host (rc_failTask cx (tk_id task) (tk_fileName task) (operation_failure x) raw
            (Some (if Option.bind (op_error x) fl_stage = Some ''structuring'' then ''structuring'' else ''failed'')))))
      else if op_status x \<noteq> ''completed'' then empty_obs
      else catch_obs
             (bind_obs (cc_result cl (op_captureId x)) (\<lambda>r. modify_obs (on_host (settle_completed cx task r))))
             (\<lambda>e. if isAbortError e then empty_obs
                  else bind_obs (modify_obs (on_host (rc_requireReconciliation cx (tk_id task)
                                   (hostReconciliationFailure e) (tk_raw task)))) (\<lambda>_. empty_obs)))"

definition require_obs ::
  "'s reconciliation_context \<Rightarrow> CaptureTaskView \<Rightarrow> CaptureFailure \<Rightarrow> ('s recon, unit) obs" where
  "require_obs cx task f =
     bind_obs (modify_obs (on_host (rc_requireReconciliation cx (tk_id task) f (tk_raw task)))) (\<lambda>_. empty_obs)"

definition settleOrRequire ::
  "'s reconciliation_context \<Rightarrow> 's recon capture_client \<Rightarrow> CaptureTaskView \<Rightarrow> CaptureOperation \<Rightarrow> ('s recon, unit) obs" where
  "settleOrRequire cx cl task x =
     (if isTerminalStreamingOperation x then settleConfirmedOperation cx cl task x
      else require_obs cx task (unknownTerminalState x))"

text \<open>\<open>finalize(() => tasks.delete(taskId))\<close>\<close>

definition release_lock :: "string \<Rightarrow> ('s recon, 'a) obs \<Rightarrow> ('s recon, 'a) obs" where
  "release_lock i m r =
     (let a = m r in (fst a, (snd a)\<lparr>rs_locks := filter (\<lambda>j. j \<noteq> i) (rs_locks (snd a))\<rparr>))"

text \<open>The common frame of \<open>reconcile\<close> and \<open>cancelReconciliationRequiredTask\<close>: what follows the lock.\<close>

definition settle_run ::
  "'s reconciliation_context \<Rightarrow> 's recon capture_client \<Rightarrow> CaptureTaskView \<Rightarrow> ('s recon, CaptureOperation) obs
     \<Rightarrow> ('s recon, unit) obs" where
  "settle_run cx cl task confirmed =
     release_lock (tk_id task)
       (catch_obs (bind_obs confirmed (settleOrRequire cx cl task))
          (\<lambda>e. if isAbortError e then empty_obs else require_obs cx task (hostReconciliationFailure e)))"

definition confirmOperation ::
  "'s reconciliation_context \<Rightarrow> 's recon capture_client \<Rightarrow> ('s recon \<Rightarrow> bool) \<Rightarrow> string \<Rightarrow> string \<Rightarrow> ('s recon, CaptureOperation) obs" where
  "confirmOperation cx cl ab c i =
     bind_obs (cc_get cl c) (waitForTerminal cl ab (recon_hooks cx i) True)"

text \<open>A captureId that is empty is falsy; the client is absent when \<open>None\<close>.\<close>

definition held_capture :: "CaptureTaskView \<Rightarrow> string option" where
  "held_capture t = (case tk_captureId t of None \<Rightarrow> None | Some c \<Rightarrow> if c = [] then None else Some c)"

definition reconcile ::
  "'s reconciliation_context \<Rightarrow> 's recon capture_client option \<Rightarrow> ('s recon \<Rightarrow> bool) \<Rightarrow> string \<Rightarrow> ('s recon, unit) obs" where
  "reconcile cx client ab i r =
     (case (rc_getTask cx i (rs_host r), client) of
        (Some task, Some cl) \<Rightarrow>
          (case held_capture task of
             None \<Rightarrow> (Empty, r)
           | Some c \<Rightarrow>
               if tk_status task \<noteq> Reconciliation_required \<or> i \<in> set (rs_locks r) then (Empty, r)
               else settle_run cx cl task (confirmOperation cx cl ab c i)
                      (r\<lparr>rs_locks := i # rs_locks r\<rparr>))
      | _ \<Rightarrow> (Empty, r))"

definition cancel_reconciliation ::
  "'s reconciliation_context \<Rightarrow> 's recon capture_client option \<Rightarrow> ('s recon \<Rightarrow> bool) \<Rightarrow> string \<Rightarrow> ('s recon, unit) obs" where
  "cancel_reconciliation cx client ab i r =
     (case (rc_getTask cx i (rs_host r), client) of
        (Some task, Some cl) \<Rightarrow>
          (case held_capture task of
             None \<Rightarrow> (Empty, r)
           | Some c \<Rightarrow>
               if i \<in> set (rs_locks r) then (Empty, r)
               else settle_run cx cl task (cancelAndConfirm cl ab c) (r\<lparr>rs_locks := i # rs_locks r\<rparr>))
      | _ \<Rightarrow> (Empty, r))"

section \<open>What the runtime calls establish\<close>

text \<open>Reporting a host failure is pursued until the capture has ended: when the call emits an
  operation, that operation is terminal, even if the report was lost and the capture had to be
  cancelled and followed to its end.\<close>

theorem report_reaches_terminal:
  assumes "reportHostFailureAndReconcile cl ab c m s = (Emit x, s')"
  shows "isTerminalStreamingOperation x"
  using assms
  by (auto simp: reportHostFailureAndReconcile_def cancelAndConfirm_def res_simps split: if_splits)

lemma report_emits_terminal:
  "reportHostFailureAndReconcile cl ab c m s = (Emit x, s') \<Longrightarrow> isTerminalStreamingOperation x"
  by (auto simp: reportHostFailureAndReconcile_def cancelAndConfirm_def res_simps split: if_splits)

lemma terminal_not_awaiting: "isTerminalStreamingOperation x \<Longrightarrow> \<not> isAwaitingHostStructuring x"
  by (auto simp: isTerminalStreamingOperation_def isAwaitingHostStructuring_def)

text \<open>Committing a host result never leaves the runtime waiting for it: when the call emits an
  operation, the runtime is no longer awaiting structuring. A commit whose answer was lost is
  sent once more under the same request id, and given up as a reported failure after that.\<close>

theorem commit_leaves_awaiting:
  assumes "commitHostResultAndReconcile cl ab c k d s = (Emit x, s')"
  shows "\<not> isAwaitingHostStructuring x"
  using assms
  by (auto simp: commitHostResultAndReconcile_def res_simps
      dest!: report_emits_terminal terminal_not_awaiting split: if_splits)

section \<open>The contract with the host\<close>

definition final_status :: "CaptureOperation \<Rightarrow> task_status" where
  "final_status x = (if op_status x = ''completed'' then Completed
                     else if op_status x = ''failed'' then Failed else Canceled)"

locale reconciliation_host =
  fixes cx :: "'s reconciliation_context"
  assumes get_id: "rc_getTask cx i s = Some t \<Longrightarrow> tk_id t = i"
    and get_update: "rc_getTask cx i (snd (rc_updateTask cx i p s)) = map_option (apply_patch p) (rc_getTask cx i s)"
    and get_require: "rc_getTask cx i (rc_requireReconciliation cx i f raw s) =
          map_option (apply_patch [SetStatus Reconciliation_required, SetError (Some (redactFailure f)), SetRaw raw])
            (rc_getTask cx i s)"
    and get_fail: "map_option tk_status (rc_getTask cx i (rc_failTask cx i n f raw stage s)) =
          map_option (\<lambda>_. Failed) (rc_getTask cx i s)"
    and get_emit: "rc_getTask cx i (rc_emitCompleted cx j d v s) = rc_getTask cx i s"
      "rc_getTask cx i (rc_emitCanceled cx t s) = rc_getTask cx i s"
begin

lemma get_settle_cancelled:
  "rc_getTask cx (tk_id task) (settle_cancelled cx task s) =
     map_option (apply_patch cancelled_patch) (rc_getTask cx (tk_id task) s)"
  by (simp add: settle_cancelled_def Let_def get_emit get_update split: option.splits)

lemma get_settle_completed:
  "rc_getTask cx (tk_id task) (settle_completed cx task r s) =
     map_option (apply_patch (completed_patch r)) (rc_getTask cx (tk_id task) s)"
  by (simp add: settle_completed_def Let_def get_emit get_update split: option.splits)

lemma failed_status:
  "rc_getTask cx i (rc_failTask cx i n f raw stage s) = Some t \<Longrightarrow> tk_status t = Failed"
  using get_fail[of i n f raw stage s] by (auto simp: map_option_case split: option.splits)

lemma settle_emits:
  assumes "settleOrRequire cx cl task x r = (Emit u, r')"
  shows "isTerminalStreamingOperation x
    \<and> (\<forall>t. rc_getTask cx (tk_id task) (rs_host r') = Some t \<longrightarrow> tk_status t = final_status x)"
proof -
  have trm: "isTerminalStreamingOperation x"
    and run: "settleConfirmedOperation cx cl task x r = (Emit u, r')"
    using assms by (auto simp: settleOrRequire_def require_obs_def res_simps split: if_splits)
  then show ?thesis
    by (auto simp: settleConfirmedOperation_def res_simps final_status_def on_host_def
        get_settle_cancelled get_settle_completed cancelled_patch_def completed_patch_def
        dest!: failed_status split: if_splits)
qed

lemma settle_run_emits:
  assumes "settle_run cx cl task confirmed r = (Emit u, r')"
  shows "\<exists>x r1. confirmed r = (Emit x, r1) \<and> isTerminalStreamingOperation x
    \<and> (\<forall>t. rc_getTask cx (tk_id task) (rs_host r') = Some t \<longrightarrow> tk_status t = final_status x)"
proof -
  obtain r2 where "catch_obs (bind_obs confirmed (settleOrRequire cx cl task))
      (\<lambda>e. if isAbortError e then empty_obs else require_obs cx task (hostReconciliationFailure e)) r = (Emit u, r2)"
    and r': "rs_host r' = rs_host r2"
    using assms by (auto simp: settle_run_def release_lock_def Let_def prod_eq_iff)
  then obtain x r1 where "confirmed r = (Emit x, r1)" "settleOrRequire cx cl task x r1 = (Emit u, r2)"
    by (auto simp: res_simps require_obs_def split: if_splits)
  with settle_emits r' show ?thesis by metis
qed

lemma reconcile_emits:
  assumes "reconcile cx client ab i r = (Emit u, r')"
  shows "\<exists>x cl c r1. client = Some cl \<and> confirmOperation cx cl ab c i (r\<lparr>rs_locks := i # rs_locks r\<rparr>) = (Emit x, r1)
    \<and> isTerminalStreamingOperation x
    \<and> (\<forall>t. rc_getTask cx i (rs_host r') = Some t \<longrightarrow> tk_status t = final_status x)"
proof -
  obtain task cl c where task: "rc_getTask cx i (rs_host r) = Some task" and cl: "client = Some cl"
    and run: "settle_run cx cl task (confirmOperation cx cl ab c i) (r\<lparr>rs_locks := i # rs_locks r\<rparr>) = (Emit u, r')"
    using assms by (auto simp: reconcile_def split: option.splits if_splits)
  with settle_run_emits[OF run] get_id[OF task] show ?thesis by auto
qed

lemma required_status:
  "rc_getTask cx (tk_id task) (rs_host r') = Some t \<Longrightarrow> require_obs cx task f r = (a, r') \<Longrightarrow>
   a = Empty \<and> tk_status t = Reconciliation_required"
  by (auto simp: require_obs_def bind_obs_def on_host_def get_require)

lemma reconcile_unlocks:
  assumes "i \<notin> set (rs_locks r)"
  shows "i \<notin> set (rs_locks (snd (reconcile cx client ab i r)))"
    and "i \<notin> set (rs_locks (snd (cancel_reconciliation cx client ab i r)))"
  using assms get_id
  by (auto simp: reconcile_def cancel_reconciliation_def settle_run_def release_lock_def Let_def
      split: option.splits)

end

lemma reconcile_locked:
  assumes "i \<in> set (rs_locks r)"
  shows "reconcile cx client ab i r = (Empty, r)" and "cancel_reconciliation cx client ab i r = (Empty, r)"
  using assms by (simp_all add: reconcile_def cancel_reconciliation_def split: option.splits)

section \<open>Examples\<close>

text \<open>A client whose commits and reports are lost on the way back; the runtime has completed the
  capture.\<close>

definition example_operation :: "string \<Rightarrow> CaptureOperation" where
  "example_operation st = \<lparr>op_captureId = ''c'', op_status = st, op_lastEventSequence = num 0,
     op_progress = None, op_error = None\<rparr>"

definition example_capture_client :: "'s capture_client" where
  "example_capture_client =
     \<lparr>cc_start = (\<lambda>_. return_obs (example_operation ''queued'')),
      cc_get = (\<lambda>_. return_obs (example_operation ''completed'')),
      cc_cancel = (\<lambda>_. return_obs (example_operation ''cancelled'')),
      cc_partial = (\<lambda>_. throw_obs (new_Error ''no partial'')),
      cc_raw = (\<lambda>_. return_obs example_raw),
      cc_result = (\<lambda>_. return_obs \<lparr>sr_raw = example_raw, sr_result = example_document\<rparr>),
      cc_commit = (\<lambda>_ _ _. throw_obs (new_Error ''connection lost'')),
      cc_report = (\<lambda>_ _ _. throw_obs (new_Error ''connection lost'')),
      cc_events = (\<lambda>_ _ s. (([], None), s))\<rparr>"

theorem report_reaches_terminal_witness:
  "reportHostFailureAndReconcile example_capture_client (\<lambda>_. False) ''c'' ''m'' () = (Emit (example_operation ''completed''), ())
   \<and> isTerminalStreamingOperation (example_operation ''completed'')"
proof -
  have run: "reportHostFailureAndReconcile example_capture_client (\<lambda>_. False) ''c'' ''m'' ()
      = (Emit (example_operation ''completed''), ())" by code_simp
  show ?thesis using run report_reaches_terminal[OF run] by (rule conjI)
qed

theorem commit_leaves_awaiting_witness:
  "commitHostResultAndReconcile example_capture_client (\<lambda>_. False) ''c'' ''k'' example_document ()
     = (Emit (example_operation ''completed''), ())
   \<and> \<not> isAwaitingHostStructuring (example_operation ''completed'')"
proof -
  have run: "commitHostResultAndReconcile example_capture_client (\<lambda>_. False) ''c'' ''k'' example_document ()
      = (Emit (example_operation ''completed''), ())" by code_simp
  show ?thesis using run commit_leaves_awaiting[OF run] by (rule conjI)
qed

end
