(* ===== verification/Workbench_Queue.thy ===== *)
theory Workbench_Queue
  imports Workbench_Store
begin

text \<open>
  The workflow under every interleaving: the user's operations, the effects of the running
  pipelines on their tasks, and the ends of pipelines are the steps of a relation, and the
  theorems are invariants of its reachable states. A pipeline's effect is any sequence of
  patches of tasks that does not queue one; the pipeline itself is in \<open>Workbench_Capture\<close>.
\<close>

section \<open>Steps\<close>

definition patch_all :: "(string \<times> patch) list \<Rightarrow> CaptureTaskView list \<Rightarrow> CaptureTaskView list" where
  "patch_all ps ts = fold (\<lambda>(i, p). patched i p) ps ts"

definition task_effect :: "'w workflow \<Rightarrow> 'w workflow \<Rightarrow> bool" where
  "task_effect s s' \<longleftrightarrow>
     (\<exists>ps. list_all (\<lambda>(i, p). \<not> requeues p) ps \<and> wf_tasks s' = patch_all ps (wf_tasks s))
     \<and> wf_internal s' = wf_internal s \<and> wf_running s' = wf_running s \<and> wf_active s' = wf_active s
     \<and> wf_uuids s' = wf_uuids s"

definition initial_workflow :: "'w \<Rightarrow> 'w workflow" where
  "initial_workflow w =
     \<lparr>wf_tasks = [], wf_internal = Map.empty, wf_speakerSources = Map.empty, wf_captureIds = Map.empty,
      wf_subscriptions = [], wf_reviewSubjects = [], wf_aborted = [], wf_running = 0, wf_active = [],
      wf_uuids = 0, wf_events = [], wf_calls = [], wf_world = w\<rparr>"

inductive workflow_step :: "workflow_context \<Rightarrow> (nat \<Rightarrow> string) \<Rightarrow> 'w workflow \<Rightarrow> 'w workflow \<Rightarrow> bool"
  for cx uuid where
  enqueue: "workflow_step cx uuid s (enqueueFiles cx uuid fs s)"
| cancel: "workflow_step cx uuid s (cancel cx unwinds i s)"
| review: "workflow_step cx uuid s (updateReview i g x s)"
| confirm: "workflow_step cx uuid s (snd (confirm i s))"
| remove: "workflow_step cx uuid s (remove cx i s)"
| removed: "workflow_step cx uuid s (remove_answered i answer s)"
| name: "workflow_step cx uuid s (nameSpeaker i p x s)"
| effect: "task_effect s s' \<Longrightarrow> workflow_step cx uuid s s'"
| finish: "i \<in> set (wf_active s) \<Longrightarrow> workflow_step cx uuid s (finalize_task cx i s)"

inductive workflow_reachable :: "workflow_context \<Rightarrow> (nat \<Rightarrow> string) \<Rightarrow> 'w workflow \<Rightarrow> bool"
  for cx uuid where
  start: "workflow_reachable cx uuid (initial_workflow w)"
| step: "workflow_reachable cx uuid s \<Longrightarrow> workflow_step cx uuid s s' \<Longrightarrow> workflow_reachable cx uuid s'"

section \<open>The invariant\<close>

definition within_limit :: "workflow_context \<Rightarrow> 'w workflow \<Rightarrow> bool" where
  "within_limit cx s \<longleftrightarrow> wf_running s = 0 \<or> js_le (num (int (wf_running s))) (cfg_concurrency (cx_config cx))"

definition queue_inv :: "workflow_context \<Rightarrow> (nat \<Rightarrow> string) \<Rightarrow> 'w workflow \<Rightarrow> bool" where
  "queue_inv cx uuid s \<longleftrightarrow>
     distinct (map tk_id (wf_tasks s))
     \<and> (\<forall>t \<in> set (wf_tasks s). tk_id t \<in> uuid ` {..<wf_uuids s})
     \<and> (\<forall>t \<in> set (wf_tasks s). tk_status t = Queued \<longrightarrow> wf_internal s (tk_id t) \<noteq> None \<and> tk_id t \<notin> set (wf_active s))
     \<and> set (wf_active s) \<subseteq> uuid ` {..<wf_uuids s}
     \<and> distinct (wf_active s)
     \<and> wf_running s = length (wf_active s)
     \<and> within_limit cx s"

text \<open>Work is not left lying: while there is room, nothing is queued.\<close>

definition drained :: "workflow_context \<Rightarrow> 'w workflow \<Rightarrow> bool" where
  "drained cx s \<longleftrightarrow>
     js_lt (num (int (wf_running s))) (cfg_concurrency (cx_config cx)) \<longrightarrow> queued_count s = 0"

lemma queue_inv_limit: "queue_inv cx uuid s \<Longrightarrow> within_limit cx s"
  by (simp add: queue_inv_def)

lemma queued_count_0_iff: "queued_count s = 0 \<longleftrightarrow> (\<forall>t \<in> set (wf_tasks s). tk_status t \<noteq> Queued)"
  by (auto simp: queued_count_def filter_empty_conv)

lemma patchedE:
  assumes "t \<in> set (patched i p ts)"
  obtains u where "u \<in> set ts" "tk_id t = tk_id u" "t = (if tk_id u = i then apply_patch p u else u)"
  using assms by (auto simp: patched_def split: if_splits)

lemma queued_in_patched:
  assumes "t \<in> set (patched i p ts)" "tk_status t = Queued" "\<not> requeues p"
  obtains u where "u \<in> set ts" "tk_id u = tk_id t" "tk_status u = Queued"
  using assms by (elim patchedE) (auto split: if_splits dest: apply_patch_not_queued)

lemma next_limit:
  assumes "integral_limit c" "js_lt (num (int n)) c"
  shows "js_le (num (int (Suc n))) c"
  using assms unfolding integral_limit_def
  by (elim disjE exE) (simp_all, simp_all add: num_def js_le_def)

lemma queue_inv_patch:
  assumes inv: "queue_inv cx uuid s" and p: "\<not> requeues p"
    and s': "wf_tasks s' = patched i p (wf_tasks s)" "wf_internal s' = wf_internal s"
      "wf_running s' = wf_running s" "wf_active s' = wf_active s" "wf_uuids s' = wf_uuids s"
  shows "queue_inv cx uuid s'" and "drained cx s \<Longrightarrow> drained cx s'"
proof -
  have "\<forall>t \<in> set (patched i p (wf_tasks s)). tk_id t \<in> uuid ` {..<wf_uuids s}"
    using inv by (auto simp: queue_inv_def elim!: patchedE)
  moreover have "\<forall>t \<in> set (patched i p (wf_tasks s)). tk_status t = Queued \<longrightarrow>
      wf_internal s (tk_id t) \<noteq> None \<and> tk_id t \<notin> set (wf_active s)"
    using inv p unfolding queue_inv_def by (metis queued_in_patched)
  moreover have "within_limit cx s'" using queue_inv_limit[OF inv] by (simp add: within_limit_def s')
  ultimately show "queue_inv cx uuid s'"
    using inv unfolding queue_inv_def s' ids_patched by blast
  assume d: "drained cx s"
  show "drained cx s'"
    using d p unfolding drained_def queued_count_0_iff s' by (metis queued_in_patched)
qed

lemma queue_inv_take:
  assumes inv: "queue_inv cx uuid s" and t: "next_queued s = Some t"
    and lim: "integral_limit (cfg_concurrency (cx_config cx))"
    and room: "js_lt (num (int (wf_running s))) (cfg_concurrency (cx_config cx))"
  shows "queue_inv cx uuid (take_task (tk_id t) s)"
proof -
  let ?p = "[SetStatus Processing, SetStage (Some ''uploading''), SetProgress (num 1)]"
  from t have mem: "t \<in> set (wf_tasks s)" "tk_status t = Queued"
    by (auto simp: next_queued_def dest: find_Some_iff_mem)
  have req: "\<not> requeues ?p" by (simp add: requeues_def)
  have "tk_id u \<noteq> tk_id t" if "u \<in> set (patched (tk_id t) ?p (wf_tasks s))" "tk_status u = Queued" for u
    using that by (auto elim!: patchedE split: if_splits)
  then have "\<forall>u \<in> set (patched (tk_id t) ?p (wf_tasks s)). tk_status u = Queued \<longrightarrow>
      wf_internal s (tk_id u) \<noteq> None \<and> tk_id u \<notin> set (tk_id t # wf_active s)"
    using inv req unfolding queue_inv_def by (metis queued_in_patched set_ConsD)
  moreover have "\<forall>u \<in> set (patched (tk_id t) ?p (wf_tasks s)). tk_id u \<in> uuid ` {..<wf_uuids s}"
    using inv by (auto simp: queue_inv_def elim!: patchedE)
  moreover have "within_limit cx (take_task (tk_id t) s)"
    using next_limit[OF lim room] by (simp add: within_limit_def take_task_def)
  moreover have "set (tk_id t # wf_active s) \<subseteq> uuid ` {..<wf_uuids s}" "distinct (tk_id t # wf_active s)"
    using inv mem by (auto simp: queue_inv_def)
  moreover have "distinct (map tk_id (wf_tasks s))" "wf_running s = length (wf_active s)"
    using inv by (simp_all add: queue_inv_def)
  ultimately show ?thesis unfolding queue_inv_def take_task_def by simp
qed

lemma queue_inv_subscribe:
  "queue_inv cx uuid (subscribe_task i s) = queue_inv cx uuid s" "drained cx (subscribe_task i s) = drained cx s"
  by (simp_all add: queue_inv_def within_limit_def drained_def queued_count_def)

lemma within_limit_release:
  assumes "within_limit cx s" and "wf_running s' = wf_running s - 1"
  shows "within_limit cx s'"
proof (cases "wf_running s")
  case (Suc n)
  with assms have "js_le (num (int (Suc n))) (cfg_concurrency (cx_config cx))"
    by (simp add: within_limit_def)
  then have "js_le (num (int n)) (cfg_concurrency (cx_config cx))"
    by (cases "cfg_concurrency (cx_config cx)") (simp_all add: num_def js_le_def, linarith)
  with assms(2) Suc show ?thesis by (simp add: within_limit_def)
qed (use assms in \<open>simp add: within_limit_def\<close>)

lemma queue_inv_release:
  assumes inv: "queue_inv cx uuid s" and i: "i \<in> set (wf_active s)"
  shows "queue_inv cx uuid (release_task i s)"
proof -
  have "within_limit cx (release_task i s)"
    by (rule within_limit_release[OF queue_inv_limit[OF inv]]) simp
  moreover have "\<forall>t \<in> set (wf_tasks s). tk_status t = Queued \<longrightarrow> tk_id t \<noteq> i"
    using inv i by (auto simp: queue_inv_def)
  moreover have "set (remove1 i (wf_active s)) \<subseteq> set (wf_active s)" by (rule set_remove1_subset)
  moreover have "distinct (remove1 i (wf_active s))" "length (remove1 i (wf_active s)) = wf_running s - 1"
    using inv i by (simp_all add: queue_inv_def length_remove1)
  ultimately show ?thesis
    using inv unfolding queue_inv_def release_task_simps
    by (metis (no_types, lifting) fun_upd_other subset_iff)
qed

lemma queue_inv_failTask:
  "queue_inv cx uuid s \<Longrightarrow> queue_inv cx uuid (failTask i f e raw stage s)"
proof -
  assume inv: "queue_inv cx uuid s"
  obtain p where "\<not> requeues p" "wf_tasks (failTask i f e raw stage s) = patched i p (wf_tasks s)"
    using failTask_tasks by blast
  then show ?thesis by (rule queue_inv_patch(1)[OF inv]) simp_all
qed

lemma drainQueue_inv:
  "queue_inv cx uuid s \<Longrightarrow> integral_limit (cfg_concurrency (cx_config cx)) \<Longrightarrow>
   queue_inv cx uuid (drainQueue cx s) \<and> drained cx (drainQueue cx s)"
proof (induction cx s rule: drainQueue.induct)
  case (1 cx s)
  show ?case
  proof (cases "js_lt (num (int (wf_running s))) (cfg_concurrency (cx_config cx))")
    case False
    with 1(3) show ?thesis by (simp add: drainQueue.simps[of cx s] drained_def)
  next
    case room: True
    show ?thesis
    proof (cases "next_queued s")
      case None
      have "queued_count s = 0"
        using None by (auto simp: queued_count_0_iff next_queued_def find_None_iff_all)
      with None 1(3) room show ?thesis by (simp add: drainQueue.simps[of cx s] drained_def)
    next
      case (Some t)
      let ?s1 = "take_task (tk_id t) s"
      have inv: "queue_inv cx uuid ?s1" by (rule queue_inv_take[OF 1(3) Some 1(4) room])
      have act: "tk_id t \<in> set (wf_active ?s1)" by (simp add: take_task_def)
      show ?thesis
      proof (cases "precheck cx (tk_id t) ?s1")
        case None
        with 1(1)[OF room Some refl refl None] 1(4) inv room Some show ?thesis
          by (simp add: drainQueue.simps[of cx s] queue_inv_subscribe Let_def)
      next
        case f: (Some f)
        let ?s2 = "release_task (tk_id t) (failTask (tk_id t) (unknown_file (tk_id t) ?s1) f None None ?s1)"
        have "queue_inv cx uuid ?s2"
          using inv act by (intro queue_inv_release queue_inv_failTask) simp_all
        with 1(2)[OF room Some refl refl f] 1(4) room Some f show ?thesis
          by (simp add: drainQueue.simps[of cx s] queue_inv_subscribe Let_def)
      qed
    qed
  qed
qed

section \<open>Every step keeps the invariant\<close>

text \<open>The fields the invariant reads.\<close>

definition same_queue :: "'w workflow \<Rightarrow> 'w workflow \<Rightarrow> bool" where
  "same_queue s s' \<longleftrightarrow>
     wf_tasks s' = wf_tasks s \<and> wf_internal s' = wf_internal s \<and> wf_running s' = wf_running s
     \<and> wf_active s' = wf_active s \<and> wf_uuids s' = wf_uuids s"

lemma same_queue_inv:
  "same_queue s s' \<Longrightarrow> queue_inv cx uuid s' = queue_inv cx uuid s"
  "same_queue s s' \<Longrightarrow> drained cx s' = drained cx s"
  by (simp_all add: same_queue_def queue_inv_def within_limit_def drained_def queued_count_def)

definition keeps :: "workflow_context \<Rightarrow> (nat \<Rightarrow> string) \<Rightarrow> 'w workflow \<Rightarrow> 'w workflow \<Rightarrow> bool" where
  "keeps cx uuid s s' \<longleftrightarrow>
     (queue_inv cx uuid s \<longrightarrow> queue_inv cx uuid s') \<and> (queue_inv cx uuid s \<longrightarrow> drained cx s \<longrightarrow> drained cx s')"

lemma keeps_refl [simp]: "keeps cx uuid s s"
  by (simp add: keeps_def)

lemma keeps_trans: "keeps cx uuid s s' \<Longrightarrow> keeps cx uuid s' s'' \<Longrightarrow> keeps cx uuid s s''"
  by (simp add: keeps_def)

lemma keeps_same: "same_queue s s' \<Longrightarrow> keeps cx uuid s s'"
  by (simp add: keeps_def same_queue_inv)

lemma keeps_patch_task: "\<not> requeues p \<Longrightarrow> keeps cx uuid s (patch_task i p s)"
  unfolding keeps_def by (meson patch_task_simps queue_inv_patch)

lemma keeps_emit: "keeps cx uuid s (emit e s)"
  by (rule keeps_same) (simp add: same_queue_def)

lemma keeps_call: "keeps cx uuid s (call c s)"
  by (rule keeps_same) (simp add: same_queue_def call_def)

lemma keeps_patch_and_emit: "\<not> requeues p \<Longrightarrow> keeps cx uuid s (patch_and_emit i p ev s)"
  unfolding patch_and_emit_def Let_def
  by (auto split: option.splits intro: keeps_patch_task keeps_trans[OF keeps_patch_task keeps_emit])

lemma keeps_drain:
  assumes "integral_limit (cfg_concurrency (cx_config cx))" "queue_inv cx uuid s \<Longrightarrow> queue_inv cx uuid s'"
  shows "keeps cx uuid s (drainQueue cx s')"
  using assms drainQueue_inv unfolding keeps_def by blast

lemma patch_all_Cons: "patch_all ((i, p) # ps) ts = patch_all ps (patched i p ts)"
  by (simp add: patch_all_def)

lemma keeps_effect: "task_effect s s' \<Longrightarrow> keeps cx uuid s s'"
proof -
  assume eff: "task_effect s s'"
  then obtain ps where "list_all (\<lambda>(i, p). \<not> requeues p) ps" "wf_tasks s' = patch_all ps (wf_tasks s)"
    by (auto simp: task_effect_def)
  then show ?thesis
    using eff unfolding task_effect_def
  proof (induction ps arbitrary: s)
    case Nil
    then show ?case by (auto intro!: keeps_same simp: same_queue_def patch_all_def)
  next
    case (Cons q ps)
    obtain i p where q: "q = (i, p)" by (cases q)
    have "keeps cx uuid (patch_task i p s) s'"
      by (rule Cons.IH) (use Cons.prems q in \<open>auto simp: patch_all_Cons\<close>)
    with keeps_patch_task[of p cx uuid s i] Cons.prems(1) q show ?case
      by (auto intro: keeps_trans)
  qed
qed

lemma queue_inv_removeTask: "keeps cx uuid s (removeTask i s)"
proof -
  have "queue_inv cx uuid (removeTask i s)" if inv: "queue_inv cx uuid s"
  proof -
    have "within_limit cx (removeTask i s)"
      using queue_inv_limit[OF inv] by (simp add: within_limit_def removeTask_def)
    moreover have "distinct (map tk_id (filter (\<lambda>t. tk_id t \<noteq> i) (wf_tasks s)))"
      using inv by (simp add: queue_inv_def distinct_map_filter)
    ultimately show ?thesis using inv by (simp add: queue_inv_def removeTask_def)
  qed
  moreover have "drained cx (removeTask i s)" if "drained cx s"
    using that by (auto simp: drained_def queued_count_0_iff removeTask_def)
  ultimately show ?thesis by (simp add: keeps_def)
qed

lemma queue_inv_add:
  assumes inv: "queue_inv cx uuid s" and inj: "inj uuid"
    and t: "tk_id t = uuid (wf_uuids s)" "tk_status t = Queued \<Longrightarrow> wf_internal s' (tk_id t) \<noteq> None"
    and s': "wf_tasks s' = wf_tasks s @ [t]" "wf_running s' = wf_running s" "wf_active s' = wf_active s"
      "wf_uuids s < wf_uuids s'" "\<And>i. wf_internal s i \<noteq> None \<Longrightarrow> wf_internal s' i \<noteq> None"
  shows "queue_inv cx uuid s'"
proof -
  have fresh: "tk_id t \<notin> uuid ` {..<wf_uuids s}"
    using inj t(1) by (auto simp: inj_def)
  have sub: "uuid ` {..<wf_uuids s} \<subseteq> uuid ` {..<wf_uuids s'}" using s'(4) by auto
  have new: "tk_id t \<in> uuid ` {..<wf_uuids s'}" using s'(4) t(1) by auto
  have "distinct (map tk_id (wf_tasks s'))"
    using inv fresh by (auto simp: queue_inv_def s')
  moreover have "\<forall>u \<in> set (wf_tasks s'). tk_id u \<in> uuid ` {..<wf_uuids s'}"
    using inv sub new by (auto simp: queue_inv_def s' simp del: image_eqI)
  moreover have "\<forall>u \<in> set (wf_tasks s'). tk_status u = Queued \<longrightarrow> wf_internal s' (tk_id u) \<noteq> None \<and> tk_id u \<notin> set (wf_active s')"
    using inv fresh t(2) s'(5) unfolding queue_inv_def s' by (metis in_mono set_ConsD rotate1.simps(2) set_rotate1)
  moreover have "within_limit cx s'" using queue_inv_limit[OF inv] by (simp add: within_limit_def s')
  ultimately show ?thesis using inv sub unfolding queue_inv_def s'(2,3) by blast
qed

lemma queue_inv_enqueue_file:
  assumes "queue_inv cx uuid s" "inj uuid"
  shows "queue_inv cx uuid (enqueue_file cx uuid s f)"
  unfolding enqueue_file_def Let_def addRejectedTask_def addQueuedTask_def
  by (auto intro!: queue_inv_add[OF assms])

lemma queue_inv_enqueue_files:
  "queue_inv cx uuid s \<Longrightarrow> inj uuid \<Longrightarrow> queue_inv cx uuid (foldl (enqueue_file cx uuid) s fs)"
  by (induction fs arbitrary: s) (simp_all add: queue_inv_enqueue_file)

lemma keeps_finalize:
  assumes "integral_limit (cfg_concurrency (cx_config cx))" "i \<in> set (wf_active s)"
  shows "keeps cx uuid s (finalize_task cx i s)"
  unfolding finalize_task_def by (rule keeps_drain[OF assms(1) queue_inv_release[OF _ assms(2)]])

text \<open>A task with a patched status is not queued, so its internal entry may go.\<close>

lemma queue_inv_drop_internal:
  assumes "queue_inv cx uuid s" "\<forall>t \<in> set (wf_tasks s). tk_id t = i \<longrightarrow> tk_status t \<noteq> Queued"
  shows "queue_inv cx uuid (s\<lparr>wf_internal := (wf_internal s)(i := None)\<rparr>)"
proof -
  have "within_limit cx (s\<lparr>wf_internal := (wf_internal s)(i := None)\<rparr>)"
    using queue_inv_limit[OF assms(1)] by (simp add: within_limit_def)
  with assms show ?thesis by (auto simp: queue_inv_def)
qed

lemma patch_and_emit_tasks: "wf_tasks (patch_and_emit i p ev s) = patched i p (wf_tasks s)"
  by (simp add: patch_and_emit_def Let_def split: option.splits)

lemma cancel_patch_not_queued: "t \<in> set (patched i cancel_patch ts) \<Longrightarrow> tk_id t = i \<Longrightarrow> tk_status t \<noteq> Queued"
  by (auto simp: cancel_patch_def elim!: patchedE split: if_splits)

lemma keeps_cancel:
  assumes lim: "integral_limit (cfg_concurrency (cx_config cx))"
  shows "keeps cx uuid s (cancel cx unwinds i s)"
proof (cases "find_task i s")
  case None
  then show ?thesis by (simp add: cancel_def)
next
  case (Some current)
  define s0 where "s0 = s\<lparr>wf_aborted := i # wf_aborted s, wf_reviewSubjects := filter (\<lambda>j. j \<noteq> i) (wf_reviewSubjects s)\<rparr>"
  define s1 where "s1 = (if unwinds \<and> i \<in> set (wf_active s0) then finalize_task cx i s0 else s0)"
  define s2 where "s2 = (case wf_captureIds s1 i of
      Some c \<Rightarrow> if c \<noteq> [] \<and> cx_hasClient cx \<and> cx_streaming cx then call (CancelCapture c) s1 else s1 | None \<Rightarrow> s1)"
  define s3 where "s3 = patch_and_emit i cancel_patch CanceledEvent s2"
  have k0: "keeps cx uuid s s0" by (rule keeps_same) (simp add: s0_def same_queue_def)
  have k1: "keeps cx uuid s0 s1" by (auto simp: s1_def intro: keeps_finalize[OF lim])
  have k2: "keeps cx uuid s1 s2" by (auto simp: s2_def intro: keeps_call split: option.splits)
  have k3: "keeps cx uuid s2 s3"
    unfolding s3_def by (rule keeps_patch_and_emit) (simp add: requeues_def cancel_patch_def)
  have k: "keeps cx uuid s s3" by (rule keeps_trans[OF k0 keeps_trans[OF k1 keeps_trans[OF k2 k3]]])
  have "keeps cx uuid s (drainQueue cx (s3\<lparr>wf_internal := (wf_internal s3)(i := None)\<rparr>))"
  proof (rule keeps_drain[OF lim])
    assume "queue_inv cx uuid s"
    with k have inv3: "queue_inv cx uuid s3" by (simp add: keeps_def)
    have "\<forall>t \<in> set (wf_tasks s3). tk_id t = i \<longrightarrow> tk_status t \<noteq> Queued"
      unfolding s3_def patch_and_emit_tasks by (blast dest: cancel_patch_not_queued)
    with inv3 show "queue_inv cx uuid (s3\<lparr>wf_internal := (wf_internal s3)(i := None)\<rparr>)"
      by (rule queue_inv_drop_internal)
  qed
  moreover have "cancel cx unwinds i s =
      (if isTerminalTask current then s
       else if tk_status current = Reconciliation_required then call (CancelReconciliation i) s
       else if wf_internal s i = None then s
       else if tk_status current = Queued then drainQueue cx (s3\<lparr>wf_internal := (wf_internal s3)(i := None)\<rparr>)
       else s3)"
    unfolding cancel_def Some s3_def s2_def s1_def s0_def Let_def by (simp only: option.case)
  ultimately show ?thesis using k by (simp add: keeps_call)
qed

lemma keeps_patches:
  "keeps cx uuid s (updateReview i g x s)" "keeps cx uuid s (nameSpeaker i p n s)"
  "keeps cx uuid s (remove cx i s)" "keeps cx uuid s (remove_answered i answer s)"
proof -
  show "keeps cx uuid s (updateReview i g x s)"
    unfolding updateReview_def
    by (auto simp: Let_def requeues_def intro!: keeps_patch_task split: option.splits)
  show "keeps cx uuid s (nameSpeaker i p n s)"
    unfolding nameSpeaker_def
    by (auto simp: Let_def requeues_def intro!: keeps_trans[OF keeps_patch_task keeps_emit] split: option.splits)
  show "keeps cx uuid s (remove cx i s)"
    unfolding remove_def by (auto intro: queue_inv_removeTask keeps_call split: option.splits)
  show "keeps cx uuid s (remove_answered i answer s)"
    unfolding remove_answered_def
    by (auto simp: requeues_def intro!: queue_inv_removeTask keeps_trans[OF keeps_patch_task queue_inv_removeTask]
        split: option.splits)
qed

lemma keeps_confirm: "keeps cx uuid s (snd (confirm i s))"
proof -
  have "keeps cx uuid s ((patch_task i p s)\<lparr>wf_reviewSubjects := xs\<rparr>)" if "\<not> requeues p" for p xs
    using keeps_patch_task[OF that] by (rule keeps_trans) (rule keeps_same, simp add: same_queue_def)
  then show ?thesis
    unfolding confirm_def
    by (auto simp: Let_def requeues_def intro!: keeps_patch_task split: option.splits)
qed

lemma workflow_step_keeps:
  assumes "workflow_step cx uuid s s'" and lim: "integral_limit (cfg_concurrency (cx_config cx))" and "inj uuid"
  shows "keeps cx uuid s s'"
  using assms(1)
proof cases
  case (enqueue fs)
  then show ?thesis
    unfolding enqueueFiles_def by (auto intro!: keeps_drain[OF lim] queue_inv_enqueue_files assms(3))
qed (auto intro: keeps_cancel[OF lim] keeps_patches keeps_confirm keeps_effect keeps_finalize[OF lim])

lemma workflow_reachable_inv:
  assumes "workflow_reachable cx uuid s" and "integral_limit (cfg_concurrency (cx_config cx))" and "inj uuid"
  shows "queue_inv cx uuid s \<and> drained cx s"
  using assms(1)
proof (induction rule: workflow_reachable.induct)
  case (start w)
  show ?case
    by (simp add: queue_inv_def within_limit_def drained_def queued_count_def initial_workflow_def)
next
  case (step s s')
  with workflow_step_keeps[OF step.hyps(2) assms(2,3)] show ?case by (simp add: keeps_def)
qed

text \<open>C9. Queue discipline under every interleaving of user actions, pipeline effects and pipeline
  ends: the counter \<open>runningTasks\<close> is the number of unfinished pipelines, no more than the
  configured number of captures run at once, and no file waits in the queue while there is room
  for it. The concurrency limit is integral, as \<open>resolvedConfig\<close> makes it, and the generated
  identifiers do not repeat.\<close>

theorem queue_discipline:
  assumes "workflow_reachable cx uuid s" and "integral_limit (cfg_concurrency (cx_config cx))" and "inj uuid"
  shows "wf_running s = length (wf_active s)
    \<and> (wf_running s = 0 \<or> js_le (num (int (wf_running s))) (cfg_concurrency (cx_config cx)))
    \<and> (js_lt (num (int (wf_running s))) (cfg_concurrency (cx_config cx)) \<longrightarrow> queued_count s = 0)"
  using workflow_reachable_inv[OF assms] unfolding queue_inv_def within_limit_def drained_def by blast

definition example_context :: workflow_context where
  "example_context = \<lparr>cx_config = resolvedConfig empty_config, cx_hasClient = True, cx_streaming = True,
     cx_hasProvider = False\<rparr>"

definition example_uuid :: "nat \<Rightarrow> string" where
  "example_uuid n = replicate n CHR ''x''"

definition example_queue :: "unit workflow" where
  "example_queue = enqueueFiles example_context example_uuid
     [\<lparr>file_name = ''a.pdf'', file_type = [], file_data = []\<rparr>, \<lparr>file_name = ''b.mp3'', file_type = [], file_data = []\<rparr>] (initial_workflow ())"

lemma example_uuid_inj: "inj example_uuid"
  unfolding inj_def example_uuid_def by (metis length_replicate)

lemma example_limit: "integral_limit (cfg_concurrency (cx_config example_context))"
  by (simp add: example_context_def resolved_concurrency_integral)

lemma example_queue_reachable: "workflow_reachable example_context example_uuid example_queue"
  unfolding example_queue_def by (rule workflow_reachable.step[OF workflow_reachable.start workflow_step.enqueue])

theorem queue_discipline_witness:
  "wf_running example_queue = length (wf_active example_queue)
   \<and> map tk_status (wf_tasks example_queue) = [Processing, Queued] \<and> wf_running example_queue = 1"
proof -
  have "map tk_status (wf_tasks example_queue) = [Processing, Queued]" "wf_running example_queue = 1"
    by code_simp+
  then show ?thesis
    using queue_discipline[OF example_queue_reachable example_limit example_uuid_inj] by simp
qed

text \<open>Task identity under every interleaving: the ids of the task list are distinct, a queued
  task still has its file and its abort controller, and it has no pipeline yet.\<close>

theorem queued_tasks_have_files:
  assumes "workflow_reachable cx uuid s" and "integral_limit (cfg_concurrency (cx_config cx))" and "inj uuid"
  shows "distinct (map tk_id (wf_tasks s))
    \<and> (\<forall>t \<in> set (wf_tasks s). tk_status t = Queued \<longrightarrow>
         (\<exists>n. wf_internal s (tk_id t) = Some n) \<and> tk_id t \<notin> set (wf_active s))"
  using workflow_reachable_inv[OF assms] by (auto simp: queue_inv_def)

theorem queued_tasks_have_files_witness:
  "distinct (map tk_id (wf_tasks example_queue)) \<and> length (wf_tasks example_queue) = 2"
proof -
  have "length (wf_tasks example_queue) = 2" by code_simp
  then show ?thesis
    using queued_tasks_have_files[OF example_queue_reachable example_limit example_uuid_inj] by simp
qed

end
