(* ===== verification/Workbench_Capture.thy ===== *)
theory Workbench_Capture
  imports Workbench_Reconciliation Workbench_Queue
begin

text \<open>
  The pipeline of one capture in
  \<^verbatim>\<open>packages/capture-workbench-ui/src/lib/capture-workflow/capture-workflow.service.ts\<close>:
  preprocessing, upload, following the capture, structuring by the host with its review,
  committing, settling, and the handling of errors. The state is the workflow itself, so a
  pending call may stand for any user action that happens meanwhile.
\<close>

section \<open>The workflow as the host of reconciliation\<close>

definition workflow_recon :: "'w workflow reconciliation_context" where
  "workflow_recon =
     \<lparr>rc_getTask = find_task, rc_updateTask = updateTask,
      rc_requireReconciliation = requireReconciliation, rc_failTask = failTask,
      rc_emitCompleted = (\<lambda>i d v. emit (CompletedEvent i d v)), rc_emitCanceled = (\<lambda>t. emit (CanceledEvent t))\<rparr>"

lemma find_task_emit [simp]: "find_task i (emit e s) = find_task i s"
  by (simp add: find_task_def)

lemma find_task_failTask:
  "map_option tk_status (find_task i (failTask i n f raw stage s)) = map_option (\<lambda>_. Failed) (find_task i s)"
  by (cases stage) (simp_all add: failTask_def Let_def option.map_comp comp_def)

interpretation workflow_host: reconciliation_host "workflow_recon :: 'w workflow reconciliation_context"
proof (unfold_locales, goal_cases)
  case (1 i s t)
  then show ?case by (auto simp: workflow_recon_def find_task_def dest: find_Some_iff_mem)
qed (simp_all add: workflow_recon_def requireReconciliation_def find_task_failTask)

section \<open>Collaborators\<close>

text \<open>What the host provides: the client, an optional preprocessor, the structuring provider, the
  user's review (nothing, when the review subject completes without one), and the identifier
  drawn for the commit.\<close>

record 's collaborators =
  wc_client :: "'s capture_client"
  wc_preprocess :: "(host_file \<Rightarrow> file_kind \<Rightarrow> ('s, host_file) obs) option"
  wc_structure :: "RawCapture \<Rightarrow> CaptureReview \<Rightarrow> string option \<Rightarrow> ('s, CaptureDocument) obs"
  wc_review :: "string \<Rightarrow> ('s, CaptureReview) obs"
  wc_commitId :: string

definition task_aborted :: "string \<Rightarrow> 'w workflow \<Rightarrow> bool" where
  "task_aborted i s = (i \<in> set (wf_aborted s))"

section \<open>Steps\<close>

definition applyStreamingEvent :: "string \<Rightarrow> CaptureEvent \<Rightarrow> 'w workflow \<Rightarrow> 'w workflow" where
  "applyStreamingEvent i e = patch_task i [SetStage (Some (streamingStage (ev_stage e)))]"

definition applyStreamingOperation :: "string \<Rightarrow> CaptureOperation \<Rightarrow> 'w workflow \<Rightarrow> 'w workflow" where
  "applyStreamingOperation i x =
     patch_task i [SetCaptureId (Some (op_captureId x)), SetStage (Some (streamingStage (op_status x))),
       SetProgress (case op_progress x of None \<Rightarrow> num 0 | Some p \<Rightarrow> runtimeProgressPercent p)]"

definition applyStreamingPartial :: "string \<Rightarrow> PartialCapture \<Rightarrow> 'w workflow \<Rightarrow> 'w workflow" where
  "applyStreamingPartial i p s =
     (case partialCaptureToRaw p of Inl _ \<Rightarrow> s | Inr raw \<Rightarrow> patch_task i [SetRaw (Some raw)] s)"

definition workflow_hooks :: "string \<Rightarrow> 'w workflow stream_hooks" where
  "workflow_hooks i = \<lparr>hk_event = applyStreamingEvent i, hk_operation = applyStreamingOperation i,
     hk_partial = Some (applyStreamingPartial i)\<rparr>"

definition waitForStreamingOperation ::
  "'w workflow capture_client \<Rightarrow> string \<Rightarrow> bool \<Rightarrow> CaptureOperation \<Rightarrow> ('w workflow, CaptureOperation) obs" where
  "waitForStreamingOperation cl i stopForHost initial s =
     (if stream_done stopForHost initial then (Emit initial, s)
      else follow_stream cl (task_aborted i) (\<not> task_aborted i s) (workflow_hooks i) stopForHost 0 initial s)"

definition throwIfAborted :: "string \<Rightarrow> ('w workflow, unit) obs" where
  "throwIfAborted i s = (if task_aborted i s then (Error abort_error, s) else (Emit (), s))"

definition retryUncertainResponse :: "string \<Rightarrow> ('w workflow, 'a) obs \<Rightarrow> ('w workflow, 'a) obs" where
  "retryUncertainResponse i m =
     catch_obs m (\<lambda>e. bind_obs (throwIfAborted i) (\<lambda>_.
       if isUncertainResponseFailure e then m else throw_obs e))"

definition preprocess ::
  "'w workflow collaborators \<Rightarrow> host_file \<Rightarrow> file_kind \<Rightarrow> ('w workflow, host_file) obs" where
  "preprocess wc f k = (case wc_preprocess wc of None \<Rightarrow> return_obs f | Some g \<Rightarrow> g f k)"

definition tryGetRaw :: "'s capture_client \<Rightarrow> string \<Rightarrow> ('s, RawCapture option) obs" where
  "tryGetRaw cl c = catch_obs (bind_obs (cc_raw cl c) (\<lambda>raw. return_obs (Some raw))) (\<lambda>_. return_obs None)"

definition reportProgress :: "string \<Rightarrow> jnum \<Rightarrow> 'w workflow \<Rightarrow> 'w workflow" where
  "reportProgress i p = patch_task i [SetProgress (js_offset 70 (js_scale (1 / 5) (clampProgress p)))]"

section \<open>Review\<close>

definition open_review :: "string \<Rightarrow> RawCapture \<Rightarrow> jnum \<Rightarrow> 'w workflow \<Rightarrow> 'w workflow" where
  "open_review i raw progress s =
     patch_and_emit i
       [SetStatus Awaiting_confirmation, SetStage (Some ''awaiting_structuring''),
        SetProgress (js_max (num 70) (runtimeProgressPercent progress)), SetRaw (Some raw),
        SetReview (Some empty_review), SetError None]
       ReviewRequired (s\<lparr>wf_reviewSubjects := filter (\<lambda>j. j \<noteq> i) (wf_reviewSubjects s) @ [i]\<rparr>)"

definition close_review :: "string \<Rightarrow> 'w workflow \<Rightarrow> 'w workflow" where
  "close_review i s = s\<lparr>wf_reviewSubjects := filter (\<lambda>j. j \<noteq> i) (wf_reviewSubjects s)\<rparr>"

definition awaitReview ::
  "'w workflow collaborators \<Rightarrow> CaptureConfig \<Rightarrow> string \<Rightarrow> RawCapture \<Rightarrow> jnum \<Rightarrow> ('w workflow, CaptureReview) obs" where
  "awaitReview wc config i raw progress =
     (if \<not> cfg_reviewBeforeCommit config then
        bind_obs (modify_obs (patch_task i [SetRaw (Some raw), SetStage (Some ''structuring''),
            SetProgress (js_max (num 70) (runtimeProgressPercent progress))]))
          (\<lambda>_. return_obs empty_review)
      else bind_obs (modify_obs (open_review i raw progress)) (\<lambda>_ s.
             let r = wc_review wc i s in (fst r, close_review i (snd r))))"

section \<open>Structuring by the host\<close>

datatype host_outcome = Candidate CaptureDocument | Operation CaptureOperation

definition invalid_candidate :: "string list \<Rightarrow> thrown" where
  "invalid_candidate issues = new_Error (''Invalid structured capture: '' @ join ''; '' issues)"

definition structure_candidate ::
  "'w workflow collaborators \<Rightarrow> CaptureConfig \<Rightarrow> RawCapture \<Rightarrow> CaptureReview \<Rightarrow> ('w workflow, host_outcome) obs" where
  "structure_candidate wc config raw review =
     bind_obs (wc_structure wc raw review (cfg_targetLanguage config)) (\<lambda>candidate.
       let issues = validateStructuringCandidate candidate raw
       in if issues \<noteq> [] then throw_obs (invalid_candidate issues) else return_obs (Candidate candidate))"

definition require_and_stop :: "string \<Rightarrow> thrown \<Rightarrow> RawCapture option \<Rightarrow> ('w workflow, 'a) obs" where
  "require_and_stop i e raw =
     bind_obs (modify_obs (requireReconciliation i (hostReconciliationFailure e) raw)) (\<lambda>_. empty_obs)"

definition report_failure ::
  "'w workflow collaborators \<Rightarrow> string \<Rightarrow> string \<Rightarrow> RawCapture \<Rightarrow> thrown \<Rightarrow> ('w workflow, host_outcome) obs" where
  "report_failure wc i c raw e =
     catch_obs
       (bind_obs (reportHostFailureAndReconcile (wc_client wc) (task_aborted i) c
            (normalizeHostFailureMessage (fl_message (failureFrom e ''structuring'' ''Host structuring failed.''))))
          (\<lambda>reported. return_obs (Operation reported)))
       (unless_abort (\<lambda>e'. require_and_stop i e' (Some raw)))"

definition commit_outcome ::
  "'w workflow collaborators \<Rightarrow> string \<Rightarrow> string \<Rightarrow> host_outcome \<Rightarrow> ('w workflow, CaptureOperation) obs" where
  "commit_outcome wc i c out =
     (case out of
        Operation x \<Rightarrow> return_obs x
      | Candidate d \<Rightarrow>
          catch_obs (commitHostResultAndReconcile (wc_client wc) (task_aborted i) c (wc_commitId wc) d)
            (unless_abort (\<lambda>e s. require_and_stop i e (Option.bind (find_task i s) tk_raw) s)))"

definition structure_awaiting ::
  "'w workflow collaborators \<Rightarrow> CaptureConfig \<Rightarrow> string \<Rightarrow> CaptureOperation \<Rightarrow> ('w workflow, CaptureOperation) obs" where
  "structure_awaiting wc config i x =
     bind_obs (bind_obs (cc_raw (wc_client wc) (op_captureId x)) (\<lambda>raw.
        bind_obs (awaitReview wc config i raw (option_or (op_progress x) (num 0))) (\<lambda>review.
          catch_obs (structure_candidate wc config raw review)
            (unless_abort (report_failure wc i (op_captureId x) raw)))))
       (commit_outcome wc i (op_captureId x))"

definition processStreamingHostStructuring ::
  "'w workflow collaborators \<Rightarrow> CaptureConfig \<Rightarrow> string \<Rightarrow> CaptureOperation \<Rightarrow> ('w workflow, CaptureOperation) obs" where
  "processStreamingHostStructuring wc config i initial =
     bind_obs (waitForStreamingOperation (wc_client wc) i True initial) (\<lambda>x.
       if op_status x \<noteq> ''awaiting_structuring'' then return_obs x else structure_awaiting wc config i x)"

section \<open>Settling\<close>

definition settleStreaming ::
  "'w workflow collaborators \<Rightarrow> CaptureTaskView \<Rightarrow> string \<Rightarrow> CaptureOperation \<Rightarrow> ('w workflow, unit) obs" where
  "settleStreaming wc task i x =
     (if op_status x = ''cancelled'' then modify_obs (patch_and_emit i cancel_patch CanceledEvent)
      else if op_status x = ''failed'' then
        bind_obs (tryGetRaw (wc_client wc) (op_captureId x)) (\<lambda>raw.
          modify_obs (failTask i (tk_fileName task) (operation_failure x) raw None))
      else if op_status x \<noteq> ''completed''
      then throw_obs (new_Error (''Capture ended in unexpected state: '' @ op_status x))
      else bind_obs (cc_result (wc_client wc) (op_captureId x)) (\<lambda>r.
             modify_obs (patch_and_emit i
               [SetStatus Completed, SetStage (Some ''completed''), SetProgress (num 100),
                SetRaw (Some (sr_raw r)), SetResult (Some (sr_result r))]
               (\<lambda>t. CompletedEvent i (sr_result r) (tk_review t)))))"

definition handleProcessError ::
  "'w workflow collaborators \<Rightarrow> CaptureTaskView \<Rightarrow> string \<Rightarrow> thrown \<Rightarrow> ('w workflow, unit) obs" where
  "handleProcessError wc task i e s =
     (if isAbortError e \<or> task_aborted i s then
        (if map_option tk_status (find_task i s) \<noteq> Some Canceled
         then (Emit (), patch_and_emit i cancel_patch CanceledEvent s) else (Emit (), s))
      else bind_obs (case wf_captureIds s i of
                       None \<Rightarrow> return_obs None
                     | Some c \<Rightarrow> if c = [] then return_obs None else tryGetRaw (wc_client wc) c) (\<lambda>raw.
             modify_obs (failTask i (tk_fileName task) (failureFrom e ''runtime'' ''Capture failed.'') raw None)) s)"

section \<open>The pipeline\<close>

definition start_request_of :: "CaptureConfig \<Rightarrow> InternalCaptureTask \<Rightarrow> CaptureTaskView \<Rightarrow> host_file \<Rightarrow> StartRequest" where
  "start_request_of config n task f =
     \<lparr>st_clientRequestId = in_clientRequestId n, st_file = f, st_sourceKind = tk_sourceKind task,
      st_structuringMode = cfg_structuringMode config, st_targetLanguage = cfg_targetLanguage config,
      st_identifySpeakers = (cfg_identifySpeakers config \<and> tk_sourceKind task = Kind Audio),
      st_spokenLanguage = (if tk_sourceKind task = Kind Audio then cfg_spokenLanguage config else None)\<rparr>"

definition componentOwnsHostStructuring :: "CaptureConfig \<Rightarrow> bool" where
  "componentOwnsHostStructuring config =
     (cfg_structuringMode config = ''host'' \<and> cfg_hostStructuringOwner config = ''component'')"

definition remember_capture :: "string \<Rightarrow> CaptureOperation \<Rightarrow> 'w workflow \<Rightarrow> 'w workflow" where
  "remember_capture i x s =
     applyStreamingOperation i x (s\<lparr>wf_captureIds := (wf_captureIds s)(i \<mapsto> op_captureId x)\<rparr>)"

definition start_capture ::
  "'w workflow collaborators \<Rightarrow> CaptureConfig \<Rightarrow> InternalCaptureTask \<Rightarrow> CaptureTaskView \<Rightarrow> string
     \<Rightarrow> ('w workflow, CaptureOperation) obs" where
  "start_capture wc config n task i =
     bind_obs (preprocess wc (in_file n) (tk_sourceKind task)) (\<lambda>f.
     bind_obs (throwIfAborted i) (\<lambda>_.
     bind_obs (modify_obs (patch_task i [SetStage (Some ''uploading''), SetProgress (num 5)])) (\<lambda>_.
     bind_obs (retryUncertainResponse i (cc_start (wc_client wc) (start_request_of config n task f))) (\<lambda>x.
     bind_obs (modify_obs (remember_capture i x)) (\<lambda>_. return_obs x)))))"

definition processStreamingTask ::
  "'w workflow collaborators \<Rightarrow> CaptureConfig \<Rightarrow> bool \<Rightarrow> InternalCaptureTask \<Rightarrow> CaptureTaskView \<Rightarrow> string
     \<Rightarrow> ('w workflow, unit) obs" where
  "processStreamingTask wc config hasProvider n task i =
     bind_obs (start_capture wc config n task i) (\<lambda>x.
     bind_obs (if componentOwnsHostStructuring config
               then (if \<not> hasProvider then throw_obs (new_Error ''Host structuring provider is not configured.'')
                     else processStreamingHostStructuring wc config i x)
               else if cfg_reviewBeforeCommit config
               then throw_obs (new_Error ''Review confirmation is not supported by the v2 streaming contract.'')
               else return_obs x) (\<lambda>y.
     bind_obs (waitForStreamingOperation (wc_client wc) i False y) (settleStreaming wc task i)))"

text \<open>The pipeline of a task that passed its checks, with its error handler and the handler of
  \<open>drainQueue\<close>; \<open>finalize_task\<close> follows it.\<close>

definition run_pipeline ::
  "'w workflow collaborators \<Rightarrow> workflow_context \<Rightarrow> InternalCaptureTask \<Rightarrow> CaptureTaskView \<Rightarrow> string
     \<Rightarrow> ('w workflow, unit) obs" where
  "run_pipeline wc cx n task i =
     catch_obs
       (catch_obs (processStreamingTask wc (cx_config cx) (cx_hasProvider cx) n task i)
          (handleProcessError wc task i))
       (\<lambda>e s. case find_task i s of
                None \<Rightarrow> (Empty, s)
              | Some t \<Rightarrow> (Empty, failTask i (tk_fileName t) (failureFrom e ''runtime'' ''Capture failed.'') None None s))"

section \<open>Effects of the pipeline\<close>

definition collaborators_preserve :: "('w workflow \<Rightarrow> 'w workflow \<Rightarrow> bool) \<Rightarrow> 'w workflow collaborators \<Rightarrow> bool" where
  "collaborators_preserve R wc \<longleftrightarrow>
     client_preserves R (wc_client wc)
     \<and> (\<forall>g f k. wc_preprocess wc = Some g \<longrightarrow> preserves R (g f k))
     \<and> (\<forall>raw v l. preserves R (wc_structure wc raw v l))
     \<and> (\<forall>i. preserves R (wc_review wc i))"

text \<open>What reaches the commit was checked.\<close>

lemma structure_candidate_valid:
  "structure_candidate wc config raw review s = (Emit (Candidate d), s') \<Longrightarrow> validateStructuringCandidate d raw = []"
  by (auto simp: structure_candidate_def res_simps Let_def split: if_splits)

lemma report_failure_operation: "report_failure wc i c raw e s \<noteq> (Emit (Candidate d), s')"
  by (auto simp: report_failure_def res_simps unless_abort_def require_and_stop_def split: if_splits)

lemma candidate_validated:
  assumes "bind_obs (cc_raw (wc_client wc) c) (\<lambda>raw. bind_obs (awaitReview wc config i raw v) (\<lambda>review.
      catch_obs (structure_candidate wc config raw review) (unless_abort (report_failure wc i c raw)))) s
      = (Emit (Candidate d), s')"
  shows "validated_for (wc_client wc) c d"
  using assms
  by (auto simp: res_simps unless_abort_def report_failure_operation validated_for_def split: if_splits
      dest!: structure_candidate_valid)

locale workflow_effect = state_effect R for R :: "'w workflow \<Rightarrow> 'w workflow \<Rightarrow> bool" +
  assumes effect_patch: "\<not> requeues p \<Longrightarrow> R s (patch_task i p s)"
    and effect_emit: "R s (emit e s)"
    and effect_captures: "R s (s\<lparr>wf_captureIds := m\<rparr>)"
    and effect_reviews: "R s (s\<lparr>wf_reviewSubjects := js\<rparr>)"
begin

lemma effect_patch_and_emit: "\<not> requeues p \<Longrightarrow> R s (patch_and_emit i p ev s)"
  unfolding patch_and_emit_def Let_def
  by (auto split: option.splits intro: effect_patch effect_trans[OF effect_patch effect_emit])

lemma effect_failTask: "R s (failTask i n f raw stage s)"
  unfolding failTask_def Let_def
  by (auto split: option.splits simp: requeues_def intro!: effect_trans[OF effect_patch effect_emit])

lemma effect_require: "R s (requireReconciliation i f raw s)"
  unfolding requireReconciliation_def by (rule effect_patch) (simp add: requeues_def)

lemma effect_hooks: "hooks_preserve R (workflow_hooks i)"
  unfolding hooks_preserve_def workflow_hooks_def
  by (auto simp: applyStreamingEvent_def applyStreamingOperation_def applyStreamingPartial_def requeues_def
      effect_refl intro!: effect_patch split: sum.splits)

lemma preserves_no_hooks: "hooks_preserve R no_hooks"
  by (simp add: hooks_preserve_def no_hooks_def effect_refl)

lemma preserves_unless_abort: "(\<And>e. preserves R (h e)) \<Longrightarrow> preserves R (unless_abort h e)"
  by (simp add: unless_abort_def preserves_basic)

lemma preserves_modifies:
  "preserves R (modify_obs (applyStreamingOperation i x))" "preserves R (modify_obs (remember_capture i x))"
  "preserves R (modify_obs (open_review i raw v))"
  "preserves R (modify_obs (requireReconciliation i f raw'))" "preserves R (modify_obs (failTask i n f raw' stage))"
  unfolding applyStreamingOperation_def remember_capture_def open_review_def
  by (auto intro!: preserves_modify effect_require effect_failTask effect_patch
      effect_trans[OF effect_captures effect_patch] effect_trans[OF effect_reviews effect_patch_and_emit]
      simp: requeues_def)

lemma preserves_patches:
  "\<not> requeues p \<Longrightarrow> preserves R (modify_obs (patch_task i p))"
  "\<not> requeues p \<Longrightarrow> preserves R (modify_obs (patch_and_emit i p ev))"
  by (auto intro: preserves_modify effect_patch effect_patch_and_emit)

lemma preserves_throwIfAborted: "preserves R (throwIfAborted i)"
  by (simp add: preserves_def throwIfAborted_def effect_refl)

lemmas preserves_intros =
  preserves_bind preserves_catch preserves_basic preserves_unless_abort preserves_modifies preserves_patches
  preserves_throwIfAborted

lemma preserves_client:
  assumes "client_preserves R cl"
  shows "preserves R (cc_start cl rq)" "preserves R (cc_get cl c)" "preserves R (cc_cancel cl c)"
    "preserves R (cc_raw cl c)" "preserves R (cc_result cl c)"
    "validated_for cl c d \<Longrightarrow> preserves R (cc_commit cl c k d)" "preserves R (cc_report cl c k' m)"
  using assms by (simp_all add: client_preserves_def)

lemma preserves_waits:
  assumes "client_preserves R cl"
  shows "preserves R (waitForStreamingOperation cl i stop x)" "preserves R (waitForTerminal cl ab no_hooks stop x)"
  using preserves_follow_stream[OF assms effect_hooks] preserves_follow_stream[OF assms preserves_no_hooks]
  by (simp_all add: preserves_def waitForStreamingOperation_def waitForTerminal_def effect_refl)

lemma preserves_runtime_calls:
  assumes "client_preserves R cl"
  shows "preserves R (reportHostFailureAndReconcile cl ab c m)"
    and "validated_for cl c d \<Longrightarrow> preserves R (commitHostResultAndReconcile cl ab c k d)"
  unfolding commitHostResultAndReconcile_def reportHostFailureAndReconcile_def cancelAndConfirm_def
    commitAttempt_def reportAttempt_def
  by (auto intro!: preserves_intros preserves_client[OF assms] preserves_waits[OF assms])

lemma preserves_awaitReview:
  assumes "collaborators_preserve R wc"
  shows "preserves R (awaitReview wc config i raw v)"
proof -
  have "R s (close_review i (snd (wc_review wc i s)))" for s
    using assms effect_reviews unfolding close_review_def collaborators_preserve_def preserves_def
    by (blast intro: effect_trans)
  then have "preserves R (\<lambda>s. let r = wc_review wc i s in (fst r, close_review i (snd r)))"
    by (simp add: preserves_def Let_def)
  then show ?thesis
    unfolding awaitReview_def by (auto intro!: preserves_intros simp: requeues_def)
qed

lemma preserves_structuring:
  assumes wc: "collaborators_preserve R wc"
  shows "preserves R (processStreamingHostStructuring wc config i x)"
proof -
  note cl = wc[unfolded collaborators_preserve_def, THEN conjunct1]
  have host: "preserves R (wc_structure wc raw v l)" for raw v l
    using wc by (simp add: collaborators_preserve_def)
  have candidate: "preserves R (structure_candidate wc config raw review)" for raw review
    unfolding structure_candidate_def Let_def by (auto intro!: preserves_intros host)
  have stop: "preserves R (require_and_stop i e raw)" for e and raw and i
    unfolding require_and_stop_def by (auto intro!: preserves_intros)
  have stop_find: "preserves R (\<lambda>s. require_and_stop i e (f s) s)" for e f and i
    using stop unfolding preserves_def by blast
  have report: "preserves R (report_failure wc i c raw e)" for c raw e
    unfolding report_failure_def
    by (auto intro!: preserves_intros preserves_runtime_calls[OF cl] stop)
  have commit: "preserves R (commit_outcome wc i c out)"
    if "\<And>d. out = Candidate d \<Longrightarrow> validated_for (wc_client wc) c d" for c out
    unfolding commit_outcome_def using that
    by (auto intro!: preserves_intros preserves_runtime_calls[OF cl] stop_find split: host_outcome.splits)
  have "preserves R (structure_awaiting wc config i y)" for y
    unfolding structure_awaiting_def
    by (rule preserves_bind_yields)
      (auto intro!: preserves_intros preserves_client[OF cl] preserves_awaitReview[OF wc] candidate report commit
        dest: candidate_validated)
  then show ?thesis
    unfolding processStreamingHostStructuring_def
    by (auto intro!: preserves_intros preserves_waits[OF cl])
qed

lemma preserves_start:
  assumes wc: "collaborators_preserve R wc"
  shows "preserves R (start_capture wc config n task i)"
proof -
  have pre: "preserves R (preprocess wc f k)" for f k
    using wc by (auto simp: collaborators_preserve_def preprocess_def preserves_basic split: option.splits)
  note cl = wc[unfolded collaborators_preserve_def, THEN conjunct1]
  show ?thesis
    unfolding start_capture_def retryUncertainResponse_def
    by (auto intro!: preserves_intros pre preserves_client[OF cl] simp: requeues_def)
qed

lemma preserves_settle:
  assumes cl: "client_preserves R (wc_client wc)"
  shows "preserves R (settleStreaming wc task i x)" "preserves R (handleProcessError wc task i e)"
proof -
  have raw: "preserves R (tryGetRaw (wc_client wc) c)" for c
    unfolding tryGetRaw_def by (auto intro!: preserves_intros preserves_client[OF cl])
  show "preserves R (settleStreaming wc task i x)"
    unfolding settleStreaming_def
    by (auto intro!: preserves_intros raw preserves_client[OF cl] simp: requeues_def cancel_patch_def)
  have "preserves R (bind_obs (case m of None \<Rightarrow> return_obs None
      | Some c \<Rightarrow> if c = [] then return_obs None else tryGetRaw (wc_client wc) c) (\<lambda>raw.
      modify_obs (failTask i (tk_fileName task) (failureFrom e ''runtime'' ''Capture failed.'') raw None)))" for m
    by (auto intro!: preserves_intros raw split: option.splits)
  then show "preserves R (handleProcessError wc task i e)"
    by (auto simp: preserves_def handleProcessError_def effect_refl requeues_def cancel_patch_def
        intro!: effect_patch_and_emit)
qed

lemma preserves_pipeline:
  assumes wc: "collaborators_preserve R wc"
  shows "preserves R (run_pipeline wc cx n task i)"
proof -
  note cl = wc[unfolded collaborators_preserve_def, THEN conjunct1]
  have last: "preserves R (\<lambda>s. case find_task i s of None \<Rightarrow> (Empty, s)
      | Some t \<Rightarrow> (Empty, failTask i (tk_fileName t) f None None s))" for f
    by (simp add: preserves_def effect_refl effect_failTask split: option.splits)
  show ?thesis
    unfolding run_pipeline_def processStreamingTask_def
    by (auto intro!: preserves_intros last preserves_start[OF wc] preserves_structuring[OF wc]
        preserves_waits[OF cl] preserves_settle[OF cl])
qed

end

text \<open>Sequences of steps of the workflow are such an effect: while a call of a pipeline is pending,
  anything may happen.\<close>

definition workflow_steps :: "workflow_context \<Rightarrow> (nat \<Rightarrow> string) \<Rightarrow> 'w workflow \<Rightarrow> 'w workflow \<Rightarrow> bool" where
  "workflow_steps cx uuid = (workflow_step cx uuid)\<^sup>*\<^sup>*"

lemma workflow_steps_effect: "task_effect s s' \<Longrightarrow> workflow_steps cx uuid s s'"
  unfolding workflow_steps_def by (rule r_into_rtranclp) (rule workflow_step.effect)

lemma task_effect_same: "same_queue s s' \<Longrightarrow> task_effect s s'"
  unfolding task_effect_def same_queue_def by (auto intro!: exI[of _ "[]"] simp: patch_all_def)

lemma task_effect_patch: "\<not> requeues p \<Longrightarrow> task_effect s (patch_task i p s)"
  unfolding task_effect_def by (auto intro!: exI[of _ "[(i, p)]"] simp: patch_all_def)

interpretation steps: workflow_effect "workflow_steps cx uuid" for cx uuid
proof
  show "workflow_steps cx uuid s s" for s :: "'a workflow" by (simp add: workflow_steps_def)
  show "workflow_steps cx uuid s s''" if "workflow_steps cx uuid s s'" "workflow_steps cx uuid s' s''"
    for s s' s'' :: "'a workflow"
    using that by (simp add: workflow_steps_def)
qed (auto simp: same_queue_def intro!: workflow_steps_effect task_effect_same task_effect_patch)

lemma workflow_steps_reachable:
  assumes "workflow_reachable cx uuid s" "workflow_steps cx uuid s s'"
  shows "workflow_reachable cx uuid s'"
  using assms(2,1) unfolding workflow_steps_def
  by (induction rule: rtranclp_induct) (blast intro: workflow_reachable.step)+

end
