(* ===== verification/Workbench_Outcome.thy ===== *)
theory Workbench_Outcome
  imports Workbench_Capture
begin

text \<open>
  What the pipeline of \<open>Workbench_Capture\<close> achieves: it stays within the steps of the workflow,
  it commits checked candidates only, it leaves its task settled, and reconciliation gives a
  task the status of a terminal operation of the runtime.
\<close>

section \<open>The pipeline is a sequence of steps\<close>

definition example_collaborators :: "'w workflow collaborators" where
  "example_collaborators =
     \<lparr>wc_client = example_capture_client, wc_preprocess = None, wc_structure = (\<lambda>_ _ _. return_obs example_document),
      wc_review = (\<lambda>_. return_obs empty_review), wc_commitId = ''k''\<rparr>"

lemma example_collaborators_preserve:
  "(\<And>s. R s s) \<Longrightarrow> collaborators_preserve R example_collaborators"
  by (simp add: collaborators_preserve_def example_collaborators_def client_preserves_def example_capture_client_def
      preserves_def)

definition example_task :: CaptureTaskView where
  "example_task = hd (wf_tasks example_queue)"

definition example_internal :: InternalCaptureTask where
  "example_internal = the (wf_internal example_queue (tk_id example_task))"

definition example_run :: "unit workflow" where
  "example_run = snd (run_pipeline example_collaborators example_context example_internal example_task
     (tk_id example_task) example_queue)"

lemma pipeline_reachable:
  assumes "workflow_reachable cx uuid s" and "collaborators_preserve (workflow_steps cx uuid) wc"
  shows "workflow_reachable cx uuid (snd (run_pipeline wc cx n task i s))"
  using steps.preserves_pipeline[OF assms(2)] workflow_steps_reachable[OF assms(1)]
  unfolding preserves_def by blast

text \<open>C1. The pipeline refines the step relation of the workflow: whatever the user and the other
  pipelines do while one of its calls is pending, a pipeline that starts in a reachable state
  ends in a reachable state, so that the invariants of the queue hold of it.\<close>

theorem pipeline_refines_steps:
  assumes "workflow_reachable cx uuid s" and "collaborators_preserve (workflow_steps cx uuid) wc"
  shows "workflow_reachable cx uuid (snd (run_pipeline wc cx n task i s))"
  using assms by (rule pipeline_reachable)

theorem pipeline_refines_steps_witness:
  "workflow_reachable example_context example_uuid example_run
   \<and> map tk_status (wf_tasks example_run) = [Completed, Queued]"
proof -
  have "collaborators_preserve (workflow_steps example_context example_uuid) example_collaborators"
    by (rule example_collaborators_preserve) (simp add: workflow_steps_def)
  moreover have "map tk_status (wf_tasks example_run) = [Completed, Queued]" by code_simp
  ultimately show ?thesis
    unfolding example_run_def by (intro conjI pipeline_refines_steps example_queue_reachable)
qed

section \<open>Only checked candidates are committed\<close>

text \<open>\<open>f\<close> reads from the world the documents committed so far; only a commit changes them.\<close>

definition log_kept :: "('w \<Rightarrow> (string \<times> CaptureDocument) list) \<Rightarrow> 'w workflow \<Rightarrow> 'w workflow \<Rightarrow> bool" where
  "log_kept f s s' \<longleftrightarrow> f (wf_world s') = f (wf_world s)"

definition logs_commits :: "('w \<Rightarrow> (string \<times> CaptureDocument) list) \<Rightarrow> 'w workflow collaborators \<Rightarrow> bool" where
  "logs_commits f wc \<longleftrightarrow>
     collaborators_preserve (log_kept f)
       (wc\<lparr>wc_client := (wc_client wc)\<lparr>cc_commit := (\<lambda>_ _ _. empty_obs)\<rparr>\<rparr>)
     \<and> (\<forall>c k d s. f (wf_world (snd (cc_commit (wc_client wc) c k d s))) = f (wf_world s) @ [(c, d)])"

definition commits_checked ::
  "('w \<Rightarrow> (string \<times> CaptureDocument) list) \<Rightarrow> 'w workflow capture_client \<Rightarrow> 'w workflow \<Rightarrow> 'w workflow \<Rightarrow> bool" where
  "commits_checked f cl s s' \<longleftrightarrow>
     (\<forall>(c, d) \<in> set (f (wf_world s')). (c, d) \<in> set (f (wf_world s)) \<or> validated_for cl c d)"

lemma commits_checked_kept: "log_kept f s s' \<Longrightarrow> commits_checked f cl s s'"
  by (auto simp: log_kept_def commits_checked_def)

interpretation checked: workflow_effect "commits_checked f cl" for f :: "'w \<Rightarrow> (string \<times> CaptureDocument) list" and cl
proof
  show "commits_checked f cl s s''" if "commits_checked f cl s s'" "commits_checked f cl s' s''" for s s' s''
    using that unfolding commits_checked_def by fast
qed (simp_all add: commits_checked_kept log_kept_def)

lemma logs_commits_checked:
  assumes "logs_commits f wc"
  shows "collaborators_preserve (commits_checked f (wc_client wc)) wc"
proof -
  have "f (wf_world (snd (cc_commit (wc_client wc) c k d s))) = f (wf_world s) @ [(c, d)]" for c k d s
    using assms by (simp add: logs_commits_def)
  then have "validated_for (wc_client wc) c d \<Longrightarrow>
      preserves (commits_checked f (wc_client wc)) (cc_commit (wc_client wc) c k d)" for c k d
    by (auto simp: preserves_def commits_checked_def)
  then show ?thesis
    using assms commits_checked_kept[of f _ _ "wc_client wc"]
    unfolding logs_commits_def collaborators_preserve_def client_preserves_def preserves_def
    by simp
qed

text \<open>C4. Every structured document the pipeline sends to the runtime passed
  \<open>validateStructuringCandidate\<close> against the raw capture that the runtime returned for that
  same capture, whatever the structuring provider produced.\<close>

theorem commits_are_validated:
  assumes "logs_commits f wc"
    and "(c, d) \<in> set (f (wf_world (snd (run_pipeline wc cx n task i s))))"
  shows "(c, d) \<in> set (f (wf_world s))
    \<or> (\<exists>raw s1 s2. cc_raw (wc_client wc) c s1 = (Emit raw, s2) \<and> validateStructuringCandidate d raw = [])"
  using assms(2) checked.preserves_pipeline[OF logs_commits_checked[OF assms(1)]]
  unfolding preserves_def commits_checked_def validated_for_def by fast

definition logging_client :: "(string \<times> CaptureDocument) list workflow capture_client" where
  "logging_client =
     example_capture_client
       \<lparr>cc_start := (\<lambda>_. return_obs (example_operation ''awaiting_structuring'')),
        cc_commit := (\<lambda>c _ d s. (Emit (example_operation ''completed''), s\<lparr>wf_world := wf_world s @ [(c, d)]\<rparr>))\<rparr>"

definition host_context :: workflow_context where
  "host_context = \<lparr>cx_config = resolvedConfig (empty_config\<lparr>hc_structuringMode := Some ''host''\<rparr>),
     cx_hasClient = True, cx_streaming = True, cx_hasProvider = True\<rparr>"

definition logging_run :: "(string \<times> CaptureDocument) list workflow" where
  "logging_run =
     (let s = enqueueFiles host_context example_uuid [\<lparr>file_name = ''a.pdf'', file_type = [], file_data = []\<rparr>] (initial_workflow []);
          t = hd (wf_tasks s)
      in snd (run_pipeline (example_collaborators\<lparr>wc_client := logging_client\<rparr>) host_context
                (the (wf_internal s (tk_id t))) t (tk_id t) s))"

theorem commits_are_validated_witness:
  "wf_world logging_run = [(''c'', example_document)]
   \<and> (\<exists>raw s1 s2. cc_raw logging_client ''c'' s1 = (Emit raw, s2) \<and> validateStructuringCandidate example_document raw = [])"
proof -
  have logs: "logs_commits (\<lambda>w. w) (example_collaborators\<lparr>wc_client := logging_client\<rparr>)"
    by (simp add: logs_commits_def log_kept_def collaborators_preserve_def client_preserves_def preserves_def
        example_collaborators_def logging_client_def example_capture_client_def)
  have run: "wf_world logging_run = [(''c'', example_document)]" by code_simp
  have empty: "wf_world (enqueueFiles host_context example_uuid [\<lparr>file_name = ''a.pdf'', file_type = [], file_data = []\<rparr>]
      (initial_workflow ([] :: (string \<times> CaptureDocument) list))) = []" by code_simp
  show ?thesis
    using commits_are_validated[OF logs, of "''c''" example_document, OF run[unfolded logging_run_def Let_def, THEN arg_cong, of set, THEN equalityD2, THEN subsetD]]
      run empty by simp
qed

section \<open>The pipeline settles its task\<close>

text \<open>\<open>ends G S m\<close>: in states that satisfy \<open>G\<close>, \<open>m\<close> keeps \<open>G\<close>, and where it completes without a
  value, \<open>S\<close> holds.\<close>

definition ends :: "('s \<Rightarrow> bool) \<Rightarrow> ('s \<Rightarrow> bool) \<Rightarrow> ('s, 'a) obs \<Rightarrow> bool" where
  "ends G S m \<longleftrightarrow> (\<forall>s. G s \<longrightarrow> G (snd (m s)) \<and> (fst (m s) = Empty \<longrightarrow> S (snd (m s))))"

abbreviation answers :: "('s \<Rightarrow> bool) \<Rightarrow> ('s, 'a) obs \<Rightarrow> bool" where
  "answers G m \<equiv> ends G (\<lambda>_. False) m"

lemma ends_basic: "ends G S (return_obs x)" "ends G S (throw_obs e)"
  by (simp_all add: ends_def)

lemma ends_modify: "(\<And>s. G s \<Longrightarrow> G (f s)) \<Longrightarrow> ends G S (modify_obs f)"
  by (simp add: ends_def)

lemma ends_answers: "answers G m \<Longrightarrow> ends G S m"
  by (auto simp: ends_def)

lemma ends_bind: "ends G S m \<Longrightarrow> (\<And>x. ends G S (f x)) \<Longrightarrow> ends G S (bind_obs m f)"
  unfolding ends_def bind_obs_def by (fastforce split: outcome.splits prod.splits)

lemma ends_catch: "ends G S m \<Longrightarrow> (\<And>e. ends G S (h e)) \<Longrightarrow> ends G S (catch_obs m h)"
  unfolding ends_def catch_obs_def by (fastforce split: outcome.splits prod.splits)

lemma ends_unless_abort: "(\<And>e. ends G S (h e)) \<Longrightarrow> ends G S (unless_abort h e)"
  by (simp add: unless_abort_def ends_basic)

lemma ends_until_abort: "answers G m \<Longrightarrow> (\<And>s. G s \<Longrightarrow> \<not> ab s) \<Longrightarrow> ends G S (until_abort ab live m)"
  by (auto simp: ends_def until_abort_def Let_def)

text \<open>A client all of whose calls answer, with a value or with an error.\<close>

definition client_answers :: "('s \<Rightarrow> bool) \<Rightarrow> 's capture_client \<Rightarrow> bool" where
  "client_answers G cl \<longleftrightarrow>
     (\<forall>rq. answers G (cc_start cl rq)) \<and> (\<forall>c. answers G (cc_get cl c)) \<and> (\<forall>c. answers G (cc_cancel cl c))
     \<and> (\<forall>c. answers G (cc_partial cl c)) \<and> (\<forall>c. answers G (cc_raw cl c)) \<and> (\<forall>c. answers G (cc_result cl c))
     \<and> (\<forall>c k d. answers G (cc_commit cl c k d)) \<and> (\<forall>c k m. answers G (cc_report cl c k m))
     \<and> (\<forall>c q s. G s \<longrightarrow> G (snd (cc_events cl c q s)))"

lemma ends_reload:
  assumes "client_answers G cl" "hooks_preserve (keeping G) hk" "\<And>s. G s \<Longrightarrow> \<not> ab s"
  shows "ends G S (reloadStreamingSnapshot cl ab live hk c p)"
proof -
  have "ends G S (modify_obs (hk_operation hk x))" for x
    using assms(2) by (auto simp: hooks_preserve_def keeping_def intro!: ends_modify)
  moreover have "ends G S (modify_obs (h q))" if "hk_partial hk = Some h" for h q
    using assms(2) that by (auto simp: hooks_preserve_def keeping_def intro!: ends_modify)
  ultimately show ?thesis
    using assms(1,3) unfolding reloadStreamingSnapshot_def client_answers_def
    by (auto intro!: ends_bind ends_catch ends_basic ends_until_abort split: option.splits)
qed

lemma ends_follow_stream:
  assumes "client_answers G cl" "hooks_preserve (keeping G) hk" "\<And>s. G s \<Longrightarrow> \<not> ab s" "G s"
  shows "G (snd (follow_stream cl ab live hk stop k initial s))
    \<and> fst (follow_stream cl ab live hk stop k initial s) \<noteq> Empty"
  using assms
proof (induction cl ab live hk stop k initial s rule: follow_stream.induct)
  case (1 cl ab live hk stop k initial s)
  define d where "d = cc_events cl (op_captureId initial) (op_lastEventSequence initial) s"
  define taken where "taken = take_events stop (fst (fst d))"
  define s1 where "s1 = apply_events hk taken (snd d)"
  have G1: "G s1"
    using 1(2,5) keeping.apply_events_effect[OF 1(3)] unfolding s1_def d_def client_answers_def keeping_def by blast
  obtain a s2 where r: "reloadStreamingSnapshot cl ab live hk (op_captureId initial) (resync_required taken) s1 = (a, s2)"
    by fastforce
  moreover have "answers G (reloadStreamingSnapshot cl ab live hk (op_captureId initial) (resync_required taken))"
    by (rule ends_reload[OF 1(2,3,4)])
  ultimately have G2: "G s2" "a \<noteq> Empty" using G1 unfolding ends_def by (metis fst_conv snd_conv)+
  have rec: "G (snd (follow_stream cl ab live hk stop (k + 1) x s2))
      \<and> fst (follow_stream cl ab live hk stop (k + 1) x s2) \<noteq> Empty"
    if "\<not> stream_done stop x" "resync_required taken" "\<not> MAX_STREAMING_RESYNC_RECONNECTS \<le> k"
      "(if list_ex (stop_event stop) (fst (fst d)) then None else snd (fst d)) = None" for x
    using 1(1)[OF d_def taken_def refl s1_def refl _ that(4)] that 1(2,3,4) G1 G2 by simp
  show ?case
    unfolding follow_stream.simps[of cl ab live hk stop k initial s] Let_def
      d_def[symmetric] taken_def[symmetric] s1_def[symmetric] bind_obs_def r
    using G1 G2 1(4)[OF G1] rec by (cases a) (auto split: option.splits)
qed

definition unhindered :: "string \<Rightarrow> 'w workflow \<Rightarrow> bool" where
  "unhindered i s \<longleftrightarrow> find_task i s \<noteq> None \<and> \<not> task_aborted i s"

definition settled :: "string \<Rightarrow> 'w workflow \<Rightarrow> bool" where
  "settled i s \<longleftrightarrow> (case find_task i s of None \<Rightarrow> False
     | Some t \<Rightarrow> tk_status t \<in> {Completed, Failed, Canceled, Reconciliation_required})"

definition collaborators_answer :: "('w workflow \<Rightarrow> bool) \<Rightarrow> 'w workflow collaborators \<Rightarrow> bool" where
  "collaborators_answer G wc \<longleftrightarrow>
     client_answers G (wc_client wc)
     \<and> (\<forall>g f k. wc_preprocess wc = Some g \<longrightarrow> answers G (g f k))
     \<and> (\<forall>raw v l. answers G (wc_structure wc raw v l))
     \<and> (\<forall>i. answers G (wc_review wc i))"

lemma find_task_None_iff: "find_task i s = None \<longleftrightarrow> i \<notin> tk_id ` set (wf_tasks s)"
  by (auto simp: find_task_def find_None_iff_all)

lemma ids_patch_task: "tk_id ` set (patched j p ts) = tk_id ` set ts"
  by (metis ids_patched list.set_map)

interpretation unhindered: workflow_effect "keeping (unhindered i)" for i
  by unfold_locales
    (simp_all add: keeping_def unhindered_def find_task_None_iff task_aborted_def ids_patch_task)

lemma ends_keeping: "preserves (keeping G) (modify_obs f) \<Longrightarrow> ends G S (modify_obs f)"
  by (auto simp: preserves_def keeping_def ends_def)

lemma settled_patch: "settled i (patch_task i p s) \<longleftrightarrow> (case find_task i s of None \<Rightarrow> False
   | Some t \<Rightarrow> tk_status (apply_patch p t) \<in> {Completed, Failed, Canceled, Reconciliation_required})"
  by (simp add: settled_def split: option.splits)

lemma settled_failTask: "find_task i s \<noteq> None \<Longrightarrow> settled i (failTask i n f raw stage s)"
  using find_task_failTask[of i n f raw stage s] by (auto simp: settled_def split: option.splits)

lemma settled_patch_and_emit:
  assumes "find_task i s \<noteq> None"
    and "\<And>t. tk_status (apply_patch p t) \<in> {Completed, Failed, Canceled, Reconciliation_required}"
  shows "settled i (patch_and_emit i p ev s)"
  using assms by (auto simp: patch_and_emit_def Let_def settled_def split: option.splits)

text \<open>The parts of the pipeline, under collaborators that answer.\<close>

definition settles :: "string \<Rightarrow> ('w workflow, 'a) obs \<Rightarrow> bool" where
  "settles i m \<longleftrightarrow> (\<forall>s. unhindered i s \<longrightarrow> unhindered i (snd (m s))
     \<and> ((\<forall>e. fst (m s) \<noteq> Error e) \<longrightarrow> settled i (snd (m s))))"

lemma settles_bind:
  "ends (unhindered i) (settled i) m \<Longrightarrow> (\<And>x. settles i (f x)) \<Longrightarrow> settles i (bind_obs m f)"
  unfolding ends_def settles_def bind_obs_def by (fastforce split: outcome.splits prod.splits)

lemma settles_catch: "settles i m \<Longrightarrow> (\<And>e. settles i (h e)) \<Longrightarrow> settles i (catch_obs m h)"
  unfolding settles_def catch_obs_def by (fastforce split: outcome.splits prod.splits)

lemma settles_modify:
  "preserves (keeping (unhindered i)) (modify_obs f) \<Longrightarrow> (\<And>s. find_task i s \<noteq> None \<Longrightarrow> settled i (f s)) \<Longrightarrow>
   settles i (modify_obs f)"
  by (auto simp: settles_def preserves_def keeping_def unhindered_def)

lemmas ends_intros = ends_bind ends_catch ends_basic ends_unless_abort ends_answers

lemma ends_waits:
  assumes "client_answers (unhindered i) cl"
  shows "ends (unhindered i) S (waitForStreamingOperation cl i stop x)"
    and "ends (unhindered i) S (waitForTerminal cl (task_aborted i) no_hooks stop x)"
proof -
  have ab: "\<And>s :: 'a workflow. unhindered i s \<Longrightarrow> \<not> task_aborted i s" by (simp add: unhindered_def)
  show "ends (unhindered i) S (waitForStreamingOperation cl i stop x)"
    using ends_follow_stream[OF assms unhindered.effect_hooks ab]
    by (simp add: ends_def waitForStreamingOperation_def)
  show "ends (unhindered i) S (waitForTerminal cl (task_aborted i) no_hooks stop x)"
    using ends_follow_stream[OF assms unhindered.preserves_no_hooks ab]
    by (simp add: ends_def waitForTerminal_def)
qed

lemma ends_client:
  assumes "client_answers G cl"
  shows "ends G S (cc_start cl rq)" "ends G S (cc_get cl c)" "ends G S (cc_cancel cl c)" "ends G S (cc_raw cl c)"
    "ends G S (cc_result cl c)" "ends G S (cc_commit cl c k d)" "ends G S (cc_report cl c k' m)"
  using assms by (auto simp: client_answers_def intro: ends_answers)

lemma ends_runtime_calls:
  assumes "client_answers (unhindered i) cl"
  shows "ends (unhindered i) S (reportHostFailureAndReconcile cl (task_aborted i) c m)"
    and "ends (unhindered i) S (commitHostResultAndReconcile cl (task_aborted i) c k d)"
  unfolding commitHostResultAndReconcile_def reportHostFailureAndReconcile_def cancelAndConfirm_def
    commitAttempt_def reportAttempt_def
  by (auto intro!: ends_bind ends_catch ends_basic ends_unless_abort ends_client[OF assms] ends_waits[OF assms])

lemma ends_require: "ends (unhindered i) (settled i) (require_and_stop i e raw)"
proof -
  have "unhindered i (requireReconciliation i f raw s) \<and> settled i (requireReconciliation i f raw s)"
    if "unhindered i s" for f and s :: "'a workflow"
    using that unhindered.effect_require[of i s i f raw]
    by (auto simp: keeping_def requireReconciliation_def settled_patch unhindered_def)
  then show ?thesis by (simp add: ends_def require_and_stop_def bind_obs_def)
qed

lemma ends_awaitReview:
  assumes "collaborators_answer (unhindered i) wc"
  shows "ends (unhindered i) S (awaitReview wc config i raw v)"
proof -
  have "unhindered i (close_review i s) = unhindered i s" for s :: "'a workflow"
    by (simp add: close_review_def unhindered_def find_task_def task_aborted_def)
  moreover have "answers (unhindered i) (wc_review wc i)"
    using assms by (simp add: collaborators_answer_def)
  ultimately have "ends (unhindered i) S (\<lambda>s. let r = wc_review wc i s in (fst r, close_review i (snd r)))"
    by (auto simp: ends_def Let_def)
  then show ?thesis
    unfolding awaitReview_def
    by (auto intro!: ends_bind ends_basic ends_keeping unhindered.preserves_intros simp: requeues_def)
qed

lemma ends_structuring:
  assumes wc: "collaborators_answer (unhindered i) wc"
  shows "ends (unhindered i) (settled i) (processStreamingHostStructuring wc config i x)"
proof -
  note cl = wc[unfolded collaborators_answer_def, THEN conjunct1]
  have host: "ends (unhindered i) S (wc_structure wc raw v l)" for S raw v l
    using wc by (simp add: collaborators_answer_def ends_answers)
  have "ends (unhindered i) (settled i) (structure_candidate wc config raw review)" for raw review
    unfolding structure_candidate_def Let_def by (auto intro!: ends_bind ends_basic host)
  moreover have "ends (unhindered i) (settled i) (report_failure wc i c raw e)" for c raw e
    unfolding report_failure_def
    by (auto intro!: ends_bind ends_catch ends_basic ends_unless_abort ends_runtime_calls[OF cl] ends_require)
  moreover have "ends (unhindered i) (settled i) (\<lambda>s. require_and_stop i e (f s) s)" for e f
    using ends_require unfolding ends_def by blast
  then have "ends (unhindered i) (settled i) (commit_outcome wc i c out)" for c out
    unfolding commit_outcome_def
    by (auto intro!: ends_bind ends_catch ends_basic ends_unless_abort ends_runtime_calls[OF cl] split: host_outcome.splits)
  ultimately show ?thesis
    unfolding processStreamingHostStructuring_def structure_awaiting_def
    by (auto intro!: ends_bind ends_catch ends_basic ends_unless_abort ends_waits[OF cl] ends_client[OF cl]
        ends_awaitReview[OF wc])
qed

lemma ends_start:
  assumes wc: "collaborators_answer (unhindered i) wc"
  shows "ends (unhindered i) S (start_capture wc config n task i)"
proof -
  note cl = wc[unfolded collaborators_answer_def, THEN conjunct1]
  have "ends (unhindered i) S (preprocess wc f k)" for f k
    using wc by (auto simp: collaborators_answer_def preprocess_def ends_basic ends_answers split: option.splits)
  moreover have "ends (unhindered i) S (throwIfAborted i)"
    by (simp add: ends_def throwIfAborted_def)
  ultimately show ?thesis
    unfolding start_capture_def retryUncertainResponse_def
    by (auto intro!: ends_bind ends_catch ends_basic ends_client[OF cl] ends_keeping unhindered.preserves_intros
        simp: requeues_def)
qed

lemma ends_tryGetRaw: "client_answers G cl \<Longrightarrow> ends G S (tryGetRaw cl c)"
  unfolding tryGetRaw_def by (intro ends_catch ends_bind ends_basic ends_client)

lemma settles_error: "settles i (throw_obs e)"
  by (simp add: settles_def)

lemma settles_failTask: "settles i (modify_obs (failTask i n f raw stage))"
  by (rule settles_modify[OF unhindered.preserves_modifies(5)]) (rule settled_failTask)

lemma settles_settleStreaming:
  assumes cl: "client_answers (unhindered i) (wc_client wc)"
  shows "settles i (settleStreaming wc task i x)"
proof -
  have patch: "settles i (modify_obs (patch_and_emit i p ev))"
    if "\<not> requeues p" "\<And>t. tk_status (apply_patch p t) \<in> {Completed, Failed, Canceled, Reconciliation_required}" for p ev
    by (rule settles_modify) (use that in \<open>auto intro: unhindered.preserves_patches settled_patch_and_emit\<close>)
  show ?thesis
    unfolding settleStreaming_def cancel_patch_def
    by (auto intro!: patch settles_failTask settles_bind settles_error ends_tryGetRaw[OF cl] ends_client[OF cl]
        simp: requeues_def)
qed

lemma settles_handleProcessError:
  assumes cl: "client_answers (unhindered i) (wc_client wc)"
  shows "settles i (handleProcessError wc task i e)"
proof -
  have fail: "settles i (bind_obs (case m of None \<Rightarrow> return_obs None
      | Some c \<Rightarrow> if c = [] then return_obs None else tryGetRaw (wc_client wc) c) (\<lambda>raw.
      modify_obs (failTask i (tk_fileName task) (failureFrom e ''runtime'' ''Capture failed.'') raw None)))" for m
    by (intro settles_bind settles_failTask) (auto intro: ends_basic ends_tryGetRaw[OF cl] split: option.splits)
  have abort: "settles i (modify_obs (patch_and_emit i cancel_patch CanceledEvent :: 'a workflow \<Rightarrow> _))"
    by (rule settles_modify)
      (auto intro: unhindered.preserves_patches settled_patch_and_emit simp: requeues_def cancel_patch_def)
  have "settled i s" if "map_option tk_status (find_task i s) = Some Canceled" for s :: "'a workflow"
    using that by (auto simp: settled_def)
  then show ?thesis
    using fail abort unfolding settles_def handleProcessError_def by simp
qed

lemma settles_process:
  assumes wc: "collaborators_answer (unhindered i) wc"
  shows "settles i (processStreamingTask wc config p n task i)"
proof -
  note cl = wc[unfolded collaborators_answer_def, THEN conjunct1]
  show ?thesis
    unfolding processStreamingTask_def
    by (auto intro!: settles_bind settles_settleStreaming[OF cl] ends_start[OF wc] ends_structuring[OF wc]
        ends_waits[OF cl] ends_basic)
qed

lemma pipeline_at_rest:
  assumes "collaborators_answer (unhindered i) wc" and "find_task i s \<noteq> None" and "i \<notin> set (wf_aborted s)"
  shows "\<exists>t. find_task i (snd (run_pipeline wc cx n task i s)) = Some t
    \<and> tk_status t \<in> {Completed, Failed, Canceled, Reconciliation_required}"
proof -
  let ?inner = "catch_obs (processStreamingTask wc (cx_config cx) (cx_hasProvider cx) n task i)
     (handleProcessError wc task i)"
  have "client_answers (unhindered i) (wc_client wc)" using assms(1) by (simp add: collaborators_answer_def)
  then have "settles i ?inner"
    by (intro settles_catch settles_process[OF assms(1)] settles_handleProcessError)
  moreover have "unhindered i s" using assms(2,3) by (simp add: unhindered_def task_aborted_def)
  ultimately have inner: "unhindered i (snd (?inner s))"
    "(\<forall>e. fst (?inner s) \<noteq> Error e) \<Longrightarrow> settled i (snd (?inner s))"
    by (auto simp: settles_def)
  have "settled i (snd (run_pipeline wc cx n task i s))"
    unfolding run_pipeline_def catch_obs_def[of ?inner]
    using inner settled_failTask[of i "snd (?inner s)"]
    by (auto simp: unhindered_def split: prod.splits outcome.splits option.splits)
  then show ?thesis by (simp add: settled_def split: option.splits)
qed

text \<open>C2. The pipeline always brings its task to rest: when every call of the client, the
  preprocessor, the provider and the reviewer answers, with a value or with any error, and the
  task is neither cancelled nor removed meanwhile, the task ends completed, failed, cancelled
  or waiting for reconciliation; it is never left processing.\<close>

theorem pipeline_settles:
  assumes "collaborators_answer (unhindered i) wc" and "find_task i s \<noteq> None" and "i \<notin> set (wf_aborted s)"
  shows "\<exists>t. find_task i (snd (run_pipeline wc cx n task i s)) = Some t
    \<and> tk_status t \<in> {Completed, Failed, Canceled, Reconciliation_required}"
  using assms by (rule pipeline_at_rest)

lemma example_answers: "(\<And>s. G s \<Longrightarrow> G s) \<Longrightarrow> collaborators_answer G example_collaborators"
  by (simp add: collaborators_answer_def example_collaborators_def client_answers_def example_capture_client_def
      ends_def)

theorem pipeline_settles_witness:
  "\<exists>t. find_task (tk_id example_task) example_run = Some t
     \<and> tk_status t \<in> {Completed, Failed, Canceled, Reconciliation_required}"
proof -
  have "find_task (tk_id example_task) example_queue \<noteq> None" "tk_id example_task \<notin> set (wf_aborted example_queue)"
    by code_simp+
  then show ?thesis
    unfolding example_run_def by (intro pipeline_settles example_answers)
qed

section \<open>Reconciliation\<close>

lemma follow_stream_reported:
  "follow_stream cl ab live hk stop k initial s = (Emit x, s') \<Longrightarrow> \<exists>c s1 s2. cc_get cl c s1 = (Emit x, s2)"
proof (induction cl ab live hk stop k initial s arbitrary: s' rule: follow_stream.induct)
  case (1 cl ab live hk stop k initial s)
  define d where "d = cc_events cl (op_captureId initial) (op_lastEventSequence initial) s"
  define taken where "taken = take_events stop (fst (fst d))"
  define s1 where "s1 = apply_events hk taken (snd d)"
  let ?reload = "reloadStreamingSnapshot cl ab live hk (op_captureId initial) (resync_required taken)"
  from 1(2) have live: "\<not> (live \<and> ab s1)"
    and none: "(if list_ex (stop_event stop) (fst (fst d)) then None else snd (fst d)) = None"
    and run: "bind_obs ?reload (\<lambda>snapshot s2.
        if stream_done stop snapshot then (Emit snapshot, s2)
        else if \<not> resync_required taken then (Emit snapshot, s2)
        else if MAX_STREAMING_RESYNC_RECONNECTS \<le> k
        then (Error (new_Error ''Capture event stream exceeded the resync recovery limit.''), s2)
        else follow_stream cl ab live hk stop (k + 1) snapshot s2) s1 = (Emit x, s')"
    unfolding follow_stream.simps[of cl ab live hk stop k initial s] Let_def
      d_def[symmetric] taken_def[symmetric] s1_def[symmetric]
    by (auto split: if_splits option.splits)
  from run obtain y s2 where y: "?reload s1 = (Emit y, s2)"
    and cont: "x = y \<or> \<not> stream_done stop y \<and> resync_required taken \<and> \<not> MAX_STREAMING_RESYNC_RECONNECTS \<le> k
      \<and> follow_stream cl ab live hk stop (k + 1) y s2 = (Emit x, s')"
    by (auto simp: res_simps split: if_splits)
  from cont show ?case
  proof
    assume "x = y"
    with reload_is_snapshot[OF y] show ?thesis by blast
  next
    assume "\<not> stream_done stop y \<and> resync_required taken \<and> \<not> MAX_STREAMING_RESYNC_RECONNECTS \<le> k
      \<and> follow_stream cl ab live hk stop (k + 1) y s2 = (Emit x, s')"
    then show ?thesis using 1(1)[OF d_def taken_def refl s1_def refl live none] by auto
  qed
qed

lemma confirmOperation_reported:
  assumes "confirmOperation cx cl ab c i r = (Emit x, r')"
  shows "\<exists>c s1 s2. cc_get cl c s1 = (Emit x, s2)"
proof -
  obtain y r1 where y: "cc_get cl c r = (Emit y, r1)"
    and w: "waitForTerminal cl ab (recon_hooks cx i) True y r1 = (Emit x, r')"
    using assms by (auto simp: confirmOperation_def res_simps)
  from w consider "x = y" | "follow_stream cl ab (\<not> ab r1) (recon_hooks cx i) True 0 y r1 = (Emit x, r')"
    by (auto simp: waitForTerminal_def split: if_splits)
  then show ?thesis using y follow_stream_reported by cases blast+
qed

text \<open>C30. Reconciling a task succeeds only on the word of the runtime: when it emits, the runtime
  has reported a terminal operation, and the task, if it is still listed, has exactly the
  status that belongs to it.\<close>

theorem reconcile_follows_runtime:
  assumes "reconcile workflow_recon (Some cl) ab i r = (Emit u, r')"
  shows "\<exists>x c s1 s2. cc_get cl c s1 = (Emit x, s2) \<and> isTerminalStreamingOperation x
    \<and> (\<forall>t. find_task i (rs_host r') = Some t \<longrightarrow>
         tk_status t = (if op_status x = ''completed'' then Completed
                        else if op_status x = ''failed'' then Failed else Canceled))"
proof -
  have "rc_getTask workflow_recon = (find_task :: string \<Rightarrow> 'a workflow \<Rightarrow> _)" by (simp add: workflow_recon_def)
  with workflow_host.reconcile_emits[OF assms] confirmOperation_reported show ?thesis
    unfolding final_status_def by (metis option.inject)
qed

definition stranded :: "unit workflow" where
  "stranded = (patch_task (tk_id example_task)
     [SetStatus Reconciliation_required, SetCaptureId (Some ''c'')] example_queue)"

definition stranded_recon :: "unit workflow recon" where
  "stranded_recon = \<lparr>rs_host = stranded, rs_locks = []\<rparr>"

theorem reconcile_follows_runtime_witness:
  "map_option tk_status (find_task (tk_id example_task)
     (rs_host (snd (reconcile workflow_recon (Some example_capture_client) (\<lambda>_. False) (tk_id example_task) stranded_recon))))
   = Some Completed
   \<and> (\<exists>x c s1 s2. cc_get (example_capture_client :: unit workflow recon capture_client) c s1 = (Emit x, s2)
        \<and> isTerminalStreamingOperation x)"
proof -
  let ?run = "reconcile workflow_recon (Some example_capture_client) (\<lambda>_. False) (tk_id example_task) stranded_recon"
  have "fst ?run = Emit ()" by code_simp
  then have run: "?run = (Emit (), snd ?run)" by (simp add: prod_eq_iff)
  have "map_option tk_status (find_task (tk_id example_task) (rs_host (snd ?run))) = Some Completed" by code_simp
  then show ?thesis using reconcile_follows_runtime[OF run] by blast
qed

text \<open>Reconciliation never fails: neither checking a task again nor cancelling it while its
  outcome is unknown raises an error, whatever the client answers.\<close>

theorem reconciliation_never_throws:
  "fst (reconcile cx client ab i r) \<noteq> Error e \<and> fst (cancel_reconciliation cx client ab i r) \<noteq> Error e"
proof -
  have "fst (settle_run cx cl task m s) \<noteq> Error e" for cl task m s
    by (cases "bind_obs m (settleOrRequire cx cl task) s")
      (auto simp: settle_run_def release_lock_def Let_def catch_obs_def require_obs_def bind_obs_def[of "modify_obs f" for f]
        split: outcome.splits)
  then show ?thesis
    by (simp add: reconcile_def cancel_reconciliation_def split: option.splits)
qed

text \<open>One reconciliation per task: while a task is being reconciled or its capture cancelled, a
  second request changes nothing and calls nobody, and however the first one ends, the task is
  free again.\<close>

theorem reconciliation_exclusive:
  "if i \<in> set (rs_locks r)
   then reconcile workflow_recon client ab i r = (Empty, r)
     \<and> cancel_reconciliation workflow_recon client ab i r = (Empty, r)
   else i \<notin> set (rs_locks (snd (reconcile workflow_recon client ab i r)))
     \<and> i \<notin> set (rs_locks (snd (cancel_reconciliation workflow_recon client ab i r)))"
  using reconcile_locked[of i r] workflow_host.reconcile_unlocks[of i r] by (cases "i \<in> set (rs_locks r)") simp_all

section \<open>Where the pipeline falls short\<close>

text \<open>A client that goes on although its signal was aborted: the task is cancelled while the upload
  is being answered, and is completed afterwards.\<close>

definition deaf_collaborators :: "unit workflow collaborators" where
  "deaf_collaborators = example_collaborators
     \<lparr>wc_client := example_capture_client
        \<lparr>cc_start := (\<lambda>_ s. (Emit (example_operation ''queued''), cancel example_context False (tk_id example_task) s))\<rparr>\<rparr>"

lemma cancelled_task_completes:
  "map_option tk_status (find_task (tk_id example_task) (cancel example_context False (tk_id example_task) example_queue))
     = Some Canceled
   \<and> map_option tk_status (find_task (tk_id example_task) (snd (run_pipeline deaf_collaborators example_context
        example_internal example_task (tk_id example_task) example_queue))) = Some Completed"
  by (rule conjI; code_simp)

text \<open>A task whose capture could not be deleted is removed as well, with the error just set.\<close>

lemma failed_deletion_removes: "find_task i (remove_answered i (Some e) s) = None"
  by (auto simp: remove_answered_def removeTask_def find_task_def find_None_iff_all)

end
