(* ===== verification/Workbench_System.thy ===== *)
theory Workbench_System
  imports Workbench_Adapter Workbench_Outcome
begin

text \<open>
  The two packages together: the pipeline of \<open>Workbench_Capture\<close> over the adapter of
  \<open>Workbench_Adapter\<close> over the client of \<open>Runtime_Client\<close>, with any transport below. The state of the
  adapter is the world of the workflow.
\<close>

section \<open>Composition\<close>

text \<open>A call that touches the world only.\<close>

definition on_world :: "('w, 'a) obs \<Rightarrow> ('w workflow, 'a) obs" where
  "on_world m s = (let r = m (wf_world s) in (fst r, s\<lparr>wf_world := snd r\<rparr>))"

definition lift_client :: "'w capture_client \<Rightarrow> 'w workflow capture_client" where
  "lift_client cl =
     \<lparr>cc_start = (\<lambda>rq. on_world (cc_start cl rq)), cc_get = (\<lambda>c. on_world (cc_get cl c)),
      cc_cancel = (\<lambda>c. on_world (cc_cancel cl c)), cc_partial = (\<lambda>c. on_world (cc_partial cl c)),
      cc_raw = (\<lambda>c. on_world (cc_raw cl c)), cc_result = (\<lambda>c. on_world (cc_result cl c)),
      cc_commit = (\<lambda>c k d. on_world (cc_commit cl c k d)), cc_report = (\<lambda>c k m. on_world (cc_report cl c k m)),
      cc_events = (\<lambda>c q s. let r = cc_events cl c q (wf_world s) in (fst r, s\<lparr>wf_world := snd r\<rparr>))\<rparr>"

text \<open>The collaborators of a workbench that talks to the runtime through the adapter; \<open>structure\<close> and
  \<open>review\<close> are those of the host.\<close>

definition http_collaborators ::
  "'w http_client \<Rightarrow> (RawCapture \<Rightarrow> CaptureReview \<Rightarrow> string option \<Rightarrow> ('w http_state, CaptureDocument) obs)
     \<Rightarrow> (string \<Rightarrow> ('w http_state, CaptureReview) obs) \<Rightarrow> string \<Rightarrow> 'w http_state workflow collaborators" where
  "http_collaborators h structure review k =
     \<lparr>wc_client = lift_client (http_capture_client h), wc_preprocess = None,
      wc_structure = (\<lambda>raw v l. on_world (structure raw v l)), wc_review = (\<lambda>i. on_world (review i)), wc_commitId = k\<rparr>"

section \<open>The adapter always answers\<close>

definition always_answers :: "('s, 'a) obs \<Rightarrow> bool" where
  "always_answers m \<longleftrightarrow> (\<forall>s. fst (m s) \<noteq> Empty)"

lemma fromRuntime_answers: "always_answers (fromRuntime h m)"
  by (simp add: always_answers_def fromRuntime_def split: prod.splits sum.splits)

lemma view_answers:
  assumes "always_answers m"
  shows "always_answers (bind_obs m (\<lambda>x. return_obs (f x)))"
  unfolding always_answers_def
proof
  fix s
  show "fst (bind_obs m (\<lambda>x. return_obs (f x)) s) \<noteq> Empty"
    using assms by (cases "m s"; cases "fst (m s)") (auto simp: always_answers_def bind_obs_def dest: spec[of _ s])
qed

lemma http_call_answers: "always_answers (http_call_json h view c)"
  unfolding http_call_json_def by (intro view_answers fromRuntime_answers)

lemma http_start_answers: "always_answers (http_startStreamingCapture h rq)"
  unfolding http_startStreamingCapture_def by (intro view_answers fromRuntime_answers)

lemma on_world_answers:
  assumes "always_answers m"
  shows "answers (unhindered i) (on_world m)"
  using assms by (simp add: ends_def always_answers_def on_world_def Let_def unhindered_def task_aborted_def find_task_def)

lemma on_world_steps: "preserves (workflow_steps cx uuid) (on_world m)"
  unfolding preserves_def on_world_def Let_def
  by (auto intro!: workflow_steps_effect task_effect_same simp: same_queue_def)

lemma http_collaborators_answer:
  assumes "\<And>raw v l. always_answers (structure raw v l)" "\<And>j. always_answers (review j)"
  shows "collaborators_answer (unhindered i) (http_collaborators h structure review k)"
  unfolding collaborators_answer_def http_collaborators_def client_answers_def lift_client_def http_capture_client_def Let_def
  using assms
  by (auto intro!: on_world_answers http_call_answers http_start_answers
      simp: unhindered_def task_aborted_def find_task_def)

lemma http_collaborators_steps:
  "collaborators_preserve (workflow_steps cx uuid) (http_collaborators h structure review k)"
  unfolding collaborators_preserve_def http_collaborators_def client_preserves_def lift_client_def Let_def
  by (auto intro!: on_world_steps workflow_steps_effect task_effect_same simp: same_queue_def)


definition offline_queue :: "unit http_state workflow" where
  "offline_queue = enqueueFiles example_context example_uuid
     [\<lparr>file_name = ''a.pdf'', file_type = [], file_data = []\<rparr>] (initial_workflow offline_state)"


end
