(* ===== verification/Desktop_Library.thy ===== *)
theory Desktop_Library
  imports Workbench_Tasks
begin

text \<open>
  The library of the desktop application, where captured documents live.

  \<^item> The native store, \<^verbatim>\<open>apps/capture-workbench-desktop/src-tauri/src/library/store.rs\<close> with
    \<^verbatim>\<open>validation.rs\<close>: looking a document up, updating its capture, reading, exporting and deleting it.
  \<^item> The service in front of it,
    \<^verbatim>\<open>apps/capture-workbench/src/app/services/desktop-library.service.ts\<close>, which redacts what
    it passes on.

  The state is the index of documents and the files beside it. What the operating system
  contributes to a call (the clock, a random identifier, whether the files can be written) and the
  native check of OCR evidence are in a \<open>library_host\<close>. Writing is one transaction: when it is
  refused, nothing has changed.
\<close>

section \<open>Documents\<close>

record LibraryDocumentSummary =
  sm_documentId :: string
  sm_fileName :: string
  sm_mediaType :: string
  sm_byteLength :: nat
  sm_createdAtMs :: nat
  sm_updatedAtMs :: nat
  sm_status :: string
  sm_stage :: "string option"
  sm_captureId :: "string option"
  sm_errorCode :: "string option"
  sm_errorMessage :: "string option"
  sm_recoveryCode :: "string option"
  sm_recoveryMessage :: "string option"

record StoredDocument = LibraryDocumentSummary +
  sd_ocrEvidence :: "jobj option"

record LibraryDocumentDetail =
  dt_summary :: LibraryDocumentSummary
  dt_raw :: "RawCapture option"
  dt_result :: "CaptureDocument option"
  dt_ocrEvidence :: "jobj option"

record library =
  lb_documents :: "StoredDocument list"
  lb_raw :: "string \<rightharpoonup> RawCapture"
  lb_result :: "string \<rightharpoonup> CaptureDocument"

record library_host =
  lh_now :: "string + nat"
  lh_random :: "string + string"
  lh_disk :: "string + unit"
  lh_remove :: "string + unit"
  lh_evidence :: "jobj \<Rightarrow> string + unit"

record LibraryCaptureUpdate =
  up_documentId :: string
  up_captureId :: "string option"
  up_clearCaptureId :: bool
  up_status :: string
  up_stage :: "string option"
  up_raw :: "RawCapture option"
  up_result :: "CaptureDocument option"
  up_errorCode :: "string option"
  up_errorMessage :: "string option"
  up_recoveryCode :: "string option"
  up_recoveryMessage :: "string option"
  up_ocrEvidence :: "jobj option"

section \<open>The native store\<close>

definition ascii_hexdigit :: "char \<Rightarrow> bool" where
  "ascii_hexdigit c = (let n = of_char c :: nat in 48 \<le> n \<and> n \<le> 57 \<or> 65 \<le> n \<and> n \<le> 70 \<or> 97 \<le> n \<and> n \<le> 102)"

definition validate_document_id :: "string \<Rightarrow> string + unit" where
  "validate_document_id v = throw_if (length v \<noteq> 32 \<or> \<not> list_all ascii_hexdigit v)
     ''Capture library document identifier is invalid.''"

definition LIBRARY_STATUSES :: "string list" where
  "LIBRARY_STATUSES = [''queued'', ''processing'', ''persisting'', ''recovery_required'',
     ''awaiting_confirmation'', ''completed'', ''failed'', ''canceled'']"

definition validate_status :: "string \<Rightarrow> string + unit" where
  "validate_status v = throw_if (v \<notin> set LIBRARY_STATUSES) ''Capture library status is invalid.''"

abbreviation find_stored :: "string \<Rightarrow> StoredDocument list \<Rightarrow> StoredDocument option" where
  "find_stored d docs \<equiv> List.find (\<lambda>x. sm_documentId x = d) docs"

definition find_document :: "string \<Rightarrow> library \<Rightarrow> string + StoredDocument" where
  "find_document d lib = then_res (validate_document_id d)
     (case find_stored d (lb_documents lib) of
        None \<Rightarrow> Inl ''Capture library document was not found.'' | Some x \<Rightarrow> Inr x)"

text \<open>The document at the position of the first entry with the identifier is replaced.\<close>

fun replace_stored :: "string \<Rightarrow> StoredDocument \<Rightarrow> StoredDocument list \<Rightarrow> StoredDocument list" where
  "replace_stored d x [] = []"
| "replace_stored d x (y # ys) = (if sm_documentId y = d then x # ys else y # replace_stored d x ys)"

text \<open>OCR evidence is checked, has to agree with the status of the update, and is written once.\<close>

definition store_evidence :: "library_host \<Rightarrow> LibraryCaptureUpdate \<Rightarrow> StoredDocument \<Rightarrow> string + StoredDocument" where
  "store_evidence h u x =
     (case up_ocrEvidence u of
        None \<Rightarrow> Inr x
      | Some ev \<Rightarrow>
          then_res (lh_evidence h ev)
          (then_res (throw_if (fld ev ''status'' \<noteq> JStr (up_status u))
             ''OCR evidence status must match the terminal library update.'')
          (case sd_ocrEvidence x of
             Some old \<Rightarrow> then_res (throw_if (old \<noteq> ev)
               ''OCR evidence is write-once and conflicts with existing evidence.'') (Inr x)
           | None \<Rightarrow> Inr (x\<lparr>sd_ocrEvidence := Some ev\<rparr>))))"

definition updated_document :: "nat \<Rightarrow> LibraryCaptureUpdate \<Rightarrow> StoredDocument \<Rightarrow> StoredDocument" where
  "updated_document now u x =
     x\<lparr>sm_captureId := (if up_clearCaptureId u then None
                        else if up_captureId u \<noteq> None then up_captureId u else sm_captureId x),
       sm_status := up_status u, sm_stage := up_stage u,
       sm_errorCode := up_errorCode u, sm_errorMessage := up_errorMessage u,
       sm_recoveryCode := up_recoveryCode u, sm_recoveryMessage := up_recoveryMessage u,
       sm_updatedAtMs := now\<rparr>"

definition update_capture ::
  "library_host \<Rightarrow> LibraryCaptureUpdate \<Rightarrow> library \<Rightarrow> string + LibraryDocumentSummary \<times> library" where
  "update_capture h u lib =
     then_res (validate_document_id (up_documentId u))
     (then_res (validate_status (up_status u))
     (then_res (throw_if (up_clearCaptureId u \<and> up_captureId u \<noteq> None)
        ''Capture library update cannot set and clear a runtime identifier together.'')
     (case find_stored (up_documentId u) (lb_documents lib) of
        None \<Rightarrow> Inl ''Capture library document was not found.''
      | Some x \<Rightarrow>
          bind_res (store_evidence h u x) (\<lambda>x1.
          bind_res (lh_now h) (\<lambda>now.
            let x2 = updated_document now u x1
            in bind_res (lh_random h) (\<lambda>_. then_res (lh_disk h)
                 (Inr (LibraryDocumentSummary.truncate x2,
                       lib\<lparr>lb_documents := replace_stored (up_documentId u) x2 (lb_documents lib),
                           lb_raw := (case up_raw u of None \<Rightarrow> lb_raw lib
                                      | Some r \<Rightarrow> (lb_raw lib)(up_documentId u \<mapsto> r)),
                           lb_result := (case up_result u of None \<Rightarrow> lb_result lib
                                         | Some r \<Rightarrow> (lb_result lib)(up_documentId u \<mapsto> r))\<rparr>))))))))"

definition library_get :: "string \<Rightarrow> library \<Rightarrow> string + LibraryDocumentDetail" where
  "library_get d lib = bind_res (find_document d lib) (\<lambda>x.
     Inr \<lparr>dt_summary = LibraryDocumentSummary.truncate x, dt_raw = lb_raw lib d, dt_result = lb_result lib d,
          dt_ocrEvidence = sd_ocrEvidence x\<rparr>)"

text \<open>A document that still owns a capture of the runtime is not deleted.\<close>

fun remove_stored :: "string \<Rightarrow> StoredDocument list \<Rightarrow> StoredDocument list" where
  "remove_stored d [] = []"
| "remove_stored d (y # ys) = (if sm_documentId y = d then ys else y # remove_stored d ys)"

text \<open>The document has left the index when its files turn out not to be removable: the call fails and
  the document is gone.\<close>

definition library_delete :: "library_host \<Rightarrow> string \<Rightarrow> library \<Rightarrow> (string + unit) \<times> library" where
  "library_delete h d lib =
     (case find_document d lib of
        Inl m \<Rightarrow> (Inl m, lib)
      | Inr x \<Rightarrow>
          if sm_captureId x \<noteq> None then (Inl ''Capture library document still owns an active runtime capture.'', lib)
          else (case lh_disk h of
                  Inl m \<Rightarrow> (Inl m, lib)
                | Inr _ \<Rightarrow> (lh_remove h, lib\<lparr>lb_documents := remove_stored d (lb_documents lib),
                    lb_raw := (lb_raw lib)(d := None), lb_result := (lb_result lib)(d := None)\<rparr>)))"

section \<open>The service of the application\<close>

definition sanitizeSummary :: "LibraryDocumentSummary \<Rightarrow> LibraryDocumentSummary" where
  "sanitizeSummary x =
     x\<lparr>sm_errorCode := map_option redactSensitiveMessage (sm_errorCode x),
       sm_errorMessage := map_option redactSensitiveMessage (sm_errorMessage x),
       sm_recoveryCode := map_option redactSensitiveMessage (sm_recoveryCode x),
       sm_recoveryMessage := map_option redactSensitiveMessage (sm_recoveryMessage x)\<rparr>"

section \<open>Looking up after an update\<close>

lemma find_stored_replace:
  "find_stored d docs \<noteq> None \<Longrightarrow> sm_documentId x = d
     \<Longrightarrow> find_stored d' (replace_stored d x docs) = (if d' = d then Some x else find_stored d' docs)"
  by (induction docs) auto

lemma find_stored_id: "find_stored d docs = Some x \<Longrightarrow> sm_documentId x = d"
  by (auto simp: find_Some_iff)

lemma updated_document_simps [simp]:
  "sm_documentId (updated_document now u x) = sm_documentId x"
  "sm_status (updated_document now u x) = up_status u"
  "sm_stage (updated_document now u x) = up_stage u"
  "sd_ocrEvidence (updated_document now u x) = sd_ocrEvidence x"
  "sm_recoveryCode (updated_document now u x) = up_recoveryCode u"
  "sm_errorCode (updated_document now u x) = up_errorCode u"
  "sm_mediaType (updated_document now u x) = sm_mediaType x"
  by (simp_all add: updated_document_def)

lemma store_evidence_id:
  "store_evidence h u x = Inr y \<Longrightarrow> sm_documentId y = sm_documentId x \<and> sm_captureId y = sm_captureId x
     \<and> sm_mediaType y = sm_mediaType x"
  by (auto simp: store_evidence_def res_simps split: option.splits)

text \<open>What an update that succeeds has done.\<close>

lemma update_capture_ok:
  assumes "update_capture h u lib = Inr (sm, lib')"
  obtains x y now where "find_stored (up_documentId u) (lb_documents lib) = Some x"
    "store_evidence h u x = Inr y" "lh_now h = Inr now"
    "\<not> (up_clearCaptureId u \<and> up_captureId u \<noteq> None)"
    "sm = LibraryDocumentSummary.truncate (updated_document now u y)"
    "\<forall>d. find_stored d (lb_documents lib') =
       (if d = up_documentId u then Some (updated_document now u y) else find_stored d (lb_documents lib))"
    "lb_raw lib' = (case up_raw u of None \<Rightarrow> lb_raw lib | Some r \<Rightarrow> (lb_raw lib)(up_documentId u \<mapsto> r))"
    "lb_result lib' = (case up_result u of None \<Rightarrow> lb_result lib | Some r \<Rightarrow> (lb_result lib)(up_documentId u \<mapsto> r))"
proof -
  from assms obtain x y now where xy: "find_stored (up_documentId u) (lb_documents lib) = Some x"
    "store_evidence h u x = Inr y" "lh_now h = Inr now" "\<not> (up_clearCaptureId u \<and> up_captureId u \<noteq> None)"
    "sm = LibraryDocumentSummary.truncate (updated_document now u y)"
    "lib' = lib\<lparr>lb_documents := replace_stored (up_documentId u) (updated_document now u y) (lb_documents lib),
       lb_raw := (case up_raw u of None \<Rightarrow> lb_raw lib | Some r \<Rightarrow> (lb_raw lib)(up_documentId u \<mapsto> r)),
       lb_result := (case up_result u of None \<Rightarrow> lb_result lib | Some r \<Rightarrow> (lb_result lib)(up_documentId u \<mapsto> r))\<rparr>"
    by (auto simp: update_capture_def res_simps Let_def split: option.splits)
  have "sm_documentId (updated_document now u y) = up_documentId u"
    using store_evidence_id[OF xy(2)] find_stored_id[OF xy(1)] by simp
  then have "find_stored d (lb_documents lib') =
    (if d = up_documentId u then Some (updated_document now u y) else find_stored d (lb_documents lib))" for d
    using xy(1) by (subst xy(6)) (simp add: find_stored_replace)
  with xy show thesis by (intro that[of x y now]) simp_all
qed

text \<open>An update without evidence goes through when the document is there and the system helps.\<close>

definition host_works :: "library_host \<Rightarrow> bool" where
  "host_works h \<longleftrightarrow> (\<exists>now. lh_now h = Inr now) \<and> (\<exists>i. lh_random h = Inr i) \<and> lh_disk h = Inr ()"

lemma update_capture_succeeds:
  assumes "host_works h" "up_ocrEvidence u = None" "find_stored (up_documentId u) (lb_documents lib) \<noteq> None"
    and "validate_document_id (up_documentId u) = Inr ()" "up_status u \<in> set LIBRARY_STATUSES"
    and "\<not> (up_clearCaptureId u \<and> up_captureId u \<noteq> None)"
  shows "\<exists>sm lib'. update_capture h u lib = Inr (sm, lib')"
  using assms by (auto simp: update_capture_def host_works_def store_evidence_def validate_status_def Let_def)

section \<open>Evidence is written once\<close>

text \<open>A sequence of calls of the store; a call that is refused changes nothing.\<close>

datatype library_call = Update library_host LibraryCaptureUpdate | Delete library_host string

fun do_call :: "library_call \<Rightarrow> library \<Rightarrow> library" where
  "do_call (Update h u) lib = (case update_capture h u lib of Inl _ \<Rightarrow> lib | Inr (_, lib') \<Rightarrow> lib')"
| "do_call (Delete h d) lib = snd (library_delete h d lib)"

definition evidence_in :: "string \<Rightarrow> library \<Rightarrow> jobj option" where
  "evidence_in d lib = Option.bind (find_stored d (lb_documents lib)) sd_ocrEvidence"

lemma find_stored_remove: "d' \<noteq> d \<Longrightarrow> find_stored d' (remove_stored d docs) = find_stored d' docs"
  by (induction docs) auto

lemma store_evidence_kept:
  "store_evidence h u x = Inr y \<Longrightarrow> sd_ocrEvidence x = Some ev \<Longrightarrow> sd_ocrEvidence y = Some ev"
  by (auto simp: store_evidence_def res_simps split: option.splits)

lemma update_keeps_evidence:
  assumes "update_capture h u lib = Inr (sm, lib')" "evidence_in d lib = Some ev"
  shows "evidence_in d lib' = Some ev"
  using assms(1)
proof (rule update_capture_ok)
  fix x y now
  assume "find_stored (up_documentId u) (lb_documents lib) = Some x" "store_evidence h u x = Inr y"
    "\<forall>d. find_stored d (lb_documents lib') =
       (if d = up_documentId u then Some (updated_document now u y) else find_stored d (lb_documents lib))"
  then show ?thesis
    using assms(2) store_evidence_kept[of h u x y ev] by (cases "d = up_documentId u") (auto simp: evidence_in_def)
qed

lemma call_keeps_evidence:
  assumes "evidence_in d lib = Some ev" "\<And>h. c \<noteq> Delete h d"
  shows "evidence_in d (do_call c lib) = Some ev"
proof (cases c)
  case (Update h u)
  then show ?thesis using assms(1) update_keeps_evidence[of h u lib _ _ d ev] by (auto split: sum.splits)
next
  case (Delete h d')
  with assms(2) have "d \<noteq> d'" by auto
  then show ?thesis
    using assms(1) Delete
    by (auto simp: evidence_in_def library_delete_def find_stored_remove split: sum.splits)
qed

text \<open>C33. The OCR evidence of a document never changes: whatever calls reach the store, as long as
  the document is not deleted, the evidence first written for it stays.\<close>

theorem evidence_write_once:
  assumes "evidence_in d lib = Some ev" "\<forall>h. Delete h d \<notin> set calls"
  shows "evidence_in d (fold do_call calls lib) = Some ev"
  using assms
proof (induction calls arbitrary: lib)
  case (Cons c calls)
  then show ?case using call_keeps_evidence[of d lib ev c] by auto
qed simp

text \<open>A document that owns a capture of the runtime is not deleted.\<close>

lemma owned_document_stays:
  assumes "find_stored d (lb_documents lib) = Some x" "sm_captureId x \<noteq> None"
  shows "do_call (Delete h d) lib = lib"
  using assms by (auto simp: library_delete_def find_document_def res_simps split: sum.splits)

text \<open>An update with other evidence is refused and leaves the evidence as it is.\<close>

definition library_example_document :: StoredDocument where
  "library_example_document =
     \<lparr>sm_documentId = replicate 32 CHR ''a'', sm_fileName = ''scan.pdf'', sm_mediaType = ''application/pdf'', sm_byteLength = 1,
      sm_createdAtMs = 0, sm_updatedAtMs = 0, sm_status = ''completed'', sm_stage = None, sm_captureId = None,
      sm_errorCode = None, sm_errorMessage = None, sm_recoveryCode = None, sm_recoveryMessage = None,
      sd_ocrEvidence = Some [(''captureId'', JStr ''c0'')]\<rparr>"

definition library_example_update :: LibraryCaptureUpdate where
  "library_example_update =
     \<lparr>up_documentId = replicate 32 CHR ''a'', up_captureId = None, up_clearCaptureId = True, up_status = ''failed'',
      up_stage = None, up_raw = None, up_result = None, up_errorCode = None, up_errorMessage = None, up_recoveryCode = None,
      up_recoveryMessage = None, up_ocrEvidence = Some [(''captureId'', JStr ''c1''), (''status'', JStr ''failed'')]\<rparr>"

theorem evidence_write_once_witness:
  "evidence_in (replicate 32 CHR ''a'')
     (fold do_call [Update \<lparr>lh_now = Inr 1, lh_random = Inr ''r'', lh_disk = Inr (), lh_remove = Inr (), lh_evidence = (\<lambda>_. Inr ())\<rparr> library_example_update]
       \<lparr>lb_documents = [library_example_document], lb_raw = Map.empty, lb_result = Map.empty\<rparr>) = Some [(''captureId'', JStr ''c0'')]"
  by (rule evidence_write_once) (simp_all add: evidence_in_def library_example_document_def)

end
