(* ===== verification/Desktop_Selectors.thy ===== *)
theory Desktop_Selectors
  imports Desktop_Library Workbench_Store
begin

text \<open>
  \<^verbatim>\<open>apps/capture-workbench/src/app/services/desktop-workspace.selectors.ts\<close>: the pure functions
  the services of the desktop workspace share. They say which requirements a recognition feature
  needs and which of them can be installed, which jobs of the runtime are still active, how the
  outcome of a capture is written down in the library and read back, and how a result reads as text.
  The text a result exports to, \<open>export_text\<close> of the native
  \<^verbatim>\<open>library/store.rs\<close>, is here too, because it promises the same text.
\<close>

section \<open>Requirements of the recognition features\<close>

datatype RecognitionFeature = Ocr | Asr | Asr_speakers

fun FEATURE_REQUIREMENTS :: "RecognitionFeature \<Rightarrow> string list" where
  "FEATURE_REQUIREMENTS Ocr = [''windowsml-ocr'']"
| "FEATURE_REQUIREMENTS Asr = [''speech-recognition'']"
| "FEATURE_REQUIREMENTS Asr_speakers = [''speaker-diarization'']"

definition RECOGNITION_ENGINE_UNITS :: "string list" where
  "RECOGNITION_ENGINE_UNITS =
     [''windowsml-ocr'', ''speech-recognition'', ''speaker-diarization'', ''vertical-japanese-reader'']"

definition SPEECH_PACK_UNITS :: "string list" where
  "SPEECH_PACK_UNITS = [''speech-recognition'', ''speaker-diarization'']"

definition select_units :: "string list \<Rightarrow> RuntimeRequirementView list \<Rightarrow> RuntimeRequirementView list" where
  "select_units units rs = concat (map (\<lambda>i. filter (\<lambda>r. req_id r = i) rs) units)"

definition selectSpeechPack :: "RuntimeRequirementView list \<Rightarrow> RuntimeRequirementView list" where
  "selectSpeechPack = select_units SPEECH_PACK_UNITS"

definition selectRecognitionEngines :: "RuntimeRequirementView list \<Rightarrow> RuntimeRequirementView list" where
  "selectRecognitionEngines = select_units RECOGNITION_ENGINE_UNITS"

definition isFeatureReady :: "RuntimeRequirementView list \<Rightarrow> RecognitionFeature \<Rightarrow> bool" where
  "isFeatureReady rs f =
     list_all (\<lambda>i. list_ex (\<lambda>r. req_id r = i \<and> req_status r = ''ready'') rs) (FEATURE_REQUIREMENTS f)"

definition selectFeatureMissing ::
  "RuntimeRequirementView list \<Rightarrow> RecognitionFeature \<Rightarrow> RuntimeRequirementView list" where
  "selectFeatureMissing rs f =
     filter (\<lambda>r. req_id r \<in> set (FEATURE_REQUIREMENTS f) \<and> req_status r \<noteq> ''ready'') rs"

section \<open>Media types\<close>

definition isAudioMediaType :: "string \<Rightarrow> bool" where
  "isAudioMediaType m = (starts_with ''audio/'' m \<or> starts_with ''video/'' m)"

definition isPdfMediaType :: "string \<Rightarrow> bool" where
  "isPdfMediaType m = (m = ''application/pdf'')"

section \<open>Jobs and operations of the runtime\<close>

text \<open>What the lifecycle reads of \<open>DesktopCaptureOperation\<close>; \<open>jb_source\<close> is \<open>source?.sha256\<close>.\<close>

record DesktopCaptureOperation =
  jb_captureId :: string
  jb_status :: string
  jb_stage :: "string option"
  jb_source :: "string option"
  jb_error :: "CaptureFailure option"

definition isActiveJob :: "DesktopCaptureOperation \<Rightarrow> bool" where
  "isActiveJob j = (jb_status j \<in> {''queued'', ''running'', ''created'', ''waiting_input'', ''extracting'',
     ''awaiting_structuring'', ''structuring''})"

definition isOcrCheckpoint :: "DesktopCaptureOperation \<Rightarrow> bool" where
  "isOcrCheckpoint j = (jb_status j = ''awaiting_structuring'')"

definition captureJobStage :: "DesktopCaptureOperation \<Rightarrow> string" where
  "captureJobStage j = option_or (jb_stage j) (jb_status j)"

definition isActiveStreaming :: "CaptureOperation \<Rightarrow> bool" where
  "isActiveStreaming x = (op_status x \<in> {''created'', ''waiting_input'', ''extracting'',
     ''awaiting_structuring'', ''structuring''})"

section \<open>The outcome in the library\<close>

definition terminalLibraryStatus :: "DesktopCaptureOperation \<Rightarrow> string" where
  "terminalLibraryStatus j =
     (if jb_status j = ''completed'' then ''completed''
      else if jb_status j = ''cancelled'' then ''canceled'' else ''failed'')"

definition terminalStatusFromStage :: "string option \<Rightarrow> string" where
  "terminalStatusFromStage stage =
     (if stage = Some ''cancelled'' then ''canceled''
      else if stage = Some ''failed'' then ''failed''
      else if stage = Some ''awaiting_structuring'' then ''awaiting_confirmation'' else ''completed'')"

definition terminal_document :: "LibraryDocumentSummary \<Rightarrow> bool" where
  "terminal_document x = (sm_status x \<in> {''completed'', ''failed'', ''canceled''})"

definition hasCommittedTerminalData :: "LibraryDocumentSummary \<Rightarrow> bool" where
  "hasCommittedTerminalData x = (sm_recoveryCode x = Some ''runtime_cleanup_failed'' \<or> terminal_document x)"

definition committedTerminalStatus :: "LibraryDocumentSummary \<Rightarrow> string" where
  "committedTerminalStatus x = (if terminal_document x then sm_status x else terminalStatusFromStage (sm_stage x))"

definition terminalStage :: "string option \<Rightarrow> string" where
  "terminalStage status =
     (if status = Some ''canceled'' then ''cancelled''
      else if status = Some ''failed'' then ''failed''
      else if status = Some ''awaiting_confirmation'' then ''awaiting_structuring'' else ''completed'')"

definition desktop_errorMessage :: "thrown \<Rightarrow> string" where
  "desktop_errorMessage e = redactSensitiveMessage
     (if th_isError e then (case th_message e of JStr m \<Rightarrow> m | _ \<Rightarrow> []) else th_string e)"

text \<open>Writing the outcome of a capture as a stage and reading it back gives the outcome.\<close>

lemma terminal_stage_round_trip:
  "status \<in> {''completed'', ''failed'', ''canceled'', ''awaiting_confirmation''}
     \<Longrightarrow> terminalStatusFromStage (Some (terminalStage (Some status))) = status"
  by (auto simp: terminalStatusFromStage_def terminalStage_def)

section \<open>Results as text\<close>

record TranscriptLine =
  tl_segmentId :: string
  tl_startMs :: rat
  tl_timeLabel :: string
  tl_speaker :: "string option"
  tl_text :: string

definition two_digits :: "nat \<Rightarrow> string" where
  "two_digits n = (if n < 10 then CHR ''0'' # show_digits n else show_digits n)"

definition formatRecordingTime :: "rat \<Rightarrow> string" where
  "formatRecordingTime ms =
     (let total = nat \<lfloor>max 0 ms / 1000\<rfloor>; hours = total div 3600;
          minutes = (total mod 3600) div 60; seconds = total mod 60
      in if hours > 0 then show_digits hours @ '':'' @ two_digits minutes @ '':'' @ two_digits seconds
         else show_digits minutes @ '':'' @ two_digits seconds)"

text \<open>A locator of kind \<open>time\<close> has finite milliseconds.\<close>

definition given_name :: "CaptureSpeaker \<Rightarrow> string option" where
  "given_name k = (case spk_displayName k of None \<Rightarrow> None
     | Some n \<Rightarrow> if js_trim n = [] then None else Some (js_trim n))"

definition transcriptLines :: "RawCapture \<Rightarrow> CaptureSpeaker list \<Rightarrow> TranscriptLine list" where
  "transcriptLines raw speakerNames =
     (let names = map (\<lambda>k. (spk_id k, given_name k)) speakerNames
      in concat (map (\<lambda>g. case seg_locator g of
           TimeLoc (Fin start) _ \<Rightarrow>
             [\<lparr>tl_segmentId = seg_id g, tl_startMs = start, tl_timeLabel = formatRecordingTime start,
               tl_speaker = map_option (\<lambda>k. option_or (option_or (map_get names k) None) k) (seg_speaker g),
               tl_text = seg_text g\<rparr>]
         | _ \<Rightarrow> []) (raw_segments raw)))"

definition name_line :: "(string \<rightharpoonup> string) \<Rightarrow> string option \<Rightarrow> string \<Rightarrow> string" where
  "name_line names speaker text =
     (case (case speaker of None \<Rightarrow> None | Some k \<Rightarrow> if k = [] then None else names k) of
        None \<Rightarrow> text | Some n \<Rightarrow> if n = [] then text else n @ '': '' @ text)"

definition captureResultText :: "CaptureDocument \<Rightarrow> string" where
  "captureResultText d =
     (let speakers = option_or (doc_speakers d) []
      in if speakers = [] then doc_targetText d
         else let names = map_get (map (\<lambda>k. (spk_id k, option_or (given_name k) (spk_id k))) speakers);
                  speakerOf = map_get (map (\<lambda>g. (seg_id g, seg_speaker g)) (doc_rawSegments d))
              in join [CHR 0x0A] (map (\<lambda>b. name_line names (option_or (speakerOf (blk_sourceSegmentId b)) None)
                   (blk_targetText b)) (doc_blocks d)))"

section \<open>The exported text\<close>

text \<open>\<open>export_text\<close> reads the stored JSON of a result. \<open>str::trim\<close> removes the white space of
  Unicode, which has U+0085 where JavaScript has not.\<close>

definition text_of :: "json \<Rightarrow> string \<Rightarrow> string option" where
  "text_of v k = (case v of JObj r \<Rightarrow> (case fld r k of JStr s \<Rightarrow> Some s | _ \<Rightarrow> None) | _ \<Rightarrow> None)"

definition array_of :: "json \<Rightarrow> string \<Rightarrow> json list option" where
  "array_of v k = (case v of JObj r \<Rightarrow> (case fld r k of JArr xs \<Rightarrow> Some xs | _ \<Rightarrow> None) | _ \<Rightarrow> None)"

definition rust_ws :: "char \<Rightarrow> bool" where
  "rust_ws c = (is_ws c \<or> c = CHR 0x85)"

definition rust_trim :: "string \<Rightarrow> string" where
  "rust_trim s = rev (dropWhile rust_ws (rev (dropWhile rust_ws s)))"

definition plain_text :: "json \<Rightarrow> string option" where
  "plain_text v = (case v of
       JObj r \<Rightarrow> (case fld r ''targetText'' of JUndef \<Rightarrow> text_of v ''sourceText'' | _ \<Rightarrow> text_of v ''targetText'')
     | _ \<Rightarrow> None)"

definition speaker_entry :: "json \<Rightarrow> (string \<times> string) option" where
  "speaker_entry v = (case text_of v ''speakerId'' of None \<Rightarrow> None
     | Some i \<Rightarrow> Some (i, case text_of v ''displayName'' of None \<Rightarrow> i
                  | Some n \<Rightarrow> if rust_trim n = [] then i else rust_trim n))"

definition segment_entry :: "json \<Rightarrow> (string \<times> string) option" where
  "segment_entry v = (case (text_of v ''segmentId'', text_of v ''speaker'') of
       (Some i, Some k) \<Rightarrow> Some (i, k) | _ \<Rightarrow> None)"

definition block_line :: "(string \<rightharpoonup> string) \<Rightarrow> (string \<rightharpoonup> string) \<Rightarrow> json \<Rightarrow> string option" where
  "block_line names speaker_of v = (case text_of v ''targetText'' of None \<Rightarrow> None
     | Some t \<Rightarrow>
         Some (case Option.bind (Option.bind (text_of v ''sourceSegmentId'') speaker_of) names of
                 Some n \<Rightarrow> n @ '': '' @ t | None \<Rightarrow> t))"

definition export_text :: "json \<Rightarrow> string option" where
  "export_text v =
     (case array_of v ''speakers'' of
        Some speakers \<Rightarrow>
          if speakers = [] then plain_text v
          else (case (array_of v ''blocks'', array_of v ''rawSegments'') of
                  (Some blocks, Some segs) \<Rightarrow>
                    Some (join [CHR 0x0A] (List.map_filter
                      (block_line (map_get (List.map_filter speaker_entry speakers))
                        (map_get (List.map_filter segment_entry segs))) blocks))
                | _ \<Rightarrow> plain_text v)
      | None \<Rightarrow> plain_text v)"

text \<open>The stored JSON of a document, as far as the export reads it.\<close>

definition represents :: "json \<Rightarrow> CaptureDocument \<Rightarrow> bool" where
  "represents v d \<longleftrightarrow>
     plain_text v = Some (doc_targetText d)
     \<and> (case doc_speakers d of None \<Rightarrow> array_of v ''speakers'' = None
        | Some ks \<Rightarrow> \<exists>js. array_of v ''speakers'' = Some js \<and> list_all2 (\<lambda>j k.
            text_of j ''speakerId'' = Some (spk_id k) \<and> text_of j ''displayName'' = spk_displayName k) js ks)
     \<and> (\<exists>js. array_of v ''rawSegments'' = Some js \<and> list_all2 (\<lambda>j g.
            text_of j ''segmentId'' = Some (seg_id g) \<and> text_of j ''speaker'' = seg_speaker g) js (doc_rawSegments d))
     \<and> (\<exists>js. array_of v ''blocks'' = Some js \<and> list_all2 (\<lambda>j b.
            text_of j ''sourceSegmentId'' = Some (blk_sourceSegmentId b)
            \<and> text_of j ''targetText'' = Some (blk_targetText b)) js (doc_blocks d))"

lemma rust_trim_eq: "CHR 0x85 \<notin> set s \<Longrightarrow> rust_trim s = js_trim s"
proof -
  have drop: "CHR 0x85 \<notin> set t \<Longrightarrow> dropWhile rust_ws t = dropWhile is_ws t" for t
    by (induction t) (auto simp: rust_ws_def)
  assume "CHR 0x85 \<notin> set s"
  moreover then have "CHR 0x85 \<notin> set (rev (dropWhile is_ws s))"
    by (auto dest: set_dropWhileD)
  ultimately show ?thesis by (simp add: rust_trim_def js_trim_def drop)
qed

lemma speaker_entries:
  assumes "list_all2 (\<lambda>j k. text_of j ''speakerId'' = Some (spk_id k) \<and> text_of j ''displayName'' = spk_displayName k) js ks"
    and "\<forall>k\<in>set ks. \<forall>n. spk_displayName k = Some n \<longrightarrow> CHR 0x85 \<notin> set n"
  shows "List.map_filter speaker_entry js = map (\<lambda>k. (spk_id k, option_or (given_name k) (spk_id k))) ks"
  using assms
proof (induction rule: list_all2_induct)
  case (Cons j js k ks)
  then have "speaker_entry j = Some (spk_id k, option_or (given_name k) (spk_id k))"
    by (auto simp: speaker_entry_def given_name_def rust_trim_eq split: option.splits)
  with Cons show ?case by (simp add: map_filter_simps)
qed (simp add: map_filter_simps)

lemma map_get_Cons: "map_get (e # es) k = (case map_get es k of None \<Rightarrow> (if fst e = k then Some (snd e) else None) | Some v \<Rightarrow> Some v)"
  by (cases e) (auto simp: map_get_def map_add_def split: option.splits)

lemma map_get_None: "map_get es k = None \<longleftrightarrow> k \<notin> fst ` set es"
  by (simp add: map_get_def map_of_eq_None_iff)

lemma map_get_Some_mem: "map_get es k = Some v \<Longrightarrow> (k, v) \<in> set es"
  by (auto simp: map_get_def dest: map_of_SomeD)

lemma segment_entries:
  assumes "list_all2 (\<lambda>j g. text_of j ''segmentId'' = Some (seg_id g) \<and> text_of j ''speaker'' = seg_speaker g) js gs"
    and "distinct (map seg_id gs)"
  shows "map_get (List.map_filter segment_entry js) i = option_or (map_get (map (\<lambda>g. (seg_id g, seg_speaker g)) gs) i) None"
  using assms
proof (induction rule: list_all2_induct)
  case (Cons j js g gs)
  have new: "map_get (map (\<lambda>g. (seg_id g, seg_speaker g)) gs) (seg_id g) = None"
    using Cons.prems by (auto simp: map_get_None)
  have entry: "segment_entry j = map_option (\<lambda>k. (seg_id g, k)) (seg_speaker g)"
    using Cons.hyps by (simp add: segment_entry_def split: option.splits)
  show ?case
    using Cons new entry
    by (cases "seg_speaker g"; cases "seg_id g = i") (auto simp: map_filter_simps map_get_Cons split: option.splits)
qed (simp add: map_get_def map_filter_simps)

lemma names_nonempty:
  assumes "map_get (map (\<lambda>k. (spk_id k, option_or (given_name k) (spk_id k))) ks) i = Some n"
    and "\<forall>k\<in>set ks. spk_id k \<noteq> []"
  shows "i \<noteq> [] \<and> n \<noteq> []"
  using map_get_Some_mem[OF assms(1)] assms(2)
  by (auto simp: given_name_def split: option.splits if_splits)

lemma block_lines:
  assumes "list_all2 (\<lambda>j b. text_of j ''sourceSegmentId'' = Some (blk_sourceSegmentId b)
      \<and> text_of j ''targetText'' = Some (blk_targetText b)) js bs"
    and "\<And>i n. names i = Some n \<Longrightarrow> i \<noteq> [] \<and> n \<noteq> []"
  shows "List.map_filter (block_line names speaker_of) js =
    map (\<lambda>b. name_line names (speaker_of (blk_sourceSegmentId b)) (blk_targetText b)) bs"
  using assms(1)
proof (induction rule: list_all2_induct)
  case (Cons j js b bs)
  then have "block_line names speaker_of j = Some (name_line names (speaker_of (blk_sourceSegmentId b)) (blk_targetText b))"
    using assms(2) by (auto simp: block_line_def name_line_def split: option.splits)
  with Cons show ?case by (simp add: map_filter_simps)
qed (simp add: map_filter_simps)


definition export_example :: json where
  "export_example = JObj [(''targetText'', JStr ''Bonjour''),
     (''speakers'', JArr [JObj [(''speakerId'', JStr ''p1''), (''displayName'', JStr ''Ann'')]]),
     (''rawSegments'', JArr [JObj [(''segmentId'', JStr ''s0''), (''speaker'', JStr ''p1'')]]),
     (''blocks'', JArr [JObj [(''sourceSegmentId'', JStr ''s0''), (''targetText'', JStr ''Bonjour'')]])]"

definition export_example_document :: CaptureDocument where
  "export_example_document = example_document
     \<lparr>doc_rawSegments := [example_segment\<lparr>seg_speaker := Some ''p1''\<rparr>],
      doc_speakers := Some [\<lparr>spk_id = ''p1'', spk_displayName = Some ''Ann''\<rparr>]\<rparr>"


end
