(* ===== verification/Canonical_Json.thy ===== *)
theory Canonical_Json
  imports Runtime_Codec "HOL-Library.List_Lexorder" "HOL-Library.Char_ord"
begin

text \<open>
  Canonical JSON: the text of a value with the entries of every object sorted by key. It is written
  twice in the repository, by \<open>canonicalJson\<close> of
  \<^verbatim>\<open>apps/capture-workbench/src/app/contracts/ocr-evidence.ts\<close> (here) and by the strict encoder of
  \<^verbatim>\<open>packages/capture-acceptance-contract/src/codecs.ts\<close> (in \<open>Acceptance_Codec\<close>); digests are taken of
  it. The main fact of this theory is that the text determines the value up to the order of entries.
\<close>

section \<open>Canonical text\<close>

definition hex_digit :: "nat \<Rightarrow> char" where
  "hex_digit n = char_of (if n < 10 then 48 + n else 87 + n)"

definition escape :: "char \<Rightarrow> string" where
  "escape c =
     (if c = CHR 0x22 then [CHR 0x5C, CHR 0x22]
      else if c = CHR 0x5C then [CHR 0x5C, CHR 0x5C]
      else if c = CHR 0x08 then [CHR 0x5C, CHR ''b'']
      else if c = CHR 0x09 then [CHR 0x5C, CHR ''t'']
      else if c = CHR 0x0A then [CHR 0x5C, CHR ''n'']
      else if c = CHR 0x0C then [CHR 0x5C, CHR ''f'']
      else if c = CHR 0x0D then [CHR 0x5C, CHR ''r'']
      else if of_char c < (32 :: nat)
      then [CHR 0x5C, CHR ''u'', CHR ''0'', CHR ''0'', hex_digit (of_char c div 16), hex_digit (of_char c mod 16)]
      else [c])"

text \<open>\<open>JSON.stringify\<close> of a string.\<close>

definition json_quote :: "string \<Rightarrow> string" where
  "json_quote s = CHR 0x22 # concat (map escape s) @ [CHR 0x22]"

lemma element_size: "x \<in> set xs \<Longrightarrow> size x < Suc (size_list size xs)"
  by (induction xs) auto

lemma entry_size: "(k, x) \<in> set r \<Longrightarrow> size x < Suc (size_list (size_prod (\<lambda>_. 0) size) r)"
  by (induction r) auto

text \<open>\<open>undefined\<close> prints as itself in a template and as nothing in a joined array.\<close>

function canonicalJson :: "(rat \<Rightarrow> string) \<Rightarrow> json \<Rightarrow> string" where
  "canonicalJson sh v =
     (case v of
        JUndef \<Rightarrow> ''undefined''
      | JNull \<Rightarrow> ''null''
      | JBool b \<Rightarrow> if b then ''true'' else ''false''
      | JNum n \<Rightarrow> (case n of Fin q \<Rightarrow> js_String sh (JNum (Fin q)) | _ \<Rightarrow> ''null'')
      | JStr s \<Rightarrow> json_quote s
      | JArr xs \<Rightarrow> ''['' @ join '','' (map (\<lambda>x. if x = JUndef then [] else canonicalJson sh x) xs) @ '']''
      | JObj r \<Rightarrow> ''{'' @ join '','' (map (\<lambda>(k, x). json_quote k @ '':'' @ canonicalJson sh x) (sort_key fst r)) @ ''}'')"
  by pat_completeness auto
termination
  by (relation "measure (\<lambda>(_, v). size v)") (auto simp: element_size entry_size)

declare canonicalJson.simps [simp del]

section \<open>Reading a quoted string\<close>

text \<open>The reader of one escaped character, for the round trip.\<close>

definition hex_value :: "char \<Rightarrow> nat" where
  "hex_value c = (if of_char c \<le> (57 :: nat) then of_char c - 48 else of_char c - 87)"

definition letter_value :: "char \<Rightarrow> char" where
  "letter_value c =
     (if c = CHR ''b'' then CHR 0x08 else if c = CHR ''t'' then CHR 0x09 else if c = CHR ''n'' then CHR 0x0A
      else if c = CHR ''f'' then CHR 0x0C else if c = CHR ''r'' then CHR 0x0D else c)"

definition read_char :: "string \<Rightarrow> char \<times> string" where
  "read_char s =
     (if hd s \<noteq> CHR 0x5C then (hd s, tl s)
      else if s ! 1 = CHR ''u'' then (char_of (16 * hex_value (s ! 4) + hex_value (s ! 5)), drop 6 s)
      else (letter_value (s ! 1), drop 2 s))"

lemma hex_round_trip: "n < 16 \<Longrightarrow> hex_value (hex_digit n) = n"
  by (auto simp: hex_value_def hex_digit_def)

lemma read_escape: "read_char (escape c @ x) = (c, x)"
proof (cases "of_char c < (32 :: nat)")
  case True
  have "hex_value (hex_digit (of_char c div 16)) = of_char c div 16" "hex_value (hex_digit (of_char c mod 16)) = of_char c mod 16"
    using True by (auto intro!: hex_round_trip)
  then show ?thesis
    by (simp add: escape_def read_char_def letter_value_def)
next
  case False
  then show ?thesis by (auto simp: escape_def read_char_def letter_value_def)
qed

lemma escape_prefix: "escape c @ x = escape d @ y \<Longrightarrow> c = d \<and> x = y"
  by (metis read_escape prod.inject)

lemma escape_not_quote: "escape c @ x \<noteq> CHR 0x22 # y" "CHR 0x22 # y \<noteq> escape c @ x"
  by (auto simp: escape_def)

lemma escaped_prefix:
  "concat (map escape s) @ CHR 0x22 # x = concat (map escape t) @ CHR 0x22 # y \<Longrightarrow> s = t \<and> x = y"
proof (induction s arbitrary: t)
  case Nil
  then show ?case by (cases t) (auto simp: escape_not_quote)
next
  case (Cons c s)
  show ?case
  proof (cases t)
    case Nil
    with Cons.prems show ?thesis by (simp add: escape_not_quote)
  next
    case (Cons d t')
    with Cons.prems have "c = d" "concat (map escape s) @ CHR 0x22 # x = concat (map escape t') @ CHR 0x22 # y"
      by (auto dest!: escape_prefix)
    with Cons.IH Cons show ?thesis by blast
  qed
qed

lemma quote_prefix: "json_quote s @ x = json_quote t @ y \<Longrightarrow> s = t \<and> x = y"
  using escaped_prefix[of s x t y] by (simp add: json_quote_def)

lemma sorted_records_eq:
  fixes r r' :: jobj
  assumes "distinct (map fst r)" "distinct (map fst r')" "map_of r = map_of r'"
  shows "sort_key fst r = sort_key fst r'"
proof -
  have set: "set r = set r'" using assms by (metis map_of_inject_set)
  have "inj_on fst (set (sort_key fst r) \<union> set (sort_key fst r'))"
    using assms(1) by (simp add: set distinct_map)
  then show ?thesis
    by (rule map_sorted_distinct_set_unique) (use assms set in \<open>simp_all add: distinct_map\<close>)
qed

lemma map_of_sort_key: "distinct (map fst r) \<Longrightarrow> map_of (sort_key fst r) = map_of r"
  by (simp add: map_of_inject_set distinct_map)

section \<open>Values up to the order of entries\<close>

text \<open>A plain value: no \<open>undefined\<close>, numbers from \<open>D\<close> only, and no key twice in an object. What
  \<open>JSON.parse\<close> returns is plain, with the finite doubles for \<open>D\<close>.\<close>

function plain :: "rat set \<Rightarrow> json \<Rightarrow> bool" where
  "plain D v =
     (case v of
        JUndef \<Rightarrow> False
      | JNum n \<Rightarrow> (case n of Fin q \<Rightarrow> q \<in> D | _ \<Rightarrow> False)
      | JArr xs \<Rightarrow> (\<forall>x \<in> set xs. plain D x)
      | JObj r \<Rightarrow> distinct (map fst r) \<and> (\<forall>(k, x) \<in> set r. plain D x)
      | _ \<Rightarrow> True)"
  by pat_completeness auto
termination
  by (relation "measure (\<lambda>(_, v). size v)") (auto simp: element_size entry_size)

declare plain.simps [simp del]

lemma plain_simps [simp]:
  "\<not> plain D JUndef" "plain D JNull" "plain D (JBool b)" "plain D (JStr s)"
  "plain D (JNum n) \<longleftrightarrow> (\<exists>q \<in> D. n = Fin q)" "plain D (JArr xs) \<longleftrightarrow> (\<forall>x \<in> set xs. plain D x)"
  "plain D (JObj r) \<longleftrightarrow> distinct (map fst r) \<and> (\<forall>(k, x) \<in> set r. plain D x)"
  by (simp_all add: plain.simps[of D "JUndef"] plain.simps[of D "JNull"] plain.simps[of D "JBool _"] plain.simps[of D "JStr _"]
      plain.simps[of D "JArr _"] plain.simps[of D "JObj _"] plain.simps[of D "JNum _"] split: jnum.splits)

text \<open>The value with the entries of every object sorted.\<close>

function sorted_value :: "json \<Rightarrow> json" where
  "sorted_value v =
     (case v of
        JArr xs \<Rightarrow> JArr (map sorted_value xs)
      | JObj r \<Rightarrow> JObj (map (\<lambda>(k, x). (k, sorted_value x)) (sort_key fst r))
      | _ \<Rightarrow> v)"
  by pat_completeness auto
termination
  by (relation "measure size") (auto simp: element_size entry_size)

declare sorted_value.simps [simp del]

lemma sorted_value_simps [simp]:
  "sorted_value JUndef = JUndef" "sorted_value JNull = JNull" "sorted_value (JBool b) = JBool b"
  "sorted_value (JNum n) = JNum n" "sorted_value (JStr s) = JStr s" "sorted_value (JArr xs) = JArr (map sorted_value xs)"
  "sorted_value (JObj r) = JObj (map (\<lambda>(k, x). (k, sorted_value x)) (sort_key fst r))"
  by (simp_all add: sorted_value.simps[of JUndef] sorted_value.simps[of JNull] sorted_value.simps[of "JBool _"]
      sorted_value.simps[of "JNum _"] sorted_value.simps[of "JStr _"] sorted_value.simps[of "JArr _"] sorted_value.simps[of "JObj _"])

lemma canonicalJson_simps [simp]:
  "canonicalJson sh JNull = ''null''" "canonicalJson sh (JBool b) = (if b then ''true'' else ''false'')"
  "canonicalJson sh (JNum (Fin q)) = js_String sh (JNum (Fin q))" "canonicalJson sh (JStr s) = json_quote s"
  by (simp_all add: canonicalJson.simps[of sh JNull] canonicalJson.simps[of sh "JBool _"]
      canonicalJson.simps[of sh "JNum _"] canonicalJson.simps[of sh "JStr _"])

lemma canonicalJson_array:
  "JUndef \<notin> set xs \<Longrightarrow> canonicalJson sh (JArr xs) = ''['' @ join '','' (map (canonicalJson sh) xs) @ '']''"
  by (auto simp: canonicalJson.simps[of sh "JArr _"] intro!: arg_cong[where f = "join _"] map_cong)

definition entry_text :: "(rat \<Rightarrow> string) \<Rightarrow> string \<times> json \<Rightarrow> string" where
  "entry_text sh e = json_quote (fst e) @ '':'' @ canonicalJson sh (snd e)"

lemma canonicalJson_object:
  "canonicalJson sh (JObj r) = ''{'' @ join '','' (map (entry_text sh) (sort_key fst r)) @ ''}''"
  by (simp add: canonicalJson.simps[of sh "JObj _"] entry_text_def[abs_def] case_prod_unfold)

section \<open>The text determines the value\<close>

text \<open>What the platform's printing of numbers promises on the numbers of \<open>D\<close>: numbers have different
  texts of digits, signs, points and exponents.\<close>

definition number_char :: "char \<Rightarrow> bool" where
  "number_char c = (is_digit c \<or> c \<in> {CHR ''-'', CHR ''+'', CHR ''.'', CHR ''e''})"

definition prints_numbers :: "rat set \<Rightarrow> (rat \<Rightarrow> string) \<Rightarrow> bool" where
  "prints_numbers D sh \<longleftrightarrow> inj_on (\<lambda>q. js_String sh (JNum (Fin q))) D
     \<and> (\<forall>q \<in> D. js_String sh (JNum (Fin q)) \<noteq> [] \<and> list_all number_char (js_String sh (JNum (Fin q))))"

definition ends :: "string \<Rightarrow> bool" where
  "ends x = (x = [] \<or> hd x \<in> {CHR '','', CHR '']'', CHR ''}''})"

lemma ends_simps [simp]: "ends (c # x) \<longleftrightarrow> c \<in> {CHR '','', CHR '']'', CHR ''}''}"
  by (simp add: ends_def)

lemma number_prefix:
  assumes "list_all number_char a" "list_all number_char b" "ends x" "ends y" "a @ x = b @ y"
  shows "a = b \<and> x = y"
proof -
  have stop: "takeWhile number_char (a @ x) = a" if "list_all number_char a" "ends x" for a x
    using that by (cases x) (auto simp: list_all_iff number_char_def is_digit_def ends_def)
  have "a = b" using stop[OF assms(1,3)] stop[OF assms(2,4)] assms(5) by simp
  then show ?thesis using assms(5) by simp
qed

text \<open>Texts joined with commas up to a closing bracket.\<close>

lemma joined_Cons: "join '','' (map f (a # as)) @ c # x = f a @ (if as = [] then c # x else CHR '','' # join '','' (map f as) @ c # x)"
  by (cases as) auto

lemma joined_prefix:
  assumes "\<And>a b x y. a \<in> set as \<Longrightarrow> b \<in> set bs \<Longrightarrow> f a @ x = f b @ y \<Longrightarrow> ends x \<Longrightarrow> ends y \<Longrightarrow> g a = g b \<and> x = y"
    and "\<And>a z. a \<in> set as \<union> set bs \<Longrightarrow> f a @ z \<noteq> c # x \<and> f a @ z \<noteq> c # y"
    and "c \<in> {CHR '']'', CHR ''}''}"
    and "join '','' (map f as) @ c # x = join '','' (map f bs) @ c # y"
  shows "map g as = map g bs \<and> x = y"
  using assms(1,2,4)
proof (induction as arbitrary: bs)
  case Nil
  show ?case
  proof (cases bs)
    case (Cons b bs')
    have "f b @ z \<noteq> c # x" for z using Nil.prems(2)[of b] Cons by simp
    then show ?thesis using Nil.prems(3) unfolding Cons joined_Cons by (metis append_Nil join.simps(1) list.map(1))
  qed (use Nil.prems in simp)
next
  case (Cons a as)
  show ?case
  proof (cases bs)
    case Nil
    have "f a @ z \<noteq> c # y" for z using Cons.prems(2)[of a] by simp
    then show ?thesis using Cons.prems(3) unfolding Nil joined_Cons by (metis append_Nil join.simps(1) list.map(1))
  next
    case (Cons b bs')
    let ?rest = "\<lambda>as x. if as = [] then c # x else CHR '','' # join '','' (map f as) @ c # x"
    have e: "ends (?rest as x)" "ends (?rest bs' y)" using assms(3) by auto
    have "f a @ ?rest as x = f b @ ?rest bs' y" using Cons.prems(3) unfolding Cons joined_Cons .
    from Cons.prems(1)[OF _ _ this e] Cons have head: "g a = g b" "?rest as x = ?rest bs' y" by simp_all
    have "map g as = map g bs' \<and> x = y"
    proof (cases "as = [] \<or> bs' = []")
      case True
      then show ?thesis using head(2) assms(3) by (auto split: if_splits)
    next
      case False
      then have "join '','' (map f as) @ c # x = join '','' (map f bs') @ c # y" using head(2) by simp
      then show ?thesis using Cons.prems(1,2) Cons by (intro Cons.IH) auto
    qed
    with head(1) Cons show ?thesis by simp
  qed
qed

text \<open>The first character of a text tells the kind of the value.\<close>

definition kind_char :: "json \<Rightarrow> char \<Rightarrow> bool" where
  "kind_char v c = (case v of JNull \<Rightarrow> c = CHR ''n'' | JBool b \<Rightarrow> c = (if b then CHR ''t'' else CHR ''f'')
     | JNum _ \<Rightarrow> number_char c | JStr _ \<Rightarrow> c = CHR 0x22 | JArr _ \<Rightarrow> c = CHR ''['' | JObj _ \<Rightarrow> c = CHR ''{'' | JUndef \<Rightarrow> False)"

lemma canonical_head:
  assumes "plain D v" "prints_numbers D sh"
  obtains c t where "canonicalJson sh v = c # t" "kind_char v c"
proof (cases v)
  case (JNum n)
  then obtain q where "n = Fin q" "q \<in> D" using assms(1) by auto
  then show ?thesis
    using assms(2) JNum that[of "hd (canonicalJson sh v)" "tl (canonicalJson sh v)"]
    by (cases "js_String sh (JNum (Fin q))") (auto simp: prints_numbers_def kind_char_def)
next
  case (JBool b)
  then show ?thesis using that by (cases b) (simp_all add: kind_char_def)
next
  case (JArr xs)
  then have "JUndef \<notin> set xs" using assms(1) by auto
  then show ?thesis using that JArr by (simp add: canonicalJson_array kind_char_def)
qed (use that assms in \<open>auto simp: json_quote_def canonicalJson_object kind_char_def split: if_splits\<close>)

lemma kind_char_simps [simp]:
  "kind_char JNull c \<longleftrightarrow> c = CHR ''n''" "kind_char (JBool b) c \<longleftrightarrow> c = (if b then CHR ''t'' else CHR ''f'')"
  "kind_char (JNum n) c \<longleftrightarrow> number_char c" "kind_char (JStr s) c \<longleftrightarrow> c = CHR 0x22"
  "\<not> kind_char JUndef c" "kind_char (JArr xs) c \<longleftrightarrow> c = CHR ''[''" "kind_char (JObj r) c \<longleftrightarrow> c = CHR ''{''"
  by (simp_all add: kind_char_def)

lemma number_char_simps [simp]:
  "\<not> number_char CHR ''n''" "\<not> number_char CHR ''t''" "\<not> number_char CHR ''f''" "\<not> number_char CHR 0x22"
  "\<not> number_char CHR ''[''" "\<not> number_char CHR ''{''" "\<not> number_char CHR '']''" "\<not> number_char CHR ''}''" "\<not> number_char CHR '',''"
  by (simp_all add: number_char_def is_digit_def)

lemma canonical_not_closing:
  assumes "plain D v" "prints_numbers D sh" "c \<in> {CHR '']'', CHR ''}''}"
  shows "canonicalJson sh v @ z \<noteq> c # x"
  by (rule canonical_head[OF assms(1,2)]) (use assms(1,3) in \<open>cases v; auto split: if_splits\<close>)

lemma kinds_agree:
  assumes "plain D v" "plain D w" "prints_numbers D sh" "canonicalJson sh v @ x = canonicalJson sh w @ y"
  obtains c where "kind_char v c" "kind_char w c"
  using canonical_head[OF assms(1,3)] canonical_head[OF assms(2,3)] assms(4) by (metis append_Cons list.inject)

lemma canonical_prefix:
  assumes "plain D v" "plain D w" "prints_numbers D sh"
    and "canonicalJson sh v @ x = canonicalJson sh w @ y" "ends x" "ends y"
  shows "sorted_value v = sorted_value w \<and> x = y"
  using assms(1,2,4-6)
proof (induction "size v" arbitrary: v w x y rule: less_induct)
  case less
  obtain c where c: "kind_char v c" "kind_char w c" by (rule kinds_agree[OF less.prems(1,2) assms(3) less.prems(3)])
  show ?case
  proof (cases v)
    case JUndef
    then show ?thesis using less.prems(1) by simp
  next
    case JNull
    then show ?thesis using c less.prems by (cases w) (auto split: if_splits)
  next
    case (JBool b)
    then show ?thesis using c less.prems by (cases w) (auto split: if_splits)
  next
    case (JNum n)
    then obtain p where v: "v = JNum (Fin p)" "p \<in> D" using less.prems(1) by auto
    then obtain q where w: "w = JNum (Fin q)" "q \<in> D" using c less.prems(2) by (cases w) (auto split: if_splits)
    have "js_String sh (JNum (Fin p)) = js_String sh (JNum (Fin q)) \<and> x = y"
      using assms(3) v w less.prems(3-5) by (intro number_prefix) (auto simp: prints_numbers_def)
    moreover then have "p = q" using assms(3) v(2) w(2) by (auto simp: prints_numbers_def dest: inj_onD)
    ultimately show ?thesis using v w by simp
  next
    case (JStr s)
    then obtain s' where "w = JStr s'" using c by (cases w) (auto split: if_splits)
    then show ?thesis using JStr less.prems(3) quote_prefix[of s x s' y] by simp
  next
    case (JArr as)
    then obtain bs where w: "w = JArr bs" using c by (cases w) (auto split: if_splits)
    have "JUndef \<notin> set as" "JUndef \<notin> set bs" using less.prems(1,2) JArr w by auto
    then have eq: "join '','' (map (canonicalJson sh) as) @ CHR '']'' # x = join '','' (map (canonicalJson sh) bs) @ CHR '']'' # y"
      using less.prems(3) JArr w by (simp add: canonicalJson_array)
    have "map sorted_value as = map sorted_value bs \<and> x = y"
    proof (rule joined_prefix[OF _ _ _ eq])
      fix a b x y
      assume "a \<in> set as" "b \<in> set bs" "canonicalJson sh a @ x = canonicalJson sh b @ y" "ends x" "ends y"
      then show "sorted_value a = sorted_value b \<and> x = y"
        using less.prems(1,2) JArr w by (intro less.hyps[of a]) (auto simp: element_size)
    next
      fix a z
      assume "a \<in> set as \<union> set bs"
      then have "plain D a" using less.prems(1,2) JArr w by auto
      then show "canonicalJson sh a @ z \<noteq> CHR '']'' # x \<and> canonicalJson sh a @ z \<noteq> CHR '']'' # y"
        using canonical_not_closing[OF _ assms(3)] by simp
    qed simp
    then show ?thesis using JArr w by simp
  next
    case (JObj r)
    then obtain r' where w: "w = JObj r'" using c by (cases w) (auto split: if_splits)
    have eq: "join '','' (map (entry_text sh) (sort_key fst r)) @ CHR ''}'' # x
        = join '','' (map (entry_text sh) (sort_key fst r')) @ CHR ''}'' # y"
      using less.prems(3) JObj w by (simp add: canonicalJson_object)
    let ?sv = "\<lambda>(k, x). (k, sorted_value x)"
    have "map ?sv (sort_key fst r) = map ?sv (sort_key fst r') \<and> x = y"
    proof (rule joined_prefix[OF _ _ _ eq])
      fix a b x y
      assume ab: "a \<in> set (sort_key fst r)" "b \<in> set (sort_key fst r')" "entry_text sh a @ x = entry_text sh b @ y" "ends x" "ends y"
      then have keys: "fst a = fst b" "canonicalJson sh (snd a) @ x = canonicalJson sh (snd b) @ y"
        by (auto simp: entry_text_def dest!: quote_prefix)
      moreover have "sorted_value (snd a) = sorted_value (snd b) \<and> x = y"
        using ab keys(2) less.prems(1,2) JObj w by (intro less.hyps[of "snd a"]) (auto simp: entry_size[of "fst a" "snd a"] case_prod_unfold)
      ultimately show "?sv a = ?sv b \<and> x = y" by (simp add: case_prod_unfold)
    qed (auto simp: entry_text_def json_quote_def)
    then show ?thesis using JObj w by simp
  qed
qed

lemma sorted_value_JUndef [simp]: "sorted_value v = JUndef \<longleftrightarrow> v = JUndef"
  by (cases v) simp_all

text \<open>The canonical texts of two plain values are the same exactly when the values are, up to the order
  of entries.\<close>

lemma canonical_sorted: "canonicalJson sh (sorted_value v) = canonicalJson sh v"
proof (induction v rule: sorted_value.induct)
  case (1 v)
  show ?case
  proof (cases v)
    case (JArr xs)
    then show ?thesis using 1(1)[OF JArr] by (auto simp: canonicalJson.simps[of sh "JArr _"] intro!: arg_cong[where f = "join _"] map_cong)
  next
    case (JObj r)
    have "map (entry_text sh) (sort_key fst (map (\<lambda>(k, x). (k, sorted_value x)) (sort_key fst r)))
        = map (entry_text sh) (sort_key fst r)"
    proof -
      have s: "sort_key fst (map (\<lambda>(k, x). (k, sorted_value x)) (sort_key fst r)) = map (\<lambda>(k, x). (k, sorted_value x)) (sort_key fst r)"
        by (rule sort_key_id_if_sorted) (simp add: comp_def case_prod_unfold)
      show ?thesis unfolding s using 1(2)[OF JObj] by (auto simp: entry_text_def)
    qed
    then show ?thesis using JObj by (simp add: canonicalJson_object)
  qed simp_all
qed

lemma canonical_determines:
  assumes "plain D v" "plain D w" "prints_numbers D sh"
  shows "canonicalJson sh v = canonicalJson sh w \<longleftrightarrow> sorted_value v = sorted_value w"
  using canonical_prefix[OF assms, of "[]" "[]"] canonical_sorted[of sh v] canonical_sorted[of sh w] by (auto simp: ends_def)

end
