(* ===== verification/Desktop_Evidence.thy ===== *)
theory Desktop_Evidence
  imports Canonical_Json
begin

text \<open>
  \<^verbatim>\<open>apps/capture-workbench/src/app/contracts/ocr-evidence.ts\<close>: the content-free evidence record the
  desktop application keeps of an OCR result. The projection is validated again, here with
  the identity the caller expects; its texts and polygons are inputs of the validation only.

  What the record says is JSON, so it is built as a \<open>json\<close> value; the host's functions are
  arguments: the rounding of floating point arithmetic, the printing of numbers, Unicode
  normalization, SHA-256 (absent where WebCrypto is) and \<open>Date.parse\<close>. The two zeros are one
  value here, so that \<open>Object.is(confidence, -0)\<close> is false.
\<close>

record evidence_host =
  eh_fl :: "rat \<Rightarrow> rat"
  eh_show :: "rat \<Rightarrow> string"
  eh_nfkc :: "string \<Rightarrow> string"
  eh_sha256 :: "(string \<Rightarrow> string) option"
  eh_date_parse :: "string \<Rightarrow> jnum"

section \<open>Checks\<close>

text \<open>\<open>invalid(label)\<close> throws an \<open>OcrEvidenceValidationError\<close>; the error is its label.\<close>

definition get_record :: "json \<Rightarrow> string \<Rightarrow> string + jobj" where
  "get_record v label = (case v of JObj r \<Rightarrow> Inr r | _ \<Rightarrow> Inl label)"

definition requireExactKeys :: "jobj \<Rightarrow> string list \<Rightarrow> string \<Rightarrow> string list \<Rightarrow> string + unit" where
  "requireExactKeys r required label optional =
     throw_if (list_ex (\<lambda>k. \<not> has_key r k) required
               \<or> list_ex (\<lambda>k. k \<notin> set (required @ optional)) (map fst r))
       (label @ '' fields'')"

definition nonEmpty :: "json \<Rightarrow> string \<Rightarrow> string + unit" where
  "nonEmpty v label = throw_if (\<not> is_text v) label"

definition sha :: "json \<Rightarrow> string \<Rightarrow> string + unit" where
  "sha v label = throw_if (\<not> is_sha v) label"

definition safeInteger :: "json \<Rightarrow> string \<Rightarrow> int \<Rightarrow> string + unit" where
  "safeInteger v label minimum = throw_if (\<not> isSafeIntegerAtLeast v minimum) label"

definition finitePositive :: "json \<Rightarrow> string \<Rightarrow> string + unit" where
  "finitePositive v label = throw_if (case v of JNum (Fin q) \<Rightarrow> q \<le> 0 | _ \<Rightarrow> True) label"

definition finitePositiveAtMost :: "json \<Rightarrow> string \<Rightarrow> rat \<Rightarrow> string + unit" where
  "finitePositiveAtMost v label maximum =
     then_res (finitePositive v label)
       (throw_if (case v of JNum (Fin q) \<Rightarrow> maximum < q | _ \<Rightarrow> False) label)"

definition boundedNumber :: "json \<Rightarrow> string \<Rightarrow> string + unit" where
  "boundedNumber v label = throw_if (case v of JNum (Fin q) \<Rightarrow> q < 0 \<or> 1 < q | _ \<Rightarrow> True) label"

definition finiteNonNegative :: "json \<Rightarrow> string \<Rightarrow> string + unit" where
  "finiteNonNegative v label = throw_if (case v of JNum (Fin q) \<Rightarrow> q < 0 | _ \<Rightarrow> True) label"

definition isoTimestamp :: "evidence_host \<Rightarrow> json \<Rightarrow> string \<Rightarrow> string + unit" where
  "isoTimestamp h v label =
     throw_if (case v of JStr s \<Rightarrow> blank s \<or> eh_date_parse h s = NaN | _ \<Rightarrow> True) label"

text \<open>\<open>Math.round\<close> takes the greater integer in the middle; \<open>Number.EPSILON\<close> is \<open>2\<^sup>-\<^sup>5\<^sup>2\<close>.\<close>

definition round4 :: "evidence_host \<Rightarrow> rat \<Rightarrow> rat" where
  "round4 h v = eh_fl h (of_int \<lfloor>eh_fl h (eh_fl h (v + 1 / 2 ^ 52) * 10000) + 1 / 2\<rfloor> / 10000)"

definition canonicalConfidence :: "evidence_host \<Rightarrow> json \<Rightarrow> string \<Rightarrow> string + unit" where
  "canonicalConfidence h v label =
     then_res (boundedNumber v label)
       (throw_if (case v of JNum (Fin q) \<Rightarrow> round4 h q \<noteq> q | _ \<Rightarrow> False) (label @ '' must be canonical''))"

definition sameProvenance :: "(rat \<Rightarrow> string) \<Rightarrow> json \<Rightarrow> json \<Rightarrow> bool" where
  "sameProvenance sh left right = (canonicalJson sh left = canonicalJson sh right)"

section \<open>Validation\<close>

definition MAX_PAGES :: int where
  "MAX_PAGES = 500"

definition MAX_BOXES :: nat where
  "MAX_BOXES = 100000"

definition MAX_TEXT_LENGTH :: nat where
  "MAX_TEXT_LENGTH = 8000000"

definition validateExpectedIdentity :: "json \<Rightarrow> string + jobj" where
  "validateExpectedIdentity v =
     bind_res (get_record v ''expected identity'') (\<lambda>e.
     then_res (requireExactKeys e [''captureId'', ''sourceSha256'', ''runtimeVersion'', ''contractSha256'',
                 ''terminalStatus'', ''workerSha256''] ''expected identity'' [])
    (then_res (nonEmpty (fld e ''captureId'') ''expected captureId'')
    (then_res (sha (fld e ''sourceSha256'') ''expected sourceSha256'')
    (then_res (nonEmpty (fld e ''runtimeVersion'') ''expected runtimeVersion'')
    (then_res (sha (fld e ''contractSha256'') ''expected contractSha256'')
    (then_res (throw_if (fld e ''terminalStatus'' \<noteq> JStr ''completed'' \<and> fld e ''terminalStatus'' \<noteq> JStr ''failed'')
                 ''expected terminalStatus'')
    (then_res (sha (fld e ''workerSha256'') ''expected workerSha256'')
    (Inr e))))))))"

definition validateFailure :: "json \<Rightarrow> string \<Rightarrow> string + unit" where
  "validateFailure v label =
     bind_res (get_record v label) (\<lambda>f.
     then_res (requireExactKeys f [''code'', ''message''] label [''stage'', ''retryable''])
    (then_res (throw_if (\<not> is_failure_code (fld f ''code'')) (label @ '' code''))
    (then_res (nonEmpty (fld f ''message'') (label @ '' message''))
    (then_res (throw_if (str_longer (fld f ''message'') 500) (label @ '' message length''))
    (then_res (throw_if (\<not> nullish (fld f ''stage'') \<and> \<not> is_text (fld f ''stage'')) (label @ '' stage''))
    (throw_if (fld f ''retryable'' \<noteq> JUndef \<and> fld f ''retryable'' \<noteq> JBool True \<and> fld f ''retryable'' \<noteq> JBool False)
       (label @ '' retryable'')))))))"

definition validateProvenance :: "json \<Rightarrow> string + jobj" where
  "validateProvenance v =
     bind_res (get_record v ''OCR provenance'') (\<lambda>p.
       if fld p ''status'' = JStr ''resolved'' then
         then_res (requireExactKeys p [''status'', ''engine'', ''model'', ''modelDigest'', ''device'', ''profileId'',
                     ''profileSpecSha256''] ''resolved OCR provenance'' [])
        (then_res (throw_if (fld p ''engine'' \<noteq> JStr ''windowsml-ocr'') ''OCR provenance engine'')
        (then_res (nonEmpty (fld p ''model'') ''OCR provenance model'')
        (then_res (throw_if (\<not> is_model_digest (fld p ''modelDigest'')) ''OCR provenance modelDigest'')
        (then_res (throw_if (fld p ''modelDigest'' = JStr (''sha256:'' @ replicate 64 CHR ''0'')) ''OCR provenance modelDigest'')
        (then_res (nonEmpty (fld p ''device'') ''OCR provenance device'')
        (then_res (nonEmpty (fld p ''profileId'') ''OCR provenance profileId'')
        (then_res (sha (fld p ''profileSpecSha256'') ''OCR provenance profileSpecSha256'')
        (Inr p))))))))
       else if fld p ''status'' = JStr ''unavailable'' then
         then_res (requireExactKeys p [''status'', ''profileId'', ''profileSpecSha256'', ''reason'']
                     ''unavailable OCR provenance'' [])
        (then_res (nonEmpty (fld p ''profileId'') ''unavailable OCR provenance profileId'')
        (then_res (sha (fld p ''profileSpecSha256'') ''unavailable OCR provenance profileSpecSha256'')
        (then_res (throw_if (\<not> str_in (fld p ''reason'') [''model_unavailable'', ''worker_crashed'', ''worker_timeout'',
                     ''protocol_failure'']) ''unavailable OCR provenance reason'')
        (Inr p))))
       else Inl ''OCR provenance status'')"

definition validatePoint :: "jobj \<Rightarrow> string \<Rightarrow> json \<Rightarrow> nat \<Rightarrow> string + unit" where
  "validatePoint raster label v index =
     (let name = label @ '' point '' @ show_int (int index)
      in bind_res (get_record v name) (\<lambda>point.
         then_res (requireExactKeys point [''x'', ''y''] name [])
        (then_res (finiteNonNegative (fld point ''x'') (name @ '' x''))
        (then_res (finiteNonNegative (fld point ''y'') (name @ '' y''))
        (throw_if (js_less (fld raster ''width'') (fld point ''x'') \<or> js_less (fld raster ''height'') (fld point ''y''))
           (label @ '' point bounds''))))))"

text \<open>\<open>forEach\<close> with the index.\<close>

fun for_each_index :: "('a \<Rightarrow> nat \<Rightarrow> 'e + unit) \<Rightarrow> nat \<Rightarrow> 'a list \<Rightarrow> 'e + unit" where
  "for_each_index f i [] = Inr ()"
| "for_each_index f i (x # xs) = then_res (f x i) (for_each_index f (Suc i) xs)"

definition validateBox :: "jobj \<Rightarrow> string \<Rightarrow> json \<Rightarrow> string + unit" where
  "validateBox raster label v =
     bind_res (get_record v label) (\<lambda>box.
     then_res (requireExactKeys box [''polygon'', ''text'', ''confidence''] label [])
    (case fld box ''polygon'' of
       JArr pts \<Rightarrow>
         if length pts < 4 \<or> 256 < length pts then Inl (label @ '' polygon'')
         else then_res (for_each_index (validatePoint raster label) 0 pts)
             (then_res (nonEmpty (fld box ''text'') (label @ '' text''))
             (then_res (throw_if (str_longer (fld box ''text'') MAX_TEXT_LENGTH) (label @ '' text length''))
             (if fld box ''confidence'' = JNull then Inr ()
              else boundedNumber (fld box ''confidence'') (label @ '' confidence''))))
     | _ \<Rightarrow> Inl (label @ '' polygon'')))"

definition text_value :: "jobj \<Rightarrow> string" where
  "text_value page = (case fld page ''text'' of JStr s \<Rightarrow> s | _ \<Rightarrow> [])"

definition box_values :: "jobj \<Rightarrow> json list" where
  "box_values page = (case fld page ''boxes'' of JArr xs \<Rightarrow> xs | _ \<Rightarrow> [])"

definition is_num :: "json \<Rightarrow> bool" where
  "is_num v = (case v of JNum _ \<Rightarrow> True | _ \<Rightarrow> False)"

text \<open>The shape each status of a page demands.\<close>

definition page_shape :: "jobj \<Rightarrow> string \<Rightarrow> string + unit" where
  "page_shape page n =
     (let confidence = fld page ''confidence''; failure = fld page ''failure''
      in if fld page ''status'' = JStr ''recognized'' then
           throw_if (blank (text_value page) \<or> \<not> nullish failure \<or> \<not> is_num confidence) (''recognized page '' @ n @ '' shape'')
         else if fld page ''status'' = JStr ''empty'' then
           throw_if (\<not> blank (text_value page) \<or> box_values page \<noteq> [] \<or> \<not> nullish confidence \<or> \<not> nullish failure)
             (''empty page '' @ n @ '' shape'')
         else throw_if (\<not> blank (text_value page) \<or> box_values page \<noteq> [] \<or> \<not> nullish confidence \<or> nullish failure)
                (''failed page '' @ n @ '' shape''))"

definition validateRaster :: "json \<Rightarrow> string \<Rightarrow> string + jobj" where
  "validateRaster v label =
     bind_res (get_record v (label @ '' raster'')) (\<lambda>raster.
     then_res (requireExactKeys raster [''width'', ''height'', ''scale'', ''coordinateSystem''] (label @ '' raster'') [])
    (then_res (safeInteger (fld raster ''width'') (label @ '' raster width'') 1)
    (then_res (safeInteger (fld raster ''height'') (label @ '' raster height'') 1)
    (then_res (finitePositiveAtMost (fld raster ''scale'') (label @ '' raster scale'') 8)
    (then_res (throw_if (fld raster ''coordinateSystem'' \<noteq> JStr ''pixel'') (label @ '' raster coordinateSystem''))
    (Inr raster))))))"

definition validatePage :: "evidence_host \<Rightarrow> jobj \<Rightarrow> json \<Rightarrow> nat \<Rightarrow> string + unit" where
  "validatePage h documentProvenance v index =
     (let n = show_int (int index + 1); label = ''page '' @ n
      in bind_res (get_record v label) (\<lambda>page.
         then_res (requireExactKeys page [''page'', ''status'', ''raster'', ''provenance''] label
                     [''text'', ''boxes'', ''confidence'', ''failure''])
        (then_res (throw_if (\<not> js_seq (fld page ''page'') (JNum (num (int index + 1)))) (label @ '' ordering''))
        (then_res (throw_if (\<not> str_in (fld page ''status'') [''recognized'', ''empty'', ''failed'']) (label @ '' status''))
        (bind_res (validateRaster (fld page ''raster'') label) (\<lambda>raster.
         bind_res (validateProvenance (fld page ''provenance'')) (\<lambda>provenance.
         then_res (throw_if (\<not> sameProvenance (eh_show h) (JObj provenance) (JObj documentProvenance)) (label @ '' provenance mismatch''))
        (then_res (throw_if (fld page ''text'' \<noteq> JUndef \<and> \<not> is_str (fld page ''text'')) (label @ '' text''))
        (then_res (throw_if (str_longer (fld page ''text'') MAX_TEXT_LENGTH) (label @ '' text length''))
        (then_res (case fld page ''boxes'' of
                     JUndef \<Rightarrow> Inr ()
                   | JArr xs \<Rightarrow> then_res (throw_if (MAX_BOXES < length xs) (label @ '' boxes''))
                       (for_each_index (\<lambda>b i. validateBox raster (label @ '' box '' @ show_int (int i)) b) 0 xs)
                   | _ \<Rightarrow> Inl (label @ '' boxes''))
        (then_res (if nullish (fld page ''confidence'') then Inr ()
                   else canonicalConfidence h (fld page ''confidence'') (label @ '' confidence''))
        (then_res (if nullish (fld page ''failure'') then Inr () else validateFailure (fld page ''failure'') (label @ '' failure''))
        (then_res (page_shape page n)
        (throw_if (str_in (fld page ''status'') [''recognized'', ''empty''] \<and> fld provenance ''status'' \<noteq> JStr ''resolved'')
           (label @ '' provenance status'')))))))))))))))"

definition validateSource :: "jobj \<Rightarrow> jobj \<Rightarrow> string + unit" where
  "validateSource projection expected =
     (let v = fld projection ''source''
      in if nullish v then throw_if (fld projection ''status'' \<noteq> JStr ''failed'') ''projection source''
         else bind_res (get_record v ''projection source'') (\<lambda>source.
           then_res (requireExactKeys source [''sha256'', ''fileName'', ''mediaType'', ''bytes''] ''projection source'' [])
          (then_res (sha (fld source ''sha256'') ''projection sourceSha256'')
          (then_res (throw_if (\<not> js_seq (fld source ''sha256'') (fld expected ''sourceSha256''))
                       ''sourceSha256 does not match expected identity'')
          (then_res (nonEmpty (fld source ''fileName'') ''projection source fileName'')
          (then_res (nonEmpty (fld source ''mediaType'') ''projection source mediaType'')
          (safeInteger (fld source ''bytes'') ''projection source bytes'' 1)))))))"

definition validateHeader :: "evidence_host \<Rightarrow> jobj \<Rightarrow> jobj \<Rightarrow> string + unit" where
  "validateHeader h p expected =
     then_res (requireExactKeys p [''apiVersion'', ''schemaVersion'', ''captureId'', ''status'', ''pages'', ''pageCount'',
                 ''runtimeVersion'', ''contractSha256'', ''provenance'', ''createdAt''] ''projection''
                 [''source'', ''warnings'', ''failure''])
    (then_res (throw_if (fld p ''apiVersion'' \<noteq> JStr ''2.0'' \<or> fld p ''schemaVersion'' \<noteq> JStr ''3'') ''projection version'')
    (then_res (nonEmpty (fld p ''captureId'') ''projection captureId'')
    (then_res (throw_if (\<not> js_seq (fld p ''captureId'') (fld expected ''captureId'')) ''captureId does not match expected identity'')
    (then_res (throw_if (\<not> str_in (fld p ''status'') [''completed'', ''failed'']) ''projection status'')
    (then_res (throw_if (\<not> js_seq (fld p ''status'') (fld expected ''terminalStatus'')) ''terminal status does not match expected identity'')
    (then_res (nonEmpty (fld p ''runtimeVersion'') ''projection runtimeVersion'')
    (then_res (throw_if (\<not> js_seq (fld p ''runtimeVersion'') (fld expected ''runtimeVersion'')) ''runtimeVersion does not match expected identity'')
    (then_res (sha (fld p ''contractSha256'') ''projection contractSha256'')
    (then_res (throw_if (\<not> js_seq (fld p ''contractSha256'') (fld expected ''contractSha256'')) ''contractSha256 does not match expected identity'')
    (isoTimestamp h (fld p ''createdAt'') ''projection createdAt''))))))))))"

text \<open>\<open>some\<close> over the pages; \<open>record(value, 'page')\<close> throws for what is no object.\<close>

fun some_page :: "string \<Rightarrow> json list \<Rightarrow> string + bool" where
  "some_page status [] = Inr False"
| "some_page status (v # vs) =
     bind_res (get_record v ''page'') (\<lambda>page.
       if fld page ''status'' = JStr status then Inr True else some_page status vs)"

definition validateOutcome :: "jobj \<Rightarrow> json list \<Rightarrow> jobj \<Rightarrow> string + unit" where
  "validateOutcome p pages provenance =
     (if fld p ''status'' = JStr ''completed'' then
        then_res (throw_if (\<not> nullish (fld p ''failure'')) ''completed projection failure'')
       (bind_res (some_page ''failed'' pages) (\<lambda>failed.
        then_res (throw_if failed ''completed projection contains failed page'')
       (bind_res (some_page ''recognized'' pages) (\<lambda>recognized.
        then_res (throw_if (\<not> recognized) ''completed projection requires recognized page'')
       (throw_if (fld provenance ''status'' \<noteq> JStr ''resolved'') ''completed projection provenance'')))))
      else then_res (throw_if (nullish (fld p ''failure'')) ''failed projection failure'')
             (validateFailure (fld p ''failure'') ''projection failure''))"

definition validatePages :: "evidence_host \<Rightarrow> jobj \<Rightarrow> string + unit" where
  "validatePages h p =
     (case fld p ''pageCount'' of
        JNum c \<Rightarrow>
          if \<not> js_isSafeInteger c \<or> js_lt c (num 0) \<or> js_lt (num MAX_PAGES) c then Inl ''projection pageCount''
          else (case fld p ''pages'' of
                  JArr pages \<Rightarrow>
                    if \<not> js_num_eq (num (int (length pages))) c then Inl ''projection pages/pageCount''
                    else bind_res (validateProvenance (fld p ''provenance'')) (\<lambda>provenance.
                         then_res (for_each_index (validatePage h provenance) 0 pages)
                        (validateOutcome p pages provenance))
                | _ \<Rightarrow> Inl ''projection pages/pageCount'')
      | _ \<Rightarrow> Inl ''projection pageCount'')"

definition validateProjection :: "evidence_host \<Rightarrow> json \<Rightarrow> jobj \<Rightarrow> string + jobj" where
  "validateProjection h v expected =
     bind_res (get_record v ''projection'') (\<lambda>p.
     then_res (validateHeader h p expected)
    (then_res (validateSource p expected)
    (then_res (validatePages h p) (Inr p))))"

section \<open>The evidence\<close>

text \<open>\<open>/\\r\\n?/\<close> to a line feed, \<open>/\\s+/\<close> to one space.\<close>

fun line_feeds :: "bool \<Rightarrow> string \<Rightarrow> string" where
  "line_feeds after_return [] = []"
| "line_feeds after_return (c # s) =
     (if c = CHR 0x0D then CHR 0x0A # line_feeds True s
      else if c = CHR 0x0A \<and> after_return then line_feeds False s
      else c # line_feeds False s)"

fun collapse :: "bool \<Rightarrow> string \<Rightarrow> string" where
  "collapse inside [] = []"
| "collapse inside (c # s) =
     (if is_ws c then (if inside then collapse True s else CHR '' '' # collapse True s)
      else c # collapse False s)"

definition normalizedCodePointCount :: "evidence_host \<Rightarrow> string \<Rightarrow> nat" where
  "normalizedCodePointCount h s = length (js_trim (collapse False (line_feeds False (eh_nfkc h s))))"

definition summarizeConfidence :: "evidence_host \<Rightarrow> rat list \<Rightarrow> json" where
  "summarizeConfidence h values =
     (if values = [] then
        JObj [(''scoreState'', JStr ''none''), (''numericCount'', JNum (num 0)), (''min'', JNull), (''max'', JNull), (''mean'', JNull)]
      else JObj [(''scoreState'', JStr ''numeric''), (''numericCount'', JNum (num (int (length values)))),
             (''min'', JNum (Fin (round4 h (Min (set values))))), (''max'', JNum (Fin (round4 h (Max (set values))))),
             (''mean'', JNum (Fin (round4 h (eh_fl h (fold (\<lambda>v sum. eh_fl h (sum + v)) values 0 / of_nat (length values))))))])"

text \<open>\<open>/^[a-z][a-z0-9_.-]{0,63}$/u\<close>\<close>

definition is_stage_name :: "string \<Rightarrow> bool" where
  "is_stage_name s =
     (case s of
        c # cs \<Rightarrow> is_lower c \<and> length cs \<le> 63
                  \<and> list_all (\<lambda>d. is_lower d \<or> is_digit d \<or> d \<in> {CHR ''_'', CHR ''.'', CHR ''-''}) cs
      | [] \<Rightarrow> False)"

definition str_of :: "json \<Rightarrow> string" where
  "str_of v = (case v of JStr s \<Rightarrow> s | _ \<Rightarrow> [])"

definition toEvidenceFailure :: "jobj \<Rightarrow> json" where
  "toEvidenceFailure f =
     JObj ([(''code'', fld f ''code''), (''message'', JStr (''OCR failure: '' @ str_of (fld f ''code'') @ ''.''))]
       @ (case fld f ''stage'' of JStr s \<Rightarrow> if is_stage_name s then [(''stage'', JStr s)] else [] | _ \<Rightarrow> [])
       @ (case fld f ''retryable'' of JBool b \<Rightarrow> [(''retryable'', JBool b)] | _ \<Rightarrow> []))"

definition obj_of :: "json \<Rightarrow> jobj" where
  "obj_of v = (case v of JObj r \<Rightarrow> r | _ \<Rightarrow> [])"

text \<open>The scores of the boxes; the validation has let finite numbers and null pass.\<close>

definition numeric_scores :: "jobj \<Rightarrow> rat list" where
  "numeric_scores page =
     concat (map (\<lambda>b. case fld (obj_of b) ''confidence'' of JNum (Fin q) \<Rightarrow> [q] | _ \<Rightarrow> []) (box_values page))"

definition page_char_count :: "evidence_host \<Rightarrow> jobj \<Rightarrow> nat" where
  "page_char_count h page =
     (if fld page ''status'' = JStr ''recognized'' then normalizedCodePointCount h (str_of (fld page ''text'')) else 0)"

definition toInternalEvidencePage :: "evidence_host \<Rightarrow> jobj \<Rightarrow> json" where
  "toInternalEvidencePage h page =
     (let recognized = fld page ''status'' = JStr ''recognized''; raster = obj_of (fld page ''raster'')
      in JObj ([(''page'', fld page ''page''), (''status'', fld page ''status''),
           (''raster'', JObj [(''width'', fld raster ''width''), (''height'', fld raster ''height'')]),
           (''normalizedCharCount'', JNum (num (int (page_char_count h page)))),
           (''boxCount'', JNum (num (int (length (box_values page))))),
           (''confidence'', if recognized then fld page ''confidence'' else JNull),
           (''confidenceSummary'', summarizeConfidence h (numeric_scores page))]
          @ (if fld page ''status'' = JStr ''failed'' then [(''failure'', toEvidenceFailure (obj_of (fld page ''failure'')))] else [])))"

definition summarizePages :: "evidence_host \<Rightarrow> jobj list \<Rightarrow> json" where
  "summarizePages h pages =
     JObj [(''normalizedCharCount'', JNum (num (int (sum_list (map (page_char_count h) pages))))),
           (''boxCount'', JNum (num (int (sum_list (map (length \<circ> box_values) pages))))),
           (''confidenceSummary'', summarizeConfidence h (concat (map numeric_scores pages)))]"

definition toEvidenceProvenance :: "jobj \<Rightarrow> json \<Rightarrow> json" where
  "toEvidenceProvenance projection worker =
     (let p = obj_of (fld projection ''provenance''); resolved = fld p ''status'' = JStr ''resolved'';
          opt = (\<lambda>k. if resolved then fld p k else JNull)
      in JObj [(''status'', JStr (if resolved then ''resolved'' else ''unavailable'')),
           (''runtimeVersion'', fld projection ''runtimeVersion''), (''contractSha256'', fld projection ''contractSha256''),
           (''engine'', opt ''engine''), (''model'', opt ''model''), (''modelDigest'', opt ''modelDigest''),
           (''device'', opt ''device''), (''profileId'', fld p ''profileId''),
           (''profileSpecSha256'', fld p ''profileSpecSha256''), (''workerSha256'', worker)])"

definition evidence_fields :: "evidence_host \<Rightarrow> jobj \<Rightarrow> jobj \<Rightarrow> jobj" where
  "evidence_fields h projection expected =
     (let pages = map obj_of (case fld projection ''pages'' of JArr vs \<Rightarrow> vs | _ \<Rightarrow> [])
      in [(''schemaVersion'', JNum (num 1)), (''captureId'', fld projection ''captureId''),
          (''sourceSha256'', fld expected ''sourceSha256''), (''status'', fld projection ''status''),
          (''pageCount'', fld projection ''pageCount''), (''pages'', JArr (map (toInternalEvidencePage h) pages)),
          (''summary'', summarizePages h pages),
          (''provenance'', toEvidenceProvenance projection (fld expected ''workerSha256''))]
         @ (if truthy (fld projection ''failure'')
            then [(''failure'', toEvidenceFailure (obj_of (fld projection ''failure'')))] else []))"

definition buildOcrEvidence :: "evidence_host \<Rightarrow> json \<Rightarrow> json \<Rightarrow> string + jobj" where
  "buildOcrEvidence h projection expected =
     bind_res (validateExpectedIdentity expected) (\<lambda>e.
     bind_res (validateProjection h projection e) (\<lambda>p.
       let evidence = evidence_fields h p e
       in case eh_sha256 h of
            None \<Rightarrow> Inl ''WebCrypto SHA-256 is unavailable''
          | Some digest \<Rightarrow> Inr (evidence @ [(''digest'', JStr (digest (canonicalJson (eh_show h) (JObj evidence))))])))"

section \<open>What passes the validation\<close>

lemma get_record_Inr_iff [res_simps]: "get_record v label = Inr r \<longleftrightarrow> v = JObj r"
  by (cases v) (auto simp: get_record_def)

lemma for_each_index_Inr_iff [res_simps]:
  "for_each_index f k xs = Inr u \<longleftrightarrow> (\<forall>i < length xs. f (xs ! i) (k + i) = Inr ())"
proof (induction xs arbitrary: k)
  case (Cons x xs)
  have "(\<forall>i < length (x # xs). f ((x # xs) ! i) (k + i) = Inr ()) \<longleftrightarrow>
      f x k = Inr () \<and> (\<forall>i < length xs. f (xs ! i) (Suc k + i) = Inr ())"
    by (simp add: All_less_Suc2)
  with Cons show ?case by (auto simp: res_simps)
qed simp

lemmas evidence_checks =
  requireExactKeys_def nonEmpty_def sha_def safeInteger_def finitePositive_def finitePositiveAtMost_def
  boundedNumber_def finiteNonNegative_def canonicalConfidence_def

lemma str_in_iff: "str_in v ws \<longleftrightarrow> (\<exists>w \<in> set ws. v = JStr w)"
  by (cases v) (auto simp: str_in_def)

lemma is_text_iff: "is_text v \<longleftrightarrow> (\<exists>s. v = JStr s \<and> \<not> blank s)"
  by (cases v) (auto simp: is_text_def)

lemma is_sha_iff: "is_sha v \<longleftrightarrow> (\<exists>s. v = JStr s \<and> is_sha256_hex s)"
  by (cases v) (auto simp: is_sha_def)

lemma is_failure_codeE: "is_failure_code v \<Longrightarrow> \<exists>c. v = JStr c \<and> is_failure_code (JStr c)"
  by (cases v) (auto simp: is_failure_code_def)

lemma validateFailure_facts:
  assumes "validateFailure v label = Inr u"
  shows "\<exists>f c. v = JObj f \<and> fld f ''code'' = JStr c \<and> is_failure_code (JStr c)"
proof -
  obtain f where "v = JObj f" "is_failure_code (fld f ''code'')"
    using assms by (auto simp: validateFailure_def res_simps)
  then show ?thesis using is_failure_codeE by blast
qed

lemma validateProvenance_facts:
  assumes "validateProvenance v = Inr p"
  shows "v = JObj p \<and> (\<exists>i s. fld p ''profileId'' = JStr i \<and> fld p ''profileSpecSha256'' = JStr s \<and> is_sha256_hex s)
    \<and> (if fld p ''status'' = JStr ''resolved''
       then fld p ''engine'' = JStr ''windowsml-ocr'' \<and> is_model_digest (fld p ''modelDigest'')
         \<and> (\<exists>m d. fld p ''model'' = JStr m \<and> fld p ''device'' = JStr d)
       else fld p ''status'' = JStr ''unavailable'')"
  using assms
  by (auto simp: validateProvenance_def res_simps evidence_checks is_text_iff is_sha_iff split: if_splits)

lemma validateRaster_facts:
  "validateRaster v label = Inr r \<Longrightarrow> v = JObj r \<and> (\<exists>w h. raster_size v w h)"
  by (auto simp: validateRaster_def res_simps evidence_checks isSafeIntegerAtLeast_iff raster_size_def)

text \<open>A page that passed.\<close>

definition page_facts :: "jobj \<Rightarrow> nat \<Rightarrow> bool" where
  "page_facts page i \<longleftrightarrow>
     fld page ''page'' = JNum (num (int i + 1))
     \<and> str_in (fld page ''status'') [''recognized'', ''empty'', ''failed'']
     \<and> (\<exists>w h. raster_size (fld page ''raster'') w h \<and> list_all (box_inside w h) (box_values page))
     \<and> (fld page ''status'' = JStr ''recognized'' \<longrightarrow>
          \<not> blank (text_value page) \<and> (\<exists>q. fld page ''confidence'' = JNum (Fin q) \<and> 0 \<le> q \<and> q \<le> 1))
     \<and> (fld page ''status'' \<noteq> JStr ''recognized'' \<longrightarrow> blank (text_value page) \<and> box_values page = [])
     \<and> (fld page ''status'' = JStr ''failed'' \<longrightarrow>
          (\<exists>f c. fld page ''failure'' = JObj f \<and> fld f ''code'' = JStr c \<and> is_failure_code (JStr c)))"

lemma boundedNumber_iff: "boundedNumber v label = Inr u \<longleftrightarrow> (\<exists>q. v = JNum (Fin q) \<and> 0 \<le> q \<and> q \<le> 1)"
  by (auto simp: boundedNumber_def res_simps not_less split: json.splits jnum.splits)

lemma finiteNonNegative_iff: "finiteNonNegative v label = Inr u \<longleftrightarrow> (\<exists>q. v = JNum (Fin q) \<and> 0 \<le> q)"
  by (auto simp: finiteNonNegative_def res_simps not_less split: json.splits jnum.splits)

lemma validateBox_inside:
  assumes "validateBox raster label v = Inr ()" "raster_size (JObj raster) w h"
  shows "box_inside w h v"
proof -
  obtain box where box: "v = JObj box" using assms(1) by (auto simp: validateBox_def res_simps)
  with assms(1) obtain pts where v: "fld box ''polygon'' = JArr pts" "4 \<le> length pts" "length pts \<le> 256"
    and each: "\<forall>i < length pts. validatePoint raster label (pts ! i) i = Inr ()"
    by (cases "fld box ''polygon''") (auto simp: validateBox_def res_simps split: if_split_asm)
  have "point_inside w h (pts ! i)" if i: "i < length pts" for i
  proof -
    obtain pt x y where "pts ! i = JObj pt" "fld pt ''x'' = JNum (Fin x)" "fld pt ''y'' = JNum (Fin y)" "0 \<le> x" "0 \<le> y"
      "\<not> js_less (fld raster ''width'') (JNum (Fin x))" "\<not> js_less (fld raster ''height'') (JNum (Fin y))"
      using each[rule_format, OF i]
      by (auto simp: validatePoint_def Let_def res_simps finiteNonNegative_iff)
    then show ?thesis
      using assms(2) by (auto simp: point_inside_def raster_size_def js_less_def num_def)
  qed
  then show ?thesis using box v by (auto simp: box_inside_def list_all_length)
qed

lemma validatePage_facts:
  assumes "validatePage h prov v i = Inr ()"
  obtains page where "v = JObj page" "page_facts page i"
proof -
  let ?label = "''page '' @ show_int (int i + 1)"
  obtain page raster p where v: "v = JObj page"
    and seq: "js_seq (fld page ''page'') (JNum (num (int i + 1)))"
    and st: "str_in (fld page ''status'') [''recognized'', ''empty'', ''failed'']"
    and raster: "validateRaster (fld page ''raster'') ?label = Inr raster"
    and boxes: "(case fld page ''boxes'' of JUndef \<Rightarrow> Inr ()
        | JArr xs \<Rightarrow> then_res (throw_if (MAX_BOXES < length xs) (?label @ '' boxes''))
            (for_each_index (\<lambda>b j. validateBox raster (?label @ '' box '' @ show_int (int j)) b) 0 xs)
        | _ \<Rightarrow> Inl (?label @ '' boxes'')) = Inr ()"
    and conf: "(if nullish (fld page ''confidence'') then Inr ()
        else canonicalConfidence h (fld page ''confidence'') (?label @ '' confidence'')) = Inr ()"
    and fail: "(if nullish (fld page ''failure'') then Inr () else validateFailure (fld page ''failure'') (?label @ '' failure'')) = Inr ()"
    and shape: "page_shape page (show_int (int i + 1)) = Inr ()"
    using assms unfolding validatePage_def Let_def by (auto simp: res_simps)
  have num: "fld page ''page'' = JNum (num (int i + 1))"
    using seq by (cases "fld page ''page''") (auto simp: num_def elim: js_num_eq.elims)
  obtain w h' where size: "raster_size (JObj raster) w h'" "fld page ''raster'' = JObj raster"
    using validateRaster_facts[OF raster] by metis
  have inside: "list_all (box_inside w h') (box_values page)"
    using boxes validateBox_inside[OF _ size(1)]
    by (auto simp: box_values_def res_simps list_all_length split: json.split_asm)
  have "\<exists>q. fld page ''confidence'' = JNum (Fin q) \<and> 0 \<le> q \<and> q \<le> 1" if "is_num (fld page ''confidence'')"
    using conf that by (cases "fld page ''confidence''")
      (auto simp: is_num_def canonicalConfidence_def res_simps boundedNumber_iff)
  moreover have "\<exists>f c. fld page ''failure'' = JObj f \<and> fld f ''code'' = JStr c \<and> is_failure_code (JStr c)"
    if "\<not> nullish (fld page ''failure'')"
    using fail that validateFailure_facts by auto
  ultimately have "page_facts page i"
    using num st size inside shape unfolding page_facts_def page_shape_def Let_def
    by (auto simp: res_simps str_in_iff)
  with v show thesis by (rule that)
qed

lemma validateProjection_facts:
  assumes "validateProjection h v e = Inr p"
  obtains pages prov where "v = JObj p" "validateHeader h p e = Inr ()" "fld p ''pages'' = JArr pages"
    "fld p ''pageCount'' = JNum (num (int (length pages)))" "length pages \<le> 500"
    "validateProvenance (fld p ''provenance'') = Inr prov"
    "\<forall>i < length pages. validatePage h prov (pages ! i) i = Inr ()" "validateOutcome p pages prov = Inr ()"
proof -
  have header: "v = JObj p" "validateHeader h p e = Inr ()" and rest: "validatePages h p = Inr ()"
    using assms by (auto simp: validateProjection_def res_simps)
  from rest obtain c where c: "fld p ''pageCount'' = JNum c" "\<not> js_lt (num MAX_PAGES) c"
    by (cases "fld p ''pageCount''") (auto simp: validatePages_def split: if_split_asm)
  with rest obtain pages where pages: "fld p ''pages'' = JArr pages"
    by (cases "fld p ''pages''") (auto simp: validatePages_def split: if_split_asm)
  with rest c obtain prov where eq: "js_num_eq (num (int (length pages))) c"
    and prov: "validateProvenance (fld p ''provenance'') = Inr prov"
      "\<forall>i < length pages. validatePage h prov (pages ! i) i = Inr ()" "validateOutcome p pages prov = Inr ()"
    by (auto simp: validatePages_def res_simps split: if_split_asm)
  have n: "c = num (int (length pages))" using eq by (simp add: num_def)
  with c have "length pages \<le> 500" by (simp add: MAX_PAGES_def)
  with header pages c(1) n prov show thesis by (auto intro: that)
qed

section \<open>No content in the evidence\<close>

text \<open>Every string of a value, keys apart, meets a predicate.\<close>

function all_strings :: "(string \<Rightarrow> bool) \<Rightarrow> json \<Rightarrow> bool" where
  "all_strings P v =
     (case v of
        JStr s \<Rightarrow> P s
      | JArr xs \<Rightarrow> list_all (all_strings P) xs
      | JObj r \<Rightarrow> list_all (\<lambda>(k, x). all_strings P x) r
      | _ \<Rightarrow> True)"
  by pat_completeness auto
termination
  by (relation "measure (\<lambda>(_, v). size v)") (auto simp: element_size entry_size)

lemma all_strings_simps [simp]:
  "all_strings P JUndef" "all_strings P JNull" "all_strings P (JBool b)" "all_strings P (JNum n)"
  "all_strings P (JStr s) = P s" "all_strings P (JArr xs) = list_all (all_strings P) xs"
  "all_strings P (JObj r) = list_all (\<lambda>(k, x). all_strings P x) r"
  by (subst all_strings.simps, simp)+

declare all_strings.simps [simp del]

text \<open>What a string of the evidence may be: a word of the vocabulary, a hash, a part of the expected
  identity, the model, device or profile of the provenance, or a bare failure code or stage name.\<close>

definition evidence_word :: "jobj \<Rightarrow> jobj \<Rightarrow> string \<Rightarrow> bool" where
  "evidence_word e prov s \<longleftrightarrow>
     s \<in> {''completed'', ''failed'', ''recognized'', ''empty'', ''resolved'', ''unavailable'', ''none'', ''numeric'', ''windowsml-ocr''}
     \<or> is_sha256_hex s \<or> is_model_digest (JStr s)
     \<or> JStr s \<in> {fld e ''captureId'', fld e ''runtimeVersion''}
     \<or> JStr s \<in> {fld prov ''model'', fld prov ''device'', fld prov ''profileId''}
     \<or> is_failure_code (JStr s) \<or> (\<exists>c. is_failure_code (JStr c) \<and> s = ''OCR failure: '' @ c @ ''.'') \<or> is_stage_name s"

lemma summary_strings: "all_strings (evidence_word e prov) (summarizeConfidence h xs)"
  by (simp add: summarizeConfidence_def evidence_word_def)

lemma failure_strings:
  assumes "fld f ''code'' = JStr c" "is_failure_code (JStr c)"
  shows "all_strings (evidence_word e prov) (toEvidenceFailure f)"
  using assms by (auto simp: toEvidenceFailure_def str_of_def evidence_word_def split: json.splits)

lemma page_strings:
  assumes "page_facts page i"
  shows "all_strings (evidence_word e prov) (toInternalEvidencePage h page)"
proof -
  have st: "all_strings (evidence_word e prov) (fld page ''status'')"
    using assms by (auto simp: page_facts_def str_in_iff evidence_word_def)
  have "fld page ''status'' = JStr ''failed'' \<Longrightarrow>
      all_strings (evidence_word e prov) (toEvidenceFailure (obj_of (fld page ''failure'')))"
    using assms failure_strings unfolding page_facts_def by (fastforce simp: obj_of_def)
  then show ?thesis
    using assms st summary_strings
    by (auto simp: toInternalEvidencePage_def Let_def page_facts_def raster_size_def obj_of_def)
qed

lemma provenance_strings:
  assumes "validateProvenance (fld p ''provenance'') = Inr prov" "fld p ''runtimeVersion'' = fld e ''runtimeVersion''"
    "is_sha (fld p ''contractSha256'')" "is_sha worker" "is_str (fld e ''runtimeVersion'')"
  shows "all_strings (evidence_word e prov) (toEvidenceProvenance p worker)"
proof -
  have sha: "is_sha v \<Longrightarrow> all_strings (evidence_word e prov) v" for v
    by (auto simp: is_sha_iff evidence_word_def)
  have "is_model_digest v \<Longrightarrow> all_strings (evidence_word e prov) v" for v
    by (cases v) (auto simp: evidence_word_def is_model_digest_def)
  then show ?thesis
    using validateProvenance_facts[OF assms(1)] assms(2-5) sha
    by (auto simp: toEvidenceProvenance_def Let_def obj_of_def evidence_word_def is_str.simps elim!: is_strE split: if_splits)
qed

lemma js_seq_str_left: "js_seq (JStr a) v \<longleftrightarrow> v = JStr a"
  by (cases v) auto

lemma header_facts:
  assumes "validateHeader h p e = Inr ()"
  shows "fld p ''captureId'' = fld e ''captureId''" "fld p ''runtimeVersion'' = fld e ''runtimeVersion''"
    "fld p ''contractSha256'' = fld e ''contractSha256''" "fld p ''status'' = fld e ''terminalStatus''"
    "is_str (fld p ''captureId'')" "is_str (fld p ''runtimeVersion'')" "is_sha (fld p ''contractSha256'')"
    "str_in (fld p ''status'') [''completed'', ''failed'']"
  using assms
  by (auto simp: validateHeader_def res_simps nonEmpty_def sha_def is_text_iff is_sha_iff str_in_iff
      js_seq_str_left)

lemma expected_facts:
  assumes "validateExpectedIdentity v = Inr e"
  shows "is_sha (fld e ''sourceSha256'')" "is_sha (fld e ''workerSha256'')" "v = JObj e"
  using assms by (auto simp: validateExpectedIdentity_def res_simps sha_def)

lemma outcome_failure:
  assumes "validateOutcome p pages prov = Inr ()" "truthy (fld p ''failure'')"
  shows "\<exists>f c. fld p ''failure'' = JObj f \<and> fld f ''code'' = JStr c \<and> is_failure_code (JStr c)"
proof -
  have "\<not> nullish (fld p ''failure'')" using assms(2) by (auto simp: nullish_def)
  then have "validateFailure (fld p ''failure'') ''projection failure'' = Inr ()"
    using assms(1) by (auto simp: validateOutcome_def res_simps split: if_split_asm)
  then show ?thesis by (rule validateFailure_facts)
qed

text \<open>C31. The evidence is free of content: every string in it, at any depth, is a word of a fixed
  vocabulary, a hash, a part of the identity the caller expected, the model, device or profile
  of the provenance, a bare failure code or stage name, or the digest of the record itself. The
  texts of pages and boxes, the file name and the messages of failures do not enter it.\<close>

theorem evidence_content_free:
  assumes "buildOcrEvidence h projection expected = Inr evidence"
  shows "\<exists>e p prov. expected = JObj e \<and> projection = JObj p \<and> fld p ''provenance'' = JObj prov
    \<and> (\<forall>(k, v) \<in> set evidence. if k = ''digest'' then is_str v else all_strings (evidence_word e prov) v)"
proof -
  obtain e p d where e: "validateExpectedIdentity expected = Inr e" and p: "validateProjection h projection e = Inr p"
    and ev: "evidence = evidence_fields h p e @ [(''digest'', JStr d)]"
    using assms by (auto simp: buildOcrEvidence_def res_simps Let_def split: option.splits)
  obtain pages prov where projection: "projection = JObj p" and header: "validateHeader h p e = Inr ()"
    and pages: "fld p ''pages'' = JArr pages" "fld p ''pageCount'' = JNum (num (int (length pages)))"
    and prov: "validateProvenance (fld p ''provenance'') = Inr prov"
    and each: "\<forall>i < length pages. validatePage h prov (pages ! i) i = Inr ()"
    and outcome: "validateOutcome p pages prov = Inr ()"
    using p by (rule validateProjection_facts)
  let ?P = "all_strings (evidence_word e prov)"
  have id: "?P (fld p ''captureId'')" "?P (fld p ''status'')" "?P (fld e ''sourceSha256'')"
    using header_facts[OF header] expected_facts[OF e]
    by (auto simp: evidence_word_def is_sha_iff str_in_iff elim!: is_strE)
  have "?P (toInternalEvidencePage h (obj_of v))" if v: "v \<in> set pages" for v
  proof -
    obtain i where "i < length pages" "v = pages ! i" using v by (auto simp: in_set_conv_nth)
    then obtain page where "v = JObj page" "page_facts page i" using each validatePage_facts by metis
    then show ?thesis using page_strings by (simp add: obj_of_def)
  qed
  then have ps: "?P (JArr (map (toInternalEvidencePage h) (map obj_of pages)))" by (simp add: list_all_iff)
  have pr: "?P (toEvidenceProvenance p (fld e ''workerSha256''))"
    using header_facts[OF header] expected_facts[OF e] by (intro provenance_strings[OF prov]) auto
  have fl: "truthy (fld p ''failure'') \<Longrightarrow> ?P (toEvidenceFailure (obj_of (fld p ''failure'')))"
    using outcome_failure[OF outcome] failure_strings by (auto simp: obj_of_def)
  have "\<forall>(k, v) \<in> set evidence. if k = ''digest'' then is_str v else ?P v"
    using id ps pr fl pages summary_strings[of e prov h]
    by (auto simp: ev evidence_fields_def Let_def summarizePages_def)
  then show ?thesis using projection expected_facts(3)[OF e] validateProvenance_facts[OF prov] by blast
qed

lemma some_page_iff:
  "some_page st vs = Inr b \<Longrightarrow> b \<longleftrightarrow> (\<exists>v \<in> set vs. \<exists>page. v = JObj page \<and> fld page ''status'' = JStr st)"
  by (induction vs) (auto simp: res_simps split: if_split_asm)


section \<open>Canonical text determines the record\<close>

lemma flat_records_eq_iff:
  assumes "\<forall>(k, v) \<in> set r. is_str v" "\<forall>(k, v) \<in> set r'. is_str v" "distinct (map fst r)" "distinct (map fst r')"
  shows "canonicalJson sh (JObj r) = canonicalJson sh (JObj r') \<longleftrightarrow> map_of r = map_of r'"
proof -
  have plain: "plain {} (JObj s)" if "\<forall>(k, v) \<in> set s. is_str v" "distinct (map fst s)" for s
    using that by (auto elim!: is_strE)
  have flat: "sorted_value (JObj s) = JObj (sort_key fst s)" if "\<forall>(k, v) \<in> set s. is_str v" for s
  proof -
    have "sorted_value x = x" if "(k, x) \<in> set s" for k x
      using that \<open>\<forall>(k, v) \<in> set s. is_str v\<close> by (cases x) auto
    then show ?thesis by (auto intro!: map_idI)
  qed
  have "canonicalJson sh (JObj r) = canonicalJson sh (JObj r') \<longleftrightarrow> sort_key fst r = sort_key fst r'"
    using canonical_determines[OF plain[OF assms(1,3)] plain[OF assms(2,4)], of sh] flat assms(1,2)
    by (simp add: prints_numbers_def)
  then show ?thesis using sorted_records_eq[OF assms(3,4)] map_of_sort_key assms(3,4) by metis
qed

lemma keys_of_exact:
  "requireExactKeys r required label [] = Inr () \<Longrightarrow> set (map fst r) = set required"
  by (auto simp: requireExactKeys_def res_simps list_ex_iff has_key_def)

lemma provenance_flat:
  assumes "validateProvenance v = Inr p" "distinct (map fst p)"
  shows "\<forall>(k, x) \<in> set p. is_str x"
proof -
  have digest: "is_model_digest v \<Longrightarrow> is_str v" for v by (cases v) (auto simp: is_model_digest_def)
  have "\<exists>ks. set (map fst p) = set ks \<and> (\<forall>k \<in> set ks. is_str (fld p k))"
  proof (cases "fld p ''status'' = JStr ''resolved''")
    case True
    let ?ks = "[''status'', ''engine'', ''model'', ''modelDigest'', ''device'', ''profileId'', ''profileSpecSha256'']"
    have "requireExactKeys p ?ks ''resolved OCR provenance'' [] = Inr ()"
      using assms(1) True by (auto simp: validateProvenance_def res_simps split: if_split_asm)
    then have keys: "set (map fst p) = set ?ks" by (rule keys_of_exact)
    have "is_str (fld p ''model'')" "is_str (fld p ''device'')" "is_str (fld p ''profileId'')" "is_str (fld p ''profileSpecSha256'')"
      "is_str (fld p ''engine'')" "is_str (fld p ''modelDigest'')"
      using validateProvenance_facts[OF assms(1)] True digest by auto
    then have "\<forall>k \<in> set ?ks. is_str (fld p k)" using True by simp
    with keys show ?thesis by blast
  next
    case False
    let ?ks = "[''status'', ''profileId'', ''profileSpecSha256'', ''reason'']"
    have st: "fld p ''status'' = JStr ''unavailable''" using validateProvenance_facts[OF assms(1)] False by simp
    have exact: "requireExactKeys p ?ks ''unavailable OCR provenance'' [] = Inr ()"
      and reason: "str_in (fld p ''reason'') [''model_unavailable'', ''worker_crashed'', ''worker_timeout'', ''protocol_failure'']"
      using assms(1) st by (auto simp: validateProvenance_def res_simps split: if_split_asm)
    have "is_str (fld p ''reason'')" using reason by (auto simp: str_in_iff)
    moreover have "is_str (fld p ''profileId'')" "is_str (fld p ''profileSpecSha256'')"
      using validateProvenance_facts[OF assms(1)] by auto
    ultimately have "\<forall>k \<in> set ?ks. is_str (fld p k)" using st by simp
    with keys_of_exact[OF exact] show ?thesis by blast
  qed
  then have "is_str (fld p k)" if "k \<in> set (map fst p)" for k using that by blast
  moreover have "fld p k = x" if "(k, x) \<in> set p" for k x
    using map_of_is_SomeI[OF assms(2) that] by (simp add: fld_def)
  ultimately show ?thesis by force
qed

text \<open>Two validated provenance records are taken as the same exactly when they agree in every
  field, whatever the order of their fields: the canonical text determines the record.\<close>

theorem sameProvenance_iff:
  assumes "validateProvenance v = Inr p" "validateProvenance v' = Inr p'"
    and "distinct (map fst p)" "distinct (map fst p')"
  shows "sameProvenance sh v v' \<longleftrightarrow> (\<forall>k. fld p k = fld p' k)"
proof -
  have vs: "v = JObj p" "v' = JObj p'"
    using assms(1,2) validateProvenance_facts by blast+
  note flat = provenance_flat[OF assms(1,3)] provenance_flat[OF assms(2,4)]
  have iff: "sameProvenance sh v v' \<longleftrightarrow> map_of p = map_of p'"
    unfolding sameProvenance_def vs by (rule flat_records_eq_iff[OF flat assms(3,4)])
  have "map_of p = map_of p'" if "\<forall>k. fld p k = fld p' k"
  proof
    fix k
    have def: "map_of p k \<noteq> Some JUndef" "map_of p' k \<noteq> Some JUndef"
      using flat by (auto dest!: map_of_SomeD)
    show "map_of p k = map_of p' k"
      using that[rule_format, of k] def by (auto simp: fld_def split: option.splits)
  qed
  with iff show ?thesis by (auto simp: fld_def)
qed

section \<open>An example\<close>

definition zeros :: string where
  "zeros = replicate 64 CHR ''0''"

definition example_host :: evidence_host where
  "example_host = \<lparr>eh_fl = (\<lambda>q. q), eh_show = (\<lambda>_. []), eh_nfkc = (\<lambda>s. s), eh_sha256 = Some (\<lambda>_. zeros),
     eh_date_parse = (\<lambda>_. num 0)\<rparr>"

definition example_expected :: jobj where
  "example_expected =
     [(''captureId'', JStr ''c''), (''sourceSha256'', JStr zeros), (''runtimeVersion'', JStr ''1''),
      (''contractSha256'', JStr zeros), (''terminalStatus'', JStr ''failed''), (''workerSha256'', JStr zeros)]"

definition example_provenance :: jobj where
  "example_provenance =
     [(''status'', JStr ''unavailable''), (''profileId'', JStr ''p''), (''profileSpecSha256'', JStr zeros),
      (''reason'', JStr ''worker_crashed'')]"

definition example_projection :: jobj where
  "example_projection =
     [(''apiVersion'', JStr ''2.0''), (''schemaVersion'', JStr ''3''), (''captureId'', JStr ''c''), (''status'', JStr ''failed''),
      (''pages'', JArr []), (''pageCount'', JNum (num 0)), (''runtimeVersion'', JStr ''1''), (''contractSha256'', JStr zeros),
      (''provenance'', JObj example_provenance), (''createdAt'', JStr ''now''),
      (''failure'', JObj [(''code'', JStr ''worker_crashed''), (''message'', JStr ''Secret text'')])]"

lemma example_provenance_valid: "validateProvenance (JObj example_provenance) = Inr example_provenance"
  by code_simp

lemma example_evidence: "\<exists>ev. buildOcrEvidence example_host (JObj example_projection) (JObj example_expected) = Inr ev"
proof -
  have "validateExpectedIdentity (JObj example_expected) = Inr example_expected" by code_simp
  moreover have "validateProjection example_host (JObj example_projection) example_expected = Inr example_projection"
    by code_simp
  ultimately show ?thesis by (simp add: buildOcrEvidence_def example_host_def Let_def)
qed

theorem evidence_content_free_witness:
  "\<exists>evidence. buildOcrEvidence example_host (JObj example_projection) (JObj example_expected) = Inr evidence
     \<and> (\<exists>e p prov. JObj example_expected = JObj e \<and> JObj example_projection = JObj p \<and> fld p ''provenance'' = JObj prov
          \<and> (\<forall>(k, v) \<in> set evidence. if k = ''digest'' then is_str v else all_strings (evidence_word e prov) v))"
proof -
  obtain ev where "buildOcrEvidence example_host (JObj example_projection) (JObj example_expected) = Inr ev"
    using example_evidence by blast
  with evidence_content_free[OF this] show ?thesis by blast
qed


theorem sameProvenance_iff_witness:
  "sameProvenance (\<lambda>_. []) (JObj example_provenance) (JObj (rev example_provenance))"
proof -
  have d: "distinct (map fst example_provenance)" "distinct (map fst (rev example_provenance))"
    "validateProvenance (JObj (rev example_provenance)) = Inr (rev example_provenance)"
    by code_simp+
  have "fld example_provenance k = fld (rev example_provenance) k" for k
    by (simp add: example_provenance_def)
  then show ?thesis using sameProvenance_iff[OF example_provenance_valid d(3,1,2)] by blast
qed

end
