(* ===== verification/Desktop_Lifecycle.thy ===== *)
theory Desktop_Lifecycle
  imports Desktop_Selectors Desktop_Evidence Workbench_Streams
begin

text \<open>
  \<^verbatim>\<open>apps/capture-workbench/src/app/services/desktop-workspace-capture.service.ts\<close>: the life of a
  capture in the desktop application. A source of the library is captured by the runtime, one-shot
  for documents and streaming for recordings; the service polls the runtime until the capture has
  ended, writes what it produced into the library, deletes the capture in the runtime and releases
  the document. Whatever goes wrong is written into the library too, so that it can be recovered.

  The state holds the signals and the map of active captures of the service, the signals of the
  host it writes, and the library of \<open>Desktop_Library\<close>; \<open>dk_world\<close> is everything else. The object
  \<open>active\<close> that the closures of a capture share is the entry of its document in \<open>dk_active\<close>. As in
  \<open>Workbench_Streams\<close>, a call of the runtime is a function on the whole state, so that it may stand
  for a user who cancels, or for other documents being captured, while it is pending. Polling may
  go on forever, so a run is an optional result: \<open>None\<close> is a run that never ends.
\<close>

section \<open>State\<close>

record OcrComputePreflight =
  oc_runtimeVersion :: string
  oc_contractSha256 :: string
  oc_workerSha256 :: "string option"

record ActiveCapture =
  ac_captureId :: "string option"
  ac_streaming :: bool
  ac_lastEventSequence :: jnum
  ac_rawPersisted :: bool
  ac_cancelRequested :: bool
  ac_cancelSent :: bool
  ac_lastStage :: "string option"
  ac_terminalCommitted :: bool
  ac_terminalStatus :: "string option"
  ac_terminalErrorCode :: "string option"
  ac_terminalErrorMessage :: "string option"
  ac_ocrCompute :: "OcrComputePreflight option"
  ac_sourceSha256 :: "string option"

record 'w desktop =
  dk_active :: "string \<rightharpoonup> ActiveCapture"
  dk_busy :: "string set"
  dk_partials :: "string \<rightharpoonup> PartialCapture"
  dk_selectedId :: "string option"
  dk_requested :: "string set"
  dk_message :: string
  dk_library :: library
  dk_world :: 'w

record SequencedEvent = CaptureEvent +
  ev_sequence :: jnum

record StreamingRequest =
  sq_documentId :: string
  sq_clientRequestId :: string
  sq_structuringMode :: string
  sq_identifySpeakers :: bool

record desktop_texts =
  tx_whisperNeeded :: string
  tx_speakerUnitNeeded :: string
  tx_needsSetup :: string
  tx_missingRawResult :: string

text \<open>The collaborators: the runtime client, the native side of the library, the host of the
  service, and what the platform adds: identifiers, the timers, and which of two racing calls
  answers first.\<close>

record 'w desktop_env =
  de_ready :: "'w desktop \<Rightarrow> bool"
  de_ocrCompute :: "'w desktop \<Rightarrow> OcrComputePreflight option"
  de_pdfPageNumbers :: "'w desktop \<Rightarrow> nat list option"
  de_create :: "string \<Rightarrow> string \<Rightarrow> nat list option \<Rightarrow> ('w desktop, DesktopCaptureOperation) obs"
  de_get :: "string \<Rightarrow> ('w desktop, DesktopCaptureOperation) obs"
  de_cancel :: "string \<Rightarrow> ('w desktop, DesktopCaptureOperation) obs"
  de_raw :: "string \<Rightarrow> ('w desktop, RawCapture option) obs"
  de_ocr :: "string \<Rightarrow> ('w desktop, jobj) obs"
  de_result :: "string \<Rightarrow> ('w desktop, CaptureDocument) obs"
  de_delete :: "string \<Rightarrow> ('w desktop, unit) obs"
  de_startStreaming :: "StreamingRequest \<Rightarrow> ('w desktop, CaptureOperation) obs"
  de_getStreaming :: "string \<Rightarrow> ('w desktop, CaptureOperation) obs"
  de_events :: "string \<Rightarrow> jnum \<Rightarrow> ('w desktop, SequencedEvent list) obs"
  de_partial :: "string \<Rightarrow> ('w desktop, PartialCapture option) obs"
  de_streamingResult :: "string \<Rightarrow> ('w desktop, StreamingResultView) obs"
  de_cancelStreaming :: "string \<Rightarrow> ('w desktop, CaptureOperation) obs"
  de_deleteStreaming :: "string \<Rightarrow> ('w desktop, unit) obs"
  de_import :: "string \<Rightarrow> ('w desktop, LibraryDocumentSummary) obs"
  de_libraryHost :: "'w desktop \<Rightarrow> library_host"
  de_requirements :: "'w desktop \<Rightarrow> RuntimeRequirementView list"
  de_documents :: "'w desktop \<Rightarrow> LibraryDocumentSummary list"
  de_selected :: "'w desktop \<Rightarrow> LibraryDocumentSummary option"
  de_identifySpeakers :: "'w desktop \<Rightarrow> bool"
  de_refresh :: "'w \<Rightarrow> 'w"
  de_reload :: "string \<Rightarrow> 'w \<Rightarrow> 'w"
  de_uuid :: "'w desktop \<Rightarrow> string"
  de_timer :: "nat \<Rightarrow> 'w desktop \<Rightarrow> 'w desktop"
  de_pollFirst :: "'w desktop \<Rightarrow> bool"
  de_evidence :: evidence_host
  de_texts :: desktop_texts

section \<open>Runs that may not end\<close>

type_synonym ('s, 'a) run = "'s \<Rightarrow> ('a outcome \<times> 's) option"

definition run_obs :: "('s, 'a) obs \<Rightarrow> ('s, 'a) run" where
  "run_obs m s = Some (m s)"

definition bind_run :: "('s, 'a) run \<Rightarrow> ('a \<Rightarrow> ('s, 'b) run) \<Rightarrow> ('s, 'b) run" where
  "bind_run m f s = (case m s of
       None \<Rightarrow> None
     | Some (Emit x, s') \<Rightarrow> f x s'
     | Some (Empty, s') \<Rightarrow> Some (Empty, s')
     | Some (Error e, s') \<Rightarrow> Some (Error e, s'))"

text \<open>\<open>of(x).pipe(expand(step), filter(done), take(1))\<close>, where \<open>step\<close> is empty once \<open>done\<close>.\<close>

partial_function (option) expand_until ::
  "('a \<Rightarrow> bool) \<Rightarrow> ('a \<Rightarrow> ('s, 'a) obs) \<Rightarrow> 'a \<Rightarrow> 's \<Rightarrow> ('a outcome \<times> 's) option" where
  "expand_until fin step x s =
     (if fin x then Some (Emit x, s)
      else (case step x s of
              (r, s1) \<Rightarrow> (case r of
                  Emit y \<Rightarrow> expand_until fin step y s1
                | Empty \<Rightarrow> Some (Empty, s1)
                | Error e \<Rightarrow> Some (Error e, s1))))"

declare expand_until.simps [code]

section \<open>The active captures\<close>

definition new_active :: "bool \<Rightarrow> OcrComputePreflight option \<Rightarrow> ActiveCapture" where
  "new_active streaming compute =
     \<lparr>ac_captureId = None, ac_streaming = streaming, ac_lastEventSequence = num 0, ac_rawPersisted = False,
      ac_cancelRequested = False, ac_cancelSent = False, ac_lastStage = None, ac_terminalCommitted = False,
      ac_terminalStatus = None, ac_terminalErrorCode = None, ac_terminalErrorMessage = None,
      ac_ocrCompute = compute, ac_sourceSha256 = None\<rparr>"

definition active_of :: "string \<Rightarrow> 'w desktop \<Rightarrow> ActiveCapture" where
  "active_of d s = option_or (dk_active s d) (new_active False None)"

definition set_active :: "string \<Rightarrow> (ActiveCapture \<Rightarrow> ActiveCapture) \<Rightarrow> 'w desktop \<Rightarrow> 'w desktop" where
  "set_active d f s = s\<lparr>dk_active := (dk_active s)(d := map_option f (dk_active s d))\<rparr>"

definition hasActiveCapture :: "string \<Rightarrow> 'w desktop \<Rightarrow> bool" where
  "hasActiveCapture d s = (dk_active s d \<noteq> None)"

definition markBusy :: "string \<Rightarrow> bool \<Rightarrow> 'w desktop \<Rightarrow> 'w desktop" where
  "markBusy d busy s = s\<lparr>dk_busy := (if busy then insert d (dk_busy s) else dk_busy s - {d})\<rparr>"

definition clearStreamingPartial :: "string \<Rightarrow> 'w desktop \<Rightarrow> 'w desktop" where
  "clearStreamingPartial d s = s\<lparr>dk_partials := (dk_partials s)(d := None)\<rparr>"

definition reload :: "'w desktop_env \<Rightarrow> string \<Rightarrow> 'w desktop \<Rightarrow> 'w desktop" where
  "reload E d s = s\<lparr>dk_world := de_reload E d (dk_world s)\<rparr>"

text \<open>Asking for a cancellation wakes the polling loop of the document.\<close>

definition cancel_capture :: "string \<Rightarrow> 'w desktop \<Rightarrow> 'w desktop" where
  "cancel_capture d s = set_active d (\<lambda>a. a\<lparr>ac_cancelRequested := True\<rparr>) s"

definition nonempty_text :: "string option \<Rightarrow> bool" where
  "nonempty_text x = (x \<noteq> None \<and> x \<noteq> Some [])"

section \<open>The library\<close>

definition new_update :: "string \<Rightarrow> string \<Rightarrow> string option \<Rightarrow> LibraryCaptureUpdate" where
  "new_update d status stage =
     \<lparr>up_documentId = d, up_captureId = None, up_clearCaptureId = False, up_status = status, up_stage = stage,
      up_raw = None, up_result = None, up_errorCode = None, up_errorMessage = None, up_recoveryCode = None,
      up_recoveryMessage = None, up_ocrEvidence = None\<rparr>"

definition updateCapture ::
  "'w desktop_env \<Rightarrow> LibraryCaptureUpdate \<Rightarrow> ('w desktop, LibraryDocumentSummary) obs" where
  "updateCapture E u s =
     (case update_capture (de_libraryHost E s) u (dk_library s) of
        Inl m \<Rightarrow> (Error (thrown_string m), s)
      | Inr (x, lib) \<Rightarrow> (Emit (sanitizeSummary x), s\<lparr>dk_library := lib\<rparr>))"

definition failure_code :: "CaptureFailure option \<Rightarrow> string option" where
  "failure_code f = map_option fl_code f"

definition failure_message :: "CaptureFailure option \<Rightarrow> string option" where
  "failure_message f = map_option fl_message f"

section \<open>Identity of the source\<close>

definition rememberSourceIdentity :: "string \<Rightarrow> DesktopCaptureOperation \<Rightarrow> ('w desktop, unit) obs" where
  "rememberSourceIdentity d j s =
     (case jb_source j of
        None \<Rightarrow> (Emit (), s)
      | Some h \<Rightarrow>
          if ac_sourceSha256 (active_of d s) \<notin> {None, Some h}
          then (Error (new_Error ''OCR evidence identity mismatch: capture source changed.''), s)
          else (Emit (), set_active d (\<lambda>a. a\<lparr>ac_sourceSha256 := Some h\<rparr>) s))"

definition expectedOcrIdentity :: "DesktopCaptureOperation \<Rightarrow> ActiveCapture \<Rightarrow> string \<Rightarrow> thrown + jobj" where
  "expectedOcrIdentity j a terminalStatus =
     (case ac_ocrCompute a of
        None \<Rightarrow> Inl (new_Error ''OCR evidence identity unavailable: runtime OCR readiness is missing.'')
      | Some compute \<Rightarrow>
          (case (if ac_sourceSha256 a = None then jb_source j else ac_sourceSha256 a) of
             None \<Rightarrow> Inl (new_Error ''OCR evidence identity unavailable: capture source identity is missing.'')
           | Some h \<Rightarrow>
               if h = [] then Inl (new_Error ''OCR evidence identity unavailable: capture source identity is missing.'')
               else if \<not> nonempty_text (oc_workerSha256 compute)
               then Inl (new_Error ''OCR evidence identity unavailable: OCR worker identity is missing.'')
               else if terminalStatus \<notin> {''completed'', ''failed''}
               then Inl (new_Error (''OCR evidence is unsupported for terminal status: '' @ terminalStatus))
               else Inr [(''captureId'', JStr (jb_captureId j)), (''sourceSha256'', JStr h),
                         (''runtimeVersion'', JStr (oc_runtimeVersion compute)),
                         (''contractSha256'', JStr (oc_contractSha256 compute)),
                         (''terminalStatus'', JStr terminalStatus),
                         (''workerSha256'', JStr (option_or (oc_workerSha256 compute) []))]))"

text \<open>The evidence for the projection of a job, built with the identity the host expects.\<close>

definition build_evidence ::
  "'w desktop_env \<Rightarrow> string \<Rightarrow> DesktopCaptureOperation \<Rightarrow> string \<Rightarrow> jobj \<Rightarrow> ('w desktop, jobj) obs" where
  "build_evidence E d j terminalStatus projection s =
     (case expectedOcrIdentity j (active_of d s) terminalStatus of
        Inl e \<Rightarrow> (Error e, s)
      | Inr expected \<Rightarrow>
          (case buildOcrEvidence (de_evidence E) (JObj projection) (JObj expected) of
             Inl m \<Rightarrow> (Error (new_Error m), s) | Inr ev \<Rightarrow> (Emit ev, s)))"

section \<open>Following a one-shot capture\<close>

definition sendCancellation ::
  "'w desktop_env \<Rightarrow> string \<Rightarrow> string \<Rightarrow> ('w desktop, DesktopCaptureOperation) obs" where
  "sendCancellation E d c s = de_cancel E c (set_active d (\<lambda>a. a\<lparr>ac_cancelSent := True\<rparr>) s)"

text \<open>The raw capture is written as soon as the job is structuring.\<close>

definition persistRawDuringExtraction ::
  "'w desktop_env \<Rightarrow> string \<Rightarrow> DesktopCaptureOperation \<Rightarrow> ('w desktop, DesktopCaptureOperation) obs" where
  "persistRawDuringExtraction E d j s =
     (if ac_rawPersisted (active_of d s) \<or> captureJobStage j \<noteq> ''structuring'' then (Emit j, s)
      else bind_obs (de_raw E (jb_captureId j)) (\<lambda>raw. case raw of
             None \<Rightarrow> return_obs j
           | Some r \<Rightarrow>
               bind_obs (updateCapture E ((new_update d ''processing'' (Some (captureJobStage j)))
                 \<lparr>up_captureId := Some (jb_captureId j), up_raw := Some r\<rparr>)) (\<lambda>_.
               bind_obs (modify_obs (\<lambda>s. reload E d (set_active d (\<lambda>a. a\<lparr>ac_rawPersisted := True\<rparr>) s))) (\<lambda>_.
               return_obs j))) s)"

text \<open>
  \<open>race(timer(700) ... getCapture, cancelWake ... sendCancellation)\<close>. A cancellation asked for
  while the timer runs, or while the job is being read, is sent at once; of two calls under way
  \<open>de_pollFirst\<close> says which answers first, and its answer is the one that counts.
\<close>

definition poll_or_cancel ::
  "'w desktop_env \<Rightarrow> string \<Rightarrow> string \<Rightarrow> ('w desktop, DesktopCaptureOperation) obs" where
  "poll_or_cancel E d c s =
     (let asked = (\<lambda>t. \<not> ac_cancelRequested (active_of d s) \<and> ac_cancelRequested (active_of d t));
          s1 = de_timer E 700 s
      in if asked s1
         then (let r = sendCancellation E d c s1 in if de_pollFirst E (snd r) then de_get E c (snd r) else r)
         else (let g = de_get E c s1
               in if asked (snd g)
                  then (let r = sendCancellation E d c (snd g)
                        in if de_pollFirst E (snd r) then (fst g, snd r) else r)
                  else g))"

definition advanceCapture ::
  "'w desktop_env \<Rightarrow> string \<Rightarrow> DesktopCaptureOperation \<Rightarrow> ('w desktop, DesktopCaptureOperation) obs" where
  "advanceCapture E d j =
     bind_obs (updateCapture E ((new_update d ''processing'' (Some (captureJobStage j)))
       \<lparr>up_captureId := Some (jb_captureId j)\<rparr>)) (\<lambda>_.
     bind_obs (\<lambda>s. if ac_cancelRequested (active_of d s) \<and> \<not> ac_cancelSent (active_of d s)
                   then sendCancellation E d (jb_captureId j) s else poll_or_cancel E d (jb_captureId j) s) (\<lambda>next.
     bind_obs (persistRawDuringExtraction E d next) (\<lambda>next.
     bind_obs (modify_obs (set_active d (\<lambda>a. a\<lparr>ac_lastStage := jb_stage next\<rparr>))) (\<lambda>_.
     return_obs next))))"

definition job_settled :: "DesktopCaptureOperation \<Rightarrow> bool" where
  "job_settled j = (\<not> isActiveJob j \<or> isOcrCheckpoint j)"

definition desktop_waitForTerminal ::
  "'w desktop_env \<Rightarrow> string \<Rightarrow> DesktopCaptureOperation \<Rightarrow> ('w desktop, DesktopCaptureOperation) run" where
  "desktop_waitForTerminal E d initial =
     bind_run (run_obs (bind_obs (persistRawDuringExtraction E d initial) (\<lambda>j.
       bind_obs (modify_obs (set_active d (\<lambda>a. a\<lparr>ac_lastStage := Some (captureJobStage j)\<rparr>))) (\<lambda>_.
       return_obs j))))
     (expand_until job_settled (advanceCapture E d))"

section \<open>Writing down a one-shot capture\<close>

definition expected_terminal :: "DesktopCaptureOperation \<Rightarrow> string" where
  "expected_terminal j = (if jb_status j = ''failed'' then ''failed'' else ''completed'')"

definition terminal_update :: "string \<Rightarrow> DesktopCaptureOperation \<Rightarrow> jobj option \<Rightarrow> string \<Rightarrow> LibraryCaptureUpdate" where
  "terminal_update d j evidence status =
     (new_update d status (Some (captureJobStage j)))\<lparr>up_captureId := Some (jb_captureId j), up_ocrEvidence := evidence\<rparr>"

definition ended_update :: "string \<Rightarrow> DesktopCaptureOperation \<Rightarrow> jobj option \<Rightarrow> LibraryCaptureUpdate" where
  "ended_update d j evidence =
     (terminal_update d j evidence (terminalLibraryStatus j))\<lparr>up_errorCode := failure_code (jb_error j),
       up_errorMessage := failure_message (jb_error j)\<rparr>"

definition raw_persisted :: "string \<Rightarrow> 'a \<Rightarrow> ('w desktop, 'a) obs" where
  "raw_persisted d x = bind_obs (modify_obs (set_active d (\<lambda>a. a\<lparr>ac_rawPersisted := True\<rparr>))) (\<lambda>_. return_obs x)"

definition unless_persisted :: "string \<Rightarrow> 'a option \<Rightarrow> 'w desktop \<Rightarrow> 'a option" where
  "unless_persisted d raw s = (if ac_rawPersisted (active_of d s) then None else raw)"

definition store_completed ::
  "'w desktop_env \<Rightarrow> string \<Rightarrow> DesktopCaptureOperation \<Rightarrow> jobj option \<Rightarrow> RawCapture \<Rightarrow> CaptureDocument
     \<Rightarrow> ('w desktop, LibraryDocumentSummary) obs" where
  "store_completed E d j evidence r result s =
     bind_obs (updateCapture E ((terminal_update d j evidence ''completed'')
       \<lparr>up_result := Some result, up_raw := unless_persisted d (Some r) s\<rparr>)) (raw_persisted d) s"

definition store_ended ::
  "'w desktop_env \<Rightarrow> string \<Rightarrow> DesktopCaptureOperation \<Rightarrow> jobj option \<Rightarrow> RawCapture option
     \<Rightarrow> ('w desktop, LibraryDocumentSummary) obs" where
  "store_ended E d j evidence raw s =
     bind_obs (updateCapture E ((ended_update d j evidence)\<lparr>up_raw := unless_persisted d raw s\<rparr>))
       (\<lambda>x. if raw = None then return_obs x else raw_persisted d x) s"

text \<open>The second part of \<open>persistTerminalData$\<close>, once there is evidence where it is needed.\<close>

definition persist_terminal_data ::
  "'w desktop_env \<Rightarrow> string \<Rightarrow> DesktopCaptureOperation \<Rightarrow> jobj option \<Rightarrow> ('w desktop, LibraryDocumentSummary) obs" where
  "persist_terminal_data E d j evidence s =
     (let c = jb_captureId j
      in if jb_status j = ''completed'' then
           (if ac_rawPersisted (active_of d s)
            then bind_obs (de_result E c) (\<lambda>result.
                   updateCapture E ((terminal_update d j evidence ''completed'')\<lparr>up_result := Some result\<rparr>)) s
            else bind_obs (de_raw E c) (\<lambda>raw. case raw of
                   None \<Rightarrow> throw_obs (new_Error (tx_missingRawResult (de_texts E)))
                 | Some r \<Rightarrow> bind_obs (de_result E c) (store_completed E d j evidence r)) s)
         else if jb_status j = ''failed'' \<or> jb_status j = ''cancelled'' then
           (if ac_rawPersisted (active_of d s) then updateCapture E (ended_update d j evidence) s
            else bind_obs (de_raw E c) (store_ended E d j evidence) s)
         else throw_obs (new_Error (''Capture Runtime returned unsupported terminal status: '' @ jb_status j)) s)"

text \<open>Completed and failed captures are written with evidence of what the OCR saw.\<close>

definition persistTerminalData ::
  "'w desktop_env \<Rightarrow> string \<Rightarrow> DesktopCaptureOperation \<Rightarrow> ('w desktop, LibraryDocumentSummary) obs" where
  "persistTerminalData E d j =
     (if jb_status j = ''completed'' \<or> jb_status j = ''failed'' then
        bind_obs (rememberSourceIdentity d j) (\<lambda>_.
        bind_obs (de_ocr E (jb_captureId j)) (\<lambda>projection.
        bind_obs (build_evidence E d j (expected_terminal j) projection) (\<lambda>evidence.
        persist_terminal_data E d j (Some evidence))))
      else persist_terminal_data E d j None)"

definition cleanupAfterCommit ::
  "'w desktop_env \<Rightarrow> string \<Rightarrow> DesktopCaptureOperation \<Rightarrow> ('w desktop, LibraryDocumentSummary) obs" where
  "cleanupAfterCommit E d j =
     (let base = (\<lambda>status. (new_update d status (Some (captureJobStage j)))
                    \<lparr>up_errorCode := failure_code (jb_error j), up_errorMessage := failure_message (jb_error j)\<rparr>)
      in catch_obs
           (bind_obs (de_delete E (jb_captureId j)) (\<lambda>_.
              updateCapture E ((base (terminalLibraryStatus j))\<lparr>up_clearCaptureId := True\<rparr>)))
           (\<lambda>e. updateCapture E ((base ''recovery_required'')\<lparr>up_captureId := Some (jb_captureId j),
                  up_recoveryCode := Some ''runtime_cleanup_failed'',
                  up_recoveryMessage := Some (desktop_errorMessage e)\<rparr>)))"

definition persistTerminal ::
  "'w desktop_env \<Rightarrow> string \<Rightarrow> DesktopCaptureOperation \<Rightarrow> ('w desktop, LibraryDocumentSummary) obs" where
  "persistTerminal E d j =
     bind_obs (updateCapture E ((new_update d ''persisting'' (Some (captureJobStage j)))
       \<lparr>up_captureId := Some (jb_captureId j)\<rparr>)) (\<lambda>_.
     bind_obs (persistTerminalData E d j) (\<lambda>_.
     bind_obs (modify_obs (set_active d (\<lambda>a. a\<lparr>ac_terminalCommitted := True,
       ac_terminalStatus := Some (terminalLibraryStatus j), ac_terminalErrorCode := failure_code (jb_error j),
       ac_terminalErrorMessage := failure_message (jb_error j)\<rparr>))) (\<lambda>_.
     cleanupAfterCommit E d j)))"

text \<open>\<open>settleOne$\<close>: a source that completes without a value is an error.\<close>

definition settleOne :: "('s, 'a) obs \<Rightarrow> ('s, 'a) obs" where
  "settleOne m s = (case m s of
       (Empty, s') \<Rightarrow> (Error (new_Error ''Capture lifecycle source completed without a value.''), s') | r \<Rightarrow> r)"

definition failed_page :: "json \<Rightarrow> bool" where
  "failed_page v = (case v of JObj r \<Rightarrow> fld r ''status'' = JStr ''failed'' | _ \<Rightarrow> False)"

definition checkpoint_complete :: "jobj \<Rightarrow> bool" where
  "checkpoint_complete p = (fld p ''status'' = JStr ''completed''
     \<and> \<not> list_ex failed_page (case fld p ''pages'' of JArr vs \<Rightarrow> vs | _ \<Rightarrow> []))"

text \<open>The raw capture and the evidence are written, and then the capture is given up.\<close>

definition commit_checkpoint ::
  "'w desktop_env \<Rightarrow> string \<Rightarrow> DesktopCaptureOperation \<Rightarrow> RawCapture \<Rightarrow> jobj \<Rightarrow> ('w desktop, unit) obs" where
  "commit_checkpoint E d j r projection =
     (if \<not> checkpoint_complete projection
      then throw_obs (new_Error ''Capture Runtime OCR checkpoint is not complete.'')
      else
        bind_obs (build_evidence E d j (str_of (fld projection ''status'')) projection) (\<lambda>evidence.
        bind_obs (settleOne (updateCapture E ((new_update d (str_of (fld evidence ''status'')) (Some (captureJobStage j)))
          \<lparr>up_captureId := Some (jb_captureId j), up_raw := Some r, up_ocrEvidence := Some evidence\<rparr>))) (\<lambda>_.
        modify_obs (\<lambda>s. reload E d (set_active d (\<lambda>a. a\<lparr>ac_terminalCommitted := True,
          ac_terminalStatus := Some ''awaiting_confirmation'', ac_lastStage := Some (captureJobStage j)\<rparr>) s)))))"

definition finish_checkpoint ::
  "'w desktop_env \<Rightarrow> string \<Rightarrow> DesktopCaptureOperation \<Rightarrow> ('w desktop, LibraryDocumentSummary) obs" where
  "finish_checkpoint E d j =
     bind_obs (settleOne (de_delete E (jb_captureId j))) (\<lambda>_.
     settleOne (updateCapture E ((new_update d ''awaiting_confirmation'' (Some (captureJobStage j)))
       \<lparr>up_clearCaptureId := True\<rparr>)))"

definition persistOcrCheckpoint ::
  "'w desktop_env \<Rightarrow> string \<Rightarrow> DesktopCaptureOperation \<Rightarrow> ('w desktop, LibraryDocumentSummary) obs" where
  "persistOcrCheckpoint E d j =
     bind_obs (settleOne (de_raw E (jb_captureId j))) (\<lambda>raw. case raw of
       None \<Rightarrow> throw_obs (new_Error ''Capture Runtime OCR checkpoint raw projection is unavailable.'')
     | Some r \<Rightarrow>
         bind_obs (settleOne (de_ocr E (jb_captureId j))) (\<lambda>projection.
         bind_obs (commit_checkpoint E d j r projection) (\<lambda>_. finish_checkpoint E d j)))"

definition persistOneShot ::
  "'w desktop_env \<Rightarrow> string \<Rightarrow> DesktopCaptureOperation \<Rightarrow> ('w desktop, LibraryDocumentSummary) obs" where
  "persistOneShot E d j = (if isOcrCheckpoint j then persistOcrCheckpoint E d j else persistTerminal E d j)"

definition captureOneShot ::
  "'w desktop_env \<Rightarrow> string \<Rightarrow> nat list option \<Rightarrow> ('w desktop, LibraryDocumentSummary) run" where
  "captureOneShot E d pages =
     bind_run (run_obs (\<lambda>s. bind_obs (de_create E d (de_uuid E s) pages) (\<lambda>j.
       bind_obs (modify_obs (set_active d (\<lambda>a. a\<lparr>ac_captureId := Some (jb_captureId j)\<rparr>))) (\<lambda>_.
       bind_obs (rememberSourceIdentity d j) (\<lambda>_.
       bind_obs (modify_obs (set_active d (\<lambda>a. a\<lparr>ac_lastStage := Some (captureJobStage j)\<rparr>))) (\<lambda>_.
       bind_obs (updateCapture E ((new_update d ''processing'' (Some (captureJobStage j)))
         \<lparr>up_captureId := Some (jb_captureId j)\<rparr>)) (\<lambda>_.
       bind_obs (modify_obs (reload E d)) (\<lambda>_. return_obs j)))))) s))
     (\<lambda>j. bind_run (desktop_waitForTerminal E d j) (\<lambda>j. run_obs (persistOneShot E d j)))"

section \<open>Streaming captures\<close>

definition applyStreamingEvent :: "string \<Rightarrow> SequencedEvent \<Rightarrow> 'w desktop \<Rightarrow> 'w desktop" where
  "applyStreamingEvent d e = set_active d (\<lambda>a. a\<lparr>ac_lastEventSequence := js_max (ac_lastEventSequence a) (ev_sequence e),
     ac_lastStage := Some (ev_stage e)\<rparr>)"

definition show_partial :: "string \<Rightarrow> PartialCapture option \<Rightarrow> 'w desktop \<Rightarrow> 'w desktop" where
  "show_partial d p s = (case p of None \<Rightarrow> s | Some x \<Rightarrow> s\<lparr>dk_partials := (dk_partials s)(d \<mapsto> x)\<rparr>)"

definition advanceStreaming ::
  "'w desktop_env \<Rightarrow> string \<Rightarrow> CaptureOperation \<Rightarrow> ('w desktop, CaptureOperation) obs" where
  "advanceStreaming E d x s =
     (let c = op_captureId x; a = active_of d s;
          rest = bind_obs (de_events E c (ac_lastEventSequence a)) (\<lambda>es.
                 bind_obs (modify_obs (fold (applyStreamingEvent d) es)) (\<lambda>_.
                 bind_obs (de_partial E c) (\<lambda>p.
                 bind_obs (modify_obs (show_partial d p)) (\<lambda>_. de_getStreaming E c))))
      in if \<not> ac_cancelRequested a \<or> ac_cancelSent a then rest s
         else bind_obs (de_cancelStreaming E c) (\<lambda>_. rest) (set_active d (\<lambda>a. a\<lparr>ac_cancelSent := True\<rparr>) s))"

definition waitForStreamingTerminal ::
  "'w desktop_env \<Rightarrow> string \<Rightarrow> CaptureOperation \<Rightarrow> ('w desktop, CaptureOperation) run" where
  "waitForStreamingTerminal E d initial =
     bind_run (run_obs (advanceStreaming E d initial))
       (expand_until (\<lambda>x. \<not> isActiveStreaming x) (\<lambda>x s. advanceStreaming E d x (de_timer E 500 s)))"

definition streaming_status :: "CaptureOperation \<Rightarrow> string" where
  "streaming_status x =
     (if op_status x = ''completed'' then ''completed''
      else if op_status x = ''cancelled'' then ''canceled'' else ''failed'')"

definition persistStreamingTerminal ::
  "'w desktop_env \<Rightarrow> string \<Rightarrow> CaptureOperation \<Rightarrow> ('w desktop, unit) obs" where
  "persistStreamingTerminal E d x =
     (let c = op_captureId x;
          base = (new_update d (streaming_status x) (Some (op_status x)))
                   \<lparr>up_errorCode := failure_code (op_error x), up_errorMessage := failure_message (op_error x)\<rparr>
      in bind_obs (modify_obs (set_active d (\<lambda>a. a\<lparr>ac_terminalStatus := Some (streaming_status x),
           ac_terminalErrorCode := failure_code (op_error x), ac_terminalErrorMessage := failure_message (op_error x)\<rparr>))) (\<lambda>_.
         bind_obs (if op_status x = ''completed''
                   then bind_obs (de_streamingResult E c) (\<lambda>t. return_obs (Some t)) else return_obs None) (\<lambda>t.
         bind_obs (updateCapture E (base\<lparr>up_captureId := Some c, up_raw := map_option sr_raw t,
           up_result := map_option sr_result t\<rparr>)) (\<lambda>_.
         bind_obs (modify_obs (\<lambda>s. reload E d (set_active d (\<lambda>a. a\<lparr>ac_terminalCommitted := True\<rparr>) s))) (\<lambda>_.
         bind_obs (de_deleteStreaming E c) (\<lambda>_.
         bind_obs (updateCapture E (base\<lparr>up_clearCaptureId := True\<rparr>)) (\<lambda>_.
         modify_obs (clearStreamingPartial d))))))))"

definition captureStreaming :: "'w desktop_env \<Rightarrow> string \<Rightarrow> ('w desktop, unit) run" where
  "captureStreaming E d =
     bind_run (run_obs (\<lambda>s. bind_obs (de_startStreaming E \<lparr>sq_documentId = d, sq_clientRequestId = de_uuid E s,
         sq_structuringMode = ''runtime'',
         sq_identifySpeakers = (de_identifySpeakers E s \<and> isFeatureReady (de_requirements E s) Asr_speakers)\<rparr>) (\<lambda>x.
       bind_obs (modify_obs (set_active d (\<lambda>a. a\<lparr>ac_captureId := Some (op_captureId x), ac_lastStage := Some (op_status x)\<rparr>))) (\<lambda>_.
       bind_obs (updateCapture E ((new_update d ''processing'' (Some (op_status x)))\<lparr>up_captureId := Some (op_captureId x)\<rparr>)) (\<lambda>_.
       bind_obs (modify_obs (reload E d)) (\<lambda>_. return_obs x)))) s))
     (\<lambda>x. bind_run (waitForStreamingTerminal E d x) (\<lambda>x. run_obs (persistStreamingTerminal E d x)))"

section \<open>The lifecycle\<close>

definition persistLifecycleFailure ::
  "'w desktop_env \<Rightarrow> string \<Rightarrow> thrown \<Rightarrow> ('w desktop, LibraryDocumentSummary) obs" where
  "persistLifecycleFailure E d e s =
     (let a = active_of d s
      in if nonempty_text (ac_captureId a) then
           (if ac_terminalCommitted a
            then updateCapture E ((new_update d ''recovery_required''
                   (Some (option_or (ac_lastStage a) (terminalStage (ac_terminalStatus a)))))
                   \<lparr>up_captureId := ac_captureId a, up_errorCode := ac_terminalErrorCode a,
                    up_errorMessage := ac_terminalErrorMessage a, up_recoveryCode := Some ''runtime_cleanup_failed'',
                    up_recoveryMessage := Some (desktop_errorMessage e)\<rparr>) s
            else updateCapture E ((new_update d ''recovery_required''
                   (Some (option_or (ac_lastStage a) ''recovery_required'')))
                   \<lparr>up_captureId := ac_captureId a,
                    up_recoveryCode := Some (if ac_cancelSent a then ''cancel_failed'' else ''capture_recovery_required''),
                    up_recoveryMessage := Some (desktop_errorMessage e)\<rparr>) s)
         else updateCapture E ((new_update d ''failed'' (Some ''failed''))
                \<lparr>up_clearCaptureId := True, up_errorCode := Some ''capture_failed'',
                 up_errorMessage := Some (desktop_errorMessage e)\<rparr>) s)"

definition release_capture :: "string \<Rightarrow> 'w desktop \<Rightarrow> 'w desktop" where
  "release_capture d s = markBusy d False (s\<lparr>dk_active := (dk_active s)(d := None)\<rparr>)"

definition settle_lifecycle :: "'w desktop_env \<Rightarrow> string \<Rightarrow> 'a outcome \<Rightarrow> ('w desktop, unit) obs" where
  "settle_lifecycle E d r =
     (case r of
        Emit _ \<Rightarrow> modify_obs (reload E d)
      | Empty \<Rightarrow> empty_obs
      | Error e \<Rightarrow>
          catch_obs (bind_obs (persistLifecycleFailure E d e) (\<lambda>_. modify_obs (reload E d)))
            (\<lambda>f. bind_obs (modify_obs (\<lambda>s. s\<lparr>dk_message := desktop_errorMessage f\<rparr>)) (\<lambda>_. empty_obs)))"

definition trackCaptureLifecycle ::
  "'w desktop_env \<Rightarrow> string \<Rightarrow> ('w desktop, 'a) run \<Rightarrow> ('w desktop, unit) run" where
  "trackCaptureLifecycle E d work s =
     map_option (\<lambda>(r, s1). let t = settle_lifecycle E d r s1 in (fst t, release_capture d (snd t))) (work s)"

definition activate :: "string \<Rightarrow> ActiveCapture \<Rightarrow> 'w desktop \<Rightarrow> 'w desktop" where
  "activate d a s = markBusy d True (s\<lparr>dk_active := (dk_active s)(d \<mapsto> a)\<rparr>)"

definition host_document :: "'w desktop_env \<Rightarrow> string \<Rightarrow> 'w desktop \<Rightarrow> LibraryDocumentSummary option" where
  "host_document E d s =
     (case List.find (\<lambda>x. sm_documentId x = d) (de_documents E s) of
        Some x \<Rightarrow> Some x
      | None \<Rightarrow> if map_option sm_documentId (de_selected E s) = Some d then de_selected E s else None)"

definition document_media :: "'w desktop_env \<Rightarrow> string \<Rightarrow> string option \<Rightarrow> 'w desktop \<Rightarrow> string" where
  "document_media E d mediaType s =
     (case mediaType of Some m \<Rightarrow> m
      | None \<Rightarrow> (case host_document E d s of Some x \<Rightarrow> sm_mediaType x | None \<Rightarrow> []))"

definition isAudioDocument :: "'w desktop_env \<Rightarrow> string \<Rightarrow> string option \<Rightarrow> 'w desktop \<Rightarrow> bool" where
  "isAudioDocument E d mediaType s = isAudioMediaType (document_media E d mediaType s)"

definition isPdfDocument :: "'w desktop_env \<Rightarrow> string \<Rightarrow> string option \<Rightarrow> 'w desktop \<Rightarrow> bool" where
  "isPdfDocument E d mediaType s = isPdfMediaType (document_media E d mediaType s)"

definition unit_run :: "('s, 'a) run \<Rightarrow> ('s, unit) run" where
  "unit_run m = bind_run m (\<lambda>_. run_obs (return_obs ()))"

definition captureExisting ::
  "'w desktop_env \<Rightarrow> string \<Rightarrow> string option \<Rightarrow> ('w desktop, unit) run" where
  "captureExisting E d mediaType s =
     (if \<not> de_ready E s \<or> hasActiveCapture d s then Some (Empty, s)
      else (let streaming = isAudioDocument E d mediaType s;
                s1 = activate d (new_active streaming (de_ocrCompute E s)) s;
                pages = (if isPdfDocument E d mediaType s1 then de_pdfPageNumbers E s1 else None)
            in trackCaptureLifecycle E d
                 (bind_run (run_obs (bind_obs (updateCapture E ((new_update d ''processing'' (Some ''uploading''))
                    \<lparr>up_clearCaptureId := True\<rparr>)) (\<lambda>_. modify_obs (reload E d))))
                  (\<lambda>_. if streaming then captureStreaming E d else unit_run (captureOneShot E d pages))) s1))"

definition retryRuntimeCleanup ::
  "'w desktop_env \<Rightarrow> LibraryDocumentSummary \<Rightarrow> ('w desktop, LibraryDocumentSummary) obs" where
  "retryRuntimeCleanup E x =
     (let d = sm_documentId x; c = option_or (sm_captureId x) [];
          base = (\<lambda>status. (new_update d status (sm_stage x))\<lparr>up_errorCode := sm_errorCode x, up_errorMessage := sm_errorMessage x\<rparr>)
      in if \<not> nonempty_text (sm_captureId x) then empty_obs
         else catch_obs
           (bind_obs (if isAudioMediaType (sm_mediaType x) then de_deleteStreaming E c else de_delete E c) (\<lambda>_.
              updateCapture E ((base (committedTerminalStatus x))\<lparr>up_clearCaptureId := True\<rparr>)))
           (\<lambda>e. updateCapture E ((base ''recovery_required'')\<lparr>up_captureId := Some c,
                  up_recoveryCode := Some ''runtime_cleanup_failed'', up_recoveryMessage := Some (desktop_errorMessage e)\<rparr>)))"

definition recovered_active :: "OcrComputePreflight option \<Rightarrow> LibraryDocumentSummary \<Rightarrow> ActiveCapture" where
  "recovered_active compute x =
     (let committed = hasCommittedTerminalData x
      in (new_active (isAudioMediaType (sm_mediaType x)) compute)
           \<lparr>ac_captureId := sm_captureId x, ac_lastStage := sm_stage x, ac_terminalCommitted := committed,
            ac_terminalStatus := (if committed then Some (committedTerminalStatus x) else None),
            ac_terminalErrorCode := (if committed then sm_errorCode x else None),
            ac_terminalErrorMessage := (if committed then sm_errorMessage x else None)\<rparr>)"

definition recoverCapture ::
  "'w desktop_env \<Rightarrow> LibraryDocumentSummary \<Rightarrow> ('w desktop, unit) run" where
  "recoverCapture E x s =
     (let d = sm_documentId x; c = option_or (sm_captureId x) []
      in if \<not> de_ready E s \<or> \<not> nonempty_text (sm_captureId x) \<or> hasActiveCapture d s then Some (Empty, s)
         else trackCaptureLifecycle E d
                (if hasCommittedTerminalData x then unit_run (run_obs (retryRuntimeCleanup E x))
                 else if isAudioMediaType (sm_mediaType x)
                 then bind_run (run_obs (bind_obs (de_getStreaming E c) (\<lambda>y.
                        bind_obs (modify_obs (set_active d (\<lambda>a. a\<lparr>ac_lastStage := Some (op_status y)\<rparr>))) (\<lambda>_. return_obs y))))
                      (\<lambda>y. bind_run (waitForStreamingTerminal E d y) (\<lambda>y. run_obs (persistStreamingTerminal E d y)))
                 else bind_run (run_obs (bind_obs (de_get E c) (\<lambda>j.
                        bind_obs (rememberSourceIdentity d j) (\<lambda>_.
                        bind_obs (modify_obs (set_active d (\<lambda>a. a\<lparr>ac_lastStage := Some (captureJobStage j)\<rparr>))) (\<lambda>_. return_obs j)))))
                      (\<lambda>j. bind_run (desktop_waitForTerminal E d j) (\<lambda>j. unit_run (run_obs (persistOneShot E d j)))))
                (activate d (recovered_active (de_ocrCompute E s) x) s))"

definition retry_capture :: "'w desktop_env \<Rightarrow> string \<Rightarrow> ('w desktop, unit) run" where
  "retry_capture E d s =
     (case host_document E d s of
        Some x \<Rightarrow> if nonempty_text (sm_captureId x) then recoverCapture E x s else captureExisting E d None s
      | None \<Rightarrow> captureExisting E d None s)"

text \<open>A new source is captured when the features it needs are installed, and else only imported.\<close>

definition request_unit :: "string \<Rightarrow> string \<Rightarrow> 'w desktop \<Rightarrow> 'w desktop" where
  "request_unit i message s = s\<lparr>dk_requested := insert i (dk_requested s), dk_message := message\<rparr>"

definition captureNewSource :: "'w desktop_env \<Rightarrow> string \<Rightarrow> 'w desktop \<Rightarrow> 'w desktop option" where
  "captureNewSource E path s =
     (case de_import E path s of
        (Error e, s1) \<Rightarrow> Some (s1\<lparr>dk_message := desktop_errorMessage e\<rparr>)
      | (Empty, s1) \<Rightarrow> Some s1
      | (Emit x, s1) \<Rightarrow>
          (let s2 = s1\<lparr>dk_selectedId := Some (sm_documentId x), dk_world := de_refresh E (dk_world s1)\<rparr>;
               rs = de_requirements E s2; audio = isAudioMediaType (sm_mediaType x)
           in if audio \<and> \<not> isFeatureReady rs Asr
              then Some (request_unit ''speech-recognition'' (tx_whisperNeeded (de_texts E)) s2)
              else if audio \<and> de_identifySpeakers E s2 \<and> \<not> isFeatureReady rs Asr_speakers
              then Some (request_unit ''speaker-diarization'' (tx_speakerUnitNeeded (de_texts E)) s2)
              else if \<not> audio \<and> selectFeatureMissing rs Ocr \<noteq> []
              then Some (request_unit ''windowsml-ocr'' (tx_needsSetup (de_texts E)) s2)
              else (case captureExisting E (sm_documentId x) (Some (sm_mediaType x)) s2 of
                      None \<Rightarrow> None
                    | Some (Error e, s3) \<Rightarrow> Some (s3\<lparr>dk_message := desktop_errorMessage e\<rparr>)
                    | Some (_, s3) \<Rightarrow> Some s3)))"

fun addSourcePaths :: "'w desktop_env \<Rightarrow> string list \<Rightarrow> 'w desktop \<Rightarrow> 'w desktop option" where
  "addSourcePaths E [] s = Some s"
| "addSourcePaths E (p # ps) s = Option.bind (captureNewSource E p s) (addSourcePaths E ps)"

end
