(* ===== verification/Desktop_Recovery.thy ===== *)
theory Desktop_Recovery
  imports Desktop_Lifecycle
begin

text \<open>
  How the lifecycle of a capture in the desktop application ends: triples over the calls and runs of
  \<open>Desktop_Lifecycle\<close>, what a pending call may change meanwhile, and the rule that a lifecycle
  leaves its document settled in the library and released by the service.
\<close>

section \<open>Triples\<close>

text \<open>A triple speaks of a call that answers: after \<open>P\<close>, a value leaves \<open>Q\<close> and an error leaves \<open>F\<close>.\<close>

definition triple :: "('s \<Rightarrow> bool) \<Rightarrow> ('s, 'a) obs \<Rightarrow> ('a \<Rightarrow> 's \<Rightarrow> bool) \<Rightarrow> ('s \<Rightarrow> bool) \<Rightarrow> bool" where
  "triple P m Q F \<longleftrightarrow>
     (\<forall>s. P s \<longrightarrow> (case m s of (Emit x, s') \<Rightarrow> Q x s' | (Error e, s') \<Rightarrow> F s' | (Empty, s') \<Rightarrow> False))"

definition run_triple :: "('s \<Rightarrow> bool) \<Rightarrow> ('s, 'a) run \<Rightarrow> ('a \<Rightarrow> 's \<Rightarrow> bool) \<Rightarrow> ('s \<Rightarrow> bool) \<Rightarrow> bool" where
  "run_triple P m Q F \<longleftrightarrow>
     (\<forall>s r s'. P s \<longrightarrow> m s = Some (r, s') \<longrightarrow> (case r of Emit x \<Rightarrow> Q x s' | Error e \<Rightarrow> F s' | Empty \<Rightarrow> False))"

named_theorems triple_rules \<open>rules for triples, one per way of composing calls\<close>

lemma triple_return [triple_rules]: "(\<And>s. P s \<Longrightarrow> Q x s) \<Longrightarrow> triple P (return_obs x) Q F"
  by (simp add: triple_def)

lemma triple_throw [triple_rules]: "(\<And>s. P s \<Longrightarrow> F s) \<Longrightarrow> triple P (throw_obs e) Q F"
  by (simp add: triple_def)

lemma triple_modify [triple_rules]: "(\<And>s. P s \<Longrightarrow> Q () (f s)) \<Longrightarrow> triple P (modify_obs f) Q F"
  by (simp add: triple_def)

lemma triple_bind: "triple P m R F \<Longrightarrow> (\<And>x. triple (R x) (f x) Q F) \<Longrightarrow> triple P (bind_obs m f) Q F"
  unfolding triple_def bind_obs_def by (fastforce split: prod.splits outcome.splits)

lemma triple_catch: "triple P m Q G \<Longrightarrow> (\<And>e. triple G (h e) Q F) \<Longrightarrow> triple P (catch_obs m h) Q F"
  unfolding triple_def catch_obs_def by (fastforce split: prod.splits outcome.splits)

lemma triple_settleOne [triple_rules]: "triple P m Q F \<Longrightarrow> triple P (settleOne m) Q F"
  unfolding triple_def settleOne_def by (fastforce split: prod.splits outcome.splits)

lemma triple_conseq:
  "triple P m Q F \<Longrightarrow> (\<And>s. P' s \<Longrightarrow> P s) \<Longrightarrow> (\<And>x s. Q x s \<Longrightarrow> Q' x s) \<Longrightarrow> (\<And>s. F s \<Longrightarrow> F' s) \<Longrightarrow> triple P' m Q' F'"
  unfolding triple_def by (fastforce split: prod.splits outcome.splits)

lemma triple_on_state: "(\<And>s. P s \<Longrightarrow> triple (\<lambda>t. t = s) (\<lambda>t. m s t) Q F) \<Longrightarrow> triple P (\<lambda>s. m s s) Q F"
  by (simp add: triple_def)

lemma run_triple_obs: "triple P m Q F \<Longrightarrow> run_triple P (run_obs m) Q F"
  unfolding triple_def run_triple_def run_obs_def by (fastforce split: prod.splits outcome.splits)

lemma run_triple_bind:
  assumes "run_triple P m R F" "\<And>x. run_triple (R x) (f x) Q F"
  shows "run_triple P (bind_run m f) Q F"
  unfolding run_triple_def bind_run_def
proof (intro allI impI)
  fix s r s'
  assume P: "P s" and run: "(case m s of None \<Rightarrow> None | Some (Emit x, s') \<Rightarrow> f x s'
    | Some (Empty, s') \<Rightarrow> Some (Empty, s') | Some (Error e, s') \<Rightarrow> Some (Error e, s')) = Some (r, s')"
  then obtain a s1 where m: "m s = Some (a, s1)" by (cases "m s") auto
  with assms(1) P have first: "case a of Emit x \<Rightarrow> R x s1 | Error e \<Rightarrow> F s1 | Empty \<Rightarrow> False"
    unfolding run_triple_def by blast
  show "case r of Emit x \<Rightarrow> Q x s' | Error e \<Rightarrow> F s' | Empty \<Rightarrow> False"
    using run m first assms(2) by (cases a) (auto simp: run_triple_def)
qed

lemma run_triple_weaken: "run_triple P m Q F \<Longrightarrow> (\<And>x s. Q x s \<Longrightarrow> Q' x s) \<Longrightarrow> run_triple P m Q' F"
  unfolding run_triple_def by (fastforce split: outcome.splits)

text \<open>Induction over the steps of a polling loop that returns.\<close>

lemma expand_induct [consumes 1, case_names finished stopped again]:
  assumes ret: "expand_until fin step x s = Some p"
    and finished: "\<And>x s. fin x \<Longrightarrow> P x s (Emit x, s)"
    and stopped: "\<And>x s r s'. \<not> fin x \<Longrightarrow> step x s = (r, s') \<Longrightarrow> (\<forall>y. r \<noteq> Emit y) \<Longrightarrow> P x s (r, s')"
    and again: "\<And>x s y s' p. \<not> fin x \<Longrightarrow> step x s = (Emit y, s') \<Longrightarrow> P y s' p \<Longrightarrow> P x s p"
  shows "P x s (p :: 'a outcome \<times> 's)"
proof -
  define Q where "Q = (\<lambda>fin' step' x s p. fin' = fin \<and> step' = step \<longrightarrow> P x s p)"
  have "Q fin step x s p"
  proof (rule expand_until.raw_induct[where P = Q and xa = "(((fin, step), x), s)" and y = p, unfolded prod.case])
    fix f fin' x s p and step' :: "'a \<Rightarrow> ('s, 'a) obs"
    assume IH: "\<And>fin step x s r. f fin step x s = Some r \<Longrightarrow> Q fin step x s r"
      and one: "(if fin' x then Some (Emit x, s)
        else case step' x s of (r, s1) \<Rightarrow> (case r of Emit y \<Rightarrow> f fin' step' y s1
           | Empty \<Rightarrow> Some (Empty, s1) | Error e \<Rightarrow> Some (Error e, s1))) = Some p"
    obtain o' s2 where st: "step' x s = (o', s2)" by fastforce
    show "Q fin' step' x s p"
      unfolding Q_def
    proof (intro impI)
      assume "fin' = fin \<and> step' = step"
      then show "P x s p"
        using one st finished[of x s] stopped[of x s o' s2] again[of x s _ s2 p] IH[of fin step _ s2 p]
        by (cases o') (auto simp: Q_def split: if_splits)
    qed
  qed (rule ret)
  then show ?thesis by (simp add: Q_def)
qed

lemma run_triple_expand:
  assumes "\<And>x. triple (I x) (step x) I F"
  shows "run_triple (I x) (expand_until fin step x) (\<lambda>x s. I x s \<and> fin x) F"
  unfolding run_triple_def
proof (intro allI impI)
  fix s r s'
  assume "I x s" and run: "expand_until fin step x s = Some (r, s')"
  have "I x s \<longrightarrow> (case fst (r, s') of Emit y \<Rightarrow> I y (snd (r, s')) \<and> fin y | Error e \<Rightarrow> F (snd (r, s')) | Empty \<Rightarrow> False)"
    using run
  proof (induction rule: expand_induct)
    case (stopped x s r s')
    then show ?case using assms[of x] by (cases r) (auto simp: triple_def)
  next
    case (again x s y s' p)
    then show ?case using assms[of x] by (fastforce simp: triple_def split: prod.splits)
  qed auto
  with \<open>I x s\<close> show "case r of Emit x \<Rightarrow> I x s' \<and> fin x | Error e \<Rightarrow> F s' | Empty \<Rightarrow> False"
    by (cases r) auto
qed

lemma new_update_simps [simp]:
  "up_documentId (new_update d st g) = d" "up_captureId (new_update d st g) = None"
  "\<not> up_clearCaptureId (new_update d st g)" "up_status (new_update d st g) = st"
  "up_raw (new_update d st g) = None" "up_result (new_update d st g) = None"
  "up_ocrEvidence (new_update d st g) = None"
  by (simp_all add: new_update_def)

section \<open>What a call may do meanwhile\<close>

abbreviation stored :: "string \<Rightarrow> 'w desktop \<Rightarrow> StoredDocument option" where
  "stored d s \<equiv> find_stored d (lb_documents (dk_library s))"

text \<open>While a call is pending the user may ask for a cancellation and other documents may be
  captured, but the document itself stays in the library as it is and stays active.\<close>

definition untouched :: "string \<Rightarrow> 'w desktop \<Rightarrow> 'w desktop \<Rightarrow> bool" where
  "untouched d s s' \<longleftrightarrow> (dk_active s d \<noteq> None \<longrightarrow> dk_active s' d \<noteq> None) \<and> stored d s' = stored d s
     \<and> lb_raw (dk_library s') d = lb_raw (dk_library s) d \<and> lb_result (dk_library s') d = lb_result (dk_library s) d"

interpretation untouched: state_effect "untouched d" for d
  by unfold_locales (auto simp: untouched_def)

definition calm :: "string \<Rightarrow> ('w desktop, 'a) obs \<Rightarrow> bool" where
  "calm d m \<longleftrightarrow> preserves (untouched d) m \<and> (\<forall>s. fst (m s) \<noteq> Empty)"

definition env_calm :: "'w desktop_env \<Rightarrow> string \<Rightarrow> bool" where
  "env_calm E d \<longleftrightarrow>
     (\<forall>i u p. calm d (de_create E i u p)) \<and> (\<forall>c. calm d (de_get E c)) \<and> (\<forall>c. calm d (de_cancel E c))
     \<and> (\<forall>c. calm d (de_raw E c)) \<and> (\<forall>c. calm d (de_ocr E c)) \<and> (\<forall>c. calm d (de_result E c))
     \<and> (\<forall>c. calm d (de_delete E c)) \<and> (\<forall>q. calm d (de_startStreaming E q)) \<and> (\<forall>c. calm d (de_getStreaming E c))
     \<and> (\<forall>c q. calm d (de_events E c q)) \<and> (\<forall>c. calm d (de_partial E c)) \<and> (\<forall>c. calm d (de_streamingResult E c))
     \<and> (\<forall>c. calm d (de_cancelStreaming E c)) \<and> (\<forall>c. calm d (de_deleteStreaming E c))
     \<and> (\<forall>n s. untouched d s (de_timer E n s)) \<and> (\<forall>s. host_works (de_libraryHost E s))"

definition present :: "string \<Rightarrow> 'w desktop \<Rightarrow> bool" where
  "present d s \<longleftrightarrow> dk_active s d \<noteq> None \<and> stored d s \<noteq> None \<and> validate_document_id d = Inr ()"

text \<open>\<open>J\<close> says something about the stored result of the document.\<close>

definition result_is :: "(CaptureDocument option \<Rightarrow> bool) \<Rightarrow> string \<Rightarrow> 'w desktop \<Rightarrow> bool" where
  "result_is J d s \<longleftrightarrow> present d s \<and> J (lb_result (dk_library s) d)"

lemma triple_calm:
  fixes m :: "('w desktop, 'a) obs"
  shows "calm d m \<Longrightarrow> triple (result_is J d) m (\<lambda>_. result_is J d) (present d)"
  unfolding triple_def
proof (intro allI impI)
  fix s :: "'w desktop"
  assume m: "calm d m" and P: "result_is J d s"
  obtain r s' where r: "m s = (r, s')" by fastforce
  have "untouched d s s'" "r \<noteq> Empty" using m r by (auto simp: calm_def preserves_def dest: spec[of _ s])
  then show "case m s of (Emit x, s') \<Rightarrow> result_is J d s' | (Empty, s') \<Rightarrow> False | (Error e, s') \<Rightarrow> present d s'"
    using r P by (cases r) (auto simp: result_is_def untouched_def present_def)
qed

lemma present_updates [simp]:
  "present d (set_active d' f s) = present d s" "present d (reload E d' s) = present d s"
  "present d (clearStreamingPartial d' s) = present d s" "present d (show_partial d' q s) = present d s"
  "dk_library (set_active d' f s) = dk_library s" "dk_library (reload E d' s) = dk_library s"
  "dk_library (clearStreamingPartial d' s) = dk_library s" "dk_library (show_partial d' q s) = dk_library s"
  by (auto simp: present_def set_active_def reload_def clearStreamingPartial_def show_partial_def split: option.splits)

lemma streaming_events_updates [simp]:
  "present d (fold (applyStreamingEvent d') es s) = present d s"
  "dk_library (fold (applyStreamingEvent d') es s) = dk_library s"
  by (induction es arbitrary: s) (simp_all add: applyStreamingEvent_def)

text \<open>An update of the library: what the document is after it.\<close>

definition updated_by :: "LibraryCaptureUpdate \<Rightarrow> 'w desktop \<Rightarrow> bool" where
  "updated_by u s \<longleftrightarrow> (\<exists>x. stored (up_documentId u) s = Some x \<and> sm_status x = up_status u
     \<and> sm_stage x = up_stage u \<and> sm_recoveryCode x = up_recoveryCode u
     \<and> (up_clearCaptureId u \<longrightarrow> sm_captureId x = None)
     \<and> (up_captureId u \<noteq> None \<longrightarrow> sm_captureId x = up_captureId u)
     \<and> (up_ocrEvidence u \<noteq> None \<longrightarrow> sd_ocrEvidence x \<noteq> None))"

lemma store_evidence_present: "store_evidence h u x = Inr y \<Longrightarrow> up_ocrEvidence u \<noteq> None \<Longrightarrow> sd_ocrEvidence y \<noteq> None"
  by (auto simp: store_evidence_def res_simps split: option.splits)

lemma updateCapture_Emit:
  assumes "updateCapture E u s = (Emit x, s')"
  shows "updated_by u s'"
    "lb_result (dk_library s') (up_documentId u) =
       (if up_result u = None then lb_result (dk_library s) (up_documentId u) else up_result u)"
    "lb_raw (dk_library s') (up_documentId u) =
       (if up_raw u = None then lb_raw (dk_library s) (up_documentId u) else up_raw u)"
    "dk_active s' = dk_active s" "dk_world s' = dk_world s" "present d s \<Longrightarrow> present d s'"
proof -
  obtain sm lib where up: "update_capture (de_libraryHost E s) u (dk_library s) = Inr (sm, lib)"
    "s' = s\<lparr>dk_library := lib\<rparr>"
    using assms by (auto simp: updateCapture_def split: sum.splits)
  obtain y z now where fs: "find_stored (up_documentId u) (lb_documents (dk_library s)) = Some y"
    "store_evidence (de_libraryHost E s) u y = Inr z" "lh_now (de_libraryHost E s) = Inr now"
    "\<not> (up_clearCaptureId u \<and> up_captureId u \<noteq> None)"
    "sm = LibraryDocumentSummary.truncate (updated_document now u z)"
    "\<forall>d. find_stored d (lb_documents lib) =
       (if d = up_documentId u then Some (updated_document now u z) else find_stored d (lb_documents (dk_library s)))"
    "lb_raw lib = (case up_raw u of None \<Rightarrow> lb_raw (dk_library s) | Some r \<Rightarrow> (lb_raw (dk_library s))(up_documentId u \<mapsto> r))"
    "lb_result lib = (case up_result u of None \<Rightarrow> lb_result (dk_library s) | Some r \<Rightarrow> (lb_result (dk_library s))(up_documentId u \<mapsto> r))"
    by (rule update_capture_ok[OF up(1)])
  show "updated_by u s'"
    unfolding updated_by_def using up(2) fs(4,6) store_evidence_present[OF fs(2)]
    by (auto simp: updated_document_def)
  show "lb_result (dk_library s') (up_documentId u) =
       (if up_result u = None then lb_result (dk_library s) (up_documentId u) else up_result u)"
    "lb_raw (dk_library s') (up_documentId u) =
       (if up_raw u = None then lb_raw (dk_library s) (up_documentId u) else up_raw u)"
    using up(2) fs(7,8) by (auto split: option.splits)
  show "dk_active s' = dk_active s" "dk_world s' = dk_world s" using up(2) by simp_all
  show "present d s \<Longrightarrow> present d s'" using up(2) fs(6) by (auto simp: present_def)
qed

lemma updateCapture_Error: "updateCapture E u s = (Error e, s') \<Longrightarrow> s' = s"
  by (auto simp: updateCapture_def split: sum.splits)

lemma updateCapture_answers: "fst (updateCapture E u s) \<noteq> Empty"
  by (auto simp: updateCapture_def split: sum.splits)

lemma triple_update:
  fixes E :: "'w desktop_env"
  assumes "up_documentId u = d"
  shows "triple (\<lambda>s. present d s \<and> (up_result u = None \<longrightarrow> J (lb_result (dk_library s) d))) (updateCapture E u)
    (\<lambda>_ s. present d s \<and> updated_by u s \<and> (if up_result u = None then J (lb_result (dk_library s) d)
       else lb_result (dk_library s) d = up_result u)) (present d)"
  unfolding triple_def
proof (intro allI impI)
  fix s :: "'w desktop"
  assume P: "present d s \<and> (up_result u = None \<longrightarrow> J (lb_result (dk_library s) d))"
  obtain r s' where r: "updateCapture E u s = (r, s')" by fastforce
  show "case updateCapture E u s of
      (Emit x, s') \<Rightarrow> present d s' \<and> updated_by u s' \<and> (if up_result u = None then J (lb_result (dk_library s') d)
         else lb_result (dk_library s') d = up_result u)
    | (Empty, s') \<Rightarrow> False | (Error e, s') \<Rightarrow> present d s'"
    using r P assms updateCapture_Emit[of E u s _ s'] updateCapture_Error[of E u s _ s'] updateCapture_answers[of E u s]
    by (cases r) auto
qed

text \<open>An update that writes no evidence cannot fail when the system helps.\<close>

lemma update_succeeds:
  assumes "env_calm E d" "present d s" "up_documentId u = d" "up_ocrEvidence u = None"
    and "up_status u \<in> set LIBRARY_STATUSES" "\<not> (up_clearCaptureId u \<and> up_captureId u \<noteq> None)"
  shows "\<exists>x s'. updateCapture E u s = (Emit x, s')"
  using update_capture_succeeds[of "de_libraryHost E s" u "dk_library s"] assms
  by (auto simp: updateCapture_def env_calm_def present_def)

section \<open>Steady parts of a lifecycle\<close>

text \<open>Most parts of a lifecycle keep the document present and its stored result as it is.\<close>

definition steady :: "string \<Rightarrow> (CaptureDocument option \<Rightarrow> bool) \<Rightarrow> ('w desktop, 'a) obs \<Rightarrow> bool" where
  "steady d J m \<longleftrightarrow> (\<forall>s. result_is J d s \<longrightarrow> result_is J d (snd (m s)) \<and> fst (m s) \<noteq> Empty)"

named_theorems steady_intros \<open>parts that keep the document present and its result\<close>

lemma steady_bind [steady_intros]:
  fixes m :: "('w desktop, 'a) obs"
  assumes "steady d J m" "\<And>x. steady d J (f x)"
  shows "steady d J (bind_obs m f)"
  unfolding steady_def
proof (intro allI impI)
  fix s :: "'w desktop"
  assume s: "result_is J d s"
  obtain r s1 where m: "m s = (r, s1)" by fastforce
  from assms(1) s have "result_is J d (snd (m s)) \<and> fst (m s) \<noteq> Empty" unfolding steady_def by blast
  with m have "result_is J d s1" "r \<noteq> Empty" by simp_all
  then show "result_is J d (snd (bind_obs m f s)) \<and> fst (bind_obs m f s) \<noteq> Empty"
    using assms(2) m by (cases r) (auto simp: bind_obs_def steady_def)
qed

lemma steady_basic [steady_intros]: "steady d J (return_obs x)" "steady d J (throw_obs e)"
  by (simp_all add: steady_def)

lemma steady_modify [steady_intros]:
  "(\<And>s. present d s \<Longrightarrow> present d (f s)) \<Longrightarrow> (\<And>s. dk_library (f s) = dk_library s) \<Longrightarrow> steady d J (modify_obs f)"
  by (simp add: steady_def result_is_def)

lemma steady_calm: "calm d m \<Longrightarrow> steady d J m"
  by (auto simp: steady_def result_is_def calm_def preserves_def untouched_def present_def)

lemma steady_update [steady_intros]:
  fixes E :: "'w desktop_env"
  assumes "up_documentId u = d" "up_result u = None"
  shows "steady d J (updateCapture E u)"
  unfolding steady_def
proof (intro allI impI)
  fix s :: "'w desktop"
  assume s: "result_is J d s"
  obtain r s1 where r: "updateCapture E u s = (r, s1)" by fastforce
  show "result_is J d (snd (updateCapture E u s)) \<and> fst (updateCapture E u s) \<noteq> Empty"
    using r s assms updateCapture_Emit[of E u s _ s1] updateCapture_Error[of E u s _ s1] updateCapture_answers[of E u s]
    by (cases r) (auto simp: result_is_def)
qed

lemma steady_if [steady_intros]: "steady d J m \<Longrightarrow> steady d J m' \<Longrightarrow> steady d J (if b then m else m')"
  by simp

lemma steady_if_state [steady_intros]:
  "steady d J m \<Longrightarrow> steady d J m' \<Longrightarrow> steady d J (\<lambda>s. if b s then m s else m' s)"
  by (simp add: steady_def)

lemma steady_state: "(\<And>t. steady d J (m t)) \<Longrightarrow> steady d J (\<lambda>s. m s s)"
  by (simp add: steady_def)

lemma steady_before: "steady d J m \<Longrightarrow> (\<And>s. result_is J d s \<Longrightarrow> result_is J d (f s)) \<Longrightarrow> steady d J (\<lambda>s. m (f s))"
  by (simp add: steady_def)

lemma steady_settleOne [steady_intros]: "steady d J m \<Longrightarrow> steady d J (settleOne m)"
  unfolding steady_def settleOne_def by (fastforce split: prod.splits outcome.splits)

lemma steady_triple: "steady d J m \<Longrightarrow> triple (result_is J d) m (\<lambda>_. result_is J d) (present d)"
  unfolding steady_def triple_def by (fastforce simp: result_is_def split: prod.splits outcome.splits)

lemma steadyD:
  assumes "steady d J m" "result_is J d s"
  shows "result_is J d (snd (m s))" "fst (m s) \<noteq> Empty"
  using assms by (auto simp: steady_def)

lemma env_calms:
  assumes "env_calm E d"
  shows "steady d J (de_create E i u p)" "steady d J (de_get E c)" "steady d J (de_cancel E c)"
    "steady d J (de_raw E c)" "steady d J (de_ocr E c)" "steady d J (de_result E c)" "steady d J (de_delete E c)"
    "steady d J (de_startStreaming E q)" "steady d J (de_getStreaming E c)" "steady d J (de_events E c n)"
    "steady d J (de_partial E c)" "steady d J (de_streamingResult E c)" "steady d J (de_cancelStreaming E c)"
    "steady d J (de_deleteStreaming E c)"
  using assms by (auto simp: env_calm_def intro!: steady_calm)

lemma timer_keeps: "env_calm E d \<Longrightarrow> result_is J d s \<Longrightarrow> result_is J d (de_timer E n s)"
  by (auto simp: result_is_def env_calm_def untouched_def present_def)

lemma steady_sendCancellation:
  assumes "env_calm E d"
  shows "steady d J (sendCancellation E d c)"
proof -
  have "sendCancellation E d c = (\<lambda>s. de_cancel E c (set_active d (\<lambda>a. a\<lparr>ac_cancelSent := True\<rparr>) s))"
    by (simp add: sendCancellation_def fun_eq_iff)
  moreover have "steady d J (\<lambda>s. de_cancel E c (set_active d (\<lambda>a. a\<lparr>ac_cancelSent := True\<rparr>) s))"
    by (rule steady_before[OF env_calms(3)[OF assms]]) (simp add: result_is_def)
  ultimately show ?thesis by simp
qed

lemma steady_raw:
  assumes "env_calm E d"
  shows "steady d J (persistRawDuringExtraction E d j)"
proof -
  have "persistRawDuringExtraction E d j = (\<lambda>s. if ac_rawPersisted (active_of d s) \<or> captureJobStage j \<noteq> ''structuring''
    then return_obs j s else bind_obs (de_raw E (jb_captureId j)) (\<lambda>raw. case raw of
             None \<Rightarrow> return_obs j
           | Some r \<Rightarrow>
               bind_obs (updateCapture E ((new_update d ''processing'' (Some (captureJobStage j)))
                 \<lparr>up_captureId := Some (jb_captureId j), up_raw := Some r\<rparr>)) (\<lambda>_.
               bind_obs (modify_obs (\<lambda>s. reload E d (set_active d (\<lambda>a. a\<lparr>ac_rawPersisted := True\<rparr>) s))) (\<lambda>_.
               return_obs j))) s)"
    by (simp add: persistRawDuringExtraction_def fun_eq_iff)
  then show ?thesis
    by (auto intro!: steady_intros env_calms assms split: option.splits)
qed

lemma steady_poll:
  fixes E :: "'w desktop_env"
  assumes "env_calm E d"
  shows "steady d J (poll_or_cancel E d c)"
  unfolding steady_def
proof (intro allI impI)
  fix s :: "'w desktop"
  assume s: "result_is J d s"
  note get = steadyD[OF env_calms(2)[OF assms]] and send = steadyD[OF steady_sendCancellation[OF assms]]
  define s1 where "s1 = de_timer E 700 s"
  have s1: "result_is J d s1" using timer_keeps[OF assms s] by (simp add: s1_def)
  show "result_is J d (snd (poll_or_cancel E d c s)) \<and> fst (poll_or_cancel E d c s) \<noteq> Empty"
    unfolding poll_or_cancel_def Let_def s1_def[symmetric]
    using s1 get[OF s1] send[OF s1] send[OF get(1)[OF s1]] get[OF send(1)[OF s1]] by auto
qed

lemma steady_advance:
  assumes "env_calm E d"
  shows "steady d J (advanceCapture E d j)"
  unfolding advanceCapture_def
  by (auto intro!: steady_intros steady_sendCancellation steady_poll steady_raw assms)

lemma steady_remember: "steady d J (rememberSourceIdentity d j)"
  by (auto simp: steady_def result_is_def rememberSourceIdentity_def split: option.splits)

lemma steady_evidence: "steady d J (build_evidence E d j t p)"
  by (auto simp: steady_def build_evidence_def split: sum.splits)

lemma steady_streaming:
  assumes "env_calm E d"
  shows "steady d J (advanceStreaming E d x)"
proof -
  define rest where "rest = (\<lambda>q. bind_obs (de_events E (op_captureId x) q) (\<lambda>es.
                 bind_obs (modify_obs (fold (applyStreamingEvent d) es)) (\<lambda>_.
                 bind_obs (de_partial E (op_captureId x)) (\<lambda>p.
                 bind_obs (modify_obs (show_partial d p)) (\<lambda>_. de_getStreaming E (op_captureId x))))))"
  have "steady d J (rest q)" for q
    unfolding rest_def by (auto intro!: steady_intros env_calms assms)
  then have "steady d J (bind_obs (de_cancelStreaming E (op_captureId x)) (\<lambda>_. rest q))" "steady d J (rest q)" for q
    by (auto intro!: steady_intros env_calms assms)
  note parts = this
  have eq: "advanceStreaming E d x s = (if \<not> ac_cancelRequested (active_of d s) \<or> ac_cancelSent (active_of d s)
      then rest (ac_lastEventSequence (active_of d s)) s
      else bind_obs (de_cancelStreaming E (op_captureId x)) (\<lambda>_. rest (ac_lastEventSequence (active_of d s)))
        (set_active d (\<lambda>a. a\<lparr>ac_cancelSent := True\<rparr>) s))" for s
    by (simp add: advanceStreaming_def rest_def Let_def)
  show ?thesis
    unfolding steady_def eq using steadyD[OF parts(1)] steadyD[OF parts(2)] by (simp add: result_is_def)
qed

definition run_steady :: "string \<Rightarrow> (CaptureDocument option \<Rightarrow> bool) \<Rightarrow> ('w desktop, 'a) run \<Rightarrow> bool" where
  "run_steady d J m \<longleftrightarrow> run_triple (result_is J d) m (\<lambda>_. result_is J d) (present d)"

lemma run_steady_intros:
  "steady d J m \<Longrightarrow> run_steady d J (run_obs m)"
  "run_steady d J n \<Longrightarrow> (\<And>x. run_steady d J (f x)) \<Longrightarrow> run_steady d J (bind_run n f)"
  "(\<And>x. steady d J (step x)) \<Longrightarrow> run_steady d J (expand_until fin step x)"
  unfolding run_steady_def
  by (auto intro!: run_triple_obs steady_triple run_triple_bind)
    (rule run_triple_expand[where I = "\<lambda>_. result_is J d", THEN run_triple_weaken], auto intro!: steady_triple)

section \<open>How a lifecycle ends\<close>

text \<open>A document at rest: it has ended and owns no capture of the runtime, or it can be recovered
  from the capture it still owns.\<close>

definition rests :: "StoredDocument \<Rightarrow> bool" where
  "rests x \<longleftrightarrow>
     sm_captureId x = None \<and> sm_status x \<in> {''completed'', ''failed'', ''canceled'', ''awaiting_confirmation''}
     \<or> sm_captureId x \<noteq> None \<and> sm_status x = ''recovery_required''"

text \<open>A result the runtime returned.\<close>

definition from_runtime :: "'w desktop_env \<Rightarrow> CaptureDocument \<Rightarrow> bool" where
  "from_runtime E r \<longleftrightarrow> (\<exists>c t t'. de_result E c t = (Emit r, t'))
     \<or> (\<exists>c t t' v. de_streamingResult E c t = (Emit v, t') \<and> r = sr_result v)"

definition delivered :: "'w desktop_env \<Rightarrow> bool \<Rightarrow> CaptureDocument option \<Rightarrow> bool" where
  "delivered E completed res \<longleftrightarrow> (completed \<longrightarrow> (\<exists>r. res = Some r \<and> from_runtime E r))"

definition settled :: "'w desktop_env \<Rightarrow> string \<Rightarrow> 'w desktop \<Rightarrow> bool" where
  "settled E d s \<longleftrightarrow> (\<exists>x. stored d s = Some x \<and> rests x
     \<and> delivered E (sm_status x = ''completed'') (lb_result (dk_library s) d))"

abbreviation any_result :: "CaptureDocument option \<Rightarrow> bool" where
  "any_result \<equiv> (\<lambda>_. True)"

lemma any_result_present: "result_is any_result d s = present d s"
  by (simp add: result_is_def)

lemma settled_cleared:
  assumes "updated_by u s" "up_documentId u = d" "up_clearCaptureId u"
    and "up_status u \<in> {''completed'', ''failed'', ''canceled'', ''awaiting_confirmation''}"
    and "delivered E (up_status u = ''completed'') (lb_result (dk_library s) d)"
  shows "settled E d s"
  using assms by (auto simp: updated_by_def settled_def rests_def)

lemma settled_recoverable:
  "updated_by u s \<Longrightarrow> up_documentId u = d \<Longrightarrow> up_captureId u \<noteq> None \<Longrightarrow> up_status u = ''recovery_required'' \<Longrightarrow> settled E d s"
  by (auto simp: updated_by_def settled_def rests_def delivered_def)

text \<open>The last update of a lifecycle.\<close>

lemma triple_final_update:
  fixes E :: "'w desktop_env"
  assumes "up_documentId u = d" "up_result u = None"
    and "\<And>s :: 'w desktop. updated_by u s \<Longrightarrow> J (lb_result (dk_library s) d) \<Longrightarrow> settled E d s"
  shows "triple (result_is J d) (updateCapture E u) (\<lambda>_. settled E d) (present d)"
  using triple_update[OF assms(1), of J E]
  by (rule triple_conseq) (use assms(2,3) in \<open>auto simp: result_is_def\<close>)

lemma triple_result:
  fixes E :: "'w desktop_env"
  assumes "up_documentId u = d" "up_result u = Some r" "from_runtime E r"
  shows "triple (present d) (updateCapture E u) (\<lambda>_. result_is (delivered E b) d) (present d)"
  using triple_update[OF assms(1), of any_result E]
  by (rule triple_conseq) (use assms(2,3) in \<open>auto simp: result_is_def delivered_def\<close>)

lemma triple_value:
  fixes m :: "('w desktop, 'a) obs"
  assumes "calm d m" "\<And>x t t'. m t = (Emit x, t') \<Longrightarrow> V x"
  shows "triple (present d) m (\<lambda>x s. present d s \<and> V x) (present d)"
  unfolding triple_def
proof (intro allI impI)
  fix s :: "'w desktop"
  assume "present d s"
  then have "present d (snd (m s)) \<and> fst (m s) \<noteq> Empty"
    using steadyD[OF steady_calm[OF assms(1)], of any_result s] by (simp add: any_result_present)
  then show "case m s of (Emit x, s') \<Rightarrow> present d s' \<and> V x | (Empty, s') \<Rightarrow> False | (Error e, s') \<Rightarrow> present d s'"
    using assms(2)[of s] by (auto split: prod.splits outcome.splits)
qed

lemma triple_any: "steady d any_result m \<Longrightarrow> triple (present d) m (\<lambda>_. present d) (present d)"
  using steady_triple[of d any_result m] by (simp add: any_result_present[abs_def] eta_contract_eq)

lemma triple_if_state:
  "triple P m Q F \<Longrightarrow> triple P m' Q F \<Longrightarrow> triple P (\<lambda>s. if b s then m s else m' s) Q F"
  by (simp add: triple_def)

lemma triple_of_state: "(\<And>t. triple P (m t) Q F) \<Longrightarrow> triple P (\<lambda>s. m s s) Q F"
  by (simp add: triple_def)

lemma triple_then_steady:
  "triple P m (\<lambda>_. result_is J d) (present d) \<Longrightarrow> (\<And>x. steady d J (f x))
     \<Longrightarrow> triple P (bind_obs m f) (\<lambda>_. result_is J d) (present d)"
  by (rule triple_bind) (auto intro: steady_triple)

lemma terminal_update_simps [simp]:
  "up_documentId (terminal_update d j ev st) = d" "up_captureId (terminal_update d j ev st) = Some (jb_captureId j)"
  "\<not> up_clearCaptureId (terminal_update d j ev st)" "up_status (terminal_update d j ev st) = st"
  "up_raw (terminal_update d j ev st) = None" "up_result (terminal_update d j ev st) = None"
  "up_ocrEvidence (terminal_update d j ev st) = ev"
  "up_documentId (ended_update d j ev) = d" "up_captureId (ended_update d j ev) = Some (jb_captureId j)"
  "\<not> up_clearCaptureId (ended_update d j ev)" "up_status (ended_update d j ev) = terminalLibraryStatus j"
  "up_raw (ended_update d j ev) = None" "up_result (ended_update d j ev) = None" "up_ocrEvidence (ended_update d j ev) = ev"
  by (simp_all add: terminal_update_def ended_update_def)

lemma steady_raw_persisted [steady_intros]: "steady d J (raw_persisted d x)"
  by (auto simp: raw_persisted_def intro!: steady_intros)

lemma triple_completed_data:
  fixes E :: "'w desktop_env"
  assumes E: "env_calm E d" and j: "jb_status j = ''completed''"
  shows "triple (present d) (persist_terminal_data E d j ev) (\<lambda>_. result_is (delivered E True) d) (present d)"
proof -
  let ?Q = "\<lambda>_. result_is (delivered E True) d"
  have result: "triple (present d) (de_result E c) (\<lambda>r s. present d s \<and> from_runtime E r) (present d)" for c
    using E by (intro triple_value) (auto simp: env_calm_def from_runtime_def)
  have store: "triple (\<lambda>s. present d s \<and> from_runtime E r) (updateCapture E u) ?Q (present d)"
    if "up_documentId u = d" "up_result u = Some r" for u r
  proof (cases "from_runtime E r")
    case True
    show ?thesis by (rule triple_conseq[OF triple_result[OF that True]]) auto
  qed (simp add: triple_def)
  have with_raw: "triple (\<lambda>s. present d s \<and> from_runtime E result) (store_completed E d j ev r result) ?Q (present d)" for r result
    unfolding store_completed_def[abs_def]
    by (rule triple_of_state, rule triple_then_steady[OF store steady_raw_persisted]) simp_all
  have "triple (present d) (\<lambda>s. if ac_rawPersisted (active_of d s)
      then bind_obs (de_result E (jb_captureId j)) (\<lambda>result. updateCapture E
        ((terminal_update d j ev ''completed'')\<lparr>up_result := Some result\<rparr>)) s
      else bind_obs (de_raw E (jb_captureId j)) (\<lambda>raw. case raw of
             None \<Rightarrow> throw_obs (new_Error (tx_missingRawResult (de_texts E)))
           | Some r \<Rightarrow> bind_obs (de_result E (jb_captureId j)) (store_completed E d j ev r)) s) ?Q (present d)"
    by (intro triple_if_state triple_bind[OF result] triple_bind[OF triple_any[OF env_calms(4)[OF E]]] store)
      (auto intro!: triple_throw triple_bind[OF result] with_raw split: option.splits)
  then show ?thesis by (simp add: persist_terminal_data_def[abs_def] Let_def j)
qed

lemma steady_ended_data:
  fixes E :: "'w desktop_env"
  assumes E: "env_calm E d" and j: "jb_status j \<noteq> ''completed''"
  shows "steady d J (persist_terminal_data E d j ev)"
proof -
  have raw: "steady d J (store_ended E d j ev raw)" for raw
    unfolding store_ended_def[abs_def] by (rule steady_state) (intro steady_intros, simp_all)
  have "steady d J (\<lambda>s. if ac_rawPersisted (active_of d s) then updateCapture E (ended_update d j ev) s
      else bind_obs (de_raw E (jb_captureId j)) (store_ended E d j ev) s)"
    by (intro steady_if_state steady_bind env_calms(4)[OF E] steady_update raw) simp_all
  from steady_if_state[OF this steady_basic(2)] show ?thesis
    using j by (simp add: persist_terminal_data_def[abs_def] Let_def)
qed

lemma triple_terminal_data:
  fixes E :: "'w desktop_env"
  assumes E: "env_calm E d"
  shows "triple (present d) (persistTerminalData E d j) (\<lambda>_. result_is (delivered E (jb_status j = ''completed'')) d) (present d)"
proof -
  have data: "triple (present d) (persist_terminal_data E d j ev)
    (\<lambda>_. result_is (delivered E (jb_status j = ''completed'')) d) (present d)" for ev
  proof (cases "jb_status j = ''completed''")
    case True
    then show ?thesis using triple_completed_data[OF E True, of ev] by simp
  next
    case False
    then show ?thesis
      by (intro triple_conseq[OF triple_any[OF steady_ended_data[OF E False]]]) (auto simp: result_is_def delivered_def)
  qed
  then have "triple (present d) (bind_obs (rememberSourceIdentity d j) (\<lambda>_.
        bind_obs (de_ocr E (jb_captureId j)) (\<lambda>projection.
        bind_obs (build_evidence E d j (expected_terminal j) projection) (\<lambda>evidence.
        persist_terminal_data E d j (Some evidence)))))
      (\<lambda>_. result_is (delivered E (jb_status j = ''completed'')) d) (present d)"
    by (intro triple_bind[OF triple_any[OF steady_remember]] triple_bind[OF triple_any[OF env_calms(5)[OF E]]]
        triple_bind[OF triple_any[OF steady_evidence]])
  with data[of None] show ?thesis
    unfolding persistTerminalData_def
    by (cases "jb_status j = ''completed'' \<or> jb_status j = ''failed''") (simp_all only: if_True if_False)
qed

text \<open>Each way of writing a capture down ends with the document settled.\<close>

lemma terminal_status_completed: "terminalLibraryStatus j = ''completed'' \<longleftrightarrow> jb_status j = ''completed''"
  by (simp add: terminalLibraryStatus_def)

lemma terminal_statuses: "terminalLibraryStatus j \<in> {''completed'', ''failed'', ''canceled''}"
  by (simp add: terminalLibraryStatus_def)

lemma triple_final_any:
  fixes E :: "'w desktop_env"
  assumes "up_documentId u = d" "up_result u = None" "\<And>s :: 'w desktop. updated_by u s \<Longrightarrow> settled E d s"
  shows "triple (present d) (updateCapture E u) (\<lambda>_. settled E d) (present d)"
  by (rule triple_conseq[OF triple_final_update[OF assms(1,2), of any_result]]) (auto simp: any_result_present assms(3))

lemma triple_recovery_update:
  fixes E :: "'w desktop_env"
  assumes "up_documentId u = d" "up_result u = None" "up_captureId u \<noteq> None" "up_status u = ''recovery_required''"
  shows "triple (present d) (updateCapture E u) (\<lambda>_. settled E d) (present d)"
  by (rule triple_final_any[OF assms(1,2)]) (rule settled_recoverable[OF _ assms(1,3,4)])

lemma triple_cleanup:
  assumes E: "env_calm E d"
  shows "triple (result_is (delivered E (jb_status j = ''completed'')) d) (cleanupAfterCommit E d j) (\<lambda>_. settled E d) (present d)"
proof -
  have "triple (result_is (delivered E (jb_status j = ''completed'')) d) (updateCapture E u) (\<lambda>_. settled E d) (present d)"
    if "up_documentId u = d" "up_result u = None" "up_clearCaptureId u" "up_status u = terminalLibraryStatus j" for u
    using that terminal_statuses[of j]
    by (intro triple_final_update settled_cleared[OF _ that(1,3)]) (auto simp: terminal_status_completed)
  then show ?thesis
    unfolding cleanupAfterCommit_def Let_def
    by (intro triple_catch[OF triple_bind[OF steady_triple[OF env_calms(7)[OF E]]] triple_recovery_update]) simp_all
qed

lemma triple_persistTerminal:
  assumes E: "env_calm E d"
  shows "triple (present d) (persistTerminal E d j) (\<lambda>_. settled E d) (present d)"
  unfolding persistTerminal_def
  by (rule triple_bind[OF triple_any[OF steady_update] triple_bind[OF triple_terminal_data[OF E]
        triple_bind[OF triple_modify triple_cleanup[OF E]]]])
    (simp_all add: result_is_def)

lemma triple_persistOcrCheckpoint:
  assumes E: "env_calm E d"
  shows "triple (present d) (persistOcrCheckpoint E d j) (\<lambda>_. settled E d) (present d)"
proof -
  have final: "triple (present d) (updateCapture E ((new_update d ''awaiting_confirmation'' st)\<lparr>up_clearCaptureId := True\<rparr>))
      (\<lambda>_. settled E d) (present d)" for st
    by (rule triple_final_any, simp_all) (auto intro!: settled_cleared simp: delivered_def)
  have commit: "steady d any_result (commit_checkpoint E d j r p)" for r p
    unfolding commit_checkpoint_def by (intro steady_intros steady_evidence) simp_all
  have finish: "triple (present d) (finish_checkpoint E d j) (\<lambda>_. settled E d) (present d)"
    unfolding finish_checkpoint_def
    by (rule triple_bind[OF triple_any[OF steady_settleOne[OF env_calms(7)[OF E]]] triple_settleOne[OF final]])
  have ocr: "triple (present d) (bind_obs (settleOne (de_ocr E c)) (\<lambda>p.
      bind_obs (commit_checkpoint E d j r p) (\<lambda>_. finish_checkpoint E d j))) (\<lambda>_. settled E d) (present d)" for c r
    by (rule triple_bind[OF triple_any[OF steady_settleOne[OF env_calms(5)[OF E]]] triple_bind[OF triple_any[OF commit] finish]])
  show ?thesis
    unfolding persistOcrCheckpoint_def
    by (rule triple_bind[OF triple_any[OF steady_settleOne[OF env_calms(4)[OF E]]]])
      (auto intro: triple_throw ocr split: option.splits)
qed

lemma triple_persistOneShot:
  "env_calm E d \<Longrightarrow> triple (present d) (persistOneShot E d j) (\<lambda>_. settled E d) (present d)"
  by (simp add: persistOneShot_def triple_persistTerminal triple_persistOcrCheckpoint)

definition streamed :: "'w desktop_env \<Rightarrow> bool \<Rightarrow> StreamingResultView option \<Rightarrow> bool" where
  "streamed E b t \<longleftrightarrow> (b \<longrightarrow> (\<exists>v. t = Some v \<and> from_runtime E (sr_result v))) \<and> (\<not> b \<longrightarrow> t = None)"

lemma triple_fetch_streamed:
  fixes E :: "'w desktop_env"
  assumes E: "env_calm E d"
  shows "triple (present d) (if b then bind_obs (de_streamingResult E c) (\<lambda>t. return_obs (Some t)) else return_obs None)
    (\<lambda>t s. present d s \<and> streamed E b t) (present d)"
proof (cases b)
  case True
  have "triple (present d) (de_streamingResult E c) (\<lambda>v s. present d s \<and> from_runtime E (sr_result v)) (present d)"
  proof (rule triple_value)
    show "calm d (de_streamingResult E c)" using E by (simp add: env_calm_def)
  qed (unfold from_runtime_def, blast)
  then have "triple (present d) (bind_obs (de_streamingResult E c) (\<lambda>t. return_obs (Some t)))
      (\<lambda>t s. present d s \<and> streamed E b t) (present d)"
    by (rule triple_bind) (auto intro!: triple_return simp: streamed_def True)
  with True show ?thesis by simp
qed (simp add: triple_def streamed_def)

lemma triple_store_streamed:
  fixes E :: "'w desktop_env"
  assumes "up_documentId u = d" "up_result u = map_option sr_result t"
  shows "triple (\<lambda>s. present d s \<and> streamed E b t) (updateCapture E u) (\<lambda>_. result_is (delivered E b) d) (present d)"
proof (cases "streamed E b t")
  case True
  then show ?thesis
    by (intro triple_conseq[OF triple_update[OF assms(1), of any_result]])
      (auto simp: assms(2) streamed_def result_is_def delivered_def)
qed (simp add: triple_def)

lemma streaming_statuses: "streaming_status x \<in> {''completed'', ''failed'', ''canceled''}"
  "streaming_status x = ''completed'' \<longleftrightarrow> op_status x = ''completed''"
  by (simp_all add: streaming_status_def)

lemma triple_persistStreamingTerminal:
  fixes E :: "'w desktop_env"
  assumes E: "env_calm E d"
  shows "triple (present d) (persistStreamingTerminal E d x) (\<lambda>_. settled E d) (present d)"
proof -
  let ?ok = "delivered E (op_status x = ''completed'')"
  have final: "triple (result_is ?ok d) (updateCapture E u) (\<lambda>_. settled E d) (present d)"
    if "up_documentId u = d" "up_result u = None" "up_clearCaptureId u" "up_status u = streaming_status x" for u
    using that streaming_statuses[of x] by (intro triple_final_update settled_cleared[OF _ that(1,3)]) auto
  have released: "triple (settled E d) (modify_obs (clearStreamingPartial d)) (\<lambda>_. settled E d) (present d)"
    by (rule triple_modify) (simp add: settled_def)
  show ?thesis
    unfolding persistStreamingTerminal_def Let_def
    by (rule triple_bind[OF triple_any[OF steady_modify] triple_bind[OF triple_fetch_streamed[OF E]
          triple_bind[OF triple_store_streamed triple_bind[OF steady_triple[OF steady_modify]
          triple_bind[OF steady_triple[OF env_calms(14)[OF E]] triple_bind[OF final released]]]]]]) simp_all
qed

section \<open>Whole lifecycles\<close>

lemma run_triple_steady: "run_steady d any_result m \<Longrightarrow> run_triple (present d) m (\<lambda>_. present d) (present d)"
  by (simp add: run_steady_def any_result_present[abs_def])

lemma run_steady_wait:
  assumes "env_calm E d"
  shows "run_steady d J (desktop_waitForTerminal E d j)"
  unfolding desktop_waitForTerminal_def
  by (intro run_steady_intros steady_intros steady_raw[OF assms] steady_advance[OF assms]) simp_all

lemma run_steady_wait_streaming:
  assumes "env_calm E d"
  shows "run_steady d J (waitForStreamingTerminal E d x)"
proof -
  have "steady d J (\<lambda>s. advanceStreaming E d x (de_timer E 500 s))" for x
    by (rule steady_before[OF steady_streaming[OF assms]]) (rule timer_keeps[OF assms])
  then show ?thesis
    unfolding waitForStreamingTerminal_def by (intro run_steady_intros steady_streaming[OF assms])
qed

lemma run_triple_unit: "run_triple P m (\<lambda>_. Q) F \<Longrightarrow> run_triple P (unit_run m) (\<lambda>_. Q) F"
  unfolding unit_run_def by (rule run_triple_bind) (auto intro!: run_triple_obs triple_return)

lemma run_triple_oneShot_end:
  assumes "env_calm E d"
  shows "run_triple (present d) (bind_run (desktop_waitForTerminal E d j) (\<lambda>j. run_obs (persistOneShot E d j)))
    (\<lambda>_. settled E d) (present d)"
  by (rule run_triple_bind[OF run_triple_steady[OF run_steady_wait[OF assms]]
        run_triple_obs[OF triple_persistOneShot[OF assms]]])

lemma run_triple_streaming_end:
  assumes "env_calm E d"
  shows "run_triple (present d) (bind_run (waitForStreamingTerminal E d x) (\<lambda>x. run_obs (persistStreamingTerminal E d x)))
    (\<lambda>_. settled E d) (present d)"
  by (rule run_triple_bind[OF run_triple_steady[OF run_steady_wait_streaming[OF assms]]
        run_triple_obs[OF triple_persistStreamingTerminal[OF assms]]])

lemma run_triple_oneShot:
  assumes "env_calm E d"
  shows "run_triple (present d) (captureOneShot E d pages) (\<lambda>_. settled E d) (present d)"
proof -
  have "steady d any_result (\<lambda>s. bind_obs (de_create E d (de_uuid E s) pages) (\<lambda>j.
       bind_obs (modify_obs (set_active d (\<lambda>a. a\<lparr>ac_captureId := Some (jb_captureId j)\<rparr>))) (\<lambda>_.
       bind_obs (rememberSourceIdentity d j) (\<lambda>_.
       bind_obs (modify_obs (set_active d (\<lambda>a. a\<lparr>ac_lastStage := Some (captureJobStage j)\<rparr>))) (\<lambda>_.
       bind_obs (updateCapture E ((new_update d ''processing'' (Some (captureJobStage j)))
         \<lparr>up_captureId := Some (jb_captureId j)\<rparr>)) (\<lambda>_.
       bind_obs (modify_obs (reload E d)) (\<lambda>_. return_obs j)))))) s)"
    by (rule steady_state) (intro steady_intros env_calms[OF assms] steady_remember, simp_all)
  then show ?thesis
    unfolding captureOneShot_def
    by (intro run_triple_bind[OF run_triple_obs[OF triple_any] run_triple_oneShot_end[OF assms]])
qed

lemma run_triple_streaming:
  assumes "env_calm E d"
  shows "run_triple (present d) (captureStreaming E d) (\<lambda>_. settled E d) (present d)"
proof -
  have "steady d any_result (\<lambda>s. bind_obs (de_startStreaming E (q s)) (\<lambda>x.
       bind_obs (modify_obs (set_active d (\<lambda>a. a\<lparr>ac_captureId := Some (op_captureId x), ac_lastStage := Some (op_status x)\<rparr>))) (\<lambda>_.
       bind_obs (updateCapture E ((new_update d ''processing'' (Some (op_status x)))\<lparr>up_captureId := Some (op_captureId x)\<rparr>)) (\<lambda>_.
       bind_obs (modify_obs (reload E d)) (\<lambda>_. return_obs x)))) s)" for q
    by (rule steady_state) (intro steady_intros env_calms[OF assms], simp_all)
  then show ?thesis
    unfolding captureStreaming_def
    by (intro run_triple_bind[OF run_triple_obs[OF triple_any] run_triple_streaming_end[OF assms]])
qed

text \<open>A failure is written into the library in any case.\<close>

lemma failure_settles:
  assumes "env_calm E d" "present d s"
  shows "\<exists>x s'. persistLifecycleFailure E d e s = (Emit x, s') \<and> settled E d s'"
proof -
  have go: "\<exists>x s'. updateCapture E u s = (Emit x, s') \<and> settled E d s'"
    if u: "up_documentId u = d" "up_ocrEvidence u = None" "up_status u \<in> set LIBRARY_STATUSES"
      "\<not> (up_clearCaptureId u \<and> up_captureId u \<noteq> None)"
      "\<And>t :: 'a desktop. updated_by u t \<Longrightarrow> settled E d t" for u
    using update_succeeds[OF assms u(1-4)] updateCapture_Emit(1) u(5) by metis
  have failed: "settled E d t" if "updated_by u t" "up_documentId u = d" "up_clearCaptureId u" "up_status u = ''failed''" for u t
    using settled_cleared[OF that(1-3)] that(4) by (simp add: delivered_def)
  show ?thesis
    unfolding persistLifecycleFailure_def Let_def
    by (auto intro!: go intro: settled_recoverable failed simp: LIBRARY_STATUSES_def nonempty_text_def)
qed

lemma lifecycle_ends:
  fixes E :: "'w desktop_env"
  assumes E: "env_calm E d" and work: "run_triple (present d) work (\<lambda>_. G) (present d)"
    and G: "\<And>t. settled E d t \<Longrightarrow> G t" "\<And>t u :: 'w desktop. dk_library u = dk_library t \<Longrightarrow> G t \<Longrightarrow> G u"
    and s: "present d s" and run: "trackCaptureLifecycle E d work s = Some (r, s')"
  shows "G s' \<and> dk_active s' d = None \<and> d \<notin> dk_busy s' \<and> r = Emit ()"
proof -
  have lib: "dk_library (reload E d t) = dk_library t" "dk_library (release_capture d t) = dk_library t" for t :: "'w desktop"
    by (simp_all add: release_capture_def markBusy_def)
  obtain a s1 where w: "work s = Some (a, s1)" and t: "r = fst (settle_lifecycle E d a s1)"
    "s' = release_capture d (snd (settle_lifecycle E d a s1))"
    using run by (auto simp: trackCaptureLifecycle_def Let_def)
  have out: "case a of Emit x \<Rightarrow> G s1 | Error e \<Rightarrow> present d s1 | Empty \<Rightarrow> False"
    using work s w unfolding run_triple_def by blast
  have "G (snd (settle_lifecycle E d a s1)) \<and> fst (settle_lifecycle E d a s1) = Emit ()"
  proof (cases a)
    case (Error e)
    then obtain x s2 where "persistLifecycleFailure E d e s1 = (Emit x, s2)" "settled E d s2"
      using failure_settles[OF E, of s1 e] out by auto
    then show ?thesis
      using G(2)[OF lib(1) G(1)] by (simp add: Error settle_lifecycle_def catch_obs_def bind_obs_def)
  qed (use out G(2)[OF lib(1)] in \<open>auto simp: settle_lifecycle_def\<close>)
  then show ?thesis
    using G(2)[OF lib(2)] by (simp add: t release_capture_def markBusy_def)
qed

lemma settled_library: "dk_library u = dk_library t \<Longrightarrow> settled E d t \<Longrightarrow> settled E d u"
  by (simp add: settled_def)

lemma lifecycle_settles:
  assumes "env_calm E d" "run_triple (present d) work (\<lambda>_. settled E d) (present d)" "present d s"
    and "trackCaptureLifecycle E d work s = Some (r, s')"
  shows "settled E d s' \<and> dk_active s' d = None \<and> d \<notin> dk_busy s' \<and> r = Emit ()"
  by (rule lifecycle_ends[OF assms(1,2) _ settled_library assms(3,4)])

definition at_rest :: "string \<Rightarrow> 'w desktop \<Rightarrow> bool" where
  "at_rest d s \<longleftrightarrow> (\<exists>x. stored d s = Some x \<and> rests x)"

lemma settled_at_rest: "settled E d s \<Longrightarrow> at_rest d s"
  by (auto simp: settled_def at_rest_def)

lemma triple_rest_update:
  fixes E :: "'w desktop_env"
  assumes "up_documentId u = d" "up_result u = None"
    and "up_clearCaptureId u \<and> up_status u \<in> {''completed'', ''failed'', ''canceled'', ''awaiting_confirmation''}
      \<or> up_captureId u \<noteq> None \<and> up_status u = ''recovery_required''"
  shows "triple (present d) (updateCapture E u) (\<lambda>_. at_rest d) (present d)"
  by (rule triple_conseq[OF triple_update[OF assms(1), of any_result]])
    (use assms in \<open>auto simp: updated_by_def at_rest_def rests_def\<close>)

lemma committed_statuses:
  "committedTerminalStatus x \<in> {''completed'', ''failed'', ''canceled'', ''awaiting_confirmation''}"
  by (auto simp: committedTerminalStatus_def terminal_document_def terminalStatusFromStage_def)

lemma triple_retryCleanup:
  assumes "env_calm E d" "sm_documentId x = d" "nonempty_text (sm_captureId x)"
  shows "triple (present d) (retryRuntimeCleanup E x) (\<lambda>_. at_rest d) (present d)"
proof -
  have "steady d any_result (if b then de_deleteStreaming E c else de_delete E c)" for b c
    using env_calms[OF assms(1)] by simp
  then have "triple (present d) (if b then de_deleteStreaming E c else de_delete E c) (\<lambda>_. present d) (present d)" for b c
    by (rule triple_any)
  note delete = triple_bind[OF this]
  show ?thesis
    unfolding retryRuntimeCleanup_def Let_def
    by (simp only: assms(2,3) not_True_eq_False if_False, intro triple_catch[OF delete] triple_rest_update)
      (use committed_statuses[of x] in auto)
qed

end
