(* ===== verification/Desktop_Guarantees.thy ===== *)
theory Desktop_Guarantees
  imports Desktop_Recovery
begin

text \<open>
  The guarantees of the desktop lifecycle: capturing and recovering a document settle it, a capture
  is deleted in the runtime only after the library holds what it produced, a run returns when the
  runtime makes progress, and what the write-once evidence of a document means for capturing it again.
\<close>

section \<open>A lifecycle settles its document\<close>



section \<open>Deletions come after the commit\<close>

text \<open>The library holds the outcome of capture \<open>c\<close> of document \<open>d\<close>.\<close>

definition committed :: "string \<Rightarrow> string \<Rightarrow> 'w desktop \<Rightarrow> bool" where
  "committed d c s \<longleftrightarrow> (\<exists>x. stored d s = Some x \<and> sm_captureId x = Some c
     \<and> sm_status x \<in> {''completed'', ''failed'', ''canceled''}
     \<and> (sm_status x = ''completed'' \<longrightarrow> lb_result (dk_library s) d \<noteq> None
          \<or> sd_ocrEvidence x \<noteq> None \<and> lb_raw (dk_library s) d \<noteq> None))"

text \<open>A runtime that does something else entirely when it is asked to delete a capture too early.\<close>

definition guarded ::
  "string \<Rightarrow> (string \<Rightarrow> ('w desktop, unit) obs) \<Rightarrow> (string \<Rightarrow> ('w desktop, unit) obs) \<Rightarrow> string \<Rightarrow> ('w desktop, unit) obs" where
  "guarded d bad m c s = (if committed d c s then m c s else bad c s)"

definition careful :: "string \<Rightarrow> (string \<Rightarrow> ('w desktop, unit) obs) \<Rightarrow> 'w desktop_env \<Rightarrow> 'w desktop_env" where
  "careful d bad E = E\<lparr>de_delete := guarded d bad (de_delete E), de_deleteStreaming := guarded d bad (de_deleteStreaming E)\<rparr>"

lemma careful_simps [simp]:
  "de_ready (careful d bad E) = de_ready E" "de_ocrCompute (careful d bad E) = de_ocrCompute E"
  "de_pdfPageNumbers (careful d bad E) = de_pdfPageNumbers E" "de_create (careful d bad E) = de_create E"
  "de_get (careful d bad E) = de_get E" "de_cancel (careful d bad E) = de_cancel E" "de_raw (careful d bad E) = de_raw E"
  "de_ocr (careful d bad E) = de_ocr E" "de_result (careful d bad E) = de_result E"
  "de_startStreaming (careful d bad E) = de_startStreaming E" "de_getStreaming (careful d bad E) = de_getStreaming E"
  "de_events (careful d bad E) = de_events E" "de_partial (careful d bad E) = de_partial E"
  "de_streamingResult (careful d bad E) = de_streamingResult E" "de_cancelStreaming (careful d bad E) = de_cancelStreaming E"
  "de_libraryHost (careful d bad E) = de_libraryHost E" "de_requirements (careful d bad E) = de_requirements E"
  "de_documents (careful d bad E) = de_documents E" "de_selected (careful d bad E) = de_selected E"
  "de_identifySpeakers (careful d bad E) = de_identifySpeakers E" "de_reload (careful d bad E) = de_reload E"
  "de_uuid (careful d bad E) = de_uuid E" "de_timer (careful d bad E) = de_timer E"
  "de_pollFirst (careful d bad E) = de_pollFirst E" "de_evidence (careful d bad E) = de_evidence E"
  "de_texts (careful d bad E) = de_texts E"
  "de_delete (careful d bad E) = guarded d bad (de_delete E)"
  "de_deleteStreaming (careful d bad E) = guarded d bad (de_deleteStreaming E)"
  by (simp_all add: careful_def)

text \<open>Everything but the deletions is the same.\<close>

lemma careful_same [simp]:
  "updateCapture (careful d bad E) = updateCapture E"
  "reload (careful d bad E) = reload E"
  "sendCancellation (careful d bad E) = sendCancellation E"
  "build_evidence (careful d bad E) = build_evidence E"
  "host_document (careful d bad E) = host_document E"
  unfolding fun_eq_iff updateCapture_def reload_def sendCancellation_def build_evidence_def host_document_def careful_simps
  by simp_all

lemma careful_same_steps [simp]:
  "persistRawDuringExtraction (careful d bad E) = persistRawDuringExtraction E"
  "poll_or_cancel (careful d bad E) = poll_or_cancel E"
  "store_completed (careful d bad E) = store_completed E" "store_ended (careful d bad E) = store_ended E"
  "advanceStreaming (careful d bad E) = advanceStreaming E"
  "persistLifecycleFailure (careful d bad E) = persistLifecycleFailure E"
  "document_media (careful d bad E) = document_media E"
  unfolding fun_eq_iff persistRawDuringExtraction_def poll_or_cancel_def store_completed_def store_ended_def
    advanceStreaming_def persistLifecycleFailure_def document_media_def careful_simps careful_same
  by simp_all

lemma careful_same_parts [simp]:
  "advanceCapture (careful d bad E) = advanceCapture E"
  "persist_terminal_data (careful d bad E) = persist_terminal_data E"
  "waitForStreamingTerminal (careful d bad E) = waitForStreamingTerminal E"
  "isAudioDocument (careful d bad E) = isAudioDocument E" "isPdfDocument (careful d bad E) = isPdfDocument E"
  unfolding fun_eq_iff advanceCapture_def persist_terminal_data_def waitForStreamingTerminal_def
    isAudioDocument_def isPdfDocument_def careful_simps careful_same careful_same_steps
  by simp_all

lemma careful_same_lifecycle [simp]:
  "persistTerminalData (careful d bad E) = persistTerminalData E"
  "desktop_waitForTerminal (careful d bad E) = desktop_waitForTerminal E"
  "settle_lifecycle (careful d bad E) d' r = settle_lifecycle E d' r"
  "trackCaptureLifecycle (careful d bad E) d' w = trackCaptureLifecycle E d' w"
  unfolding fun_eq_iff persistTerminalData_def desktop_waitForTerminal_def settle_lifecycle_def trackCaptureLifecycle_def
    careful_simps careful_same careful_same_steps careful_same_parts
  by simp_all

text \<open>The updates that commit.\<close>

lemma committed_by:
  assumes "updateCapture E u s = (Emit x, s')" "up_documentId u = d" "up_captureId u = Some c"
    and "up_status u \<in> {''completed'', ''failed'', ''canceled''}"
    and "up_status u = ''completed'' \<longrightarrow> up_result u \<noteq> None \<or> up_ocrEvidence u \<noteq> None \<and> up_raw u \<noteq> None"
  shows "committed d c s'"
  using updateCapture_Emit(1-3)[OF assms(1)] assms(2-5) by (auto simp: committed_def updated_by_def)

lemma committed_updates [simp]:
  "committed d c (set_active d' f s) = committed d c s" "committed d c (reload E d' s) = committed d c s"
  by (simp_all add: committed_def)

text \<open>\<open>Q\<close> holds whenever the call emits.\<close>

definition emits :: "('s, 'a) obs \<Rightarrow> ('s \<Rightarrow> bool) \<Rightarrow> bool" where
  "emits m Q \<longleftrightarrow> (\<forall>s x s'. m s = (Emit x, s') \<longrightarrow> Q s')"

lemma emits_bind: "(\<And>x. emits (f x) Q) \<Longrightarrow> emits (bind_obs m f) Q"
  by (auto simp: emits_def res_simps)

lemma emits_then: "emits m Q \<Longrightarrow> (\<And>x s y s'. Q s \<Longrightarrow> f x s = (Emit y, s') \<Longrightarrow> Q s') \<Longrightarrow> emits (bind_obs m f) Q"
  by (fastforce simp: emits_def res_simps)

lemma emits_throw: "emits (throw_obs e) Q"
  by (simp add: emits_def)

lemma emits_update:
  assumes "up_documentId u = d" "up_captureId u = Some c" "up_status u \<in> {''completed'', ''failed'', ''canceled''}"
    and "up_status u = ''completed'' \<longrightarrow> up_result u \<noteq> None \<or> up_ocrEvidence u \<noteq> None \<and> up_raw u \<noteq> None"
  shows "emits (updateCapture E u) (committed d c)"
  unfolding emits_def using committed_by[OF _ assms] by blast

lemma store_completed_commits: "emits (store_completed E d j ev r result) (committed d (jb_captureId j))"
proof -
  have "committed d (jb_captureId j) s1" if "updateCapture E ((terminal_update d j ev ''completed'')
      \<lparr>up_result := Some result, up_raw := raw\<rparr>) s = (Emit x, s1)" for raw s x s1
    by (rule committed_by[OF that]) simp_all
  then show ?thesis by (auto simp: emits_def store_completed_def raw_persisted_def res_simps)
qed

lemma store_ended_commits:
  assumes "jb_status j \<noteq> ''completed''"
  shows "emits (store_ended E d j ev raw) (committed d (jb_captureId j))"
proof -
  have "committed d (jb_captureId j) s1"
    if "updateCapture E ((ended_update d j ev)\<lparr>up_raw := raw'\<rparr>) s = (Emit x, s1)" for raw' s x s1
    by (rule committed_by[OF that]) (use assms terminal_statuses[of j] in \<open>auto simp: terminal_status_completed\<close>)
  then show ?thesis by (auto simp: emits_def store_ended_def raw_persisted_def res_simps split: if_splits)
qed

lemma persist_terminal_data_commits: "emits (persist_terminal_data E d j ev) (committed d (jb_captureId j))"
proof -
  have "emits (bind_obs (de_result E c) (\<lambda>result. updateCapture E
      ((terminal_update d j ev ''completed'')\<lparr>up_result := Some result\<rparr>))) (committed d (jb_captureId j))" for c
    by (intro emits_bind emits_update) simp_all
  moreover have "emits (bind_obs (de_raw E c) (\<lambda>raw. case raw of
        None \<Rightarrow> throw_obs (new_Error (tx_missingRawResult (de_texts E)))
      | Some r \<Rightarrow> bind_obs (de_result E c) (store_completed E d j ev r))) (committed d (jb_captureId j))" for c
    by (auto intro!: emits_bind emits_throw store_completed_commits split: option.splits)
  moreover have "emits (bind_obs (de_raw E c) (store_ended E d j ev)) (committed d (jb_captureId j))"
    if "jb_status j \<noteq> ''completed''" for c
    by (intro emits_bind store_ended_commits that)
  moreover have "emits (updateCapture E (ended_update d j ev)) (committed d (jb_captureId j))" if "jb_status j \<noteq> ''completed''"
    using terminal_statuses[of j] that by (intro emits_update) (auto simp: terminal_status_completed)
  ultimately show ?thesis
    by (auto simp: emits_def persist_terminal_data_def Let_def split: if_splits)
qed

lemma persistTerminalData_commits:
  "persistTerminalData E d j s = (Emit x, s') \<Longrightarrow> committed d (jb_captureId j) s'"
  using persist_terminal_data_commits[of E d j]
  by (auto simp: persistTerminalData_def res_simps emits_def split: if_splits)

text \<open>The evidence is about the capture and has its status.\<close>

lemma evidence_identity:
  assumes "buildOcrEvidence h (JObj p) (JObj e) = Inr ev"
  shows "fld ev ''captureId'' = fld e ''captureId''" "fld ev ''status'' = fld p ''status''"
proof -
  obtain p' e' where e: "validateExpectedIdentity (JObj e) = Inr e'" and p: "validateProjection h (JObj p) e' = Inr p'"
    and ev: "\<exists>dig. ev = evidence_fields h p' e' @ [(''digest'', dig)]"
    using assms by (auto simp: buildOcrEvidence_def res_simps Let_def split: option.splits)
  have "p' = p" "e' = e" using expected_facts(3)[OF e] validateProjection_facts[OF p] by auto
  moreover have "validateHeader h p' e' = Inr ()" using validateProjection_facts[OF p] by metis
  ultimately show "fld ev ''captureId'' = fld e ''captureId''" "fld ev ''status'' = fld p ''status''"
    using ev header_facts(1)[of h p e] by (auto simp: evidence_fields_def Let_def)
qed

lemma build_evidence_identity:
  assumes "build_evidence E d j t p s = (Emit ev, s')"
  shows "s' = s" "fld ev ''captureId'' = JStr (jb_captureId j)" "fld ev ''status'' = fld p ''status''"
proof -
  from assms obtain e where e: "expectedOcrIdentity j (active_of d s) t = Inr e"
    "buildOcrEvidence (de_evidence E) (JObj p) (JObj e) = Inr ev" "s' = s"
    by (auto simp: build_evidence_def split: sum.splits)
  from e(1) have "fld e ''captureId'' = JStr (jb_captureId j)"
    by (auto simp: expectedOcrIdentity_def split: option.splits if_splits)
  with e evidence_identity[OF e(2)] show "s' = s" "fld ev ''captureId'' = JStr (jb_captureId j)"
    "fld ev ''status'' = fld p ''status''" by simp_all
qed

text \<open>After a commit the guard lets the deletion through.\<close>

lemma bind_obs_at:
  "m s = m' s \<Longrightarrow> (\<And>x s'. m' s = (Emit x, s') \<Longrightarrow> f x s' = f' x s') \<Longrightarrow> bind_obs m f s = bind_obs m' f' s"
  by (auto simp: bind_obs_def split: prod.splits outcome.splits)

lemma careful_cleanup:
  "committed d (jb_captureId j) s \<Longrightarrow> cleanupAfterCommit (careful d bad E) d j s = cleanupAfterCommit E d j s"
  by (simp add: cleanupAfterCommit_def catch_obs_def bind_obs_def guarded_def)

lemma careful_persistTerminal: "persistTerminal (careful d bad E) d j s = persistTerminal E d j s"
  unfolding persistTerminal_def careful_same careful_same_lifecycle
  by (intro bind_obs_at refl) (auto intro!: careful_cleanup dest: persistTerminalData_commits)

lemma settleOne_Emit [res_simps]: "settleOne m s = (Emit x, s') \<longleftrightarrow> m s = (Emit x, s')"
  by (auto simp: settleOne_def split: prod.splits outcome.splits)

lemma commit_checkpoint_commits: "emits (commit_checkpoint E d j r p) (committed d (jb_captureId j))"
proof -
  have "committed d (jb_captureId j) s1"
    if "checkpoint_complete p" "build_evidence E d j t p s = (Emit ev, s')"
      "updateCapture E ((new_update d (str_of (fld ev ''status'')) st)\<lparr>up_captureId := Some (jb_captureId j), up_raw := Some r,
         up_ocrEvidence := Some ev\<rparr>) s' = (Emit x, s1)" for t s ev s' st x s1
    by (rule committed_by[OF that(3)])
      (use that(1) build_evidence_identity(3)[OF that(2)] in \<open>simp_all add: checkpoint_complete_def str_of_def\<close>)
  then show ?thesis by (auto simp: emits_def commit_checkpoint_def res_simps split: if_splits)
qed

lemma careful_checkpoint: "persistOcrCheckpoint (careful d bad E) d j s = persistOcrCheckpoint E d j s"
proof -
  have commit: "commit_checkpoint (careful d bad E) d j r p = commit_checkpoint E d j r p" for r p
    unfolding commit_checkpoint_def careful_same ..
  have finish: "finish_checkpoint (careful d bad E) d j s1 = finish_checkpoint E d j s1" if "committed d (jb_captureId j) s1" for s1
    using that by (simp add: finish_checkpoint_def bind_obs_def settleOne_def guarded_def)
  have "bind_obs (settleOne (de_ocr E c)) (\<lambda>p. bind_obs (commit_checkpoint E d j r p) (\<lambda>_. finish_checkpoint (careful d bad E) d j)) s1
    = bind_obs (settleOne (de_ocr E c)) (\<lambda>p. bind_obs (commit_checkpoint E d j r p) (\<lambda>_. finish_checkpoint E d j)) s1" for c r s1
    using commit_checkpoint_commits[of E d j r]
    by (intro bind_obs_at refl) (auto simp: emits_def intro!: finish)
  then show ?thesis
    unfolding persistOcrCheckpoint_def commit careful_simps
    by (intro bind_obs_at refl) (simp split: option.split)
qed

lemma careful_streamed: "persistStreamingTerminal (careful d bad E) d x s = persistStreamingTerminal E d x s"
proof -
  have commit: "committed d (op_captureId x) s1"
    if "updateCapture E ((new_update d (streaming_status x) st)\<lparr>up_errorCode := a, up_errorMessage := b,
         up_captureId := Some (op_captureId x), up_raw := raw, up_result := res\<rparr>) s0 = (Emit y, s1)"
      "op_status x = ''completed'' \<longrightarrow> res \<noteq> None" for st a b raw res s0 y s1
    by (rule committed_by[OF that(1)]) (use that(2) streaming_statuses[of x] in auto)
  have delete: "guarded d bad m c s1 = m c s1" if "committed d c s1" for m c s1
    using that by (simp add: guarded_def)
  show ?thesis
    unfolding persistStreamingTerminal_def Let_def careful_simps careful_same
    by (intro bind_obs_at refl) (auto simp: res_simps split: if_splits intro!: delete dest!: commit)
qed

lemma careful_writes:
  "persistTerminal (careful d bad E) d j = persistTerminal E d j"
  "persistOcrCheckpoint (careful d bad E) d j = persistOcrCheckpoint E d j"
  "persistStreamingTerminal (careful d bad E) d x = persistStreamingTerminal E d x"
  by (auto simp: fun_eq_iff careful_persistTerminal careful_checkpoint careful_streamed)


section \<open>Runs return\<close>

text \<open>A polling loop ends when every step that answers something unfinished lowers a rank.\<close>

lemma expand_returns:
  assumes "\<And>x y s s'. step x s = (Emit y, s') \<Longrightarrow> \<not> fin y \<Longrightarrow> rank s' < (rank s :: nat)"
  shows "\<exists>p. expand_until fin step x s = Some p"
proof (induction "rank s" arbitrary: x s rule: less_induct)
  case less
  obtain r s1 where st: "step x s = (r, s1)" by fastforce
  show ?case
  proof (cases r)
    case (Emit y)
    then show ?thesis
      using less[of s1 y] assms[of x s y s1] st
      by (cases "fin y") (auto simp: expand_until.simps[of fin step x s] expand_until.simps[of fin step y s1])
  qed (use st in \<open>auto simp: expand_until.simps[of fin step x s]\<close>)
qed

definition no_later :: "('w \<Rightarrow> nat) \<Rightarrow> 'w desktop \<Rightarrow> 'w desktop \<Rightarrow> bool" where
  "no_later rank s s' \<longleftrightarrow> rank (dk_world s') \<le> rank (dk_world s)"

interpretation no_later: state_effect "no_later rank" for rank
  by unfold_locales (auto simp: no_later_def)

text \<open>Progress of the runtime: \<open>rank\<close> bounds how often it still answers an unfinished capture, and
  nothing raises it.\<close>

definition desktop_progress :: "('w \<Rightarrow> nat) \<Rightarrow> 'w desktop_env \<Rightarrow> bool" where
  "desktop_progress rank E \<longleftrightarrow>
     (\<forall>c s j s'. de_get E c s = (Emit j, s') \<longrightarrow> \<not> job_settled j \<longrightarrow> rank (dk_world s') < rank (dk_world s))
     \<and> (\<forall>c s j s'. de_cancel E c s = (Emit j, s') \<longrightarrow> \<not> job_settled j \<longrightarrow> rank (dk_world s') < rank (dk_world s))
     \<and> (\<forall>c s x s'. de_getStreaming E c s = (Emit x, s') \<longrightarrow> isActiveStreaming x \<longrightarrow> rank (dk_world s') < rank (dk_world s))
     \<and> (\<forall>c. preserves (no_later rank) (de_get E c)) \<and> (\<forall>c. preserves (no_later rank) (de_cancel E c))
     \<and> (\<forall>c. preserves (no_later rank) (de_raw E c)) \<and> (\<forall>c n. preserves (no_later rank) (de_events E c n))
     \<and> (\<forall>c. preserves (no_later rank) (de_partial E c)) \<and> (\<forall>c. preserves (no_later rank) (de_cancelStreaming E c))
     \<and> (\<forall>n s. no_later rank s (de_timer E n s)) \<and> (\<forall>d w. rank (de_reload E d w) \<le> rank w)"

lemma world_updates [simp]:
  "dk_world (set_active d f s) = dk_world s" "dk_world (show_partial d q s) = dk_world s"
  "dk_world (reload E d s) = de_reload E d (dk_world s)"
  by (simp_all add: set_active_def show_partial_def reload_def split: option.splits)

lemma world_events [simp]: "dk_world (fold (applyStreamingEvent d) es s) = dk_world s"
  by (induction es arbitrary: s) (simp_all add: applyStreamingEvent_def)

lemma update_no_later: "preserves (no_later rank) (updateCapture E u)"
  by (auto simp: preserves_def no_later_def updateCapture_def split: sum.splits)

lemma no_later_at: "preserves (no_later rank) m \<Longrightarrow> m s = (r, s') \<Longrightarrow> rank (dk_world s') \<le> rank (dk_world s)"
  by (metis preserves_def snd_conv no_later_def)

lemma progress_raw:
  assumes "desktop_progress rank E"
  shows "preserves (no_later rank) (persistRawDuringExtraction E d j)"
proof -
  have "preserves (no_later rank) (modify_obs (\<lambda>s. reload E d (set_active d f s)))" for f
    using assms by (auto simp: preserves_def no_later_def desktop_progress_def)
  then have "preserves (no_later rank) (bind_obs (de_raw E c) (\<lambda>raw. case raw of
             None \<Rightarrow> return_obs j
           | Some r \<Rightarrow> bind_obs (updateCapture E (u r)) (\<lambda>_.
               bind_obs (modify_obs (\<lambda>s. reload E d (set_active d f s))) (\<lambda>_. return_obs j))))" for c u f
    using assms
    by (auto intro!: no_later.preserves_bind no_later.preserves_basic update_no_later
        simp: desktop_progress_def split: option.splits)
  then show ?thesis
    by (auto simp: preserves_def persistRawDuringExtraction_def no_later.effect_refl)
qed

lemma progress_poll:
  assumes p: "desktop_progress rank E" and run: "poll_or_cancel E d c s = (Emit j, s')" and j: "\<not> job_settled j"
  shows "rank (dk_world s') < rank (dk_world s)"
proof -
  define s1 where "s1 = de_timer E 700 s"
  have s1: "rank (dk_world s1) \<le> rank (dk_world s)" using p by (simp add: desktop_progress_def no_later_def s1_def)
  have get: "rank (dk_world (snd (de_get E c t))) \<le> rank (dk_world t)" for t
    using p by (simp add: desktop_progress_def preserves_def no_later_def)
  have cancel: "rank (dk_world (snd (sendCancellation E d c t))) \<le> rank (dk_world t)" for t
    using p unfolding sendCancellation_def desktop_progress_def preserves_def no_later_def by (metis world_updates(1))
  have get_less: "rank (dk_world (snd (de_get E c t))) < rank (dk_world t)" if "fst (de_get E c t) = Emit j" for t
    using p j that unfolding desktop_progress_def by (metis prod.collapse)
  have cancel_less: "rank (dk_world (snd (sendCancellation E d c t))) < rank (dk_world t)"
    if "fst (sendCancellation E d c t) = Emit j" for t
    using p j that unfolding desktop_progress_def sendCancellation_def by (metis prod.collapse world_updates(1))
  show ?thesis
    using run s1 get[of s1] cancel[of s1] get_less[of s1] cancel_less[of s1] get_less[of "snd (sendCancellation E d c s1)"]
      cancel[of "snd (de_get E c s1)"] cancel_less[of "snd (de_get E c s1)"]
    unfolding poll_or_cancel_def Let_def s1_def[symmetric]
    by (auto split: if_splits simp: prod_eq_iff)
qed

lemma progress_advance:
  assumes p: "desktop_progress rank E" and run: "advanceCapture E d j s = (Emit j', s')" and j: "\<not> job_settled j'"
  shows "rank (dk_world s') < rank (dk_world s)"
proof -
  from run obtain x s1 k s2 s3 where r:
    "updateCapture E ((new_update d ''processing'' (Some (captureJobStage j)))\<lparr>up_captureId := Some (jb_captureId j)\<rparr>) s = (Emit x, s1)"
    "(if ac_cancelRequested (active_of d s1) \<and> \<not> ac_cancelSent (active_of d s1)
      then sendCancellation E d (jb_captureId j) s1 else poll_or_cancel E d (jb_captureId j) s1) = (Emit k, s2)"
    "persistRawDuringExtraction E d k s2 = (Emit j', s3)" "dk_world s' = dk_world s3"
    by (auto simp: advanceCapture_def res_simps)
  have "k = j'"
    using r(3) by (auto simp: persistRawDuringExtraction_def res_simps split: if_splits option.splits)
  have "rank (dk_world s2) < rank (dk_world s1)"
  proof (cases "ac_cancelRequested (active_of d s1) \<and> \<not> ac_cancelSent (active_of d s1)")
    case True
    then have "de_cancel E (jb_captureId j) (set_active d (\<lambda>a. a\<lparr>ac_cancelSent := True\<rparr>) s1) = (Emit j', s2)"
      using r(2) \<open>k = j'\<close> by (simp add: sendCancellation_def)
    then show ?thesis using p j unfolding desktop_progress_def by (metis world_updates(1))
  next
    case False
    then have "poll_or_cancel E d (jb_captureId j) s1 = (Emit j', s2)" using r(2) \<open>k = j'\<close> by (simp split: if_splits)
    then show ?thesis using progress_poll[OF p _ j] by blast
  qed
  moreover note no_later_at[OF update_no_later r(1), of rank] no_later_at[OF progress_raw[OF p] r(3)]
  ultimately show ?thesis using r(4) by simp
qed

lemma progress_streaming:
  assumes p: "desktop_progress rank E" and run: "advanceStreaming E d x s = (Emit y, s')" and y: "isActiveStreaming y"
  shows "rank (dk_world s') < rank (dk_world s)"
proof -
  have tail: "rank (dk_world s2) < rank (dk_world s1)"
    if "bind_obs (de_events E c n) (\<lambda>es. bind_obs (modify_obs (fold (applyStreamingEvent d) es)) (\<lambda>_.
        bind_obs (de_partial E c) (\<lambda>q. bind_obs (modify_obs (show_partial d q)) (\<lambda>_. de_getStreaming E c)))) s1 = (Emit y, s2)"
    for c n s1 s2
  proof -
    from that obtain es t q t' where e: "de_events E c n s1 = (Emit es, t)"
      "de_partial E c (fold (applyStreamingEvent d) es t) = (Emit q, t')"
      "de_getStreaming E c (show_partial d q t') = (Emit y, s2)"
      by (auto simp: res_simps)
    have "preserves (no_later rank) (de_events E c n)" "preserves (no_later rank) (de_partial E c)"
      using p by (simp_all add: desktop_progress_def)
    note no_later_at[OF this(1) e(1)] no_later_at[OF this(2) e(2)]
    moreover have "rank (dk_world s2) < rank (dk_world t')"
      using p e(3) y unfolding desktop_progress_def by (metis world_updates(2))
    ultimately show ?thesis by simp
  qed
  show ?thesis
  proof (cases "\<not> ac_cancelRequested (active_of d s) \<or> ac_cancelSent (active_of d s)")
    case True
    then show ?thesis using tail run by (simp add: advanceStreaming_def Let_def)
  next
    case False
    then obtain z s1 where c: "de_cancelStreaming E (op_captureId x) (set_active d (\<lambda>a. a\<lparr>ac_cancelSent := True\<rparr>) s) = (Emit z, s1)"
      and t: "rank (dk_world s') < rank (dk_world s1)"
      using run tail by (auto simp: advanceStreaming_def Let_def bind_obs_Emit_iff[of "de_cancelStreaming E (op_captureId x)"])
    have "preserves (no_later rank) (de_cancelStreaming E (op_captureId x))" using p by (simp add: desktop_progress_def)
    with t no_later_at[OF this c] show ?thesis by simp
  qed
qed

definition returns :: "('s, 'a) run \<Rightarrow> bool" where
  "returns m \<longleftrightarrow> (\<forall>s. m s \<noteq> None)"

lemma returns_intros:
  "returns (run_obs m)" "returns n \<Longrightarrow> (\<And>x. returns (f x)) \<Longrightarrow> returns (bind_run n f)"
  "returns w \<Longrightarrow> returns (trackCaptureLifecycle E d w)"
proof -
  show "returns (run_obs m)" by (simp add: returns_def run_obs_def)
  show "returns w \<Longrightarrow> returns (trackCaptureLifecycle E d w)"
    by (auto simp: returns_def trackCaptureLifecycle_def)
  assume n: "returns n" and f: "\<And>x. returns (f x)"
  show "returns (bind_run n f)"
    unfolding returns_def
  proof
    fix s
    obtain a s1 where "n s = Some (a, s1)" using n unfolding returns_def by fastforce
    then show "bind_run n f s \<noteq> None" using f by (cases a) (auto simp: bind_run_def returns_def)
  qed
qed

lemma returns_unit: "returns m \<Longrightarrow> returns (unit_run m)"
  by (simp add: unit_run_def returns_intros)

lemma returns_wait:
  assumes "desktop_progress rank E"
  shows "returns (desktop_waitForTerminal E d j)" "returns (waitForStreamingTerminal E d x)"
proof -
  have "returns (expand_until job_settled (advanceCapture E d) j)" for j
    unfolding returns_def
    using expand_returns[of "advanceCapture E d" job_settled "\<lambda>s. rank (dk_world s)"] progress_advance[OF assms] by fastforce
  then show "returns (desktop_waitForTerminal E d j)"
    unfolding desktop_waitForTerminal_def by (intro returns_intros)
  have later: "rank (dk_world (de_timer E 500 s)) \<le> rank (dk_world s)" for s
    using assms by (simp add: desktop_progress_def no_later_def)
  have step: "rank (dk_world s') < rank (dk_world s)"
    if "advanceStreaming E d x (de_timer E 500 s) = (Emit y, s')" "\<not> \<not> isActiveStreaming y" for x y s s'
    using progress_streaming[OF assms that(1)] that(2) later[of s] by simp
  have "returns (expand_until (\<lambda>x. \<not> isActiveStreaming x) (\<lambda>x s. advanceStreaming E d x (de_timer E 500 s)) x)" for x
    unfolding returns_def
    using expand_returns[of "\<lambda>x s. advanceStreaming E d x (de_timer E 500 s)" "\<lambda>x. \<not> isActiveStreaming x" "\<lambda>s. rank (dk_world s)"] step
    by fastforce
  then show "returns (waitForStreamingTerminal E d x)"
    unfolding waitForStreamingTerminal_def by (intro returns_intros)
qed

lemma lifecycle_always_returns:
  fixes E :: "'w desktop_env"
  assumes "desktop_progress rank E"
  shows "captureExisting E d mediaType s \<noteq> None" "recoverCapture E x s \<noteq> None"
proof -
  note parts = returns_intros returns_unit returns_wait[OF assms]
  have "returns (captureStreaming E d)" "returns (captureOneShot E d pages)" for pages
    unfolding captureStreaming_def captureOneShot_def by (intro parts)+
  then have work: "returns (trackCaptureLifecycle E d (bind_run (run_obs m)
      (\<lambda>_. if b then captureStreaming E d else unit_run (captureOneShot E d pages))))" for m :: "('w desktop, unit) obs" and b pages
    by (intro parts) (auto intro: parts)
  have "returns (captureExisting E d mediaType)"
    unfolding returns_def captureExisting_def Let_def using work unfolding returns_def by simp
  moreover have "returns (trackCaptureLifecycle E d' (unit_run (run_obs m)))" for d' and m :: "('w desktop, LibraryDocumentSummary) obs"
    by (intro parts)
  moreover have "returns (trackCaptureLifecycle E d' (bind_run (run_obs n) (\<lambda>y. bind_run (waitForStreamingTerminal E d' y)
      (\<lambda>y. run_obs (persistStreamingTerminal E d' y)))))" for d' n
    by (intro parts)
  moreover have "returns (trackCaptureLifecycle E d' (bind_run (run_obs k) (\<lambda>j. bind_run (desktop_waitForTerminal E d' j)
      (\<lambda>j. unit_run (run_obs (persistOneShot E d' j))))))" for d' k
    by (intro parts)
  ultimately have "returns (captureExisting E d mediaType)" "returns (recoverCapture E x)"
    by (auto simp: returns_def recoverCapture_def Let_def)
  then show "captureExisting E d mediaType s \<noteq> None" "recoverCapture E x s \<noteq> None"
    unfolding returns_def by simp_all
qed

text \<open>C8. Capturing and recovering a document return when the runtime makes progress: when it answers
  only finitely often that the capture is still unfinished.\<close>

theorem lifecycle_returns:
  fixes E :: "'w desktop_env"
  assumes "desktop_progress rank E"
  shows "(\<exists>r s'. captureExisting E d mediaType s = Some (r, s')) \<and> (\<exists>r s'. recoverCapture E x s = Some (r, s'))"
  using lifecycle_always_returns(1)[OF assms] lifecycle_always_returns(2)[OF assms] by fastforce

section \<open>Capturing a document again\<close>

text \<open>A call that cannot emit while the stored evidence is \<open>old\<close>.\<close>

definition has_evidence :: "string \<Rightarrow> jobj \<Rightarrow> 'w desktop \<Rightarrow> bool" where
  "has_evidence d old s \<longleftrightarrow> evidence_in d (dk_library s) = Some old"

definition silent :: "('s \<Rightarrow> bool) \<Rightarrow> ('s, 'a) obs \<Rightarrow> bool" where
  "silent P m \<longleftrightarrow> (\<forall>s x s'. P s \<longrightarrow> m s \<noteq> (Emit x, s'))"

definition keeps :: "('s \<Rightarrow> bool) \<Rightarrow> ('s, 'a) obs \<Rightarrow> bool" where
  "keeps P m \<longleftrightarrow> (\<forall>s x s'. P s \<longrightarrow> m s = (Emit x, s') \<longrightarrow> P s')"

lemma silent_bind: "keeps P m \<Longrightarrow> (\<And>x. silent P (f x)) \<Longrightarrow> silent P (bind_obs m f)"
  unfolding silent_def keeps_def by (auto simp: res_simps)

lemma silent_first: "silent P m \<Longrightarrow> silent P (bind_obs m f)"
  unfolding silent_def by (auto simp: res_simps)

lemma keeps_calm: "calm d m \<Longrightarrow> keeps (has_evidence d old) m"
  unfolding keeps_def calm_def preserves_def has_evidence_def evidence_in_def untouched_def
  by (metis snd_conv)

lemma silent_update:
  assumes "up_documentId u = d" "up_ocrEvidence u = Some ev" "ev \<noteq> old"
  shows "silent (has_evidence d old) (updateCapture E u)"
  unfolding silent_def
proof (intro allI impI notI)
  fix s x s'
  assume old: "has_evidence d old s" and "updateCapture E u s = (Emit x, s')"
  then obtain sm lib where up: "update_capture (de_libraryHost E s) u (dk_library s) = Inr (sm, lib)"
    by (auto simp: updateCapture_def split: sum.splits)
  then obtain y z where "find_stored d (lb_documents (dk_library s)) = Some y" "store_evidence (de_libraryHost E s) u y = Inr z"
    using update_capture_ok assms(1) by metis
  with old assms(2,3) show False by (auto simp: has_evidence_def evidence_in_def store_evidence_def res_simps)
qed

lemma silent_terminal_data:
  assumes E: "env_calm E d" and j: "jb_status j \<in> {''completed'', ''failed''}" and ev: "ev \<noteq> old"
  shows "silent (has_evidence d old) (persist_terminal_data E d j (Some ev))"
proof -
  have stores: "silent (has_evidence d old) (store_completed E d j (Some ev) r result)"
    "silent (has_evidence d old) (store_ended E d j (Some ev) raw)" for r result raw
  proof -
    have "silent (has_evidence d old) (updateCapture E ((terminal_update d j (Some ev) ''completed'')\<lparr>up_result := a, up_raw := b\<rparr>))"
      "silent (has_evidence d old) (updateCapture E ((ended_update d j (Some ev))\<lparr>up_raw := b\<rparr>))" for a b
      by (rule silent_update[OF _ _ ev]; simp)+
    then show "silent (has_evidence d old) (store_completed E d j (Some ev) r result)"
      "silent (has_evidence d old) (store_ended E d j (Some ev) raw)"
      by (auto simp: silent_def store_completed_def store_ended_def res_simps)
  qed
  have calls: "keeps (has_evidence d old) (de_raw E c)" "keeps (has_evidence d old) (de_result E c)" for c
    using E by (auto simp: env_calm_def intro!: keeps_calm)
  have "silent (has_evidence d old) (bind_obs (de_result E c)
      (\<lambda>result. updateCapture E ((terminal_update d j (Some ev) ''completed'')\<lparr>up_result := Some result\<rparr>)))" for c
    by (intro silent_bind calls silent_update[OF _ _ ev]) simp_all
  moreover have "silent (has_evidence d old) (bind_obs (de_raw E c) (\<lambda>raw. case raw of
      None \<Rightarrow> throw_obs (new_Error t) | Some r \<Rightarrow> bind_obs (de_result E c) (store_completed E d j (Some ev) r)))" for c t
    by (intro silent_bind calls) (auto intro!: silent_bind calls stores simp: silent_def[of _ "throw_obs _"] split: option.splits)
  moreover have "silent (has_evidence d old) (bind_obs (de_raw E c) (store_ended E d j (Some ev)))" for c
    by (intro silent_bind calls stores)
  moreover have "silent (has_evidence d old) (updateCapture E (ended_update d j (Some ev)))"
    by (rule silent_update[OF _ _ ev]) simp_all
  ultimately show ?thesis
    using j by (auto simp: silent_def persist_terminal_data_def Let_def split: if_splits)
qed


text \<open>The stage a failed clean-up leaves behind decides the status the document recovers to. When
  the last event of a failed recording was older than its failure, the document recovers as completed.\<close>

lemma stale_stage_forgets_failure:
  assumes "persistLifecycleFailure E d e s = (Emit x, s')" "dk_active s d = Some a"
    and "nonempty_text (ac_captureId a)" "ac_terminalCommitted a"
    and "ac_terminalStatus a = Some ''failed''" "ac_lastStage a = Some ''extracting''"
  shows "\<exists>y. stored d s' = Some y \<and> hasCommittedTerminalData (LibraryDocumentSummary.truncate y)
    \<and> committedTerminalStatus (LibraryDocumentSummary.truncate y) = ''completed''"
proof -
  have "active_of d s = a" using assms(2) by (simp add: active_of_def)
  then obtain u where u: "updateCapture E u s = (Emit x, s')" "up_documentId u = d" "up_status u = ''recovery_required''"
    "up_stage u = Some ''extracting''" "up_recoveryCode u = Some ''runtime_cleanup_failed''"
    using assms(1,3-6) by (auto simp: persistLifecycleFailure_def new_update_def)
  with updateCapture_Emit(1)[OF u(1)] show ?thesis
    by (auto simp: updated_by_def hasCommittedTerminalData_def committedTerminalStatus_def terminal_document_def
        terminalStatusFromStage_def LibraryDocumentSummary.defs)
qed

section \<open>A recording\<close>

text \<open>A runtime that transcribes a recording: it answers a few times that the capture is extracting,
  then that it is completed.\<close>

definition recording_id :: string where
  "recording_id = replicate 32 CHR ''a''"

definition recording_operation :: "string \<Rightarrow> CaptureOperation" where
  "recording_operation status =
     \<lparr>op_captureId = ''c1'', op_status = status, op_lastEventSequence = num 0, op_progress = None, op_error = None\<rparr>"

definition recording_job :: "string \<Rightarrow> DesktopCaptureOperation" where
  "recording_job status = \<lparr>jb_captureId = ''c1'', jb_status = status, jb_stage = None, jb_source = None, jb_error = None\<rparr>"

definition recording_poll :: "(nat desktop, CaptureOperation) obs" where
  "recording_poll s = (if dk_world s = 0 then (Emit (recording_operation ''completed''), s)
     else (Emit (recording_operation ''extracting''), s\<lparr>dk_world := dk_world s - 1\<rparr>))"

definition recording_env :: "nat desktop_env" where
  "recording_env =
     \<lparr>de_ready = (\<lambda>_. True), de_ocrCompute = (\<lambda>_. None), de_pdfPageNumbers = (\<lambda>_. None),
      de_create = (\<lambda>_ _ _. return_obs (recording_job ''failed'')), de_get = (\<lambda>_. return_obs (recording_job ''failed'')),
      de_cancel = (\<lambda>_. return_obs (recording_job ''cancelled'')), de_raw = (\<lambda>_. return_obs None),
      de_ocr = (\<lambda>_. throw_obs (new_Error ''no projection'')), de_result = (\<lambda>_. throw_obs (new_Error ''no result'')),
      de_delete = (\<lambda>_. return_obs ()),
      de_startStreaming = (\<lambda>_. return_obs (recording_operation ''queued'')), de_getStreaming = (\<lambda>_. recording_poll),
      de_events = (\<lambda>_ _. return_obs []), de_partial = (\<lambda>_. return_obs None),
      de_streamingResult = (\<lambda>_. return_obs \<lparr>sr_raw = example_raw, sr_result = example_document\<rparr>),
      de_cancelStreaming = (\<lambda>_. return_obs (recording_operation ''cancelled'')),
      de_deleteStreaming = (\<lambda>_. return_obs ()), de_import = (\<lambda>_. throw_obs (new_Error ''no file'')),
      de_libraryHost = (\<lambda>_. \<lparr>lh_now = Inr 1, lh_random = Inr ''r'', lh_disk = Inr (), lh_remove = Inr (), lh_evidence = (\<lambda>_. Inr ())\<rparr>),
      de_requirements = (\<lambda>_. []), de_documents = (\<lambda>_. []), de_selected = (\<lambda>_. None), de_identifySpeakers = (\<lambda>_. False),
      de_refresh = (\<lambda>w. w), de_reload = (\<lambda>_ w. w), de_uuid = (\<lambda>_. ''u''), de_timer = (\<lambda>_ s. s),
      de_pollFirst = (\<lambda>_. True), de_evidence = example_host,
      de_texts = \<lparr>tx_whisperNeeded = [], tx_speakerUnitNeeded = [], tx_needsSetup = [], tx_missingRawResult = []\<rparr>\<rparr>"

definition recording_summary :: "string option \<Rightarrow> LibraryDocumentSummary" where
  "recording_summary c =
     \<lparr>sm_documentId = recording_id, sm_fileName = ''talk.wav'', sm_mediaType = ''audio/wav'', sm_byteLength = 1,
      sm_createdAtMs = 0, sm_updatedAtMs = 0, sm_status = ''processing'', sm_stage = None, sm_captureId = c,
      sm_errorCode = None, sm_errorMessage = None, sm_recoveryCode = None, sm_recoveryMessage = None\<rparr>"

definition recording_desktop :: "jobj option \<Rightarrow> nat desktop" where
  "recording_desktop ev =
     \<lparr>dk_active = Map.empty, dk_busy = {}, dk_partials = Map.empty, dk_selectedId = None, dk_requested = {}, dk_message = [],
      dk_library = \<lparr>lb_documents = [LibraryDocumentSummary.extend (recording_summary None) (StoredDocument.fields ev)],
        lb_raw = Map.empty, lb_result = Map.empty\<rparr>, dk_world = 2\<rparr>"

lemma recording_poll_effects:
  "calm d recording_poll" "preserves (no_later id) recording_poll"
  by (auto simp: calm_def preserves_def recording_poll_def untouched_def no_later_def)

lemma recording_calm: "env_calm recording_env d"
  using recording_poll_effects(1)
  by (simp add: env_calm_def recording_env_def host_works_def untouched.effect_refl)
    (auto simp: calm_def untouched.preserves_basic)

lemma recording_progress: "desktop_progress id recording_env"
  using recording_poll_effects(2)
  by (auto simp: desktop_progress_def recording_env_def no_later.preserves_basic no_later.effect_refl
      recording_poll_def recording_job_def recording_operation_def job_settled_def isActiveJob_def isActiveStreaming_def
      split: if_splits)

lemma recording_facts:
  "de_ready recording_env s" "\<not> hasActiveCapture d (recording_desktop ev)" "validate_document_id recording_id = Inr ()"
  "stored recording_id (recording_desktop ev) \<noteq> None" "sm_documentId (recording_summary c) = recording_id"
  "evidence_in recording_id (dk_library (recording_desktop ev)) = ev"
  by (simp_all add: recording_env_def hasActiveCapture_def recording_desktop_def recording_id_def validate_document_id_def
      list_all_iff ascii_hexdigit_def recording_summary_def LibraryDocumentSummary.defs StoredDocument.defs evidence_in_def)



theorem lifecycle_returns_witness:
  "\<exists>r s'. captureExisting recording_env recording_id (Some ''audio/wav'') (recording_desktop None) = Some (r, s')"
  using lifecycle_returns[OF recording_progress] by blast


end
