(* ===== verification/Acceptance_Records.thy ===== *)
theory Acceptance_Records
  imports Canonical_Json
begin

text \<open>
  \<^verbatim>\<open>packages/capture-acceptance-contract/src/codecs.ts\<close>, first part: the records that travel between
  the parties of an acceptance run, the strict canonical encoder, and the decoders of the parts of
  a record. A decoder takes a JSON value apart and throws unless it has exactly the fields and
  values of the record; fields of a record that have only one possible value are left out here.

  What the platform contributes is in a \<open>codec_host\<close>: rounding of decimal literals, printing of
  numbers, SHA-256, \<open>JSON.parse\<close> and the strict UTF-8 decoder. A JSON value is a tree, so that the
  checks of the encoder for cycles, accessors and exotic prototypes have nothing to refuse.
\<close>

record codec_host =
  ch_fl :: "rat \<Rightarrow> rat"
  ch_show :: "rat \<Rightarrow> string"
  ch_sha256 :: "string \<Rightarrow> string"
  ch_parse :: "string \<Rightarrow> json option"
  ch_utf8 :: "nat list \<Rightarrow> string option"

section \<open>Records\<close>

datatype acceptance_error =
    AcceptanceContractCodecError string
  | CapabilityReplayError string
  | CapabilityNotIssuedError string

datatype ParentGate = D4 | D7

datatype Tier = Candidate | Published

datatype MediaKind = Jpeg | Pdf

record RootBinding =
  rb_ordinal :: int
  rb_role :: string
  rb_rootRefDigest :: string
  rb_rootGeneration :: int
  rb_specDigest :: string
  rb_reservedListenerIdentity :: string

record BoundBinding =
  bb_bindingAttemptId :: string
  bb_groupRefDigest :: string
  bb_groupGeneration :: int
  bb_rootBindings :: "RootBinding list"
  bb_activationReceiptDigest :: string

datatype Binding = Unbound | Bound BoundBinding

datatype LedgerBinding =
    LedgerD3 string string string
  | LedgerD6 string string string

record ArtifactDigest =
  ad_artifactKey :: string
  ad_sha256 :: string

record FixtureAssignment =
  fa_fixtureIndex :: int
  fa_fixtureKey :: string
  fa_fixtureIdentitySha256 :: string
  fa_mediaKind :: MediaKind
  fa_page :: "int option"
  fa_mediaCapabilityHandle :: string
  fa_mediaCapabilityHandleSha256 :: string
  fa_oracleCapabilityHandle :: string
  fa_oracleCapabilityHandleSha256 :: string
  fa_mediaSha256 :: string
  fa_oracleSha256 :: string
  fa_expectedNormalizedTruthSha256 :: string
  fa_expectedAnchorSetSha256 :: string
  fa_cerThreshold :: rat
  fa_artifactId :: string

record SemanticFixtureResult =
  sf_fixtureIndex :: int
  sf_fixtureKey :: string
  sf_fixtureIdentitySha256 :: string
  sf_mediaKind :: MediaKind
  sf_page :: "int option"
  sf_mediaCapabilityHandleSha256 :: string
  sf_oracleCapabilityHandleSha256 :: string
  sf_mediaSha256 :: string
  sf_oracleSha256 :: string
  sf_actualNormalizedOutputSha256 :: string
  sf_expectedNormalizedTruthSha256 :: string
  sf_expectedAnchorSetSha256 :: string
  sf_cer :: rat
  sf_anchorOmissions :: int
  sf_cerThreshold :: rat
  sf_passed :: bool
  sf_projectionSha256 :: string
  sf_artifactId :: string

record ProducerCleanup =
  pc_reconcileRefSha256 :: string
  pc_generation :: int
  pc_automaticAttempts :: int
  pc_proofSha256 :: string

section \<open>Primitives\<close>

definition fail :: "string \<Rightarrow> acceptance_error + 'a" where
  "fail message = Inl (AcceptanceContractCodecError message)"

definition fail_if :: "bool \<Rightarrow> string \<Rightarrow> acceptance_error + unit" where
  "fail_if c message = throw_if c (AcceptanceContractCodecError message)"

definition item_at :: "string \<Rightarrow> nat \<Rightarrow> string" where
  "item_at context i = context @ ''['' @ show_int (int i) @ '']''"

definition record_of :: "json \<Rightarrow> string \<Rightarrow> acceptance_error + jobj" where
  "record_of v context = (case v of JObj r \<Rightarrow> Inr r | _ \<Rightarrow> fail (context @ '' must be an object''))"

definition exactKeys :: "jobj \<Rightarrow> string list \<Rightarrow> string \<Rightarrow> acceptance_error + unit" where
  "exactKeys r expected context =
     fail_if (sort (map fst r) \<noteq> sort expected) (context @ '' has an unknown or missing field'')"

definition stringValue :: "json \<Rightarrow> string \<Rightarrow> acceptance_error + string" where
  "stringValue v context =
     (case v of JStr s \<Rightarrow> if s = [] then fail (context @ '' must be a non-empty string'') else Inr s
      | _ \<Rightarrow> fail (context @ '' must be a non-empty string''))"

text \<open>\<open>/^[A-Za-z0-9][A-Za-z0-9._:-]*$/u\<close>\<close>

definition is_opaque :: "string \<Rightarrow> bool" where
  "is_opaque s =
     (let alnum = (\<lambda>c. is_upper c \<or> is_lower c \<or> is_digit c)
      in s \<noteq> [] \<and> alnum (hd s)
         \<and> list_all (\<lambda>c. alnum c \<or> c \<in> {CHR ''.'', CHR ''_'', CHR '':'', CHR ''-''}) (tl s))"

definition opaque :: "json \<Rightarrow> string \<Rightarrow> acceptance_error + string" where
  "opaque v context = bind_res (stringValue v context) (\<lambda>s.
     if is_opaque s then Inr s else fail (context @ '' must be an opaque value''))"

definition assertSha256 :: "json \<Rightarrow> string \<Rightarrow> acceptance_error + string" where
  "assertSha256 v context = bind_res (stringValue v context) (\<lambda>s.
     if is_sha256_hex s then Inr s else fail (context @ '' must be lowercase SHA-256''))"

definition integer :: "json \<Rightarrow> string \<Rightarrow> int \<Rightarrow> acceptance_error + int" where
  "integer v context minimum =
     (let no = fail (context @ '' must be an integer >= '' @ show_int minimum)
      in case v of JNum (Fin q) \<Rightarrow> if q = of_int \<lfloor>q\<rfloor> \<and> of_int minimum \<le> q then Inr \<lfloor>q\<rfloor> else no | _ \<Rightarrow> no)"

definition ratio :: "json \<Rightarrow> string \<Rightarrow> acceptance_error + rat" where
  "ratio v context =
     (let no = fail (context @ '' must be a finite ratio'')
      in case v of JNum (Fin q) \<Rightarrow> if 0 \<le> q \<and> q \<le> 1 then Inr q else no | _ \<Rightarrow> no)"

definition nonNegativeFinite :: "json \<Rightarrow> string \<Rightarrow> acceptance_error + rat" where
  "nonNegativeFinite v context =
     (let no = fail (context @ '' must be a finite non-negative number'')
      in case v of JNum (Fin q) \<Rightarrow> if 0 \<le> q then Inr q else no | _ \<Rightarrow> no)"

definition threshold_for :: "codec_host \<Rightarrow> MediaKind \<Rightarrow> rat" where
  "threshold_for h k = (case k of Jpeg \<Rightarrow> ch_fl h (3 / 100) | Pdf \<Rightarrow> ch_fl h (1 / 100))"

definition cerThreshold :: "codec_host \<Rightarrow> json \<Rightarrow> MediaKind \<Rightarrow> string \<Rightarrow> acceptance_error + rat" where
  "cerThreshold h v k context = bind_res (ratio v context) (\<lambda>t.
     if t = threshold_for h k then Inr t
     else fail (context @ '' must be '' @ (case k of Jpeg \<Rightarrow> ''0.03 for jpeg'' | Pdf \<Rightarrow> ''0.01 for pdf'')))"

definition arrayValue :: "json \<Rightarrow> string \<Rightarrow> acceptance_error + json list" where
  "arrayValue v context =
     (case v of JArr xs \<Rightarrow> if xs = [] then fail (context @ '' must be a non-empty array'') else Inr xs
      | _ \<Rightarrow> fail (context @ '' must be a non-empty array''))"

text \<open>The allowed strings with the values they stand for.\<close>

definition enumValue :: "json \<Rightarrow> (string \<times> 'a) list \<Rightarrow> string \<Rightarrow> acceptance_error + 'a" where
  "enumValue v allowed context =
     (case v of
        JStr s \<Rightarrow> (case map_of allowed s of Some x \<Rightarrow> Inr x | None \<Rightarrow> fail (context @ '' has an invalid value''))
      | _ \<Rightarrow> fail (context @ '' has an invalid value''))"

definition gates :: "(string \<times> ParentGate) list" where
  "gates = [(''D4'', D4), (''D7'', D7)]"

definition tiers :: "(string \<times> Tier) list" where
  "tiers = [(''candidate'', Candidate), (''published'', Published)]"

definition media_kinds :: "(string \<times> MediaKind) list" where
  "media_kinds = [(''jpeg'', Jpeg), (''pdf'', Pdf)]"

definition pageValue :: "json \<Rightarrow> MediaKind \<Rightarrow> string \<Rightarrow> acceptance_error + int option" where
  "pageValue v k context =
     (if v = JNull then (if k \<noteq> Jpeg then fail (context @ '' requires a PDF page'') else Inr None)
      else bind_res (integer v context 1) (\<lambda>page.
             if k \<noteq> Pdf then fail (context @ '' must be null for JPEG'') else Inr (Some page)))"

definition uniqueDigests :: "string list \<Rightarrow> string \<Rightarrow> acceptance_error + string list" where
  "uniqueDigests values context =
     (if distinct values then Inr values else fail (context @ '' must contain unique digests''))"

definition assertGateTier :: "ParentGate \<Rightarrow> Tier \<Rightarrow> string \<Rightarrow> acceptance_error + unit" where
  "assertGateTier gate tier context =
     fail_if (gate = D4 \<and> tier \<noteq> Candidate \<or> gate = D7 \<and> tier \<noteq> Published)
       (context @ '' has an incompatible gate and tier'')"

text \<open>\<open>values.map\<close> with a function that may throw; the index counts from the second argument.\<close>

fun map_index :: "('a \<Rightarrow> nat \<Rightarrow> 'e + 'b) \<Rightarrow> nat \<Rightarrow> 'a list \<Rightarrow> 'e + 'b list" where
  "map_index f i [] = Inr []"
| "map_index f i (x # xs) = bind_res (f x i) (\<lambda>y. bind_res (map_index f (Suc i) xs) (\<lambda>ys. Inr (y # ys)))"

section \<open>The strict canonical encoder\<close>

fun map_res :: "('a \<Rightarrow> 'e + 'b) \<Rightarrow> 'a list \<Rightarrow> 'e + 'b list" where
  "map_res f [] = Inr []"
| "map_res f (x # xs) = bind_res (f x) (\<lambda>y. bind_res (map_res f xs) (\<lambda>ys. Inr (y # ys)))"

lemma map_res_cong [fundef_cong]: "xs = ys \<Longrightarrow> (\<And>x. x \<in> set ys \<Longrightarrow> f x = g x) \<Longrightarrow> map_res f xs = map_res g ys"
  by (induction ys arbitrary: xs) auto

function canonicalJsonValue :: "codec_host \<Rightarrow> json \<Rightarrow> acceptance_error + string" where
  "canonicalJsonValue h v =
     (case v of
        JUndef \<Rightarrow> fail ''canonical JSON cannot contain this value type''
      | JNull \<Rightarrow> Inr ''null''
      | JBool b \<Rightarrow> Inr (if b then ''true'' else ''false'')
      | JStr s \<Rightarrow> Inr (json_quote s)
      | JNum n \<Rightarrow> (case n of Fin q \<Rightarrow> Inr (js_String (ch_show h) (JNum (Fin q)))
                   | _ \<Rightarrow> fail ''canonical JSON cannot contain a non-finite number'')
      | JArr xs \<Rightarrow> bind_res (map_res (canonicalJsonValue h) xs) (\<lambda>ts. Inr (''['' @ join '','' ts @ '']''))
      | JObj r \<Rightarrow> bind_res (map_res (\<lambda>e. bind_res (canonicalJsonValue h (snd e)) (\<lambda>t. Inr (json_quote (fst e) @ '':'' @ t)))
                    (sort_key fst r)) (\<lambda>ts. Inr (''{'' @ join '','' ts @ ''}'')))"
  by pat_completeness auto
termination
  by (relation "measure (\<lambda>(_, v). size v)") (auto simp: element_size entry_size)

declare canonicalJsonValue.simps [simp del]

definition sha256Canonical :: "codec_host \<Rightarrow> json \<Rightarrow> acceptance_error + string" where
  "sha256Canonical h v = bind_res (canonicalJsonValue h v) (\<lambda>t. Inr (ch_sha256 h t))"

definition without :: "string \<Rightarrow> jobj \<Rightarrow> jobj" where
  "without k r = filter (\<lambda>e. fst e \<noteq> k) r"

definition selfExcludedDigest :: "codec_host \<Rightarrow> jobj \<Rightarrow> string \<Rightarrow> acceptance_error + string" where
  "selfExcludedDigest h r field = sha256Canonical h (JObj (without field r))"

section \<open>Bindings\<close>

definition ROOT_BINDING_KEYS :: "string list" where
  "ROOT_BINDING_KEYS = [''ordinal'', ''role'', ''rootRefDigest'', ''rootGeneration'', ''specDigest'', ''reservedListenerIdentity'']"

definition EXPECTED_BINDING_KEYS :: "string list" where
  "EXPECTED_BINDING_KEYS = [''bindingAttemptId'', ''groupRefDigest'', ''groupGeneration'', ''rootBindings'', ''activationReceiptDigest'']"

definition root_binding :: "json \<Rightarrow> string \<Rightarrow> acceptance_error + RootBinding" where
  "root_binding v c =
     bind_res (record_of v c) (\<lambda>r.
     then_res (exactKeys r ROOT_BINDING_KEYS c)
     (bind_res (integer (fld r ''ordinal'') (c @ ''.ordinal'') 0) (\<lambda>ordinal.
     bind_res (stringValue (fld r ''role'') (c @ ''.role'')) (\<lambda>role.
     bind_res (assertSha256 (fld r ''rootRefDigest'') (c @ ''.rootRefDigest'')) (\<lambda>root.
     bind_res (integer (fld r ''rootGeneration'') (c @ ''.rootGeneration'') 0) (\<lambda>generation.
     bind_res (assertSha256 (fld r ''specDigest'') (c @ ''.specDigest'')) (\<lambda>spec.
     bind_res (opaque (fld r ''reservedListenerIdentity'') (c @ ''.reservedListenerIdentity'')) (\<lambda>listener.
     Inr \<lparr>rb_ordinal = ordinal, rb_role = role, rb_rootRefDigest = root, rb_rootGeneration = generation,
          rb_specDigest = spec, rb_reservedListenerIdentity = listener\<rparr>))))))))"

text \<open>The roots are numbered from zero, and no role and no root appears twice.\<close>

fun check_roots :: "string \<Rightarrow> nat \<Rightarrow> string list \<Rightarrow> string list \<Rightarrow> RootBinding list \<Rightarrow> acceptance_error + unit" where
  "check_roots c i roles roots [] = Inr ()"
| "check_roots c i roles roots (b # bs) =
     then_res (fail_if (rb_ordinal b \<noteq> int i) (c @ '' must be complete and ordered''))
     (then_res (fail_if (rb_role b \<in> set roles \<or> rb_rootRefDigest b \<in> set roots) (c @ '' must not repeat a root''))
     (check_roots c (Suc i) (rb_role b # roles) (rb_rootRefDigest b # roots) bs))"

definition rootBindings :: "json \<Rightarrow> string \<Rightarrow> acceptance_error + RootBinding list" where
  "rootBindings v c =
     bind_res (arrayValue v c) (\<lambda>items.
     bind_res (map_index (\<lambda>x i. root_binding x (item_at c i)) 0 items) (\<lambda>bs.
     then_res (check_roots c 0 [] [] bs) (Inr bs)))"

text \<open>The five fields a bound binding, an expected binding and an invocation have in common.\<close>

definition bound_fields :: "jobj \<Rightarrow> string \<Rightarrow> acceptance_error + BoundBinding" where
  "bound_fields r c =
     bind_res (opaque (fld r ''bindingAttemptId'') (c @ ''.bindingAttemptId'')) (\<lambda>attempt.
     bind_res (assertSha256 (fld r ''groupRefDigest'') (c @ ''.groupRefDigest'')) (\<lambda>group.
     bind_res (integer (fld r ''groupGeneration'') (c @ ''.groupGeneration'') 0) (\<lambda>generation.
     bind_res (rootBindings (fld r ''rootBindings'') (c @ ''.rootBindings'')) (\<lambda>roots.
     bind_res (assertSha256 (fld r ''activationReceiptDigest'') (c @ ''.activationReceiptDigest'')) (\<lambda>receipt.
     Inr \<lparr>bb_bindingAttemptId = attempt, bb_groupRefDigest = group, bb_groupGeneration = generation,
          bb_rootBindings = roots, bb_activationReceiptDigest = receipt\<rparr>)))))"

definition expectedBindingContext :: "json \<Rightarrow> string \<Rightarrow> acceptance_error + BoundBinding" where
  "expectedBindingContext v c =
     bind_res (record_of v c) (\<lambda>r. then_res (exactKeys r EXPECTED_BINDING_KEYS c) (bound_fields r c))"

definition same_root :: "RootBinding \<Rightarrow> RootBinding \<Rightarrow> bool" where
  "same_root a b =
     (rb_ordinal a = rb_ordinal b \<and> rb_role a = rb_role b \<and> rb_rootRefDigest a = rb_rootRefDigest b
      \<and> rb_rootGeneration a = rb_rootGeneration b \<and> rb_specDigest a = rb_specDigest b
      \<and> rb_reservedListenerIdentity a = rb_reservedListenerIdentity b)"

definition assertBindingMatches :: "BoundBinding \<Rightarrow> json \<Rightarrow> string \<Rightarrow> acceptance_error + unit" where
  "assertBindingMatches actual expected c =
     bind_res (expectedBindingContext expected (c @ ''.expected'')) (\<lambda>e.
     fail_if (bb_bindingAttemptId actual \<noteq> bb_bindingAttemptId e \<or> bb_groupRefDigest actual \<noteq> bb_groupRefDigest e
              \<or> bb_groupGeneration actual \<noteq> bb_groupGeneration e
              \<or> bb_activationReceiptDigest actual \<noteq> bb_activationReceiptDigest e
              \<or> length (bb_rootBindings actual) \<noteq> length (bb_rootBindings e)
              \<or> list_ex (\<lambda>(a, b). \<not> same_root a b) (zip (bb_rootBindings actual) (bb_rootBindings e)))
       (c @ '' does not match the expected complete immutable binding''))"

definition binding :: "json \<Rightarrow> string \<Rightarrow> acceptance_error + Binding" where
  "binding v c =
     bind_res (record_of v c) (\<lambda>r.
     bind_res (enumValue (fld r ''kind'') [(''unbound'', False), (''bound'', True)] (c @ ''.kind'')) (\<lambda>bound.
     if bound then then_res (exactKeys r (''kind'' # EXPECTED_BINDING_KEYS) c) (bind_res (bound_fields r c) (\<lambda>b. Inr (Bound b)))
     else then_res (exactKeys r [''kind''] c) (Inr Unbound)))"

section \<open>Fixtures\<close>

definition FIXTURE_ASSIGNMENT_KEYS :: "string list" where
  "FIXTURE_ASSIGNMENT_KEYS =
     [''fixtureIndex'', ''fixtureKey'', ''fixtureIdentitySha256'', ''mediaKind'', ''page'', ''mediaCapabilityHandle'',
      ''mediaCapabilityHandleSha256'', ''oracleCapabilityHandle'', ''oracleCapabilityHandleSha256'', ''mediaSha256'', ''oracleSha256'',
      ''expectedNormalizedTruthSha256'', ''expectedAnchorSetSha256'', ''cerThreshold'', ''artifactId'']"

definition fixtureAssignment :: "codec_host \<Rightarrow> json \<Rightarrow> string \<Rightarrow> acceptance_error + FixtureAssignment" where
  "fixtureAssignment h v c =
     bind_res (record_of v c) (\<lambda>r.
     then_res (exactKeys r FIXTURE_ASSIGNMENT_KEYS c)
     (bind_res (enumValue (fld r ''mediaKind'') media_kinds (c @ ''.mediaKind'')) (\<lambda>kind.
     bind_res (integer (fld r ''fixtureIndex'') (c @ ''.fixtureIndex'') 0) (\<lambda>index.
     bind_res (stringValue (fld r ''fixtureKey'') (c @ ''.fixtureKey'')) (\<lambda>key.
     bind_res (assertSha256 (fld r ''fixtureIdentitySha256'') (c @ ''.fixtureIdentitySha256'')) (\<lambda>identity.
     bind_res (pageValue (fld r ''page'') kind (c @ ''.page'')) (\<lambda>page.
     bind_res (opaque (fld r ''mediaCapabilityHandle'') (c @ ''.mediaCapabilityHandle'')) (\<lambda>media.
     bind_res (assertSha256 (fld r ''mediaCapabilityHandleSha256'') (c @ ''.mediaCapabilityHandleSha256'')) (\<lambda>mediaHandle.
     bind_res (opaque (fld r ''oracleCapabilityHandle'') (c @ ''.oracleCapabilityHandle'')) (\<lambda>oracle.
     bind_res (assertSha256 (fld r ''oracleCapabilityHandleSha256'') (c @ ''.oracleCapabilityHandleSha256'')) (\<lambda>oracleHandle.
     bind_res (assertSha256 (fld r ''mediaSha256'') (c @ ''.mediaSha256'')) (\<lambda>mediaSha.
     bind_res (assertSha256 (fld r ''oracleSha256'') (c @ ''.oracleSha256'')) (\<lambda>oracleSha.
     bind_res (assertSha256 (fld r ''expectedNormalizedTruthSha256'') (c @ ''.expectedNormalizedTruthSha256'')) (\<lambda>truth.
     bind_res (assertSha256 (fld r ''expectedAnchorSetSha256'') (c @ ''.expectedAnchorSetSha256'')) (\<lambda>anchors.
     bind_res (cerThreshold h (fld r ''cerThreshold'') kind (c @ ''.cerThreshold'')) (\<lambda>threshold.
     bind_res (assertSha256 (fld r ''artifactId'') (c @ ''.artifactId'')) (\<lambda>artifact.
     bind_res (selfExcludedDigest h r ''fixtureIdentitySha256'') (\<lambda>digest.
     if digest \<noteq> identity then fail (c @ ''.fixtureIdentitySha256 does not match canonical assignment identity'')
     else Inr \<lparr>fa_fixtureIndex = index, fa_fixtureKey = key, fa_fixtureIdentitySha256 = identity, fa_mediaKind = kind,
       fa_page = page, fa_mediaCapabilityHandle = media, fa_mediaCapabilityHandleSha256 = mediaHandle,
       fa_oracleCapabilityHandle = oracle, fa_oracleCapabilityHandleSha256 = oracleHandle, fa_mediaSha256 = mediaSha,
       fa_oracleSha256 = oracleSha, fa_expectedNormalizedTruthSha256 = truth, fa_expectedAnchorSetSha256 = anchors,
       fa_cerThreshold = threshold, fa_artifactId = artifact\<rparr>))))))))))))))))))"

text \<open>Items numbered from zero whose keys are all different.\<close>

fun check_ordered :: "('a \<Rightarrow> int) \<Rightarrow> ('a \<Rightarrow> string) \<Rightarrow> string \<Rightarrow> nat \<Rightarrow> string list \<Rightarrow> 'a list \<Rightarrow> acceptance_error + unit" where
  "check_ordered index key c i seen [] = Inr ()"
| "check_ordered index key c i seen (x # xs) =
     then_res (fail_if (index x \<noteq> int i \<or> key x \<in> set seen) (c @ '' must be complete, ordered, and unique''))
     (check_ordered index key c (Suc i) (key x # seen) xs)"

definition orderedAssignments :: "codec_host \<Rightarrow> json \<Rightarrow> string \<Rightarrow> acceptance_error + FixtureAssignment list" where
  "orderedAssignments h v c =
     bind_res (arrayValue v c) (\<lambda>items.
     bind_res (map_index (\<lambda>x i. fixtureAssignment h x (item_at c i)) 0 items) (\<lambda>xs.
     then_res (check_ordered fa_fixtureIndex fa_fixtureKey c 0 [] xs) (Inr xs)))"

definition SEMANTIC_RESULT_KEYS :: "string list" where
  "SEMANTIC_RESULT_KEYS =
     [''fixtureIndex'', ''fixtureKey'', ''fixtureIdentitySha256'', ''mediaKind'', ''page'', ''mediaCapabilityHandleSha256'',
      ''oracleCapabilityHandleSha256'', ''mediaSha256'', ''oracleSha256'', ''actualNormalizedOutputSha256'',
      ''expectedNormalizedTruthSha256'', ''expectedAnchorSetSha256'', ''cer'', ''anchorOmissions'', ''cerThreshold'', ''outcome'',
      ''projectionSha256'', ''artifactId'']"

definition semanticFixtureResult :: "codec_host \<Rightarrow> json \<Rightarrow> string \<Rightarrow> acceptance_error + SemanticFixtureResult" where
  "semanticFixtureResult h v c =
     bind_res (record_of v c) (\<lambda>r.
     then_res (exactKeys r SEMANTIC_RESULT_KEYS c)
     (bind_res (enumValue (fld r ''mediaKind'') media_kinds (c @ ''.mediaKind'')) (\<lambda>kind.
     bind_res (integer (fld r ''fixtureIndex'') (c @ ''.fixtureIndex'') 0) (\<lambda>index.
     bind_res (stringValue (fld r ''fixtureKey'') (c @ ''.fixtureKey'')) (\<lambda>key.
     bind_res (assertSha256 (fld r ''fixtureIdentitySha256'') (c @ ''.fixtureIdentitySha256'')) (\<lambda>identity.
     bind_res (pageValue (fld r ''page'') kind (c @ ''.page'')) (\<lambda>page.
     bind_res (assertSha256 (fld r ''mediaCapabilityHandleSha256'') (c @ ''.mediaCapabilityHandleSha256'')) (\<lambda>mediaHandle.
     bind_res (assertSha256 (fld r ''oracleCapabilityHandleSha256'') (c @ ''.oracleCapabilityHandleSha256'')) (\<lambda>oracleHandle.
     bind_res (assertSha256 (fld r ''mediaSha256'') (c @ ''.mediaSha256'')) (\<lambda>mediaSha.
     bind_res (assertSha256 (fld r ''oracleSha256'') (c @ ''.oracleSha256'')) (\<lambda>oracleSha.
     bind_res (assertSha256 (fld r ''actualNormalizedOutputSha256'') (c @ ''.actualNormalizedOutputSha256'')) (\<lambda>actual.
     bind_res (assertSha256 (fld r ''expectedNormalizedTruthSha256'') (c @ ''.expectedNormalizedTruthSha256'')) (\<lambda>truth.
     bind_res (assertSha256 (fld r ''expectedAnchorSetSha256'') (c @ ''.expectedAnchorSetSha256'')) (\<lambda>anchors.
     bind_res (nonNegativeFinite (fld r ''cer'') (c @ ''.cer'')) (\<lambda>cer.
     bind_res (integer (fld r ''anchorOmissions'') (c @ ''.anchorOmissions'') 0) (\<lambda>omissions.
     bind_res (cerThreshold h (fld r ''cerThreshold'') kind (c @ ''.cerThreshold'')) (\<lambda>threshold.
     bind_res (enumValue (fld r ''outcome'') [(''passed'', True), (''failed'', False)] (c @ ''.outcome'')) (\<lambda>passed.
     bind_res (assertSha256 (fld r ''projectionSha256'') (c @ ''.projectionSha256'')) (\<lambda>projection.
     bind_res (assertSha256 (fld r ''artifactId'') (c @ ''.artifactId'')) (\<lambda>artifact.
     if passed \<noteq> (cer \<le> threshold \<and> omissions = 0) then fail (c @ ''.outcome does not match CER threshold and anchor omissions'')
     else if cer = 0 \<and> actual \<noteq> truth \<or> 0 < cer \<and> actual = truth
     then fail (c @ ''.cer does not match normalized output and truth identity'')
     else Inr \<lparr>sf_fixtureIndex = index, sf_fixtureKey = key, sf_fixtureIdentitySha256 = identity, sf_mediaKind = kind,
       sf_page = page, sf_mediaCapabilityHandleSha256 = mediaHandle, sf_oracleCapabilityHandleSha256 = oracleHandle,
       sf_mediaSha256 = mediaSha, sf_oracleSha256 = oracleSha, sf_actualNormalizedOutputSha256 = actual,
       sf_expectedNormalizedTruthSha256 = truth, sf_expectedAnchorSetSha256 = anchors, sf_cer = cer,
       sf_anchorOmissions = omissions, sf_cerThreshold = threshold, sf_passed = passed,
       sf_projectionSha256 = projection, sf_artifactId = artifact\<rparr>))))))))))))))))))))"

definition orderedSemanticResults :: "codec_host \<Rightarrow> json \<Rightarrow> string \<Rightarrow> acceptance_error + SemanticFixtureResult list" where
  "orderedSemanticResults h v c =
     bind_res (arrayValue v c) (\<lambda>items.
     bind_res (map_index (\<lambda>x i. semanticFixtureResult h x (item_at c i)) 0 items) (\<lambda>xs.
     then_res (check_ordered sf_fixtureIndex sf_fixtureKey c 0 [] xs) (Inr xs)))"

definition wireFixtureResult :: "codec_host \<Rightarrow> json \<Rightarrow> string \<Rightarrow> acceptance_error + SemanticFixtureResult" where
  "wireFixtureResult h v c =
     bind_res (record_of v c) (\<lambda>r.
     then_res (exactKeys r (SEMANTIC_RESULT_KEYS @ [''normalization'', ''distance'']) c)
     (bind_res (semanticFixtureResult h (JObj (without ''distance'' (without ''normalization'' r))) c) (\<lambda>result.
     bind_res (enumValue (fld r ''normalization'') [(''nfkc-whitespace-v1'', ())] (c @ ''.normalization'')) (\<lambda>_.
     bind_res (enumValue (fld r ''distance'') [(''code-point-levenshtein-v1'', ())] (c @ ''.distance'')) (\<lambda>_.
     Inr result)))))"

definition orderedWireResults :: "codec_host \<Rightarrow> json \<Rightarrow> string \<Rightarrow> acceptance_error + SemanticFixtureResult list" where
  "orderedWireResults h v c =
     bind_res (arrayValue v c) (\<lambda>items.
     bind_res (map_index (\<lambda>x i. wireFixtureResult h x (item_at c i)) 0 items) (\<lambda>xs.
     then_res (check_ordered sf_fixtureIndex sf_fixtureKey c 0 [] xs) (Inr xs)))"

section \<open>Ledgers, clean-up and privacy\<close>

definition ledgerBinding :: "json \<Rightarrow> string \<Rightarrow> acceptance_error + LedgerBinding" where
  "ledgerBinding v c =
     bind_res (record_of v c) (\<lambda>r.
     bind_res (enumValue (fld r ''sourceGate'') [(''D3'', False), (''D6'', True)] (c @ ''.sourceGate'')) (\<lambda>d6.
     if \<not> d6 then
       then_res (exactKeys r [''sourceGate'', ''ledgerSha256'', ''candidateId'', ''candidateManifestSha256''] c)
       (bind_res (assertSha256 (fld r ''ledgerSha256'') (c @ ''.ledgerSha256'')) (\<lambda>ledger.
       bind_res (assertSha256 (fld r ''candidateId'') (c @ ''.candidateId'')) (\<lambda>candidate.
       bind_res (assertSha256 (fld r ''candidateManifestSha256'') (c @ ''.candidateManifestSha256'')) (\<lambda>manifest.
       Inr (LedgerD3 ledger candidate manifest)))))
     else
       then_res (exactKeys r [''sourceGate'', ''ledgerSha256'', ''publicationLedgerSha256'', ''downloadBundleSha256''] c)
       (bind_res (assertSha256 (fld r ''ledgerSha256'') (c @ ''.ledgerSha256'')) (\<lambda>ledger.
       bind_res (assertSha256 (fld r ''publicationLedgerSha256'') (c @ ''.publicationLedgerSha256'')) (\<lambda>publication.
       bind_res (assertSha256 (fld r ''downloadBundleSha256'') (c @ ''.downloadBundleSha256'')) (\<lambda>bundle.
       Inr (LedgerD6 ledger publication bundle)))))))"

definition artifact_digest :: "json \<Rightarrow> string \<Rightarrow> acceptance_error + ArtifactDigest" where
  "artifact_digest v c =
     bind_res (record_of v c) (\<lambda>r.
     then_res (exactKeys r [''artifactKey'', ''sha256''] c)
     (bind_res (opaque (fld r ''artifactKey'') (c @ ''.artifactKey'')) (\<lambda>key.
     bind_res (assertSha256 (fld r ''sha256'') (c @ ''.sha256'')) (\<lambda>sha.
     Inr \<lparr>ad_artifactKey = key, ad_sha256 = sha\<rparr>))))"

definition artifactDigests :: "json \<Rightarrow> string \<Rightarrow> acceptance_error + ArtifactDigest list" where
  "artifactDigests v c =
     bind_res (arrayValue v c) (\<lambda>items.
     bind_res (map_index (\<lambda>x i. artifact_digest x (item_at c i)) 0 items) (\<lambda>xs.
     then_res (fail_if (list_ex (\<lambda>(a, b). \<not> ad_artifactKey a < ad_artifactKey b) (zip xs (tl xs)))
       (c @ '' must be sorted by unique artifactKey'')) (Inr xs)))"

definition wireLedgerBinding :: "json \<Rightarrow> string \<Rightarrow> acceptance_error + LedgerBinding \<times> ArtifactDigest list" where
  "wireLedgerBinding v c =
     bind_res (record_of v c) (\<lambda>r.
     bind_res (enumValue (fld r ''sourceGate'') [(''D3'', False), (''D6'', True)] (c @ ''.sourceGate'')) (\<lambda>d6.
     if \<not> d6 then
       then_res (exactKeys r [''sourceGate'', ''ledgerSha256'', ''candidateId'', ''candidateManifestSha256'', ''artifactDigests''] c)
       (bind_res (assertSha256 (fld r ''ledgerSha256'') (c @ ''.ledgerSha256'')) (\<lambda>ledger.
       bind_res (assertSha256 (fld r ''candidateId'') (c @ ''.candidateId'')) (\<lambda>candidate.
       bind_res (assertSha256 (fld r ''candidateManifestSha256'') (c @ ''.candidateManifestSha256'')) (\<lambda>manifest.
       bind_res (artifactDigests (fld r ''artifactDigests'') (c @ ''.artifactDigests'')) (\<lambda>digests.
       Inr (LedgerD3 ledger candidate manifest, digests))))))
     else
       then_res (exactKeys r [''sourceGate'', ''ledgerSha256'', ''publicationLedgerSha256'', ''downloadBundleSha256'', ''artifactDigests''] c)
       (bind_res (assertSha256 (fld r ''ledgerSha256'') (c @ ''.ledgerSha256'')) (\<lambda>ledger.
       bind_res (assertSha256 (fld r ''publicationLedgerSha256'') (c @ ''.publicationLedgerSha256'')) (\<lambda>publication.
       bind_res (assertSha256 (fld r ''downloadBundleSha256'') (c @ ''.downloadBundleSha256'')) (\<lambda>bundle.
       bind_res (artifactDigests (fld r ''artifactDigests'') (c @ ''.artifactDigests'')) (\<lambda>digests.
       Inr (LedgerD6 ledger publication bundle, digests))))))))"

definition CLEANUP_FLAGS :: "string list" where
  "CLEANUP_FLAGS =
     [''rootReaped'', ''descendantsTerminated'', ''listenersReleased'', ''stagingReleased'', ''captureDeleted'', ''modelMemoryReleased'',
      ''processesAbsent'', ''listenersAbsent'', ''stagingAbsent'']"

definition CLEANUP_KEYS :: "string list" where
  "CLEANUP_KEYS = [''journalState'', ''reconcileRefSha256'', ''generation'', ''automaticAttempts''] @ CLEANUP_FLAGS @ [''proofSha256'']"

definition producerCleanup :: "json \<Rightarrow> string \<Rightarrow> acceptance_error + ProducerCleanup" where
  "producerCleanup v c =
     bind_res (record_of v c) (\<lambda>r.
     then_res (exactKeys r CLEANUP_KEYS c)
     (then_res (for_each (\<lambda>k. fail_if (fld r k \<noteq> JBool True) (c @ ''.'' @ k @ '' must be true'')) CLEANUP_FLAGS)
     (bind_res (enumValue (fld r ''journalState'') [(''terminal'', ())] (c @ ''.journalState'')) (\<lambda>_.
     bind_res (assertSha256 (fld r ''reconcileRefSha256'') (c @ ''.reconcileRefSha256'')) (\<lambda>reconcile.
     bind_res (integer (fld r ''generation'') (c @ ''.generation'') 0) (\<lambda>generation.
     bind_res (integer (fld r ''automaticAttempts'') (c @ ''.automaticAttempts'') 0) (\<lambda>attempts.
     bind_res (assertSha256 (fld r ''proofSha256'') (c @ ''.proofSha256'')) (\<lambda>evidence.
     Inr \<lparr>pc_reconcileRefSha256 = reconcile, pc_generation = generation, pc_automaticAttempts = attempts, pc_proofSha256 = evidence\<rparr>))))))))"

definition PRIVACY_KEYS :: "string list" where
  "PRIVACY_KEYS = [''rawOcr'', ''rawTruth'', ''rawMedia'', ''tokens'', ''paths'', ''nativeIds'']"

definition privacy :: "json \<Rightarrow> string \<Rightarrow> acceptance_error + unit" where
  "privacy v c =
     bind_res (record_of v c) (\<lambda>r.
     then_res (exactKeys r PRIVACY_KEYS c)
     (for_each (\<lambda>k. fail_if (fld r k \<noteq> JBool False) (c @ ''.'' @ k @ '' must be false'')) PRIVACY_KEYS))"

section \<open>What the primitives accept\<close>

lemma fail_iff [simp]: "fail m \<noteq> Inr x" "Inr x \<noteq> fail m" "bind_res (fail m) f = fail m"
  by (simp_all add: fail_def)

lemma fail_if_Inr_iff [res_simps]: "fail_if b m = Inr u \<longleftrightarrow> \<not> b"
  by (simp add: fail_if_def res_simps)

lemma if_fail_iff [res_simps]: "(if b then fail m else x) = Inr y \<longleftrightarrow> \<not> b \<and> x = Inr y"
  by simp

lemma record_of_iff [res_simps]: "record_of v c = Inr r \<longleftrightarrow> v = JObj r"
  by (cases v) (auto simp: record_of_def)

lemma stringValue_iff [res_simps]: "stringValue v c = Inr s \<longleftrightarrow> v = JStr s \<and> s \<noteq> []"
  by (cases v) (auto simp: stringValue_def)

lemma opaque_iff [res_simps]: "opaque v c = Inr s \<longleftrightarrow> v = JStr s \<and> is_opaque s"
  by (auto simp: opaque_def res_simps is_opaque_def Let_def split: if_splits)

lemma empty_not_sha [simp]: "\<not> is_sha256_hex []"
  by code_simp

lemma assertSha256_iff [res_simps]: "assertSha256 v c = Inr s \<longleftrightarrow> v = JStr s \<and> is_sha256_hex s"
proof (cases v)
  case (JStr x)
  then show ?thesis by (cases "x = []"; cases "x = s") (simp_all add: assertSha256_def stringValue_def)
qed (simp_all add: assertSha256_def stringValue_def)

lemma integer_iff [res_simps]: "integer v c m = Inr i \<longleftrightarrow> v = JNum (num i) \<and> m \<le> i"
proof (cases v)
  case (JNum n)
  then show ?thesis by (cases n) (auto simp: integer_def num_def Let_def le_floor_iff)
qed (simp_all add: integer_def Let_def)

lemma nonNegativeFinite_iff [res_simps]: "nonNegativeFinite v c = Inr q \<longleftrightarrow> v = JNum (Fin q) \<and> 0 \<le> q"
  by (cases v) (auto simp: nonNegativeFinite_def Let_def split: jnum.splits if_splits)

lemma cerThreshold_iff [res_simps]:
  "cerThreshold h v k c = Inr q \<longleftrightarrow> v = JNum (Fin q) \<and> 0 \<le> q \<and> q \<le> 1 \<and> q = threshold_for h k"
  by (cases v) (auto simp: cerThreshold_def ratio_def Let_def res_simps split: jnum.splits if_splits)

lemma arrayValue_iff [res_simps]: "arrayValue v c = Inr xs \<longleftrightarrow> v = JArr xs \<and> xs \<noteq> []"
  by (cases v) (auto simp: arrayValue_def)

lemma enumValue_iff: "enumValue v allowed c = Inr x \<longleftrightarrow> (\<exists>s. v = JStr s \<and> map_of allowed s = Some x)"
  by (cases v) (auto simp: enumValue_def split: option.splits)

lemma uniqueDigests_iff [res_simps]: "uniqueDigests xs c = Inr ys \<longleftrightarrow> ys = xs \<and> distinct xs"
  by (auto simp: uniqueDigests_def)

lemma exactKeys_iff [res_simps]: "exactKeys r ks c = Inr u \<longleftrightarrow> sort (map fst r) = sort ks"
  by (simp add: exactKeys_def res_simps)

lemma assertGateTier_iff [res_simps]:
  "assertGateTier g t c = Inr u \<longleftrightarrow> t = (case g of D4 \<Rightarrow> Candidate | D7 \<Rightarrow> Published)"
  by (cases g; cases t) (simp_all add: assertGateTier_def res_simps)

text \<open>The strings that stand for the values of the enumerations.\<close>

definition gate_text :: "ParentGate \<Rightarrow> string" where
  "gate_text g = (case g of D4 \<Rightarrow> ''D4'' | D7 \<Rightarrow> ''D7'')"

definition tier_text :: "Tier \<Rightarrow> string" where
  "tier_text t = (case t of Candidate \<Rightarrow> ''candidate'' | Published \<Rightarrow> ''published'')"

definition kind_text :: "MediaKind \<Rightarrow> string" where
  "kind_text k = (case k of Jpeg \<Rightarrow> ''jpeg'' | Pdf \<Rightarrow> ''pdf'')"

definition outcome_text :: "bool \<Rightarrow> string" where
  "outcome_text p = (if p then ''passed'' else ''failed'')"

definition page_value :: "int option \<Rightarrow> json" where
  "page_value p = (case p of None \<Rightarrow> JNull | Some i \<Rightarrow> JNum (num i))"

lemma enum_texts [res_simps]:
  "enumValue v gates c = Inr g \<longleftrightarrow> v = JStr (gate_text g)"
  "enumValue v tiers c = Inr t \<longleftrightarrow> v = JStr (tier_text t)"
  "enumValue v media_kinds c = Inr k \<longleftrightarrow> v = JStr (kind_text k)"
  "enumValue v [(''passed'', True), (''failed'', False)] c = Inr p \<longleftrightarrow> v = JStr (outcome_text p)"
proof -
  note texts = gates_def gate_text_def tiers_def tier_text_def media_kinds_def kind_text_def outcome_text_def
  show "enumValue v gates c = Inr g \<longleftrightarrow> v = JStr (gate_text g)"
    unfolding enumValue_def by (cases g; cases v) (simp_all add: texts)
  show "enumValue v tiers c = Inr t \<longleftrightarrow> v = JStr (tier_text t)"
    unfolding enumValue_def by (cases t; cases v) (simp_all add: texts)
  show "enumValue v media_kinds c = Inr k \<longleftrightarrow> v = JStr (kind_text k)"
    unfolding enumValue_def by (cases k; cases v) (simp_all add: texts)
  show "enumValue v [(''passed'', True), (''failed'', False)] c = Inr p \<longleftrightarrow> v = JStr (outcome_text p)"
    unfolding enumValue_def by (cases p; cases v) (simp_all add: texts)
qed

lemma pageValue_iff [res_simps]:
  "pageValue v k c = Inr p \<longleftrightarrow> v = page_value p \<and> (case p of None \<Rightarrow> k = Jpeg | Some i \<Rightarrow> k = Pdf \<and> 1 \<le> i)"
  by (cases p) (auto simp: pageValue_def page_value_def res_simps num_def split: if_splits)

section \<open>Records up to the order of fields\<close>

lemma sorted_value_iff [simp]:
  "sorted_value v = JStr s \<longleftrightarrow> v = JStr s" "sorted_value v = JNum n \<longleftrightarrow> v = JNum n"
  "sorted_value v = JBool b \<longleftrightarrow> v = JBool b" "sorted_value v = JNull \<longleftrightarrow> v = JNull"
  by (cases v; simp)+

lemma sorted_value_array: "sorted_value v = JArr ys \<longleftrightarrow> (\<exists>xs. v = JArr xs \<and> map sorted_value xs = ys)"
  by (cases v) auto

lemma sorted_value_object: "sorted_value v = sorted_value (JObj r) \<Longrightarrow> \<exists>r'. v = JObj r'"
  by (cases v) auto

lemma fld_member: "distinct (map fst r) \<Longrightarrow> (k, x) \<in> set r \<Longrightarrow> fld r k = x"
  by (simp add: fld_def)

lemma sort_keys_eq: "distinct ks \<Longrightarrow> distinct ks' \<Longrightarrow> sort ks = sort ks' \<longleftrightarrow> set ks = set ks'" for ks :: "string list"
  by (metis set_sort sorted_distinct_set_unique distinct_sort sorted_sort)

lemma sorted_entries:
  assumes "distinct (map fst r)"
  shows "map (\<lambda>(k, x). (k, sorted_value x)) (sort_key fst r) = map (\<lambda>k. (k, sorted_value (fld r k))) (sort (map fst r))"
proof -
  have keys: "map fst (sort_key fst r) = sort (map fst r)"
    using assms by (intro sorted_distinct_set_unique) (simp_all add: distinct_map)
  have "map (\<lambda>(k, x). (k, sorted_value x)) (sort_key fst r)
      = map (\<lambda>e. (fst e, sorted_value (fld r (fst e)))) (sort_key fst r)"
    using fld_member[OF assms] by auto
  also have "\<dots> = map (\<lambda>k. (k, sorted_value (fld r k))) (map fst (sort_key fst r))" by simp
  finally show ?thesis unfolding keys .
qed

text \<open>Two objects are the same up to the order of entries when they have the same keys and the same values.\<close>

lemma same_record_iff:
  assumes "distinct (map fst r)" "distinct (map fst r')"
  shows "sorted_value (JObj r) = sorted_value (JObj r') \<longleftrightarrow>
    sort (map fst r) = sort (map fst r') \<and> (\<forall>k \<in> set (map fst r'). sorted_value (fld r k) = sorted_value (fld r' k))"
proof -
  have "map (\<lambda>k. (k, f k)) ks = map (\<lambda>k. (k, g k)) ks' \<longleftrightarrow> ks = ks' \<and> (\<forall>k \<in> set ks'. f k = g k)"
    for f g :: "string \<Rightarrow> json" and ks ks'
    by (induction ks arbitrary: ks') (auto simp: Cons_eq_map_conv)
  then show ?thesis unfolding sorted_value_simps json.inject sorted_entries[OF assms(1)] sorted_entries[OF assms(2)]
    by simp
qed

text \<open>On plain values the strict encoder and the encoder of the desktop application agree.\<close>

lemma map_res_all: "(\<And>x. x \<in> set xs \<Longrightarrow> f x = Inr (g x)) \<Longrightarrow> map_res f xs = Inr (map g xs)"
  by (induction xs) auto

lemma canonicalJsonValue_plain: "plain D v \<Longrightarrow> canonicalJsonValue h v = Inr (canonicalJson (ch_show h) v)"
proof (induction h v rule: canonicalJsonValue.induct)
  case (1 h v)
  show ?case
  proof (cases v)
    case (JArr xs)
    have "JUndef \<notin> set xs" "\<And>x. x \<in> set xs \<Longrightarrow> canonicalJsonValue h x = Inr (canonicalJson (ch_show h) x)"
      using 1 JArr by auto
    then show ?thesis
      using JArr by (simp add: canonicalJsonValue.simps[of h "JArr _"] canonicalJson_array map_res_all[where g = "canonicalJson (ch_show h)"])
  next
    case (JObj r)
    have "\<And>e. e \<in> set (sort_key fst r) \<Longrightarrow> canonicalJsonValue h (snd e) = Inr (canonicalJson (ch_show h) (snd e))"
      using 1 JObj by (auto simp: case_prod_unfold)
    then have "map_res (\<lambda>e. bind_res (canonicalJsonValue h (snd e)) (\<lambda>t. Inr (json_quote (fst e) @ '':'' @ t))) (sort_key fst r)
        = Inr (map (entry_text (ch_show h)) (sort_key fst r))"
      by (intro map_res_all) (simp add: entry_text_def)
    then show ?thesis using JObj by (simp add: canonicalJsonValue.simps[of h "JObj _"] canonicalJson_object)
  qed (use 1 in \<open>auto simp: canonicalJsonValue.simps[of h JNull] canonicalJsonValue.simps[of h "JBool _"]
      canonicalJsonValue.simps[of h "JNum _"] canonicalJsonValue.simps[of h "JStr _"]\<close>)
qed

definition self_digest :: "codec_host \<Rightarrow> string \<Rightarrow> jobj \<Rightarrow> string" where
  "self_digest h k r = ch_sha256 h (canonicalJson (ch_show h) (JObj (without k r)))"

lemma without_facts:
  assumes "distinct (map fst r)"
  shows "distinct (map fst (without k r))" "set (map fst (without k r)) = set (map fst r) - {k}"
    "k' \<noteq> k \<Longrightarrow> fld (without k r) k' = fld r k'"
proof -
  show "distinct (map fst (without k r))" using assms by (simp add: without_def distinct_map_filter)
  show "set (map fst (without k r)) = set (map fst r) - {k}" by (auto simp: without_def)
  show "k' \<noteq> k \<Longrightarrow> fld (without k r) k' = fld r k'" unfolding without_def by (induction r) auto
qed

lemma without_same:
  assumes "distinct (map fst r)" "distinct (map fst r')" "sorted_value (JObj r) = sorted_value (JObj r')"
  shows "sorted_value (JObj (without k r)) = sorted_value (JObj (without k r'))"
proof -
  have same: "sort (map fst r) = sort (map fst r')" "\<forall>k \<in> set (map fst r'). sorted_value (fld r k) = sorted_value (fld r' k)"
    using assms same_record_iff by blast+
  have "sort (map fst (without k r)) = sort (map fst (without k r'))"
    using same(1) without_facts(1,2)[OF assms(1)] without_facts(1,2)[OF assms(2)] sort_keys_eq assms(1,2) by metis
  then show ?thesis
    using same(2) without_facts[OF assms(1)] without_facts[OF assms(2)] by (subst same_record_iff) auto
qed

lemma self_digest_same:
  "distinct (map fst r) \<Longrightarrow> distinct (map fst r') \<Longrightarrow> sorted_value (JObj r) = sorted_value (JObj r') \<Longrightarrow> self_digest h k r = self_digest h k r'"
  unfolding self_digest_def by (metis without_same canonical_sorted)

lemma selfExcludedDigest_plain: "plain D (JObj r) \<Longrightarrow> selfExcludedDigest h r k = Inr (self_digest h k r)"
proof -
  assume "plain D (JObj r)"
  then have "plain D (JObj (without k r))" using without_facts(1)[of r k] by (auto simp: without_def)
  from canonicalJsonValue_plain[OF this, of h] show ?thesis
    by (simp add: selfExcludedDigest_def sha256Canonical_def self_digest_def)
qed

text \<open>What reading a field of a plain object gives: a plain value, or \<open>undefined\<close>.\<close>

definition definable :: "rat set \<Rightarrow> json \<Rightarrow> bool" where
  "definable D v \<longleftrightarrow> v = JUndef \<or> plain D v"

lemma definable_simps [simp]:
  "definable D (JObj r) \<longleftrightarrow> plain D (JObj r)" "definable D (JArr xs) \<longleftrightarrow> plain D (JArr xs)" "plain D v \<Longrightarrow> definable D v"
  by (auto simp: definable_def)

lemma definable_fld: "plain D (JObj r) \<Longrightarrow> definable D (fld r k)"
  by (auto simp: fld_def definable_def split: option.splits dest!: map_of_SomeD)

section \<open>Codecs\<close>

text \<open>What a decoder promises: it accepts exactly the values that are, up to the order of fields, the
  rendering of a valid record, and returns that record. The second argument of a decoder, the path
  that error messages name, does not matter.\<close>

locale codec =
  fixes D :: "rat set"
    and decode :: "json \<Rightarrow> string \<Rightarrow> acceptance_error + 'a"
    and render :: "'a \<Rightarrow> json"
    and valid :: "'a \<Rightarrow> bool"
  assumes decode_iff: "definable D v \<Longrightarrow> decode v c = Inr b \<longleftrightarrow> sorted_value v = sorted_value (render b) \<and> valid b"
begin

lemma decode_render: "plain D (render b) \<Longrightarrow> valid b \<Longrightarrow> decode (render b) c = Inr b"
  by (simp add: decode_iff)

lemma decode_valid: "decode v c = Inr b \<Longrightarrow> definable D v \<Longrightarrow> valid b"
  by (simp add: decode_iff)

lemma decode_items:
  "\<forall>v \<in> set vs. plain D v \<Longrightarrow> map_index (\<lambda>x i. decode x (item_at c i)) k vs = Inr bs
     \<longleftrightarrow> map sorted_value vs = map (\<lambda>b. sorted_value (render b)) bs \<and> (\<forall>b \<in> set bs. valid b)"
proof (induction vs arbitrary: k bs)
  case (Cons v vs)
  then show ?case by (cases bs) (auto simp: res_simps decode_iff)
qed auto

text \<open>A nonempty array of items that pass a joint check.\<close>

lemma decode_array:
  assumes "definable D v"
    and "\<And>bs. check bs = Inr () \<longleftrightarrow> ok bs"
  shows "bind_res (arrayValue v c) (\<lambda>items. bind_res (map_index (\<lambda>x i. decode x (item_at c i)) 0 items) (\<lambda>bs.
      then_res (check bs) (Inr bs))) = Inr bs
    \<longleftrightarrow> sorted_value v = sorted_value (JArr (map render bs)) \<and> bs \<noteq> [] \<and> (\<forall>b \<in> set bs. valid b) \<and> ok bs"
proof (cases v)
  case (JArr vs)
  then have "\<forall>v \<in> set vs. plain D v" using assms(1) by simp
  from decode_items[OF this, of c 0 bs] show ?thesis
    using JArr assms(2)[of bs] by (auto simp: res_simps comp_def)
qed (auto simp: res_simps)

end

text \<open>A record decoder looks at the fields of an object.\<close>

lemma object_iff:
  assumes "definable D v" "distinct (map fst f)"
  shows "sorted_value v = sorted_value (JObj f) \<longleftrightarrow> (\<exists>r. v = JObj r \<and> sort (map fst r) = sort (map fst f)
      \<and> (\<forall>k \<in> set (map fst f). sorted_value (fld r k) = sorted_value (fld f k)))"
proof (cases v)
  case (JObj r)
  then have "distinct (map fst r)" using assms(1) by simp
  from same_record_iff[OF this assms(2)] show ?thesis using JObj by auto
qed auto

definition scalar :: "json \<Rightarrow> bool" where
  "scalar x = (case x of JArr _ \<Rightarrow> False | JObj _ \<Rightarrow> False | _ \<Rightarrow> True)"

lemma scalar_simps [simp]:
  "scalar (JStr s)" "scalar (JNum n)" "scalar (JBool b)" "scalar JNull" "\<not> scalar (JArr xs)" "\<not> scalar (JObj r)" "scalar (page_value p)"
  by (simp_all add: scalar_def page_value_def split: option.split)

lemma sorted_value_scalar: "scalar x \<Longrightarrow> sorted_value v = sorted_value x \<longleftrightarrow> v = x"
  by (cases x) (auto simp: scalar_def)

lemma flat_object_iff:
  assumes "definable D v" "distinct (map fst f)" "list_all (\<lambda>e. scalar (snd e)) f"
  shows "sorted_value v = sorted_value (JObj f) \<longleftrightarrow> (\<exists>r. v = JObj r \<and> sort (map fst r) = sort (map fst f)
      \<and> (\<forall>k \<in> set (map fst f). fld r k = fld f k))"
proof -
  have "scalar (fld f k)" if "k \<in> set (map fst f)" for k
    using that assms(2,3) fld_member[OF assms(2)] by (force simp: list_all_iff)
  then show ?thesis unfolding object_iff[OF assms(1,2)] using sorted_value_scalar by auto
qed

section \<open>Root bindings\<close>

definition render_root :: "RootBinding \<Rightarrow> json" where
  "render_root b = JObj [(''ordinal'', JNum (num (rb_ordinal b))), (''role'', JStr (rb_role b)),
     (''rootRefDigest'', JStr (rb_rootRefDigest b)), (''rootGeneration'', JNum (num (rb_rootGeneration b))),
     (''specDigest'', JStr (rb_specDigest b)), (''reservedListenerIdentity'', JStr (rb_reservedListenerIdentity b))]"

definition valid_root :: "RootBinding \<Rightarrow> bool" where
  "valid_root b \<longleftrightarrow> 0 \<le> rb_ordinal b \<and> rb_role b \<noteq> [] \<and> is_sha256_hex (rb_rootRefDigest b) \<and> 0 \<le> rb_rootGeneration b
     \<and> is_sha256_hex (rb_specDigest b) \<and> is_opaque (rb_reservedListenerIdentity b)"

interpretation root: codec D root_binding render_root valid_root for D
proof
  fix v c b
  assume v: "definable D v"
  show "root_binding v c = Inr b \<longleftrightarrow> sorted_value v = sorted_value (render_root b) \<and> valid_root b"
    unfolding render_root_def
    by (subst object_iff[OF v], simp, cases b) (auto simp: root_binding_def res_simps ROOT_BINDING_KEYS_def valid_root_def)
qed

text \<open>Roots in order: numbered from zero, with different roles and different roots.\<close>

definition roots_ordered :: "RootBinding list \<Rightarrow> bool" where
  "roots_ordered bs \<longleftrightarrow> map rb_ordinal bs = map int [0..<length bs] \<and> distinct (map rb_role bs) \<and> distinct (map rb_rootRefDigest bs)"

lemma check_roots_iff:
  "check_roots c i roles roots bs = Inr u \<longleftrightarrow> map rb_ordinal bs = map int [i..<i + length bs]
     \<and> distinct (map rb_role bs) \<and> set (map rb_role bs) \<inter> set roles = {}
     \<and> distinct (map rb_rootRefDigest bs) \<and> set (map rb_rootRefDigest bs) \<inter> set roots = {}"
proof (induction bs arbitrary: i roles roots)
  case (Cons b bs)
  have "[i..<i + length (b # bs)] = i # [Suc i..<Suc i + length bs]" using upt_conv_Cons[of i "i + length (b # bs)"] by simp
  then show ?case using Cons.IH[of "Suc i" "rb_role b # roles" "rb_rootRefDigest b # roots"] by (auto simp: res_simps)
qed simp

lemma rootBindings_iff:
  assumes "definable D v"
  shows "rootBindings v c = Inr bs \<longleftrightarrow> sorted_value v = sorted_value (JArr (map render_root bs))
    \<and> bs \<noteq> [] \<and> (\<forall>b \<in> set bs. valid_root b) \<and> roots_ordered bs"
  unfolding rootBindings_def
  by (rule root.decode_array[OF assms]) (simp add: check_roots_iff roots_ordered_def)

section \<open>Bound bindings\<close>

definition bound_entries :: "BoundBinding \<Rightarrow> jobj" where
  "bound_entries b = [(''bindingAttemptId'', JStr (bb_bindingAttemptId b)), (''groupRefDigest'', JStr (bb_groupRefDigest b)),
     (''groupGeneration'', JNum (num (bb_groupGeneration b))), (''rootBindings'', JArr (map render_root (bb_rootBindings b))),
     (''activationReceiptDigest'', JStr (bb_activationReceiptDigest b))]"

definition valid_bound :: "BoundBinding \<Rightarrow> bool" where
  "valid_bound b \<longleftrightarrow> is_opaque (bb_bindingAttemptId b) \<and> is_sha256_hex (bb_groupRefDigest b) \<and> 0 \<le> bb_groupGeneration b
     \<and> bb_rootBindings b \<noteq> [] \<and> (\<forall>x \<in> set (bb_rootBindings b). valid_root x) \<and> roots_ordered (bb_rootBindings b)
     \<and> is_sha256_hex (bb_activationReceiptDigest b)"

lemma bound_fields_iff:
  assumes "plain D (JObj r)"
  shows "bound_fields r c = Inr b \<longleftrightarrow> (\<forall>k \<in> set EXPECTED_BINDING_KEYS. sorted_value (fld r k) = sorted_value (fld (bound_entries b) k))
    \<and> valid_bound b"
proof -
  note roots = rootBindings_iff[OF definable_fld[OF assms]]
  show ?thesis
    by (cases b) (auto simp: bound_fields_def res_simps roots EXPECTED_BINDING_KEYS_def bound_entries_def valid_bound_def)
qed

interpretation expected: codec D expectedBindingContext "\<lambda>b. JObj (bound_entries b)" valid_bound for D
proof
  fix v c b
  assume v: "definable D v"
  have keys: "map fst (bound_entries b) = EXPECTED_BINDING_KEYS" by (simp add: bound_entries_def EXPECTED_BINDING_KEYS_def)
  have "distinct (map fst (bound_entries b))" by (simp add: bound_entries_def)
  from object_iff[OF v this]
  show "expectedBindingContext v c = Inr b \<longleftrightarrow> sorted_value v = sorted_value (JObj (bound_entries b)) \<and> valid_bound b"
    unfolding keys using bound_fields_iff v by (auto simp: expectedBindingContext_def res_simps)
qed

lemma same_root_eq: "same_root a b \<longleftrightarrow> a = b"
  by (cases a; cases b) (auto simp: same_root_def)

text \<open>The binding is the expected one.\<close>

lemma assertBindingMatches_iff:
  "assertBindingMatches b e c = Inr u \<longleftrightarrow> expectedBindingContext e (c @ ''.expected'') = Inr b"
proof -
  have "length xs = length ys \<Longrightarrow> \<not> list_ex (\<lambda>(a, b). \<not> same_root a b) (zip xs ys) \<longleftrightarrow> xs = ys" for xs ys
    by (induction xs ys rule: list_induct2) (auto simp: same_root_eq)
  then show ?thesis
    by (cases b) (auto simp: assertBindingMatches_def res_simps intro: BoundBinding.equality)
qed

definition render_binding :: "Binding \<Rightarrow> json" where
  "render_binding b = (case b of Unbound \<Rightarrow> JObj [(''kind'', JStr ''unbound'')]
     | Bound x \<Rightarrow> JObj ((''kind'', JStr ''bound'') # bound_entries x))"

definition valid_binding :: "Binding \<Rightarrow> bool" where
  "valid_binding b \<longleftrightarrow> (case b of Unbound \<Rightarrow> True | Bound x \<Rightarrow> valid_bound x)"

lemma kind_iff: "enumValue v [(''unbound'', False), (''bound'', True)] c = Inr k \<longleftrightarrow> v = JStr (if k then ''bound'' else ''unbound'')"
  by (cases v; cases k) (simp_all add: enumValue_def)

lemma binding_iff:
  "binding v c = Inr b \<longleftrightarrow> (\<exists>r. v = JObj r \<and> (case b of
       Unbound \<Rightarrow> fld r ''kind'' = JStr ''unbound'' \<and> sort (map fst r) = sort [''kind'']
     | Bound x \<Rightarrow> fld r ''kind'' = JStr ''bound'' \<and> sort (map fst r) = sort (''kind'' # EXPECTED_BINDING_KEYS) \<and> bound_fields r c = Inr x))"
proof -
  have "bind_res (enumValue k [(''unbound'', False), (''bound'', True)] e) f = Inr b \<longleftrightarrow>
      k = JStr ''bound'' \<and> f True = Inr b \<or> k = JStr ''unbound'' \<and> f False = Inr b" for k e f
    unfolding bind_res_Inr_iff kind_iff by (auto split: if_splits)
  then show ?thesis
    unfolding binding_def bind_res_Inr_iff[of "record_of v c"] record_of_iff
    by (cases b) (auto simp: res_simps)
qed

interpretation binding: codec D binding render_binding valid_binding for D
proof
  fix v c b
  assume v: "definable D v"
  show "binding v c = Inr b \<longleftrightarrow> sorted_value v = sorted_value (render_binding b) \<and> valid_binding b"
  proof (cases b)
    case Unbound
    have "distinct (map fst [(''kind'', JStr ''unbound'')])" by simp
    from object_iff[OF v this] show ?thesis
      unfolding Unbound render_binding_def valid_binding_def Binding.case
      by (auto simp: binding_iff)
  next
    case (Bound x)
    have keys: "map fst ((''kind'', JStr ''bound'') # bound_entries x) = ''kind'' # EXPECTED_BINDING_KEYS"
      by (simp add: bound_entries_def EXPECTED_BINDING_KEYS_def)
    have "distinct (''kind'' # EXPECTED_BINDING_KEYS)" by (simp add: EXPECTED_BINDING_KEYS_def)
    then have iff: "sorted_value v = sorted_value (JObj ((''kind'', JStr ''bound'') # bound_entries x)) \<longleftrightarrow>
      (\<exists>r. v = JObj r \<and> sort (map fst r) = sort (''kind'' # EXPECTED_BINDING_KEYS) \<and> fld r ''kind'' = JStr ''bound''
        \<and> (\<forall>k \<in> set EXPECTED_BINDING_KEYS. sorted_value (fld r k) = sorted_value (fld (bound_entries x) k)))"
      using object_iff[OF v, of "(''kind'', JStr ''bound'') # bound_entries x"] unfolding keys
      by (auto simp: EXPECTED_BINDING_KEYS_def)
    show ?thesis
      unfolding Bound render_binding_def valid_binding_def Binding.case iff
      using bound_fields_iff v by (auto simp: binding_iff)
  qed
qed

end
