(* ===== verification/Acceptance_Fixtures.thy ===== *)
theory Acceptance_Fixtures
  imports Acceptance_Records
begin

text \<open>
  \<^verbatim>\<open>packages/capture-acceptance-contract/src/codecs.ts\<close>: what the decoders of fixture assignments,
  fixture results, ledgers, clean-up proofs and privacy flags accept. Each is an instance of the
  \<open>codec\<close> contract with the rendering of the record and the conditions on a valid one.
\<close>

section \<open>Fixture assignments\<close>

definition assignment_entries :: "FixtureAssignment \<Rightarrow> jobj" where
  "assignment_entries a = [(''fixtureIndex'', JNum (num (fa_fixtureIndex a))), (''fixtureKey'', JStr (fa_fixtureKey a)),
     (''fixtureIdentitySha256'', JStr (fa_fixtureIdentitySha256 a)), (''mediaKind'', JStr (kind_text (fa_mediaKind a))),
     (''page'', page_value (fa_page a)), (''mediaCapabilityHandle'', JStr (fa_mediaCapabilityHandle a)),
     (''mediaCapabilityHandleSha256'', JStr (fa_mediaCapabilityHandleSha256 a)),
     (''oracleCapabilityHandle'', JStr (fa_oracleCapabilityHandle a)),
     (''oracleCapabilityHandleSha256'', JStr (fa_oracleCapabilityHandleSha256 a)), (''mediaSha256'', JStr (fa_mediaSha256 a)),
     (''oracleSha256'', JStr (fa_oracleSha256 a)), (''expectedNormalizedTruthSha256'', JStr (fa_expectedNormalizedTruthSha256 a)),
     (''expectedAnchorSetSha256'', JStr (fa_expectedAnchorSetSha256 a)), (''cerThreshold'', JNum (Fin (fa_cerThreshold a))),
     (''artifactId'', JStr (fa_artifactId a))]"

definition page_of_kind :: "MediaKind \<Rightarrow> int option \<Rightarrow> bool" where
  "page_of_kind k p \<longleftrightarrow> (case p of None \<Rightarrow> k = Jpeg | Some i \<Rightarrow> k = Pdf \<and> 1 \<le> i)"

text \<open>What the fields have to be, but for the digest of the assignment itself.\<close>

definition assignment_fields_ok :: "codec_host \<Rightarrow> FixtureAssignment \<Rightarrow> bool" where
  "assignment_fields_ok h a \<longleftrightarrow> 0 \<le> fa_fixtureIndex a \<and> fa_fixtureKey a \<noteq> [] \<and> page_of_kind (fa_mediaKind a) (fa_page a)
     \<and> is_opaque (fa_mediaCapabilityHandle a) \<and> is_opaque (fa_oracleCapabilityHandle a)
     \<and> list_all is_sha256_hex [fa_fixtureIdentitySha256 a, fa_mediaCapabilityHandleSha256 a, fa_oracleCapabilityHandleSha256 a,
         fa_mediaSha256 a, fa_oracleSha256 a, fa_expectedNormalizedTruthSha256 a, fa_expectedAnchorSetSha256 a, fa_artifactId a]
     \<and> 0 \<le> fa_cerThreshold a \<and> fa_cerThreshold a \<le> 1 \<and> fa_cerThreshold a = threshold_for h (fa_mediaKind a)"

definition valid_assignment :: "codec_host \<Rightarrow> FixtureAssignment \<Rightarrow> bool" where
  "valid_assignment h a \<longleftrightarrow> assignment_fields_ok h a
     \<and> self_digest h ''fixtureIdentitySha256'' (assignment_entries a) = fa_fixtureIdentitySha256 a"

lemma fixtureAssignment_iff:
  assumes "plain D (JObj r)"
  shows "fixtureAssignment h (JObj r) c = Inr a \<longleftrightarrow> sort (map fst r) = sort FIXTURE_ASSIGNMENT_KEYS
    \<and> (\<forall>k \<in> set FIXTURE_ASSIGNMENT_KEYS. fld r k = fld (assignment_entries a) k)
    \<and> assignment_fields_ok h a \<and> self_digest h ''fixtureIdentitySha256'' r = fa_fixtureIdentitySha256 a"
  unfolding fixtureAssignment_def assignment_fields_ok_def
  by (cases a) (auto simp: selfExcludedDigest_plain[OF assms] res_simps FIXTURE_ASSIGNMENT_KEYS_def assignment_entries_def
      page_of_kind_def)

lemma assignment_keys [simp]: "map fst (assignment_entries a) = FIXTURE_ASSIGNMENT_KEYS"
  by (simp add: assignment_entries_def FIXTURE_ASSIGNMENT_KEYS_def)

lemma keys_distinct [simp]: "distinct FIXTURE_ASSIGNMENT_KEYS" "distinct SEMANTIC_RESULT_KEYS"
  by (simp_all add: FIXTURE_ASSIGNMENT_KEYS_def SEMANTIC_RESULT_KEYS_def)

interpretation assignment: codec D "fixtureAssignment h" "\<lambda>a. JObj (assignment_entries a)" "valid_assignment h" for D h
proof
  fix v c a
  assume v: "definable D v"
  have flat: "list_all (\<lambda>e. scalar (snd e)) (assignment_entries a)" by (simp add: assignment_entries_def)
  have keys: "distinct (map fst (assignment_entries a))" by simp
  note same = flat_object_iff[OF v keys flat, unfolded assignment_keys]
  show "fixtureAssignment h v c = Inr a \<longleftrightarrow> sorted_value v = sorted_value (JObj (assignment_entries a)) \<and> valid_assignment h a"
  proof (cases v)
    case (JObj r)
    then have "plain D (JObj r)" "distinct (map fst r)" using v by simp_all
    moreover have "self_digest h f r = self_digest h f (assignment_entries a)" if "sorted_value v = sorted_value (JObj (assignment_entries a))" for f
      using self_digest_same[OF \<open>distinct (map fst r)\<close> keys] that JObj by simp
    ultimately show ?thesis
      using fixtureAssignment_iff[of D r h c a] same JObj by (auto simp: valid_assignment_def)
  qed (auto simp: fixtureAssignment_def res_simps)
qed

definition numbered :: "('a \<Rightarrow> int) \<Rightarrow> ('a \<Rightarrow> string) \<Rightarrow> 'a list \<Rightarrow> bool" where
  "numbered index key xs \<longleftrightarrow> map index xs = map int [0..<length xs] \<and> distinct (map key xs)"

lemma check_ordered_iff:
  "check_ordered index key c i seen xs = Inr u \<longleftrightarrow> map index xs = map int [i..<i + length xs]
     \<and> distinct (map key xs) \<and> set (map key xs) \<inter> set seen = {}"
proof (induction xs arbitrary: i seen)
  case (Cons x xs)
  have "[i..<i + length (x # xs)] = i # [Suc i..<Suc i + length xs]" using upt_conv_Cons[of i "i + length (x # xs)"] by simp
  then show ?case using Cons.IH[of "Suc i" "key x # seen"] by (auto simp: res_simps)
qed simp

lemma orderedAssignments_iff:
  assumes "definable D v"
  shows "orderedAssignments h v c = Inr xs \<longleftrightarrow> sorted_value v = sorted_value (JArr (map (\<lambda>a. JObj (assignment_entries a)) xs))
    \<and> xs \<noteq> [] \<and> (\<forall>a \<in> set xs. valid_assignment h a) \<and> numbered fa_fixtureIndex fa_fixtureKey xs"
  unfolding orderedAssignments_def
  by (rule assignment.decode_array[OF assms]) (simp add: check_ordered_iff numbered_def)

section \<open>Fixture results\<close>

definition result_entries :: "SemanticFixtureResult \<Rightarrow> jobj" where
  "result_entries x = [(''fixtureIndex'', JNum (num (sf_fixtureIndex x))), (''fixtureKey'', JStr (sf_fixtureKey x)),
     (''fixtureIdentitySha256'', JStr (sf_fixtureIdentitySha256 x)), (''mediaKind'', JStr (kind_text (sf_mediaKind x))),
     (''page'', page_value (sf_page x)), (''mediaCapabilityHandleSha256'', JStr (sf_mediaCapabilityHandleSha256 x)),
     (''oracleCapabilityHandleSha256'', JStr (sf_oracleCapabilityHandleSha256 x)), (''mediaSha256'', JStr (sf_mediaSha256 x)),
     (''oracleSha256'', JStr (sf_oracleSha256 x)), (''actualNormalizedOutputSha256'', JStr (sf_actualNormalizedOutputSha256 x)),
     (''expectedNormalizedTruthSha256'', JStr (sf_expectedNormalizedTruthSha256 x)),
     (''expectedAnchorSetSha256'', JStr (sf_expectedAnchorSetSha256 x)), (''cer'', JNum (Fin (sf_cer x))),
     (''anchorOmissions'', JNum (num (sf_anchorOmissions x))), (''cerThreshold'', JNum (Fin (sf_cerThreshold x))),
     (''outcome'', JStr (outcome_text (sf_passed x))), (''projectionSha256'', JStr (sf_projectionSha256 x)),
     (''artifactId'', JStr (sf_artifactId x))]"

definition valid_result :: "codec_host \<Rightarrow> SemanticFixtureResult \<Rightarrow> bool" where
  "valid_result h x \<longleftrightarrow> 0 \<le> sf_fixtureIndex x \<and> sf_fixtureKey x \<noteq> [] \<and> page_of_kind (sf_mediaKind x) (sf_page x)
     \<and> list_all is_sha256_hex [sf_fixtureIdentitySha256 x, sf_mediaCapabilityHandleSha256 x, sf_oracleCapabilityHandleSha256 x,
         sf_mediaSha256 x, sf_oracleSha256 x, sf_actualNormalizedOutputSha256 x, sf_expectedNormalizedTruthSha256 x,
         sf_expectedAnchorSetSha256 x, sf_projectionSha256 x, sf_artifactId x]
     \<and> 0 \<le> sf_cer x \<and> 0 \<le> sf_anchorOmissions x
     \<and> 0 \<le> sf_cerThreshold x \<and> sf_cerThreshold x \<le> 1 \<and> sf_cerThreshold x = threshold_for h (sf_mediaKind x)
     \<and> (sf_passed x \<longleftrightarrow> sf_cer x \<le> sf_cerThreshold x \<and> sf_anchorOmissions x = 0)
     \<and> (sf_cer x = 0 \<longleftrightarrow> sf_actualNormalizedOutputSha256 x = sf_expectedNormalizedTruthSha256 x)"

lemma result_keys [simp]: "map fst (result_entries x) = SEMANTIC_RESULT_KEYS"
  by (simp add: result_entries_def SEMANTIC_RESULT_KEYS_def)

interpretation result: codec D "semanticFixtureResult h" "\<lambda>x. JObj (result_entries x)" "valid_result h" for D h
proof
  fix v c x
  assume v: "definable D v"
  have flat: "list_all (\<lambda>e. scalar (snd e)) (result_entries x)" by (simp add: result_entries_def)
  have keys: "distinct (map fst (result_entries x))" by simp
  note same = flat_object_iff[OF v keys flat, unfolded result_keys]
  show "semanticFixtureResult h v c = Inr x \<longleftrightarrow> sorted_value v = sorted_value (JObj (result_entries x)) \<and> valid_result h x"
    unfolding same
    by (cases x) (auto simp: semanticFixtureResult_def res_simps SEMANTIC_RESULT_KEYS_def result_entries_def valid_result_def page_of_kind_def)
qed

lemma orderedSemanticResults_iff:
  assumes "definable D v"
  shows "orderedSemanticResults h v c = Inr xs \<longleftrightarrow> sorted_value v = sorted_value (JArr (map (\<lambda>x. JObj (result_entries x)) xs))
    \<and> xs \<noteq> [] \<and> (\<forall>x \<in> set xs. valid_result h x) \<and> numbered sf_fixtureIndex sf_fixtureKey xs"
  unfolding orderedSemanticResults_def
  by (rule result.decode_array[OF assms]) (simp add: check_ordered_iff numbered_def)

text \<open>On the wire a result also names how it was normalized and measured.\<close>

definition method_entries :: jobj where
  "method_entries = [(''normalization'', JStr ''nfkc-whitespace-v1''), (''distance'', JStr ''code-point-levenshtein-v1'')]"

definition wire_entries :: "SemanticFixtureResult \<Rightarrow> jobj" where
  "wire_entries x = result_entries x @ method_entries"

lemma wire_keys: "map fst (wire_entries x) = SEMANTIC_RESULT_KEYS @ [''normalization'', ''distance'']"
  by (simp add: wire_entries_def method_entries_def)

lemma wire_keys_distinct: "distinct (SEMANTIC_RESULT_KEYS @ [''normalization'', ''distance''])"
  by (simp add: SEMANTIC_RESULT_KEYS_def)

lemma fld_append: "fld (r @ r') k = (if k \<in> set (map fst r) then fld r k else fld r' k)"
proof (induction r)
  case (Cons e r)
  then show ?case by (cases e) (simp split: if_splits)
qed simp

interpretation wire_result: codec D "wireFixtureResult h" "\<lambda>x. JObj (wire_entries x)" "valid_result h" for D h
proof
  fix v c x
  assume v: "definable D v"
  have flat: "list_all (\<lambda>e. scalar (snd e)) (result_entries x)" by (simp add: result_entries_def)
  have wflat: "list_all (\<lambda>e. scalar (snd e)) (wire_entries x)" by (simp add: wire_entries_def method_entries_def flat)
  have keys: "distinct (map fst (result_entries x))" "distinct (map fst (wire_entries x))"
    using wire_keys_distinct by (simp_all add: wire_keys)
  have "semanticFixtureResult h (JObj (without ''distance'' (without ''normalization'' r))) c = Inr x \<longleftrightarrow>
      (\<forall>k \<in> set SEMANTIC_RESULT_KEYS. fld r k = fld (result_entries x) k) \<and> valid_result h x"
    if r: "v = JObj r" "sort (map fst r) = sort (SEMANTIC_RESULT_KEYS @ [''normalization'', ''distance''])" for r
  proof -
    let ?r = "without ''distance'' (without ''normalization'' r)"
    have d: "distinct (map fst r)" using v r(1) by simp
    note one = without_facts[OF d, where k = "''normalization''"]
    note two = without_facts[OF one(1), where k = "''distance''"]
    have plain: "definable D (JObj ?r)" using v r(1) two(1) by (auto simp: without_def)
    have "set (map fst r) = set (SEMANTIC_RESULT_KEYS @ [''normalization'', ''distance''])"
      using r(2) by (metis set_sort)
    then have "set (map fst ?r) = set SEMANTIC_RESULT_KEYS"
      using wire_keys_distinct unfolding two(2) one(2) by auto
    then have "sort (map fst ?r) = sort SEMANTIC_RESULT_KEYS" using sort_keys_eq[OF two(1)] by simp
    moreover have "fld ?r k = fld r k" if "k \<in> set SEMANTIC_RESULT_KEYS" for k
    proof -
      have "k \<noteq> ''distance''" "k \<noteq> ''normalization''" using that wire_keys_distinct by auto
      then show ?thesis using one(3) two(3) by simp
    qed
    ultimately show ?thesis
      unfolding result.decode_iff[OF plain] flat_object_iff[OF plain keys(1) flat] result_keys by auto
  qed
  note semantic = this
  have "(\<forall>k \<in> set (SEMANTIC_RESULT_KEYS @ [''normalization'', ''distance'']). fld r k = fld (wire_entries x) k) \<longleftrightarrow>
      (\<forall>k \<in> set SEMANTIC_RESULT_KEYS. fld r k = fld (result_entries x) k)
      \<and> fld r ''normalization'' = JStr ''nfkc-whitespace-v1'' \<and> fld r ''distance'' = JStr ''code-point-levenshtein-v1''" for r
    using wire_keys_distinct by (auto simp: wire_entries_def fld_append method_entries_def)
  note fields = this
  have one: "enumValue w [(s, ())] e = Inr y \<longleftrightarrow> w = JStr s" for w s e y
    by (cases w) (auto simp: enumValue_def)
  show "wireFixtureResult h v c = Inr x \<longleftrightarrow> sorted_value v = sorted_value (JObj (wire_entries x)) \<and> valid_result h x"
    unfolding flat_object_iff[OF v keys(2) wflat] wire_keys fields
    using semantic by (auto simp: wireFixtureResult_def res_simps one)
qed

lemma orderedWireResults_iff:
  assumes "definable D v"
  shows "orderedWireResults h v c = Inr xs \<longleftrightarrow> sorted_value v = sorted_value (JArr (map (\<lambda>x. JObj (wire_entries x)) xs))
    \<and> xs \<noteq> [] \<and> (\<forall>x \<in> set xs. valid_result h x) \<and> numbered sf_fixtureIndex sf_fixtureKey xs"
  unfolding orderedWireResults_def
  by (rule wire_result.decode_array[OF assms]) (simp add: check_ordered_iff numbered_def)

section \<open>Ledgers\<close>

definition ledger_entries :: "LedgerBinding \<Rightarrow> jobj" where
  "ledger_entries l = (case l of
       LedgerD3 a b d \<Rightarrow> [(''sourceGate'', JStr ''D3''), (''ledgerSha256'', JStr a), (''candidateId'', JStr b), (''candidateManifestSha256'', JStr d)]
     | LedgerD6 a b d \<Rightarrow> [(''sourceGate'', JStr ''D6''), (''ledgerSha256'', JStr a), (''publicationLedgerSha256'', JStr b),
         (''downloadBundleSha256'', JStr d)])"

definition valid_ledger :: "LedgerBinding \<Rightarrow> bool" where
  "valid_ledger l = (case l of LedgerD3 a b d \<Rightarrow> list_all is_sha256_hex [a, b, d] | LedgerD6 a b d \<Rightarrow> list_all is_sha256_hex [a, b, d])"

lemma source_gate_iff:
  "enumValue v [(''D3'', False), (''D6'', True)] c = Inr d6 \<longleftrightarrow> v = JStr (if d6 then ''D6'' else ''D3'')"
  by (cases v; cases d6) (simp_all add: enumValue_def)

lemma bind_source_gate:
  "bind_res (enumValue v [(''D3'', False), (''D6'', True)] c) f = Inr x \<longleftrightarrow>
     v = JStr ''D3'' \<and> f False = Inr x \<or> v = JStr ''D6'' \<and> f True = Inr x"
  unfolding bind_res_Inr_iff source_gate_iff by (auto split: if_splits)

interpretation ledger: codec D ledgerBinding "\<lambda>l. JObj (ledger_entries l)" valid_ledger for D
proof
  fix v c l
  assume v: "definable D v"
  have keys: "distinct (map fst (ledger_entries l))" and flat: "list_all (\<lambda>e. scalar (snd e)) (ledger_entries l)"
    by (cases l; simp add: ledger_entries_def)+
  show "ledgerBinding v c = Inr l \<longleftrightarrow> sorted_value v = sorted_value (JObj (ledger_entries l)) \<and> valid_ledger l"
    unfolding flat_object_iff[OF v keys flat] ledgerBinding_def bind_res_Inr_iff[of "record_of v c"] record_of_iff bind_source_gate
    by (cases l) (auto simp: res_simps ledger_entries_def valid_ledger_def)
qed

definition digest_entries :: "ArtifactDigest \<Rightarrow> jobj" where
  "digest_entries a = [(''artifactKey'', JStr (ad_artifactKey a)), (''sha256'', JStr (ad_sha256 a))]"

definition valid_digest :: "ArtifactDigest \<Rightarrow> bool" where
  "valid_digest a \<longleftrightarrow> is_opaque (ad_artifactKey a) \<and> is_sha256_hex (ad_sha256 a)"

interpretation artifact: codec D artifact_digest "\<lambda>a. JObj (digest_entries a)" valid_digest for D
proof
  fix v c a
  assume v: "definable D v"
  have keys: "distinct (map fst (digest_entries a))" and flat: "list_all (\<lambda>e. scalar (snd e)) (digest_entries a)"
    by (simp_all add: digest_entries_def)
  show "artifact_digest v c = Inr a \<longleftrightarrow> sorted_value v = sorted_value (JObj (digest_entries a)) \<and> valid_digest a"
    unfolding flat_object_iff[OF v keys flat]
    by (cases a) (auto simp: artifact_digest_def res_simps digest_entries_def valid_digest_def)
qed

lemma adjacent_sorted:
  "list_ex (\<lambda>(a, b). \<not> f a < f b) (zip xs (tl xs)) \<longleftrightarrow> \<not> sorted_wrt (<) (map f xs)" for f :: "'a \<Rightarrow> string"
proof (induction xs)
  case (Cons x xs)
  then show ?case by (cases xs) (auto intro: less_trans)
qed simp

lemma artifactDigests_iff:
  assumes "definable D v"
  shows "artifactDigests v c = Inr xs \<longleftrightarrow> sorted_value v = sorted_value (JArr (map (\<lambda>a. JObj (digest_entries a)) xs))
    \<and> xs \<noteq> [] \<and> (\<forall>a \<in> set xs. valid_digest a) \<and> sorted_wrt (<) (map ad_artifactKey xs)"
  unfolding artifactDigests_def
  by (rule artifact.decode_array[OF assms]) (simp add: res_simps adjacent_sorted)

text \<open>On the wire a ledger binding also lists the digests of the artifacts.\<close>

definition wire_ledger_entries :: "LedgerBinding \<times> ArtifactDigest list \<Rightarrow> jobj" where
  "wire_ledger_entries l = ledger_entries (fst l) @ [(''artifactDigests'', JArr (map (\<lambda>a. JObj (digest_entries a)) (snd l)))]"

definition valid_wire_ledger :: "LedgerBinding \<times> ArtifactDigest list \<Rightarrow> bool" where
  "valid_wire_ledger l \<longleftrightarrow> valid_ledger (fst l) \<and> snd l \<noteq> [] \<and> (\<forall>a \<in> set (snd l). valid_digest a)
     \<and> sorted_wrt (<) (map ad_artifactKey (snd l))"

interpretation wire_ledger: codec D wireLedgerBinding "\<lambda>l. JObj (wire_ledger_entries l)" valid_wire_ledger for D
proof
  fix v c and l :: "LedgerBinding \<times> ArtifactDigest list"
  assume v: "definable D v"
  have keys: "distinct (map fst (wire_ledger_entries l))"
    by (cases "fst l") (simp_all add: wire_ledger_entries_def ledger_entries_def)
  have digests: "artifactDigests (fld r ''artifactDigests'') e = Inr xs \<longleftrightarrow>
      sorted_value (fld r ''artifactDigests'') = sorted_value (JArr (map (\<lambda>a. JObj (digest_entries a)) xs))
      \<and> xs \<noteq> [] \<and> (\<forall>a \<in> set xs. valid_digest a) \<and> sorted_wrt (<) (map ad_artifactKey xs)" if "v = JObj r" for r e xs
    using definable_fld[of D r "''artifactDigests''"] v that artifactDigests_iff[of D "fld r ''artifactDigests''"] by simp
  obtain x ds where l: "l = (x, ds)" by fastforce
  show "wireLedgerBinding v c = Inr l \<longleftrightarrow> sorted_value v = sorted_value (JObj (wire_ledger_entries l)) \<and> valid_wire_ledger l"
    unfolding object_iff[OF v keys] wireLedgerBinding_def bind_res_Inr_iff[of "record_of v c"] record_of_iff bind_source_gate
    by (cases x) (auto simp: l res_simps digests wire_ledger_entries_def ledger_entries_def valid_wire_ledger_def valid_ledger_def)
qed

section \<open>Clean-up and privacy\<close>

definition cleanup_entries :: "ProducerCleanup \<Rightarrow> jobj" where
  "cleanup_entries p = [(''journalState'', JStr ''terminal''), (''reconcileRefSha256'', JStr (pc_reconcileRefSha256 p)),
     (''generation'', JNum (num (pc_generation p))), (''automaticAttempts'', JNum (num (pc_automaticAttempts p)))]
     @ map (\<lambda>k. (k, JBool True)) CLEANUP_FLAGS @ [(''proofSha256'', JStr (pc_proofSha256 p))]"

definition valid_cleanup :: "ProducerCleanup \<Rightarrow> bool" where
  "valid_cleanup p \<longleftrightarrow> is_sha256_hex (pc_reconcileRefSha256 p) \<and> 0 \<le> pc_generation p \<and> 0 \<le> pc_automaticAttempts p
     \<and> is_sha256_hex (pc_proofSha256 p)"

lemma single_enum_iff: "enumValue v [(s, ())] c = Inr u \<longleftrightarrow> v = JStr s"
  by (cases v) (auto simp: enumValue_def)

interpretation cleanup: codec D producerCleanup "\<lambda>p. JObj (cleanup_entries p)" valid_cleanup for D
proof
  fix v c p
  assume v: "definable D v"
  have keys: "distinct (map fst (cleanup_entries p))" and flat: "list_all (\<lambda>e. scalar (snd e)) (cleanup_entries p)"
    by (simp_all add: cleanup_entries_def CLEANUP_FLAGS_def)
  show "producerCleanup v c = Inr p \<longleftrightarrow> sorted_value v = sorted_value (JObj (cleanup_entries p)) \<and> valid_cleanup p"
    unfolding flat_object_iff[OF v keys flat]
    by (cases p) (auto simp: producerCleanup_def res_simps single_enum_iff cleanup_entries_def CLEANUP_FLAGS_def CLEANUP_KEYS_def valid_cleanup_def)
qed

definition privacy_entries :: jobj where
  "privacy_entries = map (\<lambda>k. (k, JBool False)) PRIVACY_KEYS"

interpretation privacy: codec D privacy "\<lambda>_. JObj privacy_entries" "\<lambda>_. True" for D
proof
  fix v c u
  assume v: "definable D v"
  have keys: "distinct (map fst privacy_entries)" and flat: "list_all (\<lambda>e. scalar (snd e)) privacy_entries"
    by (simp_all add: privacy_entries_def PRIVACY_KEYS_def)
  show "privacy v c = Inr u \<longleftrightarrow> sorted_value v = sorted_value (JObj privacy_entries) \<and> True"
    unfolding flat_object_iff[OF v keys flat]
    by (auto simp: privacy_def res_simps privacy_entries_def PRIVACY_KEYS_def)
qed

end
