(* ===== verification/Acceptance_Codec.thy ===== *)
theory Acceptance_Codec
  imports Acceptance_Fixtures
begin

text \<open>
  \<^verbatim>\<open>packages/capture-acceptance-contract/src/codecs.ts\<close>, second part: the four records of the
  acceptance contract and their decoders, from canonical text to record.
\<close>

section \<open>Records\<close>

record ScopeBase =
  sb_contractSha256 :: string
  sb_parentGate :: ParentGate
  sb_tier :: Tier
  sb_runIdDigest :: string
  sb_sequenceIndex :: int
  sb_childKey :: string
  sb_legId :: string
  sb_childId :: string
  sb_childPlanDigest :: string

datatype ProducerChildScopeV1 =
    PlannedChildScopeV1 ScopeBase
  | PreparedChildScopeV1 ScopeBase BoundBinding
  | ReadyChildScopeV1 ScopeBase BoundBinding string string

record ProducerChildInvocationV1 =
  iv_contractSha256 :: string
  iv_parentGate :: ParentGate
  iv_tier :: Tier
  iv_sequenceIndex :: int
  iv_childKey :: string
  iv_legId :: string
  iv_childId :: string
  iv_root :: string
  iv_binding :: BoundBinding
  iv_artifactIds :: "string list"
  iv_ledgerBinding :: LedgerBinding
  iv_predecessorCleanupProofSha256 :: "string option"
  iv_fixtureAssignments :: "FixtureAssignment list"
  iv_outputPathNonce :: string
  iv_invocationSha256 :: string

record ConsumerSemanticResultV1 =
  cs_contractSha256 :: string
  cs_consumer :: string
  cs_parentGate :: ParentGate
  cs_tier :: Tier
  cs_sequenceIndex :: int
  cs_childKey :: string
  cs_legId :: string
  cs_childId :: string
  cs_artifactIds :: "string list"
  cs_fixtureResults :: "SemanticFixtureResult list"
  cs_semanticResultSha256 :: string

record AcceptanceChildWireV1 =
  aw_contractSha256 :: string
  aw_parentGate :: ParentGate
  aw_tier :: Tier
  aw_runIdDigest :: string
  aw_sequenceIndex :: int
  aw_childKey :: string
  aw_legId :: string
  aw_childId :: string
  aw_root :: string
  aw_artifactIds :: "string list"
  aw_ledgerBinding :: "LedgerBinding \<times> ArtifactDigest list"
  aw_invocationSha256 :: string
  aw_fixtureAssignments :: "FixtureAssignment list"
  aw_fixtureResults :: "SemanticFixtureResult list"
  aw_childSemanticResultSha256 :: string
  aw_producerCleanup :: ProducerCleanup
  aw_wireSha256 :: string

section \<open>From text to value\<close>

datatype json_input = Text string | Bytes "nat list"

text \<open>Only canonical text is accepted. The byte order mark is no character of this model, so that the
  check on decoded text never refuses.\<close>

definition parse_text :: "codec_host \<Rightarrow> string \<Rightarrow> acceptance_error + json" where
  "parse_text h t =
     (case ch_parse h t of
        None \<Rightarrow> fail ''record is not valid JSON''
      | Some v \<Rightarrow> bind_res (canonicalJsonValue h v) (\<lambda>t'.
          if t' \<noteq> t then fail ''record JSON is not canonical'' else Inr v))"

definition parseJson :: "codec_host \<Rightarrow> json_input \<Rightarrow> acceptance_error + json" where
  "parseJson h input =
     (case input of
        Text t \<Rightarrow> parse_text h t
      | Bytes bs \<Rightarrow>
          if take 3 bs = [0xEF, 0xBB, 0xBF] then fail ''record JSON must not contain a UTF-8 BOM''
          else (case ch_utf8 h bs of None \<Rightarrow> fail ''record is not valid UTF-8'' | Some t \<Rightarrow> parse_text h t))"

definition decodeCanonical :: "codec_host \<Rightarrow> json_input \<Rightarrow> (json \<Rightarrow> acceptance_error + 'a) \<Rightarrow> acceptance_error + 'a" where
  "decodeCanonical h input decoder = bind_res (parseJson h input) decoder"

section \<open>Child scopes\<close>

definition SCOPE_BASE_KEYS :: "string list" where
  "SCOPE_BASE_KEYS =
     [''schemaVersion'', ''contractVersion'', ''contractSha256'', ''producer'', ''parentGate'', ''tier'', ''runIdDigest'', ''sequenceIndex'',
      ''childKey'', ''legId'', ''childId'', ''childPlanDigest'', ''readyState'', ''binding'']"

definition baseScope :: "jobj \<Rightarrow> string \<Rightarrow> acceptance_error + ScopeBase" where
  "baseScope r c =
     then_res (fail_if (fld r ''schemaVersion'' \<noteq> JStr ''ProducerChildScopeV1'' \<or> fld r ''contractVersion'' \<noteq> JStr ''1'')
       (c @ '' has an invalid schema version''))
     (then_res (fail_if (fld r ''producer'' \<noteq> JStr ''capture-runtime'') (c @ ''.producer is invalid''))
     (bind_res (enumValue (fld r ''parentGate'') gates (c @ ''.parentGate'')) (\<lambda>gate.
     bind_res (enumValue (fld r ''tier'') tiers (c @ ''.tier'')) (\<lambda>tier.
     then_res (assertGateTier gate tier c)
     (bind_res (assertSha256 (fld r ''contractSha256'') (c @ ''.contractSha256'')) (\<lambda>contract.
     bind_res (assertSha256 (fld r ''runIdDigest'') (c @ ''.runIdDigest'')) (\<lambda>run.
     bind_res (integer (fld r ''sequenceIndex'') (c @ ''.sequenceIndex'') 1) (\<lambda>index.
     bind_res (stringValue (fld r ''childKey'') (c @ ''.childKey'')) (\<lambda>key.
     bind_res (stringValue (fld r ''legId'') (c @ ''.legId'')) (\<lambda>leg.
     bind_res (assertSha256 (fld r ''childId'') (c @ ''.childId'')) (\<lambda>child.
     bind_res (assertSha256 (fld r ''childPlanDigest'') (c @ ''.childPlanDigest'')) (\<lambda>plan.
     Inr \<lparr>sb_contractSha256 = contract, sb_parentGate = gate, sb_tier = tier, sb_runIdDigest = run, sb_sequenceIndex = index,
          sb_childKey = key, sb_legId = leg, sb_childId = child, sb_childPlanDigest = plan\<rparr>))))))))))))"

datatype ready_state = Planned_state | Prepared_state | Ready_state

definition ready_states :: "(string \<times> ready_state) list" where
  "ready_states = [(''planned'', Planned_state), (''prepared'', Prepared_state), (''ready'', Ready_state)]"

text \<open>A binding that has to be bound, and to be the expected one.\<close>

definition expected_bound :: "string \<Rightarrow> json \<Rightarrow> json option \<Rightarrow> acceptance_error + BoundBinding" where
  "expected_bound name v expected =
     bind_res (binding v ''scope.binding'') (\<lambda>b.
     case b of
       Unbound \<Rightarrow> fail (name @ '' scope must use the bound binding'')
     | Bound x \<Rightarrow>
         (case expected of
            None \<Rightarrow> fail (name @ '' scope requires an expected immutable binding context'')
          | Some e \<Rightarrow> then_res (assertBindingMatches x e (name @ '' scope.binding'')) (Inr x)))"

definition decodeProducerChildScopeValue :: "json option \<Rightarrow> json \<Rightarrow> acceptance_error + ProducerChildScopeV1" where
  "decodeProducerChildScopeValue expected v =
     (let c = ''ProducerChildScopeV1'' in
      bind_res (record_of v c) (\<lambda>r.
      bind_res (baseScope r c) (\<lambda>base.
      bind_res (enumValue (fld r ''readyState'') ready_states ''scope.readyState'') (\<lambda>state.
      case state of
        Planned_state \<Rightarrow>
          then_res (exactKeys r SCOPE_BASE_KEYS c)
          (bind_res (binding (fld r ''binding'') ''scope.binding'') (\<lambda>b.
          if b \<noteq> Unbound then fail ''planned scope must use the unbound binding'' else Inr (PlannedChildScopeV1 base)))
      | Prepared_state \<Rightarrow>
          then_res (exactKeys r SCOPE_BASE_KEYS c)
          (bind_res (expected_bound ''prepared'' (fld r ''binding'') expected) (\<lambda>b. Inr (PreparedChildScopeV1 base b)))
      | Ready_state \<Rightarrow>
          then_res (exactKeys r (SCOPE_BASE_KEYS @ [''invocationSha256'', ''outputPathNonce'']) c)
          (bind_res (expected_bound ''ready'' (fld r ''binding'') expected) (\<lambda>b.
          bind_res (assertSha256 (fld r ''invocationSha256'') ''scope.invocationSha256'') (\<lambda>invocation.
          bind_res (opaque (fld r ''outputPathNonce'') ''scope.outputPathNonce'') (\<lambda>nonce.
          Inr (ReadyChildScopeV1 base b invocation nonce)))))))))"

definition decodeProducerChildScope :: "codec_host \<Rightarrow> json_input \<Rightarrow> json option \<Rightarrow> acceptance_error + ProducerChildScopeV1" where
  "decodeProducerChildScope h input expected = decodeCanonical h input (decodeProducerChildScopeValue expected)"

section \<open>Invocations\<close>

definition INVOCATION_KEYS :: "string list" where
  "INVOCATION_KEYS =
     [''schemaVersion'', ''contractVersion'', ''contractSha256'', ''producer'', ''parentGate'', ''tier'', ''invocationState'',
      ''sequenceIndex'', ''childKey'', ''legId'', ''childId'', ''root'', ''groupRefDigest'', ''groupGeneration'', ''bindingAttemptId'',
      ''rootBindings'', ''activationReceiptDigest'', ''artifactIds'', ''ledgerBinding'', ''predecessorCleanupProofSha256'',
      ''fixtureAssignments'', ''outputPathNonce'', ''invocationSha256'']"

definition digest_list :: "json \<Rightarrow> string \<Rightarrow> acceptance_error + string list" where
  "digest_list v c =
     bind_res (arrayValue v c) (\<lambda>items.
     bind_res (map_index (\<lambda>x i. assertSha256 x (item_at c i)) 0 items) (\<lambda>xs. uniqueDigests xs c))"

definition optional_digest :: "json \<Rightarrow> string \<Rightarrow> acceptance_error + string option" where
  "optional_digest v c = (if v = JNull then Inr None else bind_res (assertSha256 v c) (\<lambda>s. Inr (Some s)))"

definition ledger_of_gate :: "ParentGate \<Rightarrow> LedgerBinding \<Rightarrow> bool" where
  "ledger_of_gate g l = (case l of LedgerD3 _ _ _ \<Rightarrow> g = D4 | LedgerD6 _ _ _ \<Rightarrow> g = D7)"

definition decodeProducerChildInvocationValue ::
  "codec_host \<Rightarrow> json option \<Rightarrow> json \<Rightarrow> acceptance_error + ProducerChildInvocationV1" where
  "decodeProducerChildInvocationValue h expected v =
     bind_res (record_of v ''ProducerChildInvocationV1'') (\<lambda>r.
     then_res (exactKeys r INVOCATION_KEYS ''ProducerChildInvocationV1'')
     (then_res (fail_if (fld r ''schemaVersion'' \<noteq> JStr ''ProducerChildInvocationV1'' \<or> fld r ''contractVersion'' \<noteq> JStr ''1'')
       ''invocation schema version is invalid'')
     (then_res (fail_if (fld r ''producer'' \<noteq> JStr ''capture-runtime'' \<or> fld r ''invocationState'' \<noteq> JStr ''frozen'')
       ''invocation producer or state is invalid'')
     (bind_res (enumValue (fld r ''parentGate'') gates ''invocation.parentGate'') (\<lambda>gate.
     bind_res (enumValue (fld r ''tier'') tiers ''invocation.tier'') (\<lambda>tier.
     then_res (assertGateTier gate tier ''invocation'')
     (case expected of
        None \<Rightarrow> fail ''invocation requires an expected immutable binding context''
      | Some e \<Rightarrow>
     bind_res (assertSha256 (fld r ''contractSha256'') ''invocation.contractSha256'') (\<lambda>contract.
     bind_res (integer (fld r ''sequenceIndex'') ''invocation.sequenceIndex'' 1) (\<lambda>index.
     bind_res (stringValue (fld r ''childKey'') ''invocation.childKey'') (\<lambda>key.
     bind_res (stringValue (fld r ''legId'') ''invocation.legId'') (\<lambda>leg.
     bind_res (assertSha256 (fld r ''childId'') ''invocation.childId'') (\<lambda>child.
     bind_res (assertSha256 (fld r ''root'') ''invocation.root'') (\<lambda>root.
     bind_res (assertSha256 (fld r ''groupRefDigest'') ''invocation.groupRefDigest'') (\<lambda>group.
     bind_res (integer (fld r ''groupGeneration'') ''invocation.groupGeneration'' 0) (\<lambda>generation.
     bind_res (opaque (fld r ''bindingAttemptId'') ''invocation.bindingAttemptId'') (\<lambda>attempt.
     bind_res (rootBindings (fld r ''rootBindings'') ''invocation.rootBindings'') (\<lambda>roots.
     bind_res (assertSha256 (fld r ''activationReceiptDigest'') ''invocation.activationReceiptDigest'') (\<lambda>receipt.
     bind_res (digest_list (fld r ''artifactIds'') ''invocation.artifactIds'') (\<lambda>artifacts.
     bind_res (ledgerBinding (fld r ''ledgerBinding'') ''invocation.ledgerBinding'') (\<lambda>ledger.
     bind_res (optional_digest (fld r ''predecessorCleanupProofSha256'') ''invocation.predecessorCleanupProofSha256'') (\<lambda>predecessor.
     bind_res (orderedAssignments h (fld r ''fixtureAssignments'') ''invocation.fixtureAssignments'') (\<lambda>assignments.
     bind_res (opaque (fld r ''outputPathNonce'') ''invocation.outputPathNonce'') (\<lambda>nonce.
     bind_res (assertSha256 (fld r ''invocationSha256'') ''invocation.invocationSha256'') (\<lambda>invocation.
     let b = \<lparr>bb_bindingAttemptId = attempt, bb_groupRefDigest = group, bb_groupGeneration = generation,
              bb_rootBindings = roots, bb_activationReceiptDigest = receipt\<rparr>
     in then_res (fail_if (\<not> ledger_of_gate gate ledger) ''invocation ledger binding does not match its gate'')
     (then_res (assertBindingMatches b e ''invocation.binding'')
     (bind_res (selfExcludedDigest h r ''invocationSha256'') (\<lambda>digest.
     if digest \<noteq> invocation then fail ''invocation digest does not match canonical bytes''
     else Inr \<lparr>iv_contractSha256 = contract, iv_parentGate = gate, iv_tier = tier, iv_sequenceIndex = index, iv_childKey = key,
       iv_legId = leg, iv_childId = child, iv_root = root, iv_binding = b, iv_artifactIds = artifacts, iv_ledgerBinding = ledger,
       iv_predecessorCleanupProofSha256 = predecessor, iv_fixtureAssignments = assignments, iv_outputPathNonce = nonce,
       iv_invocationSha256 = invocation\<rparr>)))))))))))))))))))))))))))"

definition decodeProducerChildInvocation ::
  "codec_host \<Rightarrow> json_input \<Rightarrow> json option \<Rightarrow> acceptance_error + ProducerChildInvocationV1" where
  "decodeProducerChildInvocation h input expected = decodeCanonical h input (decodeProducerChildInvocationValue h expected)"

section \<open>Semantic results\<close>

definition SEMANTIC_KEYS :: "string list" where
  "SEMANTIC_KEYS =
     [''schemaVersion'', ''contractVersion'', ''contractSha256'', ''consumer'', ''parentGate'', ''tier'', ''sequenceIndex'', ''childKey'',
      ''legId'', ''childId'', ''artifactIds'', ''fixtureResults'', ''semanticResultSha256'']"

text \<open>The artifacts of the results are all different, and they are the listed ones.\<close>

definition check_artifacts :: "string \<Rightarrow> string \<Rightarrow> string list \<Rightarrow> string list \<Rightarrow> acceptance_error + unit" where
  "check_artifacts c message listed found =
     bind_res (uniqueDigests found c) (\<lambda>ids.
     fail_if (length ids \<noteq> length listed \<or> list_ex (\<lambda>i. i \<notin> set listed) ids) message)"

definition decodeConsumerSemanticResultValue :: "codec_host \<Rightarrow> json \<Rightarrow> acceptance_error + ConsumerSemanticResultV1" where
  "decodeConsumerSemanticResultValue h v =
     bind_res (record_of v ''ConsumerSemanticResultV1'') (\<lambda>r.
     then_res (exactKeys r SEMANTIC_KEYS ''ConsumerSemanticResultV1'')
     (then_res (fail_if (fld r ''schemaVersion'' \<noteq> JStr ''ConsumerSemanticResultV1'' \<or> fld r ''contractVersion'' \<noteq> JStr ''1'')
       ''semantic result schema version is invalid'')
     (bind_res (enumValue (fld r ''parentGate'') gates ''semantic.parentGate'') (\<lambda>gate.
     bind_res (enumValue (fld r ''tier'') tiers ''semantic.tier'') (\<lambda>tier.
     then_res (assertGateTier gate tier ''semantic result'')
     (bind_res (assertSha256 (fld r ''contractSha256'') ''semantic.contractSha256'') (\<lambda>contract.
     bind_res (stringValue (fld r ''consumer'') ''semantic.consumer'') (\<lambda>consumer.
     bind_res (integer (fld r ''sequenceIndex'') ''semantic.sequenceIndex'' 1) (\<lambda>index.
     bind_res (stringValue (fld r ''childKey'') ''semantic.childKey'') (\<lambda>key.
     bind_res (stringValue (fld r ''legId'') ''semantic.legId'') (\<lambda>leg.
     bind_res (assertSha256 (fld r ''childId'') ''semantic.childId'') (\<lambda>child.
     bind_res (digest_list (fld r ''artifactIds'') ''semantic.artifactIds'') (\<lambda>artifacts.
     bind_res (orderedSemanticResults h (fld r ''fixtureResults'') ''semantic.fixtureResults'') (\<lambda>results.
     bind_res (assertSha256 (fld r ''semanticResultSha256'') ''semantic.semanticResultSha256'') (\<lambda>semantic.
     bind_res (selfExcludedDigest h r ''semanticResultSha256'') (\<lambda>digest.
     then_res (fail_if (digest \<noteq> semantic) ''semantic result digest does not match canonical bytes'')
     (then_res (check_artifacts ''semantic fixture artifacts'' ''semantic artifactIds must contain each fixture artifact exactly once''
       artifacts (map sf_artifactId results))
     (Inr \<lparr>cs_contractSha256 = contract, cs_consumer = consumer, cs_parentGate = gate, cs_tier = tier, cs_sequenceIndex = index,
       cs_childKey = key, cs_legId = leg, cs_childId = child, cs_artifactIds = artifacts, cs_fixtureResults = results,
       cs_semanticResultSha256 = semantic\<rparr>))))))))))))))))))"

definition decodeConsumerSemanticResult :: "codec_host \<Rightarrow> json_input \<Rightarrow> acceptance_error + ConsumerSemanticResultV1" where
  "decodeConsumerSemanticResult h input = decodeCanonical h input (decodeConsumerSemanticResultValue h)"

section \<open>The wire record\<close>

definition WIRE_KEYS :: "string list" where
  "WIRE_KEYS =
     [''schemaVersion'', ''contractVersion'', ''contractSha256'', ''producer'', ''parentGate'', ''tier'', ''runIdDigest'', ''sequenceIndex'',
      ''childKey'', ''legId'', ''childId'', ''root'', ''artifactIds'', ''ledgerBinding'', ''invocationSha256'', ''fixtureAssignments'',
      ''fixtureResults'', ''childSemanticResultSha256'', ''producerCleanup'', ''privacy'', ''wireSha256'']"

definition fixture_matches :: "FixtureAssignment \<Rightarrow> SemanticFixtureResult \<Rightarrow> bool" where
  "fixture_matches a x =
     (fa_fixtureIndex a = sf_fixtureIndex x \<and> fa_fixtureKey a = sf_fixtureKey x
      \<and> fa_fixtureIdentitySha256 a = sf_fixtureIdentitySha256 x \<and> fa_mediaKind a = sf_mediaKind x \<and> fa_page a = sf_page x
      \<and> fa_mediaCapabilityHandleSha256 a = sf_mediaCapabilityHandleSha256 x
      \<and> fa_oracleCapabilityHandleSha256 a = sf_oracleCapabilityHandleSha256 x
      \<and> fa_mediaSha256 a = sf_mediaSha256 x \<and> fa_oracleSha256 a = sf_oracleSha256 x
      \<and> fa_expectedNormalizedTruthSha256 a = sf_expectedNormalizedTruthSha256 x
      \<and> fa_expectedAnchorSetSha256 a = sf_expectedAnchorSetSha256 x \<and> fa_cerThreshold a = sf_cerThreshold x
      \<and> fa_artifactId a = sf_artifactId x)"

definition decodeAcceptanceChildWireValue :: "codec_host \<Rightarrow> json \<Rightarrow> acceptance_error + AcceptanceChildWireV1" where
  "decodeAcceptanceChildWireValue h v =
     bind_res (record_of v ''AcceptanceChildWireV1'') (\<lambda>r.
     then_res (exactKeys r WIRE_KEYS ''AcceptanceChildWireV1'')
     (then_res (fail_if (fld r ''schemaVersion'' \<noteq> JStr ''AcceptanceChildWireV1'' \<or> fld r ''contractVersion'' \<noteq> JStr ''1'')
       ''wire schema version is invalid'')
     (then_res (fail_if (fld r ''producer'' \<noteq> JStr ''capture-runtime'') ''wire producer is invalid'')
     (bind_res (enumValue (fld r ''parentGate'') gates ''wire.parentGate'') (\<lambda>gate.
     bind_res (enumValue (fld r ''tier'') tiers ''wire.tier'') (\<lambda>tier.
     then_res (assertGateTier gate tier ''wire'')
     (bind_res (orderedAssignments h (fld r ''fixtureAssignments'') ''wire.fixtureAssignments'') (\<lambda>assignments.
     bind_res (orderedWireResults h (fld r ''fixtureResults'') ''wire.fixtureResults'') (\<lambda>results.
     then_res (fail_if (length assignments \<noteq> length results) ''wire assignment and result cardinality must match'')
     (then_res (fail_if (list_ex (\<lambda>(a, x). \<not> fixture_matches a x) (zip assignments results))
       ''wire fixture results must match assignments in order'')
     (bind_res (uniqueDigests (map sf_artifactId results) ''wire fixture artifacts'') (\<lambda>found.
     bind_res (digest_list (fld r ''artifactIds'') ''wire.artifactIds'') (\<lambda>artifacts.
     then_res (fail_if (length found \<noteq> length artifacts \<or> list_ex (\<lambda>i. i \<notin> set artifacts) found)
       ''wire artifactIds must contain each fixture artifact exactly once'')
     (bind_res (assertSha256 (fld r ''contractSha256'') ''wire.contractSha256'') (\<lambda>contract.
     bind_res (assertSha256 (fld r ''runIdDigest'') ''wire.runIdDigest'') (\<lambda>run.
     bind_res (integer (fld r ''sequenceIndex'') ''wire.sequenceIndex'' 1) (\<lambda>index.
     bind_res (stringValue (fld r ''childKey'') ''wire.childKey'') (\<lambda>key.
     bind_res (stringValue (fld r ''legId'') ''wire.legId'') (\<lambda>leg.
     bind_res (assertSha256 (fld r ''childId'') ''wire.childId'') (\<lambda>child.
     bind_res (assertSha256 (fld r ''root'') ''wire.root'') (\<lambda>root.
     bind_res (wireLedgerBinding (fld r ''ledgerBinding'') ''wire.ledgerBinding'') (\<lambda>ledger.
     bind_res (assertSha256 (fld r ''invocationSha256'') ''wire.invocationSha256'') (\<lambda>invocation.
     bind_res (assertSha256 (fld r ''childSemanticResultSha256'') ''wire.childSemanticResultSha256'') (\<lambda>semantic.
     bind_res (producerCleanup (fld r ''producerCleanup'') ''wire.producerCleanup'') (\<lambda>cleanup.
     then_res (privacy (fld r ''privacy'') ''wire.privacy'')
     (bind_res (assertSha256 (fld r ''wireSha256'') ''wire.wireSha256'') (\<lambda>wire.
     then_res (fail_if (\<not> ledger_of_gate gate (fst ledger)) ''wire ledger binding does not match its gate'')
     (bind_res (selfExcludedDigest h r ''wireSha256'') (\<lambda>digest.
     if digest \<noteq> wire then fail ''wire digest does not match canonical bytes''
     else Inr \<lparr>aw_contractSha256 = contract, aw_parentGate = gate, aw_tier = tier, aw_runIdDigest = run, aw_sequenceIndex = index,
       aw_childKey = key, aw_legId = leg, aw_childId = child, aw_root = root, aw_artifactIds = artifacts, aw_ledgerBinding = ledger,
       aw_invocationSha256 = invocation, aw_fixtureAssignments = assignments, aw_fixtureResults = results,
       aw_childSemanticResultSha256 = semantic, aw_producerCleanup = cleanup, aw_wireSha256 = wire\<rparr>)))))))))))))))))))))))))))))"

definition decodeAcceptanceChildWire :: "codec_host \<Rightarrow> json_input \<Rightarrow> acceptance_error + AcceptanceChildWireV1" where
  "decodeAcceptanceChildWire h input = decodeCanonical h input (decodeAcceptanceChildWireValue h)"

end
