(* ===== verification/Acceptance_Decoders.thy ===== *)
theory Acceptance_Decoders
  imports Acceptance_Codec
begin

text \<open>
  \<^verbatim>\<open>packages/capture-acceptance-contract/src/codecs.ts\<close>: what the four decoders of the acceptance
  contract accept. Each is an instance of the \<open>codec\<close> contract, from which follows that the texts a
  decoder accepts are exactly the canonical texts of the valid records.
\<close>

section \<open>From values to texts\<close>

lemma plain_sorted [simp]: "plain D (sorted_value v) \<longleftrightarrow> plain D v"
proof (induction v rule: sorted_value.induct)
  case (1 v)
  show ?case
  proof (cases v)
    case (JArr xs)
    then show ?thesis using 1(1)[OF JArr] by auto
  next
    case (JObj r)
    have "distinct (map fst (sort_key fst r)) \<longleftrightarrow> distinct (map fst r)"
      by (metis distinct_map distinct_sort set_sort sort_key_stable distinct_map)
    then show ?thesis using 1(2)[OF JObj] JObj by (auto simp: case_prod_unfold comp_def)
  qed simp_all
qed

text \<open>What \<open>JSON.parse\<close> promises about a text: the value it returns is plain, and a text that is the
  canonical text of a plain value is read back as that value, up to the order of entries.\<close>

definition parses :: "rat set \<Rightarrow> codec_host \<Rightarrow> string \<Rightarrow> bool" where
  "parses D h t \<longleftrightarrow> (\<forall>v. ch_parse h t = Some v \<longrightarrow> plain D v)
     \<and> (\<forall>v. plain D v \<and> canonicalJson (ch_show h) v = t \<longrightarrow> (\<exists>w. ch_parse h t = Some w \<and> sorted_value w = sorted_value v))"

context codec
begin

lemma decode_text:
  assumes "parses D h t"
  shows "bind_res (parse_text h t) (\<lambda>v. decode v c) = Inr b
    \<longleftrightarrow> t = canonicalJson (ch_show h) (render b) \<and> valid b \<and> plain D (render b)"
proof
  assume "bind_res (parse_text h t) (\<lambda>v. decode v c) = Inr b"
  then obtain v where v: "ch_parse h t = Some v" "canonicalJsonValue h v = Inr t" "decode v c = Inr b"
    by (auto simp: parse_text_def res_simps split: option.splits)
  then have plain: "plain D v" using assms by (simp add: parses_def)
  then have same: "sorted_value v = sorted_value (render b)" "valid b" using v(3) decode_iff by simp_all
  moreover have "t = canonicalJson (ch_show h) v" using v(2) canonicalJsonValue_plain[OF plain, of h] by simp
  ultimately show "t = canonicalJson (ch_show h) (render b) \<and> valid b \<and> plain D (render b)"
    using plain by (metis canonical_sorted plain_sorted)
next
  assume t: "t = canonicalJson (ch_show h) (render b) \<and> valid b \<and> plain D (render b)"
  then obtain w where w: "ch_parse h t = Some w" "sorted_value w = sorted_value (render b)"
    using assms by (auto simp: parses_def)
  then have plain: "plain D w" using assms by (simp add: parses_def)
  have "canonicalJsonValue h w = Inr t"
    using canonicalJsonValue_plain[OF plain, of h] w(2) t by (metis canonical_sorted)
  then show "bind_res (parse_text h t) (\<lambda>v. decode v c) = Inr b"
    using w plain t decode_iff by (simp add: parse_text_def)
qed

end

text \<open>The text an input stands for.\<close>

definition input_text :: "codec_host \<Rightarrow> json_input \<Rightarrow> string option" where
  "input_text h input = (case input of Text t \<Rightarrow> Some t
     | Bytes bs \<Rightarrow> if take 3 bs = [0xEF, 0xBB, 0xBF] then None else ch_utf8 h bs)"

lemma decodeCanonical_text: "input_text h input = Some t \<Longrightarrow> decodeCanonical h input f = bind_res (parse_text h t) f"
  by (auto simp: decodeCanonical_def parseJson_def input_text_def split: json_input.splits if_splits)

section \<open>The expected binding\<close>

lemma root_binding_context: "root_binding v c = Inr b \<longleftrightarrow> root_binding v c' = Inr b"
  by (simp add: root_binding_def res_simps)

lemma rootBindings_context: "rootBindings v c = Inr bs \<longleftrightarrow> rootBindings v c' = Inr bs"
proof -
  have "map_index (\<lambda>x i. root_binding x (item_at c i)) k vs = Inr bs \<longleftrightarrow> map_index (\<lambda>x i. root_binding x (item_at c' i)) k vs = Inr bs"
    for k vs bs
  proof (induction vs arbitrary: k bs)
    case (Cons v vs)
    show ?case unfolding map_index.simps bind_res_Inr_iff
      using Cons.IH root_binding_context[of v "item_at c k" _ "item_at c' k"] by auto
  qed simp
  then show ?thesis by (auto simp: rootBindings_def res_simps check_roots_iff)
qed

definition expects :: "json option \<Rightarrow> BoundBinding \<Rightarrow> bool" where
  "expects expected b \<longleftrightarrow> (\<exists>e. expected = Some e \<and> expectedBindingContext e ''expected'' = Inr b)"

lemma expected_context: "expectedBindingContext e c = Inr b \<longleftrightarrow> expectedBindingContext e c' = Inr b"
  by (auto simp: expectedBindingContext_def bound_fields_def res_simps rootBindings_context[of _ "c @ _" _ "c' @ ''.rootBindings''"])

lemma matches_expected: "assertBindingMatches b e c = Inr u \<longleftrightarrow> expects (Some e) b"
  unfolding assertBindingMatches_iff expects_def using expected_context by auto

section \<open>Child scopes\<close>

definition base_entries :: "ScopeBase \<Rightarrow> jobj" where
  "base_entries s = [(''schemaVersion'', JStr ''ProducerChildScopeV1''), (''contractVersion'', JStr ''1''),
     (''contractSha256'', JStr (sb_contractSha256 s)), (''producer'', JStr ''capture-runtime''),
     (''parentGate'', JStr (gate_text (sb_parentGate s))), (''tier'', JStr (tier_text (sb_tier s))),
     (''runIdDigest'', JStr (sb_runIdDigest s)), (''sequenceIndex'', JNum (num (sb_sequenceIndex s))),
     (''childKey'', JStr (sb_childKey s)), (''legId'', JStr (sb_legId s)), (''childId'', JStr (sb_childId s)),
     (''childPlanDigest'', JStr (sb_childPlanDigest s))]"

definition gate_tier :: "ParentGate \<Rightarrow> Tier \<Rightarrow> bool" where
  "gate_tier g t \<longleftrightarrow> t = (case g of D4 \<Rightarrow> Candidate | D7 \<Rightarrow> Published)"

definition valid_base :: "ScopeBase \<Rightarrow> bool" where
  "valid_base s \<longleftrightarrow> gate_tier (sb_parentGate s) (sb_tier s) \<and> 1 \<le> sb_sequenceIndex s \<and> sb_childKey s \<noteq> [] \<and> sb_legId s \<noteq> []
     \<and> list_all is_sha256_hex [sb_contractSha256 s, sb_runIdDigest s, sb_childId s, sb_childPlanDigest s]"

fun render_scope :: "ProducerChildScopeV1 \<Rightarrow> json" where
  "render_scope (PlannedChildScopeV1 s) =
     JObj (base_entries s @ [(''readyState'', JStr ''planned''), (''binding'', render_binding Unbound)])"
| "render_scope (PreparedChildScopeV1 s b) =
     JObj (base_entries s @ [(''readyState'', JStr ''prepared''), (''binding'', render_binding (Bound b))])"
| "render_scope (ReadyChildScopeV1 s b invocation nonce) =
     JObj (base_entries s @ [(''readyState'', JStr ''ready''), (''binding'', render_binding (Bound b)),
       (''invocationSha256'', JStr invocation), (''outputPathNonce'', JStr nonce)])"

fun valid_scope :: "json option \<Rightarrow> ProducerChildScopeV1 \<Rightarrow> bool" where
  "valid_scope expected (PlannedChildScopeV1 s) = valid_base s"
| "valid_scope expected (PreparedChildScopeV1 s b) = (valid_base s \<and> valid_bound b \<and> expects expected b)"
| "valid_scope expected (ReadyChildScopeV1 s b invocation nonce) =
     (valid_base s \<and> valid_bound b \<and> expects expected b \<and> is_sha256_hex invocation \<and> is_opaque nonce)"

lemma ready_state_iff:
  "bind_res (enumValue v ready_states c) f = Inr x \<longleftrightarrow> v = JStr ''planned'' \<and> f Planned_state = Inr x
     \<or> v = JStr ''prepared'' \<and> f Prepared_state = Inr x \<or> v = JStr ''ready'' \<and> f Ready_state = Inr x"
  by (cases v) (auto simp: enumValue_def ready_states_def)

lemma expected_bound_iff:
  "expected_bound n v expected = Inr b \<longleftrightarrow> binding v ''scope.binding'' = Inr (Bound b) \<and> expects expected b"
proof -
  have "(case x of Unbound \<Rightarrow> fail m | Bound y \<Rightarrow> (case expected of None \<Rightarrow> fail m'
      | Some e \<Rightarrow> then_res (assertBindingMatches y e c) (Inr y))) = Inr b \<longleftrightarrow> x = Bound b \<and> expects expected b" for x m m' c
    by (cases x; cases expected) (auto simp: res_simps matches_expected, auto simp: expects_def)
  then show ?thesis unfolding expected_bound_def bind_res_Inr_iff by auto
qed

lemma baseScope_iff:
  "baseScope r c = Inr s \<longleftrightarrow> (\<forall>k \<in> set (map fst (base_entries s)). fld r k = fld (base_entries s) k) \<and> valid_base s"
  by (cases s) (auto simp: baseScope_def res_simps base_entries_def valid_base_def gate_tier_def)

text \<open>The three states of a scope.\<close>

lemma scope_value_iff:
  "decodeProducerChildScopeValue expected v = Inr b \<longleftrightarrow> (\<exists>r s. v = JObj r \<and> baseScope r ''ProducerChildScopeV1'' = Inr s
     \<and> (fld r ''readyState'' = JStr ''planned'' \<and> sort (map fst r) = sort SCOPE_BASE_KEYS
          \<and> binding (fld r ''binding'') ''scope.binding'' = Inr Unbound \<and> b = PlannedChildScopeV1 s
      \<or> fld r ''readyState'' = JStr ''prepared'' \<and> sort (map fst r) = sort SCOPE_BASE_KEYS
          \<and> (\<exists>x. binding (fld r ''binding'') ''scope.binding'' = Inr (Bound x) \<and> expects expected x \<and> b = PreparedChildScopeV1 s x)
      \<or> fld r ''readyState'' = JStr ''ready'' \<and> sort (map fst r) = sort (SCOPE_BASE_KEYS @ [''invocationSha256'', ''outputPathNonce''])
          \<and> (\<exists>x i n. binding (fld r ''binding'') ''scope.binding'' = Inr (Bound x) \<and> expects expected x
              \<and> fld r ''invocationSha256'' = JStr i \<and> is_sha256_hex i \<and> fld r ''outputPathNonce'' = JStr n \<and> is_opaque n
              \<and> b = ReadyChildScopeV1 s x i n)))"
  unfolding decodeProducerChildScopeValue_def Let_def bind_res_Inr_iff[of "record_of v _"] bind_res_Inr_iff[of "baseScope _ _"]
    record_of_iff ready_state_iff
  by (auto simp: res_simps expected_bound_iff)

text \<open>An object in two parts, the first of them flat.\<close>

lemma two_part_object_iff:
  assumes "definable D v" "distinct (map fst f @ map fst rest)" "list_all (\<lambda>e. scalar (snd e)) f"
  shows "sorted_value v = sorted_value (JObj (f @ rest)) \<longleftrightarrow> (\<exists>r. v = JObj r \<and> sort (map fst r) = sort (map fst f @ map fst rest)
    \<and> (\<forall>k \<in> set (map fst f). fld r k = fld f k) \<and> (\<forall>k \<in> set (map fst rest). sorted_value (fld r k) = sorted_value (fld rest k)))"
proof -
  have "scalar (fld f k) \<and> fld (f @ rest) k = fld f k" if "k \<in> set (map fst f)" for k
    using that assms(2,3) fld_member[of f] by (force simp: list_all_iff fld_append)
  then have first: "(\<forall>k \<in> set (map fst f). sorted_value (fld r k) = sorted_value (fld (f @ rest) k))
      \<longleftrightarrow> (\<forall>k \<in> set (map fst f). fld r k = fld f k)" for r
    using sorted_value_scalar by auto
  have "fld (f @ rest) k = fld rest k" if "k \<in> set (map fst rest)" for k
    using that assms(2) by (auto simp: fld_append)
  then have second: "(\<forall>k \<in> set (map fst rest). sorted_value (fld r k) = sorted_value (fld (f @ rest) k))
      \<longleftrightarrow> (\<forall>k \<in> set (map fst rest). sorted_value (fld r k) = sorted_value (fld rest k))" for r by auto
  show ?thesis using object_iff[OF assms(1), of "f @ rest"] assms(2) first second by (simp add: ball_Un)
qed

text \<open>A record that carries its own digest: the digest of the value and that of the record agree.\<close>

lemma digested_record:
  assumes v: "definable D v"
    and keys: "distinct (map fst f @ map fst rest)" "list_all (\<lambda>e. scalar (snd e)) f" "sort (map fst f @ map fst rest) = sort ks"
    and decode: "\<And>r. plain D (JObj r) \<Longrightarrow> v = JObj r \<Longrightarrow> accepted \<longleftrightarrow> sort (map fst r) = sort ks
      \<and> (\<forall>k \<in> set (map fst f). fld r k = fld f k) \<and> (\<forall>k \<in> set (map fst rest). sorted_value (fld r k) = sorted_value (fld rest k))
      \<and> ok \<and> self_digest h field r = d"
    and object: "accepted \<Longrightarrow> \<exists>r. v = JObj r"
  shows "accepted \<longleftrightarrow> sorted_value v = sorted_value (JObj (f @ rest)) \<and> ok \<and> self_digest h field (f @ rest) = d"
proof (cases "\<exists>r. v = JObj r")
  case True
  then obtain r where r: "v = JObj r" by blast
  have plain: "plain D (JObj r)" using v r by simp
  have "self_digest h field r = self_digest h field (f @ rest)" if "sorted_value v = sorted_value (JObj (f @ rest))"
    using self_digest_same[of r "f @ rest"] that r plain keys(1) by simp
  then show ?thesis using decode[OF plain r] two_part_object_iff[OF v keys(1,2)] keys(3) r by auto
next
  case False
  then show ?thesis using object sorted_value_object by blast
qed

interpretation scope: codec D "\<lambda>v _. decodeProducerChildScopeValue expected v" render_scope "valid_scope expected" for D expected
proof
  fix v and c :: string and b
  assume v: "definable D v"
  have flat: "list_all (\<lambda>e. scalar (snd e)) (base_entries s)" for s by (simp add: base_entries_def)
  have binds: "binding (fld r ''binding'') e = Inr x \<longleftrightarrow> sorted_value (fld r ''binding'') = sorted_value (render_binding x) \<and> valid_binding x"
    if "v = JObj r" for r e x
    using binding.decode_iff[OF definable_fld[of D r]] v that by simp
  have keys: "SCOPE_BASE_KEYS = map fst (base_entries s) @ [''readyState'', ''binding'']" for s
    by (simp add: base_entries_def SCOPE_BASE_KEYS_def)
  have distinct: "distinct (map fst (base_entries s) @ [''readyState'', ''binding'', ''invocationSha256'', ''outputPathNonce''])" for s
    by (simp add: base_entries_def)
  show "decodeProducerChildScopeValue expected v = Inr b \<longleftrightarrow> sorted_value v = sorted_value (render_scope b) \<and> valid_scope expected b"
  proof (cases b)
    case (PlannedChildScopeV1 s)
    show ?thesis
      using two_part_object_iff[OF v _ flat, of s "[(''readyState'', JStr ''planned''), (''binding'', render_binding Unbound)]"] distinct[of s]
      by (auto simp: PlannedChildScopeV1 scope_value_iff baseScope_iff binds valid_binding_def keys[of s])
  next
    case (PreparedChildScopeV1 s x)
    show ?thesis
      using two_part_object_iff[OF v _ flat, of s "[(''readyState'', JStr ''prepared''), (''binding'', render_binding (Bound x))]"] distinct[of s]
      by (auto simp: PreparedChildScopeV1 scope_value_iff baseScope_iff binds valid_binding_def keys[of s])
  next
    case (ReadyChildScopeV1 s x i n)
    show ?thesis
      using two_part_object_iff[OF v _ flat, of s "[(''readyState'', JStr ''ready''), (''binding'', render_binding (Bound x)),
        (''invocationSha256'', JStr i), (''outputPathNonce'', JStr n)]"] distinct[of s]
      by (auto simp: ReadyChildScopeV1 scope_value_iff baseScope_iff binds valid_binding_def keys[of s])
  qed
qed

section \<open>Invocations\<close>

interpretation digest: codec D assertSha256 JStr is_sha256_hex for D
  by unfold_locales (auto simp: res_simps)

lemma digest_list_iff:
  assumes "definable D v"
  shows "digest_list v c = Inr xs \<longleftrightarrow> sorted_value v = JArr (map JStr xs) \<and> xs \<noteq> [] \<and> (\<forall>x \<in> set xs. is_sha256_hex x) \<and> distinct xs"
proof -
  have "digest_list v c = bind_res (arrayValue v c) (\<lambda>items. bind_res (map_index (\<lambda>x i. assertSha256 x (item_at c i)) 0 items) (\<lambda>xs.
      then_res (fail_if (\<not> distinct xs) (c @ '' must contain unique digests'')) (Inr xs)))"
  proof -
    have "uniqueDigests xs c = then_res (fail_if (\<not> distinct xs) (c @ '' must contain unique digests'')) (Inr xs)" for xs
      by (simp add: uniqueDigests_def fail_if_def fail_def)
    then show ?thesis by (simp add: digest_list_def)
  qed
  moreover have "fail_if (\<not> distinct xs) m = Inr () \<longleftrightarrow> distinct xs" for xs :: "string list" and m by (simp add: res_simps)
  ultimately show ?thesis using digest.decode_array[OF assms, of "\<lambda>xs. fail_if (\<not> distinct xs) (c @ '' must contain unique digests'')" distinct c xs]
    by (simp add: comp_def)
qed

definition optional_value :: "string option \<Rightarrow> json" where
  "optional_value s = (case s of None \<Rightarrow> JNull | Some x \<Rightarrow> JStr x)"

lemma optional_digest_iff:
  "optional_digest v c = Inr s \<longleftrightarrow> v = optional_value s \<and> (\<forall>x. s = Some x \<longrightarrow> is_sha256_hex x)"
  by (cases s) (auto simp: optional_digest_def optional_value_def res_simps)

definition invocation_scalars :: "ProducerChildInvocationV1 \<Rightarrow> jobj" where
  "invocation_scalars i = [(''schemaVersion'', JStr ''ProducerChildInvocationV1''), (''contractVersion'', JStr ''1''),
     (''contractSha256'', JStr (iv_contractSha256 i)), (''producer'', JStr ''capture-runtime''),
     (''parentGate'', JStr (gate_text (iv_parentGate i))), (''tier'', JStr (tier_text (iv_tier i))), (''invocationState'', JStr ''frozen''),
     (''sequenceIndex'', JNum (num (iv_sequenceIndex i))), (''childKey'', JStr (iv_childKey i)), (''legId'', JStr (iv_legId i)),
     (''childId'', JStr (iv_childId i)), (''root'', JStr (iv_root i)), (''groupRefDigest'', JStr (bb_groupRefDigest (iv_binding i))),
     (''groupGeneration'', JNum (num (bb_groupGeneration (iv_binding i)))),
     (''bindingAttemptId'', JStr (bb_bindingAttemptId (iv_binding i))),
     (''activationReceiptDigest'', JStr (bb_activationReceiptDigest (iv_binding i))),
     (''predecessorCleanupProofSha256'', optional_value (iv_predecessorCleanupProofSha256 i)),
     (''outputPathNonce'', JStr (iv_outputPathNonce i)), (''invocationSha256'', JStr (iv_invocationSha256 i))]"

definition invocation_parts :: "ProducerChildInvocationV1 \<Rightarrow> jobj" where
  "invocation_parts i = [(''rootBindings'', JArr (map render_root (bb_rootBindings (iv_binding i)))),
     (''artifactIds'', JArr (map JStr (iv_artifactIds i))), (''ledgerBinding'', JObj (ledger_entries (iv_ledgerBinding i))),
     (''fixtureAssignments'', JArr (map (\<lambda>a. JObj (assignment_entries a)) (iv_fixtureAssignments i)))]"

definition invocation_entries :: "ProducerChildInvocationV1 \<Rightarrow> jobj" where
  "invocation_entries i = invocation_scalars i @ invocation_parts i"

definition invocation_fields_ok :: "codec_host \<Rightarrow> ProducerChildInvocationV1 \<Rightarrow> bool" where
  "invocation_fields_ok h i \<longleftrightarrow> gate_tier (iv_parentGate i) (iv_tier i) \<and> 1 \<le> iv_sequenceIndex i
     \<and> iv_childKey i \<noteq> [] \<and> iv_legId i \<noteq> [] \<and> is_opaque (iv_outputPathNonce i)
     \<and> list_all is_sha256_hex [iv_contractSha256 i, iv_childId i, iv_root i, iv_invocationSha256 i]
     \<and> (\<forall>x. iv_predecessorCleanupProofSha256 i = Some x \<longrightarrow> is_sha256_hex x)
     \<and> iv_artifactIds i \<noteq> [] \<and> (\<forall>x \<in> set (iv_artifactIds i). is_sha256_hex x) \<and> distinct (iv_artifactIds i)
     \<and> valid_ledger (iv_ledgerBinding i) \<and> ledger_of_gate (iv_parentGate i) (iv_ledgerBinding i)
     \<and> iv_fixtureAssignments i \<noteq> [] \<and> (\<forall>a \<in> set (iv_fixtureAssignments i). valid_assignment h a)
     \<and> numbered fa_fixtureIndex fa_fixtureKey (iv_fixtureAssignments i)"

definition invocation_ok :: "codec_host \<Rightarrow> json option \<Rightarrow> ProducerChildInvocationV1 \<Rightarrow> bool" where
  "invocation_ok h expected i \<longleftrightarrow> invocation_fields_ok h i \<and> valid_bound (iv_binding i) \<and> expects expected (iv_binding i)"

definition valid_invocation :: "codec_host \<Rightarrow> json option \<Rightarrow> ProducerChildInvocationV1 \<Rightarrow> bool" where
  "valid_invocation h expected i \<longleftrightarrow> invocation_ok h expected i
     \<and> self_digest h ''invocationSha256'' (invocation_entries i) = iv_invocationSha256 i"

lemma invocation_keys: "sort (map fst (invocation_scalars i) @ map fst (invocation_parts i)) = sort INVOCATION_KEYS"
  "distinct (map fst (invocation_scalars i) @ map fst (invocation_parts i))"
  by (simp_all add: invocation_scalars_def invocation_parts_def INVOCATION_KEYS_def)

lemma scalar_optional [simp]: "scalar (optional_value s)"
  by (simp add: optional_value_def split: option.split)

lemma invocation_flat: "list_all (\<lambda>e. scalar (snd e)) (invocation_scalars i)"
  by (simp add: invocation_scalars_def)

lemma invocation_value_iff:
  assumes r: "plain D (JObj r)"
  shows "decodeProducerChildInvocationValue h expected (JObj r) = Inr i \<longleftrightarrow> sort (map fst r) = sort INVOCATION_KEYS
    \<and> (\<forall>k \<in> set (map fst (invocation_scalars i)). fld r k = fld (invocation_scalars i) k)
    \<and> (\<forall>k \<in> set (map fst (invocation_parts i)). sorted_value (fld r k) = sorted_value (fld (invocation_parts i) k))
    \<and> invocation_ok h expected i \<and> self_digest h ''invocationSha256'' r = iv_invocationSha256 i"
proof -
  note parts = rootBindings_iff[OF definable_fld[OF r]] digest_list_iff[OF definable_fld[OF r]]
    ledger.decode_iff[OF definable_fld[OF r]] orderedAssignments_iff[OF definable_fld[OF r]]
  show ?thesis
  proof (cases expected)
    case None
    then show ?thesis by (auto simp: decodeProducerChildInvocationValue_def res_simps expects_def invocation_ok_def)
  next
    case (Some e)
    show ?thesis
      unfolding decodeProducerChildInvocationValue_def Some option.case Let_def
      by (cases i; cases "iv_binding i")
        (auto simp: res_simps selfExcludedDigest_plain[OF r] parts optional_digest_iff matches_expected
          invocation_scalars_def invocation_parts_def invocation_ok_def invocation_fields_ok_def valid_bound_def gate_tier_def comp_def)
  qed
qed

lemma invocation_object: "decodeProducerChildInvocationValue h expected v = Inr i \<Longrightarrow> \<exists>r. v = JObj r"
  unfolding decodeProducerChildInvocationValue_def bind_res_Inr_iff[of "record_of v _"] record_of_iff by blast

interpretation invocation: codec D "\<lambda>v _. decodeProducerChildInvocationValue h expected v" "\<lambda>i. JObj (invocation_entries i)"
  "valid_invocation h expected" for D h expected
proof
  fix v and c :: string and i
  assume v: "definable D v"
  show "decodeProducerChildInvocationValue h expected v = Inr i \<longleftrightarrow>
      sorted_value v = sorted_value (JObj (invocation_entries i)) \<and> valid_invocation h expected i"
    unfolding invocation_entries_def valid_invocation_def
    by (rule digested_record[OF v invocation_keys(2) invocation_flat invocation_keys(1) _ invocation_object])
      (simp only: invocation_value_iff)
qed

section \<open>Semantic results\<close>

text \<open>The listed artifacts are exactly those of the results, each once.\<close>

definition artifacts_match :: "string list \<Rightarrow> SemanticFixtureResult list \<Rightarrow> bool" where
  "artifacts_match ids xs \<longleftrightarrow> distinct (map sf_artifactId xs) \<and> set (map sf_artifactId xs) = set ids"

lemma same_artifacts:
  assumes "distinct ids" "distinct found"
  shows "\<not> (length found \<noteq> length ids \<or> list_ex (\<lambda>i. i \<notin> set ids) found) \<longleftrightarrow> set found = set (ids :: 'a list)"
proof
  assume "\<not> (length found \<noteq> length ids \<or> list_ex (\<lambda>i. i \<notin> set ids) found)"
  then have "set found \<subseteq> set ids" "length found = length ids" by (auto simp: list_ex_iff)
  then show "set found = set ids"
    using assms by (intro card_subset_eq) (simp_all add: distinct_card)
next
  assume "set found = set ids"
  then show "\<not> (length found \<noteq> length ids \<or> list_ex (\<lambda>i. i \<notin> set ids) found)"
    using assms by (auto simp: list_ex_iff dest: arg_cong[where f = card] simp: distinct_card)
qed

lemma check_artifacts_iff:
  "distinct ids \<Longrightarrow> check_artifacts c m ids (map sf_artifactId xs) = Inr u \<longleftrightarrow> artifacts_match ids xs"
  using same_artifacts[of ids "map sf_artifactId xs"] by (auto simp: check_artifacts_def res_simps artifacts_match_def)

definition semantic_scalars :: "ConsumerSemanticResultV1 \<Rightarrow> jobj" where
  "semantic_scalars s = [(''schemaVersion'', JStr ''ConsumerSemanticResultV1''), (''contractVersion'', JStr ''1''),
     (''contractSha256'', JStr (cs_contractSha256 s)), (''consumer'', JStr (cs_consumer s)),
     (''parentGate'', JStr (gate_text (cs_parentGate s))), (''tier'', JStr (tier_text (cs_tier s))),
     (''sequenceIndex'', JNum (num (cs_sequenceIndex s))), (''childKey'', JStr (cs_childKey s)), (''legId'', JStr (cs_legId s)),
     (''childId'', JStr (cs_childId s)), (''semanticResultSha256'', JStr (cs_semanticResultSha256 s))]"

definition semantic_parts :: "ConsumerSemanticResultV1 \<Rightarrow> jobj" where
  "semantic_parts s = [(''artifactIds'', JArr (map JStr (cs_artifactIds s))),
     (''fixtureResults'', JArr (map (\<lambda>x. JObj (result_entries x)) (cs_fixtureResults s)))]"

definition semantic_entries :: "ConsumerSemanticResultV1 \<Rightarrow> jobj" where
  "semantic_entries s = semantic_scalars s @ semantic_parts s"

definition semantic_fields_ok :: "codec_host \<Rightarrow> ConsumerSemanticResultV1 \<Rightarrow> bool" where
  "semantic_fields_ok h s \<longleftrightarrow> gate_tier (cs_parentGate s) (cs_tier s) \<and> 1 \<le> cs_sequenceIndex s
     \<and> cs_consumer s \<noteq> [] \<and> cs_childKey s \<noteq> [] \<and> cs_legId s \<noteq> []
     \<and> list_all is_sha256_hex [cs_contractSha256 s, cs_childId s, cs_semanticResultSha256 s]
     \<and> cs_artifactIds s \<noteq> [] \<and> (\<forall>x \<in> set (cs_artifactIds s). is_sha256_hex x) \<and> distinct (cs_artifactIds s)
     \<and> cs_fixtureResults s \<noteq> [] \<and> (\<forall>x \<in> set (cs_fixtureResults s). valid_result h x)
     \<and> numbered sf_fixtureIndex sf_fixtureKey (cs_fixtureResults s) \<and> artifacts_match (cs_artifactIds s) (cs_fixtureResults s)"

definition valid_semantic :: "codec_host \<Rightarrow> ConsumerSemanticResultV1 \<Rightarrow> bool" where
  "valid_semantic h s \<longleftrightarrow> semantic_fields_ok h s \<and> self_digest h ''semanticResultSha256'' (semantic_entries s) = cs_semanticResultSha256 s"

lemma semantic_keys: "sort (map fst (semantic_scalars s) @ map fst (semantic_parts s)) = sort SEMANTIC_KEYS"
  "distinct (map fst (semantic_scalars s) @ map fst (semantic_parts s))" "list_all (\<lambda>e. scalar (snd e)) (semantic_scalars s)"
  by (simp_all add: semantic_scalars_def semantic_parts_def SEMANTIC_KEYS_def)

lemma semantic_value_iff:
  assumes r: "plain D (JObj r)"
  shows "decodeConsumerSemanticResultValue h (JObj r) = Inr s \<longleftrightarrow> sort (map fst r) = sort SEMANTIC_KEYS
    \<and> (\<forall>k \<in> set (map fst (semantic_scalars s)). fld r k = fld (semantic_scalars s) k)
    \<and> (\<forall>k \<in> set (map fst (semantic_parts s)). sorted_value (fld r k) = sorted_value (fld (semantic_parts s) k))
    \<and> semantic_fields_ok h s \<and> self_digest h ''semanticResultSha256'' r = cs_semanticResultSha256 s"
proof -
  note parts = digest_list_iff[OF definable_fld[OF r]] orderedSemanticResults_iff[OF definable_fld[OF r]]
  show ?thesis
    unfolding decodeConsumerSemanticResultValue_def
    by (cases s) (auto simp: res_simps selfExcludedDigest_plain[OF r] parts check_artifacts_iff
        semantic_scalars_def semantic_parts_def semantic_fields_ok_def gate_tier_def comp_def)
qed

lemma semantic_object: "decodeConsumerSemanticResultValue h v = Inr s \<Longrightarrow> \<exists>r. v = JObj r"
  unfolding decodeConsumerSemanticResultValue_def bind_res_Inr_iff[of "record_of v _"] record_of_iff by blast

interpretation semantic: codec D "\<lambda>v _. decodeConsumerSemanticResultValue h v" "\<lambda>s. JObj (semantic_entries s)"
  "valid_semantic h" for D h
proof
  fix v and c :: string and s
  assume v: "definable D v"
  show "decodeConsumerSemanticResultValue h v = Inr s \<longleftrightarrow> sorted_value v = sorted_value (JObj (semantic_entries s)) \<and> valid_semantic h s"
    unfolding semantic_entries_def valid_semantic_def
    by (rule digested_record[OF v semantic_keys(2,3,1) _ semantic_object]) (simp only: semantic_value_iff)
qed

section \<open>Wire records\<close>

definition wire_scalars :: "AcceptanceChildWireV1 \<Rightarrow> jobj" where
  "wire_scalars w = [(''schemaVersion'', JStr ''AcceptanceChildWireV1''), (''contractVersion'', JStr ''1''),
     (''contractSha256'', JStr (aw_contractSha256 w)), (''producer'', JStr ''capture-runtime''),
     (''parentGate'', JStr (gate_text (aw_parentGate w))), (''tier'', JStr (tier_text (aw_tier w))),
     (''runIdDigest'', JStr (aw_runIdDigest w)), (''sequenceIndex'', JNum (num (aw_sequenceIndex w))),
     (''childKey'', JStr (aw_childKey w)), (''legId'', JStr (aw_legId w)), (''childId'', JStr (aw_childId w)),
     (''root'', JStr (aw_root w)), (''invocationSha256'', JStr (aw_invocationSha256 w)),
     (''childSemanticResultSha256'', JStr (aw_childSemanticResultSha256 w)), (''wireSha256'', JStr (aw_wireSha256 w))]"

definition wire_parts :: "AcceptanceChildWireV1 \<Rightarrow> jobj" where
  "wire_parts w = [(''artifactIds'', JArr (map JStr (aw_artifactIds w))),
     (''ledgerBinding'', JObj (wire_ledger_entries (aw_ledgerBinding w))),
     (''fixtureAssignments'', JArr (map (\<lambda>a. JObj (assignment_entries a)) (aw_fixtureAssignments w))),
     (''fixtureResults'', JArr (map (\<lambda>x. JObj (wire_entries x)) (aw_fixtureResults w))),
     (''producerCleanup'', JObj (cleanup_entries (aw_producerCleanup w))), (''privacy'', JObj privacy_entries)]"

definition wire_record_entries :: "AcceptanceChildWireV1 \<Rightarrow> jobj" where
  "wire_record_entries w = wire_scalars w @ wire_parts w"

definition wire_fields_ok :: "codec_host \<Rightarrow> AcceptanceChildWireV1 \<Rightarrow> bool" where
  "wire_fields_ok h w \<longleftrightarrow> gate_tier (aw_parentGate w) (aw_tier w) \<and> 1 \<le> aw_sequenceIndex w \<and> aw_childKey w \<noteq> [] \<and> aw_legId w \<noteq> []
     \<and> list_all is_sha256_hex [aw_contractSha256 w, aw_runIdDigest w, aw_childId w, aw_root w, aw_invocationSha256 w,
         aw_childSemanticResultSha256 w, aw_wireSha256 w]
     \<and> aw_artifactIds w \<noteq> [] \<and> (\<forall>x \<in> set (aw_artifactIds w). is_sha256_hex x) \<and> distinct (aw_artifactIds w)
     \<and> valid_wire_ledger (aw_ledgerBinding w) \<and> ledger_of_gate (aw_parentGate w) (fst (aw_ledgerBinding w))
     \<and> aw_fixtureAssignments w \<noteq> [] \<and> (\<forall>a \<in> set (aw_fixtureAssignments w). valid_assignment h a)
     \<and> numbered fa_fixtureIndex fa_fixtureKey (aw_fixtureAssignments w)
     \<and> (\<forall>x \<in> set (aw_fixtureResults w). valid_result h x) \<and> numbered sf_fixtureIndex sf_fixtureKey (aw_fixtureResults w)
     \<and> list_all2 fixture_matches (aw_fixtureAssignments w) (aw_fixtureResults w)
     \<and> artifacts_match (aw_artifactIds w) (aw_fixtureResults w) \<and> valid_cleanup (aw_producerCleanup w)"

definition valid_wire :: "codec_host \<Rightarrow> AcceptanceChildWireV1 \<Rightarrow> bool" where
  "valid_wire h w \<longleftrightarrow> wire_fields_ok h w \<and> self_digest h ''wireSha256'' (wire_record_entries w) = aw_wireSha256 w"

lemma wire_record_keys: "sort (map fst (wire_scalars w) @ map fst (wire_parts w)) = sort WIRE_KEYS"
  "distinct (map fst (wire_scalars w) @ map fst (wire_parts w))" "list_all (\<lambda>e. scalar (snd e)) (wire_scalars w)"
  by (simp_all add: wire_scalars_def wire_parts_def WIRE_KEYS_def)

lemma matches_iff:
  "length as = length xs \<and> \<not> list_ex (\<lambda>(a, x). \<not> fixture_matches a x) (zip as xs) \<longleftrightarrow> list_all2 fixture_matches as xs"
  by (auto simp: list_all2_iff list_ex_iff)

lemma wire_artifacts:
  "distinct ids \<Longrightarrow> distinct (map sf_artifactId xs) \<and> \<not> (length (map sf_artifactId xs) \<noteq> length ids
     \<or> list_ex (\<lambda>i. i \<notin> set ids) (map sf_artifactId xs)) \<longleftrightarrow> artifacts_match ids xs"
  using same_artifacts[of ids "map sf_artifactId xs"] by (auto simp: artifacts_match_def)

lemma wire_value_iff:
  assumes r: "plain D (JObj r)"
  shows "decodeAcceptanceChildWireValue h (JObj r) = Inr w \<longleftrightarrow> sort (map fst r) = sort WIRE_KEYS
    \<and> (\<forall>k \<in> set (map fst (wire_scalars w)). fld r k = fld (wire_scalars w) k)
    \<and> (\<forall>k \<in> set (map fst (wire_parts w)). sorted_value (fld r k) = sorted_value (fld (wire_parts w) k))
    \<and> wire_fields_ok h w \<and> self_digest h ''wireSha256'' r = aw_wireSha256 w"
proof -
  note parts = digest_list_iff[OF definable_fld[OF r]] orderedAssignments_iff[OF definable_fld[OF r]]
    orderedWireResults_iff[OF definable_fld[OF r]] wire_ledger.decode_iff[OF definable_fld[OF r]]
    cleanup.decode_iff[OF definable_fld[OF r]] privacy.decode_iff[OF definable_fld[OF r]]
  show ?thesis
    unfolding decodeAcceptanceChildWireValue_def
    by (cases w) (auto simp: res_simps selfExcludedDigest_plain[OF r] parts matches_iff[symmetric] wire_artifacts[symmetric]
        wire_scalars_def wire_parts_def wire_fields_ok_def gate_tier_def comp_def)
qed

lemma wire_object: "decodeAcceptanceChildWireValue h v = Inr w \<Longrightarrow> \<exists>r. v = JObj r"
  unfolding decodeAcceptanceChildWireValue_def bind_res_Inr_iff[of "record_of v _"] record_of_iff by blast

interpretation wire: codec D "\<lambda>v _. decodeAcceptanceChildWireValue h v" "\<lambda>w. JObj (wire_record_entries w)" "valid_wire h" for D h
proof
  fix v and c :: string and w
  assume v: "definable D v"
  show "decodeAcceptanceChildWireValue h v = Inr w \<longleftrightarrow> sorted_value v = sorted_value (JObj (wire_record_entries w)) \<and> valid_wire h w"
    unfolding wire_record_entries_def valid_wire_def
    by (rule digested_record[OF v wire_record_keys(2,3,1) _ wire_object]) (simp only: wire_value_iff)
qed

end
