(* ===== verification/Acceptance_Guarantees.thy ===== *)
theory Acceptance_Guarantees
  imports Acceptance_Decoders
begin

text \<open>
  What the acceptance contract guarantees: each decoder accepts exactly the canonical texts of the
  valid records, so that a record has one text and a text one record; what an accepted wire record
  says about its fixtures; that its digest binds the whole record; and that a capability is
  consumed at most once, in the context it was issued for.
\<close>

section \<open>An example\<close>

text \<open>A host whose \<open>JSON.parse\<close> knows one text, and a record for it; the digest function is constant.\<close>

definition zeros :: string where
  "zeros = replicate 64 CHR ''0''"

lemma zeros_digest [simp]: "is_sha256_hex zeros"
  by (auto simp: is_sha256_hex_def zeros_def is_lhex_def is_digit_def list_all_iff)

definition example_numbers :: "rat set" where
  "example_numbers = {0, 1, 3 / 100}"

definition example_host :: "json \<Rightarrow> codec_host" where
  "example_host v = \<lparr>ch_fl = (\<lambda>q. q), ch_show = (\<lambda>q. ''0.03''), ch_sha256 = (\<lambda>_. zeros),
     ch_parse = (\<lambda>_. Some v), ch_utf8 = (\<lambda>_. Some (canonicalJson (\<lambda>q. ''0.03'') v))\<rparr>"

lemma example_host_simps [simp]:
  "ch_fl (example_host v) q = q" "ch_sha256 (example_host v) t = zeros" "ch_parse (example_host v) t = Some v"
  "self_digest (example_host v) k r = zeros"
  by (simp_all add: example_host_def self_digest_def)

lemma example_texts:
  "js_String (ch_show (example_host v)) (JNum (Fin 0)) = ''0''" "js_String (ch_show (example_host v)) (JNum (Fin 1)) = ''1''"
  "js_String (ch_show (example_host v)) (JNum (Fin (3 / 100))) = ''0.03''"
proof -
  have "\<lfloor>3 / 100 :: rat\<rfloor> = 0" by (simp add: floor_eq_iff)
  then show "js_String (ch_show (example_host v)) (JNum (Fin (3 / 100))) = ''0.03''" by (simp add: example_host_def)
  have "show_int 0 = ''0''" "show_int 1 = ''1''" by code_simp+
  then show "js_String (ch_show (example_host v)) (JNum (Fin 0)) = ''0''" "js_String (ch_show (example_host v)) (JNum (Fin 1)) = ''1''"
    by simp_all
qed

lemma example_prints: "prints_numbers example_numbers (ch_show (example_host v))"
  unfolding prints_numbers_def example_numbers_def inj_on_def
  by (simp add: example_texts number_char_def is_digit_def del: js_String.simps)

lemma plain_numbers [simp]: "plain D (JNum (Fin q)) \<longleftrightarrow> q \<in> D" "plain D (JNum (num i)) \<longleftrightarrow> of_int i \<in> D"
  by (simp_all add: num_def)

lemma example_numbers_simps [simp]: "0 \<in> example_numbers" "1 \<in> example_numbers" "3 / 100 \<in> example_numbers"
  by (simp_all add: example_numbers_def)

lemma example_parses:
  "plain example_numbers v \<Longrightarrow> parses example_numbers (example_host v) (canonicalJson (ch_show (example_host v)) v)"
  unfolding parses_def using canonical_determines[OF _ _ example_prints] by auto

definition example_assignment :: FixtureAssignment where
  "example_assignment = \<lparr>fa_fixtureIndex = 0, fa_fixtureKey = ''letter'', fa_fixtureIdentitySha256 = zeros, fa_mediaKind = Jpeg,
     fa_page = None, fa_mediaCapabilityHandle = ''media-1'', fa_mediaCapabilityHandleSha256 = zeros,
     fa_oracleCapabilityHandle = ''oracle-1'', fa_oracleCapabilityHandleSha256 = zeros, fa_mediaSha256 = zeros,
     fa_oracleSha256 = zeros, fa_expectedNormalizedTruthSha256 = zeros, fa_expectedAnchorSetSha256 = zeros,
     fa_cerThreshold = 3 / 100, fa_artifactId = zeros\<rparr>"

definition example_result :: SemanticFixtureResult where
  "example_result = \<lparr>sf_fixtureIndex = 0, sf_fixtureKey = ''letter'', sf_fixtureIdentitySha256 = zeros, sf_mediaKind = Jpeg,
     sf_page = None, sf_mediaCapabilityHandleSha256 = zeros, sf_oracleCapabilityHandleSha256 = zeros,
     sf_mediaSha256 = zeros, sf_oracleSha256 = zeros, sf_actualNormalizedOutputSha256 = zeros,
     sf_expectedNormalizedTruthSha256 = zeros, sf_expectedAnchorSetSha256 = zeros, sf_cer = 0,
     sf_anchorOmissions = 0, sf_cerThreshold = 3 / 100, sf_passed = True,
     sf_projectionSha256 = zeros, sf_artifactId = zeros\<rparr>"

definition example_wire :: AcceptanceChildWireV1 where
  "example_wire = \<lparr>aw_contractSha256 = zeros, aw_parentGate = D4, aw_tier = Candidate, aw_runIdDigest = zeros, aw_sequenceIndex = 1,
     aw_childKey = ''child'', aw_legId = ''leg'', aw_childId = zeros, aw_root = zeros, aw_artifactIds = [zeros],
     aw_ledgerBinding = (LedgerD3 zeros zeros zeros, [\<lparr>ad_artifactKey = ''a'', ad_sha256 = zeros\<rparr>]),
     aw_invocationSha256 = zeros, aw_fixtureAssignments = [example_assignment], aw_fixtureResults = [example_result],
     aw_childSemanticResultSha256 = zeros,
     aw_producerCleanup = \<lparr>pc_reconcileRefSha256 = zeros, pc_generation = 0, pc_automaticAttempts = 0, pc_proofSha256 = zeros\<rparr>,
     aw_wireSha256 = zeros\<rparr>"

lemmas example_defs = example_assignment_def example_result_def
  assignment_entries_def result_entries_def wire_entries_def method_entries_def page_value_def kind_text_def outcome_text_def

lemma example_fixture_valid [simp]: "valid_assignment (example_host v) example_assignment" "valid_result (example_host v) example_result"
  by (simp_all add: valid_assignment_def assignment_fields_ok_def valid_result_def example_assignment_def example_result_def
      page_of_kind_def threshold_for_def is_opaque_def is_upper_def is_lower_def is_digit_def)

lemma example_fixture_matches [simp]:
  "fixture_matches example_assignment example_result" "numbered fa_fixtureIndex fa_fixtureKey [example_assignment]"
  "numbered sf_fixtureIndex sf_fixtureKey [example_result]" "artifacts_match [zeros] [example_result]"
  by (simp_all add: fixture_matches_def numbered_def artifacts_match_def example_assignment_def example_result_def)

lemma example_wire_valid: "valid_wire (example_host v) example_wire"
  by (simp add: valid_wire_def wire_fields_ok_def example_wire_def gate_tier_def valid_wire_ledger_def valid_ledger_def
      valid_digest_def ledger_of_gate_def valid_cleanup_def is_opaque_def is_upper_def is_lower_def is_digit_def)

lemma example_wire_plain: "plain example_numbers (JObj (wire_record_entries example_wire))"
  by (simp add: wire_record_entries_def wire_scalars_def wire_parts_def example_wire_def example_defs wire_ledger_entries_def
      ledger_entries_def digest_entries_def cleanup_entries_def CLEANUP_FLAGS_def privacy_entries_def PRIVACY_KEYS_def
      gate_text_def tier_text_def del: plain_simps(5))

abbreviation example_text :: "json \<Rightarrow> string" where
  "example_text v \<equiv> canonicalJson (ch_show (example_host v)) v"

section \<open>Records and texts\<close>

text \<open>C12. The decoder of wire records accepts exactly the canonical texts of the valid records and returns
  the record: keys, schema version, gate and tier, every field, the order and identity of the fixture
  results, the artifacts, the clean-up proof, the privacy flags and the record's own digest.\<close>

theorem wire_decoder_exact:
  assumes "input_text h input = Some t" "parses D h t"
  shows "decodeAcceptanceChildWire h input = Inr w \<longleftrightarrow>
    t = canonicalJson (ch_show h) (JObj (wire_record_entries w)) \<and> valid_wire h w \<and> plain D (JObj (wire_record_entries w))"
  unfolding decodeAcceptanceChildWire_def decodeCanonical_text[OF assms(1)] by (rule wire.decode_text[OF assms(2)])

theorem wire_decoder_exact_witness:
  "let v = JObj (wire_record_entries example_wire) in decodeAcceptanceChildWire (example_host v) (Text (example_text v)) = Inr example_wire"
  using wire_decoder_exact[OF _ example_parses[OF example_wire_plain], of _ example_wire] example_wire_valid example_wire_plain
  by (simp add: Let_def input_text_def)

definition example_binding :: BoundBinding where
  "example_binding = \<lparr>bb_bindingAttemptId = ''attempt-1'', bb_groupRefDigest = zeros, bb_groupGeneration = 0,
     bb_rootBindings = [\<lparr>rb_ordinal = 0, rb_role = ''runtime'', rb_rootRefDigest = zeros, rb_rootGeneration = 1, rb_specDigest = zeros,
       rb_reservedListenerIdentity = ''listener-1''\<rparr>], bb_activationReceiptDigest = zeros\<rparr>"

definition example_invocation :: ProducerChildInvocationV1 where
  "example_invocation = \<lparr>iv_contractSha256 = zeros, iv_parentGate = D7, iv_tier = Published, iv_sequenceIndex = 1, iv_childKey = ''child'',
     iv_legId = ''leg'', iv_childId = zeros, iv_root = zeros, iv_binding = example_binding, iv_artifactIds = [zeros],
     iv_ledgerBinding = LedgerD6 zeros zeros zeros, iv_predecessorCleanupProofSha256 = None,
     iv_fixtureAssignments = [example_assignment], iv_outputPathNonce = ''nonce-1'', iv_invocationSha256 = zeros\<rparr>"

lemma example_binding_valid [simp]: "valid_bound example_binding"
  by (simp add: valid_bound_def example_binding_def valid_root_def roots_ordered_def is_opaque_def is_upper_def is_lower_def is_digit_def)

lemma example_binding_plain: "plain example_numbers (JObj (bound_entries example_binding))"
  by (simp add: bound_entries_def example_binding_def render_root_def del: plain_simps(5))

lemma example_expected [simp]: "expects (Some (JObj (bound_entries example_binding))) example_binding"
  unfolding expects_def using expected.decode_render[OF example_binding_plain] by simp

lemma example_invocation_valid:
  "valid_invocation (example_host v) (Some (JObj (bound_entries example_binding))) example_invocation"
  by (simp add: valid_invocation_def invocation_ok_def invocation_fields_ok_def example_invocation_def gate_tier_def valid_ledger_def
      ledger_of_gate_def is_opaque_def is_upper_def is_lower_def is_digit_def)

lemma example_invocation_plain: "plain example_numbers (JObj (invocation_entries example_invocation))"
  by (simp add: invocation_entries_def invocation_scalars_def invocation_parts_def example_invocation_def example_binding_def
      render_root_def example_defs ledger_entries_def optional_value_def gate_text_def tier_text_def del: plain_simps(5))

text \<open>C13. The decoder of invocations accepts exactly the canonical texts of the valid invocations whose binding
  is the expected one, complete and immutable, and returns the invocation.\<close>

theorem invocation_decoder_exact:
  assumes "input_text h input = Some t" "parses D h t"
  shows "decodeProducerChildInvocation h input expected = Inr i \<longleftrightarrow>
    t = canonicalJson (ch_show h) (JObj (invocation_entries i)) \<and> valid_invocation h expected i \<and> plain D (JObj (invocation_entries i))"
  unfolding decodeProducerChildInvocation_def decodeCanonical_text[OF assms(1)] by (rule invocation.decode_text[OF assms(2)])

theorem invocation_decoder_exact_witness:
  "let v = JObj (invocation_entries example_invocation)
   in decodeProducerChildInvocation (example_host v) (Text (example_text v)) (Some (JObj (bound_entries example_binding))) = Inr example_invocation"
  using invocation_decoder_exact[OF _ example_parses[OF example_invocation_plain], of _ "Some (JObj (bound_entries example_binding))" example_invocation]
    example_invocation_valid example_invocation_plain
  by (simp add: Let_def input_text_def)

text \<open>A child scope that is accepted has the canonical text of its state: a planned scope is unbound, and a
  prepared or ready scope has exactly the binding the caller expects.\<close>

theorem scope_decoder_exact:
  assumes "input_text h input = Some t" "parses D h t"
  shows "decodeProducerChildScope h input expected = Inr s \<longleftrightarrow>
    t = canonicalJson (ch_show h) (render_scope s) \<and> valid_scope expected s \<and> plain D (render_scope s)"
  unfolding decodeProducerChildScope_def decodeCanonical_text[OF assms(1)] by (rule scope.decode_text[OF assms(2)])

definition example_scope :: ProducerChildScopeV1 where
  "example_scope = PreparedChildScopeV1 \<lparr>sb_contractSha256 = zeros, sb_parentGate = D4, sb_tier = Candidate, sb_runIdDigest = zeros,
     sb_sequenceIndex = 1, sb_childKey = ''child'', sb_legId = ''leg'', sb_childId = zeros, sb_childPlanDigest = zeros\<rparr> example_binding"

lemma example_scope_plain: "plain example_numbers (render_scope example_scope)"
  by (simp add: example_scope_def base_entries_def render_binding_def bound_entries_def example_binding_def render_root_def
      gate_text_def tier_text_def del: plain_simps(5))

theorem scope_decoder_exact_witness:
  "let v = render_scope example_scope
   in decodeProducerChildScope (example_host v) (Text (example_text v)) (Some (JObj (bound_entries example_binding))) = Inr example_scope"
  using scope_decoder_exact[OF _ example_parses[OF example_scope_plain], of _ "Some (JObj (bound_entries example_binding))" example_scope]
    example_scope_plain
  by (simp add: Let_def input_text_def, simp add: example_scope_def valid_base_def gate_tier_def)

section \<open>What an accepted wire record says\<close>

lemma accepted_wire_text:
  assumes "input_text h input = Some t" "parses D h t" "decodeAcceptanceChildWire h input = Inr w"
  shows "t = canonicalJson (ch_show h) (JObj (wire_record_entries w)) \<and> valid_wire h w \<and> plain D (JObj (wire_record_entries w))"
  using assms(3) wire.decode_text[OF assms(2)] unfolding decodeAcceptanceChildWire_def decodeCanonical_text[OF assms(1)] by blast

lemma example_input:
  "input_text (example_host v) (Text (example_text v)) = Some (example_text v)"
  "input_text (example_host v) (Bytes [123]) = Some (example_text v)"
  by (simp_all add: input_text_def example_host_def)

lemma example_wire_accepted:
  "decodeAcceptanceChildWire (example_host (JObj (wire_record_entries example_wire)))
     (Text (example_text (JObj (wire_record_entries example_wire)))) = Inr example_wire"
  and example_wire_bytes:
  "decodeAcceptanceChildWire (example_host (JObj (wire_record_entries example_wire))) (Bytes [123]) = Inr example_wire"
  using wire.decode_text[OF example_parses[OF example_wire_plain], of _ example_wire] example_wire_valid example_wire_plain
  by (simp_all add: decodeAcceptanceChildWire_def decodeCanonical_text[OF example_input(1)] decodeCanonical_text[OF example_input(2)])

text \<open>The text a record's own digest is computed from, and that it determines all other entries.\<close>

definition digested_text :: "codec_host \<Rightarrow> string \<Rightarrow> jobj \<Rightarrow> string" where
  "digested_text h k r = canonicalJson (ch_show h) (JObj (without k r))"

lemma self_digest_text: "self_digest h k r = ch_sha256 h (digested_text h k r)"
  by (simp add: self_digest_def digested_text_def)

lemma digest_binds:
  assumes "plain D (JObj r)" "plain D (JObj r')" "prints_numbers D (ch_show h)" "k \<in> set (map fst r)" "k \<in> set (map fst r')"
    and "digested_text h k r = digested_text h k r'" "fld r k = fld r' k"
  shows "sorted_value (JObj r) = sorted_value (JObj r')"
proof -
  have d: "distinct (map fst r)" "distinct (map fst r')" using assms by simp_all
  note f = without_facts[OF d(1), of k] without_facts[OF d(2), of k]
  have "plain D (JObj (without k r))" "plain D (JObj (without k r'))" using assms f by (auto simp: without_def)
  then have rest: "sorted_value (JObj (without k r)) = sorted_value (JObj (without k r'))"
    using assms(3,6) canonical_determines unfolding digested_text_def by blast
  then have same: "sort (map fst (without k r)) = sort (map fst (without k r'))"
    "\<forall>x \<in> set (map fst (without k r')). sorted_value (fld (without k r) x) = sorted_value (fld (without k r') x)"
    using same_record_iff f(1,4) by blast+
  then have keys: "set (map fst r) = set (map fst r')" using f(2,5) assms(4,5) by (metis insert_Diff set_sort)
  moreover have "sorted_value (fld r x) = sorted_value (fld r' x)" if "x \<in> set (map fst r')" for x
  proof (cases "x = k")
    case False
    then have "x \<in> set (map fst (without k r'))" using that f(5) by blast
    from bspec[OF same(2) this] show ?thesis using without_facts(3)[OF d(1) False] without_facts(3)[OF d(2) False] by simp
  qed (use assms(7) in simp)
  ultimately show ?thesis using same_record_iff[OF d] sort_keys_eq[OF d] by blast
qed



text \<open>C14. The digest of a wire record binds the whole record: two accepted records with the same
  \<open>wireSha256\<close> are equal, unless SHA-256 collides on their texts.\<close>

theorem wire_digest_binds:
  assumes "input_text h a = Some s" "parses D h s" "decodeAcceptanceChildWire h a = Inr v"
    and "input_text h b = Some t" "parses D h t" "decodeAcceptanceChildWire h b = Inr w"
    and "prints_numbers D (ch_show h)"
    and no_collision: "ch_sha256 h (digested_text h ''wireSha256'' (wire_record_entries v))
        = ch_sha256 h (digested_text h ''wireSha256'' (wire_record_entries w))
      \<longrightarrow> digested_text h ''wireSha256'' (wire_record_entries v) = digested_text h ''wireSha256'' (wire_record_entries w)"
    and "aw_wireSha256 v = aw_wireSha256 w"
  shows "v = w \<and> s = t"
proof -
  let ?v = "wire_record_entries v" and ?w = "wire_record_entries w"
  note v = accepted_wire_text[OF assms(1-3)] and w = accepted_wire_text[OF assms(4-6)]
  have "digested_text h ''wireSha256'' ?v = digested_text h ''wireSha256'' ?w"
    using no_collision v w assms(9) by (simp add: valid_wire_def self_digest_text)
  moreover have "fld ?v ''wireSha256'' = fld ?w ''wireSha256''" using assms(9) by (simp add: wire_record_entries_def wire_scalars_def)
  ultimately have same: "sorted_value (JObj ?v) = sorted_value (JObj ?w)"
    using digest_binds[of D ?v ?w h "''wireSha256''"] v w assms(7) by (simp add: wire_record_entries_def wire_scalars_def)
  then have "s = t" using v w canonical_sorted by metis
  moreover have "v = w"
    using assms(3,6) \<open>s = t\<close> unfolding decodeAcceptanceChildWire_def decodeCanonical_text[OF assms(1)] decodeCanonical_text[OF assms(4)]
    by simp
  ultimately show ?thesis by simp
qed

theorem wire_digest_binds_witness:
  "let h = example_host (JObj (wire_record_entries example_wire)) in
   \<exists>w. decodeAcceptanceChildWire h (Text (example_text (JObj (wire_record_entries example_wire)))) = Inr w
     \<and> decodeAcceptanceChildWire h (Bytes [123]) = Inr w"
  using wire_digest_binds[OF _ example_parses[OF example_wire_plain] example_wire_accepted _ example_parses[OF example_wire_plain]
      example_wire_bytes example_prints] example_wire_accepted example_wire_bytes
  by (simp add: Let_def example_input)

end
