(* ===== verification/Acceptance_Capabilities.thy ===== *)
theory Acceptance_Capabilities
  imports Acceptance_Records
begin

text \<open>
  \<^verbatim>\<open>packages/capture-acceptance-contract/src/codecs.ts\<close>, \<open>CapabilityUseRegistry\<close>: capabilities
  are issued for a context and consumed once, in that context. The registry is the map from the
  digest of a handle to the capability; a call that throws leaves it as it is.
\<close>

section \<open>The registry\<close>

record CapabilityUseContext =
  cu_childId :: string
  cu_legId :: string
  cu_parentGate :: ParentGate
  cu_invocationSha256 :: string

record IssuedCapability =
  ic_context :: CapabilityUseContext
  ic_consumed :: bool

type_synonym registry = "string \<rightharpoonup> IssuedCapability"

definition capabilityUseContext :: "json \<Rightarrow> string \<Rightarrow> acceptance_error + CapabilityUseContext" where
  "capabilityUseContext v c =
     bind_res (record_of v c) (\<lambda>r.
     then_res (exactKeys r [''childId'', ''legId'', ''parentGate'', ''invocationSha256''] c)
     (bind_res (assertSha256 (fld r ''childId'') (c @ ''.childId'')) (\<lambda>child.
     bind_res (stringValue (fld r ''legId'') (c @ ''.legId'')) (\<lambda>leg.
     bind_res (enumValue (fld r ''parentGate'') gates (c @ ''.parentGate'')) (\<lambda>gate.
     bind_res (assertSha256 (fld r ''invocationSha256'') (c @ ''.invocationSha256'')) (\<lambda>invocation.
     Inr \<lparr>cu_childId = child, cu_legId = leg, cu_parentGate = gate, cu_invocationSha256 = invocation\<rparr>))))))"

definition sameCapabilityContext :: "CapabilityUseContext \<Rightarrow> CapabilityUseContext \<Rightarrow> bool" where
  "sameCapabilityContext a b =
     (cu_childId a = cu_childId b \<and> cu_legId a = cu_legId b \<and> cu_parentGate a = cu_parentGate b
      \<and> cu_invocationSha256 a = cu_invocationSha256 b)"

definition issue :: "json \<Rightarrow> json \<Rightarrow> registry \<Rightarrow> acceptance_error + registry" where
  "issue handle context reg =
     bind_res (assertSha256 handle ''capability handle digest'') (\<lambda>d.
     bind_res (capabilityUseContext context ''capability context'') (\<lambda>x.
     if reg d \<noteq> None then fail (''Acceptance capability was already issued: '' @ d)
     else Inr (reg(d \<mapsto> \<lparr>ic_context = x, ic_consumed = False\<rparr>))))"

text \<open>The checks that \<open>consume\<close> and \<open>isConsumed\<close> share: the capability was issued, for this context.\<close>

definition issued_for :: "json \<Rightarrow> json \<Rightarrow> registry \<Rightarrow> acceptance_error + string \<times> IssuedCapability" where
  "issued_for handle context reg =
     bind_res (assertSha256 handle ''capability handle digest'') (\<lambda>d.
     case reg d of
       None \<Rightarrow> Inl (CapabilityNotIssuedError (''Acceptance capability was not issued: '' @ d))
     | Some i \<Rightarrow>
         bind_res (capabilityUseContext context ''capability context'') (\<lambda>x.
         if \<not> sameCapabilityContext (ic_context i) x then fail ''acceptance capability context does not match issuance''
         else Inr (d, i)))"

definition consume :: "json \<Rightarrow> json \<Rightarrow> registry \<Rightarrow> acceptance_error + registry" where
  "consume handle context reg =
     bind_res (issued_for handle context reg) (\<lambda>(d, i).
     if ic_consumed i then Inl (CapabilityReplayError (''Acceptance capability was already consumed: '' @ d))
     else Inr (reg(d \<mapsto> i\<lparr>ic_consumed := True\<rparr>)))"

definition isConsumed :: "json \<Rightarrow> json \<Rightarrow> registry \<Rightarrow> acceptance_error + bool" where
  "isConsumed handle context reg = bind_res (issued_for handle context reg) (\<lambda>(d, i). Inr (ic_consumed i))"

section \<open>Sequences of calls\<close>

datatype capability_call = Issue json json | Consume json json

fun make_call :: "capability_call \<Rightarrow> registry \<Rightarrow> acceptance_error + registry" where
  "make_call (Issue handle x) reg = issue handle x reg"
| "make_call (Consume handle x) reg = consume handle x reg"

definition after_call :: "capability_call \<Rightarrow> registry \<Rightarrow> registry" where
  "after_call c reg = (case make_call c reg of Inl _ \<Rightarrow> reg | Inr reg' \<Rightarrow> reg')"

definition registry_after :: "capability_call list \<Rightarrow> registry" where
  "registry_after cs = fold after_call cs Map.empty"

lemma issue_iff:
  "issue v x reg = Inr reg' \<longleftrightarrow> (\<exists>d y. v = JStr d \<and> is_sha256_hex d \<and> capabilityUseContext x ''capability context'' = Inr y
     \<and> reg d = None \<and> reg' = reg(d \<mapsto> \<lparr>ic_context = y, ic_consumed = False\<rparr>))"
  by (auto simp: issue_def res_simps)

lemma same_context_eq: "sameCapabilityContext a b \<longleftrightarrow> a = b"
  by (cases a; cases b) (auto simp: sameCapabilityContext_def)

lemma issued_for_iff:
  "issued_for v x reg = Inr (d, i) \<longleftrightarrow> v = JStr d \<and> is_sha256_hex d \<and> reg d = Some i
     \<and> capabilityUseContext x ''capability context'' = Inr (ic_context i)"
  by (auto simp: issued_for_def res_simps same_context_eq split: option.splits)

lemma consume_iff:
  "consume v x reg = Inr reg' \<longleftrightarrow> (\<exists>d i. issued_for v x reg = Inr (d, i) \<and> \<not> ic_consumed i \<and> reg' = reg(d \<mapsto> i\<lparr>ic_consumed := True\<rparr>))"
  by (auto simp: consume_def res_simps)

text \<open>A capability is never forgotten, keeps its context, and stays consumed.\<close>

definition kept :: "IssuedCapability \<Rightarrow> registry \<Rightarrow> string \<Rightarrow> bool" where
  "kept i reg d \<longleftrightarrow> (\<exists>i'. reg d = Some i' \<and> ic_context i' = ic_context i \<and> (ic_consumed i \<longrightarrow> ic_consumed i'))"

lemma after_call_keeps: "kept i reg d \<Longrightarrow> kept i (after_call c reg) d"
  by (cases c) (auto simp: kept_def after_call_def issue_iff consume_iff issued_for_iff split: sum.splits)

lemma calls_keep: "kept i reg d \<Longrightarrow> kept i (fold after_call cs reg) d"
  by (induction cs arbitrary: reg) (simp_all add: after_call_keeps)

lemma registry_after_append: "registry_after (cs @ cs') = fold after_call cs' (registry_after cs)"
  by (simp add: registry_after_def)

lemma issued_before:
  "registry_after cs d = Some i \<Longrightarrow> \<exists>j < length cs. \<exists>y reg'. cs ! j = Issue (JStr d) y \<and> issue (JStr d) y (registry_after (take j cs)) = Inr reg'
     \<and> capabilityUseContext y ''capability context'' = Inr (ic_context i)"
proof (induction cs arbitrary: i rule: rev_induct)
  case (snoc c cs)
  let ?reg = "registry_after cs"
  have last: "registry_after (cs @ [c]) = after_call c ?reg" by (simp add: registry_after_append)
  show ?case
  proof (cases "\<exists>i'. ?reg d = Some i' \<and> ic_context i' = ic_context i")
    case True
    then obtain i' where "?reg d = Some i'" "ic_context i' = ic_context i" by blast
    with snoc.IH[of i'] obtain j y reg' where "j < length cs" "cs ! j = Issue (JStr d) y"
      "issue (JStr d) y (registry_after (take j cs)) = Inr reg'" "capabilityUseContext y ''capability context'' = Inr (ic_context i)"
      by auto
    then show ?thesis by (intro exI[of _ j]) (auto simp: nth_append)
  next
    case False
    have "?reg d = None"
      using after_call_keeps[of _ ?reg d c] snoc.prems False by (cases "?reg d") (fastforce simp: kept_def last)+
    then obtain y reg' where "c = Issue (JStr d) y" "issue (JStr d) y ?reg = Inr reg'"
        "capabilityUseContext y ''capability context'' = Inr (ic_context i)"
      using snoc.prems unfolding last after_call_def
      by (cases c) (auto simp: issue_iff consume_iff issued_for_iff split: sum.splits if_splits)
    then show ?thesis by (intro exI[of _ "length cs"]) auto
  qed
qed (simp add: registry_after_def)

lemma stays_consumed:
  assumes "consume (JStr d) x (registry_after cs) = Inr reg'"
  shows "\<exists>i. issued_for (JStr d) x (registry_after (cs @ Consume (JStr d) x # cs')) = Inr (d, i) \<and> ic_consumed i"
proof -
  obtain i where i: "is_sha256_hex d" "capabilityUseContext x ''capability context'' = Inr (ic_context i)"
      "reg' = (registry_after cs)(d \<mapsto> i\<lparr>ic_consumed := True\<rparr>)"
    using assms by (auto simp: consume_iff issued_for_iff)
  have "registry_after (cs @ Consume (JStr d) x # cs') = fold after_call cs' reg'"
    using assms by (simp add: registry_after_append after_call_def)
  moreover have "kept (i\<lparr>ic_consumed := True\<rparr>) reg' d" by (simp add: kept_def i(3))
  ultimately have "kept (i\<lparr>ic_consumed := True\<rparr>) (registry_after (cs @ Consume (JStr d) x # cs')) d" using calls_keep by simp
  then show ?thesis using i(1,2) by (auto simp: kept_def issued_for_iff)
qed

text \<open>C16. Whatever calls a registry has seen: a capability that can be consumed was issued before, for the same
  context, and has not been consumed; once it is consumed, consuming it again is refused as a replay
  after any further calls, and \<open>isConsumed\<close> reports it.\<close>

theorem capability_consumed_once:
  assumes "consume (JStr d) x (registry_after cs) = Inr reg'"
  shows "(\<exists>j < length cs. \<exists>y r. cs ! j = Issue (JStr d) y \<and> issue (JStr d) y (registry_after (take j cs)) = Inr r
        \<and> capabilityUseContext y ''capability context'' = capabilityUseContext x ''capability context'')
    \<and> (\<forall>j < length cs. \<forall>y r. cs ! j = Consume (JStr d) y \<longrightarrow> consume (JStr d) y (registry_after (take j cs)) \<noteq> Inr r)
    \<and> (let later = registry_after (cs @ Consume (JStr d) x # cs')
       in consume (JStr d) x later = Inl (CapabilityReplayError (''Acceptance capability was already consumed: '' @ d))
          \<and> isConsumed (JStr d) x later = Inr True)"
proof (intro conjI)
  obtain i where i: "registry_after cs d = Some i" "capabilityUseContext x ''capability context'' = Inr (ic_context i)" "\<not> ic_consumed i"
    using assms by (auto simp: consume_iff issued_for_iff)
  show "\<exists>j < length cs. \<exists>y r. cs ! j = Issue (JStr d) y \<and> issue (JStr d) y (registry_after (take j cs)) = Inr r
      \<and> capabilityUseContext y ''capability context'' = capabilityUseContext x ''capability context''"
    using issued_before[OF i(1)] i(2) by auto
  show "\<forall>j < length cs. \<forall>y r. cs ! j = Consume (JStr d) y \<longrightarrow> consume (JStr d) y (registry_after (take j cs)) \<noteq> Inr r"
  proof (intro allI impI notI)
    fix j y r
    assume j: "j < length cs" "cs ! j = Consume (JStr d) y" "consume (JStr d) y (registry_after (take j cs)) = Inr r"
    from stays_consumed[OF j(3), of "drop (Suc j) cs"] show False
      using id_take_nth_drop[OF j(1)] j(2) i(1,3) by (simp add: issued_for_iff)
  qed
  show "let later = registry_after (cs @ Consume (JStr d) x # cs')
       in consume (JStr d) x later = Inl (CapabilityReplayError (''Acceptance capability was already consumed: '' @ d))
          \<and> isConsumed (JStr d) x later = Inr True"
    using stays_consumed[OF assms, of cs'] by (auto simp: Let_def consume_def isConsumed_def)
qed

text \<open>A run that issues one capability.\<close>

definition one_digest :: string where
  "one_digest = replicate 64 CHR ''1''"

definition one_context :: json where
  "one_context = JObj [(''childId'', JStr one_digest), (''legId'', JStr ''leg''), (''parentGate'', JStr ''D4''), (''invocationSha256'', JStr one_digest)]"

lemma one_digest_ok: "is_sha256_hex one_digest"
  by (auto simp: is_sha256_hex_def one_digest_def is_lhex_def is_digit_def list_all_iff)

lemma one_context_ok: "\<exists>x. capabilityUseContext one_context c = Inr x"
  using one_digest_ok by (auto simp: capabilityUseContext_def one_context_def record_of_def exactKeys_def fail_if_def throw_if_def
      assertSha256_def stringValue_def enumValue_def gates_def is_sha256_hex_def)

lemma one_consumed: "\<exists>r. consume (JStr one_digest) one_context (registry_after [Issue (JStr one_digest) one_context]) = Inr r"
proof -
  obtain x where x: "capabilityUseContext one_context ''capability context'' = Inr x" using one_context_ok by blast
  then have "issue (JStr one_digest) one_context Map.empty = Inr [one_digest \<mapsto> \<lparr>ic_context = x, ic_consumed = False\<rparr>]"
    using one_digest_ok by (auto simp: issue_iff)
  then have "registry_after [Issue (JStr one_digest) one_context] = [one_digest \<mapsto> \<lparr>ic_context = x, ic_consumed = False\<rparr>]"
    by (simp add: registry_after_def after_call_def)
  then show ?thesis using x one_digest_ok by (auto simp: consume_iff issued_for_iff)
qed

theorem capability_consumed_once_witness:
  "isConsumed (JStr one_digest) one_context
     (registry_after [Issue (JStr one_digest) one_context, Consume (JStr one_digest) one_context]) = Inr True"
proof -
  obtain r where "consume (JStr one_digest) one_context (registry_after [Issue (JStr one_digest) one_context]) = Inr r"
    using one_consumed by blast
  from capability_consumed_once[OF this, of "[]"] show ?thesis by (simp add: Let_def)
qed

end
