(* ===== verification/Scope_Lock.thy ===== *)
theory Scope_Lock
  imports Capture_Prelude
begin

text \<open>
  \<^verbatim>\<open>apps/capture-workbench-desktop/scripts/acceptance-scope.ts\<close>, the lock: operations on the scope file
  of an acceptance run, started by several processes, exclude each other through a lock file, and a
  lock whose owner has died is removed under a second file, the reconcile gate.

  A task is one call of \<open>withScopeLock\<close>. It is at a point of the code, the call of the operating
  system it awaits (\<open>request\<close>); \<open>resume\<close> is the code from that call to the next one. Between two
  points anything can happen: calls of other tasks, the passing of time, the death of a process.
\<close>

section \<open>Data\<close>

datatype storage_error =
    ReadFailed | ParseFailed | MkdirFailed | WriteFailed | RenameFailed | TempCleanupFailed
  | LockCreateFailed | LockBusy | LockReadFailed | LockInvalid | LockOwnerUnknown
  | LockReconcileFailed | LockReconcileBusy | LockReleaseFailed
  | OperationError string

datatype fs_error = ENOENT | EEXIST | EOTHER

datatype process_status = Alive | Dead | Unknown

definition SCOPE_LOCK_STALE_AFTER_MS :: int where
  "SCOPE_LOCK_STALE_AFTER_MS = 30000"

definition SCOPE_LOCK_WAIT_TIMEOUT_MS :: int where
  "SCOPE_LOCK_WAIT_TIMEOUT_MS = 15000"

text \<open>The times an attempt to take the lock is made with.\<close>

record attempt =
  at_created :: int
  at_deadline :: int

definition asPositivePid :: "json \<Rightarrow> int option" where
  "asPositivePid v = (case v of JNum (Fin q) \<Rightarrow> if js_isSafeInteger (Fin q) \<and> 0 < q then Some \<lfloor>q\<rfloor> else None | _ \<Rightarrow> None)"

definition lock_record :: "int \<Rightarrow> string \<Rightarrow> attempt \<Rightarrow> json" where
  "lock_record pid token a =
     JObj [(''schemaVersion'', JNum (num 1)), (''pid'', JNum (num pid)), (''createdAtEpochMs'', JNum (num (at_created a))),
       (''token'', JStr token)]"

text \<open>The pid and the time of creation in a valid lock record.\<close>

definition validLockRecord :: "json \<Rightarrow> (int \<times> int) option" where
  "validLockRecord v =
     (case v of
        JObj r \<Rightarrow>
          if fld r ''schemaVersion'' = JNum (num 1) \<and> (case fld r ''token'' of JStr t \<Rightarrow> t \<noteq> [] | _ \<Rightarrow> False)
          then (case (asPositivePid (fld r ''pid''), asPositivePid (fld r ''createdAtEpochMs'')) of
                  (Some pid, Some created) \<Rightarrow> Some (pid, created) | _ \<Rightarrow> None)
          else None
      | _ \<Rightarrow> None)"

section \<open>Calls of the operating system\<close>

text \<open>The files tasks share, and a file of the task's own with a random name (a temporary or a
  quarantined file). A file that is being written has no JSON value yet.\<close>

datatype shared = Lock_file | Gate_file | Scope_file | Own_file

datatype call =
    Create shared
  | Write shared json
  | Read shared
  | Rename_lock_away
  | Replace_scope json
  | Unlink shared
  | Mkdir
  | ProcessAlive int
  | No_call

datatype response = Done | Content "json option" | Refused fs_error | Status process_status

text \<open>A file with the task that created it and its value.\<close>

type_synonym files = "shared \<Rightarrow> (nat \<times> json option) option"

definition serve :: "nat \<Rightarrow> call \<Rightarrow> files \<Rightarrow> response \<times> files" where
  "serve t c fs =
     (case c of
        Create f \<Rightarrow> (case fs f of None \<Rightarrow> (Done, fs(f := Some (t, None))) | Some _ \<Rightarrow> (Refused EEXIST, fs))
      | Write f v \<Rightarrow> (Done, (case fs f of Some (u, _) \<Rightarrow> if u = t then fs(f := Some (t, Some v)) else fs | None \<Rightarrow> fs))
      | Read f \<Rightarrow> (case fs f of None \<Rightarrow> (Refused ENOENT, fs) | Some (_, v) \<Rightarrow> (Content v, fs))
      | Rename_lock_away \<Rightarrow> (case fs Lock_file of None \<Rightarrow> (Refused ENOENT, fs) | Some _ \<Rightarrow> (Done, fs(Lock_file := None)))
      | Replace_scope v \<Rightarrow> (Done, fs(Scope_file := Some (t, Some v)))
      | Unlink f \<Rightarrow> (case fs f of None \<Rightarrow> (Refused ENOENT, fs) | Some _ \<Rightarrow> (Done, fs(f := None)))
      | _ \<Rightarrow> (Done, fs))"

section \<open>The points of a task\<close>

datatype reconcile = Removed | Held | Threw storage_error

text \<open>An operation reads the scope and throws, or writes nothing, or a new scope.\<close>

type_synonym operation = "json option \<Rightarrow> storage_error + json option"

datatype point =
    Start
  | Open_lock attempt | Fill_lock attempt | Undo_lock attempt
  | Open_gate attempt int | Fill_gate attempt | Undo_gate attempt
  | Read_lock attempt | Probe_owner attempt int | Rename_lock attempt | Unlink_quarantine attempt
  | Unlink_gate attempt reconcile
  | Op_read attempt | Op_mkdir attempt "json option" json | Op_write attempt "json option" json
  | Op_rename attempt "json option" json | Op_unlink attempt "storage_error option"
  | Unlink_lock attempt "storage_error + unit"
  | Finished "storage_error + unit"

record tasks =
  tk_pid :: "nat \<Rightarrow> int"
  tk_token :: "nat \<Rightarrow> string"
  tk_operation :: "nat \<Rightarrow> operation"

definition new_attempt :: "int \<Rightarrow> attempt" where
  "new_attempt now = \<lparr>at_created = now, at_deadline = now + SCOPE_LOCK_WAIT_TIMEOUT_MS\<rparr>"

definition request :: "tasks \<Rightarrow> nat \<Rightarrow> point \<Rightarrow> call" where
  "request T t p =
     (case p of
        Start \<Rightarrow> No_call
      | Open_lock _ \<Rightarrow> Create Lock_file
      | Fill_lock a \<Rightarrow> Write Lock_file (lock_record (tk_pid T t) (tk_token T t) a)
      | Undo_lock _ \<Rightarrow> Unlink Lock_file
      | Open_gate _ _ \<Rightarrow> Create Gate_file
      | Fill_gate _ \<Rightarrow> Write Gate_file (JObj [(''schemaVersion'', JNum (num 1)), (''pid'', JNum (num (tk_pid T t))), (''token'', JStr (tk_token T t))])
      | Undo_gate _ \<Rightarrow> Unlink Gate_file
      | Read_lock _ \<Rightarrow> Read Lock_file
      | Probe_owner _ pid \<Rightarrow> ProcessAlive pid
      | Rename_lock _ \<Rightarrow> Rename_lock_away
      | Unlink_quarantine _ \<Rightarrow> Unlink Own_file
      | Unlink_gate _ _ \<Rightarrow> Unlink Gate_file
      | Op_read _ \<Rightarrow> Read Scope_file
      | Op_mkdir _ _ _ \<Rightarrow> Mkdir
      | Op_write _ _ v \<Rightarrow> Write Own_file v
      | Op_rename _ _ v \<Rightarrow> Replace_scope v
      | Op_unlink _ _ \<Rightarrow> Unlink Own_file
      | Unlink_lock _ _ \<Rightarrow> Unlink Lock_file
      | Finished _ \<Rightarrow> No_call)"

section \<open>The code between two points\<close>

text \<open>\<open>acquireScopeLock\<close>: creating the lock file and writing its record (\<open>writeFileExclusive\<close>).\<close>

definition after_open_lock :: "int \<Rightarrow> attempt \<Rightarrow> response \<Rightarrow> point" where
  "after_open_lock now a r =
     (case r of
        Done \<Rightarrow> Fill_lock a
      | Refused EEXIST \<Rightarrow> Open_gate a (now + SCOPE_LOCK_WAIT_TIMEOUT_MS)
      | _ \<Rightarrow> Finished (Inl LockCreateFailed))"

definition after_fill_lock :: "attempt \<Rightarrow> response \<Rightarrow> point" where
  "after_fill_lock a r = (if r = Done then Op_read a else Undo_lock a)"

text \<open>\<open>acquireReconcileGate\<close>\<close>

definition after_open_gate :: "int \<Rightarrow> attempt \<Rightarrow> int \<Rightarrow> response \<Rightarrow> point" where
  "after_open_gate now a deadline r =
     (case r of
        Done \<Rightarrow> Fill_gate a
      | Refused EEXIST \<Rightarrow> if deadline \<le> now then Finished (Inl LockReconcileBusy) else Open_gate a deadline
      | _ \<Rightarrow> Finished (Inl LockReconcileFailed))"

definition after_fill_gate :: "attempt \<Rightarrow> response \<Rightarrow> point" where
  "after_fill_gate a r = (if r = Done then Read_lock a else Undo_gate a)"

text \<open>\<open>reconcileStaleScopeLock\<close>\<close>

definition after_read_lock :: "int \<Rightarrow> attempt \<Rightarrow> response \<Rightarrow> point" where
  "after_read_lock now a r =
     (case r of
        Content (Some v) \<Rightarrow>
          (case validLockRecord v of
             None \<Rightarrow> Unlink_gate a (Threw LockInvalid)
           | Some (pid, created) \<Rightarrow>
               if now - created < SCOPE_LOCK_STALE_AFTER_MS then Unlink_gate a Held else Probe_owner a pid)
      | Content None \<Rightarrow> Unlink_gate a (Threw LockInvalid)
      | Refused ENOENT \<Rightarrow> Unlink_gate a Removed
      | _ \<Rightarrow> Unlink_gate a (Threw LockReadFailed))"

definition after_probe :: "attempt \<Rightarrow> process_status \<Rightarrow> point" where
  "after_probe a status =
     (case status of
        Alive \<Rightarrow> Unlink_gate a Held
      | Unknown \<Rightarrow> Unlink_gate a (Threw LockOwnerUnknown)
      | Dead \<Rightarrow> Rename_lock a)"

definition after_rename_lock :: "attempt \<Rightarrow> response \<Rightarrow> point" where
  "after_rename_lock a r =
     (case r of
        Done \<Rightarrow> Unlink_quarantine a
      | Refused ENOENT \<Rightarrow> Unlink_gate a Removed
      | _ \<Rightarrow> Unlink_gate a (Threw LockReconcileFailed))"

text \<open>\<open>releaseScopeLock\<close> takes a file that is not there as released.\<close>

definition released :: "response \<Rightarrow> bool" where
  "released r = (r = Done \<or> r = Refused ENOENT)"

definition after_unlink_quarantine :: "attempt \<Rightarrow> response \<Rightarrow> point" where
  "after_unlink_quarantine a r = Unlink_gate a (if released r then Removed else Threw LockReleaseFailed)"

text \<open>The end of \<open>withReconcileGate\<close> and the loop of \<open>acquireScopeLock\<close>.\<close>

definition after_unlink_gate :: "int \<Rightarrow> attempt \<Rightarrow> reconcile \<Rightarrow> response \<Rightarrow> point" where
  "after_unlink_gate now a result r =
     (if \<not> released r then Finished (Inl LockReleaseFailed)
      else case result of
        Removed \<Rightarrow> Open_lock a
      | Held \<Rightarrow> if at_deadline a \<le> now then Finished (Inl LockBusy) else Open_lock a
      | Threw e \<Rightarrow> Finished (Inl e))"

text \<open>The operation: \<open>readScopeValue\<close>, what it makes of the scope, and \<open>atomicWriteJson\<close>.\<close>

definition run_operation :: "operation \<Rightarrow> attempt \<Rightarrow> json option \<Rightarrow> point" where
  "run_operation f a current =
     (case f current of
        Inl e \<Rightarrow> Unlink_lock a (Inl e)
      | Inr None \<Rightarrow> Unlink_lock a (Inr ())
      | Inr (Some v) \<Rightarrow> Op_mkdir a current v)"

definition after_op_read :: "operation \<Rightarrow> attempt \<Rightarrow> response \<Rightarrow> point" where
  "after_op_read f a r =
     (case r of
        Content (Some v) \<Rightarrow> run_operation f a (Some v)
      | Content None \<Rightarrow> Unlink_lock a (Inl ParseFailed)
      | Refused ENOENT \<Rightarrow> run_operation f a None
      | _ \<Rightarrow> Unlink_lock a (Inl ReadFailed))"

definition after_op_unlink :: "attempt \<Rightarrow> storage_error option \<Rightarrow> response \<Rightarrow> point" where
  "after_op_unlink a primary r =
     Unlink_lock a (if \<not> released r then Inl TempCleanupFailed else case primary of Some e \<Rightarrow> Inl e | None \<Rightarrow> Inr ())"

text \<open>The end of \<open>withScopeLock\<close>\<close>

definition after_unlink_lock :: "(storage_error + unit) \<Rightarrow> response \<Rightarrow> point" where
  "after_unlink_lock result r = Finished (if released r then result else Inl LockReleaseFailed)"

fun resume :: "operation \<Rightarrow> int \<Rightarrow> point \<Rightarrow> response \<Rightarrow> point" where
  "resume f now (Open_lock a) r = after_open_lock now a r"
| "resume f now (Fill_lock a) r = after_fill_lock a r"
| "resume f now (Undo_lock a) r = Finished (Inl LockCreateFailed)"
| "resume f now (Open_gate a deadline) r = after_open_gate now a deadline r"
| "resume f now (Fill_gate a) r = after_fill_gate a r"
| "resume f now (Undo_gate a) r = Finished (Inl LockReconcileFailed)"
| "resume f now (Read_lock a) r = after_read_lock now a r"
| "resume f now (Probe_owner a pid) (Status x) = after_probe a x"
| "resume f now (Rename_lock a) r = after_rename_lock a r"
| "resume f now (Unlink_quarantine a) r = after_unlink_quarantine a r"
| "resume f now (Unlink_gate a result) r = after_unlink_gate now a result r"
| "resume f now (Op_read a) r = after_op_read f a r"
| "resume f now (Op_mkdir a c v) r = (if r = Done then Op_write a c v else Unlink_lock a (Inl MkdirFailed))"
| "resume f now (Op_write a c v) r = (if r = Done then Op_rename a c v else Op_unlink a (Some WriteFailed))"
| "resume f now (Op_rename a c v) r = Op_unlink a (if r = Done then None else Some RenameFailed)"
| "resume f now (Op_unlink a primary) r = after_op_unlink a primary r"
| "resume f now (Unlink_lock a result) r = after_unlink_lock result r"
| "resume f now p r = p"

section \<open>Runs\<close>

text \<open>Tasks and files, the clock, the tasks whose process lives, and the pids in use.\<close>

record system =
  sy_files :: files
  sy_point :: "nat \<Rightarrow> point"
  sy_now :: int
  sy_running :: "nat list"
  sy_alive :: "int list"

datatype event =
    Launch nat
  | Serve nat
  | Fail nat
  | Answer nat process_status
  | Tick nat
  | Crash int
  | Reuse int

definition calls_files :: "call \<Rightarrow> bool" where
  "calls_files c = (case c of No_call \<Rightarrow> False | ProcessAlive _ \<Rightarrow> False | _ \<Rightarrow> True)"

text \<open>A call that fails changes nothing; a process is reported dead only when its pid is free.\<close>

definition happen :: "tasks \<Rightarrow> event \<Rightarrow> system \<Rightarrow> system option" where
  "happen T e s =
     (case e of
        Launch t \<Rightarrow>
          if sy_point s t = Start
          then Some (s\<lparr>sy_point := (sy_point s)(t := Open_lock (new_attempt (sy_now s))), sy_running := t # sy_running s,
                       sy_alive := tk_pid T t # sy_alive s\<rparr>)
          else None
      | Serve t \<Rightarrow>
          if t \<in> set (sy_running s) \<and> calls_files (request T t (sy_point s t))
          then (case serve t (request T t (sy_point s t)) (sy_files s) of (r, fs) \<Rightarrow>
                  Some (s\<lparr>sy_files := fs, sy_point := (sy_point s)(t := resume (tk_operation T t) (sy_now s) (sy_point s t) r)\<rparr>))
          else None
      | Fail t \<Rightarrow>
          if t \<in> set (sy_running s) \<and> calls_files (request T t (sy_point s t))
          then Some (s\<lparr>sy_point := (sy_point s)(t := resume (tk_operation T t) (sy_now s) (sy_point s t) (Refused EOTHER))\<rparr>)
          else None
      | Answer t x \<Rightarrow>
          (case request T t (sy_point s t) of
             ProcessAlive pid \<Rightarrow>
               if t \<in> set (sy_running s) \<and> (x = Dead \<longrightarrow> pid \<notin> set (sy_alive s))
               then Some (s\<lparr>sy_point := (sy_point s)(t := resume (tk_operation T t) (sy_now s) (sy_point s t) (Status x))\<rparr>)
               else None
           | _ \<Rightarrow> None)
      | Tick d \<Rightarrow> Some (s\<lparr>sy_now := sy_now s + int d\<rparr>)
      | Crash pid \<Rightarrow>
          Some (s\<lparr>sy_running := filter (\<lambda>t. tk_pid T t \<noteq> pid) (sy_running s), sy_alive := filter (\<lambda>p. p \<noteq> pid) (sy_alive s)\<rparr>)
      | Reuse pid \<Rightarrow> Some (s\<lparr>sy_alive := pid # sy_alive s\<rparr>))"

fun happens :: "tasks \<Rightarrow> event list \<Rightarrow> system \<Rightarrow> system option" where
  "happens T [] s = Some s"
| "happens T (e # es) s = Option.bind (happen T e s) (happens T es)"

text \<open>A run starts with no task, no lock and no gate, and any scope file.\<close>

definition initial :: "int \<Rightarrow> (nat \<times> json option) option \<Rightarrow> system" where
  "initial now scope = \<lparr>sy_files = (\<lambda>f. if f = Scope_file then scope else None), sy_point = (\<lambda>_. Start), sy_now = now,
     sy_running = [], sy_alive = []\<rparr>"

end
