(* ===== verification/Scope_Processes.thy ===== *)
theory Scope_Processes
  imports Scope_Lock
begin

text \<open>
  \<^verbatim>\<open>apps/capture-workbench-desktop/scripts/acceptance-scope.ts\<close>, processes: what a snapshot of the operating
  system observes, which processes belong to the application under test, and the records about them.
  \<open>scope_host\<close> holds what the platform contributes: \<open>basename\<close> and \<open>resolve\<close> of \<open>node:path\<close>, SHA-256, and
  the number in \<open>CAPTURE_ACCEPTANCE_CDP_PORT\<close>.
\<close>

record scope_host =
  sh_basename :: "string \<Rightarrow> string"
  sh_resolve :: "string \<Rightarrow> string"
  sh_sha256 :: "string \<Rightarrow> string"
  sh_cdpPort :: "jnum option"

section \<open>Observations and records\<close>

record AcceptanceProcessIdentity =
  id_pid :: int
  id_creationTimeUtc :: string
  id_executable :: string

record AcceptanceScopeProcessObservation =
  ob_pid :: int
  ob_creationTimeUtc :: string
  ob_executable :: string
  ob_parentPid :: "int option"
  ob_name :: string
  ob_commandLine :: "string option"

record AcceptanceScopeListenerObservation =
  ls_host :: string
  ls_port :: int
  ls_owningPid :: int

record AcceptanceScopeSnapshot =
  sn_processes :: "AcceptanceScopeProcessObservation list"
  sn_listeners :: "AcceptanceScopeListenerObservation list"

datatype process_role = RootRole | AppRole | SessionRole | SidecarRole | ModelRole

datatype listener_role = CdpRole | RuntimeRole | ModelListenerRole

record AcceptanceOwnedProcessRecord =
  op_identity :: AcceptanceProcessIdentity
  op_role :: process_role
  op_runId :: string
  op_artifactId :: string

record AcceptanceOwnedListenerRecord =
  ol_host :: string
  ol_port :: int
  ol_role :: listener_role
  ol_runId :: string
  ol_artifactId :: string
  ol_owner :: AcceptanceOwnedProcessRecord

section \<open>Names and identities\<close>

definition normalizePath :: "string \<Rightarrow> string" where
  "normalizePath v = js_lower (map (\<lambda>c. if c = CHR 0x5C then CHR ''/'' else c) (js_trim v))"

definition identityKey :: "AcceptanceProcessIdentity \<Rightarrow> string" where
  "identityKey i = join ''|'' [show_int (id_pid i), js_trim (id_creationTimeUtc i), normalizePath (id_executable i)]"

text \<open>\<open>/^(?:[a-z]:\/|\/|\/\/)/u\<close>\<close>

definition isAbsoluteExecutable :: "string \<Rightarrow> bool" where
  "isAbsoluteExecutable v =
     (let n = normalizePath v
      in n \<noteq> [] \<and> (hd n = CHR ''/'' \<or> is_lower (hd n) \<and> take 2 (tl n) = '':/''))"

definition isLoopbackHost :: "string \<Rightarrow> bool" where
  "isLoopbackHost v = (js_lower (js_trim v) \<in> {''127.0.0.1'', ''::1''})"

definition isWebViewProcess :: "scope_host \<Rightarrow> AcceptanceScopeProcessObservation \<Rightarrow> bool" where
  "isWebViewProcess h p =
     (js_lower (ob_name p) = ''msedgewebview2.exe'' \<or> js_lower (sh_basename h (ob_executable p)) = ''msedgewebview2.exe'')"

definition isRuntimeProcess :: "AcceptanceScopeProcessObservation \<Rightarrow> bool" where
  "isRuntimeProcess p =
     (sublist ''capture-runtime'' (js_lower (ob_name p)) \<or> sublist ''capture-runtime'' (js_lower (ob_executable p))
      \<or> sublist ''capture-runtime'' (case ob_commandLine p of Some c \<Rightarrow> js_lower c | None \<Rightarrow> []))"

definition isDesktopProcess :: "scope_host \<Rightarrow> AcceptanceScopeProcessObservation \<Rightarrow> bool" where
  "isDesktopProcess h p =
     (js_lower (ob_name p) = ''capture-workbench-desktop.exe''
      \<or> js_lower (sh_basename h (ob_executable p)) = ''capture-workbench-desktop.exe'')"

definition isModelProcess :: "AcceptanceScopeProcessObservation \<Rightarrow> bool" where
  "isModelProcess p =
     (js_lower (ob_name p) \<in> {''ollama.exe'', ''ollama_llama_server.exe''}
      \<or> suffix ''/ollama.exe'' (js_lower (ob_executable p)) \<or> suffix ''/ollama_llama_server.exe'' (js_lower (ob_executable p)))"

definition isBaselineProcess :: "scope_host \<Rightarrow> AcceptanceScopeProcessObservation \<Rightarrow> bool" where
  "isBaselineProcess h p =
     (let names = {''ollama.exe'', ''ollama_llama_server.exe'', ''capture-runtime.exe''}
      in js_lower (ob_name p) \<in> names \<or> js_lower (sh_basename h (ob_executable p)) \<in> names)"

definition processIdentity :: "AcceptanceScopeProcessObservation option \<Rightarrow> AcceptanceProcessIdentity option" where
  "processIdentity p =
     (case p of
        None \<Rightarrow> None
      | Some x \<Rightarrow>
          if asPositivePid (JNum (num (ob_pid x))) = None \<or> blank (ob_creationTimeUtc x) \<or> \<not> isAbsoluteExecutable (ob_executable x)
          then None
          else Some \<lparr>id_pid = ob_pid x, id_creationTimeUtc = ob_creationTimeUtc x, id_executable = ob_executable x\<rparr>)"

section \<open>Descendants\<close>

text \<open>\<open>byParent.get\<close>\<close>

definition children :: "AcceptanceScopeProcessObservation list \<Rightarrow> int \<Rightarrow> AcceptanceScopeProcessObservation list" where
  "children ps parent = filter (\<lambda>p. ob_parentPid p = Some parent) ps"

text \<open>The inner loop: the pids seen, the processes found and the pids whose children are still to be visited.\<close>

fun add_children ::
  "AcceptanceScopeProcessObservation list \<Rightarrow> int list \<Rightarrow> AcceptanceScopeProcessObservation list \<Rightarrow> int list
   \<Rightarrow> int list \<times> AcceptanceScopeProcessObservation list \<times> int list" where
  "add_children [] seen found pending = (seen, found, pending)"
| "add_children (c # cs) seen found pending =
     (if ob_pid c \<in> set seen then add_children cs seen found pending
      else add_children cs (ob_pid c # seen) (found @ [c]) (pending @ [ob_pid c]))"

fun fresh :: "AcceptanceScopeProcessObservation list \<Rightarrow> int list \<Rightarrow> AcceptanceScopeProcessObservation list" where
  "fresh [] seen = []"
| "fresh (c # cs) seen = (if ob_pid c \<in> set seen then fresh cs seen else c # fresh cs (ob_pid c # seen))"

lemma add_children_fresh:
  "add_children cs seen found pending =
     (rev (map ob_pid (fresh cs seen)) @ seen, found @ fresh cs seen, pending @ map ob_pid (fresh cs seen))"
  by (induction cs seen found pending rule: add_children.induct) auto

lemma fresh_facts:
  "set (fresh cs seen) \<subseteq> set cs" "distinct (map ob_pid (fresh cs seen))"
  "ob_pid ` set (fresh cs seen) \<inter> set seen = {}" "ob_pid ` set (fresh cs seen) \<union> set seen = ob_pid ` set cs \<union> set seen"
  by (induction cs seen rule: fresh.induct) auto

lemma search_progress:
  assumes "add_children (children ps p) seen found pending = (seen', found', pending')"
  shows "2 * card (ob_pid ` set ps - set seen') + length pending' < 2 * card (ob_pid ` set ps - set seen) + Suc (length pending)"
proof -
  have new: "seen' = rev (map ob_pid (fresh (children ps p) seen)) @ seen" "pending' = pending @ map ob_pid (fresh (children ps p) seen)"
    using assms by (simp_all add: add_children_fresh)
  let ?f = "ob_pid ` set (fresh (children ps p) seen)"
  have "card ?f = length (fresh (children ps p) seen)" using fresh_facts(2) distinct_card by fastforce
  moreover have sub: "?f \<subseteq> ob_pid ` set ps - set seen" using fresh_facts(1,3)[of "children ps p" seen] by (auto simp: children_def)
  moreover have "ob_pid ` set ps - set seen' = (ob_pid ` set ps - set seen) - ?f" using new(1) by auto
  ultimately have "card (ob_pid ` set ps - set seen') + length (fresh (children ps p) seen) = card (ob_pid ` set ps - set seen)"
    using card_mono[OF _ sub] by (simp add: card_Diff_subset)
  then show ?thesis using new(2) by simp
qed

function collect ::
  "AcceptanceScopeProcessObservation list \<Rightarrow> int list \<Rightarrow> AcceptanceScopeProcessObservation list \<Rightarrow> int list
   \<Rightarrow> AcceptanceScopeProcessObservation list" where
  "collect ps seen found [] = found"
| "collect ps seen found (p # pending) =
     (case add_children (children ps p) seen found pending of
        (seen', found', pending') \<Rightarrow> collect ps seen' found' pending')"
  by pat_completeness auto
termination
  by (relation "measure (\<lambda>(ps, seen, found, pending). 2 * card (ob_pid ` set ps - set seen) + length pending)")
    (simp, metis (no_types, lifting) case_prod_conv in_measure length_Cons search_progress)

definition descendantsOf :: "AcceptanceScopeProcessObservation list \<Rightarrow> int \<Rightarrow> AcceptanceScopeProcessObservation list" where
  "descendantsOf ps rootPid = sort_key ob_pid (collect ps [rootPid] [] [rootPid])"

text \<open>Parents and children in a snapshot.\<close>

definition parenthood :: "AcceptanceScopeProcessObservation list \<Rightarrow> (int \<times> int) set" where
  "parenthood ps = {(parent, ob_pid p) | parent p. p \<in> set ps \<and> ob_parentPid p = Some parent}"

text \<open>What the search keeps: the pids seen are those of the processes found and the first one, all of them
  reachable, and only those pending may have unseen children.\<close>

definition searched :: "AcceptanceScopeProcessObservation list \<Rightarrow> int \<Rightarrow> int list \<Rightarrow> AcceptanceScopeProcessObservation list \<Rightarrow> int list \<Rightarrow> bool" where
  "searched ps r seen found pending \<longleftrightarrow> set seen = insert r (ob_pid ` set found) \<and> set found \<subseteq> set ps \<and> distinct (map ob_pid found)
     \<and> r \<notin> ob_pid ` set found \<and> set pending \<subseteq> set seen \<and> set seen \<subseteq> (parenthood ps)\<^sup>* `` {r}
     \<and> parenthood ps `` (set seen - set pending) \<subseteq> set seen"

lemma searched_step:
  assumes "searched ps r seen found (p # pending)" "add_children (children ps p) seen found pending = (seen', found', pending')"
  shows "searched ps r seen' found' pending'"
proof -
  let ?n = "fresh (children ps p) seen"
  note s = assms(1)[unfolded searched_def]
  have new: "seen' = rev (map ob_pid ?n) @ seen" "found' = found @ ?n" "pending' = pending @ map ob_pid ?n"
    using assms(2) by (simp_all add: add_children_fresh)
  note n = fresh_facts[of "children ps p" seen]
  have kids: "ob_pid ` set (children ps p) = parenthood ps `` {p}" by (auto simp: children_def parenthood_def)
  have "parenthood ps `` {p} \<subseteq> (parenthood ps)\<^sup>* `` {r}" using s by (auto intro: rtrancl_into_rtrancl)
  then have reach: "ob_pid ` set ?n \<subseteq> (parenthood ps)\<^sup>* `` {r}" using n(1) kids by blast
  have "set seen' - set pending' \<subseteq> insert p (set seen - set (p # pending))" using new by auto
  then have "parenthood ps `` (set seen' - set pending') \<subseteq> ob_pid ` set (children ps p) \<union> set seen" using s kids by blast
  also have "\<dots> = set seen'" using n(4) new(1) by auto
  finally have closed: "parenthood ps `` (set seen' - set pending') \<subseteq> set seen'" .
  have "set ?n \<subseteq> set ps" using n(1) by (auto simp: children_def)
  moreover have "distinct (map ob_pid found')" using s n(2,3) new(2) by (auto simp: image_iff)
  moreover have "r \<notin> ob_pid ` set found'" using s n(3) new(2) by auto
  ultimately show ?thesis unfolding searched_def using s new reach closed by auto
qed

lemma searched_collect:
  "searched ps r seen found pending \<Longrightarrow> \<exists>seen'. searched ps r seen' (collect ps seen found pending) []"
proof (induction ps seen found pending rule: collect.induct)
  case (2 ps seen found p pending)
  then show ?case using searched_step[OF 2(2)] by (auto split: prod.splits)
qed auto

lemma descendants_found:
  "ob_pid ` set (descendantsOf ps r) = (parenthood ps)\<^sup>+ `` {r} - {r}
   \<and> set (descendantsOf ps r) \<subseteq> set ps \<and> sorted_wrt (<) (map ob_pid (descendantsOf ps r))"
proof -
  define found where "found = collect ps [r] [] [r]"
  have "searched ps r [r] [] [r]" by (simp add: searched_def)
  then obtain seen where "searched ps r seen found []" using searched_collect unfolding found_def by blast
  then have c: "set seen = insert r (ob_pid ` set found)" "r \<notin> ob_pid ` set found" "set found \<subseteq> set ps" "distinct (map ob_pid found)"
      "set seen \<subseteq> (parenthood ps)\<^sup>* `` {r}" "parenthood ps `` set seen \<subseteq> set seen"
    unfolding searched_def list.set Diff_empty by blast+
  have "(parenthood ps)\<^sup>* `` {r} \<subseteq> (parenthood ps)\<^sup>* `` set seen" using c(1) by (intro Image_mono) simp_all
  then have "set seen = (parenthood ps)\<^sup>* `` {r}" using c(5) Image_closed_trancl[OF c(6)] by blast
  moreover have "(parenthood ps)\<^sup>* `` {r} - {r} = (parenthood ps)\<^sup>+ `` {r} - {r}" by (auto simp: rtrancl_eq_or_trancl)
  moreover have "ob_pid ` set found = set seen - {r}" using c(1,2) by auto
  moreover have d: "descendantsOf ps r = sort_key ob_pid found" by (simp only: descendantsOf_def found_def)
  ultimately have "ob_pid ` set (descendantsOf ps r) = (parenthood ps)\<^sup>+ `` {r} - {r}" by simp
  moreover have "distinct (map ob_pid (descendantsOf ps r))" "sorted (map ob_pid (descendantsOf ps r))"
    using c(4) by (simp_all add: d distinct_map)
  then have "sorted_wrt (<) (map ob_pid (descendantsOf ps r))" by (simp add: strict_sorted_iff)
  ultimately show ?thesis using c(3) by (simp add: d)
qed

lemma descendants_subset: "p \<in> set (descendantsOf ps a) \<Longrightarrow> p \<in> set ps"
  using descendants_found by blast

lemma descendants_related: "p \<in> set (descendantsOf ps a) \<Longrightarrow> (a, ob_pid p) \<in> (parenthood ps)\<^sup>+"
  using descendants_found[of ps a] by blast

text \<open>C20. The descendants of a process are found exactly: a pid is among them if and only if a chain of
  parents leads from it to the process, whatever cycles the reported parents form; each pid appears
  once, in ascending order, with an observation of the snapshot.\<close>

theorem descendants_exact:
  "ob_pid ` set (descendantsOf ps r) = (parenthood ps)\<^sup>+ `` {r} - {r}
   \<and> set (descendantsOf ps r) \<subseteq> set ps \<and> sorted_wrt (<) (map ob_pid (descendantsOf ps r))"
  by (rule descendants_found)

end
