(* ===== verification/Scope_Exclusion.thy ===== *)
theory Scope_Exclusion
  imports Scope_Lock
begin

text \<open>
  What the lock of \<^verbatim>\<open>acceptance-scope.ts\<close> achieves. As long as no living task holds the lock for longer than
  a lock needs to become stale, operations exclude each other, whatever the interleaving, failures of
  calls and deaths of processes; and terminal evidence is final. Without that bound two living tasks
  can hold the lock at the same time.
\<close>

section \<open>Phases of a task\<close>

text \<open>The attempt of a task that holds the lock file with its record in it.\<close>

fun holding :: "point \<Rightarrow> attempt option" where
  "holding (Op_read a) = Some a"
| "holding (Op_mkdir a c v) = Some a"
| "holding (Op_write a c v) = Some a"
| "holding (Op_rename a c v) = Some a"
| "holding (Op_unlink a e) = Some a"
| "holding (Unlink_lock a r) = Some a"
| "holding p = None"

fun filling :: "point \<Rightarrow> bool" where
  "filling (Fill_lock a) = True"
| "filling (Undo_lock a) = True"
| "filling p = False"

fun gated :: "point \<Rightarrow> bool" where
  "gated (Fill_gate a) = True"
| "gated (Undo_gate a) = True"
| "gated (Read_lock a) = True"
| "gated (Probe_owner a pid) = True"
| "gated (Rename_lock a) = True"
| "gated (Unlink_quarantine a) = True"
| "gated (Unlink_gate a r) = True"
| "gated p = False"

text \<open>A task that takes the owner of the lock for dead.\<close>

fun condemning :: "point \<Rightarrow> bool" where
  "condemning (Probe_owner a pid) = True"
| "condemning (Rename_lock a) = True"
| "condemning p = False"

fun writing :: "point \<Rightarrow> (json option \<times> json) option" where
  "writing (Op_mkdir a c v) = Some (c, v)"
| "writing (Op_write a c v) = Some (c, v)"
| "writing (Op_rename a c v) = Some (c, v)"
| "writing p = None"

definition task_record :: "tasks \<Rightarrow> nat \<Rightarrow> attempt \<Rightarrow> json" where
  "task_record T t a = lock_record (tk_pid T t) (tk_token T t) a"

text \<open>No living task holds the lock for as long as a stale lock is old.\<close>

definition timely :: "system \<Rightarrow> bool" where
  "timely s \<longleftrightarrow> (\<forall>t \<in> set (sy_running s). \<forall>a. holding (sy_point s t) = Some a \<longrightarrow> sy_now s - at_created a < SCOPE_LOCK_STALE_AFTER_MS)"

lemma valid_own_record: "validLockRecord (lock_record pid token a) = Some (p, created) \<Longrightarrow> created = at_created a"
  by (auto simp: validLockRecord_def lock_record_def asPositivePid_def num_def split: if_splits option.splits jnum.splits)

section \<open>The invariant\<close>

definition gate_owned :: "system \<Rightarrow> bool" where
  "gate_owned s \<longleftrightarrow> (\<forall>t. gated (sy_point s t) \<longrightarrow> (\<exists>c. sy_files s Gate_file = Some (t, c)))"

definition lock_owned :: "tasks \<Rightarrow> system \<Rightarrow> bool" where
  "lock_owned T s \<longleftrightarrow> (\<forall>t \<in> set (sy_running s).
     (filling (sy_point s t) \<longrightarrow> sy_files s Lock_file = Some (t, None))
     \<and> (\<forall>a. holding (sy_point s t) = Some a \<longrightarrow> sy_files s Lock_file = Some (t, Some (task_record T t a))))"

definition owner_dead :: "system \<Rightarrow> bool" where
  "owner_dead s \<longleftrightarrow> (\<exists>u c. sy_files s Lock_file = Some (u, c) \<and> (u \<in> set (sy_running s) \<longrightarrow>
     \<not> filling (sy_point s u) \<and> holding (sy_point s u) = None))"

definition condemned_dead :: "system \<Rightarrow> bool" where
  "condemned_dead s \<longleftrightarrow> (\<forall>t. condemning (sy_point s t) \<longrightarrow> owner_dead s)"

definition started :: "system \<Rightarrow> bool" where
  "started s \<longleftrightarrow> (\<forall>t \<in> set (sy_running s). sy_point s t \<noteq> Start)"

section \<open>What one call does\<close>

text \<open>A call that is served or fails.\<close>

definition moves :: "tasks \<Rightarrow> nat \<Rightarrow> point \<Rightarrow> files \<Rightarrow> response \<Rightarrow> files \<Rightarrow> bool" where
  "moves T t p fs r fs' \<longleftrightarrow> calls_files (request T t p) \<and> (serve t (request T t p) fs = (r, fs') \<or> r = Refused EOTHER \<and> fs' = fs)"

lemmas after_defs = after_open_lock_def after_fill_lock_def after_open_gate_def after_fill_gate_def after_read_lock_def
  after_probe_def after_rename_lock_def after_unlink_quarantine_def after_unlink_gate_def after_op_read_def run_operation_def
  after_op_unlink_def after_unlink_lock_def released_def

lemmas after_splits = response.splits fs_error.splits option.splits prod.splits if_splits reconcile.splits sum.splits process_status.splits

lemma moves_gate:
  assumes "moves T t p fs r fs'"
  shows "\<not> gated p \<Longrightarrow> fs Gate_file = Some x \<Longrightarrow> fs' Gate_file = Some x"
    and "gated p \<Longrightarrow> fs Gate_file = Some (t, c) \<Longrightarrow> gated (resume f now p r) \<Longrightarrow> \<exists>c'. fs' Gate_file = Some (t, c')"
    and "\<not> gated p \<Longrightarrow> gated (resume f now p r) \<Longrightarrow> \<exists>c. fs' Gate_file = Some (t, c)"
  using assms by (cases p; auto simp: moves_def serve_def request_def calls_files_def after_defs split: after_splits)+

lemma moves_lock:
  assumes "moves T t p fs r fs'"
  shows "\<not> filling p \<Longrightarrow> holding p = None \<Longrightarrow> \<not> condemning p \<Longrightarrow> fs Lock_file = Some x \<Longrightarrow> fs' Lock_file = Some x"
    and "filling p \<Longrightarrow> fs Lock_file = Some (t, None) \<Longrightarrow> filling (resume f now p r) \<Longrightarrow> fs' Lock_file = Some (t, None)"
    and "filling p \<Longrightarrow> fs Lock_file = Some (t, None) \<Longrightarrow> holding (resume f now p r) = Some a
      \<Longrightarrow> fs' Lock_file = Some (t, Some (task_record T t a))"
    and "holding p = Some b \<Longrightarrow> holding (resume f now p r) = Some a \<Longrightarrow> a = b \<and> fs' Lock_file = fs Lock_file"
    and "holding p = Some b \<Longrightarrow> \<not> filling (resume f now p r) \<and> \<not> condemning (resume f now p r)"
    and "filling p \<Longrightarrow> \<not> condemning (resume f now p r)"
    and "\<not> filling p \<Longrightarrow> holding p = None \<Longrightarrow> holding (resume f now p r) = None"
    and "\<not> filling p \<Longrightarrow> filling (resume f now p r) \<Longrightarrow> fs Lock_file = None \<and> fs' Lock_file = Some (t, None)"
    and "condemning p \<Longrightarrow> \<not> condemning (resume f now p r) \<and> \<not> filling (resume f now p r) \<and> holding (resume f now p r) = None"
  using assms
  by (cases p; auto simp: moves_def serve_def request_def calls_files_def after_defs task_record_def split: after_splits)+

lemma moves_condemning:
  assumes "moves T t p fs r fs'" "\<not> condemning p" "condemning (resume f now p r)"
  shows "\<exists>u v pid created. fs Lock_file = Some (u, Some v) \<and> validLockRecord v = Some (pid, created)
    \<and> SCOPE_LOCK_STALE_AFTER_MS \<le> now - created \<and> fs' = fs"
  using assms
  by (cases p; auto simp: moves_def serve_def request_def calls_files_def after_defs split: after_splits)

lemma moves_writing:
  assumes "moves T t p fs r fs'"
  shows "fs' Scope_file = fs Scope_file \<or> (\<exists>a c v. p = Op_rename a c v \<and> fs' Scope_file = Some (t, Some v))"
    and "writing (resume f now p r) = Some (c, v) \<Longrightarrow> writing p = Some (c, v) \<and> fs' Scope_file = fs Scope_file
      \<or> f c = Inr (Some v) \<and> (c = None \<and> fs Scope_file = None \<or> (\<exists>u w. c = Some w \<and> fs Scope_file = Some (u, Some w))) \<and> fs' = fs"
    and "writing p = Some w \<Longrightarrow> holding p \<noteq> None"
  using assms
  by (cases p; auto simp: moves_def serve_def request_def calls_files_def after_defs split: after_splits)+

section \<open>Events keep the invariant\<close>

text \<open>The state after a call of a task.\<close>

definition moved :: "tasks \<Rightarrow> nat \<Rightarrow> response \<Rightarrow> files \<Rightarrow> system \<Rightarrow> system" where
  "moved T t r fs s = s\<lparr>sy_files := fs, sy_point := (sy_point s)(t := resume (tk_operation T t) (sy_now s) (sy_point s t) r)\<rparr>"

definition invariant :: "tasks \<Rightarrow> system \<Rightarrow> bool" where
  "invariant T s \<longleftrightarrow> gate_owned s \<and> lock_owned T s \<and> condemned_dead s \<and> started s"

lemma happen_cases:
  assumes "happen T e s = Some s'"
  obtains (launch) t where "sy_point s t = Start" "s' = s\<lparr>sy_point := (sy_point s)(t := Open_lock (new_attempt (sy_now s))),
      sy_running := t # sy_running s, sy_alive := tk_pid T t # sy_alive s\<rparr>"
    | (move) t r fs where "t \<in> set (sy_running s)" "moves T t (sy_point s t) (sy_files s) r fs" "s' = moved T t r fs s"
    | (answer) t a pid x where "t \<in> set (sy_running s)" "sy_point s t = Probe_owner a pid"
        "s' = s\<lparr>sy_point := (sy_point s)(t := after_probe a x)\<rparr>"
    | (other) "sy_files s' = sy_files s" "sy_point s' = sy_point s" "set (sy_running s') \<subseteq> set (sy_running s)"
  using assms
proof (cases e)
  case (Serve t)
  with assms obtain r fs where "t \<in> set (sy_running s)" "calls_files (request T t (sy_point s t))"
      "serve t (request T t (sy_point s t)) (sy_files s) = (r, fs)" "s' = moved T t r fs s"
    by (auto simp: happen_def moved_def split: if_splits prod.splits)
  then show ?thesis using move[of t r fs] unfolding moves_def by blast
next
  case (Fail t)
  with assms have "t \<in> set (sy_running s)" "moves T t (sy_point s t) (sy_files s) (Refused EOTHER) (sy_files s)"
      "s' = moved T t (Refused EOTHER) (sy_files s) s"
    by (auto simp: happen_def moved_def moves_def split: if_splits)
  then show ?thesis using move by blast
next
  case (Answer t x)
  with assms show ?thesis
    using answer[of t _ _ x] by (cases "sy_point s t") (auto simp: happen_def request_def split: if_splits)
qed (use assms launch other in \<open>auto simp: happen_def split: if_splits\<close>)

lemma gate_kept:
  assumes "moves T t (sy_point s t) (sy_files s) r fs" "gate_owned s"
  shows "gate_owned (moved T t r fs s)"
  unfolding gate_owned_def
proof (intro allI impI)
  fix u
  assume u: "gated (sy_point (moved T t r fs s) u)"
  show "\<exists>c. sy_files (moved T t r fs s) Gate_file = Some (u, c)"
  proof (cases "u = t")
    case True
    have "\<exists>c. fs Gate_file = Some (t, c)"
    proof (cases "gated (sy_point s t)")
      case True
      then show ?thesis using u assms(2) moves_gate(2)[OF assms(1), of _ "tk_operation T t" "sy_now s"] \<open>u = t\<close>
        by (auto simp: moved_def gate_owned_def)
    next
      case False
      then show ?thesis using u moves_gate(3)[OF assms(1), of "tk_operation T t" "sy_now s"] \<open>u = t\<close> by (simp add: moved_def)
    qed
    then show ?thesis using True by (simp add: moved_def)
  next
    case False
    then have g: "\<exists>c. sy_files s Gate_file = Some (u, c)" using u assms(2) by (simp add: moved_def gate_owned_def)
    then have "\<not> gated (sy_point s t)" using assms(2) False by (auto simp: gate_owned_def)
    then show ?thesis using g moves_gate(1)[OF assms(1)] by (auto simp: moved_def)
  qed
qed

text \<open>The lock of a living task is not touched by others: they would have to take it for dead.\<close>

lemma lock_kept:
  assumes m: "moves T t (sy_point s t) (sy_files s) r fs" and t: "t \<in> set (sy_running s)"
    and inv: "lock_owned T s" "condemned_dead s"
  shows "lock_owned T (moved T t r fs s)"
proof -
  let ?p = "\<lambda>u. sy_point (moved T t r fs s) u"
  have other: "fs Lock_file = sy_files s Lock_file"
    if u: "u \<noteq> t" "u \<in> set (sy_running s)" "filling (sy_point s u) \<or> holding (sy_point s u) \<noteq> None" for u
  proof -
    have l: "\<exists>c. sy_files s Lock_file = Some (u, c)" using u inv(1) by (auto simp: lock_owned_def)
    then have "\<not> filling (sy_point s t)" "holding (sy_point s t) = None" using t u(1) inv(1) by (auto simp: lock_owned_def)
    moreover have "\<not> condemning (sy_point s t)" using l u inv(2) by (auto simp: condemned_dead_def owner_dead_def)
    ultimately show ?thesis using moves_lock(1)[OF m] l by auto
  qed
  have "filling (?p u) \<longrightarrow> fs Lock_file = Some (u, None)" if "u \<in> set (sy_running s)" for u
    using that inv(1) other[of u] moves_lock(2,5,8)[OF m, where f = "tk_operation T t" and now = "sy_now s"] by (cases "u = t"; cases "filling (sy_point s t)") (auto simp: moved_def lock_owned_def)
  moreover have "holding (?p u) = Some a \<longrightarrow> fs Lock_file = Some (u, Some (task_record T u a))" if "u \<in> set (sy_running s)" for u a
  proof (cases "u = t")
    case True
    then show ?thesis
      using that inv(1) moves_lock(7)[OF m, where f = "tk_operation T t" and now = "sy_now s"]
        moves_lock(3,4)[OF m, where f = "tk_operation T t" and now = "sy_now s" and a = a]
      by (cases "holding (sy_point s t)"; cases "filling (sy_point s t)") (auto simp: moved_def lock_owned_def)
  next
    case False
    then show ?thesis using that inv(1) other[of u] by (auto simp: moved_def lock_owned_def)
  qed
  ultimately show ?thesis by (simp add: lock_owned_def) (simp add: moved_def)
qed

lemma lock_ownedD:
  assumes "lock_owned T s" "t \<in> set (sy_running s)"
  shows "filling (sy_point s t) \<Longrightarrow> sy_files s Lock_file = Some (t, None)"
    and "holding (sy_point s t) = Some a \<Longrightarrow> sy_files s Lock_file = Some (t, Some (task_record T t a))"
  using assms unfolding lock_owned_def by blast+

lemma gate_unique: "gate_owned s \<Longrightarrow> gated (sy_point s t) \<Longrightarrow> gated (sy_point s u) \<Longrightarrow> t = u"
  unfolding gate_owned_def by (metis option.inject prod.inject)

lemma condemning_phase: "condemning p \<Longrightarrow> gated p \<and> \<not> filling p \<and> holding p = None"
  by (cases p) simp_all

lemma condemned_kept:
  assumes m: "moves T t (sy_point s t) (sy_files s) r fs" and t: "t \<in> set (sy_running s)"
    and inv: "invariant T s" and timely: "timely s"
  shows "condemned_dead (moved T t r fs s)"
  unfolding condemned_dead_def
proof (intro allI impI)
  fix u
  assume u: "condemning (sy_point (moved T t r fs s) u)"
  have i: "gate_owned s" "lock_owned T s" "condemned_dead s" using inv unfolding invariant_def by blast+
  note effect = moves_lock(7-9)[OF m, where f = "tk_operation T t" and now = "sy_now s"]
  show "owner_dead (moved T t r fs s)"
  proof (cases "u = t")
    case True
    then have c: "condemning (resume (tk_operation T t) (sy_now s) (sy_point s t) r)" using u by (simp add: moved_def)
    then have "\<not> condemning (sy_point s t)" using effect(3) by blast
    from moves_condemning[OF m this c] obtain w v pid created where w: "sy_files s Lock_file = Some (w, Some v)"
        "validLockRecord v = Some (pid, created)" "SCOPE_LOCK_STALE_AFTER_MS \<le> sy_now s - created" "fs = sy_files s" by blast
    have "\<not> filling (sy_point s w) \<and> holding (sy_point s w) = None" if "w \<in> set (sy_running s)"
    proof -
      have "holding (sy_point s w) \<noteq> Some a" for a
      proof
        assume a: "holding (sy_point s w) = Some a"
        then have "v = task_record T w a" using lock_ownedD(2)[OF i(2) that a] w(1) by simp
        then have "created = at_created a" using w(2) valid_own_record by (simp add: task_record_def)
        moreover have "sy_now s - at_created a < SCOPE_LOCK_STALE_AFTER_MS" using timely a that unfolding timely_def by blast
        ultimately show False using w(3) by simp
      qed
      then show ?thesis using lock_ownedD(1)[OF i(2) that] w(1) by (cases "holding (sy_point s w)") auto
    qed
    then show ?thesis using w condemning_phase[OF c] by (auto simp: owner_dead_def moved_def)
  next
    case False
    then have c: "condemning (sy_point s u)" using u by (simp add: moved_def)
    then obtain w x where w: "sy_files s Lock_file = Some (w, x)"
        "w \<in> set (sy_running s) \<Longrightarrow> \<not> filling (sy_point s w) \<and> holding (sy_point s w) = None"
      using i(3) unfolding condemned_dead_def owner_dead_def by blast
    have "\<not> condemning (sy_point s t)"
      using c False gate_unique[OF i(1)] condemning_phase by blast
    moreover have "\<not> filling (sy_point s t)" "holding (sy_point s t) = None"
      using w t lock_ownedD[OF i(2) t] by (cases "holding (sy_point s t)"; auto)+
    ultimately have "fs Lock_file = Some (w, x)" "\<not> filling (resume (tk_operation T t) (sy_now s) (sy_point s t) r)"
        "holding (resume (tk_operation T t) (sy_now s) (sy_point s t) r) = None"
      using effect(1,2) moves_lock(1)[OF m] w(1) by auto
    then show ?thesis using w(2) by (auto simp: owner_dead_def moved_def)
  qed
qed

lemma resume_started: "p \<noteq> Start \<Longrightarrow> resume f now p r \<noteq> Start"
  by (cases p; cases r) (auto simp: after_defs split: after_splits)

lemma invariant_kept:
  assumes "happen T e s = Some s'" "invariant T s" "timely s"
  shows "invariant T s'"
  using assms(1)
proof (cases rule: happen_cases)
  case (move t r fs)
  then show ?thesis
    using gate_kept[OF move(2)] lock_kept[OF move(2,1)] condemned_kept[OF move(2,1) assms(2,3)] assms(2) resume_started
    by (auto simp: invariant_def started_def moved_def)
next
  case (launch t)
  then show ?thesis using assms(2)
    by (auto simp: invariant_def started_def gate_owned_def lock_owned_def condemned_dead_def owner_dead_def)
next
  case (answer t a pid x)
  have p: "gated (after_probe a x)" "\<not> filling (after_probe a x)" "holding (after_probe a x) = None" "after_probe a x \<noteq> Start"
    by (simp_all add: after_probe_def split: process_status.splits)
  have "condemning (sy_point s t)" using answer(2) by simp
  then have "owner_dead s" using assms(2) unfolding invariant_def condemned_dead_def by blast
  then have "owner_dead s'" using answer(3) p(2,3) by (auto simp: owner_dead_def)
  moreover have "gated (sy_point s t)" using answer(2) by simp
  ultimately show ?thesis using assms(2) p unfolding invariant_def answer(3)
    by (auto simp: started_def gate_owned_def lock_owned_def condemned_dead_def split: if_splits)
next
  case other
  then show ?thesis using assms(2)
    by (auto simp: invariant_def started_def gate_owned_def lock_owned_def condemned_dead_def owner_dead_def)
qed

section \<open>Mutual exclusion\<close>

text \<open>All states of a run but the last.\<close>

fun always :: "tasks \<Rightarrow> (system \<Rightarrow> bool) \<Rightarrow> event list \<Rightarrow> system \<Rightarrow> bool" where
  "always T P [] s = True"
| "always T P (e # es) s = (P s \<and> (case happen T e s of None \<Rightarrow> True | Some s' \<Rightarrow> always T P es s'))"

lemma run_invariant: "happens T es s = Some s' \<Longrightarrow> invariant T s \<Longrightarrow> always T timely es s \<Longrightarrow> invariant T s'"
proof (induction es arbitrary: s)
  case (Cons e es)
  from Cons.prems(1) obtain s1 where "happen T e s = Some s1" "happens T es s1 = Some s'" by (auto split: bind_splits)
  then show ?case using Cons invariant_kept by simp
qed simp

lemma initial_invariant: "invariant T (initial now scope)"
  by (simp add: invariant_def initial_def gate_owned_def lock_owned_def condemned_dead_def started_def)

text \<open>C17. In every run in which no living task holds the lock as long as it takes to become stale, two living
  tasks never execute their operations at the same time, however calls are interleaved, whichever
  calls fail and whichever processes die.\<close>

theorem scope_operations_exclusive:
  assumes "happens T es (initial now scope) = Some s" "always T timely es (initial now scope)"
    and "t \<in> set (sy_running s)" "holding (sy_point s t) \<noteq> None"
    and "u \<in> set (sy_running s)" "holding (sy_point s u) \<noteq> None"
  shows "t = u"
proof -
  have "lock_owned T s" using run_invariant[OF assms(1) initial_invariant assms(2)] by (simp add: invariant_def)
  from lock_ownedD(2)[OF this assms(3)] lock_ownedD(2)[OF this assms(5)] show ?thesis using assms(4,6) by auto
qed

text \<open>Two tasks of two processes: the first runs its operation while the second waits.\<close>

definition two_tasks :: "operation \<Rightarrow> tasks" where
  "two_tasks f = \<lparr>tk_pid = (\<lambda>t. int t + 1), tk_token = (\<lambda>t. ''token''), tk_operation = (\<lambda>_. f)\<rparr>"

definition keeps_scope :: operation where
  "keeps_scope c = Inr None"

lemmas run_defs = happen_def initial_def request_def calls_files_def serve_def after_defs two_tasks_def timely_def keeps_scope_def
  new_attempt_def SCOPE_LOCK_WAIT_TIMEOUT_MS_def SCOPE_LOCK_STALE_AFTER_MS_def validLockRecord_def lock_record_def asPositivePid_def
  num_def js_isSafeInteger_def max_safe_integer_def

definition waiting_run :: "event list" where
  "waiting_run = [Launch 0, Launch 1, Serve 0, Serve 1, Serve 0, Serve 1, Serve 1, Serve 1]"

lemma waiting_run:
  "\<exists>s. happens (two_tasks keeps_scope) waiting_run (initial 1000 None) = Some s
     \<and> always (two_tasks keeps_scope) timely waiting_run (initial 1000 None)
     \<and> sy_running s = [1, 0] \<and> holding (sy_point s 0) \<noteq> None \<and> sy_point s 1 = Unlink_gate (new_attempt 1000) Held"
  by (simp add: waiting_run_def run_defs)

theorem scope_operations_exclusive_witness:
  "\<exists>s. happens (two_tasks keeps_scope) waiting_run (initial 1000 None) = Some s \<and> sy_running s = [1, 0] \<and> holding (sy_point s 0) \<noteq> None
     \<and> (\<forall>u. u \<in> {0, 1} \<and> holding (sy_point s u) \<noteq> None \<longrightarrow> 0 = u)"
proof -
  obtain s where s: "happens (two_tasks keeps_scope) waiting_run (initial 1000 None) = Some s"
      "always (two_tasks keeps_scope) timely waiting_run (initial 1000 None)" "sy_running s = [1, 0]" "holding (sy_point s 0) \<noteq> None"
    using waiting_run by blast
  have "0 = u" if "u \<in> {0, 1}" "holding (sy_point s u) \<noteq> None" for u
    using scope_operations_exclusive[OF s(1,2) _ s(4), of u] s(3) that by auto
  then show ?thesis using s by blast
qed

text \<open>Without that bound a lock can be stolen. Task 1 reads the lock of task 0, which is old enough to be stale;
  task 0 then finishes and releases it, task 2 takes the lock, and the process of task 0 ends. Task 1 finds
  that process dead, renames the lock away, which is that of task 2, and takes it itself: both hold it.\<close>

definition stealing_run :: "event list" where
  "stealing_run = [Launch 0, Serve 0, Serve 0, Tick 40000, Launch 1, Serve 1, Serve 1, Serve 1, Serve 1, Serve 0, Serve 0,
     Launch 2, Serve 2, Serve 2, Crash 1, Answer 1 Dead, Serve 1, Serve 1, Serve 1, Serve 1, Serve 1]"

theorem released_lock_stolen:
  "\<exists>s. happens (two_tasks keeps_scope) stealing_run (initial 1000 None) = Some s \<and> sy_running s = [2, 1]
     \<and> holding (sy_point s 1) \<noteq> None \<and> holding (sy_point s 2) \<noteq> None"
  by (simp add: stealing_run_def run_defs)

text \<open>A lock file exists before its record is written. A task that reads it then gives up at once, although the
  owner lives and would release the lock within the time to wait.\<close>

definition early_run :: "event list" where
  "early_run = [Launch 0, Launch 1, Serve 0, Serve 1, Serve 1, Serve 1, Serve 1, Serve 1]"

theorem unwritten_lock_refused:
  "\<exists>s. happens (two_tasks keeps_scope) early_run (initial 1000 None) = Some s \<and> sy_running s = [1, 0]
     \<and> sy_point s 0 = Fill_lock (new_attempt 1000) \<and> sy_point s 1 = Finished (Inl LockInvalid)"
  by (simp add: early_run_def run_defs)

text \<open>The gate of a task that dies while it reconciles is never removed, and no other task passes it.\<close>

lemma gate_owned_kept:
  assumes "happen T e s = Some s'" "gate_owned s"
  shows "gate_owned s'"
  using assms(1)
proof (cases rule: happen_cases)
  case (move t r fs)
  then show ?thesis using gate_kept[OF move(2) assms(2)] by simp
next
  case (answer t a pid x)
  moreover have "gated (sy_point s t)" using answer(2) by simp
  ultimately show ?thesis using assms(2) by (auto simp: gate_owned_def)
qed (use assms(2) in \<open>auto simp: gate_owned_def\<close>)

lemma dead_task_stays:
  assumes "happen T e s = Some s'" "sy_point s t \<noteq> Start" "t \<notin> set (sy_running s)"
  shows "sy_point s' t = sy_point s t \<and> t \<notin> set (sy_running s')"
  using assms(1)
proof (cases rule: happen_cases)
  case (launch u)
  then show ?thesis using assms(2,3) by (cases "u = t") auto
next
  case (move u r fs)
  then show ?thesis using assms(2,3) by (cases "u = t") (auto simp: moved_def)
next
  case (answer u a pid x)
  then show ?thesis using assms(2,3) by (cases "u = t") auto
next
  case other
  then show ?thesis using assms(2,3) by auto
qed

theorem orphaned_gate_stays:
  assumes "happens T es s = Some s'" "gate_owned s" "gated (sy_point s t)" "t \<notin> set (sy_running s)"
  shows "(\<exists>c. sy_files s' Gate_file = Some (t, c)) \<and> (\<forall>u. gated (sy_point s' u) \<longrightarrow> u = t)"
  using assms
proof (induction es arbitrary: s)
  case Nil
  then show ?case using gate_unique by (auto simp: gate_owned_def)
next
  case (Cons e es)
  from Cons.prems(1) obtain s1 where s1: "happen T e s = Some s1" "happens T es s1 = Some s'" by (auto split: bind_splits)
  have "sy_point s t \<noteq> Start" using Cons.prems(3) by auto
  with Cons show ?case using gate_owned_kept[OF s1(1)] dead_task_stays[OF s1(1), of t] s1(2) by simp
qed

section \<open>Writes of the scope\<close>

definition scope_is :: "json option \<Rightarrow> system \<Rightarrow> bool" where
  "scope_is c s \<longleftrightarrow> (c = None \<and> sy_files s Scope_file = None \<or> (\<exists>u w. c = Some w \<and> sy_files s Scope_file = Some (u, Some w)))"

text \<open>What a living task is about to write was computed from the scope as it is now.\<close>

definition writes_current :: "tasks \<Rightarrow> system \<Rightarrow> bool" where
  "writes_current T s \<longleftrightarrow> (\<forall>t \<in> set (sy_running s). \<forall>c v. writing (sy_point s t) = Some (c, v)
     \<longrightarrow> tk_operation T t c = Inr (Some v) \<and> scope_is c s)"

lemma writes_currentD:
  "writes_current T s \<Longrightarrow> t \<in> set (sy_running s) \<Longrightarrow> writing (sy_point s t) = Some (c, v)
     \<Longrightarrow> tk_operation T t c = Inr (Some v) \<and> scope_is c s"
  unfolding writes_current_def by blast

lemma scope_is_same: "sy_files s' Scope_file = sy_files s Scope_file \<Longrightarrow> scope_is c s' \<longleftrightarrow> scope_is c s"
  by (simp add: scope_is_def)

lemma writing_holds: "writing p = Some w \<Longrightarrow> holding p \<noteq> None"
  by (cases p) simp_all

lemma writes_current_moved:
  assumes m: "moves T t (sy_point s t) (sy_files s) r fs" and t: "t \<in> set (sy_running s)"
    and inv: "lock_owned T s" "writes_current T s"
  shows "writes_current T (moved T t r fs s)"
  unfolding writes_current_def
proof (intro ballI allI impI)
  fix u c v
  assume "u \<in> set (sy_running (moved T t r fs s))" and w: "writing (sy_point (moved T t r fs s) u) = Some (c, v)"
  then have u: "u \<in> set (sy_running s)" by (simp add: moved_def)
  show "tk_operation T u c = Inr (Some v) \<and> scope_is c (moved T t r fs s)"
  proof (cases "u = t")
    case True
    then have "writing (resume (tk_operation T t) (sy_now s) (sy_point s t) r) = Some (c, v)" using w by (simp add: moved_def)
    from moves_writing(2)[OF m this] show ?thesis
    proof
      assume "writing (sy_point s t) = Some (c, v) \<and> fs Scope_file = sy_files s Scope_file"
      then show ?thesis using writes_currentD[OF inv(2) t] scope_is_same[of "moved T t r fs s" s c] True by (simp add: moved_def)
    qed (use True in \<open>auto simp: scope_is_def moved_def\<close>)
  next
    case False
    then have w: "writing (sy_point s u) = Some (c, v)" using w by (simp add: moved_def)
    then obtain a where "holding (sy_point s u) = Some a" using writing_holds by blast
    then have l: "sy_files s Lock_file = Some (u, Some (task_record T u a))" using lock_ownedD(2)[OF inv(1) u] by blast
    have "sy_point s t \<noteq> Op_rename b d x" for b d x
      using lock_ownedD(2)[OF inv(1) t, of b] l False by auto
    then have "fs Scope_file = sy_files s Scope_file" using moves_writing(1)[OF m] by blast
    then show ?thesis using writes_currentD[OF inv(2) u w] scope_is_same[of "moved T t r fs s" s c] by (simp add: moved_def)
  qed
qed

lemma writes_current_kept:
  assumes "happen T e s = Some s'" "lock_owned T s" "writes_current T s"
  shows "writes_current T s'"
  using assms(1)
proof (cases rule: happen_cases)
  case (move t r fs)
  then show ?thesis using writes_current_moved[OF move(2,1) assms(2,3)] by simp
next
  case (answer t a pid x)
  have "writing (after_probe a x) = None" by (simp add: after_probe_def split: process_status.splits)
  then show ?thesis using assms(3) answer(3) by (auto simp: writes_current_def scope_is_def)
qed (use assms(3) in \<open>auto simp: writes_current_def scope_is_def\<close>)

text \<open>Operations that write nothing over a terminal scope.\<close>

definition terminal :: "json \<Rightarrow> bool" where
  "terminal v = (case v of JObj r \<Rightarrow> fld r ''status'' = JStr ''terminal'' | _ \<Rightarrow> False)"

definition respects_terminal :: "operation \<Rightarrow> bool" where
  "respects_terminal f \<longleftrightarrow> (\<forall>w v. terminal w \<longrightarrow> f (Some w) \<noteq> Inr (Some v))"

lemma terminal_kept_once:
  assumes "happen T e s = Some s'" "writes_current T s" "\<forall>t. respects_terminal (tk_operation T t)"
    and "sy_files s Scope_file = Some (u, Some w)" "terminal w"
  shows "sy_files s' Scope_file = Some (u, Some w)"
  using assms(1)
proof (cases rule: happen_cases)
  case (move t r fs)
  have "sy_point s t \<noteq> Op_rename a c v" for a c v
  proof
    assume "sy_point s t = Op_rename a c v"
    then have "tk_operation T t c = Inr (Some v) \<and> scope_is c s" using assms(2) move(1) by (simp add: writes_current_def)
    then show False using assms(3-5) by (auto simp: scope_is_def respects_terminal_def)
  qed
  then have "fs Scope_file = sy_files s Scope_file" using moves_writing(1)[OF move(2)] by blast
  then show ?thesis using move(3) assms(4) by (simp add: moved_def)
qed (use assms(4) in auto)

lemma terminal_kept:
  assumes "happens T es s = Some s'" "always T timely es s" "invariant T s" "writes_current T s"
    and "\<forall>t. respects_terminal (tk_operation T t)" "sy_files s Scope_file = Some (u, Some w)" "terminal w"
  shows "sy_files s' Scope_file = Some (u, Some w)"
  using assms
proof (induction es arbitrary: s)
  case (Cons e es)
  from Cons.prems(1) obtain s1 where s1: "happen T e s = Some s1" "happens T es s1 = Some s'" by (auto split: bind_splits)
  have "invariant T s1" using invariant_kept[OF s1(1)] Cons.prems by simp
  moreover have "writes_current T s1" using writes_current_kept[OF s1(1)] Cons.prems by (simp add: invariant_def)
  moreover have "sy_files s1 Scope_file = Some (u, Some w)" using terminal_kept_once[OF s1(1)] Cons.prems by blast
  ultimately show ?case using Cons.IH[OF s1(2)] Cons.prems s1(1) by simp
qed simp

lemma run_writes_current:
  "happens T es s = Some s' \<Longrightarrow> invariant T s \<Longrightarrow> writes_current T s \<Longrightarrow> always T timely es s \<Longrightarrow> writes_current T s'"
proof (induction es arbitrary: s)
  case (Cons e es)
  from Cons.prems(1) obtain s1 where "happen T e s = Some s1" "happens T es s1 = Some s'" by (auto split: bind_splits)
  then show ?case using Cons invariant_kept writes_current_kept by (simp add: invariant_def)
qed simp

lemma always_append:
  "happens T es s = Some s1 \<Longrightarrow> always T P (es @ es') s \<longleftrightarrow> always T P es s \<and> always T P es' s1"
proof (induction es arbitrary: s)
  case (Cons e es)
  then show ?case by (auto split: bind_splits)
qed simp

end
