(* ===== verification/Scope_Owner.thy ===== *)
theory Scope_Owner
  imports Scope_Processes Scope_Exclusion Canonical_Json
begin

text \<open>
  \<^verbatim>\<open>apps/capture-workbench-desktop/scripts/acceptance-scope.ts\<close>, \<open>CaptureAcceptanceScopeOwner\<close>: the owner collects
  the processes and listeners of the application under test from snapshots and writes them into the
  scope file, with the contract and the artifact hash of \<^verbatim>\<open>tools/three-project-acceptance.ts\<close>. A snapshot is
  an argument: the observed one, or the error of the probe. What an operation does under the lock is a
  function of the scope it reads; its result and the new state of the owner are returned together.
\<close>

section \<open>The contract\<close>

definition PROCESS_ROLES :: "process_role list" where
  "PROCESS_ROLES = [RootRole, AppRole, SessionRole, SidecarRole, ModelRole]"

definition LISTENER_ROLES :: "listener_role list" where
  "LISTENER_ROLES = [CdpRole, RuntimeRole, ModelListenerRole]"

definition PATH_KINDS :: "string list" where
  "PATH_KINDS = [''modelPaths'', ''appDataPaths'', ''sessionPaths'']"

definition role_text :: "process_role \<Rightarrow> string" where
  "role_text r = (case r of RootRole \<Rightarrow> ''root'' | AppRole \<Rightarrow> ''app'' | SessionRole \<Rightarrow> ''session'' | SidecarRole \<Rightarrow> ''sidecar'' | ModelRole \<Rightarrow> ''model'')"

definition listener_text :: "listener_role \<Rightarrow> string" where
  "listener_text r = (case r of CdpRole \<Rightarrow> ''cdp'' | RuntimeRole \<Rightarrow> ''runtime'' | ModelListenerRole \<Rightarrow> ''model'')"

definition strings :: "string list \<Rightarrow> json" where
  "strings xs = JArr (map JStr xs)"

text \<open>\<open>acceptanceScopeContractFor('capture-workbench')\<close>\<close>

definition scope_contract :: json where
  "scope_contract = JObj [(''processRoles'', strings [''root'', ''app'', ''session'', ''sidecar'']),
     (''listenerRoles'', strings [''cdp'', ''runtime'']), (''optionalProcessRoles'', strings [''model'']),
     (''optionalListenerRoles'', strings [''model'']), (''pathKinds'', strings PATH_KINDS)]"

definition stableAcceptanceArtifactId :: "scope_host \<Rightarrow> string \<Rightarrow> string" where
  "stableAcceptanceArtifactId h runId = sh_sha256 h (''capture-workbench:acceptance-manifest:v2:capture-workbench:'' @ runId)"

text \<open>\<open>computeAcceptanceArtifactBindingHash\<close>: the text of an artifact, and the hash over the sorted texts.\<close>

definition artifact_text :: "json \<Rightarrow> string option" where
  "artifact_text v =
     (case v of
        JObj r \<Rightarrow>
          (case (fld r ''kind'', fld r ''path'', asPositivePid (fld r ''bytes''), fld r ''sha256'') of
             (JStr kind, JStr path, Some bytes, JStr sha) \<Rightarrow>
               if kind \<in> {''video'', ''screenshot'', ''trace'', ''report'', ''log'', ''other''} \<and> path \<noteq> [] \<and> is_sha256_hex sha
               then Some (''{'' @ join '','' [json_quote ''kind'' @ '':'' @ json_quote kind, json_quote ''path'' @ '':'' @ json_quote path,
                      json_quote ''bytes'' @ '':'' @ show_int bytes, json_quote ''sha256'' @ '':'' @ json_quote sha] @ ''}'')
               else None
           | _ \<Rightarrow> None)
      | _ \<Rightarrow> None)"

definition computeAcceptanceArtifactBindingHash :: "scope_host \<Rightarrow> json \<Rightarrow> string option" where
  "computeAcceptanceArtifactBindingHash h manifest =
     (case manifest of
        JObj r \<Rightarrow>
          (case fld r ''artifacts'' of
             JArr xs \<Rightarrow>
               if xs = [] \<or> list_ex (\<lambda>x. artifact_text x = None) xs then None
               else Some (sh_sha256 h (join [CHR 0x0A] (sort (map (the \<circ> artifact_text) xs))))
           | _ \<Rightarrow> None)
      | _ \<Rightarrow> None)"

section \<open>The owner\<close>

record AcceptanceScopePaths =
  sp_modelPaths :: "string list"
  sp_appDataPaths :: "string list"
  sp_sessionPaths :: "string list"

record owner =
  ow_runId :: string
  ow_artifactId :: string
  ow_rootPid :: int
  ow_paths :: AcceptanceScopePaths
  ow_pathsReady :: bool
  ow_launchPid :: "int option"
  ow_appPid :: "int option"
  ow_launchAttempted :: bool
  ow_baseline :: "AcceptanceProcessIdentity list"
  ow_processes :: "process_role \<Rightarrow> AcceptanceOwnedProcessRecord list"
  ow_listeners :: "listener_role \<Rightarrow> AcceptanceOwnedListenerRecord list"
  ow_prepared :: bool
  ow_observationAvailable :: bool

definition sanitize :: "scope_host \<Rightarrow> string list \<Rightarrow> string list" where
  "sanitize h ps = map (sh_resolve h) (filter (\<lambda>p. \<not> blank p) ps)"

definition sanitizePaths :: "scope_host \<Rightarrow> AcceptanceScopePaths \<Rightarrow> AcceptanceScopePaths" where
  "sanitizePaths h p = \<lparr>sp_modelPaths = sanitize h (sp_modelPaths p), sp_appDataPaths = sanitize h (sp_appDataPaths p),
     sp_sessionPaths = sanitize h (sp_sessionPaths p)\<rparr>"

definition hasPaths :: "AcceptanceScopePaths \<Rightarrow> bool" where
  "hasPaths p = (sp_modelPaths p \<noteq> [] \<and> sp_appDataPaths p \<noteq> [] \<and> sp_sessionPaths p \<noteq> [])"

definition new_owner :: "scope_host \<Rightarrow> string \<Rightarrow> string option \<Rightarrow> int \<Rightarrow> AcceptanceScopePaths \<Rightarrow> bool option \<Rightarrow> owner" where
  "new_owner h runId artifactId rootPid paths ready =
     \<lparr>ow_runId = runId, ow_artifactId = (case artifactId of Some a \<Rightarrow> a | None \<Rightarrow> stableAcceptanceArtifactId h runId),
      ow_rootPid = rootPid, ow_paths = sanitizePaths h paths, ow_pathsReady = (ready \<noteq> Some False \<and> hasPaths (sanitizePaths h paths)),
      ow_launchPid = None, ow_appPid = None, ow_launchAttempted = False, ow_baseline = [], ow_processes = (\<lambda>_. []),
      ow_listeners = (\<lambda>_. []), ow_prepared = False, ow_observationAvailable = True\<rparr>"

section \<open>Collecting evidence\<close>

definition appendIdentity :: "AcceptanceProcessIdentity list \<Rightarrow> AcceptanceProcessIdentity \<Rightarrow> AcceptanceProcessIdentity list" where
  "appendIdentity records i = (if identityKey i \<in> identityKey ` set records then records else records @ [i])"

definition append_record :: "AcceptanceOwnedProcessRecord list \<Rightarrow> AcceptanceOwnedProcessRecord \<Rightarrow> AcceptanceOwnedProcessRecord list" where
  "append_record records r =
     (if identityKey (op_identity r) \<in> (identityKey \<circ> op_identity) ` set records then records else records @ [r])"

definition appendListener :: "AcceptanceOwnedListenerRecord list \<Rightarrow> AcceptanceOwnedListenerRecord \<Rightarrow> AcceptanceOwnedListenerRecord list" where
  "appendListener records l =
     (if list_ex (\<lambda>r. ol_role r = ol_role l \<and> ol_host r = ol_host l \<and> ol_port r = ol_port l
            \<and> identityKey (op_identity (ol_owner r)) = identityKey (op_identity (ol_owner l))) records
      then records else records @ [l])"

definition rememberProcess :: "process_role \<Rightarrow> AcceptanceProcessIdentity option \<Rightarrow> owner \<Rightarrow> owner" where
  "rememberProcess role identity o1 =
     (case identity of
        None \<Rightarrow> o1
      | Some i \<Rightarrow>
          let r = \<lparr>op_identity = i, op_role = role, op_runId = ow_runId o1, op_artifactId = ow_artifactId o1\<rparr>
          in o1\<lparr>ow_processes := (ow_processes o1)(role := append_record (ow_processes o1 role) r)\<rparr>)"

definition rememberListener ::
  "listener_role \<Rightarrow> AcceptanceScopeListenerObservation option \<Rightarrow> AcceptanceOwnedProcessRecord option \<Rightarrow> owner \<Rightarrow> owner" where
  "rememberListener role listener holder o1 =
     (case (listener, holder) of
        (Some l, Some r) \<Rightarrow>
          let x = \<lparr>ol_host = js_lower (js_trim (ls_host l)), ol_port = ls_port l, ol_role = role, ol_runId = ow_runId o1,
                   ol_artifactId = ow_artifactId o1, ol_owner = r\<rparr>
          in o1\<lparr>ow_listeners := (ow_listeners o1)(role := appendListener (ow_listeners o1 role) x)\<rparr>
      | _ \<Rightarrow> o1)"

text \<open>\<open>byPid.get\<close>: of several observations with one pid the last one counts.\<close>

definition by_pid :: "AcceptanceScopeProcessObservation list \<Rightarrow> int \<Rightarrow> AcceptanceScopeProcessObservation option" where
  "by_pid ps pid = find (\<lambda>p. ob_pid p = pid) (rev ps)"

definition ownerFor ::
  "AcceptanceScopeProcessObservation list \<Rightarrow> owner \<Rightarrow> process_role \<Rightarrow> int \<Rightarrow> AcceptanceOwnedProcessRecord option" where
  "ownerFor ps o1 role pid =
     (case processIdentity (by_pid ps pid) of
        None \<Rightarrow> None
      | Some i \<Rightarrow> find (\<lambda>r. identityKey (op_identity r) = identityKey i) (ow_processes o1 role))"

definition discovered_app :: "scope_host \<Rightarrow> AcceptanceScopeProcessObservation list \<Rightarrow> owner \<Rightarrow> int option" where
  "discovered_app h ps o1 =
     (let candidate = Option.bind (ow_appPid o1) (by_pid ps);
          found = (case candidate of
                     Some c \<Rightarrow> if isDesktopProcess h c then Some c else None
                   | None \<Rightarrow> None);
          searched_app = (case found of
                        Some c \<Rightarrow> Some c
                      | None \<Rightarrow> (case ow_launchPid o1 of None \<Rightarrow> None | Some l \<Rightarrow> find (isDesktopProcess h) (descendantsOf ps l)))
      in case searched_app of Some c \<Rightarrow> Some (ob_pid c) | None \<Rightarrow> ow_appPid o1)"

definition remember_all :: "process_role \<Rightarrow> AcceptanceScopeProcessObservation list \<Rightarrow> owner \<Rightarrow> owner" where
  "remember_all role ps o1 = fold (\<lambda>p. rememberProcess role (processIdentity (Some p))) ps o1"

definition listener_candidates :: "AcceptanceScopeSnapshot \<Rightarrow> AcceptanceScopeListenerObservation list" where
  "listener_candidates s =
     sort_key ls_port (filter (\<lambda>l. isLoopbackHost (ls_host l) \<and> 0 < ls_port l \<and> ls_port l \<le> 65535) (sn_listeners s))"

text \<open>\<open>derive\<close>: first the processes, then the listeners they own.\<close>

definition derive_processes :: "scope_host \<Rightarrow> AcceptanceScopeSnapshot \<Rightarrow> owner \<Rightarrow> owner" where
  "derive_processes h s o0 =
     (let ps = sn_processes s;
          o1 = o0\<lparr>ow_appPid := discovered_app h ps o0\<rparr>;
          ds = (case ow_appPid o1 of None \<Rightarrow> [] | Some a \<Rightarrow> descendantsOf ps a)
      in remember_all ModelRole (filter isModelProcess ds)
          (remember_all SidecarRole (filter isRuntimeProcess ds)
            (remember_all SessionRole (filter (isWebViewProcess h) ds)
              (rememberProcess AppRole (processIdentity (by_pid ps (case ow_appPid o1 of None \<Rightarrow> - 1 | Some a \<Rightarrow> a)))
                (rememberProcess RootRole (processIdentity (by_pid ps (ow_rootPid o1))) o1)))))"

definition derive_listeners :: "scope_host \<Rightarrow> AcceptanceScopeSnapshot \<Rightarrow> owner \<Rightarrow> owner" where
  "derive_listeners h s o1 =
     (let ps = sn_processes s;
          ds = (case ow_appPid o1 of None \<Rightarrow> [] | Some a \<Rightarrow> descendantsOf ps a);
          sessions = map ob_pid (filter (isWebViewProcess h) ds);
          ls = listener_candidates s;
          cdp = find (\<lambda>l. ls_owningPid l \<in> set sessions \<and> (case sh_cdpPort h of None \<Rightarrow> True | Some n \<Rightarrow> num (ls_port l) = n)) ls;
          runtime = find (\<lambda>l. ownerFor ps o1 SidecarRole (ls_owningPid l) \<noteq> None) ls;
          model = find (\<lambda>l. ownerFor ps o1 ModelRole (ls_owningPid l) \<noteq> None) ls;
          owner_of = (\<lambda>role l. Option.bind l (\<lambda>x. ownerFor ps o1 role (ls_owningPid x)))
      in rememberListener ModelListenerRole model (owner_of ModelRole model)
          (rememberListener RuntimeRole runtime (owner_of SidecarRole runtime)
            (rememberListener CdpRole cdp (owner_of SessionRole cdp) o1)))"

definition derive :: "scope_host \<Rightarrow> AcceptanceScopeSnapshot \<Rightarrow> owner \<Rightarrow> owner" where
  "derive h s o0 = derive_listeners h s (derive_processes h s o0)"

section \<open>The scope file\<close>

definition identity_entries :: "AcceptanceProcessIdentity \<Rightarrow> jobj" where
  "identity_entries i = [(''pid'', JNum (num (id_pid i))), (''creationTimeUtc'', JStr (id_creationTimeUtc i)),
     (''executable'', JStr (id_executable i))]"

definition process_json :: "AcceptanceOwnedProcessRecord \<Rightarrow> json" where
  "process_json r = JObj (identity_entries (op_identity r) @ [(''role'', JStr (role_text (op_role r))), (''runId'', JStr (op_runId r)),
     (''artifactId'', JStr (op_artifactId r))])"

definition listener_json :: "AcceptanceOwnedListenerRecord \<Rightarrow> json" where
  "listener_json l = JObj [(''host'', JStr (ol_host l)), (''port'', JNum (num (ol_port l))), (''protocol'', JStr ''tcp''),
     (''role'', JStr (listener_text (ol_role l))), (''runId'', JStr (ol_runId l)), (''artifactId'', JStr (ol_artifactId l)),
     (''owner'', process_json (ol_owner l))]"

definition path_entries :: "AcceptanceScopePaths \<Rightarrow> jobj" where
  "path_entries p = [(''modelPaths'', strings (sp_modelPaths p)), (''appDataPaths'', strings (sp_appDataPaths p)),
     (''sessionPaths'', strings (sp_sessionPaths p))]"

definition optional_text :: "string option \<Rightarrow> json" where
  "optional_text s = (case s of None \<Rightarrow> JNull | Some x \<Rightarrow> JStr x)"

definition buildScope :: "owner \<Rightarrow> string \<Rightarrow> bool \<Rightarrow> string option \<Rightarrow> jobj" where
  "buildScope w status evidenceComplete sha =
     [(''schemaVersion'', JNum (num 2)), (''project'', JStr ''capture-workbench''), (''runId'', JStr (ow_runId w)),
      (''artifactId'', JStr (ow_artifactId w)), (''artifactSha256'', optional_text sha), (''expected'', scope_contract),
      (''status'', JStr status), (''evidenceComplete'', JBool evidenceComplete), (''launchAttempted'', JBool (ow_launchAttempted w)),
      (''processRecords'', JArr (map process_json (concat (map (ow_processes w) PROCESS_ROLES)))),
      (''baselineProcessRecords'', JArr (map (\<lambda>i. JObj (identity_entries i @ [(''role'', JStr ''baseline'')])) (ow_baseline w))),
      (''listenerRecords'', JArr (map listener_json (concat (map (ow_listeners w) LISTENER_ROLES))))] @ path_entries (ow_paths w)"

definition isPreparedScope :: "json option \<Rightarrow> string \<Rightarrow> string \<Rightarrow> bool \<Rightarrow> bool" where
  "isPreparedScope current runId artifactId allowLaunched =
     (case current of
        Some (JObj r) \<Rightarrow>
          fld r ''schemaVersion'' = JNum (num 2) \<and> fld r ''project'' = JStr ''capture-workbench'' \<and> fld r ''runId'' = JStr runId
          \<and> fld r ''artifactId'' = JStr artifactId \<and> fld r ''artifactSha256'' = JNull \<and> fld r ''status'' = JStr ''prepared''
          \<and> fld r ''evidenceComplete'' = JBool False \<and> (allowLaunched \<or> fld r ''launchAttempted'' = JBool False)
          \<and> fld r ''expected'' = scope_contract
          \<and> list_all (\<lambda>k. case fld r k of JArr _ \<Rightarrow> True | _ \<Rightarrow> False)
              ([''processRecords'', ''baselineProcessRecords'', ''listenerRecords''] @ PATH_KINDS)
      | _ \<Rightarrow> False)"

definition string_list :: "json \<Rightarrow> string list option" where
  "string_list v = (case v of JArr xs \<Rightarrow> if list_all (\<lambda>x. case x of JStr _ \<Rightarrow> True | _ \<Rightarrow> False) xs
     then Some (map (\<lambda>x. case x of JStr s \<Rightarrow> s | _ \<Rightarrow> []) xs) else None | _ \<Rightarrow> None)"

definition pathsFromCurrent :: "scope_host \<Rightarrow> json option \<Rightarrow> AcceptanceScopePaths option" where
  "pathsFromCurrent h current =
     (case current of
        Some (JObj r) \<Rightarrow>
          (case (string_list (fld r ''modelPaths''), string_list (fld r ''appDataPaths''), string_list (fld r ''sessionPaths'')) of
             (Some m, Some a, Some s) \<Rightarrow> Some (sanitizePaths h \<lparr>sp_modelPaths = m, sp_appDataPaths = a, sp_sessionPaths = s\<rparr>)
           | _ \<Rightarrow> None)
      | _ \<Rightarrow> None)"

text \<open>\<open>{ ...scope, ...paths }\<close>\<close>

definition set_entry :: "string \<times> json \<Rightarrow> jobj \<Rightarrow> jobj" where
  "set_entry e r = (if fst e \<in> fst ` set r then map (\<lambda>x. if fst x = fst e then e else x) r else r @ [e])"

definition with_paths :: "jobj \<Rightarrow> AcceptanceScopePaths \<Rightarrow> jobj" where
  "with_paths r p = fold set_entry (path_entries p) r"

text \<open>What \<open>writeScopeLocked\<close> writes; nothing over a terminal scope.\<close>

definition writeScopeLocked :: "scope_host \<Rightarrow> jobj \<Rightarrow> json option \<Rightarrow> bool \<Rightarrow> json option" where
  "writeScopeLocked h scope current preserve =
     (if (case current of Some (JObj r) \<Rightarrow> fld r ''status'' = JStr ''terminal'' | _ \<Rightarrow> False) then None
      else Some (JObj (case pathsFromCurrent h current of Some p \<Rightarrow> if preserve then with_paths scope p else scope | None \<Rightarrow> scope)))"

section \<open>Operations\<close>

text \<open>\<open>baselineFrom\<close>: processes that were there before the launch. Records of the file are read without
  checks, and a time or an executable that is no text throws.\<close>

definition json_identity :: "jobj \<Rightarrow> string + AcceptanceProcessIdentity option" where
  "json_identity r =
     (case asPositivePid (fld r ''pid'') of
        None \<Rightarrow> Inr None
      | Some pid \<Rightarrow>
          (case fld r ''creationTimeUtc'' of
             JStr t \<Rightarrow>
               if blank t then Inr None
               else (case fld r ''executable'' of
                       JStr x \<Rightarrow> Inr (if isAbsoluteExecutable x
                         then Some \<lparr>id_pid = pid, id_creationTimeUtc = t, id_executable = x\<rparr> else None)
                     | _ \<Rightarrow> Inl ''TypeError'')
           | _ \<Rightarrow> Inl ''TypeError''))"

fun recorded_baseline :: "json list \<Rightarrow> AcceptanceProcessIdentity list \<Rightarrow> string + AcceptanceProcessIdentity list" where
  "recorded_baseline [] is = Inr is"
| "recorded_baseline (v # vs) is =
     (case v of
        JObj r \<Rightarrow> bind_res (json_identity r) (\<lambda>i. recorded_baseline vs (case i of None \<Rightarrow> is | Some x \<Rightarrow> appendIdentity is x))
      | _ \<Rightarrow> recorded_baseline vs is)"

definition observed_baseline :: "scope_host \<Rightarrow> AcceptanceScopeSnapshot \<Rightarrow> owner \<Rightarrow> AcceptanceProcessIdentity list" where
  "observed_baseline h s w =
     (let owned = ow_rootPid w # map ob_pid (descendantsOf (sn_processes s) (ow_rootPid w))
      in fold (\<lambda>p is. case processIdentity (Some p) of
                 Some i \<Rightarrow> if isBaselineProcess h p \<and> ob_pid p \<notin> set owned then appendIdentity is i else is
               | None \<Rightarrow> is) (sn_processes s) [])"

definition baselineFrom :: "scope_host \<Rightarrow> AcceptanceScopeSnapshot \<Rightarrow> json option \<Rightarrow> owner \<Rightarrow> string + AcceptanceProcessIdentity list" where
  "baselineFrom h s current w =
     (let observed = observed_baseline h s w
      in if observed \<noteq> [] then Inr observed
         else case current of
                Some (JObj r) \<Rightarrow> (case fld r ''baselineProcessRecords'' of JArr vs \<Rightarrow> recorded_baseline vs [] | _ \<Rightarrow> Inr [])
              | _ \<Rightarrow> Inr [])"

definition adopt_paths :: "scope_host \<Rightarrow> json option \<Rightarrow> owner \<Rightarrow> owner" where
  "adopt_paths h current w =
     (let p = (case pathsFromCurrent h current of Some x \<Rightarrow> x | None \<Rightarrow> ow_paths w)
      in w\<lparr>ow_paths := p, ow_pathsReady := ow_pathsReady w \<or> hasPaths p\<rparr>)"

type_synonym probe_result = "string + AcceptanceScopeSnapshot"

definition prepare :: "scope_host \<Rightarrow> probe_result \<Rightarrow> owner \<Rightarrow> json option \<Rightarrow> (storage_error + json option) \<times> owner" where
  "prepare h probe w current =
     (if \<not> isPreparedScope current (ow_runId w) (ow_artifactId w) False
      then (Inl (OperationError ''capture_acceptance_scope_prepared_binding_invalid''), w)
      else
        let w1 = adopt_paths h current (w\<lparr>ow_prepared := True, ow_launchAttempted := False\<rparr>)
        in case probe of
             Inl e \<Rightarrow> (Inl (OperationError e), w1)
           | Inr s \<Rightarrow>
               (case baselineFrom h s current w1 of
                  Inl e \<Rightarrow> (Inl (OperationError e), w1)
                | Inr is \<Rightarrow>
                    let w2 = w1\<lparr>ow_baseline := is\<rparr>
                    in (Inr (writeScopeLocked h (buildScope w2 ''prepared'' False None) current True), w2)))"

text \<open>\<open>refresh\<close>: the snapshot is taken before the scope is read, and touches no file.\<close>

definition refresh :: "scope_host \<Rightarrow> probe_result \<Rightarrow> owner \<Rightarrow> json option \<Rightarrow> (storage_error + json option) \<times> owner" where
  "refresh h probe w current =
     (case probe of
        Inl e \<Rightarrow> (Inl (OperationError e), w)
      | Inr s \<Rightarrow>
          let w1 = adopt_paths h current (derive h s (w\<lparr>ow_observationAvailable := True\<rparr>))
          in (Inr (writeScopeLocked h (buildScope w1 ''prepared'' False None) current True), w1))"

definition requirePrepared :: "owner \<Rightarrow> storage_error + unit" where
  "requirePrepared w = throw_if (\<not> ow_prepared w) (OperationError ''capture_acceptance_scope_owner_not_prepared'')"

text \<open>\<open>setPaths\<close> and \<open>finalizeFromManifest\<close> build a scope and write it with \<open>writeScope\<close>.\<close>

definition setPaths :: "scope_host \<Rightarrow> AcceptanceScopePaths \<Rightarrow> owner \<Rightarrow> storage_error + owner \<times> jobj" where
  "setPaths h paths w =
     then_res (requirePrepared w)
     (let p = sanitizePaths h paths
      in if \<not> hasPaths p then Inl (OperationError ''capture_acceptance_scope_paths_invalid'')
         else let w1 = w\<lparr>ow_paths := p, ow_pathsReady := True\<rparr> in Inr (w1, buildScope w1 ''prepared'' False None))"

text \<open>A call of \<open>refresh\<close> as its callers see it: the lock is not taken, or the scope cannot be read, or the
  operation runs and the scope may fail to be written or the lock to be released.\<close>

datatype lock_outcome = Not_run storage_error | Unread storage_error | Ran "json option" "storage_error option"

definition refresh_call :: "scope_host \<Rightarrow> probe_result \<Rightarrow> lock_outcome \<Rightarrow> owner \<Rightarrow> (storage_error + unit) \<times> owner" where
  "refresh_call h probe outcome w =
     (case requirePrepared w of
        Inl e \<Rightarrow> (Inl e, w)
      | Inr _ \<Rightarrow>
          (case outcome of
             Not_run e \<Rightarrow> (Inl e, w)
           | Unread e \<Rightarrow>
               (case probe of
                  Inl x \<Rightarrow> (Inl (OperationError x), w)
                | Inr s \<Rightarrow> (Inl e, derive h s (w\<lparr>ow_observationAvailable := True\<rparr>)))
           | Ran current failure \<Rightarrow>
               (case refresh h probe w current of
                  (Inl e, w1) \<Rightarrow> (Inl e, w1)
                | (Inr _, w1) \<Rightarrow> (case failure of None \<Rightarrow> Inr () | Some e \<Rightarrow> Inl e, w1))))"

definition recordLaunch :: "scope_host \<Rightarrow> probe_result \<Rightarrow> lock_outcome \<Rightarrow> json \<Rightarrow> owner \<Rightarrow> (storage_error + unit) \<times> owner" where
  "recordLaunch h probe outcome appPid w =
     (case requirePrepared w of
        Inl e \<Rightarrow> (Inl e, w)
      | Inr _ \<Rightarrow>
          (case asPositivePid appPid of
             None \<Rightarrow> (Inl (OperationError ''capture_acceptance_scope_app_pid_invalid''), w)
           | Some pid \<Rightarrow>
               refresh_call h probe outcome (w\<lparr>ow_launchPid := Some pid, ow_appPid := Some pid, ow_launchAttempted := True\<rparr>)))"

text \<open>\<open>manifest\<close> is the parsed manifest, \<open>None\<close> when it cannot be read or parsed.\<close>

definition finalizeFromManifest ::
  "scope_host \<Rightarrow> probe_result \<Rightarrow> lock_outcome \<Rightarrow> json option \<Rightarrow> owner \<Rightarrow> storage_error + owner \<times> jobj" where
  "finalizeFromManifest h probe outcome manifest w =
     then_res (requirePrepared w)
     (let w1 = (case refresh_call h probe outcome w of
                  (Inr _, w1) \<Rightarrow> w1
                | (Inl _, w1) \<Rightarrow> w1\<lparr>ow_observationAvailable := False\<rparr>);
          sha = Option.bind manifest (computeAcceptanceArtifactBindingHash h)
      in Inr (w1, buildScope w1 ''terminal'' (ow_pathsReady w1 \<and> ow_observationAvailable w1) sha))"

definition writeScope :: "scope_host \<Rightarrow> jobj \<Rightarrow> bool \<Rightarrow> operation" where
  "writeScope h scope preserve current = Inr (writeScopeLocked h scope current preserve)"

definition patchCaptureAcceptanceScopePaths :: "scope_host \<Rightarrow> string \<Rightarrow> AcceptanceScopePaths \<Rightarrow> operation" where
  "patchCaptureAcceptanceScopePaths h runId paths current =
     (if \<not> isPreparedScope current runId (stableAcceptanceArtifactId h runId) True
      then Inl (OperationError ''capture_acceptance_scope_prepared_binding_invalid'')
      else if \<not> hasPaths (sanitizePaths h paths) then Inl (OperationError ''capture_acceptance_scope_paths_invalid'')
      else Inr (case current of Some (JObj r) \<Rightarrow> Some (JObj (with_paths r (sanitizePaths h paths))) | _ \<Rightarrow> None))"

section \<open>What the evidence says\<close>

text \<open>A process is the application when it was launched as such or is the desktop program in a snapshot.\<close>

definition is_app :: "scope_host \<Rightarrow> AcceptanceScopeSnapshot set \<Rightarrow> int set \<Rightarrow> int \<Rightarrow> bool" where
  "is_app h S L a \<longleftrightarrow> a \<in> L \<or> (\<exists>s \<in> S. \<exists>p \<in> set (sn_processes s). ob_pid p = a \<and> isDesktopProcess h p)"

text \<open>A process observed in its role: sessions, sidecars and models are descendants of the application.\<close>

definition role_program :: "scope_host \<Rightarrow> process_role \<Rightarrow> AcceptanceScopeProcessObservation \<Rightarrow> bool" where
  "role_program h role p = (case role of SessionRole \<Rightarrow> isWebViewProcess h p | SidecarRole \<Rightarrow> isRuntimeProcess p
     | ModelRole \<Rightarrow> isModelProcess p | _ \<Rightarrow> True)"

definition observed :: "scope_host \<Rightarrow> AcceptanceScopeSnapshot set \<Rightarrow> int set \<Rightarrow> process_role \<Rightarrow> AcceptanceProcessIdentity \<Rightarrow> bool" where
  "observed h S L role i \<longleftrightarrow> (\<exists>s \<in> S. \<exists>p \<in> set (sn_processes s). processIdentity (Some p) = Some i \<and> role_program h role p
     \<and> (role \<in> {SessionRole, SidecarRole, ModelRole} \<longrightarrow> (\<exists>a. is_app h S L a \<and> (a, ob_pid p) \<in> (parenthood (sn_processes s))\<^sup>+)))"

definition holder_role :: "listener_role \<Rightarrow> process_role" where
  "holder_role r = (case r of CdpRole \<Rightarrow> SessionRole | RuntimeRole \<Rightarrow> SidecarRole | ModelListenerRole \<Rightarrow> ModelRole)"

definition processes_owned :: "scope_host \<Rightarrow> AcceptanceScopeSnapshot set \<Rightarrow> int set \<Rightarrow> owner \<Rightarrow> bool" where
  "processes_owned h S L w \<longleftrightarrow> (\<forall>role. distinct (map (\<lambda>r. identityKey (op_identity r)) (ow_processes w role))
     \<and> (\<forall>r \<in> set (ow_processes w role). op_role r = role \<and> op_runId r = ow_runId w \<and> op_artifactId r = ow_artifactId w
          \<and> observed h S L role (op_identity r)))"

definition listeners_owned :: "owner \<Rightarrow> bool" where
  "listeners_owned w \<longleftrightarrow> (\<forall>role. \<forall>l \<in> set (ow_listeners w role). ol_role l = role \<and> ol_runId l = ow_runId w \<and> ol_artifactId l = ow_artifactId w
     \<and> ol_owner l \<in> set (ow_processes w (holder_role role)) \<and> isLoopbackHost (ol_host l) \<and> 0 < ol_port l \<and> ol_port l \<le> 65535)"

definition app_known :: "scope_host \<Rightarrow> AcceptanceScopeSnapshot set \<Rightarrow> int set \<Rightarrow> owner \<Rightarrow> bool" where
  "app_known h S L w \<longleftrightarrow> (\<forall>a. ow_appPid w = Some a \<longrightarrow> is_app h S L a)"

definition evidence :: "scope_host \<Rightarrow> AcceptanceScopeSnapshot set \<Rightarrow> int set \<Rightarrow> owner \<Rightarrow> bool" where
  "evidence h S L w \<longleftrightarrow> processes_owned h S L w \<and> listeners_owned w \<and> app_known h S L w"

lemma observedI:
  assumes "s \<in> S" "p \<in> set (sn_processes s)" "processIdentity (Some p) = Some i" "role_program h role p"
    and "role \<in> {SessionRole, SidecarRole, ModelRole} \<Longrightarrow> is_app h S L a \<and> (a, ob_pid p) \<in> (parenthood (sn_processes s))\<^sup>+"
  shows "observed h S L role i"
  unfolding observed_def using assms by blast

lemma is_app_mono: "is_app h S L a \<Longrightarrow> S \<subseteq> S' \<Longrightarrow> is_app h S' L a"
  by (auto simp: is_app_def)

lemma observed_mono: "observed h S L role i \<Longrightarrow> S \<subseteq> S' \<Longrightarrow> observed h S' L role i"
  unfolding observed_def using is_app_mono by (meson subset_iff)

lemma evidence_mono: "evidence h S L w \<Longrightarrow> S \<subseteq> S' \<Longrightarrow> evidence h S' L w"
  unfolding evidence_def processes_owned_def app_known_def using observed_mono is_app_mono by metis

lemma append_record_facts:
  "set records \<subseteq> set (append_record records r)" "set (append_record records r) \<subseteq> insert r (set records)"
  "distinct (map (\<lambda>r. identityKey (op_identity r)) records) \<Longrightarrow> distinct (map (\<lambda>r. identityKey (op_identity r)) (append_record records r))"
  by (auto simp: append_record_def)

lemma rememberProcess_fields [simp]:
  "ow_listeners (rememberProcess role i w) = ow_listeners w" "ow_runId (rememberProcess role i w) = ow_runId w"
  "ow_artifactId (rememberProcess role i w) = ow_artifactId w" "ow_appPid (rememberProcess role i w) = ow_appPid w"
  by (simp_all add: rememberProcess_def Let_def split: option.split)

lemma evidence_process:
  assumes "evidence h S L w" "\<And>i. identity = Some i \<Longrightarrow> observed h S L role i"
  shows "evidence h S L (rememberProcess role identity w)"
proof (cases identity)
  case None
  then show ?thesis using assms(1) by (simp add: rememberProcess_def)
next
  case (Some i)
  define r where "r = \<lparr>op_identity = i, op_role = role, op_runId = ow_runId w, op_artifactId = ow_artifactId w\<rparr>"
  have p: "ow_processes (rememberProcess role identity w) = (ow_processes w)(role := append_record (ow_processes w role) r)"
    by (simp add: Some rememberProcess_def r_def Let_def)
  have "processes_owned h S L (rememberProcess role identity w)"
    using assms(1) assms(2)[OF Some] append_record_facts(2)[of "ow_processes w role" r] append_record_facts(3)[of "ow_processes w role" r]
    unfolding evidence_def processes_owned_def p by (auto simp: r_def)
  moreover have "listeners_owned (rememberProcess role identity w)"
    using assms(1) append_record_facts(1)[of "ow_processes w role" r] unfolding evidence_def listeners_owned_def p by fastforce
  ultimately show ?thesis using assms(1) by (simp add: evidence_def app_known_def)
qed

lemma evidence_all:
  "evidence h S L w \<Longrightarrow> (\<And>p i. p \<in> set ps \<Longrightarrow> processIdentity (Some p) = Some i \<Longrightarrow> observed h S L role i)
     \<Longrightarrow> evidence h S L (remember_all role ps w)"
  unfolding remember_all_def by (induction ps arbitrary: w) (auto intro!: evidence_process)

lemma remember_all_fields [simp]:
  "ow_appPid (remember_all role ps w) = ow_appPid w"
  unfolding remember_all_def by (induction ps arbitrary: w) simp_all

lemma find_member: "find P xs = Some x \<Longrightarrow> x \<in> set xs \<and> P x"
  by (induction xs) (auto split: if_splits)

lemma by_pid_member: "by_pid ps pid = Some p \<Longrightarrow> p \<in> set ps \<and> ob_pid p = pid"
  unfolding by_pid_def using find_member by fastforce

lemma discovered_app_known:
  assumes "app_known h S L w" "discovered_app h (sn_processes s) w = Some a" "s \<in> S"
  shows "is_app h S L a"
proof (cases "ow_appPid w = Some a")
  case True
  then show ?thesis using assms(1) by (simp add: app_known_def)
next
  case False
  then obtain c where c: "ob_pid c = a" "isDesktopProcess h c" "c \<in> set (sn_processes s)"
    using assms(2) descendants_subset
    by (fastforce simp: discovered_app_def Let_def split: option.splits if_splits bind_splits
        dest!: by_pid_member find_member)
  then show ?thesis using assms(3) by (auto simp: is_app_def)
qed

lemma derive_processes_fields: "ow_appPid (derive_processes h s w) = discovered_app h (sn_processes s) w"
  by (simp add: derive_processes_def Let_def)

lemma evidence_processes:
  assumes "evidence h S L w" "s \<in> S"
  shows "evidence h S L (derive_processes h s w)"
proof -
  let ?ps = "sn_processes s"
  define w1 where "w1 = w\<lparr>ow_appPid := discovered_app h ?ps w\<rparr>"
  define ds where "ds = (case ow_appPid w1 of None \<Rightarrow> [] | Some a \<Rightarrow> descendantsOf ?ps a)"
  have w1: "evidence h S L w1"
  proof -
    have "processes_owned h S L w1 \<longleftrightarrow> processes_owned h S L w" "listeners_owned w1 \<longleftrightarrow> listeners_owned w"
      by (simp_all add: processes_owned_def listeners_owned_def w1_def)
    moreover have "app_known h S L w1"
    proof -
      have "app_known h S L w" using assms(1) by (simp add: evidence_def)
      from discovered_app_known[OF this _ assms(2)] show ?thesis by (simp add: app_known_def w1_def)
    qed
    ultimately show ?thesis using assms(1) by (simp add: evidence_def)
  qed
  have root: "observed h S L role i" if "processIdentity (by_pid ?ps pid) = Some i" "role \<in> {RootRole, AppRole}" for role pid i
  proof -
    have "by_pid ?ps pid \<noteq> None" using that(1) by (auto simp: processIdentity_def split: option.splits)
    then obtain p where "by_pid ?ps pid = Some p" by blast
    then show ?thesis using that by_pid_member[of ?ps pid p] by (intro observedI[OF assms(2), of p]) (auto simp: role_program_def)
  qed
  have ds: "observed h S L role i"
    if p: "p \<in> set ds" "role_program h role p" "processIdentity (Some p) = Some i" for role p i
  proof -
    obtain a where a: "ow_appPid w1 = Some a" "p \<in> set (descendantsOf ?ps a)" using p(1) by (cases "ow_appPid w1") (simp_all add: ds_def)
    then have "is_app h S L a" using w1 by (simp add: evidence_def app_known_def)
    moreover have "(a, ob_pid p) \<in> (parenthood ?ps)\<^sup>+" "p \<in> set ?ps" using a(2) descendants_subset descendants_related by blast+
    ultimately show ?thesis using p(2,3) by (intro observedI[OF assms(2)]) simp_all
  qed
  show ?thesis
    unfolding derive_processes_def Let_def w1_def[symmetric] ds_def[symmetric]
    by (intro evidence_all evidence_process w1 root ds; simp add: role_program_def)
qed

lemma rememberListener_fields [simp]:
  "ow_processes (rememberListener role l r w) = ow_processes w" "ow_runId (rememberListener role l r w) = ow_runId w"
  "ow_artifactId (rememberListener role l r w) = ow_artifactId w" "ow_appPid (rememberListener role l r w) = ow_appPid w"
  by (simp_all add: rememberListener_def Let_def split: option.split)

lemma loopback_normal: "isLoopbackHost x \<Longrightarrow> isLoopbackHost (js_lower (js_trim x))"
proof -
  have "isLoopbackHost ''127.0.0.1''" "isLoopbackHost ''::1''" by code_simp+
  then show "isLoopbackHost x \<Longrightarrow> isLoopbackHost (js_lower (js_trim x))" by (auto simp: isLoopbackHost_def)
qed

lemma evidence_listener:
  assumes "evidence h S L w"
    and "\<And>x r. listener = Some x \<Longrightarrow> holder = Some r \<Longrightarrow> r \<in> set (ow_processes w (holder_role role)) \<and> x \<in> set (listener_candidates s)"
  shows "evidence h S L (rememberListener role listener holder w)"
proof -
  have "listeners_owned (rememberListener role listener holder w)"
  proof (cases "listener = None \<or> holder = None")
    case False
    then obtain x r where xr: "listener = Some x" "holder = Some r" by auto
    then have "r \<in> set (ow_processes w (holder_role role))" "isLoopbackHost (ls_host x)" "0 < ls_port x" "ls_port x \<le> 65535"
      using assms(2)[OF xr] by (auto simp: listener_candidates_def)
    then show ?thesis
      using assms(1) loopback_normal unfolding evidence_def listeners_owned_def
      by (auto simp: xr rememberListener_def Let_def appendListener_def)
  qed (use assms(1) in \<open>auto simp: rememberListener_def evidence_def listeners_owned_def split: option.split\<close>)
  then show ?thesis using assms(1) by (simp add: evidence_def processes_owned_def app_known_def)
qed

lemma ownerFor_member: "ownerFor ps w role pid = Some r \<Longrightarrow> r \<in> set (ow_processes w role)"
  by (auto simp: ownerFor_def split: option.splits dest!: find_member)

lemma evidence_listeners:
  assumes "evidence h S L w"
  shows "evidence h S L (derive_listeners h s w)"
  unfolding derive_listeners_def Let_def
  by (intro evidence_listener[where s = s] assms) (auto simp: holder_role_def dest!: find_member ownerFor_member split: bind_splits)

lemma evidence_derive: "evidence h S L w \<Longrightarrow> evidence h (insert s S) L (derive h s w)"
  unfolding derive_def using evidence_listeners evidence_processes evidence_mono by (metis insertI1 subset_insertI)

lemma evidence_fields:
  "evidence h S L (w\<lparr>ow_observationAvailable := b\<rparr>) = evidence h S L w" "evidence h S L (adopt_paths h current w) = evidence h S L w"
  by (simp_all add: evidence_def processes_owned_def listeners_owned_def app_known_def adopt_paths_def Let_def)

lemma evidence_refresh:
  assumes "evidence h S L w"
  shows "evidence h (S \<union> {s. probe = Inr s}) L (snd (refresh h probe w current))"
  using assms evidence_derive[of h S L "w\<lparr>ow_observationAvailable := True\<rparr>"]
  by (cases probe) (simp_all add: refresh_def Let_def evidence_fields)

lemma evidence_refresh_call:
  assumes "evidence h S L w"
  shows "evidence h (S \<union> {s. probe = Inr s}) L (snd (refresh_call h probe outcome w))"
proof -
  have kept: "evidence h (S \<union> {s. probe = Inr s}) L w" using evidence_mono[OF assms] by blast
  have seen: "evidence h (S \<union> {s. probe = Inr s}) L (derive h s (w\<lparr>ow_observationAvailable := True\<rparr>))" if "probe = Inr s" for s
    using evidence_derive[of h S L "w\<lparr>ow_observationAvailable := True\<rparr>" s] assms that by (simp add: evidence_fields)
  have ran: "evidence h (S \<union> {s. probe = Inr s}) L w1" if "refresh h probe w current = (r, w1)" for current r w1
    using evidence_refresh[OF assms, of probe current] that by simp
  show ?thesis using kept seen ran by (auto simp: refresh_call_def split: sum.split lock_outcome.split prod.split)
qed

text \<open>A session of the owner: after the launch the evidence is refreshed any number of times.\<close>

definition refreshes :: "scope_host \<Rightarrow> (probe_result \<times> lock_outcome) list \<Rightarrow> owner \<Rightarrow> owner" where
  "refreshes h rs w = fold (\<lambda>(probe, outcome) w. snd (refresh_call h probe outcome w)) rs w"

lemma evidence_refreshes: "evidence h S L w \<Longrightarrow> evidence h (S \<union> {s. Inr s \<in> fst ` set rs}) L (refreshes h rs w)"
proof (induction rs arbitrary: w S)
  case (Cons r rs)
  obtain probe outcome where r: "r = (probe, outcome)" by fastforce
  have "evidence h (S \<union> {s. probe = Inr s} \<union> {s. Inr s \<in> fst ` set rs}) L (refreshes h rs (snd (refresh_call h probe outcome w)))"
    using Cons.IH[OF evidence_refresh_call[OF Cons.prems]] .
  then show ?case by (rule_tac evidence_mono) (auto simp: r refreshes_def)
qed (simp add: refreshes_def)

lemma prepared_owner:
  "ow_processes (snd (prepare h probe (new_owner h runId artifactId rootPid paths ready) current)) = (\<lambda>_. [])"
  "ow_listeners (snd (prepare h probe (new_owner h runId artifactId rootPid paths ready) current)) = (\<lambda>_. [])"
  "ow_appPid (snd (prepare h probe (new_owner h runId artifactId rootPid paths ready) current)) = None"
  by (simp_all add: prepare_def new_owner_def adopt_paths_def Let_def split: sum.splits)

lemma launched_owner:
  assumes "ow_processes w = (\<lambda>_. [])" "ow_listeners w = (\<lambda>_. [])" "ow_appPid w = None"
  shows "evidence h {s. probe = Inr s} {l. asPositivePid pid = Some l} (snd (recordLaunch h probe outcome pid w))"
proof -
  have empty: "evidence h {} L w" for L using assms by (simp add: evidence_def processes_owned_def listeners_owned_def app_known_def)
  have "evidence h {} {l} (w\<lparr>ow_launchPid := Some l, ow_appPid := Some l, ow_launchAttempted := True\<rparr>)" for l
    using assms by (auto simp: evidence_def processes_owned_def listeners_owned_def app_known_def is_app_def)
  from evidence_refresh_call[OF this] show ?thesis
    using evidence_mono[OF empty] by (simp add: recordLaunch_def split: sum.split option.split)
qed


text \<open>A host for examples.\<close>

definition quiet_host :: scope_host where
  "quiet_host = \<lparr>sh_basename = (\<lambda>s. s), sh_resolve = (\<lambda>s. s), sh_sha256 = (\<lambda>_. []), sh_cdpPort = None\<rparr>"

text \<open>The evidence is not empty: one snapshot of the application with one web view gives a record of each.\<close>

definition example_owner :: owner where
  "example_owner = (new_owner quiet_host ''run'' None 1 \<lparr>sp_modelPaths = [], sp_appDataPaths = [], sp_sessionPaths = []\<rparr> None)
     \<lparr>ow_prepared := True\<rparr>"

definition example_snapshot :: AcceptanceScopeSnapshot where
  "example_snapshot = \<lparr>sn_processes = [
       \<lparr>ob_pid = 42, ob_creationTimeUtc = ''t'', ob_executable = ''/app'', ob_parentPid = Some 1, ob_name = ''capture-workbench-desktop.exe'', ob_commandLine = None\<rparr>,
       \<lparr>ob_pid = 43, ob_creationTimeUtc = ''t'', ob_executable = ''/view'', ob_parentPid = Some 42, ob_name = ''msedgewebview2.exe'', ob_commandLine = None\<rparr>],
     sn_listeners = [\<lparr>ls_host = ''127.0.0.1'', ls_port = 9222, ls_owningPid = 43\<rparr>]\<rparr>"

lemma collected_example:
  "let w = snd (recordLaunch quiet_host (Inr example_snapshot) (Ran None None) (JNum (num 42)) example_owner)
   in map (id_pid \<circ> op_identity) (ow_processes w SessionRole) = [43] \<and> map ol_port (ow_listeners w CdpRole) = [9222]"
  by code_simp

section \<open>Terminal evidence\<close>

text \<open>The operations on the scope file, for any state of the owner and any snapshot.\<close>

definition scope_operations :: "scope_host \<Rightarrow> operation set" where
  "scope_operations h = {fst \<circ> prepare h probe w | probe w. True} \<union> {fst \<circ> refresh h probe w | probe w. True}
     \<union> {writeScope h scope preserve | scope preserve. True} \<union> {patchCaptureAcceptanceScopePaths h runId paths | runId paths. True}"

lemma writeScopeLocked_terminal: "terminal v \<Longrightarrow> writeScopeLocked h scope (Some v) preserve = None"
  by (cases v) (simp_all add: terminal_def writeScopeLocked_def)

lemma terminal_not_prepared: "terminal v \<Longrightarrow> \<not> isPreparedScope (Some v) runId artifactId launched"
  by (cases v) (simp_all add: terminal_def isPreparedScope_def)

lemma operations_respect_terminal: "f \<in> scope_operations h \<Longrightarrow> respects_terminal f"
  unfolding scope_operations_def respects_terminal_def
  by (auto simp: prepare_def refresh_def writeScope_def patchCaptureAcceptanceScopePaths_def writeScopeLocked_terminal
      terminal_not_prepared Let_def split: sum.splits)


text \<open>An owner that finalizes while a refresh of its own waits for the lock.\<close>

definition terminal_scope :: jobj where
  "terminal_scope = [(''status'', JStr ''terminal'')]"

definition late_tasks :: tasks where
  "late_tasks = \<lparr>tk_pid = (\<lambda>_. 1), tk_token = (\<lambda>_. ''token''),
     tk_operation = (\<lambda>t. writeScope quiet_host (if t = 0 then terminal_scope else [(''status'', JStr ''prepared'')]) True)\<rparr>"

definition final_run :: "event list" where
  "final_run = [Launch 0, Launch 1, Serve 0, Serve 1, Serve 0, Serve 0, Serve 0, Serve 0, Serve 0, Serve 0, Serve 0]"

definition late_run :: "event list" where
  "late_run = [Serve 1, Serve 1, Serve 1, Serve 1, Serve 1, Serve 1, Serve 1, Serve 1]"

lemma late_refresh:
  "\<exists>s s'. happens late_tasks final_run (initial 1000 None) = Some s \<and> happens late_tasks late_run s = Some s'
     \<and> always late_tasks timely (final_run @ late_run) (initial 1000 None)
     \<and> sy_files s Scope_file = Some (0, Some (JObj terminal_scope)) \<and> sy_point s' 1 = Finished (Inr ())"
  by (simp add: final_run_def late_run_def run_defs late_tasks_def writeScope_def writeScopeLocked_def terminal_scope_def
      pathsFromCurrent_def string_list_def)


end
