(* ===== verification/Contract_Impact.thy ===== *)
theory Contract_Impact
  imports Canonical_Json
begin

text \<open>
  \<^verbatim>\<open>tools/contract-impact.ts\<close>: the classification of the difference between the contracts of two releases.
  Snapshots are values of \<open>JSON.parse\<close>. \<open>impact_host\<close> holds what the platform contributes: the printing of
  fractions and the order of \<open>localeCompare\<close>.
\<close>

section \<open>Data\<close>

datatype ImpactClassification = NoImpact | Additive | Breaking | ManualReview

record ContractImpactChange =
  ch_classification :: ImpactClassification
  ch_path :: string
  ch_reason :: string

record ContractSnapshot =
  cs_releaseVersion :: string
  cs_runtimeApi :: jobj
  cs_contractManifest :: jobj
  cs_schemas :: jobj
  cs_typescript :: string
  cs_python :: string
  cs_events :: "json list"
  cs_errorCodes :: "json list"
  cs_contractSetSha256 :: string

record ContractImpactResult =
  ir_classification :: ImpactClassification
  ir_baselineRelease :: string
  ir_candidateId :: string
  ir_changes :: "ContractImpactChange list"

record impact_host =
  ih_fraction :: "rat \<Rightarrow> string"
  ih_before :: "string \<Rightarrow> string \<Rightarrow> bool"

section \<open>Values\<close>

text \<open>\<open>JSON.stringify\<close>: nothing for \<open>undefined\<close>, which leaves its entry out of an object.\<close>

function stringify :: "(rat \<Rightarrow> string) \<Rightarrow> json \<Rightarrow> string option" where
  "stringify sf v =
     (case v of
        JUndef \<Rightarrow> None
      | JNull \<Rightarrow> Some ''null''
      | JBool b \<Rightarrow> Some (if b then ''true'' else ''false'')
      | JNum n \<Rightarrow> Some (case n of Fin q \<Rightarrow> js_String sf (JNum (Fin q)) | _ \<Rightarrow> ''null'')
      | JStr s \<Rightarrow> Some (json_quote s)
      | JArr xs \<Rightarrow>
          Some (''['' @ join '','' (map (\<lambda>x. case stringify sf x of None \<Rightarrow> ''null'' | Some t \<Rightarrow> t) xs) @ '']'')
      | JObj r \<Rightarrow>
          Some (''{'' @ join '','' (concat (map (\<lambda>(k, x). case stringify sf x of
              None \<Rightarrow> [] | Some t \<Rightarrow> [json_quote k @ '':'' @ t]) r)) @ ''}''))"
  by pat_completeness auto
termination
  by (relation "measure (\<lambda>(_, v). size v)") (auto simp: element_size entry_size)

declare stringify.simps [simp del]

text \<open>A text in a template, where \<open>undefined\<close> prints as such.\<close>

definition text_of_json :: "impact_host \<Rightarrow> json \<Rightarrow> string" where
  "text_of_json h v = (case stringify (ih_fraction h) v of None \<Rightarrow> ''undefined'' | Some t \<Rightarrow> t)"

text \<open>\<open>canonicalize\<close>: the entries of every object in the order of their keys.\<close>

definition canonicalize :: "json \<Rightarrow> json" where
  "canonicalize v = sorted_value v"

definition equal_json :: "impact_host \<Rightarrow> json \<Rightarrow> json \<Rightarrow> bool" where
  "equal_json h left right = (stringify (ih_fraction h) (canonicalize left) = stringify (ih_fraction h) (canonicalize right))"

text \<open>A stable sort by a comparison of the host.\<close>

fun insert_by :: "('a \<Rightarrow> 'a \<Rightarrow> bool) \<Rightarrow> 'a \<Rightarrow> 'a list \<Rightarrow> 'a list" where
  "insert_by before x [] = [x]"
| "insert_by before x (y # ys) = (if before x y then x # y # ys else y # insert_by before x ys)"

definition sortedCollection :: "impact_host \<Rightarrow> json list \<Rightarrow> json list" where
  "sortedCollection h vs =
     foldr (insert_by (\<lambda>x y. ih_before h (text_of_json h x) (text_of_json h y))) (map canonicalize vs) []"

text \<open>A \<open>Set\<close> of strings, in the order of insertion.\<close>

fun string_set :: "string list \<Rightarrow> string list" where
  "string_set [] = []"
| "string_set (x # xs) = x # filter (\<lambda>y. y \<noteq> x) (string_set xs)"

text \<open>The members every object inherits. \<open>k in r\<close> finds them, and reading one gives a function, which has no
  JSON text (like \<open>undefined\<close>), or for \<open>__proto__\<close> an object without entries.\<close>

definition OBJECT_PROTOTYPE :: "string list" where
  "OBJECT_PROTOTYPE = [''constructor'', ''__defineGetter__'', ''__defineSetter__'', ''hasOwnProperty'', ''__lookupGetter__'',
     ''__lookupSetter__'', ''isPrototypeOf'', ''propertyIsEnumerable'', ''toString'', ''valueOf'', ''__proto__'', ''toLocaleString'']"

definition js_in :: "string \<Rightarrow> jobj \<Rightarrow> bool" where
  "js_in k r = (has_key r k \<or> k \<in> set OBJECT_PROTOTYPE)"

definition read_key :: "jobj \<Rightarrow> string \<Rightarrow> json" where
  "read_key r k = (if has_key r k then fld r k else if k = ''__proto__'' then JObj [] else JUndef)"

section \<open>Changes\<close>

definition addChange ::
  "ImpactClassification \<Rightarrow> string \<Rightarrow> string \<Rightarrow> ContractImpactChange list \<Rightarrow> ContractImpactChange list" where
  "addChange classification path reason changes =
     (let change = \<lparr>ch_classification = classification, ch_path = path, ch_reason = reason\<rparr>
      in if change \<in> set changes then changes else changes @ [change])"

definition compareEnum ::
  "impact_host \<Rightarrow> json list \<Rightarrow> json list \<Rightarrow> string \<Rightarrow> ContractImpactChange list \<Rightarrow> ContractImpactChange list" where
  "compareEnum h baseline candidate path changes =
     (let baselineValues = string_set (map (text_of_json h) baseline);
          candidateValues = string_set (map (text_of_json h) candidate)
      in fold (\<lambda>v cs. if v \<in> set baselineValues then cs
             else addChange ManualReview path (''Closed enum value added: '' @ v @ ''.'') cs) candidateValues
          (fold (\<lambda>v cs. if v \<in> set candidateValues then cs
             else addChange Breaking path (''Enum value removed: '' @ v @ ''.'') cs) baselineValues changes))"

text \<open>The parts of \<open>compareSchema\<close>, in the order of the code.\<close>

definition compare_identity ::
  "impact_host \<Rightarrow> jobj \<Rightarrow> jobj \<Rightarrow> string \<Rightarrow> ContractImpactChange list \<Rightarrow> ContractImpactChange list" where
  "compare_identity h b c path changes =
     fold (\<lambda>key cs. if equal_json h (fld b key) (fld c key) then cs else addChange Breaking (path @ ''.'' @ key) (key @ '' changed.'') cs)
       [''$id'', ''$schema''] changes"

definition compare_enums ::
  "impact_host \<Rightarrow> jobj \<Rightarrow> jobj \<Rightarrow> string \<Rightarrow> ContractImpactChange list \<Rightarrow> ContractImpactChange list" where
  "compare_enums h b c path changes =
     (case (fld b ''enum'', fld c ''enum'') of
        (JArr xs, JArr ys) \<Rightarrow> compareEnum h xs ys (path @ ''.enum'') changes
      | (x, y) \<Rightarrow> if equal_json h x y then changes
                  else addChange ManualReview (path @ ''.enum'') ''Enum representation changed.'' changes)"

definition compare_required ::
  "impact_host \<Rightarrow> jobj \<Rightarrow> jobj \<Rightarrow> string \<Rightarrow> ContractImpactChange list \<Rightarrow> ContractImpactChange list" where
  "compare_required h b c path changes =
     (case (fld b ''required'', fld c ''required'') of
        (JArr xs, JArr ys) \<Rightarrow>
          fold (\<lambda>name cs. if js_includes ys name then cs
             else addChange ManualReview (path @ ''.required'') (''Required property removed: '' @ js_String (ih_fraction h) name @ ''.'') cs)
            (new_Set xs)
          (fold (\<lambda>name cs. if js_includes xs name then cs
             else addChange Breaking (path @ ''.required'') (''Required property added: '' @ js_String (ih_fraction h) name @ ''.'') cs)
            (new_Set ys) changes)
      | (x, y) \<Rightarrow> if equal_json h x y then changes
                  else addChange ManualReview (path @ ''.required'') ''Required-property policy changed.'' changes)"

definition compare_additional ::
  "impact_host \<Rightarrow> jobj \<Rightarrow> jobj \<Rightarrow> string \<Rightarrow> ContractImpactChange list \<Rightarrow> ContractImpactChange list" where
  "compare_additional h b c path changes =
     (let x = fld b ''additionalProperties''; y = fld c ''additionalProperties''; p = path @ ''.additionalProperties''
      in if x = JBool False \<and> y \<noteq> JBool False then addChange Additive p ''Object became more permissive.'' changes
         else if x \<noteq> JBool False \<and> y = JBool False then addChange Breaking p ''Object became restrictive.'' changes
         else if equal_json h x y then changes
         else addChange ManualReview p ''Additional-property policy changed.'' changes)"

definition properties_of :: "jobj \<Rightarrow> jobj" where
  "properties_of r = (case fld r ''properties'' of JObj ps \<Rightarrow> ps | _ \<Rightarrow> [])"

definition removed_properties :: "jobj \<Rightarrow> jobj \<Rightarrow> string \<Rightarrow> ContractImpactChange list \<Rightarrow> ContractImpactChange list" where
  "removed_properties b c path changes =
     fold (\<lambda>name cs. if js_in name (properties_of c) then cs
         else addChange Breaking (path @ ''.properties.'' @ name) ''Property removed or renamed.'' cs)
       (map fst (properties_of b)) changes"

definition added_property ::
  "impact_host \<Rightarrow> jobj \<Rightarrow> jobj \<Rightarrow> string \<Rightarrow> string \<Rightarrow> ContractImpactChange list \<Rightarrow> ContractImpactChange list" where
  "added_property h b c path name changes =
     (let required = (case fld c ''required'' of JArr ys \<Rightarrow> map (js_String (ih_fraction h)) ys | _ \<Rightarrow> []);
          p = path @ ''.properties.'' @ name
      in if name \<in> set required then addChange Breaking p ''New property is required.'' changes
         else if fld b ''additionalProperties'' = JBool False
         then addChange ManualReview p ''Optional property may be rejected by existing strict consumers.'' changes
         else addChange Additive p ''New optional property is accepted by existing consumers.'' changes)"

definition compare_composition ::
  "impact_host \<Rightarrow> jobj \<Rightarrow> jobj \<Rightarrow> string \<Rightarrow> ContractImpactChange list \<Rightarrow> ContractImpactChange list" where
  "compare_composition h b c path changes =
     fold (\<lambda>key cs. if equal_json h (fld b key) (fld c key) then cs
         else addChange ManualReview (path @ ''.'' @ key) (key @ '' composition changed.'') cs)
       [''anyOf'', ''oneOf'', ''allOf''] changes"

definition IGNORED_KEYS :: "string list" where
  "IGNORED_KEYS = [''$id'', ''$schema'', ''additionalProperties'', ''anyOf'', ''allOf'', ''description'', ''enum'', ''items'',
     ''oneOf'', ''properties'', ''required'', ''title'', ''type'']"

definition compare_constraints ::
  "impact_host \<Rightarrow> jobj \<Rightarrow> jobj \<Rightarrow> string \<Rightarrow> ContractImpactChange list \<Rightarrow> ContractImpactChange list" where
  "compare_constraints h b c path changes =
     fold (\<lambda>key cs. if key \<in> set IGNORED_KEYS \<or> equal_json h (read_key b key) (read_key c key) then cs
         else addChange ManualReview (path @ ''.'' @ key) ''Schema constraint changed.'' cs)
       (string_set (map fst b @ map fst c)) changes"

lemma read_key_size: "size (read_key r k) < Suc (Suc (size_list (size_prod (\<lambda>_. 0) size) r))"
  by (auto simp: read_key_def fld_def has_key_def less_Suc_eq split: option.split dest!: map_of_SomeD entry_size)

lemma fld_size: "size (fld r k) < Suc (size_list (size_prod (\<lambda>_. 0) size) r)"
  by (auto simp: fld_def split: option.split dest!: map_of_SomeD entry_size)

lemma properties_size:
  "size_list (size_prod (\<lambda>_. 0) size) (properties_of r) \<le> size_list (size_prod (\<lambda>_. 0) size) r"
  using fld_size[of r "''properties''"] by (auto simp: properties_of_def split: json.split)

lemma property_size: "(k, s) \<in> set (properties_of r) \<Longrightarrow> size s < Suc (size_list (size_prod (\<lambda>_. 0) size) r)"
  using entry_size[of k s "properties_of r"] properties_size[of r] by simp

lemma property_decreases: "(k, s) \<in> set (properties_of c) \<Longrightarrow> size (read_key (properties_of b) n) + size s < size (JObj b) + size (JObj c)"
  using property_size[of k s c] read_key_size[of "properties_of b" n] properties_size[of b] by simp

lemma items_decrease: "size (fld b k) + size (fld c k) < size (JObj b) + size (JObj c)"
  using fld_size[of b k] fld_size[of c k] by simp

function compareSchema ::
  "impact_host \<Rightarrow> json \<Rightarrow> json \<Rightarrow> string \<Rightarrow> ContractImpactChange list \<Rightarrow> ContractImpactChange list" where
  "compareSchema h baseline candidate path changes =
     (case (baseline, candidate) of
        (JObj b, JObj c) \<Rightarrow>
          let cs1 = compare_identity h b c path changes
          in if \<not> equal_json h (fld b ''type'') (fld c ''type'')
             then addChange ManualReview (path @ ''.type'') ''Schema type changed.'' cs1
             else
               let cs2 = compare_additional h b c path (compare_required h b c path (compare_enums h b c path cs1));
                   cs3 = removed_properties b c path cs2;
                   cs4 = fold (\<lambda>(name, s) cs.
                           if js_in name (properties_of b)
                           then compareSchema h (read_key (properties_of b) name) s (path @ ''.properties.'' @ name) cs
                           else added_property h b c path name cs) (properties_of c) cs3;
                   cs5 = (if fld b ''items'' \<noteq> JUndef \<or> fld c ''items'' \<noteq> JUndef
                          then compareSchema h (fld b ''items'') (fld c ''items'') (path @ ''.items'') cs4 else cs4)
               in compare_constraints h b c path (compare_composition h b c path cs5)
      | _ \<Rightarrow>
          if equal_json h baseline candidate then changes
          else addChange ManualReview path ''Schema shape changed in an unknown way.'' changes)"
  by pat_completeness auto
termination
  by (relation "measure (\<lambda>(_, b, c, _, _). size b + size c)") (use property_decreases items_decrease in auto)

declare compareSchema.simps [simp del]

section \<open>Snapshots\<close>

definition MANIFEST_METADATA :: "string list" where
  "MANIFEST_METADATA = [''generator'', ''packageVersion'', ''runtimeVersion'', ''schemaSha256'', ''captureDocumentSchemaSha256'']"

function semanticManifest :: "json \<Rightarrow> json" where
  "semanticManifest v =
     (case v of
        JArr xs \<Rightarrow> JArr (map semanticManifest xs)
      | JObj r \<Rightarrow> JObj (map (\<lambda>(k, x). (k, semanticManifest x)) (filter (\<lambda>(k, x). k \<notin> set MANIFEST_METADATA) r))
      | _ \<Rightarrow> v)"
  by pat_completeness auto
termination
  by (relation "measure size") (auto simp: element_size entry_size)

declare semanticManifest.simps [simp del]

definition compareCollections ::
  "impact_host \<Rightarrow> json list \<Rightarrow> json list \<Rightarrow> string \<Rightarrow> ContractImpactChange list \<Rightarrow> ContractImpactChange list" where
  "compareCollections h baseline candidate path changes =
     (let baselineSet = string_set (map (text_of_json h) (sortedCollection h baseline));
          candidateSet = string_set (map (text_of_json h) (sortedCollection h candidate))
      in fold (\<lambda>v cs. if v \<in> set baselineSet then cs else addChange ManualReview path (''Entry added: '' @ v @ ''.'') cs) candidateSet
          (fold (\<lambda>v cs. if v \<in> set candidateSet then cs else addChange Breaking path (''Entry removed: '' @ v @ ''.'') cs)
            baselineSet changes))"

definition validateSnapshot :: "json \<Rightarrow> string \<Rightarrow> string + ContractSnapshot" where
  "validateSnapshot value label =
     (case value of
        JObj r \<Rightarrow>
          (case (fld r ''schemaVersion'', fld r ''releaseVersion'', fld r ''runtimeApi'', fld r ''contractManifest'', fld r ''schemas'',
                 fld r ''typescript'', fld r ''python'', fld r ''events'', fld r ''errorCodes'', fld r ''contractSetSha256'') of
             (JStr one, JStr release, JObj api, JObj manifest, JObj schemas, JStr ts, JStr py, JArr events, JArr codes, JStr sha) \<Rightarrow>
               if one = ''1'' \<and> is_sha256_hex sha
               then Inr \<lparr>cs_releaseVersion = release, cs_runtimeApi = api, cs_contractManifest = manifest, cs_schemas = schemas,
                         cs_typescript = ts, cs_python = py, cs_events = events, cs_errorCodes = codes, cs_contractSetSha256 = sha\<rparr>
               else Inl (label @ '' snapshot is incomplete; expected runtimeApi, contractManifest, schemas, contractSetSha256.'')
           | _ \<Rightarrow> Inl (label @ '' snapshot is incomplete; expected runtimeApi, contractManifest, schemas, contractSetSha256.''))
      | _ \<Rightarrow> Inl (label @ '' snapshot must be an object.''))"

definition compare_api ::
  "impact_host \<Rightarrow> ContractSnapshot \<Rightarrow> ContractSnapshot \<Rightarrow> ContractImpactChange list \<Rightarrow> ContractImpactChange list" where
  "compare_api h b c changes =
     fold (\<lambda>(key, reason) cs. if equal_json h (fld (cs_runtimeApi b) key) (fld (cs_runtimeApi c) key) then cs
         else addChange Breaking (''runtimeApi.'' @ key) reason cs)
       [(''apiVersion'', ''Runtime API version changed.''), (''documentSchemaVersion'', ''Document schema version changed.''),
        (''documentSchemaId'', ''Document schema ID changed.'')] changes"

definition compare_schemas ::
  "impact_host \<Rightarrow> ContractSnapshot \<Rightarrow> ContractSnapshot \<Rightarrow> ContractImpactChange list \<Rightarrow> ContractImpactChange list" where
  "compare_schemas h b c changes =
     fold (\<lambda>name cs.
         if \<not> js_in name (cs_schemas b) then addChange Additive (''schemas.'' @ name) ''New schema definition added.'' cs
         else if \<not> js_in name (cs_schemas c) then addChange Breaking (''schemas.'' @ name) ''Schema definition removed.'' cs
         else compareSchema h (read_key (cs_schemas b) name) (read_key (cs_schemas c) name) (''schemas.'' @ name) cs)
       (sort (string_set (map fst (cs_schemas b) @ map fst (cs_schemas c)))) changes"

definition enums_of :: "jobj \<Rightarrow> json list" where
  "enums_of manifest = (case fld manifest ''enums'' of JArr xs \<Rightarrow> xs | _ \<Rightarrow> [])"

text \<open>\<open>{ ...manifest, enums: undefined }\<close>\<close>

definition without_enums :: "jobj \<Rightarrow> jobj" where
  "without_enums manifest =
     (if has_key manifest ''enums'' then map (\<lambda>(k, x). (k, if k = ''enums'' then JUndef else x)) manifest
      else manifest @ [(''enums'', JUndef)])"

definition compare_manifests ::
  "impact_host \<Rightarrow> ContractSnapshot \<Rightarrow> ContractSnapshot \<Rightarrow> ContractImpactChange list \<Rightarrow> ContractImpactChange list" where
  "compare_manifests h b c changes =
     (let m = cs_contractManifest b; n = cs_contractManifest c
      in if equal_json h (semanticManifest (JObj m)) (semanticManifest (JObj n)) then changes
         else
           let cs = compareCollections h (enums_of m) (enums_of n) ''contractManifest.enums'' changes
           in if equal_json h (semanticManifest (JObj (without_enums m))) (semanticManifest (JObj (without_enums n))) then cs
              else addChange ManualReview ''contractManifest'' ''Generated contract metadata changed.'' cs)"

definition compare_sources ::
  "ContractSnapshot \<Rightarrow> ContractSnapshot \<Rightarrow> ContractImpactChange list \<Rightarrow> ContractImpactChange list" where
  "compare_sources b c changes =
     (let cs = (if cs_typescript b = cs_typescript c then changes
                else addChange ManualReview ''typescript'' ''Generated TypeScript contract semantics changed.'' changes)
      in if cs_python b = cs_python c then cs
         else addChange ManualReview ''python'' ''Generated Python contract semantics changed.'' cs)"

definition all_changes :: "impact_host \<Rightarrow> ContractSnapshot \<Rightarrow> ContractSnapshot \<Rightarrow> ContractImpactChange list" where
  "all_changes h b c =
     (let cs1 = (if cs_contractSetSha256 b = cs_contractSetSha256 c then []
                 else addChange Breaking ''contractSetSha256'' ''Canonical contract-set bundle hash changed.'' []);
          cs2 = compare_schemas h b c (compare_api h b c cs1);
          cs3 = compare_sources b c (compare_manifests h b c cs2);
          cs4 = compareCollections h (cs_events b) (cs_events c) ''events'' cs3
      in compareCollections h (cs_errorCodes b) (cs_errorCodes c) ''errorCodes'' cs4)"

definition classification_of :: "ContractImpactChange list \<Rightarrow> ImpactClassification" where
  "classification_of changes =
     (if list_ex (\<lambda>c. ch_classification c = Breaking) changes then Breaking
      else if list_ex (\<lambda>c. ch_classification c = ManualReview) changes then ManualReview
      else if changes \<noteq> [] then Additive else NoImpact)"

definition classifyContractImpact :: "impact_host \<Rightarrow> json \<Rightarrow> json \<Rightarrow> string \<Rightarrow> string + ContractImpactResult" where
  "classifyContractImpact h baselineValue candidateValue candidateId =
     (if \<not> is_sha256_hex candidateId then Inl ''Candidate ID must be a lowercase SHA-256 digest.''
      else
        bind_res (validateSnapshot baselineValue ''Baseline'') (\<lambda>b.
        bind_res (validateSnapshot candidateValue ''Candidate'') (\<lambda>c.
        let changes = all_changes h b c
        in Inr \<lparr>ir_classification = classification_of changes, ir_baselineRelease = cs_releaseVersion b,
                ir_candidateId = candidateId, ir_changes = changes\<rparr>)))"

end
