(* ===== verification/Contract_Compatibility.thy ===== *)
theory Contract_Compatibility
  imports Contract_Impact
begin

text \<open>
  What the classification of \<^verbatim>\<open>tools/contract-impact.ts\<close> says: when it reports no impact the contracts are the
  same, and the changes that break consumers are reported as breaking at any depth of a schema.
\<close>

section \<open>Equality of values\<close>

text \<open>Values that are the same up to the order of entries, and values that were parsed or are absent.\<close>

definition same :: "json \<Rightarrow> json \<Rightarrow> bool" where
  "same v w \<longleftrightarrow> sorted_value v = sorted_value w"

definition parsed :: "rat set \<Rightarrow> json \<Rightarrow> bool" where
  "parsed D v \<longleftrightarrow> v = JUndef \<or> plain D v"

lemma stringify_simps [simp]:
  "stringify sf JUndef = None" "stringify sf JNull = Some ''null''" "stringify sf (JBool b) = Some (if b then ''true'' else ''false'')"
  "stringify sf (JNum (Fin q)) = Some (js_String sf (JNum (Fin q)))" "stringify sf (JStr s) = Some (json_quote s)"
  by (simp_all add: stringify.simps[of sf JUndef] stringify.simps[of sf JNull] stringify.simps[of sf "JBool _"]
      stringify.simps[of sf "JNum _"] stringify.simps[of sf "JStr _"])

lemma concat_single: "(\<And>x. x \<in> set xs \<Longrightarrow> f x = [g x]) \<Longrightarrow> concat (map f xs) = map g xs"
  by (induction xs) simp_all

lemma stringify_canonical: "plain D v \<Longrightarrow> stringify sf (sorted_value v) = Some (canonicalJson sf v)"
proof (induction v rule: sorted_value.induct)
  case (1 v)
  show ?case
  proof (cases v)
    case (JArr xs)
    then have "JUndef \<notin> set xs" "\<And>x. x \<in> set xs \<Longrightarrow> stringify sf (sorted_value x) = Some (canonicalJson sf x)"
      using 1 by auto
    then show ?thesis
      by (simp add: JArr stringify.simps[of sf "JArr _"] canonicalJson_array comp_def cong: map_cong)
  next
    case (JObj r)
    then have "stringify sf (sorted_value x) = Some (canonicalJson sf x)" if "(k, x) \<in> set r" for k x
      using 1 that by auto
    then have "concat (map (\<lambda>(k, x). case stringify sf x of None \<Rightarrow> [] | Some t \<Rightarrow> [json_quote k @ '':'' @ t])
        (map (\<lambda>(k, x). (k, sorted_value x)) (sort_key fst r))) = map (entry_text sf) (sort_key fst r)"
      unfolding map_map by (intro concat_single) (auto simp: entry_text_def)
    then show ?thesis by (simp add: JObj stringify.simps[of sf "JObj _"] canonicalJson_object)
  qed (use 1 in auto)
qed

lemma equal_json_iff:
  assumes "parsed D v" "parsed D w" "prints_numbers D (ih_fraction h)"
  shows "equal_json h v w \<longleftrightarrow> same v w"
  using assms canonical_determines[of D v w "ih_fraction h"]
  by (auto simp: equal_json_def canonicalize_def same_def parsed_def stringify_canonical)

section \<open>Collecting changes\<close>

text \<open>A comparison only adds changes, and which ones does not depend on those already found.\<close>

definition found :: "('a list \<Rightarrow> 'a list) \<Rightarrow> 'a set" where
  "found f = set (f [])"

definition accumulates :: "('a list \<Rightarrow> 'a list) \<Rightarrow> bool" where
  "accumulates f \<longleftrightarrow> (\<forall>cs. set (f cs) = set cs \<union> found f)"

named_theorems accumulating

lemma set_addChange: "set (addChange k p r cs) = insert \<lparr>ch_classification = k, ch_path = p, ch_reason = r\<rparr> (set cs)"
  by (auto simp: addChange_def Let_def)

lemma addChange_not_Nil [simp]: "addChange k p r cs \<noteq> []" "[] \<noteq> addChange k p r cs"
  by (auto simp: addChange_def Let_def)

lemma accumulates_add [accumulating]: "accumulates (addChange k p r)"
  by (auto simp: accumulates_def found_def set_addChange)

lemma accumulates_id [accumulating]: "accumulates (\<lambda>cs. cs)"
  by (simp add: accumulates_def found_def)

lemma set_accumulated: "accumulates f \<Longrightarrow> set (f cs) = set cs \<union> found f"
  by (simp add: accumulates_def)

lemma accumulates_comp [accumulating]: "accumulates f \<Longrightarrow> accumulates g \<Longrightarrow> accumulates (\<lambda>cs. f (g cs))"
  by (auto simp: accumulates_def found_def[of "\<lambda>cs. f (g cs)"])

lemma accumulates_if [accumulating]: "accumulates f \<Longrightarrow> accumulates g \<Longrightarrow> accumulates (\<lambda>cs. if b then f cs else g cs)"
  by (cases b) simp_all

lemma set_fold_accumulated:
  "(\<And>x. x \<in> set xs \<Longrightarrow> accumulates (f x)) \<Longrightarrow> set (fold f xs cs) = set cs \<union> (\<Union>x \<in> set xs. found (f x))"
  by (induction xs arbitrary: cs) (auto simp: accumulates_def)

lemma accumulates_fold [accumulating]: "(\<And>x. x \<in> set xs \<Longrightarrow> accumulates (f x)) \<Longrightarrow> accumulates (\<lambda>cs. fold f xs cs)"
  unfolding accumulates_def[of "\<lambda>cs. fold f xs cs"] found_def[of "\<lambda>cs. fold f xs cs"] by (simp add: set_fold_accumulated)

text \<open>A loop that reports every element without a property.\<close>

lemma set_report:
  "set (fold (\<lambda>x cs. if P x then cs else addChange (K x) (p x) (r x) cs) xs cs)
     = set cs \<union> (\<lambda>x. \<lparr>ch_classification = K x, ch_path = p x, ch_reason = r x\<rparr>) ` {x \<in> set xs. \<not> P x}"
  by (induction xs arbitrary: cs) (auto simp: set_addChange)

lemma accumulates_report [accumulating]: "accumulates (\<lambda>cs. fold (\<lambda>x cs. if P x then cs else addChange (K x) (p x) (r x) cs) xs cs)"
  by (simp add: accumulates_def found_def set_report)

lemma accumulates_enum: "accumulates (compareEnum h xs ys p)"
  unfolding compareEnum_def Let_def by (intro accumulates_comp[OF accumulates_report accumulates_report])

lemma accumulates_parts [accumulating]:
  "accumulates (compare_identity h b c p)" "accumulates (compare_enums h b c p)"
  "accumulates (compare_required h b c p)" "accumulates (compare_additional h b c p)" "accumulates (removed_properties b c p)"
  "accumulates (added_property h b c p name)" "accumulates (compare_composition h b c p)" "accumulates (compare_constraints h b c p)"
  "accumulates (compareCollections h xs ys p)"
proof -
  have unless: "accumulates (\<lambda>cs. if b then cs else addChange k q r cs)" for b k q r
    by (intro accumulates_if accumulates_id accumulates_add)
  show "accumulates (compare_enums h b c p)"
    unfolding compare_enums_def by (cases "fld b ''enum''"; cases "fld c ''enum''") (simp_all add: unless accumulates_enum)
  show "accumulates (compare_required h b c p)"
    unfolding compare_required_def
    by (cases "fld b ''required''"; cases "fld c ''required''") (simp_all add: unless accumulates_comp[OF accumulates_report accumulates_report])
  show "accumulates (compareCollections h xs ys p)"
    unfolding compareCollections_def Let_def by (intro accumulates_comp[OF accumulates_report accumulates_report])
  show "accumulates (compare_additional h b c p)" "accumulates (added_property h b c p name)"
    unfolding compare_additional_def added_property_def Let_def by (intro accumulates_if accumulates_id accumulates_add)+
  show "accumulates (compare_identity h b c p)" "accumulates (removed_properties b c p)"
      "accumulates (compare_composition h b c p)" "accumulates (compare_constraints h b c p)"
    unfolding compare_identity_def removed_properties_def compare_composition_def compare_constraints_def
    by (intro accumulates_report)+
qed

section \<open>Comparing schemas\<close>

text \<open>The loop over the properties of the candidate, and the comparison of items.\<close>

definition compare_property ::
  "impact_host \<Rightarrow> jobj \<Rightarrow> jobj \<Rightarrow> string \<Rightarrow> string \<times> json \<Rightarrow> ContractImpactChange list \<Rightarrow> ContractImpactChange list" where
  "compare_property h b c path e cs =
     (if js_in (fst e) (properties_of b)
      then compareSchema h (read_key (properties_of b) (fst e)) (snd e) (path @ ''.properties.'' @ fst e) cs
      else added_property h b c path (fst e) cs)"

definition compare_items ::
  "impact_host \<Rightarrow> jobj \<Rightarrow> jobj \<Rightarrow> string \<Rightarrow> ContractImpactChange list \<Rightarrow> ContractImpactChange list" where
  "compare_items h b c path cs =
     (if fld b ''items'' \<noteq> JUndef \<or> fld c ''items'' \<noteq> JUndef
      then compareSchema h (fld b ''items'') (fld c ''items'') (path @ ''.items'') cs else cs)"

lemma compareSchema_objects:
  "compareSchema h (JObj b) (JObj c) path cs =
     (if \<not> equal_json h (fld b ''type'') (fld c ''type'')
      then addChange ManualReview (path @ ''.type'') ''Schema type changed.'' (compare_identity h b c path cs)
      else compare_constraints h b c path (compare_composition h b c path (compare_items h b c path
        (fold (compare_property h b c path) (properties_of c) (removed_properties b c path
          (compare_additional h b c path (compare_required h b c path (compare_enums h b c path (compare_identity h b c path cs)))))))))"
  by (simp add: compareSchema.simps[of h "JObj b"] Let_def compare_items_def compare_property_def[abs_def] case_prod_unfold)

lemma compareSchema_other:
  "(\<nexists>b c. v = JObj b \<and> w = JObj c) \<Longrightarrow> compareSchema h v w path cs =
     (if equal_json h v w then cs else addChange ManualReview path ''Schema shape changed in an unknown way.'' cs)"
  by (subst compareSchema.simps) (auto split: json.split)

lemma accumulates_schema: "accumulates (compareSchema h v w path)"
proof (induction "size v + size w" arbitrary: v w path rule: less_induct)
  case less
  show ?case
  proof (cases "\<exists>b c. v = JObj b \<and> w = JObj c")
    case True
    then obtain b c where vw: "v = JObj b" "w = JObj c" by blast
    have "accumulates (compare_property h b c path e)" if "e \<in> set (properties_of c)" for e
      unfolding compare_property_def
      using less.hyps[of "read_key (properties_of b) (fst e)" "snd e"] property_decreases[of "fst e" "snd e" c b "fst e"] that vw
      by (intro accumulates_if accumulates_parts) simp
    note properties = set_fold_accumulated[of "properties_of c", OF this]
    have "accumulates (compare_items h b c path)"
      unfolding compare_items_def using less.hyps[of "fld b ''items''" "fld c ''items''"] items_decrease[of b "''items''" c] vw
      by (intro accumulates_if accumulates_id) simp
    note items = set_accumulated[OF this]
    show ?thesis
      unfolding vw accumulates_def found_def[of "compareSchema h (JObj b) (JObj c) path"] compareSchema_objects
      by (auto simp: properties items accumulates_parts[THEN set_accumulated] set_addChange)
  next
    case False
    then show ?thesis
      unfolding compareSchema_other[OF False, abs_def] by (intro accumulates_if accumulates_id accumulates_add)
  qed
qed

lemma accumulates_property: "accumulates (compare_property h b c path e)"
  unfolding compare_property_def by (intro accumulates_if accumulates_schema accumulates_parts)

lemma accumulates_items: "accumulates (compare_items h b c path)"
  unfolding compare_items_def by (intro accumulates_if accumulates_schema accumulates_id)

text \<open>The changes of two objects are those of the parts.\<close>

lemma found_schema:
  assumes "equal_json h (fld b ''type'') (fld c ''type'')"
  shows "found (compareSchema h (JObj b) (JObj c) path) =
    found (compare_identity h b c path) \<union> found (compare_enums h b c path) \<union> found (compare_required h b c path)
    \<union> found (compare_additional h b c path) \<union> found (removed_properties b c path)
    \<union> (\<Union>e \<in> set (properties_of c). found (compare_property h b c path e))
    \<union> found (compare_items h b c path) \<union> found (compare_composition h b c path) \<union> found (compare_constraints h b c path)"
  using assms unfolding found_def[of "compareSchema h (JObj b) (JObj c) path"] compareSchema_objects
  by (simp add: set_fold_accumulated[OF accumulates_property] set_accumulated[OF accumulates_items] accumulates_parts[THEN set_accumulated] ac_simps)

section \<open>Schemas without a difference\<close>

text \<open>Two lists of enum values with the same texts, two lists of required names with the same members.\<close>

definition same_enum :: "impact_host \<Rightarrow> json \<Rightarrow> json \<Rightarrow> bool" where
  "same_enum h x y = (case (x, y) of (JArr xs, JArr ys) \<Rightarrow> text_of_json h ` set xs = text_of_json h ` set ys | _ \<Rightarrow> same x y)"

definition same_required :: "json \<Rightarrow> json \<Rightarrow> bool" where
  "same_required x y = (case (x, y) of
     (JArr xs, JArr ys) \<Rightarrow> (\<forall>n \<in> set xs. js_includes ys n) \<and> (\<forall>n \<in> set ys. js_includes xs n) | _ \<Rightarrow> same x y)"

definition keys :: "jobj \<Rightarrow> string set" where
  "keys r = fst ` set r"

definition free_keys :: "string list" where
  "free_keys = [''description'', ''title'', ''enum'', ''required'', ''properties'', ''items'']"

lemma property_pair_decreases:
  "(k, s) \<in> set (properties_of c) \<Longrightarrow> size (fld (properties_of b) n) + size s < size (JObj b) + size (JObj c)"
  using property_size[of k s c] fld_size[of "properties_of b" n] properties_size[of b] by simp

text \<open>Schemas that differ in nothing but titles, descriptions, and the order of entries, enum values and
  required names, at every depth.\<close>

function same_schema :: "impact_host \<Rightarrow> json \<Rightarrow> json \<Rightarrow> bool" where
  "same_schema h baseline candidate =
     (case (baseline, candidate) of
        (JObj b, JObj c) \<Rightarrow>
          (\<forall>k \<in> keys b \<union> keys c - set free_keys. same (fld b k) (fld c k))
          \<and> same_enum h (fld b ''enum'') (fld c ''enum'') \<and> same_required (fld b ''required'') (fld c ''required'')
          \<and> keys (properties_of b) = keys (properties_of c)
          \<and> (\<forall>(k, s) \<in> set (properties_of c). same_schema h (fld (properties_of b) k) s)
          \<and> same_schema h (fld b ''items'') (fld c ''items'')
      | _ \<Rightarrow> same baseline candidate)"
  by pat_completeness auto
termination
  by (relation "measure (\<lambda>(_, b, c). size b + size c)") (use property_pair_decreases items_decrease in auto)

declare same_schema.simps [simp del]

text \<open>Schemas whose keys and property names are no members of \<open>Object.prototype\<close>, with objects for \<open>properties\<close>.\<close>

function ordinary :: "json \<Rightarrow> bool" where
  "ordinary v =
     (case v of
        JObj r \<Rightarrow> keys r \<inter> set OBJECT_PROTOTYPE = {} \<and> keys (properties_of r) \<inter> set OBJECT_PROTOTYPE = {}
          \<and> (fld r ''properties'' = JUndef \<or> (\<exists>ps. fld r ''properties'' = JObj ps))
          \<and> (\<forall>(k, s) \<in> set (properties_of r). ordinary s) \<and> ordinary (fld r ''items'')
      | _ \<Rightarrow> True)"
  by pat_completeness auto
termination
  by (relation "measure size") (auto simp: property_size fld_size)

declare ordinary.simps [simp del]

lemma ordinary_object:
  "ordinary (JObj r) \<longleftrightarrow> keys r \<inter> set OBJECT_PROTOTYPE = {} \<and> keys (properties_of r) \<inter> set OBJECT_PROTOTYPE = {}
     \<and> (fld r ''properties'' = JUndef \<or> (\<exists>ps. fld r ''properties'' = JObj ps))
     \<and> (\<forall>(k, s) \<in> set (properties_of r). ordinary s) \<and> ordinary (fld r ''items'')"
  by (simp add: ordinary.simps[of "JObj r"])

lemma same_schema_objects:
  "same_schema h (JObj b) (JObj c) \<longleftrightarrow>
     (\<forall>k \<in> keys b \<union> keys c - set free_keys. same (fld b k) (fld c k))
     \<and> same_enum h (fld b ''enum'') (fld c ''enum'') \<and> same_required (fld b ''required'') (fld c ''required'')
     \<and> keys (properties_of b) = keys (properties_of c)
     \<and> (\<forall>(k, s) \<in> set (properties_of c). same_schema h (fld (properties_of b) k) s)
     \<and> same_schema h (fld b ''items'') (fld c ''items'')"
  by (simp add: same_schema.simps[of h "JObj b"])

lemma same_schema_other: "(\<nexists>b c. v = JObj b \<and> w = JObj c) \<Longrightarrow> same_schema h v w \<longleftrightarrow> same v w"
  by (subst same_schema.simps) (auto split: json.split)

lemma has_key_keys: "has_key r k \<longleftrightarrow> k \<in> keys r"
  by (auto simp: has_key_def keys_def)

lemma fld_absent: "k \<notin> keys r \<Longrightarrow> fld r k = JUndef"
  by (force simp: fld_def keys_def split: option.split dest: map_of_SomeD)

lemma parsed_fld: "plain D (JObj r) \<Longrightarrow> parsed D (fld r k)"
  by (auto simp: parsed_def fld_def split: option.split dest!: map_of_SomeD)

lemma plain_properties: "plain D (JObj r) \<Longrightarrow> plain D (JObj (properties_of r))"
  using parsed_fld[of D r "''properties''"] by (auto simp: properties_of_def parsed_def split: json.split)

lemma set_string_set [simp]: "set (string_set xs) = set xs"
  by (induction xs) auto

lemma same_value_eq: "same_value a b \<Longrightarrow> a = b"
  by (cases a; cases b) (auto simp: same_value_def elim!: js_num_eq.elims)

lemma set_new_Set [simp]: "set (new_Set xs) = set xs"
  by (induction xs) (auto dest: same_value_eq)

lemma two_reports_Nil:
  "fold (\<lambda>x cs. if P x then cs else addChange k p (r x) cs) xs (fold (\<lambda>y cs. if Q y then cs else addChange k' p (r' y) cs) ys []) = []
     \<longleftrightarrow> (\<forall>x \<in> set xs. P x) \<and> (\<forall>y \<in> set ys. Q y)"
proof -
  have "set (fold (\<lambda>x cs. if P x then cs else addChange k p (r x) cs) xs (fold (\<lambda>y cs. if Q y then cs else addChange k' p (r' y) cs) ys []))
      = (\<lambda>y. \<lparr>ch_classification = k', ch_path = p, ch_reason = r' y\<rparr>) ` {y \<in> set ys. \<not> Q y}
      \<union> (\<lambda>x. \<lparr>ch_classification = k, ch_path = p, ch_reason = r x\<rparr>) ` {x \<in> set xs. \<not> P x}"
    by (simp only: set_report list.set(1) Un_empty_left)
  then show ?thesis unfolding set_empty[symmetric] by auto
qed

text \<open>When the parts of the comparison find nothing.\<close>

lemma identity_same:
  assumes "plain D (JObj b)" "plain D (JObj c)" "prints_numbers D (ih_fraction h)"
  shows "found (compare_identity h b c path) = {} \<longleftrightarrow> (\<forall>k \<in> {''$id'', ''$schema''}. same (fld b k) (fld c k))"
  unfolding found_def compare_identity_def set_report
  using equal_json_iff[OF parsed_fld[OF assms(1)] parsed_fld[OF assms(2)] assms(3)] by auto

lemma composition_same:
  assumes "plain D (JObj b)" "plain D (JObj c)" "prints_numbers D (ih_fraction h)"
  shows "found (compare_composition h b c path) = {} \<longleftrightarrow> (\<forall>k \<in> {''anyOf'', ''oneOf'', ''allOf''}. same (fld b k) (fld c k))"
  unfolding found_def compare_composition_def set_report
  using equal_json_iff[OF parsed_fld[OF assms(1)] parsed_fld[OF assms(2)] assms(3)] by auto

lemma constraints_same:
  assumes "plain D (JObj b)" "plain D (JObj c)" "prints_numbers D (ih_fraction h)"
    and "keys b \<inter> set OBJECT_PROTOTYPE = {}" "keys c \<inter> set OBJECT_PROTOTYPE = {}"
  shows "found (compare_constraints h b c path) = {} \<longleftrightarrow> (\<forall>k \<in> keys b \<union> keys c - set IGNORED_KEYS. same (fld b k) (fld c k))"
proof -
  have "read_key r k = fld r k" if "k \<in> keys b \<union> keys c" for r k
    using that assms(4,5) fld_absent[of k r] by (auto simp: read_key_def has_key_keys OBJECT_PROTOTYPE_def)
  then have "equal_json h (read_key b k) (read_key c k) \<longleftrightarrow> same (fld b k) (fld c k)" if "k \<in> keys b \<union> keys c" for k
    using equal_json_iff[OF parsed_fld[OF assms(1)] parsed_fld[OF assms(2)] assms(3)] that by simp
  moreover have "set (string_set (map fst b @ map fst c)) = keys b \<union> keys c" by (simp add: keys_def)
  ultimately show ?thesis unfolding found_def compare_constraints_def set_report by auto
qed

lemma enums_same:
  assumes "parsed D (fld b ''enum'')" "parsed D (fld c ''enum'')" "prints_numbers D (ih_fraction h)"
  shows "found (compare_enums h b c path) = {} \<longleftrightarrow> same_enum h (fld b ''enum'') (fld c ''enum'')"
proof (cases "\<exists>xs ys. fld b ''enum'' = JArr xs \<and> fld c ''enum'' = JArr ys")
  case True
  then obtain xs ys where "fld b ''enum'' = JArr xs" "fld c ''enum'' = JArr ys" by blast
  then show ?thesis
    unfolding found_def set_empty compare_enums_def same_enum_def compareEnum_def Let_def by (simp add: two_reports_Nil) blast
next
  case False
  then show ?thesis
    using equal_json_iff[OF assms] unfolding found_def compare_enums_def same_enum_def set_empty
    by (cases "fld b ''enum''"; cases "fld c ''enum''") simp_all
qed

lemma required_same:
  assumes "parsed D (fld b ''required'')" "parsed D (fld c ''required'')" "prints_numbers D (ih_fraction h)"
  shows "found (compare_required h b c path) = {} \<longleftrightarrow> same_required (fld b ''required'') (fld c ''required'')"
proof (cases "\<exists>xs ys. fld b ''required'' = JArr xs \<and> fld c ''required'' = JArr ys")
  case True
  then show ?thesis by (auto simp: found_def compare_required_def same_required_def two_reports_Nil)
next
  case False
  then show ?thesis
    using equal_json_iff[OF assms] unfolding found_def compare_required_def same_required_def set_empty
    by (cases "fld b ''required''"; cases "fld c ''required''") simp_all
qed

lemma same_scalar: "same (JBool a) v \<longleftrightarrow> v = JBool a" "same v (JBool a) \<longleftrightarrow> v = JBool a"
  by (simp_all add: same_def) (cases v; auto)+

lemma additional_same:
  assumes "parsed D (fld b ''additionalProperties'')" "parsed D (fld c ''additionalProperties'')" "prints_numbers D (ih_fraction h)"
  shows "found (compare_additional h b c path) = {} \<longleftrightarrow> same (fld b ''additionalProperties'') (fld c ''additionalProperties'')"
  using equal_json_iff[OF assms] unfolding found_def compare_additional_def Let_def by (auto simp: set_addChange same_scalar)

lemma same_refl [simp]: "same v v"
  by (simp add: same_def)

lemma fixed_keys_same:
  "(\<forall>k \<in> keys b \<union> keys c - set free_keys. same (fld b k) (fld c k)) \<longleftrightarrow>
     (\<forall>k \<in> {''$id'', ''$schema''}. same (fld b k) (fld c k)) \<and> same (fld b ''type'') (fld c ''type'')
     \<and> same (fld b ''additionalProperties'') (fld c ''additionalProperties'')
     \<and> (\<forall>k \<in> {''anyOf'', ''oneOf'', ''allOf''}. same (fld b k) (fld c k))
     \<and> (\<forall>k \<in> keys b \<union> keys c - set IGNORED_KEYS. same (fld b k) (fld c k))"
proof -
  let ?S = "{''$id'', ''$schema'', ''type'', ''additionalProperties'', ''anyOf'', ''oneOf'', ''allOf''}"
  have everywhere: "(\<forall>k \<in> keys b \<union> keys c - A. same (fld b k) (fld c k)) \<longleftrightarrow> (\<forall>k. k \<notin> A \<longrightarrow> same (fld b k) (fld c k))" for A
    using fld_absent by (metis Diff_iff UnCI same_refl)
  have split: "set IGNORED_KEYS = set free_keys \<union> ?S" "set free_keys \<inter> ?S = {}" by (auto simp: IGNORED_KEYS_def free_keys_def)
  have "(\<forall>k. k \<notin> A \<longrightarrow> P k) \<longleftrightarrow> (\<forall>k \<in> S. P k) \<and> (\<forall>k. k \<notin> A \<union> S \<longrightarrow> P k)" if "A \<inter> S = {}" for A S :: "string set" and P
    using that by blast
  from this[OF split(2), of "\<lambda>k. same (fld b k) (fld c k)"] show ?thesis
    unfolding everywhere split(1) by (simp only: ball_simps conj_ac simp_thms)
qed

lemma ordinary_read:
  assumes "keys r \<inter> set OBJECT_PROTOTYPE = {}" "keys q \<inter> set OBJECT_PROTOTYPE = {}" "k \<in> keys q"
  shows "js_in k r \<longleftrightarrow> k \<in> keys r" "read_key r k = fld r k"
  using assms fld_absent[of k r] by (auto simp: js_in_def read_key_def has_key_keys OBJECT_PROTOTYPE_def)

lemma added_property_found: "found (added_property h b c path name) \<noteq> {}"
  by (simp add: found_def added_property_def Let_def)

lemma property_key: "e \<in> set (properties_of c) \<Longrightarrow> fst e \<in> keys (properties_of c)"
  by (simp add: keys_def)

lemma removed_found:
  assumes "keys (properties_of b) \<inter> set OBJECT_PROTOTYPE = {}" "keys (properties_of c) \<inter> set OBJECT_PROTOTYPE = {}"
  shows "found (removed_properties b c path) = {} \<longleftrightarrow> keys (properties_of b) \<subseteq> keys (properties_of c)"
proof -
  have "set (map fst (properties_of b)) = keys (properties_of b)" by (simp add: keys_def)
  then show ?thesis
    unfolding found_def removed_properties_def set_report using ordinary_read(1)[OF assms(2,1)] by auto
qed

lemma schema_same:
  assumes "parsed D v" "parsed D w" "prints_numbers D (ih_fraction h)" "ordinary v" "ordinary w"
  shows "found (compareSchema h v w path) = {} \<longleftrightarrow> same_schema h v w"
  using assms(1,2,4,5)
proof (induction "size v + size w" arbitrary: v w path rule: less_induct)
  case less
  show ?case
  proof (cases "\<exists>b c. v = JObj b \<and> w = JObj c")
    case False
    then show ?thesis
      using equal_json_iff[OF less.prems(1,2) assms(3)]
      by (auto simp: found_def compareSchema_other[OF False] same_schema_other[OF False] simp del: set_empty)
  next
    case True
    then obtain b c where vw: "v = JObj b" "w = JObj c" by blast
    let ?pb = "properties_of b" and ?pc = "properties_of c"
    have plain: "plain D (JObj b)" "plain D (JObj c)" using less.prems(1,2) vw by (simp_all add: parsed_def)
    have parts: "plain D (JObj ?pb)" "plain D (JObj ?pc)" using plain plain_properties by blast+
    have o: "keys b \<inter> set OBJECT_PROTOTYPE = {}" "keys c \<inter> set OBJECT_PROTOTYPE = {}" "keys ?pb \<inter> set OBJECT_PROTOTYPE = {}"
        "keys ?pc \<inter> set OBJECT_PROTOTYPE = {}" "ordinary (fld b ''items'')" "ordinary (fld c ''items'')"
      using less.prems(3,4) vw by (simp_all add: ordinary_object)
    have sub: "ordinary s" if "(k, s) \<in> set ?pb \<union> set ?pc" for k s using less.prems(3,4) vw that by (auto simp: ordinary_object)
    have sub_fld: "ordinary (fld ?pb k)" for k
    proof (cases "k \<in> keys ?pb")
      case True
      then show ?thesis using sub by (auto simp: fld_def keys_def ordinary.simps[of JUndef] split: option.split dest!: map_of_SomeD)
    qed (simp add: fld_absent ordinary.simps[of JUndef])
    have property: "found (compare_property h b c path e) = {} \<longleftrightarrow> fst e \<in> keys ?pb \<and> same_schema h (fld ?pb (fst e)) (snd e)"
      if "e \<in> set ?pc" for e
    proof -
      note e = ordinary_read[OF o(3,4) property_key[OF that]]
      have "plain D (snd e)" using parts(2) that by (auto simp: case_prod_unfold)
      then have "found (compareSchema h (fld ?pb (fst e)) (snd e) p) = {} \<longleftrightarrow> same_schema h (fld ?pb (fst e)) (snd e)" for p
        using less.hyps[of "fld ?pb (fst e)" "snd e"] property_pair_decreases[of "fst e" "snd e" c b "fst e"] that vw
          parsed_fld[OF parts(1)] sub_fld sub[of "fst e" "snd e"] by (simp add: parsed_def)
      then show ?thesis
        using added_property_found[of h b c path "fst e"] unfolding compare_property_def[abs_def] e
        by (cases "fst e \<in> keys ?pb") simp_all
    qed
    have items: "found (compare_items h b c path) = {} \<longleftrightarrow> same_schema h (fld b ''items'') (fld c ''items'')"
      using less.hyps[of "fld b ''items''" "fld c ''items''"] items_decrease[of b "''items''" c] vw parsed_fld[OF plain(1)] parsed_fld[OF plain(2)] o(5,6)
      by (cases "fld b ''items'' = JUndef \<and> fld c ''items'' = JUndef")
        (simp_all add: compare_items_def[abs_def] found_def[of "\<lambda>cs. cs"] same_schema_other)
    note type = equal_json_iff[OF parsed_fld[OF plain(1)] parsed_fld[OF plain(2)] assms(3), of "''type''" "''type''"]
    show ?thesis
    proof (cases "same (fld b ''type'') (fld c ''type'')")
      case False
      then have "found (compareSchema h v w path) \<noteq> {}" by (simp add: found_def vw compareSchema_objects type)
      then show ?thesis using False unfolding vw same_schema_objects fixed_keys_same by blast
    next
      case True
      have properties: "found (removed_properties b c path) = {} \<and> (\<Union>e \<in> set ?pc. found (compare_property h b c path e)) = {}
          \<longleftrightarrow> keys ?pb = keys ?pc \<and> (\<forall>(k, s) \<in> set ?pc. same_schema h (fld ?pb k) s)"
        unfolding removed_found[OF o(3,4)] using property by (auto simp: keys_def case_prod_unfold)
      show ?thesis
        unfolding vw found_schema[OF type[THEN iffD2, OF True]] same_schema_objects fixed_keys_same Un_empty
          identity_same[OF plain assms(3)] composition_same[OF plain assms(3)] constraints_same[OF plain assms(3) o(1,2)]
          enums_same[OF parsed_fld[OF plain(1)] parsed_fld[OF plain(2)] assms(3)]
          required_same[OF parsed_fld[OF plain(1)] parsed_fld[OF plain(2)] assms(3)]
          additional_same[OF parsed_fld[OF plain(1)] parsed_fld[OF plain(2)] assms(3)] items
        using properties True by argo
    qed
  qed
qed

section \<open>Breaking changes of a schema\<close>

text \<open>A property, an enum value or the freedom to add properties is taken away, a property is required anew, or
  the identity changes; in the schema, in the schema of a property or in that of items, below equal types.\<close>

inductive breaks :: "impact_host \<Rightarrow> json \<Rightarrow> json \<Rightarrow> bool" for h where
  identity: "k \<in> {''$id'', ''$schema''} \<Longrightarrow> \<not> equal_json h (fld b k) (fld c k) \<Longrightarrow> breaks h (JObj b) (JObj c)"
| removed: "same (fld b ''type'') (fld c ''type'') \<Longrightarrow> k \<in> keys (properties_of b) \<Longrightarrow> k \<notin> keys (properties_of c)
    \<Longrightarrow> k \<notin> set OBJECT_PROTOTYPE \<Longrightarrow> breaks h (JObj b) (JObj c)"
| enum: "same (fld b ''type'') (fld c ''type'') \<Longrightarrow> fld b ''enum'' = JArr xs \<Longrightarrow> fld c ''enum'' = JArr ys \<Longrightarrow> x \<in> set xs
    \<Longrightarrow> text_of_json h x \<notin> text_of_json h ` set ys \<Longrightarrow> breaks h (JObj b) (JObj c)"
| required: "same (fld b ''type'') (fld c ''type'') \<Longrightarrow> fld b ''required'' = JArr xs \<Longrightarrow> fld c ''required'' = JArr ys
    \<Longrightarrow> JStr k \<in> set ys \<Longrightarrow> JStr k \<notin> set xs \<Longrightarrow> breaks h (JObj b) (JObj c)"
| new_required: "same (fld b ''type'') (fld c ''type'') \<Longrightarrow> k \<in> keys (properties_of c) \<Longrightarrow> k \<notin> keys (properties_of b)
    \<Longrightarrow> k \<notin> set OBJECT_PROTOTYPE \<Longrightarrow> fld c ''required'' = JArr ys \<Longrightarrow> JStr k \<in> set ys \<Longrightarrow> breaks h (JObj b) (JObj c)"
| closed: "same (fld b ''type'') (fld c ''type'') \<Longrightarrow> fld b ''additionalProperties'' \<noteq> JBool False
    \<Longrightarrow> fld c ''additionalProperties'' = JBool False \<Longrightarrow> breaks h (JObj b) (JObj c)"
| property: "same (fld b ''type'') (fld c ''type'') \<Longrightarrow> k \<in> keys (properties_of b) \<Longrightarrow> (k, s) \<in> set (properties_of c)
    \<Longrightarrow> breaks h (fld (properties_of b) k) s \<Longrightarrow> breaks h (JObj b) (JObj c)"
| items: "same (fld b ''type'') (fld c ''type'') \<Longrightarrow> breaks h (fld b ''items'') (fld c ''items'') \<Longrightarrow> breaks h (JObj b) (JObj c)"

definition reports_breaking :: "(ContractImpactChange list \<Rightarrow> ContractImpactChange list) \<Rightarrow> bool" where
  "reports_breaking f \<longleftrightarrow> (\<exists>ch \<in> found f. ch_classification ch = Breaking)"

lemma same_equal: "same v w \<Longrightarrow> equal_json h v w"
  by (simp add: same_def equal_json_def canonicalize_def)

lemma reports_breaking_part:
  assumes "same (fld b ''type'') (fld c ''type'')"
    and "reports_breaking f" "f \<in> {compare_identity h b c path, compare_enums h b c path, compare_required h b c path,
      compare_additional h b c path, removed_properties b c path, compare_items h b c path}
      \<union> compare_property h b c path ` set (properties_of c)"
  shows "reports_breaking (compareSchema h (JObj b) (JObj c) path)"
  using assms(2,3) unfolding reports_breaking_def found_schema[OF same_equal[OF assms(1)]] by blast

lemma reports_breaking_identity:
  assumes "k \<in> {''$id'', ''$schema''}" "\<not> equal_json h (fld b k) (fld c k)"
  shows "reports_breaking (compareSchema h (JObj b) (JObj c) path)"
proof -
  have "reports_breaking (compare_identity h b c path)"
    using assms unfolding reports_breaking_def found_def compare_identity_def set_report by auto
  then obtain ch where ch: "ch \<in> found (compare_identity h b c path)" "ch_classification ch = Breaking" by (auto simp: reports_breaking_def)
  have "ch \<in> found (compareSchema h (JObj b) (JObj c) path)"
  proof (cases "equal_json h (fld b ''type'') (fld c ''type'')")
    case True
    then show ?thesis using ch(1) by (simp add: found_schema)
  next
    case False
    then show ?thesis using ch(1) by (simp add: found_def compareSchema_objects set_addChange)
  qed
  then show ?thesis using ch(2) by (auto simp: reports_breaking_def)
qed

lemma breaks_reported: "breaks h v w \<Longrightarrow> reports_breaking (compareSchema h v w path)"
proof (induction arbitrary: path rule: breaks.induct)
  case (identity k b c)
  then show ?case by (rule reports_breaking_identity)
next
  case (removed b c k)
  have "reports_breaking (removed_properties b c path)"
    using removed(2-4) unfolding reports_breaking_def found_def removed_properties_def set_report
    by (auto simp: js_in_def has_key_keys keys_def)
  then show ?case by (rule reports_breaking_part[OF removed(1)]) simp
next
  case (enum b c xs ys x)
  have "reports_breaking (compare_enums h b c path)"
    using enum(2-5) unfolding reports_breaking_def found_def compare_enums_def compareEnum_def Let_def by (auto simp: set_report bex_Un)
  then show ?case by (rule reports_breaking_part[OF enum(1)]) simp
next
  case (required b c xs ys k)
  have "reports_breaking (compare_required h b c path)"
    using required(2-5) unfolding reports_breaking_def found_def compare_required_def by (auto simp: set_report bex_Un)
  then show ?case by (rule reports_breaking_part[OF required(1)]) simp
next
  case (new_required b c k ys)
  then obtain s where s: "(k, s) \<in> set (properties_of c)" by (auto simp: keys_def)
  have "reports_breaking (compare_property h b c path (k, s))"
    using new_required(3-6) unfolding reports_breaking_def found_def compare_property_def added_property_def Let_def
    by (force simp: js_in_def has_key_keys set_addChange image_iff)
  then show ?case by (rule reports_breaking_part[OF new_required(1)]) (use s in blast)
next
  case (closed b c)
  have "reports_breaking (compare_additional h b c path)"
    using closed(2,3) unfolding reports_breaking_def found_def compare_additional_def Let_def by (auto simp: set_addChange)
  then show ?case by (rule reports_breaking_part[OF closed(1)]) simp
next
  case (property b c k s)
  have "reports_breaking (compare_property h b c path (k, s))"
    using property.IH property(2) unfolding reports_breaking_def compare_property_def[abs_def] by (simp add: js_in_def read_key_def has_key_keys)
  then show ?case by (rule reports_breaking_part[OF property(1)]) (use property(3) in blast)
next
  case (items b c)
  have "fld b ''items'' \<noteq> JUndef" using items(2) by (auto elim: breaks.cases)
  then have "reports_breaking (compare_items h b c path)"
    using items.IH unfolding reports_breaking_def compare_items_def[abs_def] by simp
  then show ?case by (rule reports_breaking_part[OF items(1)]) simp
qed

section \<open>Snapshots\<close>

definition compare_schema_named ::
  "impact_host \<Rightarrow> ContractSnapshot \<Rightarrow> ContractSnapshot \<Rightarrow> string \<Rightarrow> ContractImpactChange list \<Rightarrow> ContractImpactChange list" where
  "compare_schema_named h b c name cs =
     (if \<not> js_in name (cs_schemas b) then addChange Additive (''schemas.'' @ name) ''New schema definition added.'' cs
      else if \<not> js_in name (cs_schemas c) then addChange Breaking (''schemas.'' @ name) ''Schema definition removed.'' cs
      else compareSchema h (read_key (cs_schemas b) name) (read_key (cs_schemas c) name) (''schemas.'' @ name) cs)"

lemma accumulates_named: "accumulates (compare_schema_named h b c name)"
  unfolding compare_schema_named_def by (intro accumulates_if accumulates_add accumulates_schema)

lemma set_compare_schemas:
  "set (compare_schemas h b c cs) = set cs \<union> (\<Union>name \<in> keys (cs_schemas b) \<union> keys (cs_schemas c). found (compare_schema_named h b c name))"
proof -
  have "compare_schemas h b c cs
      = fold (compare_schema_named h b c) (sort (string_set (map fst (cs_schemas b) @ map fst (cs_schemas c)))) cs"
    by (simp add: compare_schemas_def compare_schema_named_def[abs_def])
  moreover have "set (sort (string_set (map fst (cs_schemas b) @ map fst (cs_schemas c)))) = keys (cs_schemas b) \<union> keys (cs_schemas c)"
    by (simp add: keys_def)
  ultimately show ?thesis by (simp only: set_fold_accumulated[OF accumulates_named])
qed

lemma accumulates_snapshot:
  "accumulates (compare_api h b c)" "accumulates (compare_manifests h b c)" "accumulates (compare_sources b c)"
proof -
  show "accumulates (compare_api h b c)"
    unfolding compare_api_def case_prod_unfold by (rule accumulates_report)
  show "accumulates (compare_manifests h b c)"
    unfolding compare_manifests_def Let_def
    by (intro accumulates_if accumulates_id accumulates_parts accumulates_comp[OF accumulates_add accumulates_parts(9)])
  show "accumulates (compare_sources b c)"
    unfolding accumulates_def found_def compare_sources_def Let_def by (auto simp: set_addChange)
qed

text \<open>All changes are those of the parts of the snapshots.\<close>

lemma set_all_changes:
  "set (all_changes h b c) =
     (if cs_contractSetSha256 b = cs_contractSetSha256 c then {}
      else {\<lparr>ch_classification = Breaking, ch_path = ''contractSetSha256'', ch_reason = ''Canonical contract-set bundle hash changed.''\<rparr>})
     \<union> found (compare_api h b c) \<union> (\<Union>name \<in> keys (cs_schemas b) \<union> keys (cs_schemas c). found (compare_schema_named h b c name))
     \<union> found (compare_manifests h b c) \<union> found (compare_sources b c)
     \<union> found (compareCollections h (cs_events b) (cs_events c) ''events'')
     \<union> found (compareCollections h (cs_errorCodes b) (cs_errorCodes c) ''errorCodes'')"
  by (simp add: all_changes_def Let_def accumulates_parts(9)[THEN set_accumulated] accumulates_snapshot[THEN set_accumulated]
      set_compare_schemas set_addChange)

lemma classification_NoImpact: "classification_of cs = NoImpact \<longleftrightarrow> cs = []"
  by (cases cs) (simp_all add: classification_of_def)

lemma classification_Breaking: "classification_of cs = Breaking \<longleftrightarrow> (\<exists>ch \<in> set cs. ch_classification ch = Breaking)"
  by (simp add: classification_of_def list_ex_iff)

text \<open>What breaks consumers of a contract.\<close>

definition breaks_contract :: "impact_host \<Rightarrow> ContractSnapshot \<Rightarrow> ContractSnapshot \<Rightarrow> bool" where
  "breaks_contract h b c \<longleftrightarrow>
     cs_contractSetSha256 b \<noteq> cs_contractSetSha256 c
     \<or> (\<exists>k \<in> {''apiVersion'', ''documentSchemaVersion'', ''documentSchemaId''}. \<not> equal_json h (fld (cs_runtimeApi b) k) (fld (cs_runtimeApi c) k))
     \<or> (\<exists>name \<in> keys (cs_schemas b). name \<notin> keys (cs_schemas c) \<and> name \<notin> set OBJECT_PROTOTYPE)
     \<or> (\<exists>name \<in> keys (cs_schemas b) \<inter> keys (cs_schemas c). breaks h (fld (cs_schemas b) name) (fld (cs_schemas c) name))
     \<or> (\<exists>x \<in> set (cs_events b). text_of_json h (sorted_value x) \<notin> (text_of_json h \<circ> sorted_value) ` set (cs_events c))
     \<or> (\<exists>x \<in> set (cs_errorCodes b). text_of_json h (sorted_value x) \<notin> (text_of_json h \<circ> sorted_value) ` set (cs_errorCodes c))"

lemma set_insert_by [simp]: "set (insert_by before x xs) = insert x (set xs)"
  by (induction xs) auto

lemma set_sortedCollection [simp]: "set (sortedCollection h vs) = sorted_value ` set vs"
proof -
  have "set (foldr (insert_by before) xs []) = set xs" for before and xs :: "json list" by (induction xs) simp_all
  then show ?thesis by (simp add: sortedCollection_def canonicalize_def)
qed

lemma found_collections:
  "found (compareCollections h xs ys path) =
     (\<lambda>v. \<lparr>ch_classification = Breaking, ch_path = path, ch_reason = ''Entry removed: '' @ v @ ''.''\<rparr>)
       ` ((text_of_json h \<circ> sorted_value) ` set xs - (text_of_json h \<circ> sorted_value) ` set ys)
     \<union> (\<lambda>v. \<lparr>ch_classification = ManualReview, ch_path = path, ch_reason = ''Entry added: '' @ v @ ''.''\<rparr>)
       ` ((text_of_json h \<circ> sorted_value) ` set ys - (text_of_json h \<circ> sorted_value) ` set xs)"
  unfolding found_def compareCollections_def Let_def set_report by (auto simp: image_comp set_diff_eq)

lemma breaks_contract_found: "breaks_contract h b c \<Longrightarrow> \<exists>ch \<in> set (all_changes h b c). ch_classification ch = Breaking"
proof -
  have named: "\<exists>ch \<in> found (compare_schema_named h b c name). ch_classification ch = Breaking"
    if "name \<in> keys (cs_schemas b)" "name \<notin> keys (cs_schemas c) \<and> name \<notin> set OBJECT_PROTOTYPE
      \<or> name \<in> keys (cs_schemas c) \<and> breaks h (fld (cs_schemas b) name) (fld (cs_schemas c) name)" for name
    using that breaks_reported[of h "fld (cs_schemas b) name" "fld (cs_schemas c) name" "''schemas.'' @ name"]
    by (auto simp: compare_schema_named_def[abs_def] js_in_def read_key_def has_key_keys reports_breaking_def found_def[of "addChange _ _ _"] set_addChange)
  have api: "\<exists>ch \<in> found (compare_api h b c). ch_classification ch = Breaking"
    if "k \<in> {''apiVersion'', ''documentSchemaVersion'', ''documentSchemaId''}" "\<not> equal_json h (fld (cs_runtimeApi b) k) (fld (cs_runtimeApi c) k)" for k
    using that unfolding found_def compare_api_def case_prod_unfold set_report by auto
  have collections: "\<exists>ch \<in> found (compareCollections h xs ys path). ch_classification ch = Breaking"
    if "x \<in> set xs" "text_of_json h (sorted_value x) \<notin> (text_of_json h \<circ> sorted_value) ` set ys" for x xs ys path
    using that unfolding found_collections by (auto simp: bex_Un)
  assume "breaks_contract h b c"
  then show ?thesis
    unfolding breaks_contract_def set_all_changes
    using named api collections by (elim disjE bexE) (auto simp: bex_Un, blast+)
qed

section \<open>Contracts without a difference\<close>

text \<open>Manifests that agree apart from the metadata of their generation, with the same enums in any order.\<close>

definition other_entries :: "jobj \<Rightarrow> jobj" where
  "other_entries manifest = filter (\<lambda>e. fst e \<noteq> ''enums'') manifest"

definition semantic_form :: "json \<Rightarrow> json" where
  "semantic_form v = sorted_value (semanticManifest v)"

definition same_manifest :: "jobj \<Rightarrow> jobj \<Rightarrow> bool" where
  "same_manifest m n \<longleftrightarrow> semantic_form (JObj (other_entries m)) = semantic_form (JObj (other_entries n))
     \<and> (case (fld m ''enums'', fld n ''enums'') of
          (JArr xs, JArr ys) \<Rightarrow> semantic_form ` set xs = semantic_form ` set ys
        | (x, y) \<Rightarrow> semantic_form x = semantic_form y)"

definition same_contract :: "impact_host \<Rightarrow> ContractSnapshot \<Rightarrow> ContractSnapshot \<Rightarrow> bool" where
  "same_contract h b c \<longleftrightarrow>
     cs_contractSetSha256 b = cs_contractSetSha256 c
     \<and> (\<forall>k \<in> {''apiVersion'', ''documentSchemaVersion'', ''documentSchemaId''}. same (fld (cs_runtimeApi b) k) (fld (cs_runtimeApi c) k))
     \<and> keys (cs_schemas b) = keys (cs_schemas c)
     \<and> (\<forall>name \<in> keys (cs_schemas b). same_schema h (fld (cs_schemas b) name) (fld (cs_schemas c) name))
     \<and> same_manifest (cs_contractManifest b) (cs_contractManifest c)
     \<and> cs_typescript b = cs_typescript c \<and> cs_python b = cs_python c
     \<and> sorted_value ` set (cs_events b) = sorted_value ` set (cs_events c)
     \<and> sorted_value ` set (cs_errorCodes b) = sorted_value ` set (cs_errorCodes c)"

lemma semantic_simps:
  "semanticManifest (JArr xs) = JArr (map semanticManifest xs)"
  "semanticManifest (JObj r) = JObj (map (\<lambda>(k, x). (k, semanticManifest x)) (filter (\<lambda>(k, x). k \<notin> set MANIFEST_METADATA) r))"
  "semanticManifest JUndef = JUndef" "semanticManifest JNull = JNull" "semanticManifest (JBool b) = JBool b"
  "semanticManifest (JNum n) = JNum n" "semanticManifest (JStr t) = JStr t"
  by (simp_all add: semanticManifest.simps[of "JArr _"] semanticManifest.simps[of "JObj _"] semanticManifest.simps[of JUndef]
      semanticManifest.simps[of JNull] semanticManifest.simps[of "JBool _"] semanticManifest.simps[of "JNum _"] semanticManifest.simps[of "JStr _"])

lemma insort_key_map: "insort_key fst ((\<lambda>(k, x). (k, g x)) e) (map (\<lambda>(k, x). (k, g x)) r) = map (\<lambda>(k, x). (k, g x)) (insort_key fst e r)"
  by (induction r) (auto simp: case_prod_unfold)

lemma sort_key_map: "sort_key fst (map (\<lambda>(k, x). (k, g x)) r) = map (\<lambda>(k, x). (k, g x)) (sort_key fst r)"
  by (induction r) (simp_all only: list.map sort_key_simps insort_key_map)

lemma semantic_form_object:
  "semantic_form (JObj r) = JObj (map (\<lambda>(k, x). (k, semantic_form x)) (sort_key fst (filter (\<lambda>e. fst e \<notin> set MANIFEST_METADATA) r)))"
  unfolding semantic_form_def semantic_simps sorted_value_simps sort_key_map by (simp add: case_prod_unfold comp_def)

lemma semantic_sorted: "semanticManifest (sorted_value v) = sorted_value (semanticManifest v)"
proof (induction v rule: sorted_value.induct)
  case (1 v)
  show ?case
  proof (cases v)
    case (JArr xs)
    then show ?thesis using 1(1)[OF JArr] by (simp add: semantic_simps)
  next
    case (JObj r)
    have "filter (\<lambda>(k, x). k \<notin> M) (map (\<lambda>(k, x). (k, sorted_value x)) es) = map (\<lambda>(k, x). (k, sorted_value x)) (filter (\<lambda>(k, x). k \<notin> M) es)"
      for M and es :: jobj by (induction es) auto
    then show ?thesis
      using 1(2)[OF JObj] by (auto simp: JObj semantic_simps sort_key_map filter_sort)
  qed (simp_all add: semantic_simps)
qed

lemma plain_semantic: "plain D v \<Longrightarrow> plain D (semanticManifest v)"
proof (induction v rule: semanticManifest.induct)
  case (1 v)
  show ?case
  proof (cases v)
    case (JObj r)
    have "distinct (map fst r)" using 1(3) JObj by simp
    then have "distinct (map fst (filter (\<lambda>(k, x). k \<notin> set MANIFEST_METADATA) r))" by (rule distinct_map_filter)
    then show ?thesis using 1(2)[OF JObj] 1(3) JObj by (auto simp: semantic_simps case_prod_unfold comp_def)
  qed (use 1 in \<open>auto simp: semantic_simps\<close>)
qed

lemma semantic_form_same: "sorted_value v = sorted_value w \<Longrightarrow> semantic_form v = semantic_form w"
  unfolding semantic_form_def by (metis semantic_sorted)

lemma text_sorted: "plain D v \<Longrightarrow> text_of_json h (sorted_value v) = canonicalJson (ih_fraction h) v"
  by (simp add: text_of_json_def stringify_canonical)

lemma collections_same:
  assumes "\<forall>x \<in> set xs \<union> set ys. plain D x" "prints_numbers D (ih_fraction h)"
  shows "found (compareCollections h xs ys path) = {} \<longleftrightarrow> sorted_value ` set xs = sorted_value ` set ys"
proof -
  have texts: "text_of_json h (sorted_value x) = text_of_json h (sorted_value y) \<longleftrightarrow> sorted_value x = sorted_value y"
    if "x \<in> set xs \<union> set ys" "y \<in> set xs \<union> set ys" for x y
  proof -
    have "plain D x" "plain D y" using that assms(1) by blast+
    then show ?thesis using canonical_determines[of D x y "ih_fraction h"] assms(2) by (simp add: text_sorted)
  qed
  have "found (compareCollections h xs ys path) = {}
      \<longleftrightarrow> (\<forall>x \<in> set xs. \<exists>y \<in> set ys. text_of_json h (sorted_value x) = text_of_json h (sorted_value y))
      \<and> (\<forall>y \<in> set ys. \<exists>x \<in> set xs. text_of_json h (sorted_value y) = text_of_json h (sorted_value x))"
    unfolding found_collections by auto
  also have "\<dots> \<longleftrightarrow> (\<forall>x \<in> set xs. \<exists>y \<in> set ys. sorted_value x = sorted_value y) \<and> (\<forall>y \<in> set ys. \<exists>x \<in> set xs. sorted_value y = sorted_value x)"
    using texts by (meson UnCI)
  also have "\<dots> \<longleftrightarrow> sorted_value ` set xs = sorted_value ` set ys" by auto
  finally show ?thesis .
qed

lemma fld_mapped: "g JUndef = JUndef \<Longrightarrow> fld (map (\<lambda>(k, x). (k, g x)) r) k = g (fld r k)"
  by (induction r) auto

lemma fld_filtered: "P k \<Longrightarrow> fld (filter (\<lambda>e. P (fst e)) r) k = fld r k"
  by (induction r) auto

lemma fld_sorted: "distinct (map fst r) \<Longrightarrow> fld (sort_key fst r) k = fld r k"
  by (simp add: fld_def map_of_sort_key)

lemma semantic_form_JUndef [simp]: "semantic_form JUndef = JUndef"
  by (simp add: semantic_form_def semantic_simps)

lemma semantic_form_array: "semantic_form (JArr xs) = JArr (map semantic_form xs)"
  by (simp add: semantic_form_def semantic_simps comp_def)

text \<open>The semantic form of an object determines those of its other entries and of its enums.\<close>

lemma semantic_form_parts:
  assumes "semantic_form (JObj m) = semantic_form (JObj n)" "distinct (map fst m)" "distinct (map fst n)"
  shows "semantic_form (JObj (other_entries m)) = semantic_form (JObj (other_entries n))"
    and "semantic_form (fld m ''enums'') = semantic_form (fld n ''enums'')"
proof -
  let ?M = "\<lambda>r. filter (\<lambda>e. fst e \<notin> set MANIFEST_METADATA) r"
  let ?form = "\<lambda>r. map (\<lambda>(k, x). (k, semantic_form x)) (sort_key fst (?M r))"
  have eq: "?form m = ?form n" using assms(1) unfolding semantic_form_object by simp
  have other: "semantic_form (JObj (other_entries r)) = JObj (filter (\<lambda>e. fst e \<noteq> ''enums'') (?form r))" for r
  proof -
    have "filter (\<lambda>e. fst e \<noteq> ''enums'') (?form r) = map (\<lambda>(k, x). (k, semantic_form x)) (sort_key fst (filter (\<lambda>e. fst e \<noteq> ''enums'') (?M r)))"
      unfolding filter_sort[symmetric] by (simp add: filter_map case_prod_unfold comp_def)
    moreover have "filter (\<lambda>e. fst e \<noteq> ''enums'') (?M r) = ?M (other_entries r)" by (simp add: other_entries_def conj_commute)
    ultimately show ?thesis by (simp only: semantic_form_object)
  qed
  show "semantic_form (JObj (other_entries m)) = semantic_form (JObj (other_entries n))" unfolding other eq ..
  have "fld (?form r) ''enums'' = semantic_form (fld r ''enums'')" if "distinct (map fst r)" for r
  proof -
    have "distinct (map fst (?M r))" using that by (rule distinct_map_filter)
    moreover have "''enums'' \<notin> set MANIFEST_METADATA" by (simp add: MANIFEST_METADATA_def)
    ultimately show ?thesis by (simp add: fld_mapped fld_sorted fld_filtered[where P = "\<lambda>k. k \<notin> set MANIFEST_METADATA"])
  qed
  from this[OF assms(2)] this[OF assms(3)] eq show "semantic_form (fld m ''enums'') = semantic_form (fld n ''enums'')" by metis
qed

text \<open>An entry that is \<open>undefined\<close> leaves no trace in the text.\<close>

lemma stringify_defined: "stringify sf (JObj (filter (\<lambda>e. snd e \<noteq> JUndef) r)) = stringify sf (JObj r)"
proof -
  let ?text = "\<lambda>(k, x). case stringify sf x of None \<Rightarrow> [] | Some t \<Rightarrow> [json_quote k @ '':'' @ t]"
  have "concat (map ?text (filter (\<lambda>e. snd e \<noteq> JUndef) r)) = concat (map ?text r)" by (induction r) auto
  then show ?thesis by (simp only: stringify.simps[of sf "JObj _"] json.case)
qed

lemma semantic_form_undefined: "semantic_form v = JUndef \<longleftrightarrow> v = JUndef"
  by (cases v) (simp_all add: semantic_form_def semantic_simps)

lemma defined_without_enums:
  assumes "plain D (JObj m)"
  shows "filter (\<lambda>e. snd e \<noteq> JUndef) (without_enums m) = other_entries m"
proof -
  have defined: "\<forall>e \<in> set m. snd e \<noteq> JUndef" using assms by force
  show ?thesis
  proof (cases "has_key m ''enums''")
    case True
    have "filter (\<lambda>e. snd e \<noteq> JUndef) (map (\<lambda>(k, x). (k, if k = ''enums'' then JUndef else x)) m) = filter (\<lambda>e. fst e \<noteq> ''enums'') m"
      using defined by (induction m) (auto split: if_splits)
    then show ?thesis using True by (simp add: without_enums_def other_entries_def)
  next
    case False
    then have "\<forall>e \<in> set m. fst e \<noteq> ''enums''" by (force simp: has_key_def)
    then show ?thesis using False defined by (simp add: without_enums_def other_entries_def)
  qed
qed

lemma stringify_without_enums:
  assumes "plain D (JObj m)"
  shows "stringify sf (semantic_form (JObj (without_enums m))) = stringify sf (semantic_form (JObj (other_entries m)))"
proof -
  let ?M = "\<lambda>r. filter (\<lambda>e. fst e \<notin> set MANIFEST_METADATA) r" and ?g = "\<lambda>(k, x). (k, semantic_form x)"
  have "filter (\<lambda>e. snd e \<noteq> JUndef) (map ?g (sort_key fst (?M (without_enums m))))
      = map ?g (sort_key fst (filter (\<lambda>e. snd e \<noteq> JUndef) (?M (without_enums m))))"
    unfolding filter_sort[symmetric] by (simp add: filter_map case_prod_unfold comp_def semantic_form_undefined)
  moreover have "filter (\<lambda>e. snd e \<noteq> JUndef) (?M (without_enums m)) = ?M (other_entries m)"
    unfolding defined_without_enums[OF assms, symmetric] by (simp add: conj_commute)
  ultimately show ?thesis unfolding semantic_form_object by (metis stringify_defined)
qed

lemma plain_other_entries: "plain D (JObj m) \<Longrightarrow> plain D (JObj (other_entries m))"
  by (auto simp: other_entries_def distinct_map_filter)

lemma manifests_same:
  assumes "plain D (JObj m)" "plain D (JObj n)" "prints_numbers D (ih_fraction h)"
    and "m = cs_contractManifest b" "n = cs_contractManifest c"
    and "fld m ''enums'' = JArr xs" "fld n ''enums'' = JArr ys" "found (compare_manifests h b c) = {}"
  shows "same_manifest m n"
proof (cases "equal_json h (semanticManifest (JObj m)) (semanticManifest (JObj n))")
  case True
  then have "semantic_form (JObj m) = semantic_form (JObj n)"
    using equal_json_iff[OF _ _ assms(3)] assms(1,2) plain_semantic by (simp add: parsed_def same_def semantic_form_def)
  from semantic_form_parts[OF this] assms(1,2) have "semantic_form (JObj (other_entries m)) = semantic_form (JObj (other_entries n))"
      "map semantic_form xs = map semantic_form ys" by (simp_all add: assms(6,7) semantic_form_array)
  then show ?thesis by (simp add: same_manifest_def assms(6,7)) (metis image_set)
next
  case False
  have "compare_manifests h b c [] =
      (if equal_json h (semanticManifest (JObj (without_enums m))) (semanticManifest (JObj (without_enums n)))
       then compareCollections h xs ys ''contractManifest.enums'' []
       else addChange ManualReview ''contractManifest'' ''Generated contract metadata changed.''
         (compareCollections h xs ys ''contractManifest.enums'' []))"
    using False unfolding compare_manifests_def Let_def assms(4-5)[symmetric] enums_of_def assms(6-7) by simp
  then have parts: "found (compareCollections h xs ys ''contractManifest.enums'') = {}"
      "equal_json h (semanticManifest (JObj (without_enums m))) (semanticManifest (JObj (without_enums n)))"
    using assms(8) unfolding found_def set_empty by (auto split: if_splits)
  have "plain D x" if "x \<in> set xs \<union> set ys" for x
    using parsed_fld[OF assms(1), of "''enums''"] parsed_fld[OF assms(2), of "''enums''"] that by (auto simp: assms(6,7) parsed_def)
  with parts(1) have "sorted_value ` set xs = sorted_value ` set ys" using collections_same[of xs ys D h] assms(3) by blast
  moreover have "semantic_form ` set zs = semanticManifest ` sorted_value ` set zs" for zs
    by (simp add: image_image semantic_sorted semantic_form_def)
  moreover have "semantic_form (JObj (other_entries m)) = semantic_form (JObj (other_entries n))"
  proof -
    have "stringify (ih_fraction h) (semantic_form (JObj (other_entries m))) = stringify (ih_fraction h) (semantic_form (JObj (other_entries n)))"
      using parts(2) stringify_without_enums[OF assms(1)] stringify_without_enums[OF assms(2)]
      by (simp add: equal_json_def canonicalize_def semantic_form_def)
    then have "equal_json h (semanticManifest (JObj (other_entries m))) (semanticManifest (JObj (other_entries n)))"
      by (simp add: equal_json_def canonicalize_def semantic_form_def)
    then show ?thesis
      using equal_json_iff[OF _ _ assms(3)] plain_semantic[OF plain_other_entries[OF assms(1)]] plain_semantic[OF plain_other_entries[OF assms(2)]]
      by (simp add: parsed_def same_def semantic_form_def)
  qed
  ultimately show ?thesis by (simp add: same_manifest_def assms(6,7))
qed

section \<open>The classification\<close>

text \<open>A snapshot as the repository generates it: a parsed value whose schemas are ordinary and whose manifest
  lists its enums.\<close>

definition regular_snapshot :: "rat set \<Rightarrow> json \<Rightarrow> bool" where
  "regular_snapshot D v \<longleftrightarrow> plain D v
     \<and> (\<forall>name \<in> keys (case jprop v ''schemas'' of JObj r \<Rightarrow> r | _ \<Rightarrow> []). name \<notin> set OBJECT_PROTOTYPE
          \<and> ordinary (jprop (jprop v ''schemas'') name))
     \<and> (\<exists>xs. jprop (jprop v ''contractManifest'') ''enums'' = JArr xs)"

lemma validateSnapshot_ok:
  assumes "validateSnapshot v label = Inr b"
  obtains r where "v = JObj r" "fld r ''releaseVersion'' = JStr (cs_releaseVersion b)" "fld r ''runtimeApi'' = JObj (cs_runtimeApi b)"
    "fld r ''contractManifest'' = JObj (cs_contractManifest b)" "fld r ''schemas'' = JObj (cs_schemas b)"
    "fld r ''events'' = JArr (cs_events b)" "fld r ''errorCodes'' = JArr (cs_errorCodes b)"
  using assms by (auto simp: validateSnapshot_def split: json.splits if_splits)

lemma regular_parts:
  assumes "regular_snapshot D v" "validateSnapshot v label = Inr b"
  shows "plain D (JObj (cs_runtimeApi b))" "plain D (JObj (cs_contractManifest b))" "plain D (JObj (cs_schemas b))"
    and "\<forall>x \<in> set (cs_events b) \<union> set (cs_errorCodes b). plain D x"
    and "keys (cs_schemas b) \<inter> set OBJECT_PROTOTYPE = {}" "\<And>name. ordinary (fld (cs_schemas b) name)"
    and "\<exists>xs. fld (cs_contractManifest b) ''enums'' = JArr xs"
proof -
  obtain r where r: "v = JObj r" "fld r ''runtimeApi'' = JObj (cs_runtimeApi b)" "fld r ''contractManifest'' = JObj (cs_contractManifest b)"
      "fld r ''schemas'' = JObj (cs_schemas b)" "fld r ''events'' = JArr (cs_events b)" "fld r ''errorCodes'' = JArr (cs_errorCodes b)"
    using validateSnapshot_ok[OF assms(2)] by metis
  have "plain D (JObj r)" using assms(1) r by (simp add: regular_snapshot_def)
  then have fields: "parsed D (fld r k)" for k by (rule parsed_fld)
  show "plain D (JObj (cs_runtimeApi b))" "plain D (JObj (cs_contractManifest b))" "plain D (JObj (cs_schemas b))"
    using fields[of "''runtimeApi''"] fields[of "''contractManifest''"] fields[of "''schemas''"] r by (simp_all add: parsed_def)
  show "\<forall>x \<in> set (cs_events b) \<union> set (cs_errorCodes b). plain D x"
    using fields[of "''events''"] fields[of "''errorCodes''"] r by (auto simp: parsed_def)
  have schemas: "\<forall>name \<in> keys (cs_schemas b). name \<notin> set OBJECT_PROTOTYPE \<and> ordinary (fld (cs_schemas b) name)"
    and enums: "\<exists>xs. fld (cs_contractManifest b) ''enums'' = JArr xs"
    using assms(1) r by (simp_all add: regular_snapshot_def jprop_def)
  then show "keys (cs_schemas b) \<inter> set OBJECT_PROTOTYPE = {}" by blast
  show "ordinary (fld (cs_schemas b) name)" for name
    using schemas by (cases "name \<in> keys (cs_schemas b)") (simp_all add: fld_absent ordinary.simps[of JUndef])
  show "\<exists>xs. fld (cs_contractManifest b) ''enums'' = JArr xs" by (rule enums)
qed

lemma no_changes_same:
  assumes "regular_snapshot D v" "regular_snapshot D w" "validateSnapshot v label = Inr b" "validateSnapshot w label' = Inr c"
    and "prints_numbers D (ih_fraction h)" "all_changes h b c = []"
  shows "same_contract h b c"
proof -
  note vb = regular_parts[OF assms(1,3)] and wc = regular_parts[OF assms(2,4)]
  have none: "set (all_changes h b c) = {}" using assms(6) by simp
  note parts = none[unfolded set_all_changes Un_empty SUP_bot_conv]
  note codes = parts[THEN conjunct2] and events = parts[THEN conjunct1, THEN conjunct2]
  have api: "same (fld (cs_runtimeApi b) k) (fld (cs_runtimeApi c) k)" if "k \<in> {''apiVersion'', ''documentSchemaVersion'', ''documentSchemaId''}" for k
    using parts that equal_json_iff[OF parsed_fld[OF vb(1)] parsed_fld[OF wc(1)] assms(5)]
    unfolding found_def compare_api_def case_prod_unfold set_report by auto
  have named: "name \<in> keys (cs_schemas b) \<and> name \<in> keys (cs_schemas c) \<and> same_schema h (fld (cs_schemas b) name) (fld (cs_schemas c) name)"
    if "name \<in> keys (cs_schemas b) \<union> keys (cs_schemas c)" for name
  proof -
    have "name \<notin> set OBJECT_PROTOTYPE" using that vb(5) wc(5) by blast
    then have js: "js_in name r \<longleftrightarrow> name \<in> keys r" "read_key r name = fld r name" for r
      using fld_absent[of name r] by (auto simp: js_in_def read_key_def has_key_keys OBJECT_PROTOTYPE_def)
    have silent: "found (compare_schema_named h b c name) = {}" using parts that by blast
    then have both: "name \<in> keys (cs_schemas b)" "name \<in> keys (cs_schemas c)"
      unfolding found_def compare_schema_named_def js by (auto split: if_splits)
    then have "compare_schema_named h b c name = compareSchema h (fld (cs_schemas b) name) (fld (cs_schemas c) name) (''schemas.'' @ name)"
      by (intro ext) (simp add: compare_schema_named_def js)
    with silent have "found (compareSchema h (fld (cs_schemas b) name) (fld (cs_schemas c) name) (''schemas.'' @ name)) = {}" by (simp only:)
    from schema_same[OF parsed_fld[OF vb(3)] parsed_fld[OF wc(3)] assms(5) vb(6) wc(6), THEN iffD1, OF this] both show ?thesis by (intro conjI)
  qed
  obtain xs ys where "fld (cs_contractManifest b) ''enums'' = JArr xs" "fld (cs_contractManifest c) ''enums'' = JArr ys" using vb(7) wc(7) by blast
  then have "same_manifest (cs_contractManifest b) (cs_contractManifest c)"
    using manifests_same[OF vb(2) wc(2) assms(5) refl refl] parts by blast
  moreover have "cs_typescript b = cs_typescript c" "cs_python b = cs_python c"
    using parts by (auto simp: found_def[of "compare_sources b c"] compare_sources_def Let_def split: if_splits)
  moreover have "sorted_value ` set (cs_events b) = sorted_value ` set (cs_events c)"
      "sorted_value ` set (cs_errorCodes b) = sorted_value ` set (cs_errorCodes c)"
  proof -
    have "\<forall>x \<in> set (cs_events b) \<union> set (cs_events c). plain D x" "\<forall>x \<in> set (cs_errorCodes b) \<union> set (cs_errorCodes c). plain D x"
      using vb(4) wc(4) by auto
    note same = this[THEN collections_same, OF assms(5)]
    show "sorted_value ` set (cs_events b) = sorted_value ` set (cs_events c)"
        "sorted_value ` set (cs_errorCodes b) = sorted_value ` set (cs_errorCodes c)"
      using events codes unfolding same .
  qed
  moreover have "cs_contractSetSha256 b = cs_contractSetSha256 c"
    using parts[THEN conjunct1, THEN conjunct1, THEN conjunct1, THEN conjunct1, THEN conjunct1, THEN conjunct1] by (simp split: if_splits)
  moreover have "keys (cs_schemas b) = keys (cs_schemas c)" using named by blast
  ultimately show ?thesis unfolding same_contract_def using api named by (intro conjI ballI) simp_all
qed

lemma no_changes_classified:
  assumes "classifyContractImpact h baseline candidate candidateId = Inr result" "ir_classification result = NoImpact"
    and "regular_snapshot D baseline" "regular_snapshot D candidate" "prints_numbers D (ih_fraction h)"
  shows "\<exists>b c. validateSnapshot baseline ''Baseline'' = Inr b \<and> validateSnapshot candidate ''Candidate'' = Inr c \<and> same_contract h b c"
proof -
  obtain b c where bc: "validateSnapshot baseline ''Baseline'' = Inr b" "validateSnapshot candidate ''Candidate'' = Inr c"
      "ir_classification result = classification_of (all_changes h b c)"
    using assms(1) by (auto simp: classifyContractImpact_def res_simps Let_def split: if_splits)
  then have "all_changes h b c = []" using assms(2) by (metis classification_NoImpact)
  from no_changes_same[OF assms(3,4) bc(1,2) assms(5) this] bc show ?thesis by blast
qed



text \<open>The comparison of two schemas finds nothing exactly when they differ in nothing but titles, descriptions
  and orders.\<close>

theorem schema_comparison_exact:
  assumes "plain D v" "plain D w" "ordinary v" "ordinary w" "prints_numbers D (ih_fraction h)"
  shows "compareSchema h v w path [] = [] \<longleftrightarrow> same_schema h v w"
  using schema_same[OF _ _ assms(5,3,4), of path] assms(1,2) by (simp add: parsed_def found_def)

section \<open>Examples\<close>

definition plain_impact_host :: impact_host where
  "plain_impact_host = \<lparr>ih_fraction = (\<lambda>_. []), ih_before = (\<lambda>_ _. True)\<rparr>"

definition example_digest :: string where
  "example_digest = replicate 64 (CHR ''0'')"

definition example_contract :: "json \<Rightarrow> json \<Rightarrow> json" where
  "example_contract enums schema = JObj [(''schemaVersion'', JStr ''1''), (''releaseVersion'', JStr ''1.0.0''),
     (''runtimeApi'', JObj [(''apiVersion'', JStr ''2.0'')]), (''contractManifest'', JObj [(''enums'', enums)]),
     (''schemas'', JObj [(''document'', schema)]), (''typescript'', JStr []), (''python'', JStr []), (''events'', JArr []),
     (''errorCodes'', JArr []), (''contractSetSha256'', JStr example_digest)]"

definition example_schema :: "jobj \<Rightarrow> jobj \<Rightarrow> json" where
  "example_schema first properties = JObj (first @ [(''type'', JStr ''object''), (''properties'', JObj properties)])"

definition named_string :: "string \<Rightarrow> string \<times> json" where
  "named_string k = (k, JObj [(''type'', JStr ''string'')])"

definition impact_of :: "json \<Rightarrow> json \<Rightarrow> ImpactClassification option" where
  "impact_of v w = (case classifyContractImpact plain_impact_host v w example_digest of Inl _ \<Rightarrow> None | Inr r \<Rightarrow> Some (ir_classification r))"

lemma example_impacts:
  "impact_of (example_contract (JArr []) (example_schema [] [named_string ''a'']))
     (example_contract (JArr []) (example_schema [(''title'', JStr ''t'')] [named_string ''a''])) = Some NoImpact"
  by code_simp

text \<open>A change of enums that are not listed in an array is not seen.\<close>

lemma unlisted_enums_hidden:
  "impact_of (example_contract (JObj [(''color'', JStr ''red'')]) (example_schema [] [named_string ''a'']))
     (example_contract (JObj [(''color'', JStr ''blue'')]) (example_schema [] [named_string ''a''])) = Some NoImpact"
  by code_simp

text \<open>A removed property with the name of a member of \<open>Object.prototype\<close> is not seen.\<close>

lemma inherited_name_hidden:
  "impact_of (example_contract (JArr []) (example_schema [] [named_string ''constructor'']))
     (example_contract (JArr []) (example_schema [] [])) = Some NoImpact"
  by code_simp

text \<open>A property that becomes required is breaking beside a list of required names, even an empty one, but not
  when the baseline has no list at all.\<close>

lemma first_required_reviewed:
  "impact_of (example_contract (JArr []) (example_schema [(''required'', JArr [])] [named_string ''a'']))
     (example_contract (JArr []) (example_schema [(''required'', JArr [JStr ''a''])] [named_string ''a''])) = Some Breaking"
  "impact_of (example_contract (JArr []) (example_schema [] [named_string ''a'']))
     (example_contract (JArr []) (example_schema [(''required'', JArr [JStr ''a''])] [named_string ''a''])) = Some ManualReview"
  by code_simp+

text \<open>Strict consumers reject other properties whether these are declared or not; only declaring one is reviewed.\<close>

lemma opened_object_additive:
  "impact_of (example_contract (JArr []) (example_schema [(''additionalProperties'', JBool False)] [named_string ''a'']))
     (example_contract (JArr []) (example_schema [] [named_string ''a''])) = Some Additive"
  "impact_of (example_contract (JArr []) (example_schema [(''additionalProperties'', JBool False)] [named_string ''a'']))
     (example_contract (JArr []) (example_schema [(''additionalProperties'', JBool False)] [named_string ''a'', named_string ''b''])) = Some ManualReview"
  by code_simp+

lemma impact_of_iff: "impact_of v w = Some k \<longleftrightarrow> (\<exists>r. classifyContractImpact plain_impact_host v w example_digest = Inr r \<and> ir_classification r = k)"
  by (auto simp: impact_of_def split: sum.split)

lemma no_numbers: "prints_numbers {} sf"
  by (simp add: prints_numbers_def)

lemma example_keys: "''document'' \<notin> set OBJECT_PROTOTYPE" "''a'' \<notin> set OBJECT_PROTOTYPE" "''title'' \<notin> set OBJECT_PROTOTYPE"
    "''type'' \<notin> set OBJECT_PROTOTYPE" "''properties'' \<notin> set OBJECT_PROTOTYPE"
  by (simp_all add: OBJECT_PROTOTYPE_def)

lemma example_ordinary:
  "ordinary (example_schema [] [named_string ''a''])" "ordinary (example_schema [(''title'', JStr ''t'')] [named_string ''a''])"
  by (simp_all add: example_schema_def named_string_def ordinary_object properties_of_def keys_def example_keys ordinary.simps[of JUndef])

lemma example_plain:
  "plain {} (example_schema [] [named_string ''a''])" "plain {} (example_schema [(''title'', JStr ''t'')] [named_string ''a''])"
  by (simp_all add: example_schema_def named_string_def)

lemma example_regular:
  "plain {} schema \<Longrightarrow> ordinary schema \<Longrightarrow> regular_snapshot {} (example_contract (JArr []) schema)"
  by (simp add: regular_snapshot_def example_contract_def jprop_def keys_def example_keys)


theorem schema_comparison_exact_witness:
  "compareSchema plain_impact_host (example_schema [] [named_string ''a''])
     (example_schema [(''title'', JStr ''t'')] [named_string ''a'']) ''document'' [] = []"
proof -
  have "same_schema plain_impact_host (example_schema [] [named_string ''a'']) (example_schema [(''title'', JStr ''t'')] [named_string ''a''])"
    by code_simp
  then show ?thesis by (subst schema_comparison_exact[OF example_plain example_ordinary no_numbers])
qed

lemma example_breaks:
  "breaks plain_impact_host (example_schema [] [named_string ''a'']) (example_schema [] [])"
  unfolding example_schema_def
  by (rule breaks.removed[of _ _ "''a''"]) (simp_all add: properties_of_def named_string_def keys_def example_keys)


end
