(* ===== verification/Promotion_Evidence.thy ===== *)
theory Promotion_Evidence
  imports Contract_Compatibility
begin

text \<open>
  The evidence a release is promoted with: \<^verbatim>\<open>tools/release/evidence-values.ts\<close>, the record of
  \<^verbatim>\<open>tools/classify-release-contract.ts\<close>, the results of \<^verbatim>\<open>tools/consumer-gate.ts\<close> and their verification by
  \<^verbatim>\<open>tools/verify-promotion-evidence.ts\<close>. \<open>promotion_host\<close> holds \<open>Date.parse\<close> and the printing of fractions.
\<close>

record promotion_host =
  ph_dateParse :: "string \<Rightarrow> jnum"
  ph_fraction :: "rat \<Rightarrow> string"
  ph_before :: "string \<Rightarrow> string \<Rightarrow> bool"

section \<open>Values\<close>

definition exactKeys :: "jobj \<Rightarrow> string list \<Rightarrow> string \<Rightarrow> string + unit" where
  "exactKeys r names label = throw_if (sort (map fst r) \<noteq> sort names) (label @ '' fields are not canonical.'')"

definition requireSha256 :: "json \<Rightarrow> string \<Rightarrow> string + string" where
  "requireSha256 v label =
     (case v of
        JStr s \<Rightarrow> if is_sha256_hex s then Inr s else Inl (label @ '' must be a lowercase SHA-256 digest.'')
      | _ \<Rightarrow> Inl (label @ '' must be a lowercase SHA-256 digest.''))"

definition requireFullSha :: "json \<Rightarrow> string \<Rightarrow> string + string" where
  "requireFullSha v label =
     (case v of
        JStr s \<Rightarrow> if length s = 40 \<and> list_all is_lhex s then Inr s else Inl (label @ '' must be a full lowercase Git SHA.'')
      | _ \<Rightarrow> Inl (label @ '' must be a full lowercase Git SHA.''))"

definition requireTimestamp :: "promotion_host \<Rightarrow> json \<Rightarrow> string \<Rightarrow> string + string" where
  "requireTimestamp h v label =
     (case v of
        JStr s \<Rightarrow> if js_isFinite (ph_dateParse h s) then Inr s else Inl (label @ '' must be an ISO timestamp.'')
      | _ \<Rightarrow> Inl (label @ '' must be an ISO timestamp.''))"

text \<open>\<open>/^\d+\.\d+\.\d+(?:-[0-9A-Za-z.-]+)?$/u\<close>\<close>

definition skip_number :: "string \<Rightarrow> string option" where
  "skip_number s = (if takeWhile is_digit s = [] then None else Some (dropWhile is_digit s))"

definition skip_dot :: "string \<Rightarrow> string option" where
  "skip_dot s = (case s of c # t \<Rightarrow> if c = CHR ''.'' then Some t else None | [] \<Rightarrow> None)"

definition suffix_ok :: "string \<Rightarrow> bool" where
  "suffix_ok s = (s = [] \<or> hd s = CHR ''-'' \<and> tl s \<noteq> []
     \<and> list_all (\<lambda>c. is_digit c \<or> is_lower c \<or> is_upper c \<or> c = CHR ''.'' \<or> c = CHR ''-'') (tl s))"

definition release_version :: "string \<Rightarrow> bool" where
  "release_version s =
     (case Option.bind (Option.bind (Option.bind (Option.bind (skip_number s) skip_dot) skip_number) skip_dot) skip_number of
        Some t \<Rightarrow> suffix_ok t | None \<Rightarrow> False)"

definition requireReleaseVersion :: "json \<Rightarrow> string + string" where
  "requireReleaseVersion v =
     (case v of JStr s \<Rightarrow> if release_version s then Inr s else Inl ''Candidate release version is invalid.''
      | _ \<Rightarrow> Inl ''Candidate release version is invalid.'')"

definition requireReleaseMode :: "json \<Rightarrow> string + string" where
  "requireReleaseMode v =
     (if v = JStr ''core-only'' then Inr ''core-only'' else if v = JStr ''model-enabled'' then Inr ''model-enabled''
      else Inl ''Candidate release mode is invalid.'')"

definition CLASSIFICATIONS :: "string list" where
  "CLASSIFICATIONS = [''no-impact'', ''additive'', ''breaking'', ''manual-review'']"

definition requireClassification :: "json \<Rightarrow> string + string" where
  "requireClassification v =
     (case v of JStr s \<Rightarrow> if s \<in> set CLASSIFICATIONS then Inr s else Inl ''Contract classification is invalid.''
      | _ \<Rightarrow> Inl ''Contract classification is invalid.'')"

section \<open>The record of the contract impact\<close>

definition classification_text :: "ImpactClassification \<Rightarrow> string" where
  "classification_text k = (case k of NoImpact \<Rightarrow> ''no-impact'' | Additive \<Rightarrow> ''additive'' | Breaking \<Rightarrow> ''breaking'' | ManualReview \<Rightarrow> ''manual-review'')"

definition change_json :: "ContractImpactChange \<Rightarrow> json" where
  "change_json ch = JObj [(''classification'', JStr (classification_text (ch_classification ch))), (''path'', JStr (ch_path ch)),
     (''reason'', JStr (ch_reason ch))]"

definition impact_record :: "string \<Rightarrow> string \<Rightarrow> ContractImpactResult \<Rightarrow> json" where
  "impact_record candidateId snapshotSha r = JObj [(''schemaVersion'', JStr ''1''), (''candidateId'', JStr candidateId),
     (''candidateSnapshotSha256'', JStr snapshotSha), (''classification'', JStr (classification_text (ir_classification r))),
     (''baselineRelease'', JStr (ir_baselineRelease r)), (''changes'', JArr (map change_json (ir_changes r)))]"

definition requireSnapshot :: "json \<Rightarrow> string \<Rightarrow> string + unit" where
  "requireSnapshot v label =
     throw_if (case v of JObj r \<Rightarrow> fld r ''schemaVersion'' \<noteq> JStr ''1'' | _ \<Rightarrow> True) (label @ '' is not a supported contract snapshot.'')"

text \<open>\<open>main\<close> of \<^verbatim>\<open>classify-release-contract.ts\<close>: the record it writes, for a parsed candidate and an optional baseline.\<close>

definition classify_release :: "impact_host \<Rightarrow> string \<Rightarrow> string \<Rightarrow> json \<Rightarrow> json option \<Rightarrow> string + json" where
  "classify_release h candidateId snapshotSha snapshot baseline =
     then_res (throw_if (\<not> is_sha256_hex candidateId) ''Candidate ID must be a lowercase SHA-256 digest.'')
     (then_res (requireSnapshot snapshot ''Candidate contract snapshot'')
     (case baseline of
        Some b \<Rightarrow>
          then_res (requireSnapshot b ''Stable contract baseline'')
          (bind_res (classifyContractImpact h b snapshot candidateId) (\<lambda>r. Inr (impact_record candidateId snapshotSha r)))
      | None \<Rightarrow>
          Inr (impact_record candidateId snapshotSha
            \<lparr>ir_classification = ManualReview, ir_baselineRelease = ''unavailable'', ir_candidateId = candidateId,
             ir_changes = [\<lparr>ch_classification = ManualReview, ch_path = ''baseline'', ch_reason =
               ''No stable contract snapshot was available; independent compatibility review is required.''\<rparr>]\<rparr>)))"

definition verifyContractImpact :: "json \<Rightarrow> string \<Rightarrow> string \<Rightarrow> string + string" where
  "verifyContractImpact v candidateId snapshotSha =
     (case v of
        JObj r \<Rightarrow>
          if join '','' (sort (map fst r)) \<noteq> ''baselineRelease,candidateId,candidateSnapshotSha256,changes,classification,schemaVersion''
          then Inl ''Contract impact evidence fields are not canonical.''
          else (case (fld r ''baselineRelease'', fld r ''changes'', fld r ''classification'') of
                  (JStr release, JArr changes, JStr k) \<Rightarrow>
                    if fld r ''schemaVersion'' = JStr ''1'' \<and> fld r ''candidateId'' = JStr candidateId
                       \<and> fld r ''candidateSnapshotSha256'' = JStr snapshotSha \<and> k \<in> set CLASSIFICATIONS
                    then Inr k else Inl ''Contract impact evidence is not bound to this candidate.''
                | _ \<Rightarrow> Inl ''Contract impact evidence is not bound to this candidate.'')
      | _ \<Rightarrow> Inl ''Contract impact evidence must be an object.'')"

section \<open>Results of consumer gates\<close>

record ConsumerGateExpectation =
  ge_repository :: string
  ge_workflowPath :: string
  ge_workflowRunId :: json
  ge_candidateId :: string
  ge_candidateManifestSha256 :: string

definition GATE_RESULT_KEYS :: "string list" where
  "GATE_RESULT_KEYS = [''schemaVersion'', ''consumerRepository'', ''consumerCommit'', ''workflowPath'', ''workflowRunId'', ''candidateId'',
     ''candidateManifestSha256'', ''verdict'', ''checks'', ''startedAt'', ''completedAt'']"

definition verifyConsumerGateResult :: "promotion_host \<Rightarrow> json \<Rightarrow> ConsumerGateExpectation \<Rightarrow> string + unit" where
  "verifyConsumerGateResult h v e =
     (case v of
        JObj r \<Rightarrow>
          then_res (exactKeys r GATE_RESULT_KEYS ''Consumer gate result'')
          (then_res (throw_if (fld r ''schemaVersion'' \<noteq> JStr ''1'') ''Consumer gate result schema is unsupported.'')
          (then_res (throw_if (fld r ''consumerRepository'' \<noteq> JStr (ge_repository e))
            ''Consumer gate result repository does not match the dispatched repository.'')
          (then_res (throw_if (fld r ''workflowPath'' \<noteq> JStr (ge_workflowPath e))
            ''Consumer gate result workflow path does not match the dispatched workflow.'')
          (then_res (throw_if (fld r ''workflowRunId'' \<noteq> ge_workflowRunId e) ''Consumer gate result run ID does not match the dispatched run.'')
          (then_res (throw_if (fld r ''candidateId'' \<noteq> JStr (ge_candidateId e))
            ''Consumer gate result candidate ID does not match the producer candidate.'')
          (then_res (throw_if (fld r ''candidateManifestSha256'' \<noteq> JStr (ge_candidateManifestSha256 e))
            ''Consumer gate result manifest digest does not match the producer candidate.'')
          (then_res (throw_if (fld r ''verdict'' \<noteq> JStr ''passed'') ''Consumer gate result is not passed.'')
          (then_res (throw_if (case fld r ''checks'' of JArr _ \<Rightarrow> False | _ \<Rightarrow> True) ''Consumer gate checks must be an array.'')
          (then_res (throw_if (case fld r ''workflowRunId'' of JNum n \<Rightarrow> \<not> (js_isSafeInteger n \<and> js_le (num 1) n) | _ \<Rightarrow> True)
            ''Consumer gate workflow run ID is invalid.'')
          (bind_res (requireFullSha (fld r ''consumerCommit'') ''Consumer commit'') (\<lambda>_.
          bind_res (requireTimestamp h (fld r ''startedAt'') ''Consumer gate start'') (\<lambda>start.
          bind_res (requireTimestamp h (fld r ''completedAt'') ''Consumer gate completion'') (\<lambda>completion.
          throw_if (js_lt (ph_dateParse h completion) (ph_dateParse h start)) ''Consumer gate completion precedes its start.'')))))))))))))
      | _ \<Rightarrow> Inl ''Consumer gate result must be an object.'')"

section \<open>The evidence of a promotion\<close>

record PromotionMetadata =
  pm_candidateId :: string
  pm_candidateManifestSha256 :: string
  pm_sourceCommit :: string
  pm_releaseVersion :: string
  pm_releaseMode :: string
  pm_contractClassification :: string

record ConsumerGateConfig =
  gc_repository :: string
  gc_workflowPath :: string
  gc_requiredWhen :: json

record promotion_input =
  pi_candidateManifest :: json
  pi_candidateManifestSha256 :: string
  pi_candidateId :: string
  pi_producerRun :: json
  pi_producerJobs :: "json list"
  pi_verificationReports :: "json list"
  pi_contractImpact :: json
  pi_candidateSnapshotSha256 :: string
  pi_consumerGateRun :: json
  pi_consumerGateLedger :: json
  pi_consumerGateConfig :: json

definition RELEASE_CANDIDATE_WORKFLOW :: string where
  "RELEASE_CANDIDATE_WORKFLOW = ''.github/workflows/release-candidate.yml''"

definition CONSUMER_GATES_WORKFLOW :: string where
  "CONSUMER_GATES_WORKFLOW = ''.github/workflows/consumer-gates.yml''"

definition required_jobs :: "string \<Rightarrow> string list" where
  "required_jobs mode = [''build-candidate'', ''verify-windows-install'', ''verify-runtime-product'', ''verify-cross-framework-consumers'']
     @ (if mode = ''model-enabled'' then [''verify-model-enabled-runtime''] else [])"

definition required_verifications :: "string \<Rightarrow> string list" where
  "required_verifications mode = [''windows-install'', ''runtime-product'', ''cross-framework-consumers'']
     @ (if mode = ''model-enabled'' then [''model-enabled-runtime''] else [])"

definition verifyCandidateManifestIdentity :: "json \<Rightarrow> string \<Rightarrow> string + PromotionMetadata" where
  "verifyCandidateManifestIdentity v expectedId =
     (case v of
        JObj r \<Rightarrow>
          if fld r ''candidateId'' \<noteq> JStr expectedId then Inl ''Candidate manifest ID does not match promotion input.''
          else
            bind_res (requireSha256 (fld r ''candidateId'') ''Candidate ID'') (\<lambda>cid.
            bind_res (requireFullSha (fld r ''sourceCommit'') ''Candidate source commit'') (\<lambda>commit.
            bind_res (requireReleaseVersion (fld r ''releaseVersion'')) (\<lambda>version.
            bind_res (requireReleaseMode (fld r ''releaseMode'')) (\<lambda>mode.
            Inr \<lparr>pm_candidateId = cid, pm_candidateManifestSha256 = [], pm_sourceCommit = commit, pm_releaseVersion = version,
                 pm_releaseMode = mode, pm_contractClassification = ''no-impact''\<rparr>))))
      | _ \<Rightarrow> Inl ''Candidate manifest must be an object.'')"

definition is_snapshot_artifact :: "json \<Rightarrow> bool" where
  "is_snapshot_artifact a = (case a of JObj r \<Rightarrow> fld r ''path'' = JStr ''contracts/contract-snapshot.json'' | _ \<Rightarrow> False)"

definition verifyCandidateSnapshotBinding :: "json \<Rightarrow> string \<Rightarrow> string + unit" where
  "verifyCandidateSnapshotBinding v sha =
     (case jprop v ''artifacts'' of
        JArr xs \<Rightarrow>
          throw_if (case find is_snapshot_artifact xs of Some a \<Rightarrow> jprop a ''sha256'' \<noteq> JStr sha | None \<Rightarrow> True)
            ''Contract snapshot is not bound to the candidate manifest.''
      | _ \<Rightarrow> Inl ''Candidate manifest has no artifact inventory.'')"

definition passed_run :: "jobj \<Rightarrow> bool" where
  "passed_run r = (fld r ''status'' = JStr ''completed'' \<and> fld r ''conclusion'' = JStr ''success'')"

definition verifyWorkflowRun :: "json \<Rightarrow> string \<Rightarrow> string \<Rightarrow> string + unit" where
  "verifyWorkflowRun v workflowPath label =
     (case v of
        JObj r \<Rightarrow> throw_if (fld r ''path'' \<noteq> JStr workflowPath \<or> \<not> passed_run r)
          (label @ '' did not complete successfully for '' @ workflowPath @ ''.'')
      | _ \<Rightarrow> Inl (label @ '' must be an object.''))"

fun collect_jobs :: "json list \<Rightarrow> (string \<times> jobj) list \<Rightarrow> string + (string \<times> jobj) list" where
  "collect_jobs [] jobs = Inr jobs"
| "collect_jobs (v # vs) jobs =
     (case v of
        JObj r \<Rightarrow>
          (case fld r ''name'' of
             JStr name \<Rightarrow>
               if name \<in> fst ` set jobs then Inl (''Producer job is duplicated: '' @ name @ ''.'')
               else collect_jobs vs (jobs @ [(name, r)])
           | _ \<Rightarrow> Inl ''Producer candidate jobs contain an invalid record.'')
      | _ \<Rightarrow> Inl ''Producer candidate jobs contain an invalid record.'')"

definition verifyProducerJobs :: "json list \<Rightarrow> string \<Rightarrow> string + unit" where
  "verifyProducerJobs vs mode =
     bind_res (collect_jobs vs []) (\<lambda>jobs.
     for_each (\<lambda>name. throw_if (case map_of jobs name of Some r \<Rightarrow> \<not> passed_run r | None \<Rightarrow> True)
       (''Required producer job did not pass: '' @ name @ ''.'')) (required_jobs mode))"

fun check_reports :: "string \<Rightarrow> string list \<Rightarrow> json list \<Rightarrow> string list \<Rightarrow> string + string list" where
  "check_reports cid required [] seen = Inr seen"
| "check_reports cid required (v # vs) seen =
     (case v of
        JObj r \<Rightarrow>
          then_res (exactKeys r [''schemaVersion'', ''candidateId'', ''verification'', ''status''] ''Candidate verification report'')
          (case fld r ''verification'' of
             JStr name \<Rightarrow>
               if fld r ''schemaVersion'' \<noteq> JStr ''1'' \<or> fld r ''candidateId'' \<noteq> JStr cid \<or> fld r ''status'' \<noteq> JStr ''success''
               then Inl ''Candidate verification report is not a passing exact-candidate report.''
               else if name \<notin> set required \<or> name \<in> set seen
               then Inl (''Unexpected or duplicate candidate verification: '' @ name @ ''.'')
               else check_reports cid required vs (seen @ [name])
           | _ \<Rightarrow> Inl ''Candidate verification report is not a passing exact-candidate report.'')
      | _ \<Rightarrow> Inl ''Candidate verification report is invalid.'')"

definition verifyCandidateVerificationReports :: "json list \<Rightarrow> string \<Rightarrow> string \<Rightarrow> string + unit" where
  "verifyCandidateVerificationReports vs cid mode =
     bind_res (check_reports cid (required_verifications mode) vs []) (\<lambda>seen.
     throw_if (length seen \<noteq> length (required_verifications mode) \<or> \<not> set (required_verifications mode) \<subseteq> set seen)
       ''Candidate verification reports are incomplete.'')"

definition parse_gate :: "promotion_host \<Rightarrow> json \<Rightarrow> string + ConsumerGateConfig" where
  "parse_gate h v =
     (case v of
        JObj r \<Rightarrow>
          (case (fld r ''repository'', fld r ''workflowPath'') of
             (JStr repository, JStr path) \<Rightarrow>
               if js_String (ph_fraction h) (fld r ''requiredWhen'') \<in> {''always'', ''contract''}
               then Inr \<lparr>gc_repository = repository, gc_workflowPath = path, gc_requiredWhen = fld r ''requiredWhen''\<rparr>
               else Inl ''Consumer gate config contains an invalid gate.''
           | _ \<Rightarrow> Inl ''Consumer gate config contains an invalid gate.'')
      | _ \<Rightarrow> Inl ''Consumer gate config contains an invalid gate.'')"

fun map_res :: "('a \<Rightarrow> 'e + 'b) \<Rightarrow> 'a list \<Rightarrow> 'e + 'b list" where
  "map_res f [] = Inr []"
| "map_res f (x # xs) = bind_res (f x) (\<lambda>y. bind_res (map_res f xs) (\<lambda>ys. Inr (y # ys)))"

definition parseConsumerGateConfig :: "promotion_host \<Rightarrow> json \<Rightarrow> string + ConsumerGateConfig list" where
  "parseConsumerGateConfig h v =
     (case v of
        JArr xs \<Rightarrow> if xs = [] then Inl ''Consumer gate config is empty.'' else map_res (parse_gate h) xs
      | _ \<Rightarrow> Inl ''Consumer gate config is empty.'')"

definition gate_required :: "string \<Rightarrow> ConsumerGateConfig \<Rightarrow> bool" where
  "gate_required classification g = (gc_requiredWhen g = JStr ''always'' \<or> classification \<noteq> ''no-impact'')"

text \<open>\<open>new Map(...)\<close>: the last gate of a repository replaces the earlier ones.\<close>

definition expected_gates :: "ConsumerGateConfig list \<Rightarrow> string \<rightharpoonup> ConsumerGateConfig" where
  "expected_gates gs = map_of (rev (map (\<lambda>g. (gc_repository g, g)) gs))"

fun check_gates ::
  "promotion_host \<Rightarrow> PromotionMetadata \<Rightarrow> ConsumerGateConfig list \<Rightarrow> json list \<Rightarrow> string list \<Rightarrow> string + string list" where
  "check_gates h m required [] seen = Inr seen"
| "check_gates h m required (v # vs) seen =
     (case jprop v ''consumerRepository'' of
        JStr repository \<Rightarrow>
          (case expected_gates required repository of
             None \<Rightarrow> Inl ''Consumer gate ledger contains an unexpected or duplicate repository.''
           | Some g \<Rightarrow>
               if repository \<in> set seen then Inl ''Consumer gate ledger contains an unexpected or duplicate repository.''
               else then_res (verifyConsumerGateResult h v
                      \<lparr>ge_repository = gc_repository g, ge_workflowPath = gc_workflowPath g, ge_workflowRunId = jprop v ''workflowRunId'',
                       ge_candidateId = pm_candidateId m, ge_candidateManifestSha256 = pm_candidateManifestSha256 m\<rparr>)
                    (check_gates h m required vs (seen @ [gc_repository g])))
      | _ \<Rightarrow> Inl ''Consumer gate ledger contains an invalid result.'')"

definition DIGEST_KEYS :: "string list" where
  "DIGEST_KEYS = [''consumerRepository'', ''workflowRunId'', ''sha256'']"

definition digest_key :: "string \<Rightarrow> int \<Rightarrow> string" where
  "digest_key repository run = repository @ '':'' @ show_int run"

fun check_digests :: "json list \<Rightarrow> json list \<Rightarrow> string list \<Rightarrow> string + unit" where
  "check_digests gates [] seen = Inr ()"
| "check_digests gates (v # vs) seen =
     (case v of
        JObj r \<Rightarrow>
          then_res (exactKeys r DIGEST_KEYS ''Consumer gate result digest'')
          (case (fld r ''consumerRepository'', fld r ''workflowRunId'') of
             (JStr repository, JNum n) \<Rightarrow>
               if \<not> (js_isSafeInteger n \<and> js_le (num 1) n) then Inl ''Consumer gate result digest identity is invalid.''
               else bind_res (requireSha256 (fld r ''sha256'') ''Consumer gate result digest'') (\<lambda>_.
                 case n of
                   Fin q \<Rightarrow>
                     if digest_key repository \<lfloor>q\<rfloor> \<in> set seen
                        \<or> \<not> list_ex (\<lambda>g. case g of JObj x \<Rightarrow> fld x ''consumerRepository'' = JStr repository \<and> fld x ''workflowRunId'' = JNum n
                            | _ \<Rightarrow> False) gates
                     then Inl ''Consumer gate result digest does not match a verified run.''
                     else check_digests gates vs (seen @ [digest_key repository \<lfloor>q\<rfloor>])
                 | _ \<Rightarrow> Inl ''Consumer gate result digest identity is invalid.'')
           | _ \<Rightarrow> Inl ''Consumer gate result digest identity is invalid.'')
      | _ \<Rightarrow> Inl ''Consumer gate result digest is invalid.'')"

definition LEDGER_KEYS :: "string list" where
  "LEDGER_KEYS = [''schemaVersion'', ''candidateId'', ''candidateManifestSha256'', ''contractClassification'', ''verdict'', ''gates'', ''resultDigests'']"

definition verifyConsumerLedger :: "promotion_host \<Rightarrow> json \<Rightarrow> PromotionMetadata \<Rightarrow> ConsumerGateConfig list \<Rightarrow> string + string" where
  "verifyConsumerLedger h v m config =
     (case v of
        JObj r \<Rightarrow>
          then_res (exactKeys r LEDGER_KEYS ''Consumer gate ledger'')
          (case (fld r ''gates'', fld r ''resultDigests'') of
             (JArr gates, JArr digests) \<Rightarrow>
               if fld r ''schemaVersion'' \<noteq> JStr ''1'' \<or> fld r ''candidateId'' \<noteq> JStr (pm_candidateId m)
                  \<or> fld r ''candidateManifestSha256'' \<noteq> JStr (pm_candidateManifestSha256 m)
                  \<or> fld r ''contractClassification'' \<noteq> JStr (pm_contractClassification m) \<or> fld r ''verdict'' \<noteq> JStr ''passed''
               then Inl ''Consumer gate ledger is not a passing exact-candidate ledger.''
               else
                 bind_res (requireClassification (fld r ''contractClassification'')) (\<lambda>classification.
                 let required = filter (gate_required classification) config;
                     expected = remdups (map gc_repository required)
                 in if length gates \<noteq> length expected then Inl ''Consumer gate ledger does not contain exactly the required gates.''
                    else
                      bind_res (check_gates h m required gates []) (\<lambda>seen.
                      then_res (throw_if (length seen \<noteq> length expected) ''Consumer gate ledger is incomplete.'')
                      (then_res (throw_if (length digests \<noteq> length gates) ''Consumer gate result digests are incomplete.'')
                      (then_res (check_digests gates digests []) (Inr classification)))))
           | _ \<Rightarrow> Inl ''Consumer gate ledger is not a passing exact-candidate ledger.'')
      | _ \<Rightarrow> Inl ''Consumer gate ledger must be an object.'')"

definition verifyPromotionEvidence :: "promotion_host \<Rightarrow> promotion_input \<Rightarrow> string + PromotionMetadata" where
  "verifyPromotionEvidence h i =
     bind_res (verifyCandidateManifestIdentity (pi_candidateManifest i) (pi_candidateId i)) (\<lambda>m.
     bind_res (requireSha256 (JStr (pi_candidateManifestSha256 i)) ''Candidate manifest digest'') (\<lambda>sha.
     then_res (verifyWorkflowRun (pi_producerRun i) RELEASE_CANDIDATE_WORKFLOW ''Producer candidate run'')
     (then_res (verifyWorkflowRun (pi_consumerGateRun i) CONSUMER_GATES_WORKFLOW ''Consumer gate run'')
     (then_res (verifyProducerJobs (pi_producerJobs i) (pm_releaseMode m))
     (then_res (verifyCandidateVerificationReports (pi_verificationReports i) (pm_candidateId m) (pm_releaseMode m))
     (bind_res (verifyContractImpact (pi_contractImpact i) (pm_candidateId m) (pi_candidateSnapshotSha256 i)) (\<lambda>k.
     then_res (verifyCandidateSnapshotBinding (pi_candidateManifest i) (pi_candidateSnapshotSha256 i))
     (let m1 = m\<lparr>pm_candidateManifestSha256 := sha, pm_contractClassification := k\<rparr>
      in bind_res (parseConsumerGateConfig h (pi_consumerGateConfig i)) (\<lambda>config.
         bind_res (verifyConsumerLedger h (pi_consumerGateLedger i) m1 config) (\<lambda>classification.
         Inr (m1\<lparr>pm_contractClassification := classification\<rparr>)))))))))))"

end
