(* ===== verification/Promotion_Guarantees.thy ===== *)
theory Promotion_Guarantees
  imports Promotion_Evidence
begin

text \<open>
  What verified promotion evidence establishes, and what it says about the contract when a consumer gate
  was left out.
\<close>

section \<open>Gates\<close>

text \<open>A passing result of a gate for the candidate.\<close>

definition gate_result :: "promotion_host \<Rightarrow> PromotionMetadata \<Rightarrow> ConsumerGateConfig \<Rightarrow> jobj \<Rightarrow> bool" where
  "gate_result h m g r \<longleftrightarrow>
     fld r ''consumerRepository'' = JStr (gc_repository g) \<and> fld r ''workflowPath'' = JStr (gc_workflowPath g)
     \<and> fld r ''candidateId'' = JStr (pm_candidateId m) \<and> fld r ''candidateManifestSha256'' = JStr (pm_candidateManifestSha256 m)
     \<and> fld r ''verdict'' = JStr ''passed''
     \<and> (\<exists>n. fld r ''workflowRunId'' = JNum n \<and> js_isSafeInteger n \<and> js_le (num 1) n)
     \<and> (\<exists>start completion. fld r ''startedAt'' = JStr start \<and> fld r ''completedAt'' = JStr completion
          \<and> js_le (ph_dateParse h start) (ph_dateParse h completion))"

lemma finite_le: "js_isFinite a \<Longrightarrow> js_isFinite b \<Longrightarrow> \<not> js_lt b a \<Longrightarrow> js_le a b"
  by (cases a; cases b) (auto simp: js_isFinite_def)

lemma requireTimestamp_ok: "requireTimestamp h v label = Inr s \<longleftrightarrow> v = JStr s \<and> js_isFinite (ph_dateParse h s)"
  by (auto simp: requireTimestamp_def split: json.splits if_splits)

lemma gate_result_ok:
  assumes "verifyConsumerGateResult h v \<lparr>ge_repository = gc_repository g, ge_workflowPath = gc_workflowPath g, ge_workflowRunId = run,
    ge_candidateId = pm_candidateId m, ge_candidateManifestSha256 = pm_candidateManifestSha256 m\<rparr> = Inr ()"
  shows "\<exists>r. v = JObj r \<and> gate_result h m g r"
proof (cases v)
  case (JObj r)
  with assms have checks: "fld r ''consumerRepository'' = JStr (gc_repository g)" "fld r ''workflowPath'' = JStr (gc_workflowPath g)"
      "fld r ''candidateId'' = JStr (pm_candidateId m)" "fld r ''candidateManifestSha256'' = JStr (pm_candidateManifestSha256 m)"
      "fld r ''verdict'' = JStr ''passed''"
      "\<not> (case fld r ''workflowRunId'' of JNum n \<Rightarrow> \<not> (js_isSafeInteger n \<and> js_le (num 1) n) | _ \<Rightarrow> True)"
    and "\<exists>start completion. requireTimestamp h (fld r ''startedAt'') ''Consumer gate start'' = Inr start
      \<and> requireTimestamp h (fld r ''completedAt'') ''Consumer gate completion'' = Inr completion
      \<and> \<not> js_lt (ph_dateParse h completion) (ph_dateParse h start)"
    unfolding verifyConsumerGateResult_def by (auto simp: res_simps)
  then have times: "\<exists>start completion. fld r ''startedAt'' = JStr start \<and> fld r ''completedAt'' = JStr completion
      \<and> js_le (ph_dateParse h start) (ph_dateParse h completion)"
    using finite_le by (auto simp: requireTimestamp_ok)
  have "\<exists>n. fld r ''workflowRunId'' = JNum n \<and> js_isSafeInteger n \<and> js_le (num 1) n" using checks(6) by (auto split: json.splits)
  then show ?thesis using JObj checks(1-5) times by (simp add: gate_result_def)
qed (use assms in \<open>simp_all add: verifyConsumerGateResult_def\<close>)

lemma expected_gates_member: "expected_gates gs k = Some g \<Longrightarrow> g \<in> set gs \<and> gc_repository g = k"
  unfolding expected_gates_def by (auto dest!: map_of_SomeD)

lemma check_gates_ok:
  assumes "check_gates h m required vs seen = Inr out" "distinct seen" "set seen \<subseteq> gc_repository ` set required"
  shows "distinct out \<and> set out \<subseteq> gc_repository ` set required \<and> length out = length seen + length vs
    \<and> (\<forall>k \<in> set out - set seen. \<exists>g r. expected_gates required k = Some g \<and> JObj r \<in> set vs \<and> gate_result h m g r)"
  using assms
proof (induction vs arbitrary: seen)
  case (Cons v vs)
  from Cons.prems(1) obtain g where g: "expected_gates required (gc_repository g) = Some g" "gc_repository g \<notin> set seen"
      "verifyConsumerGateResult h v \<lparr>ge_repository = gc_repository g, ge_workflowPath = gc_workflowPath g, ge_workflowRunId = jprop v ''workflowRunId'',
         ge_candidateId = pm_candidateId m, ge_candidateManifestSha256 = pm_candidateManifestSha256 m\<rparr> = Inr ()"
      "check_gates h m required vs (seen @ [gc_repository g]) = Inr out"
    by (auto simp: res_simps split: json.splits option.splits if_splits dest: expected_gates_member)
  have "g \<in> set required" using expected_gates_member[OF g(1)] by simp
  with Cons.IH[OF g(4)] g(2) Cons.prems(2,3) have "distinct out" "set out \<subseteq> gc_repository ` set required" "length out = length seen + length (v # vs)"
      "\<forall>k \<in> set out - set (seen @ [gc_repository g]). \<exists>g r. expected_gates required k = Some g \<and> JObj r \<in> set vs \<and> gate_result h m g r"
    by auto
  moreover obtain r where "v = JObj r" "gate_result h m g r" using gate_result_ok[OF g(3)] by blast
  ultimately show ?case using g(1) by fastforce
qed simp

text \<open>A verified ledger has a passing result of every required gate, when no repository has two gates.\<close>

lemma ledger_complete:
  assumes "verifyConsumerLedger h v m config = Inr k" "distinct (map gc_repository config)"
  shows "k = pm_contractClassification m \<and> k \<in> set CLASSIFICATIONS
    \<and> (\<exists>gates. jprop v ''gates'' = JArr gates \<and> (\<forall>g \<in> set config. gate_required k g \<longrightarrow> (\<exists>r. JObj r \<in> set gates \<and> gate_result h m g r)))"
proof -
  obtain r gates seen where l: "v = JObj r" "fld r ''gates'' = JArr gates" "fld r ''contractClassification'' = JStr (pm_contractClassification m)"
      "requireClassification (fld r ''contractClassification'') = Inr k"
      "length gates = length (remdups (map gc_repository (filter (gate_required k) config)))"
      "check_gates h m (filter (gate_required k) config) gates [] = Inr seen"
    using assms(1) by (auto simp: verifyConsumerLedger_def res_simps Let_def split: json.splits if_splits)
  let ?req = "filter (gate_required k) config"
  have k: "k = pm_contractClassification m" "k \<in> set CLASSIFICATIONS" using l(3,4) by (auto simp: requireClassification_def split: if_splits)
  note seen = check_gates_ok[OF l(6)]
  have "card (set seen) = length gates" using seen distinct_card by fastforce
  moreover have "card (gc_repository ` set ?req) = length gates" using l(5) by (simp add: length_remdups_card_conv)
  ultimately have all: "set seen = gc_repository ` set ?req" using seen by (intro card_subset_eq) auto
  have "\<exists>r. JObj r \<in> set gates \<and> gate_result h m g r" if "g \<in> set config" "gate_required k g" for g
  proof -
    have "gc_repository g \<in> set seen" using all that by auto
    then obtain g' r where g': "expected_gates ?req (gc_repository g) = Some g'" "JObj r \<in> set gates" "gate_result h m g' r"
      using seen by auto
    have "g' = g" using expected_gates_member[OF g'(1)] that assms(2) by (auto simp: distinct_map dest: inj_onD)
    then show ?thesis using g' by blast
  qed
  then show ?thesis using k l(1,2) by (auto simp: jprop_def)
qed

section \<open>Jobs and reports\<close>

lemma collect_jobs_ok:
  assumes "collect_jobs vs jobs = Inr out" "distinct (map fst jobs)"
  shows "distinct (map fst out) \<and> set out = set jobs \<union> {(name, r) | name r. JObj r \<in> set vs \<and> fld r ''name'' = JStr name}"
  using assms
proof (induction vs arbitrary: jobs)
  case (Cons v vs)
  from Cons.prems obtain r name where v: "v = JObj r" "fld r ''name'' = JStr name" "name \<notin> fst ` set jobs"
      "collect_jobs vs (jobs @ [(name, r)]) = Inr out"
    by (auto split: json.splits if_splits)
  have "distinct (map fst (jobs @ [(name, r)]))" using Cons.prems(2) v(3) by auto
  from Cons.IH[OF v(4) this] show ?case using v(1,2) by auto
qed auto

lemma producer_jobs_ok:
  assumes "verifyProducerJobs vs mode = Inr ()" "name \<in> set (required_jobs mode)"
  shows "\<exists>!r. JObj r \<in> set vs \<and> fld r ''name'' = JStr name" "\<forall>r. JObj r \<in> set vs \<and> fld r ''name'' = JStr name \<longrightarrow> passed_run r"
proof -
  obtain jobs where "collect_jobs vs [] = Inr jobs" and each: "\<forall>name \<in> set (required_jobs mode). \<not> (case map_of jobs name of Some r \<Rightarrow> \<not> passed_run r | None \<Rightarrow> True)"
    using assms(1) by (auto simp: verifyProducerJobs_def res_simps)
  then have jobs: "distinct (map fst jobs)" "set jobs = {(name, r) | name r. JObj r \<in> set vs \<and> fld r ''name'' = JStr name}"
    using collect_jobs_ok[of vs "[]" jobs] by simp_all
  obtain r where r: "map_of jobs name = Some r" "passed_run r" using each assms(2) by (auto split: option.splits)
  have member: "(name, r') \<in> set jobs \<longleftrightarrow> JObj r' \<in> set vs \<and> fld r' ''name'' = JStr name" for r' by (simp add: jobs(2))
  have only: "(name, r') \<in> set jobs \<longleftrightarrow> r' = r" for r' using map_of_eq_Some_iff[OF jobs(1), of name r'] r(1) by auto
  show "\<exists>!r. JObj r \<in> set vs \<and> fld r ''name'' = JStr name" "\<forall>r. JObj r \<in> set vs \<and> fld r ''name'' = JStr name \<longrightarrow> passed_run r"
    unfolding member[symmetric] only using r(2) by simp_all
qed

text \<open>A passing report of a verification of the candidate.\<close>

definition passing_report :: "string \<Rightarrow> string \<Rightarrow> jobj \<Rightarrow> bool" where
  "passing_report cid name r \<longleftrightarrow> fld r ''verification'' = JStr name \<and> fld r ''candidateId'' = JStr cid \<and> fld r ''status'' = JStr ''success''"

lemma check_reports_ok:
  assumes "check_reports cid required vs seen = Inr out"
  shows "set out \<subseteq> set seen \<union> {name. \<exists>r. JObj r \<in> set vs \<and> passing_report cid name r}"
  using assms
proof (induction vs arbitrary: seen)
  case (Cons v vs)
  from Cons.prems obtain r name where v: "v = JObj r" "passing_report cid name r" "check_reports cid required vs (seen @ [name]) = Inr out"
    by (auto simp: res_simps passing_report_def split: json.splits if_splits)
  from Cons.IH[OF v(3)] show ?case using v(1,2) by auto
qed auto

lemma reports_ok:
  assumes "verifyCandidateVerificationReports vs cid mode = Inr ()" "name \<in> set (required_verifications mode)"
  shows "\<exists>r. JObj r \<in> set vs \<and> passing_report cid name r"
  using assms check_reports_ok[of cid "required_verifications mode" vs "[]"]
  by (fastforce simp: verifyCandidateVerificationReports_def res_simps)

section \<open>The promotion\<close>

text \<open>What the evidence of a promotion has to show.\<close>

definition promotion_complete :: "promotion_host \<Rightarrow> promotion_input \<Rightarrow> ConsumerGateConfig list \<Rightarrow> PromotionMetadata \<Rightarrow> bool" where
  "promotion_complete h i config m \<longleftrightarrow>
     pm_candidateId m = pi_candidateId i \<and> pm_candidateManifestSha256 m = pi_candidateManifestSha256 i
     \<and> jprop (pi_candidateManifest i) ''candidateId'' = JStr (pm_candidateId m)
     \<and> jprop (pi_candidateManifest i) ''sourceCommit'' = JStr (pm_sourceCommit m)
     \<and> (\<exists>r. pi_producerRun i = JObj r \<and> fld r ''path'' = JStr RELEASE_CANDIDATE_WORKFLOW \<and> passed_run r)
     \<and> (\<exists>r. pi_consumerGateRun i = JObj r \<and> fld r ''path'' = JStr CONSUMER_GATES_WORKFLOW \<and> passed_run r)
     \<and> (\<forall>name \<in> set (required_jobs (pm_releaseMode m)). \<exists>r. JObj r \<in> set (pi_producerJobs i) \<and> fld r ''name'' = JStr name \<and> passed_run r)
     \<and> (\<forall>name \<in> set (required_verifications (pm_releaseMode m)).
          \<exists>r. JObj r \<in> set (pi_verificationReports i) \<and> passing_report (pm_candidateId m) name r)
     \<and> jprop (pi_contractImpact i) ''candidateId'' = JStr (pm_candidateId m)
     \<and> jprop (pi_contractImpact i) ''candidateSnapshotSha256'' = JStr (pi_candidateSnapshotSha256 i)
     \<and> jprop (pi_contractImpact i) ''classification'' = JStr (pm_contractClassification m)
     \<and> (\<exists>artifacts a. jprop (pi_candidateManifest i) ''artifacts'' = JArr artifacts \<and> a \<in> set artifacts \<and> is_snapshot_artifact a
          \<and> jprop a ''sha256'' = JStr (pi_candidateSnapshotSha256 i))
     \<and> (\<exists>gates. jprop (pi_consumerGateLedger i) ''gates'' = JArr gates
          \<and> (\<forall>g \<in> set config. gate_required (pm_contractClassification m) g \<longrightarrow> (\<exists>r. JObj r \<in> set gates \<and> gate_result h m g r)))"

lemma manifest_identity_ok:
  assumes "verifyCandidateManifestIdentity v cid = Inr m"
  shows "pm_candidateId m = cid" "jprop v ''candidateId'' = JStr cid" "jprop v ''sourceCommit'' = JStr (pm_sourceCommit m)"
  using assms
  by (auto simp: verifyCandidateManifestIdentity_def res_simps requireSha256_def requireFullSha_def jprop_def split: json.splits if_splits)

lemma workflow_run_ok: "verifyWorkflowRun v path label = Inr () \<Longrightarrow> \<exists>r. v = JObj r \<and> fld r ''path'' = JStr path \<and> passed_run r"
  by (auto simp: verifyWorkflowRun_def res_simps split: json.splits)

lemma contract_impact_ok:
  "verifyContractImpact v cid sha = Inr k \<Longrightarrow> jprop v ''candidateId'' = JStr cid \<and> jprop v ''candidateSnapshotSha256'' = JStr sha
     \<and> jprop v ''classification'' = JStr k"
  by (auto simp: verifyContractImpact_def jprop_def split: json.splits if_splits)

lemma snapshot_binding_ok:
  assumes "verifyCandidateSnapshotBinding v sha = Inr ()"
  shows "\<exists>artifacts a. jprop v ''artifacts'' = JArr artifacts \<and> a \<in> set artifacts \<and> is_snapshot_artifact a \<and> jprop a ''sha256'' = JStr sha"
  using assms by (auto simp: verifyCandidateSnapshotBinding_def res_simps split: json.splits option.splits dest!: find_Some_iff_mem)

lemma gate_result_metadata:
  "pm_candidateId m = pm_candidateId m' \<Longrightarrow> pm_candidateManifestSha256 m = pm_candidateManifestSha256 m' \<Longrightarrow> gate_result h m = gate_result h m'"
  by (simp add: gate_result_def[abs_def])

lemma verified_promotion:
  assumes "verifyPromotionEvidence h i = Inr m" "parseConsumerGateConfig h (pi_consumerGateConfig i) = Inr config"
    and "distinct (map gc_repository config)"
  shows "promotion_complete h i config m"
proof -
  obtain m0 sha k m1 classification where steps:
      "verifyCandidateManifestIdentity (pi_candidateManifest i) (pi_candidateId i) = Inr m0"
      "requireSha256 (JStr (pi_candidateManifestSha256 i)) ''Candidate manifest digest'' = Inr sha"
      "verifyWorkflowRun (pi_producerRun i) RELEASE_CANDIDATE_WORKFLOW ''Producer candidate run'' = Inr ()"
      "verifyWorkflowRun (pi_consumerGateRun i) CONSUMER_GATES_WORKFLOW ''Consumer gate run'' = Inr ()"
      "verifyProducerJobs (pi_producerJobs i) (pm_releaseMode m0) = Inr ()"
      "verifyCandidateVerificationReports (pi_verificationReports i) (pm_candidateId m0) (pm_releaseMode m0) = Inr ()"
      "verifyContractImpact (pi_contractImpact i) (pm_candidateId m0) (pi_candidateSnapshotSha256 i) = Inr k"
      "verifyCandidateSnapshotBinding (pi_candidateManifest i) (pi_candidateSnapshotSha256 i) = Inr ()"
      "m1 = m0\<lparr>pm_candidateManifestSha256 := sha, pm_contractClassification := k\<rparr>"
      "verifyConsumerLedger h (pi_consumerGateLedger i) m1 config = Inr classification" "m = m1\<lparr>pm_contractClassification := classification\<rparr>"
    using assms(1,2) by (auto simp: verifyPromotionEvidence_def res_simps Let_def)
  have sha: "sha = pi_candidateManifestSha256 i" using steps(2) by (auto simp: requireSha256_def split: if_splits)
  note ledger = ledger_complete[OF steps(10) assms(3)]
  have m: "m = m1" using ledger by (simp add: steps(11) steps(9))
  have gates: "\<exists>gates. jprop (pi_consumerGateLedger i) ''gates'' = JArr gates
      \<and> (\<forall>g \<in> set config. gate_required (pm_contractClassification m1) g \<longrightarrow> (\<exists>r. JObj r \<in> set gates \<and> gate_result h m1 g r))"
    using ledger by blast
  have jobs: "\<exists>r. JObj r \<in> set (pi_producerJobs i) \<and> fld r ''name'' = JStr name \<and> passed_run r" if "name \<in> set (required_jobs (pm_releaseMode m0))" for name
    using producer_jobs_ok[OF steps(5) that] by blast
  show ?thesis
    unfolding promotion_complete_def m
    using manifest_identity_ok[OF steps(1)] workflow_run_ok[OF steps(3)] workflow_run_ok[OF steps(4)] jobs reports_ok[OF steps(6)]
      contract_impact_ok[OF steps(7)] snapshot_binding_ok[OF steps(8)] sha
    by (intro conjI gates) (simp_all add: steps(9))
qed


section \<open>Gates and the contract\<close>

lemma impact_record_accepted: "verifyContractImpact (impact_record cid sha r) cid sha = Inr (classification_text (ir_classification r))"
proof -
  have keys: "join '','' (sort [''schemaVersion'', ''candidateId'', ''candidateSnapshotSha256'', ''classification'', ''baselineRelease'', ''changes''])
      = ''baselineRelease,candidateId,candidateSnapshotSha256,changes,classification,schemaVersion''"
    by code_simp
  have "classification_text k \<in> set CLASSIFICATIONS" for k by (cases k) (simp_all add: classification_text_def CLASSIFICATIONS_def)
  then show ?thesis unfolding impact_record_def verifyContractImpact_def by (simp add: keys del: sort_key_simps)
qed

lemma classification_text_NoImpact: "classification_text k = ''no-impact'' \<longleftrightarrow> k = NoImpact"
  by (cases k) (simp_all add: classification_text_def)


section \<open>An example\<close>

text \<open>The candidate differs from the stable release in a title. One gate always runs and passed, the other runs on
  contract changes and was left out.\<close>

definition example_clock :: promotion_host where
  "example_clock = \<lparr>ph_dateParse = (\<lambda>_. num 0), ph_fraction = (\<lambda>_. []), ph_before = (\<lambda>_ _. True)\<rparr>"

definition stable_contract :: json where
  "stable_contract = example_contract (JArr []) (example_schema [] [named_string ''a''])"

definition titled_contract :: json where
  "titled_contract = example_contract (JArr []) (example_schema [(''title'', JStr ''t'')] [named_string ''a''])"

definition example_manifest :: json where
  "example_manifest = JObj [(''candidateId'', JStr example_digest), (''sourceCommit'', JStr (replicate 40 CHR ''0'')),
     (''releaseVersion'', JStr ''1.0.0''), (''releaseMode'', JStr ''core-only''),
     (''artifacts'', JArr [JObj [(''path'', JStr ''contracts/contract-snapshot.json''), (''sha256'', JStr example_digest)]])]"

definition example_run :: "string \<Rightarrow> json" where
  "example_run path = JObj [(''path'', JStr path), (''status'', JStr ''completed''), (''conclusion'', JStr ''success'')]"

definition example_jobs :: "json list" where
  "example_jobs = map (\<lambda>n. JObj [(''name'', JStr n), (''status'', JStr ''completed''), (''conclusion'', JStr ''success'')]) (required_jobs ''core-only'')"

definition example_reports :: "json list" where
  "example_reports = map (\<lambda>n. JObj [(''schemaVersion'', JStr ''1''), (''candidateId'', JStr example_digest), (''verification'', JStr n),
     (''status'', JStr ''success'')]) (required_verifications ''core-only'')"

definition example_gate :: json where
  "example_gate = JObj [(''schemaVersion'', JStr ''1''), (''consumerRepository'', JStr ''cert-prep''), (''consumerCommit'', JStr (replicate 40 CHR ''0'')),
     (''workflowPath'', JStr ''gate.yml''), (''workflowRunId'', JNum (num 1)), (''candidateId'', JStr example_digest),
     (''candidateManifestSha256'', JStr example_digest), (''verdict'', JStr ''passed''), (''checks'', JArr []),
     (''startedAt'', JStr []), (''completedAt'', JStr [])]"

definition example_ledger :: json where
  "example_ledger = JObj [(''schemaVersion'', JStr ''1''), (''candidateId'', JStr example_digest), (''candidateManifestSha256'', JStr example_digest),
     (''contractClassification'', JStr ''no-impact''), (''verdict'', JStr ''passed''), (''gates'', JArr [example_gate]),
     (''resultDigests'', JArr [JObj [(''consumerRepository'', JStr ''cert-prep''), (''workflowRunId'', JNum (num 1)), (''sha256'', JStr example_digest)]])]"

definition always_gate :: ConsumerGateConfig where
  "always_gate = \<lparr>gc_repository = ''cert-prep'', gc_workflowPath = ''gate.yml'', gc_requiredWhen = JStr ''always''\<rparr>"

definition contract_gate :: ConsumerGateConfig where
  "contract_gate = \<lparr>gc_repository = ''law-prep'', gc_workflowPath = ''gate.yml'', gc_requiredWhen = JStr ''contract''\<rparr>"

definition gate_json :: "ConsumerGateConfig \<Rightarrow> json" where
  "gate_json g = JObj [(''repository'', JStr (gc_repository g)), (''workflowPath'', JStr (gc_workflowPath g)), (''requiredWhen'', gc_requiredWhen g)]"

definition example_promotion :: "json \<Rightarrow> promotion_input" where
  "example_promotion impact = \<lparr>pi_candidateManifest = example_manifest, pi_candidateManifestSha256 = example_digest, pi_candidateId = example_digest,
     pi_producerRun = example_run RELEASE_CANDIDATE_WORKFLOW, pi_producerJobs = example_jobs, pi_verificationReports = example_reports,
     pi_contractImpact = impact, pi_candidateSnapshotSha256 = example_digest, pi_consumerGateRun = example_run CONSUMER_GATES_WORKFLOW,
     pi_consumerGateLedger = example_ledger, pi_consumerGateConfig = JArr [gate_json always_gate, gate_json contract_gate]\<rparr>"

definition example_metadata :: PromotionMetadata where
  "example_metadata = \<lparr>pm_candidateId = example_digest, pm_candidateManifestSha256 = example_digest, pm_sourceCommit = replicate 40 CHR ''0'',
     pm_releaseVersion = ''1.0.0'', pm_releaseMode = ''core-only'', pm_contractClassification = ''no-impact''\<rparr>"

lemma example_digest_ok: "is_sha256_hex example_digest" "list_all is_lhex (replicate 40 CHR ''0'')"
  by code_simp+

lemma example_evidence_checks:
  "verifyCandidateManifestIdentity example_manifest example_digest = Inr (example_metadata\<lparr>pm_candidateManifestSha256 := []\<rparr>)"
  "verifyProducerJobs example_jobs ''core-only'' = Inr ()"
  "verifyCandidateVerificationReports example_reports example_digest ''core-only'' = Inr ()"
  "verifyCandidateSnapshotBinding example_manifest example_digest = Inr ()"
  by code_simp+

lemma example_config:
  "parseConsumerGateConfig example_clock (JArr [gate_json always_gate, gate_json contract_gate]) = Inr [always_gate, contract_gate]"
  by (simp add: parseConsumerGateConfig_def parse_gate_def gate_json_def always_gate_def contract_gate_def)

lemma example_key_orders:
  "exactKeys [(''schemaVersion'', a), (''consumerRepository'', b), (''consumerCommit'', c), (''workflowPath'', d), (''workflowRunId'', e), (''candidateId'', f),
     (''candidateManifestSha256'', g), (''verdict'', i), (''checks'', j), (''startedAt'', k), (''completedAt'', l)] GATE_RESULT_KEYS label = Inr ()"
  "exactKeys [(''schemaVersion'', a), (''candidateId'', b), (''candidateManifestSha256'', c), (''contractClassification'', d), (''verdict'', e),
     (''gates'', f), (''resultDigests'', g)] LEDGER_KEYS label = Inr ()"
  "exactKeys [(''consumerRepository'', a), (''workflowRunId'', b), (''sha256'', c)] DIGEST_KEYS label = Inr ()"
  by (simp_all add: exactKeys_def GATE_RESULT_KEYS_def LEDGER_KEYS_def DIGEST_KEYS_def del: sort_key_simps)

lemma example_gate_passes:
  "verifyConsumerGateResult example_clock example_gate \<lparr>ge_repository = ''cert-prep'', ge_workflowPath = ''gate.yml'', ge_workflowRunId = JNum (num 1),
     ge_candidateId = example_digest, ge_candidateManifestSha256 = example_digest\<rparr> = Inr ()"
proof -
  have "js_isFinite (num 0)" by (simp add: num_def)
  then show ?thesis
    by (simp add: verifyConsumerGateResult_def example_gate_def example_key_orders requireFullSha_def example_digest_ok(2) requireTimestamp_def
        example_clock_def max_safe_integer_def)
qed

lemma example_ledger_accepted:
  "verifyConsumerLedger example_clock example_ledger example_metadata [always_gate, contract_gate] = Inr ''no-impact''"
proof -
  have run: "jprop example_gate ''workflowRunId'' = JNum (num 1)" "jprop example_gate ''consumerRepository'' = JStr ''cert-prep''"
    by (simp_all add: example_gate_def jprop_def)
  have "check_gates example_clock example_metadata [always_gate] [example_gate] [] = Inr [''cert-prep'']"
    using example_gate_passes by (simp add: run expected_gates_def always_gate_def example_metadata_def)
  moreover have "list_ex (\<lambda>g. case g of JObj x \<Rightarrow> fld x ''consumerRepository'' = JStr ''cert-prep'' \<and> fld x ''workflowRunId'' = JNum (Fin 1) | _ \<Rightarrow> False)
      [example_gate]"
    by (simp add: example_gate_def num_def)
  then have "check_digests [example_gate] [JObj [(''consumerRepository'', JStr ''cert-prep''), (''workflowRunId'', JNum (num 1)), (''sha256'', JStr example_digest)]] [] = Inr ()"
    by (simp add: example_key_orders requireSha256_def example_digest_ok num_def js_isSafeInteger_def max_safe_integer_def)
  moreover have "filter (gate_required ''no-impact'') [always_gate, contract_gate] = [always_gate]"
    by (simp add: gate_required_def always_gate_def contract_gate_def)
  ultimately show ?thesis
    by (simp add: verifyConsumerLedger_def example_ledger_def example_key_orders requireClassification_def CLASSIFICATIONS_def Let_def
        example_metadata_def[symmetric] del: filter.simps check_gates.simps check_digests.simps) (simp add: example_metadata_def)
qed

lemma example_promoted:
  assumes "ir_classification r = NoImpact"
  shows "verifyPromotionEvidence example_clock (example_promotion (impact_record example_digest example_digest r)) = Inr example_metadata"
proof -
  have runs: "verifyWorkflowRun (example_run path) path label = Inr ()" for path label
    by (simp add: verifyWorkflowRun_def example_run_def passed_run_def)
  have "example_metadata\<lparr>pm_candidateManifestSha256 := [], pm_candidateManifestSha256 := example_digest, pm_contractClassification := ''no-impact''\<rparr> = example_metadata"
    "example_metadata\<lparr>pm_contractClassification := ''no-impact''\<rparr> = example_metadata"
    "pm_candidateId example_metadata = example_digest" "pm_releaseMode example_metadata = ''core-only''"
    by (simp_all add: example_metadata_def)
  then show ?thesis
    by (simp add: verifyPromotionEvidence_def example_promotion_def example_evidence_checks requireSha256_def example_digest_ok runs impact_record_accepted
        assms classification_text_NoImpact[THEN iffD2] example_config example_ledger_accepted Let_def)
qed

lemma example_classified:
  "\<exists>r. classifyContractImpact plain_impact_host stable_contract titled_contract example_digest = Inr r \<and> ir_classification r = NoImpact
     \<and> classify_release plain_impact_host example_digest example_digest titled_contract (Some stable_contract)
        = Inr (impact_record example_digest example_digest r)"
proof -
  obtain r where r: "classifyContractImpact plain_impact_host stable_contract titled_contract example_digest = Inr r" "ir_classification r = NoImpact"
    using example_impacts by (auto simp: impact_of_iff stable_contract_def titled_contract_def)
  have "requireSnapshot stable_contract label = Inr ()" "requireSnapshot titled_contract label = Inr ()" for label
    by (simp_all add: requireSnapshot_def stable_contract_def titled_contract_def example_contract_def)
  then show ?thesis using r by (simp add: classify_release_def example_digest_ok)
qed

lemma example_gates_distinct: "distinct (map gc_repository [always_gate, contract_gate])"
  by (simp add: always_gate_def contract_gate_def)



section \<open>Gaps\<close>

text \<open>A condition wrapped in an array passes the check of the configuration, and the gate is then not always required.\<close>

lemma wrapped_condition_ignored:
  "\<exists>g. parse_gate h (JObj [(''repository'', JStr x), (''workflowPath'', JStr y), (''requiredWhen'', JArr [JStr ''always''])]) = Inr g
     \<and> \<not> gate_required ''no-impact'' g"
  by (simp add: parse_gate_def gate_required_def nullish_def)

text \<open>Of two gates of one repository only the last one is expected.\<close>

lemma shadowed_gate: "expected_gates [g, g'] (gc_repository g') = Some g' \<and> (gc_repository g = gc_repository g' \<longrightarrow> g \<noteq> g' \<longrightarrow> g \<notin> ran (expected_gates [g, g']))"
  by (auto simp: expected_gates_def ran_def split: if_splits)

text \<open>The record of the contract impact may contradict its own list of changes.\<close>

lemma contradictory_impact_accepted:
  "\<exists>r. ir_changes r = [\<lparr>ch_classification = Breaking, ch_path = p, ch_reason = q\<rparr>]
     \<and> verifyContractImpact (impact_record cid sha r) cid sha = Inr ''no-impact''"
proof -
  let ?r = "\<lparr>ir_classification = NoImpact, ir_baselineRelease = [], ir_candidateId = cid,
    ir_changes = [\<lparr>ch_classification = Breaking, ch_path = p, ch_reason = q\<rparr>]\<rparr>"
  have "verifyContractImpact (impact_record cid sha ?r) cid sha = Inr ''no-impact''"
    unfolding impact_record_accepted by (simp add: classification_text_def)
  then show ?thesis by (intro exI[of _ ?r]) simp
qed

end
