(* ===== verification/Consumer_Gates.thy ===== *)
theory Consumer_Gates
  imports Promotion_Guarantees
begin

text \<open>
  The run of the consumer gates: \<^verbatim>\<open>tools/run-consumer-gates.ts\<close> with the rest of
  \<^verbatim>\<open>tools/consumer-gate.ts\<close>. It starts a workflow in every consumer repository, polls GitHub until the run
  is found and has ended, and writes the ledger the promotion is verified with. \<open>gate_world\<close> holds what it
  calls outside: processes, the clock, files, paths, \<open>JSON.parse\<close> and SHA-256. A loop that polls is given a
  number of rounds; \<open>Unfinished\<close> marks a run that would need more.
\<close>

datatype gate_stop = Thrown string | Unfinished

record spawn_result =
  sp_error :: "string option"
  sp_status :: json
  sp_stdout :: string
  sp_stderr :: string

record 'w gate_world =
  gw_spawn :: "string list \<Rightarrow> 'w \<Rightarrow> spawn_result \<times> 'w"
  gw_now :: "'w \<Rightarrow> int"
  gw_sleep :: "int \<Rightarrow> 'w \<Rightarrow> 'w"
  gw_mkdir :: "string \<Rightarrow> ('w, string, unit) io"
  gw_readdir :: "string \<Rightarrow> ('w, string, string list) io"
  gw_readFile :: "string \<Rightarrow> ('w, string, string) io"
  gw_join :: "string list \<Rightarrow> string"
  gw_resolve :: "string list \<Rightarrow> string"
  gw_parse :: "string \<Rightarrow> string + json"
  gw_sha256 :: "string \<Rightarrow> string"

abbreviation json_text :: "promotion_host \<Rightarrow> json \<Rightarrow> string" where
  "json_text h \<equiv> js_String (ph_fraction h)"

definition throw :: "string \<Rightarrow> ('w, gate_stop, 'a) io" where
  "throw message w = (Inl (Thrown message), w)"

definition checked :: "string + 'a \<Rightarrow> ('w, gate_stop, 'a) io" where
  "checked r w = ((case r of Inl message \<Rightarrow> Inl (Thrown message) | Inr x \<Rightarrow> Inr x), w)"

definition host_call :: "('w, string, 'a) io \<Rightarrow> ('w, gate_stop, 'a) io" where
  "host_call m w = (case m w of (r, w') \<Rightarrow> checked r w')"

definition ensure :: "bool \<Rightarrow> string \<Rightarrow> ('w, gate_stop, unit) io" where
  "ensure c message = checked (throw_if (\<not> c) message)"

section \<open>Arguments\<close>

fun parse_arguments :: "string list \<Rightarrow> (string \<times> string) list \<Rightarrow> string + (string \<times> string) list" where
  "parse_arguments [] values = Inr values"
| "parse_arguments [name] values = Inl ''Arguments must be unique --name value pairs.''"
| "parse_arguments (name # value # rest) values =
     (if \<not> starts_with ''--'' name \<or> value = [] \<or> name \<in> fst ` set values then Inl ''Arguments must be unique --name value pairs.''
      else parse_arguments rest (values @ [(name, value)]))"

definition required :: "(string \<times> string) list \<Rightarrow> string \<Rightarrow> string + string" where
  "required values name =
     (case map_of values name of Some v \<Rightarrow> if v = [] then Inl (''Missing required argument: '' @ name @ ''.'') else Inr v
      | None \<Rightarrow> Inl (''Missing required argument: '' @ name @ ''.''))"

record gate_arguments =
  ga_configPath :: string
  ga_candidate :: string
  ga_candidateId :: string
  ga_candidateManifestSha256 :: string
  ga_sourceCommit :: string
  ga_releaseVersion :: string
  ga_producerRepository :: string
  ga_producerRunId :: jnum
  ga_output :: string

definition read_arguments :: "'w gate_world \<Rightarrow> string list \<Rightarrow> string + gate_arguments" where
  "read_arguments G argv =
     bind_res (parse_arguments argv []) (\<lambda>values.
     bind_res (required values ''--config'') (\<lambda>config.
     bind_res (required values ''--candidate'') (\<lambda>candidate.
     bind_res (required values ''--candidate-id'') (\<lambda>candidateId.
     bind_res (required values ''--candidate-manifest-sha256'') (\<lambda>sha.
     bind_res (required values ''--source-commit'') (\<lambda>commit.
     bind_res (required values ''--release-version'') (\<lambda>version.
     bind_res (required values ''--producer-repository'') (\<lambda>repository.
     bind_res (required values ''--producer-run-id'') (\<lambda>run.
     bind_res (required values ''--output'') (\<lambda>output.
     let producerRunId = js_Number run
     in then_res (throw_if (\<not> js_isSafeInteger producerRunId \<or> js_lt producerRunId (num 1)) ''Producer run ID is invalid.'')
        (Inr \<lparr>ga_configPath = gw_resolve G [config], ga_candidate = gw_resolve G [candidate], ga_candidateId = candidateId,
          ga_candidateManifestSha256 = sha, ga_sourceCommit = commit, ga_releaseVersion = version, ga_producerRepository = repository,
          ga_producerRunId = producerRunId, ga_output = gw_resolve G [output]\<rparr>)))))))))))"

section \<open>GitHub\<close>

text \<open>\<open>/(?:gh[pousr]_[A-Za-z0-9_\-]+|github_pat_[A-Za-z0-9_\-]+) /gu\<close>: a token and the space behind it.\<close>

definition token_char :: "char \<Rightarrow> bool" where
  "token_char c = (is_digit c \<or> is_lower c \<or> is_upper c \<or> c = CHR ''_'' \<or> c = CHR ''-'')"

definition token_prefixes :: "string list" where
  "token_prefixes = [''ghp_'', ''gho_'', ''ghu_'', ''ghs_'', ''ghr_'', ''github_pat_'']"

definition behind_token :: "string \<Rightarrow> string option" where
  "behind_token s =
     (case find (\<lambda>p. starts_with p s) token_prefixes of
        None \<Rightarrow> None
      | Some p \<Rightarrow>
          (let body = takeWhile token_char (drop (length p) s); rest = dropWhile token_char (drop (length p) s)
           in if body \<noteq> [] \<and> starts_with '' '' rest then Some (tl rest) else None))"

lemma behind_token_shorter: "behind_token s = Some t \<Longrightarrow> length t < length s"
proof -
  assume "behind_token s = Some t"
  then obtain p where p: "starts_with p s" "p \<in> set token_prefixes" "t = tl (dropWhile token_char (drop (length p) s))"
    by (auto simp: behind_token_def Let_def split: option.splits if_splits dest!: find_Some_iff_mem)
  have "length (dropWhile token_char (drop (length p) s)) \<le> length s - length p" by (metis length_dropWhile_le length_drop)
  moreover have "0 < length p" using p(2) by (auto simp: token_prefixes_def)
  moreover have "length p \<le> length s" using p(1) by (metis starts_with_iff_prefix prefix_length_le)
  ultimately show ?thesis unfolding p(3) length_tl by linarith
qed

function redact_tokens :: "string \<Rightarrow> string" where
  "redact_tokens s =
     (case behind_token s of
        Some t \<Rightarrow> ''[REDACTED] '' @ redact_tokens t
      | None \<Rightarrow> (case s of [] \<Rightarrow> [] | c # t \<Rightarrow> c # redact_tokens t))"
  by pat_completeness auto
termination
  by (relation "measure length") (auto dest: behind_token_shorter)

declare redact_tokens.simps [simp del]

definition ghJson :: "'w gate_world \<Rightarrow> promotion_host \<Rightarrow> string \<Rightarrow> ('w, gate_stop, json) io" where
  "ghJson G h endpoint w =
     (case gw_spawn G [''gh'', ''api'', endpoint] w of
        (r, w') \<Rightarrow>
          (case sp_error r of
             Some e \<Rightarrow> throw e w'
           | None \<Rightarrow>
               if sp_status r \<noteq> JNum (num 0)
               then throw (''gh api failed ('' @ json_text h (sp_status r) @ ''): '' @ redact_tokens (sp_stderr r)) w'
               else checked (gw_parse G (sp_stdout r)) w'))"

definition ghRequest :: "'w gate_world \<Rightarrow> promotion_host \<Rightarrow> string list \<Rightarrow> ('w, gate_stop, unit) io" where
  "ghRequest G h args w =
     (case gw_spawn G ([''gh'', ''api''] @ args) w of
        (r, w') \<Rightarrow>
          (case sp_error r of
             Some e \<Rightarrow> throw e w'
           | None \<Rightarrow>
               if sp_status r \<noteq> JNum (num 0)
               then throw (''gh api request failed ('' @ json_text h (sp_status r) @ '').'') w'
               else (Inr (), w')))"

section \<open>The configuration\<close>

record GateConfig =
  gt_name :: string
  gt_repository :: string
  gt_workflowPath :: string
  gt_ref :: string
  gt_requiredWhen :: json

definition name_char :: "char \<Rightarrow> bool" where
  "name_char c = (is_digit c \<or> is_lower c \<or> is_upper c \<or> c = CHR ''_'' \<or> c = CHR ''.'' \<or> c = CHR ''-'')"

text \<open>\<open>/^[A-Za-z0-9_.-]+$/u\<close>, the same with a slash between, and \<open>/^\.github\/workflows\/[^/]+\.ya?ml$/u\<close>\<close>

definition plain_name :: "string \<Rightarrow> bool" where
  "plain_name s = (s \<noteq> [] \<and> list_all name_char s)"

definition repository_name :: "string \<Rightarrow> bool" where
  "repository_name s =
     (case dropWhile name_char s of
        c # t \<Rightarrow> takeWhile name_char s \<noteq> [] \<and> c = CHR ''/'' \<and> plain_name t
      | [] \<Rightarrow> False)"

definition workflow_file :: "string \<Rightarrow> bool" where
  "workflow_file s =
     (starts_with ''.github/workflows/'' s
      \<and> (let t = drop (length ''.github/workflows/'') s
         in CHR ''/'' \<notin> set t
            \<and> list_ex (\<lambda>e. length e < length t \<and> drop (length t - length e) t = e) [''.yml'', ''.yaml'']))"

definition validate_gate :: "promotion_host \<Rightarrow> json \<Rightarrow> string list \<Rightarrow> string + GateConfig" where
  "validate_gate h v names =
     (case v of
        JObj r \<Rightarrow>
          if join '','' (sort (map fst r)) \<noteq> ''name,ref,repository,requiredWhen,workflowPath''
          then Inl ''Consumer gate config contains an invalid gate.''
          else
            (case (fld r ''name'', fld r ''repository'', fld r ''workflowPath'', fld r ''ref'') of
               (JStr name, JStr repository, JStr path, JStr ref) \<Rightarrow>
                 if json_text h (fld r ''requiredWhen'') \<notin> {''always'', ''contract''}
                 then Inl ''Consumer gate config contains an invalid gate.''
                 else if name \<in> set names then Inl (''Consumer gate name is duplicated: '' @ name @ ''.'')
                 else if \<not> repository_name repository \<or> \<not> workflow_file path \<or> \<not> plain_name ref
                 then Inl ''Consumer gate config contains an invalid gate.''
                 else Inr \<lparr>gt_name = name, gt_repository = repository, gt_workflowPath = path, gt_ref = ref,
                           gt_requiredWhen = fld r ''requiredWhen''\<rparr>
             | _ \<Rightarrow> Inl ''Consumer gate config contains an invalid gate.'')
      | _ \<Rightarrow> Inl ''Consumer gate config contains an invalid gate.'')"

fun validate_gates :: "promotion_host \<Rightarrow> json list \<Rightarrow> string list \<Rightarrow> string + GateConfig list" where
  "validate_gates h [] names = Inr []"
| "validate_gates h (v # vs) names =
     bind_res (validate_gate h v names) (\<lambda>g.
     bind_res (validate_gates h vs (names @ [gt_name g])) (\<lambda>gs. Inr (g # gs)))"

definition validateConfig :: "promotion_host \<Rightarrow> json \<Rightarrow> string + GateConfig list" where
  "validateConfig h v =
     (case v of
        JArr xs \<Rightarrow> if xs = [] then Inl ''Consumer gate config must contain at least one gate.'' else validate_gates h xs []
      | _ \<Rightarrow> Inl ''Consumer gate config must contain at least one gate.'')"

section \<open>Runs\<close>

text \<open>Reading a property of a parsed answer; \<open>null\<close> has none.\<close>

definition member :: "json \<Rightarrow> string \<Rightarrow> string + json" where
  "member v k = (if nullish v then Inl ''TypeError'' else Inr (jprop v k))"

definition runs_of :: "json \<Rightarrow> string + json list" where
  "runs_of response =
     bind_res (member response ''workflow_runs'') (\<lambda>v.
     if nullish v then Inr []
     else case v of JArr xs \<Rightarrow> if list_ex nullish xs then Inl ''TypeError'' else Inr xs | _ \<Rightarrow> Inl ''TypeError'')"

definition safe_id :: "json \<Rightarrow> bool" where
  "safe_id v = (case v of JNum n \<Rightarrow> js_isSafeInteger n | _ \<Rightarrow> False)"

definition new_run :: "promotion_host \<Rightarrow> GateConfig \<Rightarrow> json \<Rightarrow> json list \<Rightarrow> int \<Rightarrow> json \<Rightarrow> bool" where
  "new_run h gate workflowId beforeIds notBefore run =
     (let createdAt = (case jprop run ''created_at'' of JStr s \<Rightarrow> ph_dateParse h s | _ \<Rightarrow> NaN)
      in safe_id (jprop run ''id'') \<and> jprop run ''id'' \<notin> set beforeIds \<and> js_seq (jprop run ''workflow_id'') workflowId
         \<and> jprop run ''path'' = JStr (gt_workflowPath gate) \<and> jprop run ''head_branch'' = JStr (gt_ref gate)
         \<and> js_isFinite createdAt \<and> js_le (num (notBefore - 10000)) createdAt)"

definition runs_endpoint :: "promotion_host \<Rightarrow> GateConfig \<Rightarrow> json \<Rightarrow> string" where
  "runs_endpoint h gate workflowId = ''repos/'' @ gt_repository gate @ ''/actions/workflows/'' @ json_text h workflowId
     @ ''/runs?branch='' @ encodeURIComponent (gt_ref gate) @ ''&event=workflow_dispatch&per_page=100''"

fun find_run ::
  "nat \<Rightarrow> 'w gate_world \<Rightarrow> promotion_host \<Rightarrow> GateConfig \<Rightarrow> json \<Rightarrow> json list \<Rightarrow> int \<Rightarrow> int \<Rightarrow> ('w, gate_stop, json) io" where
  "find_run 0 G h gate workflowId beforeIds notBefore deadline w = (Inl Unfinished, w)"
| "find_run (Suc n) G h gate workflowId beforeIds notBefore deadline w =
     (if gw_now G w < deadline
      then bind_io (ghJson G h (runs_endpoint h gate workflowId)) (\<lambda>response.
           bind_io (checked (runs_of response)) (\<lambda>runs.
           case filter (new_run h gate workflowId beforeIds notBefore) runs of
             [] \<Rightarrow> (\<lambda>w. find_run n G h gate workflowId beforeIds notBefore deadline (gw_sleep G 5000 w))
           | [run] \<Rightarrow> lift_io (Inr run)
           | _ \<Rightarrow> throw (''Multiple new runs matched '' @ gt_name gate @ ''; refusing ambiguous gate tracking.''))) w
      else throw (''Consumer workflow run for '' @ gt_name gate @ '' was not discoverable after dispatch.'') w)"

definition FIND_ROUNDS :: nat where
  "FIND_ROUNDS = 13"

definition findRun :: "'w gate_world \<Rightarrow> promotion_host \<Rightarrow> GateConfig \<Rightarrow> json \<Rightarrow> json list \<Rightarrow> int \<Rightarrow> ('w, gate_stop, json) io" where
  "findRun G h gate workflowId beforeIds notBefore w =
     find_run FIND_ROUNDS G h gate workflowId beforeIds notBefore (gw_now G w + 60000) w"

fun wait_for_run :: "nat \<Rightarrow> 'w gate_world \<Rightarrow> promotion_host \<Rightarrow> GateConfig \<Rightarrow> json \<Rightarrow> int \<Rightarrow> ('w, gate_stop, json) io" where
  "wait_for_run 0 G h gate runId deadline w = (Inl Unfinished, w)"
| "wait_for_run (Suc n) G h gate runId deadline w =
     (if gw_now G w < deadline
      then bind_io (ghJson G h (''repos/'' @ gt_repository gate @ ''/actions/runs/'' @ json_text h runId)) (\<lambda>current.
           bind_io (checked (member current ''status'')) (\<lambda>status.
           if status = JStr ''completed''
           then if jprop current ''conclusion'' \<noteq> JStr ''success''
                then throw (''Consumer workflow '' @ gt_name gate @ '' concluded '' @ json_text h (jprop current ''conclusion'') @ ''.'')
                else lift_io (Inr current)
           else (\<lambda>w. wait_for_run n G h gate runId deadline (gw_sleep G 10000 w)))) w
      else throw (''Consumer workflow '' @ gt_name gate @ '' did not complete before the timeout.'') w)"

definition WAIT_ROUNDS :: nat where
  "WAIT_ROUNDS = 541"

definition waitForRun :: "'w gate_world \<Rightarrow> promotion_host \<Rightarrow> GateConfig \<Rightarrow> json \<Rightarrow> ('w, gate_stop, json) io" where
  "waitForRun G h gate run w =
     (if \<not> safe_id (jprop run ''id'') then throw (''Consumer workflow run ID for '' @ gt_name gate @ '' is invalid.'') w
      else wait_for_run WAIT_ROUNDS G h gate (jprop run ''id'') (gw_now G w + 90 * 60000) w)"

definition downloadResult :: "'w gate_world \<Rightarrow> promotion_host \<Rightarrow> GateConfig \<Rightarrow> json \<Rightarrow> string \<Rightarrow> ('w, gate_stop, string) io" where
  "downloadResult G h gate runId directory =
     bind_io (host_call (gw_mkdir G directory)) (\<lambda>_ w.
     case gw_spawn G [''gh'', ''run'', ''download'', json_text h runId, ''--repo'', gt_repository gate, ''--name'',
         ''consumer-gate-result-v1'', ''--dir'', directory] w of
       (r, w') \<Rightarrow>
         (case sp_error r of
            Some e \<Rightarrow> throw e w'
          | None \<Rightarrow>
              if sp_status r \<noteq> JNum (num 0) then throw (''Consumer gate result download failed for '' @ gt_name gate @ ''.'') w'
              else bind_io (host_call (gw_readdir G directory)) (\<lambda>names.
                case filter (\<lambda>name. name = ''consumer-gate-result-v1.json'') names of
                  [name] \<Rightarrow> lift_io (Inr (gw_join G [directory, name]))
                | _ \<Rightarrow> throw (''Expected exactly one result file for '' @ gt_name gate @ ''.'')) w'))"

section \<open>The ledger\<close>

definition run_key :: "promotion_host \<Rightarrow> json \<Rightarrow> string" where
  "run_key h v = json_text h (jprop v ''consumerRepository'') @ '':'' @ json_text h (jprop v ''workflowRunId'')"

definition valid_digest :: "json \<Rightarrow> string + unit" where
  "valid_digest d =
     then_res (throw_if (case (jprop d ''consumerRepository'', jprop d ''workflowRunId'') of
         (JStr _, JNum n) \<Rightarrow> \<not> js_isSafeInteger n \<or> js_lt n (num 1) | _ \<Rightarrow> True) ''Consumer gate result digest identity is invalid.'')
     (bind_res (requireSha256 (jprop d ''sha256'') ''Consumer gate result digest'') (\<lambda>_. Inr ()))"

text \<open>\<open>sort\<close> with \<open>localeCompare\<close> on the repositories.\<close>

definition sort_by_repository :: "promotion_host \<Rightarrow> json list \<Rightarrow> json list" where
  "sort_by_repository h vs =
     foldr (insert_by (\<lambda>x y. ph_before h (json_text h (jprop x ''consumerRepository'')) (json_text h (jprop y ''consumerRepository'')))) vs []"

definition aggregateConsumerGateResults ::
  "promotion_host \<Rightarrow> json list \<Rightarrow> string \<Rightarrow> string \<Rightarrow> string \<Rightarrow> json list \<Rightarrow> string + json" where
  "aggregateConsumerGateResults h results candidateId sha classification digests =
     bind_res (requireSha256 (JStr candidateId) ''Candidate ID'') (\<lambda>_.
     bind_res (requireSha256 (JStr sha) ''Candidate manifest digest'') (\<lambda>_.
     then_res (throw_if (results = []) ''At least one consumer gate is required.'')
     (then_res (throw_if (length digests \<noteq> length results) ''Every consumer gate must have a downloaded result digest.'')
     (then_res (for_each valid_digest digests)
     (let resultKeys = string_set (map (run_key h) results); digestKeys = string_set (map (run_key h) digests)
      in then_res (throw_if (length resultKeys \<noteq> length results \<or> length digestKeys \<noteq> length digests
             \<or> length resultKeys \<noteq> length digestKeys \<or> list_ex (\<lambda>k. k \<notin> set digestKeys) resultKeys)
           ''Consumer gate result digests do not match the verified runs.'')
         (Inr (JObj [(''schemaVersion'', JStr ''1''), (''candidateId'', JStr candidateId), (''candidateManifestSha256'', JStr sha),
            (''contractClassification'', JStr classification), (''verdict'', JStr ''passed''),
            (''gates'', JArr (sort_by_repository h results)), (''resultDigests'', JArr (sort_by_repository h digests))])))))))"

section \<open>The run\<close>

definition read_json :: "'w gate_world \<Rightarrow> string \<Rightarrow> ('w, gate_stop, json) io" where
  "read_json G path = bind_io (host_call (gw_readFile G path)) (\<lambda>text. checked (gw_parse G text))"

definition sha256File :: "'w gate_world \<Rightarrow> string \<Rightarrow> ('w, gate_stop, string) io" where
  "sha256File G path = bind_io (host_call (gw_readFile G path)) (\<lambda>bytes. lift_io (Inr (gw_sha256 G bytes)))"

definition verifyCandidateManifest :: "'w gate_world \<Rightarrow> gate_arguments \<Rightarrow> ('w, gate_stop, unit) io" where
  "verifyCandidateManifest G a =
     bind_io (host_call (gw_readFile G (gw_join G [ga_candidate a, ''candidate-manifest.json'']))) (\<lambda>bytes.
     bind_io (ensure (gw_sha256 G bytes = ga_candidateManifestSha256 a)
       ''Downloaded candidate manifest digest does not match the dispatch input.'') (\<lambda>_.
     bind_io (checked (gw_parse G bytes)) (\<lambda>manifest.
     bind_io (checked (member manifest ''candidateId'')) (\<lambda>cid.
     bind_io (ensure (cid = JStr (ga_candidateId a) \<and> jprop manifest ''sourceCommit'' = JStr (ga_sourceCommit a)
         \<and> jprop manifest ''releaseVersion'' = JStr (ga_releaseVersion a))
       ''Downloaded candidate manifest identity does not match the dispatch input.'') (\<lambda>_.
     bind_io (checked (requireSha256 cid ''Candidate ID'')) (\<lambda>_. lift_io (Inr ())))))))"

text \<open>What the run reads before it calls GitHub: the classification and the configuration, parsed and validated.\<close>

definition prepare_gates :: "'w gate_world \<Rightarrow> promotion_host \<Rightarrow> gate_arguments \<Rightarrow> ('w, gate_stop, string \<times> json \<times> GateConfig list) io" where
  "prepare_gates G h a =
     bind_io (verifyCandidateManifest G a) (\<lambda>_.
     bind_io (read_json G (gw_join G [ga_candidate a, ''contract-impact.json''])) (\<lambda>impact.
     bind_io (sha256File G (gw_join G [ga_candidate a, ''contracts'', ''contract-snapshot.json''])) (\<lambda>snapshotSha.
     bind_io (checked (verifyContractImpact impact (ga_candidateId a) snapshotSha)) (\<lambda>classification.
     bind_io (read_json G (ga_configPath a)) (\<lambda>v.
     bind_io (checked (validateConfig h v)) (\<lambda>config. lift_io (Inr (classification, v, config))))))))"

definition dispatch_arguments :: "promotion_host \<Rightarrow> gate_arguments \<Rightarrow> string \<Rightarrow> GateConfig \<Rightarrow> json \<Rightarrow> string list" where
  "dispatch_arguments h a classification gate workflowId =
     [''--method'', ''POST'', ''repos/'' @ gt_repository gate @ ''/actions/workflows/'' @ json_text h workflowId @ ''/dispatches'',
      ''-f'', ''ref='' @ gt_ref gate, ''-f'', ''inputs[producer_repository]='' @ ga_producerRepository a,
      ''-f'', ''inputs[producer_run_id]='' @ json_text h (JNum (ga_producerRunId a)), ''-f'', ''inputs[candidate_id]='' @ ga_candidateId a,
      ''-f'', ''inputs[candidate_manifest_sha256]='' @ ga_candidateManifestSha256 a, ''-f'', ''inputs[source_commit]='' @ ga_sourceCommit a,
      ''-f'', ''inputs[release_version]='' @ ga_releaseVersion a, ''-f'', ''inputs[contract_classification]='' @ classification]"

text \<open>One gate: its verified result and the digest of the downloaded file.\<close>

definition run_gate :: "'w gate_world \<Rightarrow> promotion_host \<Rightarrow> gate_arguments \<Rightarrow> string \<Rightarrow> GateConfig \<Rightarrow> ('w, gate_stop, json \<times> json) io" where
  "run_gate G h a classification gate =
     bind_io (ghJson G h (''repos/'' @ gt_repository gate @ ''/actions/workflows/'' @ encodeURIComponent (gt_workflowPath gate))) (\<lambda>workflow.
     bind_io (checked (member workflow ''id'')) (\<lambda>workflowId.
     bind_io (ensure (safe_id workflowId \<and> jprop workflow ''path'' = JStr (gt_workflowPath gate) \<and> jprop workflow ''state'' = JStr ''active'')
       (''Consumer workflow is missing or inactive: '' @ gt_repository gate @ ''/'' @ gt_workflowPath gate @ ''.'')) (\<lambda>_.
     bind_io (ghJson G h (runs_endpoint h gate workflowId)) (\<lambda>beforeRuns.
     bind_io (checked (runs_of beforeRuns)) (\<lambda>runs w.
     let beforeIds = filter safe_id (map (\<lambda>run. jprop run ''id'') runs);
         dispatchedAt = gw_now G w
     in bind_io (ghRequest G h (dispatch_arguments h a classification gate workflowId)) (\<lambda>_.
        bind_io (findRun G h gate workflowId beforeIds dispatchedAt) (\<lambda>dispatched.
        bind_io (waitForRun G h gate dispatched) (\<lambda>completed.
        bind_io (downloadResult G h gate (jprop completed ''id'')
          (gw_join G [gw_resolve G [ga_output a, ''..''], ''consumer-gate-'' @ gt_name gate])) (\<lambda>resultPath.
        bind_io (read_json G resultPath) (\<lambda>result.
        bind_io (checked (verifyConsumerGateResult h result
          \<lparr>ge_repository = gt_repository gate, ge_workflowPath = gt_workflowPath gate, ge_workflowRunId = jprop completed ''id'',
           ge_candidateId = ga_candidateId a, ge_candidateManifestSha256 = ga_candidateManifestSha256 a\<rparr>)) (\<lambda>_.
        bind_io (sha256File G resultPath) (\<lambda>sha.
        lift_io (Inr (result, JObj [(''consumerRepository'', JStr (gt_repository gate)), (''workflowRunId'', jprop completed ''id''),
          (''sha256'', JStr sha)]))))))))) w)))))"

fun run_gates :: "'w gate_world \<Rightarrow> promotion_host \<Rightarrow> gate_arguments \<Rightarrow> string \<Rightarrow> GateConfig list \<Rightarrow> ('w, gate_stop, (json \<times> json) list) io" where
  "run_gates G h a classification [] = lift_io (Inr [])"
| "run_gates G h a classification (gate # gates) =
     bind_io (run_gate G h a classification gate) (\<lambda>r.
     bind_io (run_gates G h a classification gates) (\<lambda>rs. lift_io (Inr (r # rs))))"

definition dispatch_gates :: "'w gate_world \<Rightarrow> promotion_host \<Rightarrow> gate_arguments \<Rightarrow> string \<Rightarrow> GateConfig list \<Rightarrow> ('w, gate_stop, json) io" where
  "dispatch_gates G h a classification config =
     (let gates = filter (\<lambda>g. gt_requiredWhen g = JStr ''always'' \<or> classification \<noteq> ''no-impact'') config
      in bind_io (ghJson G h (''repos/'' @ ga_producerRepository a @ ''/actions/runs/'' @ json_text h (JNum (ga_producerRunId a)))) (\<lambda>producerRun.
         bind_io (checked (member producerRun ''status'')) (\<lambda>status.
         bind_io (ensure (status = JStr ''completed'' \<and> jprop producerRun ''conclusion'' = JStr ''success''
             \<and> jprop producerRun ''path'' = JStr ''.github/workflows/release-candidate.yml'')
           ''Producer candidate workflow has not completed successfully.'') (\<lambda>_.
         bind_io (run_gates G h a classification gates) (\<lambda>rs.
         checked (aggregateConsumerGateResults h (map fst rs) (ga_candidateId a) (ga_candidateManifestSha256 a) classification (map snd rs)))))))"

text \<open>\<open>main\<close>: the ledger it writes.\<close>

definition run_consumer_gates :: "'w gate_world \<Rightarrow> promotion_host \<Rightarrow> string list \<Rightarrow> ('w, gate_stop, json) io" where
  "run_consumer_gates G h argv =
     bind_io (checked (read_arguments G argv)) (\<lambda>a.
     bind_io (prepare_gates G h a) (\<lambda>(classification, v, config). dispatch_gates G h a classification config))"

end
