(* ===== verification/Gate_Ledger.thy ===== *)
theory Gate_Ledger
  imports Consumer_Gates "HOL-Library.Multiset"
begin

text \<open>
  What a run of the consumer gates achieves: it ends, and the ledger it writes is the one the verification of
  the promotion accepts.
\<close>

lemma checked_Inr_iff [res_simps]: "checked r w = (Inr x, w') \<longleftrightarrow> r = Inr x \<and> w' = w"
  by (auto simp: checked_def split: sum.split)

lemma throw_not_Inr [simp]: "throw e w \<noteq> (Inr x, w')"
  by (simp add: throw_def)

lemma ensure_Inr_iff [res_simps]: "ensure c e w = (Inr u, w') \<longleftrightarrow> c \<and> w' = w"
  by (auto simp: ensure_def res_simps)

lemma host_call_Inr_iff [res_simps]: "host_call m w = (Inr x, w') \<longleftrightarrow> m w = (Inr x, w')"
  by (auto simp: host_call_def checked_def split: prod.split sum.splits)

section \<open>Runs end\<close>

text \<open>The clock: it does not go back while a process runs, and a sleep lasts at least its time.\<close>

definition clock_runs :: "'w gate_world \<Rightarrow> bool" where
  "clock_runs G \<longleftrightarrow> (\<forall>args w. gw_now G w \<le> gw_now G (snd (gw_spawn G args w))) \<and> (\<forall>ms w. gw_now G w + ms \<le> gw_now G (gw_sleep G ms w))"

definition finishes :: "('w, gate_stop, 'a) io \<Rightarrow> bool" where
  "finishes m \<longleftrightarrow> (\<forall>w. fst (m w) \<noteq> Inl Unfinished)"

named_theorems ending

lemma bind_ends [ending]: "finishes m \<Longrightarrow> (\<And>x. finishes (f x)) \<Longrightarrow> finishes (bind_io m f)"
  by (auto simp: finishes_def bind_io_def split: prod.split sum.split) (metis fst_conv)

lemma primitive_ends [ending]: "finishes (checked r)" "finishes (throw e)" "finishes (lift_io (Inr x))" "finishes (ensure c e)" "finishes (host_call m)"
  by (auto simp: finishes_def checked_def throw_def lift_io_def ensure_def host_call_def split: sum.split prod.split)

lemma calls_end [ending]: "finishes (ghJson G h endpoint)" "finishes (ghRequest G h args)"
  by (auto simp: finishes_def ghJson_def ghRequest_def throw_def checked_def split: prod.split option.split sum.split)

lemma spawn_ends [ending]:
  assumes "finishes m"
  shows "finishes (\<lambda>w. case gw_spawn G args w of (r, w') \<Rightarrow>
    (case sp_error r of Some e \<Rightarrow> throw e w' | None \<Rightarrow> if sp_status r \<noteq> JNum (num 0) then throw e' w' else m w'))"
  using assms by (auto simp: finishes_def throw_def split: prod.split option.split)

lemma download_ends [ending]: "finishes (downloadResult G h gate runId directory)"
  unfolding downloadResult_def by (rule bind_ends primitive_ends spawn_ends | simp add: ending split: list.split)+

lemma ghJson_clock: "clock_runs G \<Longrightarrow> ghJson G h endpoint w = (r, w') \<Longrightarrow> gw_now G w \<le> gw_now G w'"
  by (auto simp: clock_runs_def ghJson_def throw_def checked_def split: prod.splits option.splits if_splits) (metis snd_conv)+

lemma find_run_ends:
  assumes "clock_runs G" "deadline \<le> gw_now G w + 5000 * int n"
  shows "fst (find_run (Suc n) G h gate workflowId beforeIds notBefore deadline w) \<noteq> Inl Unfinished"
  using assms(2)
proof (induction n arbitrary: w)
  case 0
  then show ?case by (simp add: throw_def)
next
  case (Suc n)
  show ?case
  proof (cases "ghJson G h (runs_endpoint h gate workflowId) w")
    case (Pair r w1)
    have now: "gw_now G w \<le> gw_now G w1" by (rule ghJson_clock[OF assms(1) Pair])
    have "gw_now G w1 + 5000 \<le> gw_now G (gw_sleep G 5000 w1)" using assms(1) by (simp add: clock_runs_def)
    with now Suc.prems have "deadline \<le> gw_now G (gw_sleep G 5000 w1) + 5000 * int n" by simp
    note later = Suc.IH[OF this]
    have "r \<noteq> Inl Unfinished" using calls_end(1)[of G h] Pair by (metis finishes_def fst_conv)
    then show ?thesis using Pair later
      by (subst find_run.simps) (auto simp: bind_io_def throw_def checked_def lift_io_def split: sum.split list.split simp del: find_run.simps)
  qed
qed

lemma wait_for_run_ends:
  assumes "clock_runs G" "deadline \<le> gw_now G w + 10000 * int n"
  shows "fst (wait_for_run (Suc n) G h gate runId deadline w) \<noteq> Inl Unfinished"
  using assms(2)
proof (induction n arbitrary: w)
  case 0
  then show ?case by (simp add: throw_def)
next
  case (Suc n)
  let ?endpoint = "''repos/'' @ gt_repository gate @ ''/actions/runs/'' @ json_text h runId"
  show ?case
  proof (cases "ghJson G h ?endpoint w")
    case (Pair r w1)
    have now: "gw_now G w \<le> gw_now G w1" by (rule ghJson_clock[OF assms(1) Pair])
    have "gw_now G w1 + 10000 \<le> gw_now G (gw_sleep G 10000 w1)" using assms(1) by (simp add: clock_runs_def)
    with now Suc.prems have "deadline \<le> gw_now G (gw_sleep G 10000 w1) + 10000 * int n" by simp
    note later = Suc.IH[OF this]
    have "r \<noteq> Inl Unfinished" using calls_end(1)[of G h] Pair by (metis finishes_def fst_conv)
    then show ?thesis using Pair later
      by (subst wait_for_run.simps) (auto simp: bind_io_def throw_def checked_def lift_io_def split: sum.split simp del: wait_for_run.simps)
  qed
qed

lemma polls_end [ending]:
  assumes "clock_runs G"
  shows "finishes (findRun G h gate workflowId beforeIds notBefore)" "finishes (waitForRun G h gate run)"
proof -
  have rounds: "FIND_ROUNDS = Suc 12" "WAIT_ROUNDS = Suc 540" by (simp_all add: FIND_ROUNDS_def WAIT_ROUNDS_def)
  show "finishes (findRun G h gate workflowId beforeIds notBefore)"
    unfolding finishes_def findRun_def rounds by (intro allI find_run_ends[OF assms]) simp
  have "fst (wait_for_run (Suc 540) G h gate (jprop run ''id'') (gw_now G w + 90 * 60000) w) \<noteq> Inl Unfinished" for w
    by (intro wait_for_run_ends[OF assms]) simp
  then show "finishes (waitForRun G h gate run)"
    unfolding finishes_def waitForRun_def rounds by (simp add: throw_def del: wait_for_run.simps)
qed

lemma run_gate_ends [ending]: "clock_runs G \<Longrightarrow> finishes (run_gate G h a k gate)"
proof -
  assume clock: "clock_runs G"
  have now: "finishes (\<lambda>w. f (gw_now G w) w)" if "\<And>t. finishes (f t)" for f :: "int \<Rightarrow> ('a, gate_stop, json \<times> json) io"
    using that by (simp add: finishes_def)
  show ?thesis unfolding run_gate_def Let_def read_json_def sha256File_def by (intro ending now clock)
qed

lemma run_gates_end [ending]: "clock_runs G \<Longrightarrow> finishes (run_gates G h a k gates)"
  by (induction gates) (auto intro!: ending)

text \<open>C26. A run of the consumer gates ends, whatever GitHub answers, when the clock runs: the rounds given to the
  two polling loops are enough for their deadlines of one and ninety minutes.\<close>

theorem consumer_gates_end:
  assumes "clock_runs G"
  shows "fst (run_consumer_gates G h argv w) \<noteq> Inl Unfinished"
proof -
  have "finishes (run_consumer_gates G h argv)"
    unfolding run_consumer_gates_def prepare_gates_def dispatch_gates_def verifyCandidateManifest_def read_json_def sha256File_def Let_def
    by (auto intro!: ending assms split: prod.split)
  then show ?thesis by (simp add: finishes_def)
qed

section \<open>The ledger is accepted\<close>

text \<open>A gate as the verification of a promotion reads it.\<close>

definition promotion_gate :: "GateConfig \<Rightarrow> ConsumerGateConfig" where
  "promotion_gate g = \<lparr>gc_repository = gt_repository g, gc_workflowPath = gt_workflowPath g, gc_requiredWhen = gt_requiredWhen g\<rparr>"

lemma promotion_gate_simps [simp]:
  "gc_repository (promotion_gate g) = gt_repository g" "gc_workflowPath (promotion_gate g) = gt_workflowPath g"
  "gc_requiredWhen (promotion_gate g) = gt_requiredWhen g"
  by (simp_all add: promotion_gate_def)

lemma validate_gate_parses: "validate_gate h v names = Inr g \<Longrightarrow> parse_gate h v = Inr (promotion_gate g)"
  by (auto simp: validate_gate_def parse_gate_def promotion_gate_def split: json.splits if_splits)

lemma validate_gates_parse: "validate_gates h vs names = Inr config \<Longrightarrow> map_res (parse_gate h) vs = Inr (map promotion_gate config)"
  by (induction vs arbitrary: names config) (auto simp: res_simps validate_gate_parses)

lemma validateConfig_parses: "validateConfig h v = Inr config \<Longrightarrow> parseConsumerGateConfig h v = Inr (map promotion_gate config)"
  by (auto simp: validateConfig_def parseConsumerGateConfig_def validate_gates_parse split: json.splits if_splits)

text \<open>The result and the digest of a gate that ran.\<close>

definition expectation :: "gate_arguments \<Rightarrow> GateConfig \<Rightarrow> json \<Rightarrow> ConsumerGateExpectation" where
  "expectation a g run = \<lparr>ge_repository = gt_repository g, ge_workflowPath = gt_workflowPath g, ge_workflowRunId = run,
     ge_candidateId = ga_candidateId a, ge_candidateManifestSha256 = ga_candidateManifestSha256 a\<rparr>"

definition gate_ran :: "promotion_host \<Rightarrow> gate_arguments \<Rightarrow> GateConfig \<Rightarrow> json \<times> json \<Rightarrow> bool" where
  "gate_ran h a g r \<longleftrightarrow> (\<exists>run sha. verifyConsumerGateResult h (fst r) (expectation a g run) = Inr ()
     \<and> snd r = JObj [(''consumerRepository'', JStr (gt_repository g)), (''workflowRunId'', run), (''sha256'', JStr sha)])"

lemma run_gate_ran: "run_gate G h a k g w = (Inr r, w') \<Longrightarrow> gate_ran h a g r"
  unfolding run_gate_def Let_def by (auto simp: res_simps gate_ran_def expectation_def)

lemma run_gates_ran: "run_gates G h a k gs w = (Inr rs, w') \<Longrightarrow> list_all2 (gate_ran h a) gs rs"
  by (induction gs arbitrary: rs w) (auto simp: res_simps run_gate_ran)

lemma verified_fields:
  assumes "verifyConsumerGateResult h v (expectation a g run) = Inr ()"
  obtains r n where "v = JObj r" "fld r ''consumerRepository'' = JStr (gt_repository g)" "fld r ''workflowRunId'' = run"
    "run = JNum n" "js_isSafeInteger n" "js_le (num 1) n"
proof (cases v)
  case (JObj r)
  with assms have *: "fld r ''consumerRepository'' = JStr (gt_repository g)" "fld r ''workflowRunId'' = run"
      "\<not> (case fld r ''workflowRunId'' of JNum n \<Rightarrow> \<not> (js_isSafeInteger n \<and> js_le (num 1) n) | _ \<Rightarrow> True)"
    unfolding verifyConsumerGateResult_def expectation_def by (auto simp: res_simps)
  then obtain n where "run = JNum n" "js_isSafeInteger n" "js_le (num 1) n" by (auto split: json.splits)
  with that JObj * show ?thesis by blast
qed (use assms in \<open>simp_all add: verifyConsumerGateResult_def\<close>)

lemma ran_fields:
  assumes "gate_ran h a g r"
  obtains n sha where "jprop (fst r) ''consumerRepository'' = JStr (gt_repository g)" "jprop (fst r) ''workflowRunId'' = JNum n"
    "js_isSafeInteger n" "js_le (num 1) n" "verifyConsumerGateResult h (fst r) (expectation a g (JNum n)) = Inr ()"
    "snd r = JObj [(''consumerRepository'', JStr (gt_repository g)), (''workflowRunId'', JNum n), (''sha256'', JStr sha)]"
proof -
  obtain run sha where run: "verifyConsumerGateResult h (fst r) (expectation a g run) = Inr ()"
      "snd r = JObj [(''consumerRepository'', JStr (gt_repository g)), (''workflowRunId'', run), (''sha256'', JStr sha)]"
    using assms by (auto simp: gate_ran_def)
  from run(1) show thesis by (rule verified_fields) (use that run in \<open>auto simp: jprop_def\<close>)
qed

text \<open>The ledger of an aggregation that succeeds.\<close>

definition ledger_of :: "gate_arguments \<Rightarrow> string \<Rightarrow> json list \<Rightarrow> json list \<Rightarrow> json" where
  "ledger_of a k gates digests = JObj [(''schemaVersion'', JStr ''1''), (''candidateId'', JStr (ga_candidateId a)),
     (''candidateManifestSha256'', JStr (ga_candidateManifestSha256 a)), (''contractClassification'', JStr k), (''verdict'', JStr ''passed''),
     (''gates'', JArr gates), (''resultDigests'', JArr digests)]"

lemma mset_insert_by [simp]: "mset (insert_by before x xs) = add_mset x (mset xs)"
  by (induction xs) auto

lemma mset_sort_by_repository [simp]: "mset (sort_by_repository h vs) = mset vs"
proof -
  have "mset (foldr (insert_by before) vs []) = mset vs" for before by (induction vs) simp_all
  then show ?thesis by (simp add: sort_by_repository_def)
qed

lemma sort_by_repository_simps [simp]: "set (sort_by_repository h vs) = set vs" "length (sort_by_repository h vs) = length vs"
  using mset_sort_by_repository[of h vs] by (metis mset_eq_setD, metis mset_eq_length)

lemma distinct_map_sorted [simp]: "distinct (map f (sort_by_repository h vs)) = distinct (map f vs)"
  using mset_sort_by_repository[of h vs] by (metis mset_map mset_eq_imp_distinct_iff)

lemma string_set_length: "length (string_set xs) = length xs \<longleftrightarrow> distinct xs"
proof -
  have "distinct (string_set xs)" by (induction xs) auto
  then have "length (string_set xs) = card (set xs)" by (metis distinct_card set_string_set)
  then show ?thesis by (metis distinct_card card_distinct)
qed

lemma aggregated:
  assumes "aggregateConsumerGateResults h results (ga_candidateId a) (ga_candidateManifestSha256 a) k digests = Inr ledger"
  shows "ledger = ledger_of a k (sort_by_repository h results) (sort_by_repository h digests)" "length digests = length results"
    "\<forall>d \<in> set digests. valid_digest d = Inr ()" "distinct (map (run_key h) digests)" "results \<noteq> []"
  using assms unfolding aggregateConsumerGateResults_def Let_def ledger_of_def
  by (auto simp: res_simps string_set_length[symmetric])

lemma expected_gate:
  "distinct (map gc_repository gs) \<Longrightarrow> g \<in> set gs \<Longrightarrow> expected_gates gs (gc_repository g) = Some g"
  unfolding expected_gates_def by (subst map_of_eq_Some_iff) (auto simp: rev_map[symmetric] comp_def)

lemma check_gates_accepts:
  assumes "distinct (map gc_repository gates)" "distinct (seen @ repositories)"
    and "list_all2 (\<lambda>v x. \<exists>g \<in> set gates. gc_repository g = x \<and> jprop v ''consumerRepository'' = JStr x
      \<and> verifyConsumerGateResult h v \<lparr>ge_repository = gc_repository g, ge_workflowPath = gc_workflowPath g, ge_workflowRunId = jprop v ''workflowRunId'',
           ge_candidateId = pm_candidateId m, ge_candidateManifestSha256 = pm_candidateManifestSha256 m\<rparr> = Inr ()) vs repositories"
  shows "check_gates h m gates vs seen = Inr (seen @ repositories)"
  using assms(3,2)
proof (induction vs repositories arbitrary: seen rule: list_all2_induct)
  case (Cons v vs x xs)
  then obtain g where g: "g \<in> set gates" "gc_repository g = x" "jprop v ''consumerRepository'' = JStr x"
      "verifyConsumerGateResult h v \<lparr>ge_repository = gc_repository g, ge_workflowPath = gc_workflowPath g, ge_workflowRunId = jprop v ''workflowRunId'',
           ge_candidateId = pm_candidateId m, ge_candidateManifestSha256 = pm_candidateManifestSha256 m\<rparr> = Inr ()" by blast
  have "check_gates h m gates vs (seen @ [x]) = Inr ((seen @ [x]) @ xs)" by (rule Cons.IH) (use Cons.prems in auto)
  then show ?case using g Cons.prems expected_gate[OF assms(1) g(1)] by simp
qed simp

lemma safe_run_key:
  assumes "js_isSafeInteger (Fin q)"
  shows "json_text h (JNum (Fin q)) = show_int \<lfloor>q\<rfloor>"
proof -
  have "q = of_int \<lfloor>q\<rfloor>" "\<bar>q\<bar> < 10 ^ 21"
    using assms by (auto simp: js_isSafeInteger_def js_isInteger_def max_safe_integer_def)
  then show ?thesis by simp
qed

lemma check_digests_accepts:
  assumes "list_all (\<lambda>d. valid_digest d = Inr () \<and> (\<exists>x n sha g. d = JObj [(''consumerRepository'', JStr x), (''workflowRunId'', JNum n), (''sha256'', JStr sha)]
      \<and> JObj g \<in> set gates \<and> fld g ''consumerRepository'' = JStr x \<and> fld g ''workflowRunId'' = JNum n)) ds"
    and "distinct (seen @ map (run_key h) ds)"
  shows "check_digests gates ds seen = Inr ()"
  using assms
proof (induction ds arbitrary: seen)
  case (Cons d ds)
  then obtain x n sha g where d: "d = JObj [(''consumerRepository'', JStr x), (''workflowRunId'', JNum n), (''sha256'', JStr sha)]"
      "JObj g \<in> set gates" "fld g ''consumerRepository'' = JStr x" "fld g ''workflowRunId'' = JNum n" "valid_digest d = Inr ()" by auto
  then have valid: "js_isSafeInteger n" "\<not> js_lt n (num 1)" "is_sha256_hex sha"
    by (auto simp: valid_digest_def jprop_def res_simps requireSha256_def split: if_splits)
  then obtain q where q: "n = Fin q" by (cases n) (auto simp: js_isSafeInteger_def js_isInteger_def)
  have key: "run_key h d = digest_key x \<lfloor>q\<rfloor>" using valid(1) safe_run_key unfolding run_key_def d(1) q digest_key_def by (simp add: jprop_def del: js_String.simps) simp
  have "js_le (num 1) n" using valid(2) by (auto simp: q num_def)
  moreover have "check_digests gates ds (seen @ [digest_key x \<lfloor>q\<rfloor>]) = Inr ()" by (rule Cons.IH) (use Cons.prems key in auto)
  moreover have "digest_key x \<lfloor>q\<rfloor> \<notin> set seen" using Cons.prems(2) key by auto
  moreover have "list_ex (\<lambda>g. case g of JObj y \<Rightarrow> fld y ''consumerRepository'' = JStr x \<and> fld y ''workflowRunId'' = JNum (Fin q) | _ \<Rightarrow> False) gates"
    using d(2-4) q by (auto simp: list_ex_iff intro!: bexI[of _ "JObj g"])
  ultimately show ?case using valid by (simp add: d(1) q example_key_orders requireSha256_def)
qed simp

definition always_or_changed :: "string \<Rightarrow> GateConfig \<Rightarrow> bool" where
  "always_or_changed k g = (gt_requiredWhen g = JStr ''always'' \<or> k \<noteq> ''no-impact'')"

lemma dispatched:
  assumes "dispatch_gates G h a k config w = (Inr ledger, w')"
  obtains rs where "list_all2 (gate_ran h a) (filter (always_or_changed k) config) rs"
    "aggregateConsumerGateResults h (map fst rs) (ga_candidateId a) (ga_candidateManifestSha256 a) k (map snd rs) = Inr ledger"
proof -
  have "filter (\<lambda>g. gt_requiredWhen g = JStr ''always'' \<or> k \<noteq> ''no-impact'') config = filter (always_or_changed k) config"
    by (simp add: always_or_changed_def[abs_def])
  then show thesis using assms that unfolding dispatch_gates_def Let_def by (auto simp: res_simps dest: run_gates_ran)
qed

lemma verified_classification: "verifyContractImpact v cid sha = Inr k \<Longrightarrow> k \<in> set CLASSIFICATIONS"
  by (auto simp: verifyContractImpact_def split: json.splits if_splits)

lemma prepared:
  assumes "prepare_gates G h a w = (Inr (k, v, config), w')"
  shows "validateConfig h v = Inr config" "k \<in> set CLASSIFICATIONS"
  using assms unfolding prepare_gates_def bind_io_Inr_iff checked_Inr_iff lift_io_iff by (blast dest: verified_classification)+

text \<open>The metadata of a promotion of this candidate.\<close>

definition promotes :: "gate_arguments \<Rightarrow> string \<Rightarrow> PromotionMetadata \<Rightarrow> bool" where
  "promotes a k m \<longleftrightarrow> pm_candidateId m = ga_candidateId a \<and> pm_candidateManifestSha256 m = ga_candidateManifestSha256 a \<and> pm_contractClassification m = k"

lemma ledger_verification:
  assumes "promotes a k m" "k \<in> set CLASSIFICATIONS"
  shows "verifyConsumerLedger h (ledger_of a k gates digests) m config =
    (let expected = remdups (map gc_repository (filter (gate_required k) config))
     in if length gates \<noteq> length expected then Inl ''Consumer gate ledger does not contain exactly the required gates.''
        else bind_res (check_gates h m (filter (gate_required k) config) gates []) (\<lambda>seen.
             then_res (throw_if (length seen \<noteq> length expected) ''Consumer gate ledger is incomplete.'')
             (then_res (throw_if (length digests \<noteq> length gates) ''Consumer gate result digests are incomplete.'')
             (then_res (check_digests gates digests []) (Inr k)))))"
  using assms by (simp add: verifyConsumerLedger_def ledger_of_def example_key_orders promotes_def requireClassification_def Let_def)

lemma required_gates: "filter (gate_required k) (map promotion_gate config) = map promotion_gate (filter (always_or_changed k) config)"
  by (simp add: filter_map comp_def gate_required_def always_or_changed_def[abs_def])

lemma ran_ledger_accepted:
  assumes ran: "list_all2 (gate_ran h a) gs rs" and distinct: "distinct (map gt_repository gs)" and m: "promotes a k m"
    and digests: "\<forall>d \<in> set (map snd rs). valid_digest d = Inr ()" "distinct (map (run_key h) (map snd rs))"
  shows "\<exists>out. check_gates h m (map promotion_gate gs) (sort_by_repository h (map fst rs)) [] = Inr out \<and> length out = length gs"
    "check_digests (sort_by_repository h (map fst rs)) (sort_by_repository h (map snd rs)) [] = Inr ()"
proof -
  let ?gates = "sort_by_repository h (map fst rs)"
  let ?name = "\<lambda>v. case jprop v ''consumerRepository'' of JStr x \<Rightarrow> x | _ \<Rightarrow> []"
  have each: "\<exists>g \<in> set gs. gate_ran h a g r" if "r \<in> set rs" for r
    using ran that by (metis list_all2_conv_all_nth in_set_conv_nth)
  have "map ?name (map fst rs) = map gt_repository gs"
    using ran by (induction rule: list_all2_induct) (auto elim: ran_fields)
  then have names: "distinct (map ?name ?gates)" using distinct by simp
  have "list_all2 (\<lambda>v x. \<exists>g \<in> set (map promotion_gate gs). gc_repository g = x \<and> jprop v ''consumerRepository'' = JStr x
      \<and> verifyConsumerGateResult h v \<lparr>ge_repository = gc_repository g, ge_workflowPath = gc_workflowPath g, ge_workflowRunId = jprop v ''workflowRunId'',
           ge_candidateId = pm_candidateId m, ge_candidateManifestSha256 = pm_candidateManifestSha256 m\<rparr> = Inr ()) ?gates (map ?name ?gates)"
  proof (unfold list_all2_map2, rule list.rel_refl_strong)
    fix v assume "v \<in> set ?gates"
    then obtain r where "r \<in> set rs" "v = fst r" by auto
    with each obtain g where r: "r \<in> set rs" "v = fst r" "g \<in> set gs" "gate_ran h a g r" by blast
    from r(4) show "\<exists>g \<in> set (map promotion_gate gs). gc_repository g = ?name v \<and> jprop v ''consumerRepository'' = JStr (?name v)
      \<and> verifyConsumerGateResult h v \<lparr>ge_repository = gc_repository g, ge_workflowPath = gc_workflowPath g, ge_workflowRunId = jprop v ''workflowRunId'',
           ge_candidateId = pm_candidateId m, ge_candidateManifestSha256 = pm_candidateManifestSha256 m\<rparr> = Inr ()"
      by (rule ran_fields) (use r m in \<open>auto simp: expectation_def promotes_def\<close>)
  qed
  from check_gates_accepts[OF _ _ this, of "[]"] have "check_gates h m (map promotion_gate gs) ?gates [] = Inr (map ?name ?gates)"
    using distinct names by (simp add: comp_def)
  then show "\<exists>out. check_gates h m (map promotion_gate gs) ?gates [] = Inr out \<and> length out = length gs"
    using list_all2_lengthD[OF ran] by simp
  have "\<exists>x n sha y. d = JObj [(''consumerRepository'', JStr x), (''workflowRunId'', JNum n), (''sha256'', JStr sha)]
      \<and> JObj y \<in> set ?gates \<and> fld y ''consumerRepository'' = JStr x \<and> fld y ''workflowRunId'' = JNum n" if d: "d \<in> set (map snd rs)" for d
  proof -
    obtain r where "r \<in> set rs" "d = snd r" using d by auto
    with each obtain g where r: "r \<in> set rs" "d = snd r" "gate_ran h a g r" by blast
    from r(3) show ?thesis
      by (rule ran_fields) (cases "fst r"; use r(1,2) in \<open>force simp: jprop_def\<close>)
  qed
  then show "check_digests ?gates (sort_by_repository h (map snd rs)) [] = Inr ()"
    using digests by (intro check_digests_accepts[where h = h]) (auto simp: list_all_iff)
qed

text \<open>C25. The ledger a run of the consumer gates writes is accepted when the promotion of the same candidate is verified
  with the same configuration, as long as no repository has two gates.\<close>

theorem gate_ledger_promotable:
  assumes "prepare_gates G h a w = (Inr (k, v, config), w1)" "dispatch_gates G h a k config w1 = (Inr ledger, w2)"
    and "distinct (map gt_repository config)" "promotes a k m"
  shows "\<exists>gates. parseConsumerGateConfig h v = Inr gates \<and> verifyConsumerLedger h ledger m gates = Inr k"
proof -
  let ?gs = "filter (always_or_changed k) config"
  obtain rs where ran: "list_all2 (gate_ran h a) ?gs rs"
      and aggregate: "aggregateConsumerGateResults h (map fst rs) (ga_candidateId a) (ga_candidateManifestSha256 a) k (map snd rs) = Inr ledger"
    using assms(2) by (rule dispatched)
  note ledger = aggregated[OF aggregate] and config = prepared[OF assms(1)]
  have distinct: "distinct (map gt_repository ?gs)" using assms(3) by (rule distinct_map_filter)
  note accepted = ran_ledger_accepted[OF ran distinct assms(4) ledger(3,4)]
  have "length (remdups (map gc_repository (map promotion_gate ?gs))) = length rs"
    using distinct list_all2_lengthD[OF ran] by (simp add: comp_def distinct_remdups_id)
  then have "verifyConsumerLedger h ledger m (map promotion_gate config) = Inr k"
    using accepted list_all2_lengthD[OF ran] unfolding ledger(1) ledger_verification[OF assms(4) config(2)] required_gates by (auto simp: Let_def)
  then show ?thesis using validateConfig_parses[OF config(1)] by blast
qed

section \<open>An example\<close>

text \<open>One gate; the calls of \<open>gh\<close> are answered in the order of the run, a file holds its own path, and the state is
  both the number of calls and the time.\<close>

definition example_texts_of_calls :: "string list" where
  "example_texts_of_calls = [''producer'', ''workflow'', ''before'', [], ''after'', ''completed'', []]"

definition example_config_gate :: json where
  "example_config_gate = JObj [(''name'', JStr ''a''), (''repository'', JStr ''a/b''), (''workflowPath'', JStr ''.github/workflows/g.yml''),
     (''ref'', JStr ''main''), (''requiredWhen'', JStr ''always'')]"

definition example_run_result :: json where
  "example_run_result = JObj [(''schemaVersion'', JStr ''1''), (''consumerRepository'', JStr ''a/b''), (''consumerCommit'', JStr (replicate 40 CHR ''0'')),
     (''workflowPath'', JStr ''.github/workflows/g.yml''), (''workflowRunId'', JNum (num 7)), (''candidateId'', JStr example_digest),
     (''candidateManifestSha256'', JStr example_digest), (''verdict'', JStr ''passed''), (''checks'', JArr []), (''startedAt'', JStr []),
     (''completedAt'', JStr [])]"

definition example_parse :: "string \<Rightarrow> string + json" where
  "example_parse t =
     (if t = ''producer'' then Inr (JObj [(''status'', JStr ''completed''), (''conclusion'', JStr ''success''),
        (''path'', JStr ''.github/workflows/release-candidate.yml'')])
      else if t = ''workflow'' then Inr (JObj [(''id'', JNum (num 3)), (''path'', JStr ''.github/workflows/g.yml''), (''state'', JStr ''active'')])
      else if t = ''before'' then Inr (JObj [])
      else if t = ''after'' then Inr (JObj [(''workflow_runs'', JArr [JObj [(''id'', JNum (num 7)), (''workflow_id'', JNum (num 3)),
        (''path'', JStr ''.github/workflows/g.yml''), (''head_branch'', JStr ''main''), (''created_at'', JStr [])]])])
      else if t = ''completed'' then Inr (JObj [(''id'', JNum (num 7)), (''status'', JStr ''completed''), (''conclusion'', JStr ''success'')])
      else if t = ''candidate-manifest.json'' then Inr (JObj [(''candidateId'', JStr example_digest), (''sourceCommit'', JStr ''c''), (''releaseVersion'', JStr ''v'')])
      else if t = ''contract-impact.json'' then Inr (JObj [(''schemaVersion'', JStr ''1''), (''candidateId'', JStr example_digest),
        (''candidateSnapshotSha256'', JStr example_digest), (''classification'', JStr ''no-impact''), (''baselineRelease'', JStr ''v''), (''changes'', JArr [])])
      else if t = ''config'' then Inr (JArr [example_config_gate])
      else if t = ''consumer-gate-result-v1.json'' then Inr example_run_result
      else Inl ''SyntaxError'')"

definition example_world :: "int gate_world" where
  "example_world = \<lparr>gw_spawn = (\<lambda>args w. (\<lparr>sp_error = None, sp_status = JNum (num 0),
       sp_stdout = (if nat w < length example_texts_of_calls then example_texts_of_calls ! nat w else []), sp_stderr = []\<rparr>, w + 1)),
     gw_now = (\<lambda>w. w), gw_sleep = (\<lambda>ms w. w + ms), gw_mkdir = (\<lambda>_. lift_io (Inr ())),
     gw_readdir = (\<lambda>_. lift_io (Inr [''consumer-gate-result-v1.json''])), gw_readFile = (\<lambda>path. lift_io (Inr path)),
     gw_join = last, gw_resolve = hd, gw_parse = example_parse, gw_sha256 = (\<lambda>_. example_digest)\<rparr>"

definition example_arguments :: gate_arguments where
  "example_arguments = \<lparr>ga_configPath = ''config'', ga_candidate = ''candidate'', ga_candidateId = example_digest, ga_candidateManifestSha256 = example_digest,
     ga_sourceCommit = ''c'', ga_releaseVersion = ''v'', ga_producerRepository = ''p'', ga_producerRunId = num 1, ga_output = ''out''\<rparr>"

definition example_gate_config :: GateConfig where
  "example_gate_config = \<lparr>gt_name = ''a'', gt_repository = ''a/b'', gt_workflowPath = ''.github/workflows/g.yml'', gt_ref = ''main'', gt_requiredWhen = JStr ''always''\<rparr>"

lemma example_prepared:
  "prepare_gates example_world example_clock example_arguments 0 = (Inr (''no-impact'', JArr [example_config_gate], [example_gate_config]), 0)"
  by code_simp

lemma example_dispatched:
  "\<exists>ledger w. dispatch_gates example_world example_clock example_arguments ''no-impact'' [example_gate_config] 0 = (Inr ledger, w)"
proof -
  have "(case dispatch_gates example_world example_clock example_arguments ''no-impact'' [example_gate_config] 0 of (Inr ledger, w) \<Rightarrow> True | _ \<Rightarrow> False)"
    by code_simp
  then show ?thesis by (auto split: prod.splits sum.splits)
qed

theorem gate_ledger_promotable_witness:
  "\<exists>ledger w gates. dispatch_gates example_world example_clock example_arguments ''no-impact'' [example_gate_config] 0 = (Inr ledger, w)
     \<and> parseConsumerGateConfig example_clock (JArr [example_config_gate]) = Inr gates
     \<and> verifyConsumerLedger example_clock ledger example_metadata gates = Inr ''no-impact''"
proof -
  obtain ledger w where ledger: "dispatch_gates example_world example_clock example_arguments ''no-impact'' [example_gate_config] 0 = (Inr ledger, w)"
    using example_dispatched by blast
  have "promotes example_arguments ''no-impact'' example_metadata" by (simp add: promotes_def example_arguments_def example_metadata_def)
  from gate_ledger_promotable[OF example_prepared ledger _ this] ledger show ?thesis by auto
qed

lemma example_clock_runs: "clock_runs example_world"
  by (simp add: clock_runs_def example_world_def)

theorem consumer_gates_end_witness:
  "fst (run_consumer_gates example_world example_clock
     [''--config'', ''config'', ''--candidate'', ''candidate'', ''--candidate-id'', example_digest, ''--candidate-manifest-sha256'', example_digest,
      ''--source-commit'', ''c'', ''--release-version'', ''v'', ''--producer-repository'', ''p'', ''--producer-run-id'', ''1'', ''--output'', ''out''] 0)
     \<noteq> Inl Unfinished"
  by (rule consumer_gates_end[OF example_clock_runs])

section \<open>Gaps\<close>

text \<open>Gates are named, and one repository may have two of them. The ledger of such a run is never accepted.\<close>

lemma repeated_repository_rejected:
  assumes "prepare_gates G h a w = (Inr (k, v, config), w1)" "dispatch_gates G h a k config w1 = (Inr ledger, w2)"
    and "\<not> distinct (map gt_repository (filter (always_or_changed k) config))" "promotes a k m"
  shows "verifyConsumerLedger h ledger m (map promotion_gate config) = Inl ''Consumer gate ledger does not contain exactly the required gates.''"
proof -
  let ?gs = "filter (always_or_changed k) config"
  obtain rs where ran: "list_all2 (gate_ran h a) ?gs rs"
      and aggregate: "aggregateConsumerGateResults h (map fst rs) (ga_candidateId a) (ga_candidateManifestSha256 a) k (map snd rs) = Inr ledger"
    using assms(2) by (rule dispatched)
  have "length (remdups (map gt_repository ?gs)) < length ?gs"
    using assms(3) length_remdups_eq[of "map gt_repository ?gs"] length_remdups_leq[of "map gt_repository ?gs"] by (auto simp: order.strict_iff_order)
  then show ?thesis using list_all2_lengthD[OF ran]
    unfolding aggregated(1)[OF aggregate] ledger_verification[OF assms(4) prepared(2)[OF assms(1)]] required_gates by (simp add: Let_def comp_def)
qed

text \<open>Without a required gate there is no ledger, although the verification would accept one without gates.\<close>

lemma no_required_gate_no_ledger:
  assumes "filter (always_or_changed k) config = []"
  shows "dispatch_gates G h a k config w \<noteq> (Inr ledger, w')"
    "promotes a k m \<Longrightarrow> k \<in> set CLASSIFICATIONS \<Longrightarrow> verifyConsumerLedger h (ledger_of a k [] []) m (map promotion_gate config) = Inr k"
proof -
  show "dispatch_gates G h a k config w \<noteq> (Inr ledger, w')"
  proof
    assume "dispatch_gates G h a k config w = (Inr ledger, w')"
    then obtain rs where "list_all2 (gate_ran h a) [] rs"
        and aggregate: "aggregateConsumerGateResults h (map fst rs) (ga_candidateId a) (ga_candidateManifestSha256 a) k (map snd rs) = Inr ledger"
      using assms by (metis dispatched)
    with aggregated(5)[OF aggregate] show False by simp
  qed
  show "verifyConsumerLedger h (ledger_of a k [] []) m (map promotion_gate config) = Inr k" if "promotes a k m" "k \<in> set CLASSIFICATIONS"
    unfolding ledger_verification[OF that] required_gates assms by simp
qed

text \<open>A token at the end of the text of an error, or of a line of it, is not redacted.\<close>

lemma last_token_kept:
  "redact_tokens ''bad ghp_secret here'' = ''bad [REDACTED] here''" "redact_tokens ''bad ghp_secret'' = ''bad ghp_secret''"
  by code_simp+

end
