(* ===== verification/Spec2Isabelle.thy ===== *)
theory Spec2Isabelle
  imports Runtime_Guarantees Workbench_System Desktop_Guarantees Acceptance_Guarantees Acceptance_Capabilities
    Scope_Owner Gate_Ledger
begin

text \<open>
  A verification of the TypeScript side of Capture Workbench: the client of the Capture Runtime
  (\<^verbatim>\<open>packages/capture-runtime-client/src\<close>), the workbench library that drives captures with
  it (\<^verbatim>\<open>packages/capture-workbench-ui/src/lib\<close>), and parts of the desktop application
  (\<^verbatim>\<open>apps/capture-workbench/src/app\<close>) with the native library below it
  (\<^verbatim>\<open>apps/capture-workbench-desktop/src-tauri/src/library\<close>), the codecs of the acceptance contract
  (\<^verbatim>\<open>packages/capture-acceptance-contract/src/codecs.ts\<close>), the scope file of an acceptance run
  (\<^verbatim>\<open>apps/capture-workbench-desktop/scripts/acceptance-scope.ts\<close>), and the evidence a release is promoted
  with (\<^verbatim>\<open>tools/contract-impact.ts\<close>, \<^verbatim>\<open>tools/run-consumer-gates.ts\<close>, \<^verbatim>\<open>tools/verify-promotion-evidence.ts\<close>
  and what they call).

  \<^bold>\<open>The program.\<close> The Capture Runtime is a local HTTP service that extracts text from
  documents, images and recordings. A host talks to it through the runtime client, which
  negotiates the runtime's contract once, validates every answer, retries what may be retried,
  uploads files in chunks and follows a capture through server-sent events. The workbench keeps a
  list of tasks, one per file: a queue starts as many pipelines as the configuration allows, and
  a pipeline uploads its file, follows the capture, lets the host structure the text (after a
  review, if configured), commits the result and settles the task. When the outcome at the
  runtime is unknown, the task waits for reconciliation. The desktop application keeps its documents
  in a native library: it captures a document with the runtime, writes the outcome into the library
  and only then deletes the capture in the runtime, so that an interrupted capture can be recovered.
  When a release is accepted, the parties of the run exchange records (scopes, invocations, semantic
  results and wire records) as canonical JSON with digests over themselves, and media is handed out
  through capabilities that can be used once. The run keeps a scope file with the processes and
  listeners it owns, which several processes update under a lock file. Before a release is promoted, its
  contract is compared with the stable one and the change is classified; the workflows of the consumers are
  started, always or when the contract changed, and their results go into a ledger; the promotion is allowed
  when the evidence of all this is complete and about the same candidate.

  \<^bold>\<open>The theories.\<close>
  \<^item> \<open>Capture_Prelude\<close>: JavaScript values (\<open>json\<close>, \<open>jnum\<close> with NaN and the infinities), their
    conversions and comparisons, results as sums (\<open>bind_res\<close>, \<open>then_res\<close>, \<open>for_each\<close>), the
    collection \<open>res_simps\<close> that takes successful computations apart, and string functions.
  \<^item> \<open>Runtime_Errors\<close> (\<^verbatim>\<open>errors.ts\<close>), \<open>Runtime_Codec\<close> and \<open>Runtime_Sse\<close> (\<^verbatim>\<open>codec.ts\<close>),
    \<open>Runtime_Transport\<close> (\<^verbatim>\<open>transport.ts\<close>, \<^verbatim>\<open>private/transport-retry.ts\<close>), \<open>Runtime_Streaming\<close>
    (\<^verbatim>\<open>private/streaming.ts\<close>), \<open>Runtime_Discovery\<close> (\<^verbatim>\<open>private/discovery.ts\<close>) and
    \<open>Runtime_Client\<close> (\<^verbatim>\<open>client.ts\<close>): the runtime client. \<open>Runtime_Guarantees\<close> holds what these
    parts promise.
  \<^item> \<open>Workbench_Documents\<close> (\<^verbatim>\<open>capture-helpers.ts\<close>), \<open>Workbench_Tasks\<close> (the task list of
    \<^verbatim>\<open>capture-workflow.service.ts\<close> with its helpers), \<open>Workbench_Store\<close>
    (\<^verbatim>\<open>capture-workbench-store.ts\<close>), \<open>Workbench_Queue\<close> (the workflow as a step relation),
    \<open>Workbench_Streams\<close> (observables and the loop that follows a capture),
    \<open>Workbench_Reconciliation\<close> (\<^verbatim>\<open>capture-reconciliation.service.ts\<close>), \<open>Workbench_Capture\<close> (the
    pipeline of \<^verbatim>\<open>capture-workflow.service.ts\<close>) and \<open>Workbench_Outcome\<close> (what the pipeline and
    the reconciliation achieve), \<open>Workbench_Installation\<close>
    (\<^verbatim>\<open>installation/capture-runtime-installation.service.ts\<close>), \<open>Workbench_Adapter\<close>
    (\<^verbatim>\<open>http-capture-client.ts\<close>, \<^verbatim>\<open>capture-http-error.ts\<close>) and \<open>Workbench_System\<close> (the pipeline
    over the adapter over the runtime client): the workbench.
  \<^item> \<open>Desktop_Evidence\<close> (\<^verbatim>\<open>contracts/ocr-evidence.ts\<close> of the desktop application), \<open>Desktop_Library\<close>
    (\<^verbatim>\<open>library/store.rs\<close>, \<^verbatim>\<open>desktop-library.service.ts\<close>), \<open>Desktop_Selectors\<close>
    (\<^verbatim>\<open>desktop-workspace.selectors.ts\<close> and the text export of \<^verbatim>\<open>library/store.rs\<close>),
    \<open>Desktop_Lifecycle\<close> (\<^verbatim>\<open>desktop-workspace-capture.service.ts\<close>), \<open>Desktop_Recovery\<close> (how a
    lifecycle ends) and \<open>Desktop_Guarantees\<close> (what it promises): the desktop application.
  \<^item> \<open>Canonical_Json\<close>: canonical JSON texts, which the evidence record and the acceptance contract share.
  \<^item> \<open>Acceptance_Records\<close> (the parts of the records and their decoders), \<open>Acceptance_Fixtures\<close> (what these
    accept), \<open>Acceptance_Codec\<close> (the four records), \<open>Acceptance_Decoders\<close> (what their decoders accept),
    \<open>Acceptance_Capabilities\<close> (the registry) and \<open>Acceptance_Guarantees\<close>: the acceptance contract.
  \<^item> \<open>Scope_Lock\<close> (\<open>withScopeLock\<close> with all it calls), \<open>Scope_Exclusion\<close> (what the lock guarantees),
    \<open>Scope_Processes\<close> (snapshots and descendants) and \<open>Scope_Owner\<close> (\<open>CaptureAcceptanceScopeOwner\<close>): the
    scope file.
  \<^item> \<open>Contract_Impact\<close> (\<^verbatim>\<open>contract-impact.ts\<close>), \<open>Contract_Compatibility\<close> (what a classification means),
    \<open>Promotion_Evidence\<close> (\<^verbatim>\<open>release/evidence-values.ts\<close>, \<^verbatim>\<open>classify-release-contract.ts\<close>,
    \<^verbatim>\<open>verify-promotion-evidence.ts\<close>), \<open>Promotion_Guarantees\<close> (what verified evidence shows), \<open>Consumer_Gates\<close>
    (\<^verbatim>\<open>run-consumer-gates.ts\<close>, \<^verbatim>\<open>consumer-gate.ts\<close>) and \<open>Gate_Ledger\<close> (what a run of the gates achieves): the
    evidence of a release.

  \<^bold>\<open>How code becomes definitions.\<close> A thrown error is the left injection of a sum; a promise or a
  call of a collaborator is a function on a state \<open>'w\<close> or \<open>'s\<close> that stands for everything
  outside, so that whatever happens while the call is pending may change that state. For the lock of
  the scope file that is not enough: a task is at one of the calls it awaits, a run is a list of events
  (a call served or failed, time passing, a process dying), and the code from one call to the next is a
  function of the answer. An
  observable of the workbench emits at most one value and is a function from the state to an
  outcome (a value, completion without one, an error) and a state. Generators are modelled by
  the trace of what they do when they are run to their end. What the sources import from
  elsewhere is an argument: \<open>fetch\<close>, the URL parser, SHA-256, \<open>JSON.parse\<close>, \<open>Date.parse\<close>,
  \<open>crypto.randomUUID\<close>, the structuring provider, the preprocessor and the user's review.

  \<^bold>\<open>What is shown.\<close>
  \<^item> Wire: redaction hides credentials; accepted responses have their model's fields; accepted
    progress counters and OCR projections meet their contracts; the SSE decoder is independent of
    chunking and inverts the wire format.
  \<^item> Transport: retries are bounded and only repeat what is transient; an upload sends exactly the
    file and cleans up after a failure; the event stream resumes where it stopped, never goes back
    and ends; a successful negotiation pins down the identity of the runtime; the client shares
    one negotiation and fails closed.
  \<^item> Workbench: the validation of structured documents equals its declarative contract; under every
    interleaving the queue respects its limit, leaves no work lying and keeps its invariant; the
    pipeline refines the steps of that relation, commits validated documents only and always
    brings its task to rest; commits and failure reports are pursued until the runtime's state is
    known; reconciliation follows the runtime, excludes itself and never throws; installing is
    bounded, follows its order and returns when the runtime makes progress.
  \<^item> Together: with the repository's own client below it and any transport, the pipeline settles its
    task; a refused negotiation fails every call; which failures are sent again.
  \<^item> Desktop: the evidence record is content-free, stands for the expected identity only, and its
    canonical text determines the provenance; a capture that returns settles its document and releases
    it, deletes nothing in the runtime before the library holds the outcome, and returns when the
    runtime makes progress; stored evidence never changes, which makes capturing a document again
    impossible to commit; the exported text is the shown text.
  \<^item> Acceptance: a decoder accepts exactly the canonical texts of the valid records; the canonical text of a
    value determines it up to the order of entries, so that the digest of a record binds all of it; an
    accepted wire record has the results of its assignments with the outcomes their error rates allow; a
    capability is consumed at most once.
  \<^item> Scope file: operations exclude each other and terminal evidence is final, in every run in which no living
    task holds the lock for the thirty seconds after which it counts as stale (without that bound a lock can
    be stolen); the evidence of an owner is about the launched application only; descendants are found
    exactly, whatever cycles reported parents form.
  \<^item> Release: a contract classified as unchanged is the same to its consumers, and a change that breaks them is
    classified as breaking; verified evidence shows every required run, job, report and gate for the same
    candidate, and a gate is left out only when the contract is the same; a run of the gates ends, and the
    ledger it writes is the one the verification accepts.

  \<^bold>\<open>Interfaces.\<close> \<open>runtime_transport\<close> is what the retry policy expects of a transport, with the HTTP
  and the in-memory transport as instances. \<open>reconciliation_host\<close> is what the reconciliation
  expects of its host, with the workflow as instance. \<open>state_effect\<close> and \<open>workflow_effect\<close> are
  relations between states that a run composes (\<open>installer_effect\<close> is the same for the
  installer); their instances are the steps of the workflow,
  the log of commits, the liveness of a task and counters. \<open>codec\<close> is what a decoder of the acceptance
  contract promises, with every decoder as instance; what holds of texts is proved once for all.

  \<^bold>\<open>Termination and bounds.\<close> The only loops with fuel are the two that poll GitHub: 13
  rounds of five seconds and 541 rounds of ten seconds are more than their deadlines of one and ninety minutes
  allow, as shown for every clock that runs. Polling an installation or a capture may go on forever: it is an
  optional result, \<open>None\<close> for a run that does not end. The other loops end by a measure: attempts left
  (\<open>retry_loop\<close>), reconnects left (\<open>event_loop\<close>, \<open>follow_stream\<close>), bytes left (\<open>upload_chunks\<close>),
  queued tasks left (\<open>drainQueue\<close>), text left (\<open>drain\<close>, the redactions), depth left
  (\<open>redactValue\<close>), installations left (\<open>installNext\<close>). JavaScript numbers are rationals with NaN
  and infinities; the rounding of floating-point arithmetic is an argument where it matters
  (\<open>round4\<close>) and left out elsewhere. Strings are lists of 8-bit characters.

  \<^bold>\<open>Not modelled.\<close> Angular components, templates, resources and message catalogues; downloads,
  object URLs and \<open>JSON.stringify\<close>; timers (a delay is a number in the trace of the retries); the
  workspace store of the desktop application; the other release and
  architecture tools, which rewrite manifests and lock files, and the command lines of those modelled; the
  end-to-end scripts, which drive processes and browsers, and the probe that observes processes; the Python runtime and the Rust launcher,
  which the client sees only as answers of its transport. An update of the desktop library that fails
  is taken to have changed nothing on disk.
\<close>

end
